(* ===== verification/Sb_Prelude.thy ===== *)
theory Sb_Prelude
  imports Main "HOL-Library.Word" "HOL-Library.AList" "HOL-Library.Sublist"
begin

text \<open>
  What the other theories share: the types that stand for the machine integers, clocks and byte
  strings of the Rust sources, the operations of Rust's standard library that the sources call on
  them (\<open>str::trim\<close>, \<open>split_once\<close>, \<open>strip_prefix\<close>, \<open>to_ascii_lowercase\<close>, formatting of numbers,
  saturating addition), and \<open>HashMap\<close> as an association list with distinct keys, behind the
  interface \<open>keyed_store\<close>.

  A Rust \<open>str\<close> is its UTF-8 byte sequence; a HOL \<open>char\<close> is one byte. A \<open>[u8]\<close> that the code
  computes on is an \<open>8 word list\<close>.
\<close>

unbundle bit_operations_syntax

type_synonym u8 = "8 word"
type_synonym u16 = "16 word"
type_synonym u32 = "32 word"
type_synonym u64 = "64 word"

text \<open>Monotonic clock readings and durations, in nanoseconds. An \<open>Instant\<close> is counted from the
  earliest instant the platform represents, so \<open>elapsed\<close>, which saturates at zero, is subtraction
  on \<open>nat\<close>.\<close>

type_synonym instant = nat
type_synonym duration = nat

definition secs :: "nat \<Rightarrow> duration" where
  "secs n = n * 1000000000"

definition as_secs :: "duration \<Rightarrow> nat" where
  "as_secs d = d div 1000000000"

definition elapsed :: "instant \<Rightarrow> instant \<Rightarrow> duration" where
  "elapsed now t = now - t"

text \<open>Collections the component proofs pass to the simplifier.\<close>

named_theorems sb_defs "definitions of small operations, unfolded in every component proof"
named_theorems sb_bytes "facts on single bytes"

declare secs_def [sb_defs] as_secs_def [sb_defs] elapsed_def [sb_defs]

section \<open>Saturating arithmetic\<close>

definition saturating_add64 :: "u64 \<Rightarrow> u64 \<Rightarrow> u64" where
  "saturating_add64 a b = (if unat a + unat b < 2 ^ 64 then a + b else 18446744073709551615)"

definition saturating_sub64 :: "u64 \<Rightarrow> u64 \<Rightarrow> u64" where
  "saturating_sub64 a b = (if b \<le> a then a - b else 0)"

definition saturating_mul64 :: "u64 \<Rightarrow> u64 \<Rightarrow> u64" where
  "saturating_mul64 a b = (if unat a * unat b < 2 ^ 64 then a * b else 18446744073709551615)"

lemma unat_saturating_mul64:
  "unat (saturating_mul64 a b) = min (unat a * unat b) (2 ^ 64 - 1)"
proof (cases "unat a * unat b < 2 ^ 64")
  case True
  then show ?thesis
    by (simp add: saturating_mul64_def unat_word_ariths)
next
  case False
  then show ?thesis
    by (simp add: saturating_mul64_def)
qed

lemma unat_of_nat_less: "n < 2 ^ LENGTH('a) \<Longrightarrow> unat (of_nat n :: 'a::len word) = n"
  by (simp add: unsigned_of_nat take_bit_nat_eq_self)

lemma word_less_Suc: "(w :: 'a::len word) \<noteq> - 1 \<Longrightarrow> w < w + 1"
proof -
  assume "w \<noteq> - 1"
  then have "1 + w \<noteq> 0"
    by (metis add.commute eq_neg_iff_add_eq_0)
  then have "unat (1 + w) = Suc (unat w)"
    by (rule unatSuc)
  then show ?thesis
    by (simp add: word_less_nat_alt add.commute)
qed

lemma unat64_less: "unat (a :: u64) < 18446744073709551616"
  by (rule order_less_le_trans [OF unsigned_less]) simp

lemma unat_max: "unat (max a b) = max (unat a) (unat (b :: 'a::len word))"
  by (simp add: max_def word_le_nat_alt)

lemma unat_min: "unat (min a b) = min (unat a) (unat (b :: 'a::len word))"
  by (simp add: min_def word_le_nat_alt)

lemma unat_saturating_add64:
  "unat (saturating_add64 a b) = min (unat a + unat b) (2 ^ 64 - 1)"
proof (cases "unat a + unat b < 2 ^ 64")
  case True
  then show ?thesis
    by (simp add: saturating_add64_def unat_word_ariths)
next
  case False
  then show ?thesis
    by (simp add: saturating_add64_def)
qed

lemma unat_saturating_sub64: "unat (saturating_sub64 a b) = unat a - unat b"
proof (cases "b \<le> a")
  case True
  then show ?thesis
    by (simp add: saturating_sub64_def unat_sub)
next
  case False
  then have "unat a \<le> unat b"
    by (simp add: word_le_nat_alt)
  with False show ?thesis
    by (simp add: saturating_sub64_def)
qed

section \<open>Bytes of a string\<close>

definition byte_of :: "char \<Rightarrow> nat" where
  "byte_of c = of_char c"

definition char_of_byte :: "u8 \<Rightarrow> char" where
  "char_of_byte b = char_of (unat b)"

definition str_bytes :: "string \<Rightarrow> u8 list" where
  "str_bytes s = map (\<lambda>c. of_nat (byte_of c)) s"

lemma byte_of_bound [simp]: "byte_of c < 256"
  by (simp add: byte_of_def)

lemma byte_of_inject [simp]: "byte_of c = byte_of d \<longleftrightarrow> c = d"
  by (simp add: byte_of_def)

lemma length_str_bytes [simp]: "length (str_bytes s) = length s"
  by (simp add: str_bytes_def)

lemma str_bytes_append [simp]: "str_bytes (s @ t) = str_bytes s @ str_bytes t"
  by (simp add: str_bytes_def)

definition is_ascii_upper :: "char \<Rightarrow> bool" where
  "is_ascii_upper c = (65 \<le> byte_of c \<and> byte_of c \<le> 90)"

definition is_ascii_lower :: "char \<Rightarrow> bool" where
  "is_ascii_lower c = (97 \<le> byte_of c \<and> byte_of c \<le> 122)"

definition is_ascii_digit :: "char \<Rightarrow> bool" where
  "is_ascii_digit c = (48 \<le> byte_of c \<and> byte_of c \<le> 57)"

definition is_ascii_alphanumeric :: "char \<Rightarrow> bool" where
  "is_ascii_alphanumeric c = (is_ascii_upper c \<or> is_ascii_lower c \<or> is_ascii_digit c)"

definition is_ascii_hexdigit :: "char \<Rightarrow> bool" where
  "is_ascii_hexdigit c =
     (is_ascii_digit c \<or> (65 \<le> byte_of c \<and> byte_of c \<le> 70) \<or> (97 \<le> byte_of c \<and> byte_of c \<le> 102))"

text \<open>\<open>u8::is_ascii_whitespace\<close>: space, tab, line feed, form feed, carriage return.\<close>

definition is_ascii_whitespace :: "char \<Rightarrow> bool" where
  "is_ascii_whitespace c = (byte_of c \<in> {9, 10, 12, 13, 32})"

declare is_ascii_upper_def [sb_bytes] is_ascii_lower_def [sb_bytes] is_ascii_digit_def [sb_bytes]
  is_ascii_alphanumeric_def [sb_bytes] is_ascii_hexdigit_def [sb_bytes]
  is_ascii_whitespace_def [sb_bytes]

definition ascii_lower :: "char \<Rightarrow> char" where
  "ascii_lower c = (if is_ascii_upper c then char_of (byte_of c + 32) else c)"

definition to_ascii_lowercase :: "string \<Rightarrow> string" where
  "to_ascii_lowercase s = map ascii_lower s"

definition eq_ignore_ascii_case :: "string \<Rightarrow> string \<Rightarrow> bool" where
  "eq_ignore_ascii_case a b = (to_ascii_lowercase a = to_ascii_lowercase b)"

lemma byte_of_ascii_lower:
  "byte_of (ascii_lower c) = (if is_ascii_upper c then byte_of c + 32 else byte_of c)"
  by (auto simp: ascii_lower_def is_ascii_upper_def byte_of_def)

lemma ascii_lower_idem [simp]: "ascii_lower (ascii_lower c) = ascii_lower c"
proof -
  have "\<not> is_ascii_upper (ascii_lower c)"
    by (auto simp: is_ascii_upper_def byte_of_ascii_lower)
  then show ?thesis
    by (subst ascii_lower_def) simp
qed

lemma to_ascii_lowercase_idem [simp]:
  "to_ascii_lowercase (to_ascii_lowercase s) = to_ascii_lowercase s"
  by (simp add: to_ascii_lowercase_def)

lemma to_ascii_lowercase_append [simp]:
  "to_ascii_lowercase (s @ t) = to_ascii_lowercase s @ to_ascii_lowercase t"
  by (simp add: to_ascii_lowercase_def)

lemma length_to_ascii_lowercase [simp]: "length (to_ascii_lowercase s) = length s"
  by (simp add: to_ascii_lowercase_def)

section \<open>UTF-8 scalar values and trimming\<close>

text \<open>A \<open>str\<close> as the list of the encodings of its characters: a byte and the continuation bytes
  that follow it. \<open>trim\<close> drops the characters with the Unicode property \<open>White_Space\<close> at both
  ends.\<close>

definition is_utf8_cont :: "char \<Rightarrow> bool" where
  "is_utf8_cont c = (128 \<le> byte_of c \<and> byte_of c < 192)"

function utf8_chars :: "string \<Rightarrow> string list" where
  "utf8_chars [] = []"
| "utf8_chars (c # cs) =
     (c # takeWhile is_utf8_cont cs) # utf8_chars (dropWhile is_utf8_cont cs)"
  by pat_completeness auto
termination
  by (relation "measure length") (simp_all add: le_imp_less_Suc length_dropWhile_le)

lemma concat_utf8_chars [simp]: "concat (utf8_chars s) = s"
  by (induction s rule: utf8_chars.induct) auto

definition whitespace_chars :: "nat list list" where
  "whitespace_chars =
     [[9], [10], [11], [12], [13], [32], [194, 133], [194, 160], [225, 154, 128],
      [226, 128, 128], [226, 128, 129], [226, 128, 130], [226, 128, 131], [226, 128, 132],
      [226, 128, 133], [226, 128, 134], [226, 128, 135], [226, 128, 136], [226, 128, 137],
      [226, 128, 138], [226, 128, 168], [226, 128, 169], [226, 128, 175], [226, 129, 159],
      [227, 128, 128]]"

definition is_whitespace :: "string \<Rightarrow> bool" where
  "is_whitespace ch = (map byte_of ch \<in> set whitespace_chars)"

definition trim_start :: "string \<Rightarrow> string" where
  "trim_start s = concat (dropWhile is_whitespace (utf8_chars s))"

definition trim_end :: "string \<Rightarrow> string" where
  "trim_end s = concat (rev (dropWhile is_whitespace (rev (utf8_chars s))))"

definition trim :: "string \<Rightarrow> string" where
  "trim s = concat (rev (dropWhile is_whitespace (rev (dropWhile is_whitespace (utf8_chars s)))))"

definition is_blank :: "string \<Rightarrow> bool" where
  "is_blank s = (trim s = [])"

lemma dropWhile_idem [simp]: "dropWhile P (dropWhile P xs) = dropWhile P xs"
  by (induction xs) auto

lemma trim_Nil [simp]: "trim [] = []" and trim_start_Nil [simp]: "trim_start [] = []"
  by (simp_all add: trim_def trim_start_def)

lemma is_blank_Nil [simp]: "is_blank []"
  by (simp add: is_blank_def)

section \<open>Splitting and prefixes\<close>

definition strip_prefix :: "string \<Rightarrow> string \<Rightarrow> string option" where
  "strip_prefix p s = (if prefix p s then Some (drop (length p) s) else None)"

definition ends_with :: "string \<Rightarrow> string \<Rightarrow> bool" where
  "ends_with s p = suffix p s"

fun split_once :: "char \<Rightarrow> string \<Rightarrow> (string \<times> string) option" where
  "split_once d [] = None"
| "split_once d (c # cs) =
     (if c = d then Some ([], cs)
      else map_option (\<lambda>(a, b). (c # a, b)) (split_once d cs))"

text \<open>\<open>str::split(d)\<close>: the pieces between the delimiters, one piece for the empty string.\<close>

fun split_on :: "char \<Rightarrow> string \<Rightarrow> string list" where
  "split_on d [] = [[]]"
| "split_on d (c # cs) =
     (if c = d then [] # split_on d cs
      else (case split_on d cs of [] \<Rightarrow> [[c]] | p # ps \<Rightarrow> (c # p) # ps))"

lemma strip_prefix_Some_iff: "strip_prefix p s = Some r \<longleftrightarrow> s = p @ r"
  by (auto simp: strip_prefix_def prefix_def)

lemma strip_prefix_append [simp]: "strip_prefix p (p @ r) = Some r"
  by (simp add: strip_prefix_Some_iff)

lemma split_once_Some_iff:
  "split_once d s = Some (a, b) \<longleftrightarrow> s = a @ d # b \<and> d \<notin> set a"
proof (induction s arbitrary: a)
  case Nil
  then show ?case by simp
next
  case (Cons c s)
  then show ?case
    by (cases a) (auto split: if_splits)
qed

lemma split_once_None_iff: "split_once d s = None \<longleftrightarrow> d \<notin> set s"
  by (induction s) auto

lemma split_on_not_Nil [simp]: "split_on d s \<noteq> []"
  by (induction s) (auto split: list.splits)

lemma split_on_absent: "d \<notin> set s \<Longrightarrow> split_on d s = [s]"
  by (induction s) auto

lemma split_on_append:
  "d \<notin> set a \<Longrightarrow> split_on d (a @ d # s) = a # split_on d s"
  by (induction a) auto

lemma split_on_pieces: "p \<in> set (split_on d s) \<Longrightarrow> d \<notin> set p"
  by (induction s arbitrary: p) (auto split: if_splits list.splits)

section \<open>Formatting of numbers\<close>

definition digit_char :: "nat \<Rightarrow> char" where
  "digit_char d = char_of (48 + d)"

fun show_nat :: "nat \<Rightarrow> string" where
  "show_nat n =
     (if n < 10 then [digit_char n] else show_nat (n div 10) @ [digit_char (n mod 10)])"

declare show_nat.simps [simp del]

fun read_nat_acc :: "nat \<Rightarrow> string \<Rightarrow> nat" where
  "read_nat_acc k [] = k"
| "read_nat_acc k (c # cs) = read_nat_acc (10 * k + (byte_of c - 48)) cs"

lemma byte_of_digit_char: "d < 10 \<Longrightarrow> byte_of (digit_char d) = 48 + d"
  by (simp add: byte_of_def digit_char_def)

lemma digit_char_is_digit: "d < 10 \<Longrightarrow> is_ascii_digit (digit_char d)"
  by (simp add: is_ascii_digit_def byte_of_digit_char)

lemma show_nat_digits: "c \<in> set (show_nat n) \<Longrightarrow> is_ascii_digit c"
proof (induction n rule: show_nat.induct)
  case (1 n)
  then show ?case
    by (cases "n < 10") (auto simp: show_nat.simps [of n] digit_char_is_digit)
qed

lemma show_nat_not_Nil [simp]: "show_nat n \<noteq> []"
  by (subst show_nat.simps) simp

lemma read_nat_acc_append: "read_nat_acc k (s @ t) = read_nat_acc (read_nat_acc k s) t"
  by (induction s arbitrary: k) simp_all

lemma read_show_nat: "read_nat_acc 0 (show_nat n) = n"
proof (induction n rule: show_nat.induct)
  case (1 n)
  then show ?case
    by (cases "n < 10")
      (simp_all add: show_nat.simps [of n] read_nat_acc_append byte_of_digit_char)
qed

lemma show_nat_inject [simp]: "show_nat m = show_nat n \<longleftrightarrow> m = n"
  by (metis read_show_nat)

text \<open>\<open>str::parse\<close> for an unsigned integer type with maximum \<open>m\<close>: an optional plus sign, then digits.\<close>

definition parse_uint :: "nat \<Rightarrow> string \<Rightarrow> nat option" where
  "parse_uint m s =
     (let ds = (case s of [] \<Rightarrow> [] | c # cs \<Rightarrow> if c = CHR ''+'' then cs else s)
      in if ds \<noteq> [] \<and> list_all is_ascii_digit ds \<and> read_nat_acc 0 ds \<le> m
         then Some (read_nat_acc 0 ds) else None)"

lemma parse_show_nat: "n \<le> m \<Longrightarrow> parse_uint m (show_nat n) = Some n"
proof -
  assume "n \<le> m"
  have digits: "list_all is_ascii_digit (show_nat n)"
    using show_nat_digits by (simp add: list_all_iff)
  then have "show_nat n = c # cs \<Longrightarrow> c \<noteq> CHR ''+''" for c cs
    by (auto simp: is_ascii_digit_def byte_of_def)
  then have "(case show_nat n of [] \<Rightarrow> [] | c # cs \<Rightarrow> if c = CHR ''+'' then cs else show_nat n)
      = show_nat n"
    by (cases "show_nat n") simp_all
  with digits \<open>n \<le> m\<close> show ?thesis
    by (simp add: parse_uint_def read_show_nat Let_def)
qed

text \<open>Two lower-case hexadecimal digits per byte.\<close>

definition hex_digit :: "nat \<Rightarrow> char" where
  "hex_digit n = (if n < 10 then char_of (48 + n) else char_of (87 + n))"

definition hex_byte :: "u8 \<Rightarrow> string" where
  "hex_byte b = [hex_digit (unat (drop_bit 4 b)), hex_digit (unat (b AND 15))]"

definition hex_bytes :: "u8 list \<Rightarrow> string" where
  "hex_bytes bs = concat (map hex_byte bs)"

lemma hex_digit_byte:
  "n < 16 \<Longrightarrow> byte_of (hex_digit n) = (if n < 10 then 48 + n else 87 + n)"
  by (simp add: byte_of_def hex_digit_def)

lemma hex_digit_hexdigit: "n < 16 \<Longrightarrow> is_ascii_hexdigit (hex_digit n)"
  by (simp add: sb_bytes hex_digit_byte)

definition hex_value :: "char \<Rightarrow> nat" where
  "hex_value c = (if byte_of c < 58 then byte_of c - 48 else byte_of c - 87)"

lemma hex_value_digit: "n < 16 \<Longrightarrow> hex_value (hex_digit n) = n"
  by (simp add: hex_value_def hex_digit_byte)

lemma hex_digit_inject: "m < 16 \<Longrightarrow> n < 16 \<Longrightarrow> hex_digit m = hex_digit n \<longleftrightarrow> m = n"
  by (metis hex_value_digit)

lemma high_nibble_less: "unat (drop_bit 4 (b :: u8)) < 16"
proof -
  have "unat (drop_bit 4 b) = unat b div 16"
    by (simp add: drop_bit_eq_div unat_div)
  moreover have "unat b < 256"
    by (rule order_less_le_trans [OF unsigned_less]) simp
  ultimately show ?thesis
    by (simp add: div_less_iff_less_mult)
qed

lemma low_nibble_eq: "unat ((b :: u8) AND 15) = unat b mod 16"
proof -
  have "b AND 15 = take_bit 4 b"
    by (simp add: take_bit_eq_mask mask_numeral)
  then show ?thesis
    by (simp add: take_bit_eq_mod unat_mod)
qed

lemma low_nibble_less: "unat ((b :: u8) AND 15) < 16"
  by (simp add: low_nibble_eq)

lemma length_hex_byte [simp]: "length (hex_byte b) = 2"
  by (simp add: hex_byte_def)

lemma length_hex_bytes [simp]: "length (hex_bytes bs) = 2 * length bs"
  by (induction bs) (simp_all add: hex_bytes_def)

lemma hex_bytes_hexdigits: "c \<in> set (hex_bytes bs) \<Longrightarrow> is_ascii_hexdigit c"
  by (auto simp: hex_bytes_def hex_byte_def hex_digit_hexdigit high_nibble_less low_nibble_less)

lemma hex_byte_inject: "hex_byte a = hex_byte b \<longleftrightarrow> a = b"
proof
  assume "hex_byte a = hex_byte b"
  then have "unat (drop_bit 4 a) = unat (drop_bit 4 b)" and "unat (a AND 15) = unat (b AND 15)"
    by (simp_all add: hex_byte_def hex_digit_inject high_nibble_less low_nibble_less)
  then have "unat a div 16 = unat b div 16" and "unat a mod 16 = unat b mod 16"
    by (simp_all add: drop_bit_eq_div unat_div low_nibble_eq)
  then have "unat a = unat b"
    by (metis div_mult_mod_eq)
  then show "a = b"
    by (simp add: word_unat_eq_iff)
qed simp

lemma hex_bytes_inject: "hex_bytes as = hex_bytes bs \<longleftrightarrow> as = bs"
proof (induction as arbitrary: bs)
  case Nil
  then show ?case by (cases bs) (simp_all add: hex_bytes_def hex_byte_def)
next
  case (Cons a as)
  show ?case
  proof (cases bs)
    case Nil
    then show ?thesis by (simp add: hex_bytes_def hex_byte_def)
  next
    case (Cons b bs')
    then show ?thesis
      using Cons.IH [of bs'] by (simp add: hex_bytes_def append_eq_append_conv hex_byte_inject)
  qed
qed

section \<open>Hash maps\<close>

text \<open>The interface the components use of a \<open>HashMap\<close>: \<open>get\<close>, \<open>insert\<close>, \<open>remove\<close> and an iteration
  that visits each entry once, in some order. \<open>ok\<close> is the representation invariant.\<close>

locale keyed_store =
  fixes get :: "'m \<Rightarrow> 'k \<Rightarrow> 'v option"
    and put :: "'k \<Rightarrow> 'v \<Rightarrow> 'm \<Rightarrow> 'm"
    and rem :: "'k \<Rightarrow> 'm \<Rightarrow> 'm"
    and entries :: "'m \<Rightarrow> ('k \<times> 'v) list"
    and ok :: "'m \<Rightarrow> bool"
  assumes get_put: "get (put k v m) k' = (if k' = k then Some v else get m k')"
    and get_rem: "get (rem k m) k' = (if k' = k then None else get m k')"
    and entries_get: "ok m \<Longrightarrow> (k, v) \<in> set (entries m) \<longleftrightarrow> get m k = Some v"
    and entries_distinct: "ok m \<Longrightarrow> distinct (map fst (entries m))"
    and ok_put: "ok m \<Longrightarrow> ok (put k v m)"
    and ok_rem: "ok m \<Longrightarrow> ok (rem k m)"
begin

lemma count_card:
  assumes "ok m"
  shows "length (filter (\<lambda>e. P (snd e)) (entries m)) = card {k. \<exists>v. get m k = Some v \<and> P v}"
proof -
  let ?es = "filter (\<lambda>e. P (snd e)) (entries m)"
  have d: "distinct (map fst ?es)"
    using entries_distinct [OF assms] by (rule distinct_map_filter)
  have "set (map fst ?es) = {k. \<exists>v. get m k = Some v \<and> P v}"
    using entries_get [OF assms] by force
  moreover have "length (map fst ?es) = card (set (map fst ?es))"
    using distinct_card [OF d] by simp
  ultimately show ?thesis
    by simp
qed

lemma finite_matching: "ok m \<Longrightarrow> finite {k. \<exists>v. get m k = Some v \<and> P v}"
proof -
  assume m: "ok m"
  have "{k. \<exists>v. get m k = Some v \<and> P v} \<subseteq> fst ` set (entries m)"
    using entries_get [OF m] by force
  then show ?thesis
    by (rule finite_subset) simp
qed

lemma size_card: "ok m \<Longrightarrow> length (entries m) = card {k. \<exists>v. get m k = Some v}"
  using count_card [of m "\<lambda>_. True"] by simp

text \<open>One insertion raises a count by one at most; a removal never raises it; rewriting an
  entry that already matched does not raise it.\<close>

lemma count_put_le:
  assumes "ok m"
  shows "length (filter (\<lambda>e. P (snd e)) (entries (put k v m)))
         \<le> Suc (length (filter (\<lambda>e. P (snd e)) (entries m)))"
proof -
  have "card {k'. \<exists>w. get (put k v m) k' = Some w \<and> P w}
        \<le> card (insert k {k'. \<exists>w. get m k' = Some w \<and> P w})"
    by (rule card_mono) (auto simp: get_put finite_matching [OF assms] split: if_splits)
  also have "\<dots> \<le> Suc (card {k'. \<exists>w. get m k' = Some w \<and> P w})"
    by (simp add: card_insert_if finite_matching [OF assms])
  finally show ?thesis
    by (simp add: count_card assms ok_put)
qed

lemma count_put_mono:
  assumes "ok m" and "P v \<Longrightarrow> \<exists>w. get m k = Some w \<and> P w"
  shows "length (filter (\<lambda>e. P (snd e)) (entries (put k v m)))
         \<le> length (filter (\<lambda>e. P (snd e)) (entries m))"
proof -
  have "card {k'. \<exists>w. get (put k v m) k' = Some w \<and> P w}
        \<le> card {k'. \<exists>w. get m k' = Some w \<and> P w}"
    by (rule card_mono) (auto simp: get_put finite_matching [OF assms(1)] assms(2) split: if_splits)
  then show ?thesis
    by (simp add: count_card assms(1) ok_put)
qed

lemma count_rem_le:
  assumes "ok m"
  shows "length (filter (\<lambda>e. P (snd e)) (entries (rem k m)))
         \<le> length (filter (\<lambda>e. P (snd e)) (entries m))"
proof -
  have "card {k'. \<exists>w. get (rem k m) k' = Some w \<and> P w}
        \<le> card {k'. \<exists>w. get m k' = Some w \<and> P w}"
    by (rule card_mono) (auto simp: get_rem finite_matching [OF assms] split: if_splits)
  then show ?thesis
    by (simp add: count_card assms ok_rem)
qed

end

type_synonym ('k, 'v) hmap = "('k \<times> 'v) list"

definition hm_get :: "('k, 'v) hmap \<Rightarrow> 'k \<Rightarrow> 'v option" where
  "hm_get m k = map_of m k"

definition hm_put :: "'k \<Rightarrow> 'v \<Rightarrow> ('k, 'v) hmap \<Rightarrow> ('k, 'v) hmap" where
  "hm_put k v m = AList.update k v m"

definition hm_rem :: "'k \<Rightarrow> ('k, 'v) hmap \<Rightarrow> ('k, 'v) hmap" where
  "hm_rem k m = AList.delete k m"

definition hm_ok :: "('k, 'v) hmap \<Rightarrow> bool" where
  "hm_ok m = distinct (map fst m)"

lemma hm_get_put [simp]: "hm_get (hm_put k v m) k' = (if k' = k then Some v else hm_get m k')"
  by (simp add: hm_get_def hm_put_def update_conv')

lemma hm_get_rem [simp]: "hm_get (hm_rem k m) k' = (if k' = k then None else hm_get m k')"
  by (simp add: hm_get_def hm_rem_def delete_conv')

lemma hm_get_Nil [simp]: "hm_get [] k = None"
  by (simp add: hm_get_def)

lemma hm_ok_Nil [simp]: "hm_ok []"
  by (simp add: hm_ok_def)

interpretation hm: keyed_store hm_get hm_put hm_rem "\<lambda>m. m" hm_ok
  by unfold_locales
    (auto simp: hm_get_def hm_ok_def hm_put_def hm_rem_def distinct_update distinct_delete
      update_conv' delete_conv')

end
