(* ===== verification/Sb_Protocol.thy ===== *)
theory Sb_Protocol
  imports Sb_Prelude
begin

text \<open>
  The protocol crate (\<open>crates/sunbolt-protocol\<close>): the messages between browser, control plane and
  agent (\<open>lib.rs\<close>) and the agent transport (\<open>transport.rs\<close>): message identifiers, output
  sequences, the envelope and its validation, the reconnect policy and the QUIC plan. The newtypes
  around strings (session, node and transport identifiers, reconnect tokens) are strings.
\<close>

type_synonym terminal_session_id = string
type_synonym terminal_reconnect_token = string
type_synonym node_id = string
type_synonym agent_transport_id = string
type_synonym agent_transport_message_id = u64
type_synonym terminal_output_sequence = u64

section \<open>Terminal messages\<close>

definition PROTOCOL_VERSION :: u16 where
  "PROTOCOL_VERSION = 1"

datatype agent_transport_kind =
  WebSocketTlsTcp443 | Http2TlsTcp443 | QuicUdp443 | LongPollHttps

record terminal_transport_status =
  tts_kind :: agent_transport_kind
  tts_degraded :: bool
  tts_message :: "string option"

record terminal_size =
  size_cols :: u16
  size_rows :: u16

record terminal_exit =
  exit_status :: "32 word option"

datatype terminal_error_code =
  Unauthorized | Forbidden | SessionNotFound | SessionExpired | InvalidMessage
  | TerminalUnavailable | Internal

record terminal_error =
  te_code :: terminal_error_code
  te_message :: string

datatype terminal_client_message =
  ClientStart "node_id option" terminal_size
  | ClientInput terminal_session_id string
  | ClientResize terminal_session_id terminal_size
  | ClientClose terminal_session_id
  | ClientTerminate terminal_session_id
  | ClientDetach terminal_session_id
  | ClientReattach terminal_session_id terminal_reconnect_token
  | ClientPing string

datatype terminal_server_message =
  ServerStarted terminal_session_id "node_id option" terminal_size
    "terminal_reconnect_token option" "terminal_transport_status option"
  | ServerOutput terminal_session_id u64 string
  | ServerExited terminal_session_id terminal_exit
  | ServerDetached terminal_session_id
  | ServerReattached terminal_session_id "node_id option" terminal_size
    "terminal_reconnect_token option" "terminal_transport_status option"
  | ServerError "terminal_session_id option" terminal_error
  | ServerPong string

datatype agent_terminal_command =
  StartTerminal terminal_session_id terminal_size
  | WriteInput terminal_session_id string
  | ResizeTerminal terminal_session_id terminal_size
  | CloseTerminal terminal_session_id

datatype agent_terminal_event =
  TerminalStarted terminal_session_id terminal_size
  | TerminalOutput terminal_session_id string
  | TerminalExited terminal_session_id terminal_exit
  | TerminalError terminal_session_id terminal_error

section \<open>Message identifiers and output sequences\<close>

definition message_id_first :: agent_transport_message_id where
  "message_id_first = 1"

definition message_id_new :: "u64 \<Rightarrow> agent_transport_message_id option" where
  "message_id_new v = (if v = 0 then None else Some v)"

definition message_id_get :: "agent_transport_message_id \<Rightarrow> u64" where
  "message_id_get m = m"

definition message_id_next :: "agent_transport_message_id \<Rightarrow> agent_transport_message_id" where
  "message_id_next m = saturating_add64 m 1"

definition message_id_is_valid :: "agent_transport_message_id \<Rightarrow> bool" where
  "message_id_is_valid m = (m \<noteq> 0)"

definition output_sequence_first :: terminal_output_sequence where
  "output_sequence_first = 0"

definition output_sequence_next :: "terminal_output_sequence \<Rightarrow> terminal_output_sequence" where
  "output_sequence_next s = saturating_add64 s 1"

section \<open>Transport kinds and the QUIC plan\<close>

fun is_tcp443_baseline :: "agent_transport_kind \<Rightarrow> bool" where
  "is_tcp443_baseline WebSocketTlsTcp443 = True"
| "is_tcp443_baseline Http2TlsTcp443 = True"
| "is_tcp443_baseline _ = False"

fun is_udp443_fast_path :: "agent_transport_kind \<Rightarrow> bool" where
  "is_udp443_fast_path QuicUdp443 = True"
| "is_udp443_fast_path _ = False"

fun is_restrictive_network_fallback :: "agent_transport_kind \<Rightarrow> bool" where
  "is_restrictive_network_fallback LongPollHttps = True"
| "is_restrictive_network_fallback _ = False"

datatype agent_quic_implementation = Quinn

datatype agent_quic_stream_kind =
  QuicControl | QuicTerminalInput | QuicTerminalOutput | QuicTerminalResize
  | QuicTerminalLifecycle

record agent_quic_stream_mapping =
  qs_kind :: agent_quic_stream_kind
  qs_bidirectional :: bool
  qs_ordered :: bool
  qs_carries_terminal_output_sequence :: bool

record agent_quic_fast_path_plan =
  qp_implementation :: agent_quic_implementation
  qp_udp_port :: u16
  qp_alpn :: string
  qp_fallback_order :: "agent_transport_kind list"
  qp_stream_mapping :: "agent_quic_stream_mapping list"

definition QUIC_FALLBACK_ORDER :: "agent_transport_kind list" where
  "QUIC_FALLBACK_ORDER = [WebSocketTlsTcp443, Http2TlsTcp443, LongPollHttps]"

definition QUIC_STREAM_MAPPING :: "agent_quic_stream_mapping list" where
  "QUIC_STREAM_MAPPING =
     [\<lparr>qs_kind = QuicControl, qs_bidirectional = True, qs_ordered = True,
       qs_carries_terminal_output_sequence = False\<rparr>,
      \<lparr>qs_kind = QuicTerminalInput, qs_bidirectional = False, qs_ordered = True,
       qs_carries_terminal_output_sequence = False\<rparr>,
      \<lparr>qs_kind = QuicTerminalOutput, qs_bidirectional = False, qs_ordered = True,
       qs_carries_terminal_output_sequence = True\<rparr>,
      \<lparr>qs_kind = QuicTerminalResize, qs_bidirectional = False, qs_ordered = True,
       qs_carries_terminal_output_sequence = False\<rparr>,
      \<lparr>qs_kind = QuicTerminalLifecycle, qs_bidirectional = True, qs_ordered = True,
       qs_carries_terminal_output_sequence = False\<rparr>]"

definition quic_fast_path_plan_current :: agent_quic_fast_path_plan where
  "quic_fast_path_plan_current =
     \<lparr>qp_implementation = Quinn, qp_udp_port = 443, qp_alpn = ''sunbolt-agent/1'',
      qp_fallback_order = QUIC_FALLBACK_ORDER, qp_stream_mapping = QUIC_STREAM_MAPPING\<rparr>"

section \<open>Connection lifecycle and metrics\<close>

datatype agent_transport_lifecycle_state =
  TransportCreated | TransportConnecting | TransportNegotiating | TransportAuthenticating
  | TransportConnected | TransportDegraded | TransportReconnecting | TransportDraining
  | TransportDisconnected | TransportFailed | TransportClosed

fun can_route_terminal_streams :: "agent_transport_lifecycle_state \<Rightarrow> bool" where
  "can_route_terminal_streams TransportConnected = True"
| "can_route_terminal_streams TransportDegraded = True"
| "can_route_terminal_streams _ = False"

fun can_reconnect :: "agent_transport_lifecycle_state \<Rightarrow> bool" where
  "can_reconnect TransportDisconnected = True"
| "can_reconnect TransportFailed = True"
| "can_reconnect TransportReconnecting = True"
| "can_reconnect _ = False"

record agent_transport_metrics =
  tm_lifecycle_state :: agent_transport_lifecycle_state
  tm_messages_sent :: u64
  tm_messages_received :: u64
  tm_bytes_sent :: u64
  tm_bytes_received :: u64
  tm_heartbeats_sent :: u64
  tm_heartbeats_received :: u64
  tm_reconnect_attempts :: u64
  tm_queued_messages :: u64
  tm_dropped_messages :: u64
  tm_backpressure_events :: u64
  tm_last_heartbeat_rtt_ms :: "u64 option"

definition transport_metrics_new :: "agent_transport_lifecycle_state \<Rightarrow> agent_transport_metrics" where
  "transport_metrics_new st =
     \<lparr>tm_lifecycle_state = st, tm_messages_sent = 0, tm_messages_received = 0, tm_bytes_sent = 0,
      tm_bytes_received = 0, tm_heartbeats_sent = 0, tm_heartbeats_received = 0,
      tm_reconnect_attempts = 0, tm_queued_messages = 0, tm_dropped_messages = 0,
      tm_backpressure_events = 0, tm_last_heartbeat_rtt_ms = None\<rparr>"

section \<open>Reconnect policy\<close>

record agent_transport_reconnect_policy =
  rp_initial_backoff_ms :: u64
  rp_max_backoff_ms :: u64
  rp_multiplier :: u8
  rp_jitter_percent :: u8
  rp_max_attempts :: "u32 option"
  rp_resume_window_ms :: u64

definition production_default :: agent_transport_reconnect_policy where
  "production_default =
     \<lparr>rp_initial_backoff_ms = 1000, rp_max_backoff_ms = 30000, rp_multiplier = 2,
      rp_jitter_percent = 20, rp_max_attempts = None, rp_resume_window_ms = 120000\<rparr>"

text \<open>The \<open>for _ in 0..attempt\<close> loop with its early return; the first argument counts the
  iterations left.\<close>

fun delay_loop :: "nat \<Rightarrow> agent_transport_reconnect_policy \<Rightarrow> u64 \<Rightarrow> u64" where
  "delay_loop 0 p delay = min delay (rp_max_backoff_ms p)"
| "delay_loop (Suc n) p delay =
     (let delay' = saturating_mul64 delay (ucast (max (rp_multiplier p) 1))
      in if rp_max_backoff_ms p \<le> delay' then rp_max_backoff_ms p
         else delay_loop n p delay')"

definition delay_for_attempt :: "agent_transport_reconnect_policy \<Rightarrow> u32 \<Rightarrow> u64" where
  "delay_for_attempt p attempt = delay_loop (unat attempt) p (max (rp_initial_backoff_ms p) 1)"

section \<open>Negotiation, heartbeats and the envelope\<close>

record terminal_stream_resume_cursor =
  rc_session_id :: terminal_session_id
  rc_last_output_sequence :: terminal_output_sequence

record agent_transport_resume_request =
  rr_previous_transport_id :: agent_transport_id
  rr_last_received_message_id :: agent_transport_message_id
  rr_terminal_sequences :: "terminal_stream_resume_cursor list"

datatype agent_transport_resume_decision =
  ResumeNotRequested | ResumeAccepted | ResumeRejected string

record agent_transport_client_hello =
  ch_supported_protocol_versions :: "u16 list"
  ch_supported_transports :: "agent_transport_kind list"
  ch_preferred_transport :: agent_transport_kind
  ch_agent_version :: string
  ch_credential_fingerprint :: string
  ch_credential_proof :: string
  ch_resume :: "agent_transport_resume_request option"

record agent_transport_server_hello =
  sh_accepted_protocol_version :: u16
  sh_selected_transport :: agent_transport_kind
  sh_heartbeat_interval_ms :: u64
  sh_liveness_timeout_ms :: u64
  sh_max_in_flight_messages :: u32
  sh_reconnect_policy :: agent_transport_reconnect_policy
  sh_resume :: agent_transport_resume_decision

datatype agent_transport_heartbeat =
  HeartbeatPing u64
  | HeartbeatPong agent_transport_message_id u64

datatype agent_transport_error_code =
  CodeUnsupportedProtocolVersion | CodeUnsupportedTransport | CodeAuthenticationFailed
  | CodeNodeRevoked | CodeDuplicateConnection | CodeHeartbeatTimeout
  | CodeBackpressureLimitExceeded | CodeMissingMessageId | CodeMissingTerminalOutputSequence
  | CodeUnexpectedTerminalOutputSequence | CodeInvalidTerminalSequenceOrder
  | CodeMalformedMessage | CodeInternal

record agent_transport_error =
  ate_code :: agent_transport_error_code
  ate_message :: string

datatype agent_transport_payload =
  PayloadClientHello agent_transport_client_hello
  | PayloadServerHello agent_transport_server_hello
  | PayloadHeartbeat agent_transport_heartbeat
  | PayloadTerminalCommand agent_terminal_command
  | PayloadTerminalEvent "terminal_output_sequence option" agent_terminal_event
  | PayloadError agent_transport_error

record agent_transport_envelope =
  env_protocol_version :: u16
  env_message_id :: agent_transport_message_id
  env_node_id :: node_id
  env_transport_id :: agent_transport_id
  env_payload :: agent_transport_payload

record agent_transport_long_poll_request =
  lpq_client_hello :: agent_transport_envelope
  lpq_events :: "agent_transport_envelope list"

record agent_transport_long_poll_response =
  lps_envelopes :: "agent_transport_envelope list"
  lps_retry_after_ms :: u64
  lps_degraded :: bool
  lps_degraded_reason :: "string option"

definition envelope_current ::
  "agent_transport_message_id \<Rightarrow> node_id \<Rightarrow> agent_transport_id \<Rightarrow> agent_transport_payload
   \<Rightarrow> agent_transport_envelope" where
  "envelope_current mid nid tid payload =
     \<lparr>env_protocol_version = PROTOCOL_VERSION, env_message_id = mid, env_node_id = nid,
      env_transport_id = tid, env_payload = payload\<rparr>"

datatype agent_transport_protocol_error =
  UnsupportedProtocolVersion u16 u16
  | MissingMessageId
  | MissingTerminalOutputSequence
  | UnexpectedTerminalOutputSequence
  | InvalidTerminalSequenceOrder terminal_output_sequence terminal_output_sequence

definition envelope_validate ::
  "agent_transport_envelope \<Rightarrow> agent_transport_protocol_error + unit" where
  "envelope_validate e =
     (if env_protocol_version e \<noteq> PROTOCOL_VERSION
      then Inl (UnsupportedProtocolVersion (env_protocol_version e) PROTOCOL_VERSION)
      else if \<not> message_id_is_valid (env_message_id e) then Inl MissingMessageId
      else (case env_payload e of
              PayloadTerminalEvent sequence event \<Rightarrow>
                (case event of
                   TerminalOutput _ _ \<Rightarrow>
                     (if sequence = None then Inl MissingTerminalOutputSequence else Inr ())
                 | _ \<Rightarrow>
                     (if sequence \<noteq> None then Inl UnexpectedTerminalOutputSequence
                      else Inr ()))
            | _ \<Rightarrow> Inr ()))"

definition validate_next_terminal_output_sequence ::
  "terminal_output_sequence \<Rightarrow> terminal_output_sequence
   \<Rightarrow> agent_transport_protocol_error + unit" where
  "validate_next_terminal_output_sequence previous received =
     (if received = output_sequence_next previous then Inr ()
      else Inl (InvalidTerminalSequenceOrder previous received))"

datatype agent_transport_close_reason =
  CloseAgentShutdown | CloseControlPlaneShutdown | CloseHeartbeatTimeout
  | CloseDuplicateConnectionReplaced | CloseNodeRevoked | CloseProtocolError | CloseNetworkError

text \<open>The display texts of the validation errors (\<open>#[error(...)]\<close>).\<close>

fun protocol_error_text_of :: "agent_transport_protocol_error \<Rightarrow> string" where
  "protocol_error_text_of (UnsupportedProtocolVersion received supported) =
     ''unsupported protocol version '' @ show_nat (unat received)
     @ ''; supported version is '' @ show_nat (unat supported)"
| "protocol_error_text_of MissingMessageId = ''transport message id must be non-zero''"
| "protocol_error_text_of MissingTerminalOutputSequence =
     ''terminal output events must include a sequence number''"
| "protocol_error_text_of UnexpectedTerminalOutputSequence =
     ''terminal sequence numbers are only valid for terminal output events''"
| "protocol_error_text_of (InvalidTerminalSequenceOrder previous received) =
     ''terminal output sequence '' @ show_nat (unat received) @ '' did not follow ''
     @ show_nat (unat previous)"

section \<open>Facts on identifiers\<close>

lemma message_id_next_valid: "message_id_is_valid m \<Longrightarrow> message_id_is_valid (message_id_next m)"
proof -
  assume "message_id_is_valid m"
  then have "0 < unat m"
    by (simp add: message_id_is_valid_def unat_gt_0)
  then have "0 < unat (message_id_next m)"
    by (simp add: message_id_next_def unat_saturating_add64)
  then show ?thesis
    by (simp add: message_id_is_valid_def unat_gt_0)
qed

lemma message_id_next_less: "unat m < 2 ^ 64 - 1 \<Longrightarrow> m < message_id_next m"
  by (simp add: message_id_next_def word_less_nat_alt unat_saturating_add64)

lemma unat_message_id_next: "unat m < 2 ^ 64 - 1 \<Longrightarrow> unat (message_id_next m) = unat m + 1"
  by (simp add: message_id_next_def unat_saturating_add64)

lemma unat_output_sequence_next:
  "unat (output_sequence_next s) = min (unat s + 1) (2 ^ 64 - 1)"
  by (simp add: output_sequence_next_def unat_saturating_add64)

lemma unat_ucast_u8_u64: "unat (ucast (x :: u8) :: u64) = unat x"
proof -
  have "unat x < 2 ^ 64"
    by (rule order_less_le_trans [OF unsigned_less]) simp
  then show ?thesis
    by (simp add: unsigned_ucast_eq take_bit_nat_eq_self)
qed

section \<open>The reconnect delay in closed form\<close>

text \<open>Without the early return and without saturation the loop multiplies the delay
  \<open>n\<close> times and clamps the product.\<close>

lemma unat_delay_step:
  "unat (saturating_mul64 d (ucast (max (m :: u8) 1))) = min (unat d * max (unat m) 1) (2 ^ 64 - 1)"
  by (simp add: unat_saturating_mul64 unat_max unat_ucast_u8_u64)

lemma unat_delay_loop:
  "unat (delay_loop n p d) =
     min (unat (rp_max_backoff_ms p)) (unat d * max (unat (rp_multiplier p)) 1 ^ n)"
proof (induction n p d rule: delay_loop.induct)
  case (1 p d)
  then show ?case by (simp add: unat_min min.commute)
next
  case (2 n p d)
  let ?k = "max (unat (rp_multiplier p)) 1"
  let ?d = "saturating_mul64 d (ucast (max (rp_multiplier p) 1))"
  let ?b = "unat (rp_max_backoff_ms p)"
  have d: "unat ?d = min (unat d * ?k) (2 ^ 64 - 1)"
    by (rule unat_delay_step)
  have b: "?b \<le> 2 ^ 64 - 1"
    using unat64_less [of "rp_max_backoff_ms p"] by simp
  have "1 \<le> ?k ^ n"
    by (rule one_le_power) simp
  then have grow: "unat d * ?k \<le> unat d * ?k * ?k ^ n"
    using mult_le_mono2 [of 1 "?k ^ n" "unat d * ?k"] by (simp only: mult_1_right)
  show ?case
  proof (cases "rp_max_backoff_ms p \<le> ?d")
    case True
    then have "?b \<le> unat d * ?k"
      using d by (simp add: word_le_nat_alt)
    then have "?b \<le> unat d * ?k * ?k ^ n"
      using grow by (rule le_trans)
    then have "?b \<le> unat d * ?k ^ Suc n"
      by (simp only: power_Suc mult.assoc)
    with True show ?thesis
      by (simp add: Let_def)
  next
    case False
    then have "unat ?d < ?b"
      by (simp add: word_le_nat_alt)
    with d b have "unat ?d = unat d * ?k"
      by linarith
    with False "2.IH" [OF refl] show ?thesis
      by (simp add: Let_def mult.assoc)
  qed
qed

lemma delay_for_attempt_closed_form:
  "unat (delay_for_attempt p attempt) =
     min (unat (rp_max_backoff_ms p))
       (max (unat (rp_initial_backoff_ms p)) 1 * max (unat (rp_multiplier p)) 1 ^ unat attempt)"
  by (simp add: delay_for_attempt_def unat_delay_loop unat_max)

lemma delay_for_attempt_mono:
  "a \<le> b \<Longrightarrow> delay_for_attempt p a \<le> delay_for_attempt p b"
proof -
  assume "a \<le> b"
  then have "max (unat (rp_multiplier p)) 1 ^ unat a \<le> max (unat (rp_multiplier p)) 1 ^ unat b"
    by (intro power_increasing) (simp_all add: word_le_nat_alt)
  then show ?thesis
    unfolding word_le_nat_alt delay_for_attempt_closed_form
    by (intro min.mono mult_le_mono) simp_all
qed

section \<open>Properties\<close>

text \<open>The reconnect delay before attempt \<open>n\<close> is the initial backoff (at least 1 ms) times
  the multiplier (at least 1) to the power \<open>n\<close>, clamped at the maximal backoff, in spite of the
  saturating 64-bit multiplication and the early return of the loop; it grows with the attempt.\<close>

theorem reconnect_delay_is_clamped_exponential:
  "unat (delay_for_attempt p a) =
     min (unat (rp_max_backoff_ms p))
       (max (unat (rp_initial_backoff_ms p)) 1 * max (unat (rp_multiplier p)) 1 ^ unat a)
   \<and> delay_for_attempt p (min a b) \<le> delay_for_attempt p (max a b)"
  by (intro conjI delay_for_attempt_closed_form delay_for_attempt_mono)
    (rule order_trans [OF min.cobounded1 max.cobounded1])

text \<open>An envelope is accepted exactly when it has the current protocol version, a non-zero
  message identifier, and a sequence number if and only if it carries terminal output; a wrong
  version is reported before a missing identifier, and that before a sequence error.\<close>

theorem envelope_validate_characterised:
  "envelope_validate e =
     (if env_protocol_version e \<noteq> PROTOCOL_VERSION
      then Inl (UnsupportedProtocolVersion (env_protocol_version e) PROTOCOL_VERSION)
      else if env_message_id e = 0 then Inl MissingMessageId
      else if \<exists>sid d. env_payload e = PayloadTerminalEvent None (TerminalOutput sid d)
      then Inl MissingTerminalOutputSequence
      else if \<exists>q ev. env_payload e = PayloadTerminalEvent (Some q) ev
                   \<and> (\<nexists>sid d. ev = TerminalOutput sid d)
      then Inl UnexpectedTerminalOutputSequence
      else Inr ())"
  by (auto simp: envelope_validate_def message_id_is_valid_def
      split: agent_transport_payload.splits agent_terminal_event.splits)

end
