(* ===== verification/Sb_Terminal.thy ===== *)
theory Sb_Terminal
  imports Sb_Prelude
begin

text \<open>
  The terminal crate (\<open>crates/sunbolt-terminal/src/lib.rs\<close>): the lifecycle states of a terminal
  session, and \<open>LocalPtySession\<close>, a shell behind a pseudo terminal. The PTY itself
  (\<open>portable_pty\<close>) is outside the sources: each operation takes the results of the PTY calls it
  makes as arguments and returns, beside its own result and the new session, the PTY calls made.
\<close>

section \<open>Lifecycle states\<close>

datatype terminal_session_state =
  Created | Starting | Active | Detached | Reattaching | Terminating | Terminated | Failed
  | Expired

fun can_transition_to :: "terminal_session_state \<Rightarrow> terminal_session_state \<Rightarrow> bool" where
  "can_transition_to Created next = (next = Starting)"
| "can_transition_to Starting next = (next \<in> {Active, Failed})"
| "can_transition_to Active next = (next \<in> {Detached, Terminating, Failed, Expired})"
| "can_transition_to Detached next = (next \<in> {Reattaching, Terminating, Failed, Expired})"
| "can_transition_to Reattaching next = (next \<in> {Active, Terminating, Failed})"
| "can_transition_to Terminating next = (next = Terminated)"
| "can_transition_to Failed next = (next = Terminated)"
| "can_transition_to Expired next = (next = Terminated)"
| "can_transition_to Terminated next = False"

fun is_reattachable :: "terminal_session_state \<Rightarrow> bool" where
  "is_reattachable Active = True"
| "is_reattachable Detached = True"
| "is_reattachable Reattaching = True"
| "is_reattachable _ = False"

fun is_terminal :: "terminal_session_state \<Rightarrow> bool" where
  "is_terminal Terminated = True"
| "is_terminal Failed = True"
| "is_terminal Expired = True"
| "is_terminal _ = False"

datatype terminal_close_reason =
  ExplicitTerminate | PtyProcessExit | BackendPolicy | ReasonNodeRevoked | AgentDisconnected
  | ReasonExpired

record terminal_exit_status =
  exit_code :: "32 word option"

record pty_terminal_size =
  pty_cols :: u16
  pty_rows :: u16

record pty_size =
  ps_rows :: u16
  ps_cols :: u16
  ps_pixel_width :: u16
  ps_pixel_height :: u16

definition terminal_size_new :: "u16 \<Rightarrow> u16 \<Rightarrow> pty_terminal_size" where
  "terminal_size_new c r = \<lparr>pty_cols = c, pty_rows = r\<rparr>"

definition pty_size_from :: "pty_terminal_size \<Rightarrow> pty_size" where
  "pty_size_from s =
     \<lparr>ps_rows = pty_rows s, ps_cols = pty_cols s, ps_pixel_width = 0, ps_pixel_height = 0\<rparr>"

section \<open>Local PTY sessions\<close>

datatype pty_error =
  OpenPty string | Spawn string | CloneReader string | TakeWriter string
  | WriteInputFailed string | ReadOutputFailed string | ResizeFailed string
  | CloseFailed string | WaitFailed string | PtyClosed | MissingDefaultShell
  | LockPoisoned string

text \<open>The display texts (\<open>#[error(...)]\<close>).\<close>

fun pty_error_text :: "pty_error \<Rightarrow> string" where
  "pty_error_text (OpenPty e) = ''failed to open PTY: '' @ e"
| "pty_error_text (Spawn e) = ''failed to spawn shell: '' @ e"
| "pty_error_text (CloneReader e) = ''failed to clone PTY reader: '' @ e"
| "pty_error_text (TakeWriter e) = ''failed to take PTY writer: '' @ e"
| "pty_error_text (WriteInputFailed e) = ''failed to write PTY input: '' @ e"
| "pty_error_text (ReadOutputFailed e) = ''failed to read PTY output: '' @ e"
| "pty_error_text (ResizeFailed e) = ''failed to resize PTY: '' @ e"
| "pty_error_text (CloseFailed e) = ''failed to close PTY session: '' @ e"
| "pty_error_text (WaitFailed e) = ''failed to wait for PTY process exit: '' @ e"
| "pty_error_text PtyClosed = ''PTY session is already closed''"
| "pty_error_text MissingDefaultShell = ''default shell is not configured''"
| "pty_error_text (LockPoisoned l) = ''PTY '' @ l @ '' lock was poisoned''"

text \<open>Calls into the PTY library.\<close>

datatype pty_call =
  CallOpenPty pty_size | CallSpawn string | CallCloneReader | CallTakeWriter
  | CallWriteAll "u8 list" | CallFlush | CallRead | CallResize pty_size
  | CallKill | CallTryWait | CallWait

text \<open>The session: the closed flag, whether the child handle is still held, and which of the
  four locks a panicking thread has poisoned.\<close>

record pty_session =
  closed :: bool
  child_held :: bool
  child_poisoned :: bool
  reader_poisoned :: bool
  writer_poisoned :: bool
  master_poisoned :: bool

definition is_closed :: "pty_session \<Rightarrow> bool" where
  "is_closed s = closed s"

text \<open>\<open>env::var\<close> is the argument \<open>env\<close>.\<close>

definition default_shell :: "(string \<Rightarrow> string option) \<Rightarrow> string option" where
  "default_shell env =
     (case env ''SHELL'' of
        Some shell \<Rightarrow>
          if shell \<noteq> [] then Some shell
          else (case env ''COMSPEC'' of
                  Some c \<Rightarrow> if c \<noteq> [] then Some c else None
                | None \<Rightarrow> None)
      | None \<Rightarrow>
          (case env ''COMSPEC'' of
             Some c \<Rightarrow> if c \<noteq> [] then Some c else None
           | None \<Rightarrow> None))"

text \<open>\<open>spawn_shell\<close>: the results of the four PTY calls are \<open>Some e\<close> for an error \<open>e\<close>; the later
  calls are made only when the earlier ones succeed.\<close>

definition spawn_shell ::
  "string \<Rightarrow> pty_terminal_size \<Rightarrow> string option \<Rightarrow> string option \<Rightarrow> string option \<Rightarrow> string option
   \<Rightarrow> (pty_error + pty_session) \<times> pty_call list" where
  "spawn_shell shell sz openr spawnr readerr writerr =
     (case openr of
        Some e \<Rightarrow> (Inl (OpenPty e), [CallOpenPty (pty_size_from sz)])
      | None \<Rightarrow>
      (case spawnr of
         Some e \<Rightarrow> (Inl (Spawn e), [CallOpenPty (pty_size_from sz), CallSpawn shell])
       | None \<Rightarrow>
       (case readerr of
          Some e \<Rightarrow> (Inl (CloneReader e),
            [CallOpenPty (pty_size_from sz), CallSpawn shell, CallCloneReader])
        | None \<Rightarrow>
        (case writerr of
           Some e \<Rightarrow> (Inl (TakeWriter e),
             [CallOpenPty (pty_size_from sz), CallSpawn shell, CallCloneReader,
              CallTakeWriter])
         | None \<Rightarrow>
             (Inr \<lparr>closed = False, child_held = True, child_poisoned = False,
                   reader_poisoned = False, writer_poisoned = False,
                   master_poisoned = False\<rparr>,
              [CallOpenPty (pty_size_from sz), CallSpawn shell, CallCloneReader,
               CallTakeWriter])))))"

definition spawn_default_shell ::
  "(string \<Rightarrow> string option) \<Rightarrow> pty_terminal_size \<Rightarrow> string option \<Rightarrow> string option
   \<Rightarrow> string option \<Rightarrow> string option \<Rightarrow> (pty_error + pty_session) \<times> pty_call list" where
  "spawn_default_shell env sz openr spawnr readerr writerr =
     (case default_shell env of
        None \<Rightarrow> (Inl MissingDefaultShell, [])
      | Some shell \<Rightarrow> spawn_shell shell sz openr spawnr readerr writerr)"

definition write_input ::
  "pty_session \<Rightarrow> u8 list \<Rightarrow> string option \<Rightarrow> string option
   \<Rightarrow> (pty_error + unit) \<times> pty_call list" where
  "write_input s input writer flushr =
     (if is_closed s then (Inl PtyClosed, [])
      else if writer_poisoned s then (Inl (LockPoisoned ''writer''), [])
      else (case writer of
              Some e \<Rightarrow> (Inl (WriteInputFailed e), [CallWriteAll input])
            | None \<Rightarrow>
              (case flushr of
                 Some e \<Rightarrow> (Inl (WriteInputFailed e), [CallWriteAll input, CallFlush])
               | None \<Rightarrow> (Inr (), [CallWriteAll input, CallFlush]))))"

text \<open>\<open>read\<close> returns the bytes it put into the buffer; their number is the result of
  \<open>read_output\<close>.\<close>

definition read_output ::
  "pty_session \<Rightarrow> (string + u8 list) \<Rightarrow> (pty_error + u8 list) \<times> pty_call list" where
  "read_output s readr =
     (if is_closed s then (Inl PtyClosed, [])
      else if reader_poisoned s then (Inl (LockPoisoned ''reader''), [])
      else (case readr of
              Inl e \<Rightarrow> (Inl (ReadOutputFailed e), [CallRead])
            | Inr bs \<Rightarrow> (Inr bs, [CallRead])))"

definition resize ::
  "pty_session \<Rightarrow> pty_terminal_size \<Rightarrow> string option
   \<Rightarrow> (pty_error + unit) \<times> pty_call list" where
  "resize s sz resizer =
     (if is_closed s then (Inl PtyClosed, [])
      else if master_poisoned s then (Inl (LockPoisoned ''master''), [])
      else (case resizer of
              Some e \<Rightarrow> (Inl (ResizeFailed e), [CallResize (pty_size_from sz)])
            | None \<Rightarrow> (Inr (), [CallResize (pty_size_from sz)])))"

text \<open>\<open>close\<close> swaps the closed flag first: a second call returns at once, whatever the first
  one did.\<close>

definition close ::
  "pty_session \<Rightarrow> string option \<Rightarrow> (pty_error + unit) \<times> pty_session \<times> pty_call list" where
  "close s killr =
     (if closed s then (Inr (), s, [])
      else let s' = s\<lparr>closed := True\<rparr> in
        if child_poisoned s then (Inl (LockPoisoned ''child''), s', [])
        else if child_held s
        then (case killr of
                Some e \<Rightarrow> (Inl (CloseFailed e), s'\<lparr>child_held := False\<rparr>, [CallKill])
              | None \<Rightarrow> (Inr (), s'\<lparr>child_held := False\<rparr>, [CallKill]))
        else (Inr (), s', []))"

text \<open>\<open>i32::try_from\<close> on the child's \<open>u32\<close> exit code.\<close>

definition exit_status_of :: "u32 \<Rightarrow> terminal_exit_status" where
  "exit_status_of c = \<lparr>exit_code = (if unat c < 2 ^ 31 then Some c else None)\<rparr>"

definition try_wait_exit ::
  "pty_session \<Rightarrow> (string + u32 option)
   \<Rightarrow> (pty_error + terminal_exit_status option) \<times> pty_session \<times> pty_call list" where
  "try_wait_exit s waitr =
     (if child_poisoned s then (Inl (LockPoisoned ''child''), s, [])
      else if \<not> child_held s then (Inr None, s, [])
      else (case waitr of
              Inl e \<Rightarrow> (Inl (WaitFailed e), s, [CallTryWait])
            | Inr None \<Rightarrow> (Inr None, s, [CallTryWait])
            | Inr (Some c) \<Rightarrow>
                (Inr (Some (exit_status_of c)), s\<lparr>closed := True, child_held := False\<rparr>,
                 [CallTryWait])))"

text \<open>\<open>wait_exit\<close> takes the child out of the session before it waits.\<close>

definition wait_exit ::
  "pty_session \<Rightarrow> (string + u32)
   \<Rightarrow> (pty_error + terminal_exit_status option) \<times> pty_session \<times> pty_call list" where
  "wait_exit s waitr =
     (if child_poisoned s then (Inl (LockPoisoned ''child''), s, [])
      else if \<not> child_held s then (Inr None, s, [])
      else (case waitr of
              Inl e \<Rightarrow> (Inl (WaitFailed e), s\<lparr>child_held := False\<rparr>, [CallWait])
            | Inr c \<Rightarrow>
                (Inr (Some (exit_status_of c)), s\<lparr>closed := True, child_held := False\<rparr>,
                 [CallWait])))"

text \<open>\<open>Drop\<close> closes and ignores the result.\<close>

definition drop_session :: "pty_session \<Rightarrow> string option \<Rightarrow> pty_session \<times> pty_call list" where
  "drop_session s killr = snd (close s killr)"

section \<open>Lifecycle facts\<close>

definition all_lifecycle_states :: "terminal_session_state list" where
  "all_lifecycle_states =
     [Created, Starting, Active, Detached, Reattaching, Terminating, Terminated, Failed, Expired]"

inductive lifecycle_reachable :: "terminal_session_state \<Rightarrow> terminal_session_state \<Rightarrow> bool" where
  lifecycle_refl: "lifecycle_reachable s s"
| lifecycle_step: "lifecycle_reachable s t \<Longrightarrow> can_transition_to t u \<Longrightarrow> lifecycle_reachable s u"

inductive_cases lifecycle_stepE: "lifecycle_reachable s u"

lemma can_transition_simps:
  "can_transition_to s t =
     (case s of
        Created \<Rightarrow> t = Starting
      | Starting \<Rightarrow> t \<in> {Active, Failed}
      | Active \<Rightarrow> t \<in> {Detached, Terminating, Failed, Expired}
      | Detached \<Rightarrow> t \<in> {Reattaching, Terminating, Failed, Expired}
      | Reattaching \<Rightarrow> t \<in> {Active, Terminating, Failed}
      | Terminating \<Rightarrow> t = Terminated
      | Terminated \<Rightarrow> False
      | Failed \<Rightarrow> t = Terminated
      | Expired \<Rightarrow> t = Terminated)"
  by (cases s) simp_all

text \<open>The number of transitions still possible outside the detach/reattach cycle: it never grows
  along a transition.\<close>

fun lifecycle_rank :: "terminal_session_state \<Rightarrow> nat" where
  "lifecycle_rank Created = 4"
| "lifecycle_rank Starting = 3"
| "lifecycle_rank Active = 2"
| "lifecycle_rank Detached = 2"
| "lifecycle_rank Reattaching = 2"
| "lifecycle_rank Terminating = 1"
| "lifecycle_rank Failed = 1"
| "lifecycle_rank Expired = 1"
| "lifecycle_rank Terminated = 0"

lemma lifecycle_rank_step: "can_transition_to s t \<Longrightarrow> lifecycle_rank t \<le> lifecycle_rank s"
  by (cases s) auto

lemma lifecycle_rank_reachable: "lifecycle_reachable s t \<Longrightarrow> lifecycle_rank t \<le> lifecycle_rank s"
  by (induction rule: lifecycle_reachable.induct) (auto dest: lifecycle_rank_step)

lemma lifecycle_ended_only_Terminated:
  "lifecycle_reachable s t \<Longrightarrow> is_terminal s \<Longrightarrow> t = s \<or> t = Terminated"
proof (induction rule: lifecycle_reachable.induct)
  case (lifecycle_step s t u)
  then show ?case
    by (cases s; cases t) auto
qed simp

lemma is_reattachable_not_terminal: "is_reattachable s \<Longrightarrow> \<not> is_terminal s"
  by (cases s) simp_all

lemma lifecycle_reachable_terminated: "lifecycle_reachable s Terminated"
proof -
  have E: "lifecycle_reachable Created Failed" "lifecycle_reachable Starting Failed"
    "lifecycle_reachable Active Failed" "lifecycle_reachable Detached Failed"
    "lifecycle_reachable Reattaching Failed"
    by (auto intro: lifecycle_step [OF lifecycle_step [OF lifecycle_refl]]
        lifecycle_step [OF lifecycle_refl] simp: can_transition_simps)
  show ?thesis
    by (cases s)
      (use E in \<open>auto intro: lifecycle_refl lifecycle_step [OF lifecycle_refl] lifecycle_step
         simp: can_transition_simps\<close>)
qed

section \<open>PTY sessions as a step relation\<close>

text \<open>Any interleaving of the operations on one session, by whatever threads hold it (each
  operation locks what it uses), with any results of the PTY calls; a thread that panics while it
  holds a lock poisons it.\<close>

inductive pty_step :: "pty_session \<Rightarrow> pty_call list \<Rightarrow> pty_session \<Rightarrow> bool" where
  step_write: "pty_step s (snd (write_input s input w f)) s"
| step_read: "pty_step s (snd (read_output s r)) s"
| step_resize: "pty_step s (snd (resize s sz r)) s"
| step_close: "pty_step s (snd (snd (close s k))) (fst (snd (close s k)))"
| step_try_wait: "pty_step s (snd (snd (try_wait_exit s t))) (fst (snd (try_wait_exit s t)))"
| step_wait: "pty_step s (snd (snd (wait_exit s x))) (fst (snd (wait_exit s x)))"
| step_drop: "pty_step s (snd (drop_session s k)) (fst (drop_session s k))"
| step_poison: "pty_step s [] (s\<lparr>child_poisoned := c, reader_poisoned := rp,
                                 writer_poisoned := wp, master_poisoned := mp\<rparr>)"

inductive pty_run :: "pty_session \<Rightarrow> pty_call list \<Rightarrow> pty_session \<Rightarrow> bool" where
  run_nil: "pty_run s [] s"
| run_snoc: "pty_run s cs t \<Longrightarrow> pty_step t ds u \<Longrightarrow> pty_run s (cs @ ds) u"

inductive_cases pty_stepE: "pty_step s cs t"

fun is_io_call :: "pty_call \<Rightarrow> bool" where
  "is_io_call (CallWriteAll _) = True"
| "is_io_call CallFlush = True"
| "is_io_call CallRead = True"
| "is_io_call (CallResize _) = True"
| "is_io_call CallKill = True"
| "is_io_call _ = False"

lemmas pty_op_defs = write_input_def read_output_def resize_def close_def try_wait_exit_def
  wait_exit_def drop_session_def is_closed_def Let_def

lemmas pty_op_splits = option.splits sum.splits if_splits

lemma pty_step_closed: "pty_step s cs t \<Longrightarrow> closed s \<Longrightarrow> closed t"
  by (erule pty_stepE) (auto simp: pty_op_defs split: pty_op_splits)

lemma pty_step_child: "pty_step s cs t \<Longrightarrow> child_held t \<Longrightarrow> child_held s"
  by (erule pty_stepE) (auto simp: pty_op_defs split: pty_op_splits)

lemma pty_step_closed_silent:
  "pty_step s cs t \<Longrightarrow> closed s \<Longrightarrow> filter is_io_call cs = []"
  by (erule pty_stepE) (auto simp: pty_op_defs split: pty_op_splits)

lemma pty_step_kill:
  "pty_step s cs t \<Longrightarrow> count_list cs CallKill = 0 \<or>
     (count_list cs CallKill = 1 \<and> child_held s \<and> \<not> child_held t \<and> \<not> closed s \<and> closed t)"
  by (erule pty_stepE) (auto simp: pty_op_defs split: pty_op_splits)

lemma pty_step_no_child_no_kill: "pty_step s cs t \<Longrightarrow> \<not> child_held s \<Longrightarrow> count_list cs CallKill = 0"
  using pty_step_kill by fastforce

lemma pty_run_closed: "pty_run s cs t \<Longrightarrow> closed s \<Longrightarrow> closed t"
  by (induction rule: pty_run.induct) (auto dest: pty_step_closed)

lemma pty_run_closed_silent: "pty_run s cs t \<Longrightarrow> closed s \<Longrightarrow> filter is_io_call cs = []"
  by (induction rule: pty_run.induct) (auto dest: pty_step_closed_silent pty_run_closed)

lemma pty_run_child: "pty_run s cs t \<Longrightarrow> child_held t \<Longrightarrow> child_held s"
  by (induction rule: pty_run.induct) (auto dest: pty_step_child)

lemma pty_run_kill:
  "pty_run s cs t \<Longrightarrow> count_list cs CallKill \<le> (if child_held s \<and> \<not> child_held t then 1 else 0)"
proof (induction rule: pty_run.induct)
  case (run_nil s)
  then show ?case by simp
next
  case (run_snoc s cs t ds u)
  then show ?case
    using pty_step_kill [OF run_snoc.hyps(2)] pty_step_child [OF run_snoc.hyps(2)]
      pty_run_child [OF run_snoc.hyps(1)]
    by (auto simp: count_list_append split: if_splits)
qed

section \<open>Properties\<close>

text \<open>The lifecycle only moves forward: outside the detach and reattach cycle no state is
  entered twice (the rank never grows), a terminated, failed or expired session can only become
  terminated, a session that can be reattached has not ended, and every state can reach
  termination.\<close>

theorem lifecycle_is_forward:
  "(lifecycle_reachable s t \<longrightarrow> lifecycle_rank t \<le> lifecycle_rank s)
   \<and> (lifecycle_reachable s t \<and> is_terminal s \<longrightarrow> t = s \<or> t = Terminated)
   \<and> (is_reattachable s \<longrightarrow> \<not> is_terminal s)
   \<and> lifecycle_reachable s Terminated"
  using lifecycle_rank_reachable lifecycle_ended_only_Terminated is_reattachable_not_terminal
    lifecycle_reachable_terminated by blast

theorem lifecycle_is_forward_witness:
  "is_reattachable Active \<and> is_terminal Failed \<and> lifecycle_reachable Active Expired
   \<and> \<not> is_terminal Active \<and> lifecycle_rank Expired \<le> lifecycle_rank Active
   \<and> (lifecycle_reachable Failed Terminated)"
  using lifecycle_is_forward [of Active Expired] lifecycle_is_forward [of Failed Terminated]
    lifecycle_step [OF lifecycle_refl, of Active Expired]
  by simp

text \<open>C33: In whatever order the operations are called on a PTY session (each taken as one step), and whatever the operating system
  answers, the child process is killed at most once; once the session is closed it stays closed
  and no later operation writes, reads, resizes or kills.\<close>

theorem pty_session_killed_once_and_silent_after_close:
  "pty_run s cs t \<Longrightarrow>
     count_list cs CallKill \<le> 1 \<and> (closed s \<longrightarrow> closed t \<and> filter is_io_call cs = [])"
  using pty_run_kill [of s cs t] pty_run_closed pty_run_closed_silent
  by (auto split: if_splits)

theorem pty_session_killed_once_and_silent_after_close_witness:
  "\<exists>s t cs. \<not> closed s \<and> closed t \<and> pty_run s cs t \<and> cs = [CallRead, CallKill]
     \<and> count_list cs CallKill \<le> 1"
proof -
  let ?s = "\<lparr>closed = False, child_held = True, child_poisoned = False, reader_poisoned = False,
             writer_poisoned = False, master_poisoned = False\<rparr>"
  have r: "pty_step ?s [CallRead] ?s"
    using step_read [of ?s "Inr []"] by (simp add: read_output_def is_closed_def)
  have c: "pty_step ?s [CallKill] (?s\<lparr>closed := True, child_held := False\<rparr>)"
    using step_close [of ?s None] by (simp add: close_def)
  have "pty_run ?s ([] @ [CallRead] @ [CallKill]) (?s\<lparr>closed := True, child_held := False\<rparr>)"
    using run_snoc [OF run_snoc [OF run_nil r] c] by simp
  then have run: "pty_run ?s [CallRead, CallKill] (?s\<lparr>closed := True, child_held := False\<rparr>)"
    by simp
  then show ?thesis
    using pty_session_killed_once_and_silent_after_close [OF run]
    by (intro exI [of _ ?s] exI [of _ "?s\<lparr>closed := True, child_held := False\<rparr>"]) simp
qed

end
