(* ===== verification/Sb_Sessions.thy ===== *)
theory Sb_Sessions
  imports Sb_Protocol Sb_Terminal
begin

text \<open>
  The registry of terminal sessions of the control plane
  (\<open>sunbolt-control/src/terminal/session_registry.rs\<close>). The registry is a mutex around a
  \<open>HashMap\<close>; \<open>tr_poisoned\<close> says that a thread panicked while it held the mutex, which every
  operation checks for. A local backend is the handle of a shared \<open>LocalPtySession\<close>; an operation
  that closes backends returns the handles it called \<open>close\<close> on. Channels are handles. Each
  operation takes one reading of the clock, and a fresh token or channel where it makes one.
\<close>

type_synonym pty_handle = nat
type_synonym output_channel = nat
type_synonym command_channel = nat

section \<open>State\<close>

datatype session_limit_error = GlobalCapacity | PerUser | PerNode

fun limit_message :: "session_limit_error \<Rightarrow> string" where
  "limit_message GlobalCapacity = ''maximum terminal session count reached''"
| "limit_message PerUser = ''maximum terminal sessions per user reached''"
| "limit_message PerNode = ''maximum terminal sessions per node reached''"

record terminal_session_config =
  max_sessions :: nat
  max_sessions_per_user :: nat
  max_sessions_per_node :: nat
  idle_timeout :: duration
  max_duration :: duration
  disconnect_grace :: duration

definition OUTPUT_REPLAY_CAPACITY :: nat where
  "OUTPUT_REPLAY_CAPACITY = 128"

datatype terminal_backend = Local pty_handle | Remote command_channel

record remote_terminal_session =
  rts_command_tx :: command_channel
  rts_node_id :: string
  rts_transport_status :: terminal_transport_status

record tracked_session =
  ts_backend :: terminal_backend
  ts_output_tx :: output_channel
  ts_replay :: "terminal_server_message list"
  ts_next_output_sequence :: u64
  ts_reconnect_token :: terminal_reconnect_token
  ts_state :: terminal_session_state
  ts_last_activity :: instant
  ts_created_at :: instant
  ts_size :: terminal_size
  ts_actor_email :: string
  ts_node_id :: "string option"
  ts_transport_status :: "terminal_transport_status option"

record terminal_reattach_target =
  rt_backend :: terminal_backend
  rt_output_rx :: output_channel
  rt_replay :: "terminal_server_message list"
  rt_size :: terminal_size
  rt_reconnect_token :: terminal_reconnect_token
  rt_node_id :: "string option"
  rt_transport_status :: "terminal_transport_status option"

record terminal_session_summary =
  sum_session_id :: string
  sum_node_id :: "string option"
  sum_state :: string
  sum_cols :: u16
  sum_rows :: u16
  sum_age_secs :: nat
  sum_idle_secs :: nat
  sum_transport_status :: "terminal_transport_status option"

record terminal_session_insert =
  ins_session_id :: terminal_session_id
  ins_backend :: terminal_backend
  ins_size :: terminal_size
  ins_config :: terminal_session_config
  ins_actor_email :: string
  ins_node_id :: "string option"
  ins_transport_status :: "terminal_transport_status option"

type_synonym session_map = "(terminal_session_id, tracked_session) hmap"

record session_registry =
  tr_poisoned :: bool
  tr_sessions :: session_map

definition registry_default :: session_registry where
  "registry_default = \<lparr>tr_poisoned = False, tr_sessions = []\<rparr>"

section \<open>Operations\<close>

definition count_sessions :: "(tracked_session \<Rightarrow> bool) \<Rightarrow> session_map \<Rightarrow> nat" where
  "count_sessions P m = length (filter (\<lambda>e. P (snd e)) m)"

definition live_of_user :: "string \<Rightarrow> tracked_session \<Rightarrow> bool" where
  "live_of_user u s = (ts_actor_email s = u \<and> \<not> is_terminal (ts_state s))"

definition live_of_node :: "string option \<Rightarrow> tracked_session \<Rightarrow> bool" where
  "live_of_node n s = (ts_node_id s = n \<and> \<not> is_terminal (ts_state s))"

definition new_tracked ::
  "terminal_session_insert \<Rightarrow> output_channel \<Rightarrow> string \<Rightarrow> instant \<Rightarrow> tracked_session" where
  "new_tracked r ch tok now =
     \<lparr>ts_backend = ins_backend r, ts_output_tx = ch, ts_replay = [],
      ts_next_output_sequence = 1, ts_reconnect_token = tok, ts_state = Starting,
      ts_last_activity = now, ts_created_at = now, ts_size = ins_size r,
      ts_actor_email = ins_actor_email r, ts_node_id = ins_node_id r,
      ts_transport_status = ins_transport_status r\<rparr>"

definition insert_backend ::
  "session_registry \<Rightarrow> terminal_session_insert \<Rightarrow> output_channel \<Rightarrow> string \<Rightarrow> instant
   \<Rightarrow> (session_limit_error + output_channel) \<times> session_registry" where
  "insert_backend reg r ch tok now =
     (let m = tr_sessions reg; c = ins_config r in
      if tr_poisoned reg then (Inl GlobalCapacity, reg)
      else if max_sessions c \<le> length m then (Inl GlobalCapacity, reg)
      else if max_sessions_per_user c \<le> count_sessions (live_of_user (ins_actor_email r)) m
      then (Inl PerUser, reg)
      else if max_sessions_per_node c \<le> count_sessions (live_of_node (ins_node_id r)) m
      then (Inl PerNode, reg)
      else (Inr ch,
            reg\<lparr>tr_sessions := hm_put (ins_session_id r) (new_tracked r ch tok now) m\<rparr>))"

definition insert_local ::
  "session_registry \<Rightarrow> terminal_session_id \<Rightarrow> pty_handle \<Rightarrow> terminal_size
   \<Rightarrow> terminal_session_config \<Rightarrow> string \<Rightarrow> string option \<Rightarrow> output_channel \<Rightarrow> string \<Rightarrow> instant
   \<Rightarrow> (session_limit_error + output_channel) \<times> session_registry" where
  "insert_local reg sid h sz c actor nid ch tok now =
     insert_backend reg
       \<lparr>ins_session_id = sid, ins_backend = Local h, ins_size = sz, ins_config = c,
        ins_actor_email = actor, ins_node_id = nid, ins_transport_status = None\<rparr> ch tok now"

definition insert_remote ::
  "session_registry \<Rightarrow> terminal_session_id \<Rightarrow> remote_terminal_session \<Rightarrow> terminal_size
   \<Rightarrow> terminal_session_config \<Rightarrow> string \<Rightarrow> output_channel \<Rightarrow> string \<Rightarrow> instant
   \<Rightarrow> (session_limit_error + output_channel) \<times> session_registry" where
  "insert_remote reg sid remote sz c actor ch tok now =
     insert_backend reg
       \<lparr>ins_session_id = sid, ins_backend = Remote (rts_command_tx remote), ins_size = sz,
        ins_config = c, ins_actor_email = actor, ins_node_id = Some (rts_node_id remote),
        ins_transport_status = Some (rts_transport_status remote)\<rparr> ch tok now"

text \<open>\<open>if let Ok(mut sessions) = lock() { if let Some(session) = get_mut(id) { .. } }\<close>.\<close>

definition update_session ::
  "session_registry \<Rightarrow> terminal_session_id \<Rightarrow> (tracked_session \<Rightarrow> tracked_session)
   \<Rightarrow> session_registry" where
  "update_session reg sid f =
     (if tr_poisoned reg then reg
      else (case hm_get (tr_sessions reg) sid of
              None \<Rightarrow> reg
            | Some s \<Rightarrow> reg\<lparr>tr_sessions := hm_put sid (f s) (tr_sessions reg)\<rparr>))"

text \<open>\<open>lock().ok().and_then(|sessions| sessions.get(id) ..)\<close>.\<close>

definition lookup_session ::
  "session_registry \<Rightarrow> terminal_session_id \<Rightarrow> tracked_session option" where
  "lookup_session reg sid = (if tr_poisoned reg then None else hm_get (tr_sessions reg) sid)"

definition set_state ::
  "session_registry \<Rightarrow> terminal_session_id \<Rightarrow> terminal_session_state \<Rightarrow> session_registry" where
  "set_state reg sid st =
     update_session reg sid
       (\<lambda>s. if \<not> can_transition_to (ts_state s) st \<and> ts_state s \<noteq> st then s
            else s\<lparr>ts_state := st\<rparr>)"

definition detach :: "session_registry \<Rightarrow> terminal_session_id \<Rightarrow> session_registry" where
  "detach reg sid = set_state reg sid Detached"

definition reattach ::
  "session_registry \<Rightarrow> terminal_session_id \<Rightarrow> terminal_reconnect_token \<Rightarrow> string
   \<Rightarrow> string \<Rightarrow> instant \<Rightarrow> terminal_reattach_target option \<times> session_registry" where
  "reattach reg sid token actor newtok now =
     (if tr_poisoned reg then (None, reg)
      else (case hm_get (tr_sessions reg) sid of
              None \<Rightarrow> (None, reg)
            | Some s \<Rightarrow>
                if ts_actor_email s \<noteq> actor \<or> \<not> is_reattachable (ts_state s) then (None, reg)
                else if ts_reconnect_token s \<noteq> token then (None, reg)
                else
                  (Some \<lparr>rt_backend = ts_backend s, rt_output_rx = ts_output_tx s,
                         rt_replay = ts_replay s, rt_size = ts_size s,
                         rt_reconnect_token = newtok, rt_node_id = ts_node_id s,
                         rt_transport_status = ts_transport_status s\<rparr>,
                   reg\<lparr>tr_sessions := hm_put sid
                         (s\<lparr>ts_reconnect_token := newtok, ts_state := Reattaching,
                            ts_last_activity := now\<rparr>) (tr_sessions reg)\<rparr>)))"

definition reconnect_token ::
  "session_registry \<Rightarrow> terminal_session_id \<Rightarrow> terminal_reconnect_token option" where
  "reconnect_token reg sid = map_option ts_reconnect_token (lookup_session reg sid)"

definition owner_matches :: "session_registry \<Rightarrow> terminal_session_id \<Rightarrow> string \<Rightarrow> bool" where
  "owner_matches reg sid actor =
     (case lookup_session reg sid of None \<Rightarrow> False | Some s \<Rightarrow> ts_actor_email s = actor)"

definition session_node_id :: "session_registry \<Rightarrow> terminal_session_id \<Rightarrow> string option" where
  "session_node_id reg sid = Option.bind (lookup_session reg sid) ts_node_id"

definition touch :: "session_registry \<Rightarrow> terminal_session_id \<Rightarrow> instant \<Rightarrow> session_registry" where
  "touch reg sid now = update_session reg sid (\<lambda>s. s\<lparr>ts_last_activity := now\<rparr>)"

definition is_idle ::
  "session_registry \<Rightarrow> terminal_session_id \<Rightarrow> duration \<Rightarrow> instant \<Rightarrow> bool" where
  "is_idle reg sid timeout now =
     (if tr_poisoned reg then True
      else (case hm_get (tr_sessions reg) sid of
              None \<Rightarrow> True
            | Some s \<Rightarrow> timeout \<le> elapsed now (ts_last_activity s)))"

definition set_size ::
  "session_registry \<Rightarrow> terminal_session_id \<Rightarrow> terminal_size \<Rightarrow> session_registry" where
  "set_size reg sid sz = update_session reg sid (\<lambda>s. s\<lparr>ts_size := sz\<rparr>)"

text \<open>The replay buffer, a \<open>VecDeque\<close>, oldest message first.\<close>

definition push_replay :: "tracked_session \<Rightarrow> terminal_server_message \<Rightarrow> tracked_session" where
  "push_replay s msg =
     (let q = (if length (ts_replay s) = OUTPUT_REPLAY_CAPACITY then tl (ts_replay s)
               else ts_replay s)
      in s\<lparr>ts_replay := q @ [msg]\<rparr>)"

definition record_output ::
  "session_registry \<Rightarrow> terminal_session_id \<Rightarrow> string
   \<Rightarrow> terminal_server_message option \<times> session_registry" where
  "record_output reg sid dat =
     (case lookup_session reg sid of
        None \<Rightarrow> (None, reg)
      | Some s \<Rightarrow>
          let msg = ServerOutput sid (ts_next_output_sequence s) dat;
              s' = s\<lparr>ts_next_output_sequence :=
                       saturating_add64 (ts_next_output_sequence s) 1\<rparr>
          in (Some msg,
              reg\<lparr>tr_sessions := hm_put sid (push_replay s' msg) (tr_sessions reg)\<rparr>))"

fun message_session :: "terminal_server_message \<Rightarrow> terminal_session_id option" where
  "message_session (ServerOutput sid _ _) = Some sid"
| "message_session (ServerExited sid _) = Some sid"
| "message_session (ServerDetached sid) = Some sid"
| "message_session (ServerReattached sid _ _ _ _) = Some sid"
| "message_session (ServerStarted sid _ _ _ _) = Some sid"
| "message_session (ServerError sid _) = sid"
| "message_session (ServerPong _) = None"

definition remember_server_message ::
  "session_registry \<Rightarrow> terminal_server_message \<Rightarrow> session_registry" where
  "remember_server_message reg msg =
     (case message_session msg of
        None \<Rightarrow> reg
      | Some sid \<Rightarrow> update_session reg sid (\<lambda>s. push_replay s msg))"

definition close_backend :: "terminal_backend \<Rightarrow> pty_handle list" where
  "close_backend b = (case b of Local h \<Rightarrow> [h] | Remote _ \<Rightarrow> [])"

definition remove_tracked ::
  "session_map \<Rightarrow> terminal_session_id
   \<Rightarrow> tracked_session option \<times> session_map \<times> pty_handle list" where
  "remove_tracked m sid =
     (case hm_get m sid of
        None \<Rightarrow> (None, m, [])
      | Some s \<Rightarrow> (Some s, hm_rem sid m, close_backend (ts_backend s)))"

definition terminate_session ::
  "session_registry \<Rightarrow> terminal_session_id
   \<Rightarrow> terminal_backend option \<times> session_registry \<times> pty_handle list" where
  "terminate_session reg sid =
     (if tr_poisoned reg then (None, reg, [])
      else
        let m = (case hm_get (tr_sessions reg) sid of
                   None \<Rightarrow> tr_sessions reg
                 | Some s \<Rightarrow> hm_put sid (s\<lparr>ts_state := Terminating\<rparr>) (tr_sessions reg));
            (r, m', closes) = remove_tracked m sid
        in (map_option ts_backend r, reg\<lparr>tr_sessions := m'\<rparr>, closes))"

definition remove_session ::
  "session_registry \<Rightarrow> terminal_session_id \<Rightarrow> session_registry \<times> pty_handle list" where
  "remove_session reg sid =
     (if tr_poisoned reg then (reg, [])
      else let (r, m', closes) = remove_tracked (tr_sessions reg) sid
           in (reg\<lparr>tr_sessions := m'\<rparr>, closes))"

definition session_state ::
  "session_registry \<Rightarrow> terminal_session_id \<Rightarrow> terminal_session_state option" where
  "session_state reg sid = map_option ts_state (lookup_session reg sid)"

definition is_exceeded_max_duration ::
  "session_registry \<Rightarrow> terminal_session_id \<Rightarrow> duration \<Rightarrow> instant \<Rightarrow> bool" where
  "is_exceeded_max_duration reg sid d now =
     (if tr_poisoned reg then True
      else (case hm_get (tr_sessions reg) sid of
              None \<Rightarrow> True
            | Some s \<Rightarrow> d \<le> elapsed now (ts_created_at s)))"

fun state_name :: "terminal_session_state \<Rightarrow> string" where
  "state_name Created = ''created''"
| "state_name Starting = ''starting''"
| "state_name Active = ''active''"
| "state_name Detached = ''detached''"
| "state_name Reattaching = ''reattaching''"
| "state_name Terminating = ''terminating''"
| "state_name Terminated = ''terminated''"
| "state_name Failed = ''failed''"
| "state_name Expired = ''expired''"

definition list_sessions_for_actor ::
  "session_registry \<Rightarrow> string \<Rightarrow> terminal_session_state list \<Rightarrow> instant
   \<Rightarrow> terminal_session_summary list" where
  "list_sessions_for_actor reg actor states now =
     (if tr_poisoned reg then []
      else map (\<lambda>(sid, s).
             \<lparr>sum_session_id = sid, sum_node_id = ts_node_id s, sum_state = state_name (ts_state s),
              sum_cols = size_cols (ts_size s), sum_rows = size_rows (ts_size s),
              sum_age_secs = as_secs (elapsed now (ts_created_at s)),
              sum_idle_secs = as_secs (elapsed now (ts_last_activity s)),
              sum_transport_status = ts_transport_status s\<rparr>)
           (filter (\<lambda>(sid, s). ts_actor_email s = actor \<and> ts_state s \<in> set states)
              (tr_sessions reg)))"

type_synonym closed_session =
  "terminal_session_id \<times> string \<times> output_channel \<times> terminal_backend"

text \<open>The loop both bulk removals share: mark each session, remove it, close its backend.\<close>

fun drain_ids ::
  "terminal_session_state \<Rightarrow> terminal_session_id list \<Rightarrow> session_map
   \<Rightarrow> closed_session list \<times> session_map \<times> pty_handle list" where
  "drain_ids st [] m = ([], m, [])"
| "drain_ids st (sid # sids) m =
     (case hm_get m sid of
        None \<Rightarrow> drain_ids st sids m
      | Some s \<Rightarrow>
          (case remove_tracked (hm_put sid (s\<lparr>ts_state := st\<rparr>) m) sid of
             (None, m', c) \<Rightarrow>
               (let (out, m'', cs) = drain_ids st sids m' in (out, m'', c @ cs))
           | (Some s', m', c) \<Rightarrow>
               (let (out, m'', cs) = drain_ids st sids m'
                in ((sid, ts_actor_email s', ts_output_tx s', ts_backend s') # out,
                    m'', c @ cs))))"

definition is_expired_session :: "duration \<Rightarrow> duration \<Rightarrow> instant \<Rightarrow> tracked_session \<Rightarrow> bool" where
  "is_expired_session maxd idle now s =
     (\<not> is_terminal (ts_state s)
      \<and> (maxd \<le> elapsed now (ts_created_at s)
         \<or> ts_state s = Detached \<and> idle \<le> elapsed now (ts_last_activity s)))"

definition drain_expired ::
  "session_registry \<Rightarrow> duration \<Rightarrow> duration \<Rightarrow> instant
   \<Rightarrow> closed_session list \<times> session_registry \<times> pty_handle list" where
  "drain_expired reg maxd idle now =
     (if tr_poisoned reg then ([], reg, [])
      else
        let ids = map fst (filter (\<lambda>e. is_expired_session maxd idle now (snd e))
                             (tr_sessions reg));
            (out, m', closes) = drain_ids Expired ids (tr_sessions reg)
        in (out, reg\<lparr>tr_sessions := m'\<rparr>, closes))"

definition close_sessions_for_node ::
  "session_registry \<Rightarrow> string \<Rightarrow> closed_session list \<times> session_registry \<times> pty_handle list" where
  "close_sessions_for_node reg nid =
     (if tr_poisoned reg then ([], reg, [])
      else
        let ids = map fst (filter (\<lambda>e. live_of_node (Some nid) (snd e)) (tr_sessions reg));
            (out, m', closes) = drain_ids Terminating ids (tr_sessions reg)
        in (out, reg\<lparr>tr_sessions := m'\<rparr>, closes))"

text \<open>\<open>Drop\<close> of the last clone of the registry.\<close>

definition drop_registry :: "session_registry \<Rightarrow> nat \<Rightarrow> session_registry \<times> pty_handle list" where
  "drop_registry reg strong_count =
     (if strong_count \<noteq> 1 then (reg, [])
      else if tr_poisoned reg then (reg, [])
      else (reg\<lparr>tr_sessions := []\<rparr>,
            concat (map (\<lambda>e. close_backend (ts_backend (snd e))) (tr_sessions reg))))"

section \<open>Bulk removal\<close>

definition closed_of :: "terminal_session_id \<times> tracked_session \<Rightarrow> closed_session" where
  "closed_of e = (fst e, ts_actor_email (snd e), ts_output_tx (snd e), ts_backend (snd e))"

definition handles_of :: "terminal_session_id \<times> tracked_session \<Rightarrow> pty_handle list" where
  "handles_of e = close_backend (ts_backend (snd e))"

lemma hm_rem_filter: "hm_rem k m = filter (\<lambda>e. fst e \<noteq> k) m"
  by (auto simp: hm_rem_def AList.delete_eq intro!: filter_cong)

lemma hm_rem_put_same: "hm_rem k (hm_put k v m) = hm_rem k m"
  by (simp add: hm_rem_def hm_put_def delete_update_same)

lemma hm_get_filter_keys:
  "k \<notin> K \<Longrightarrow> hm_get (filter (\<lambda>e. fst e \<notin> K) m) k = hm_get m k"
  by (induction m) (auto simp: hm_get_def)

lemma hm_get_in: "hm_ok m \<Longrightarrow> e \<in> set m \<Longrightarrow> hm_get m (fst e) = Some (snd e)"
  by (cases e) (simp add: hm.entries_get [symmetric])

lemma drain_ids_step:
  assumes "hm_get m sid = Some s"
  shows "drain_ids st (sid # sids) m =
    (let (out, m', cs) = drain_ids st sids (hm_rem sid m)
     in (closed_of (sid, s) # out, m', handles_of (sid, s) @ cs))"
  using assms
  by (simp add: remove_tracked_def hm_rem_put_same closed_of_def handles_of_def)

lemma drain_ids_spec:
  "hm_ok m \<Longrightarrow> distinct (map fst es) \<Longrightarrow> set es \<subseteq> set m \<Longrightarrow>
   drain_ids st (map fst es) m =
     (map closed_of es, filter (\<lambda>e. fst e \<notin> fst ` set es) m, concat (map handles_of es))"
proof (induction es arbitrary: m)
  case Nil
  then show ?case by simp
next
  case (Cons e es)
  have get: "hm_get m (fst e) = Some (snd e)"
    using Cons.prems by (simp add: hm_get_in)
  have sub: "set es \<subseteq> set (hm_rem (fst e) m)"
  proof
    fix x
    assume "x \<in> set es"
    moreover from this have "fst x \<noteq> fst e"
      using Cons.prems(2) by (metis distinct.simps(2) image_eqI list.simps(9) set_map)
    ultimately show "x \<in> set (hm_rem (fst e) m)"
      using Cons.prems(3) by (auto simp: hm_rem_filter)
  qed
  have "drain_ids st (map fst es) (hm_rem (fst e) m) =
     (map closed_of es, filter (\<lambda>x. fst x \<notin> fst ` set es) (hm_rem (fst e) m),
      concat (map handles_of es))"
    using Cons.IH [OF hm.ok_rem [OF Cons.prems(1)] _ sub] Cons.prems(2) by simp
  then show ?case
    using drain_ids_step [OF get, of st "map fst es"]
    by (simp add: hm_rem_filter conj_commute)
qed

lemma filter_keys_of_filter:
  assumes "hm_ok m"
  shows "filter (\<lambda>e. fst e \<notin> fst ` set (filter P m)) m = filter (\<lambda>e. \<not> P e) m"
proof (rule filter_cong [OF refl])
  fix e
  assume e: "e \<in> set m"
  have "fst e \<in> fst ` set (filter P m) \<longleftrightarrow> P e"
  proof
    assume "fst e \<in> fst ` set (filter P m)"
    then obtain e' where "e' \<in> set m" "P e'" "fst e' = fst e"
      by auto
    then have "e' = e"
      using hm_get_in [OF assms e] hm_get_in [OF assms, of e'] by (simp add: prod_eq_iff)
    with \<open>P e'\<close> show "P e" by simp
  qed (use e in auto)
  then show "(fst e \<notin> fst ` set (filter P m)) = (\<not> P e)"
    by simp
qed

lemma drain_matching:
  assumes "hm_ok m"
  shows "drain_ids st (map fst (filter P m)) m =
    (map closed_of (filter P m), filter (\<lambda>e. \<not> P e) m, concat (map handles_of (filter P m)))"
  using drain_ids_spec [OF assms, of "filter P m" st] distinct_map_filter [of fst m P] assms
  by (simp only: filter_keys_of_filter hm_ok_def filter_is_subset)

lemma drain_expired_eq:
  assumes "hm_ok (tr_sessions reg)" and "\<not> tr_poisoned reg"
  shows "drain_expired reg maxd idle now =
    (let P = \<lambda>e. is_expired_session maxd idle now (snd e) in
     (map closed_of (filter P (tr_sessions reg)),
      reg\<lparr>tr_sessions := filter (\<lambda>e. \<not> P e) (tr_sessions reg)\<rparr>,
      concat (map handles_of (filter P (tr_sessions reg)))))"
  using assms by (simp add: drain_expired_def drain_matching Let_def)

lemma close_sessions_for_node_eq:
  assumes "hm_ok (tr_sessions reg)" and "\<not> tr_poisoned reg"
  shows "close_sessions_for_node reg nid =
    (let P = \<lambda>e. live_of_node (Some nid) (snd e) in
     (map closed_of (filter P (tr_sessions reg)),
      reg\<lparr>tr_sessions := filter (\<lambda>e. \<not> P e) (tr_sessions reg)\<rparr>,
      concat (map handles_of (filter P (tr_sessions reg)))))"
  using assms by (simp add: close_sessions_for_node_def drain_matching Let_def)

section \<open>The registry as a step relation\<close>

fun is_output :: "terminal_server_message \<Rightarrow> bool" where
  "is_output (ServerOutput _ _ _) = True"
| "is_output _ = False"

text \<open>What the handlers do to the registry, labelled with the PTY sessions closed: new sessions
  get an unused identifier, output goes through \<open>record_output\<close>, and other messages through
  \<open>remember_server_message\<close>. A panic may poison the mutex at any time.\<close>

inductive registry_step ::
  "terminal_session_config \<Rightarrow> session_registry \<Rightarrow> pty_handle list \<Rightarrow> session_registry \<Rightarrow> bool"
  for c where
  rs_insert: "ins_config r = c \<Longrightarrow> hm_get (tr_sessions reg) (ins_session_id r) = None \<Longrightarrow>
     registry_step c reg [] (snd (insert_backend reg r ch tok now))"
| rs_set_state: "registry_step c reg [] (set_state reg sid st)"
| rs_reattach: "registry_step c reg [] (snd (reattach reg sid tok actor newtok now))"
| rs_touch: "registry_step c reg [] (touch reg sid now)"
| rs_set_size: "registry_step c reg [] (set_size reg sid sz)"
| rs_output: "registry_step c reg [] (snd (record_output reg sid dat))"
| rs_remember: "\<not> is_output msg \<Longrightarrow> registry_step c reg [] (remember_server_message reg msg)"
| rs_terminate: "registry_step c reg (snd (snd (terminate_session reg sid)))
     (fst (snd (terminate_session reg sid)))"
| rs_remove: "registry_step c reg (snd (remove_session reg sid)) (fst (remove_session reg sid))"
| rs_drain: "registry_step c reg (snd (snd (drain_expired reg maxd idle now)))
     (fst (snd (drain_expired reg maxd idle now)))"
| rs_close_node: "registry_step c reg (snd (snd (close_sessions_for_node reg nid)))
     (fst (snd (close_sessions_for_node reg nid)))"
| rs_poison: "registry_step c reg [] (reg\<lparr>tr_poisoned := True\<rparr>)"

inductive registry_reachable :: "terminal_session_config \<Rightarrow> session_registry \<Rightarrow> bool" for c where
  reach_default: "registry_reachable c registry_default"
| reach_step: "registry_reachable c reg \<Longrightarrow> registry_step c reg closes reg' \<Longrightarrow>
     registry_reachable c reg'"

text \<open>Every step either inserts one new session, rewrites one session in place, or keeps a
  subset of the sessions.\<close>

definition session_update :: "terminal_session_id \<Rightarrow> tracked_session \<Rightarrow> tracked_session \<Rightarrow> bool" where
  "session_update sid s s' =
     ((\<exists>st. (can_transition_to (ts_state s) st \<or> ts_state s = st) \<and> s' = s\<lparr>ts_state := st\<rparr>)
      \<or> (\<exists>tok now. is_reattachable (ts_state s) \<and>
            s' = s\<lparr>ts_reconnect_token := tok, ts_state := Reattaching, ts_last_activity := now\<rparr>)
      \<or> (\<exists>now. s' = s\<lparr>ts_last_activity := now\<rparr>)
      \<or> (\<exists>sz. s' = s\<lparr>ts_size := sz\<rparr>)
      \<or> (\<exists>msg. \<not> is_output msg \<and> message_session msg = Some sid
            \<and> s' = push_replay s msg))"

definition session_output :: "terminal_session_id \<Rightarrow> tracked_session \<Rightarrow> tracked_session \<Rightarrow> bool" where
  "session_output sid s s' =
     (\<exists>dat. s' = push_replay
        (s\<lparr>ts_next_output_sequence := saturating_add64 (ts_next_output_sequence s) 1\<rparr>)
        (ServerOutput sid (ts_next_output_sequence s) dat))"

lemma update_session_cases:
  "update_session reg sid f = reg \<or>
   (\<exists>s. hm_get (tr_sessions reg) sid = Some s \<and>
      update_session reg sid f = reg\<lparr>tr_sessions := hm_put sid (f s) (tr_sessions reg)\<rparr>)"
  by (auto simp: update_session_def split: option.splits)

lemma update_session_intro:
  assumes "Q reg"
    and "\<And>s. hm_get (tr_sessions reg) sid = Some s \<Longrightarrow>
           Q (reg\<lparr>tr_sessions := hm_put sid (f s) (tr_sessions reg)\<rparr>)"
  shows "Q (update_session reg sid f)"
  using update_session_cases [of reg sid f] assms by auto

lemma filter_key_Some:
  "hm_ok m \<Longrightarrow> hm_get m k = Some v \<Longrightarrow> filter (\<lambda>e. fst e = k) m = [(k, v)]"
proof (induction m)
  case (Cons e m)
  show ?case
  proof (cases "fst e = k")
    case True
    then have "filter (\<lambda>e. fst e = k) m = []"
      using Cons.prems(1) by (auto simp: hm_ok_def filter_empty_conv image_iff)
    with True Cons.prems show ?thesis
      by (cases e) (simp add: hm_get_def)
  next
    case False
    with Cons show ?thesis
      by (cases e) (auto simp: hm_get_def hm_ok_def)
  qed
qed simp

lemma filter_key_None: "hm_get m k = None \<Longrightarrow> filter (\<lambda>e. fst e = k) m = []"
  by (induction m) (auto simp: hm_get_def split: if_splits)

definition registry_shape ::
  "terminal_session_config \<Rightarrow> session_map \<Rightarrow> pty_handle list \<Rightarrow> session_map \<Rightarrow> bool" where
  "registry_shape c m closes m' =
     ((closes = [] \<and> m' = m)
      \<or> (\<exists>r ch tok now. closes = [] \<and> ins_config r = c \<and> hm_get m (ins_session_id r) = None
           \<and> length m < max_sessions c
           \<and> count_sessions (live_of_user (ins_actor_email r)) m < max_sessions_per_user c
           \<and> count_sessions (live_of_node (ins_node_id r)) m < max_sessions_per_node c
           \<and> m' = hm_put (ins_session_id r) (new_tracked r ch tok now) m)
      \<or> (\<exists>sid s s'. closes = [] \<and> hm_get m sid = Some s
           \<and> (session_update sid s s' \<or> session_output sid s s') \<and> m' = hm_put sid s' m)
      \<or> (\<exists>P. closes = concat (map handles_of (filter P m)) \<and> m' = filter (\<lambda>e. \<not> P e) m))"

lemma registry_shape_same: "registry_shape c m [] m"
  by (simp add: registry_shape_def)

lemma registry_shape_put:
  "hm_get m sid = Some s \<Longrightarrow> session_update sid s s' \<or> session_output sid s s' \<Longrightarrow>
   registry_shape c m [] (hm_put sid s' m)"
  unfolding registry_shape_def by blast

lemma registry_shape_insert:
  "ins_config r = c \<Longrightarrow> hm_get m (ins_session_id r) = None \<Longrightarrow> length m < max_sessions c \<Longrightarrow>
   count_sessions (live_of_user (ins_actor_email r)) m < max_sessions_per_user c \<Longrightarrow>
   count_sessions (live_of_node (ins_node_id r)) m < max_sessions_per_node c \<Longrightarrow>
   registry_shape c m [] (hm_put (ins_session_id r) (new_tracked r ch tok now) m)"
  unfolding registry_shape_def by blast

lemma registry_shape_filter:
  "registry_shape c m (concat (map handles_of (filter P m))) (filter (\<lambda>e. \<not> P e) m)"
  unfolding registry_shape_def by blast

lemma session_update_intros:
  "can_transition_to (ts_state s) st \<or> ts_state s = st \<Longrightarrow> session_update sid s (s\<lparr>ts_state := st\<rparr>)"
  "is_reattachable (ts_state s) \<Longrightarrow> session_update sid s
     (s\<lparr>ts_reconnect_token := tok, ts_state := Reattaching, ts_last_activity := now\<rparr>)"
  "session_update sid s (s\<lparr>ts_last_activity := now\<rparr>)"
  "session_update sid s (s\<lparr>ts_size := sz\<rparr>)"
  "\<not> is_output msg \<Longrightarrow> message_session msg = Some sid \<Longrightarrow> session_update sid s (push_replay s msg)"
  unfolding session_update_def by blast+

lemma session_update_refl: "session_update sid s s"
  using session_update_intros(1) [of s "ts_state s" sid] by simp

lemma registry_shape_update:
  assumes "\<And>s. session_update sid s (f s)"
  shows "registry_shape c (tr_sessions reg) [] (tr_sessions (update_session reg sid f))"
  by (rule update_session_intro) (use assms in \<open>simp_all add: registry_shape_same registry_shape_put\<close>)

lemma registry_shape_remove:
  assumes "hm_ok m"
  shows "registry_shape c m (snd (snd (remove_tracked m sid))) (fst (snd (remove_tracked m sid)))"
proof (cases "hm_get m sid")
  case None
  then show ?thesis by (simp add: registry_shape_same remove_tracked_def)
next
  case (Some s)
  then have "snd (snd (remove_tracked m sid)) = concat (map handles_of (filter (\<lambda>e. fst e = sid) m))"
    and "fst (snd (remove_tracked m sid)) = filter (\<lambda>e. fst e \<noteq> sid) m"
    using filter_key_Some [OF assms Some]
    by (simp_all add: remove_tracked_def handles_of_def hm_rem_filter)
  then show ?thesis
    using registry_shape_filter [of c m "\<lambda>e. fst e = sid"] by simp
qed

lemma terminate_session_eq_remove:
  "fst (snd (terminate_session reg sid)) = fst (remove_session reg sid)"
  "snd (snd (terminate_session reg sid)) = snd (remove_session reg sid)"
  "\<not> tr_poisoned reg \<Longrightarrow>
     fst (terminate_session reg sid) = map_option ts_backend (hm_get (tr_sessions reg) sid)"
  by (simp_all add: terminate_session_def remove_session_def remove_tracked_def hm_rem_put_same
      split: option.splits prod.splits)

lemma remove_session_shape:
  "hm_ok (tr_sessions reg) \<Longrightarrow>
   registry_shape c (tr_sessions reg) (snd (remove_session reg sid))
     (tr_sessions (fst (remove_session reg sid)))"
proof (cases "tr_poisoned reg")
  case True
  then show ?thesis by (simp add: remove_session_def registry_shape_same)
next
  case False
  then have "tr_sessions (fst (remove_session reg sid)) = fst (snd (remove_tracked (tr_sessions reg) sid))"
    and "snd (remove_session reg sid) = snd (snd (remove_tracked (tr_sessions reg) sid))"
    by (simp_all add: remove_session_def case_prod_beta)
  moreover assume "hm_ok (tr_sessions reg)"
  ultimately show ?thesis
    using registry_shape_remove [of "tr_sessions reg" c sid] by simp
qed

lemma registry_step_shape:
  assumes "registry_step c reg closes reg'" and "hm_ok (tr_sessions reg)"
  shows "registry_shape c (tr_sessions reg) closes (tr_sessions reg')"
  using assms(1)
proof cases
  case (rs_insert r ch tok now)
  then show ?thesis
    by (simp add: insert_backend_def Let_def registry_shape_same registry_shape_insert)
next
  case (rs_set_state sid st)
  have "session_update sid s (if \<not> can_transition_to (ts_state s) st \<and> ts_state s \<noteq> st then s
            else s\<lparr>ts_state := st\<rparr>)" for s
    by (simp add: session_update_refl session_update_intros)
  with rs_set_state show ?thesis
    by (simp add: set_state_def registry_shape_update)
next
  case (rs_reattach sid tok actor newtok now)
  then show ?thesis
    by (cases "hm_get (tr_sessions reg) sid")
      (simp_all add: reattach_def registry_shape_same registry_shape_put session_update_intros)
next
  case (rs_touch sid now)
  then show ?thesis
    by (simp add: touch_def registry_shape_update session_update_intros)
next
  case (rs_set_size sid sz)
  then show ?thesis
    by (simp add: set_size_def registry_shape_update session_update_intros)
next
  case (rs_output sid dat)
  then show ?thesis
    by (cases "hm_get (tr_sessions reg) sid")
      (auto simp: record_output_def lookup_session_def Let_def session_output_def
        registry_shape_same intro!: registry_shape_put)
next
  case (rs_remember msg)
  then show ?thesis
    by (cases "message_session msg")
      (simp_all add: remember_server_message_def registry_shape_same registry_shape_update
        session_update_intros)
next
  case (rs_terminate sid)
  then show ?thesis
    using remove_session_shape [OF assms(2)] by (simp add: terminate_session_eq_remove)
next
  case (rs_remove sid)
  then show ?thesis
    using remove_session_shape [OF assms(2)] by simp
next
  case (rs_drain maxd idle now)
  then show ?thesis
    using drain_expired_eq [OF assms(2), of maxd idle now]
    by (cases "tr_poisoned reg")
      (simp_all add: drain_expired_def registry_shape_same registry_shape_filter Let_def)
next
  case (rs_close_node nid)
  then show ?thesis
    using close_sessions_for_node_eq [OF assms(2), of nid]
    by (cases "tr_poisoned reg")
      (simp_all add: close_sessions_for_node_def registry_shape_same registry_shape_filter Let_def)
next
  case rs_poison
  then show ?thesis
    by (simp add: registry_shape_same)
qed

text \<open>What is preserved by the shapes is an invariant. \<open>I\<close> is a property of a session and its
  identifier that a new session has and that every update and every output keeps.\<close>

locale session_invariant =
  fixes I :: "terminal_session_id \<Rightarrow> tracked_session \<Rightarrow> bool"
  assumes I_new: "I (ins_session_id r) (new_tracked r ch tok now)"
    and I_update: "I sid s \<Longrightarrow> session_update sid s s' \<Longrightarrow> I sid s'"
    and I_output: "I sid s \<Longrightarrow> session_output sid s s' \<Longrightarrow> I sid s'"
begin

lemma shape_preserves:
  assumes "registry_shape c m closes m'"
    and "\<And>sid s. (sid, s) \<in> set m \<Longrightarrow> I sid s" and "hm_ok m"
  shows "(sid, s) \<in> set m' \<Longrightarrow> I sid s"
proof -
  have all: "\<And>sid s. hm_get m sid = Some s \<Longrightarrow> I sid s"
    using assms(2) by (simp add: hm.entries_get [OF assms(3)])
  have put: "I sid s" if "hm_get (hm_put k v m) sid = Some s" and "I k v" for k v sid s
    using that all by (simp split: if_splits)
  assume s: "(sid, s) \<in> set m'"
  from assms(1) consider "m' = m"
    | r ch tok now where "m' = hm_put (ins_session_id r) (new_tracked r ch tok now) m"
    | k v v' where "hm_get m k = Some v" "session_update k v v' \<or> session_output k v v'"
        "m' = hm_put k v' m"
    | P where "m' = filter (\<lambda>e. \<not> P e) m"
    unfolding registry_shape_def by blast
  then show ?thesis
  proof cases
    case 1
    with s assms(2) show ?thesis by simp
  next
    case (2 r ch tok now)
    with s put [OF _ I_new] show ?thesis
      by (simp add: hm.entries_get [OF hm.ok_put [OF assms(3)]])
  next
    case (3 k v v')
    then have "I k v'"
      using all I_update I_output by blast
    with s 3(3) put show ?thesis
      by (simp add: hm.entries_get [OF hm.ok_put [OF assms(3)]])
  next
    case (4 P)
    with s assms(2) show ?thesis by simp
  qed
qed

end

lemma registry_shape_ok: "registry_shape c m closes m' \<Longrightarrow> hm_ok m \<Longrightarrow> hm_ok m'"
  by (auto simp: registry_shape_def hm.ok_put) (simp add: hm_ok_def distinct_map_filter)

lemma registry_reachable_ok: "registry_reachable c reg \<Longrightarrow> hm_ok (tr_sessions reg)"
proof (induction rule: registry_reachable.induct)
  case reach_default
  then show ?case by (simp add: registry_default_def)
next
  case (reach_step reg closes reg')
  then show ?case
    using registry_shape_ok [OF registry_step_shape] by blast
qed

context session_invariant begin

lemma reachable_invariant:
  "registry_reachable c reg \<Longrightarrow> (sid, s) \<in> set (tr_sessions reg) \<Longrightarrow> I sid s"
proof (induction arbitrary: sid s rule: registry_reachable.induct)
  case reach_default
  then show ?case by (simp add: registry_default_def)
next
  case (reach_step reg closes reg')
  then show ?case
    using shape_preserves [OF registry_step_shape [OF reach_step.hyps(2)]]
      registry_reachable_ok by blast
qed

end

section \<open>Limits\<close>

definition limits_ok :: "terminal_session_config \<Rightarrow> session_map \<Rightarrow> bool" where
  "limits_ok c m =
     (length m \<le> max_sessions c
      \<and> (\<forall>u. count_sessions (live_of_user u) m \<le> max_sessions_per_user c)
      \<and> (\<forall>n. count_sessions (live_of_node n) m \<le> max_sessions_per_node c))"

lemma session_update_keeps:
  "session_update sid s s' \<or> session_output sid s s' \<Longrightarrow>
     ts_actor_email s' = ts_actor_email s \<and> ts_node_id s' = ts_node_id s
     \<and> ts_backend s' = ts_backend s \<and> ts_output_tx s' = ts_output_tx s
     \<and> ts_created_at s' = ts_created_at s
     \<and> (is_terminal (ts_state s) \<longrightarrow> is_terminal (ts_state s'))"
  using lifecycle_ended_only_Terminated [OF lifecycle_step [OF lifecycle_refl]]
    is_reattachable_not_terminal
  by (fastforce simp: session_update_def session_output_def push_replay_def Let_def)

lemma session_update_state:
  "session_update sid s s' \<or> session_output sid s s' \<Longrightarrow>
     ts_state s' = ts_state s \<or> can_transition_to (ts_state s) (ts_state s')
     \<or> is_reattachable (ts_state s) \<and> ts_state s' = Reattaching"
  unfolding session_update_def session_output_def push_replay_def Let_def
  by (elim disjE exE conjE) simp_all

lemma count_sessions_put_le:
  "hm_ok m \<Longrightarrow> count_sessions P (hm_put k v m) \<le> Suc (count_sessions P m)"
  unfolding count_sessions_def by (rule hm.count_put_le)

lemma count_sessions_put_mono:
  "hm_ok m \<Longrightarrow> (P v \<Longrightarrow> \<exists>w. hm_get m k = Some w \<and> P w) \<Longrightarrow>
   count_sessions P (hm_put k v m) \<le> count_sessions P m"
  unfolding count_sessions_def by (rule hm.count_put_mono)

lemma count_sessions_filter: "count_sessions P (filter Q m) \<le> count_sessions P m"
proof -
  have "filter (\<lambda>e. P (snd e)) (filter Q m) = filter Q (filter (\<lambda>e. P (snd e)) m)"
    by (simp add: conj_commute)
  then show ?thesis
    by (metis count_sessions_def length_filter_le)
qed

lemma length_count: "length m = count_sessions (\<lambda>_. True) m"
  by (simp add: count_sessions_def)

lemma limits_ok_shape:
  assumes "registry_shape c m closes m'" and "hm_ok m" and "limits_ok c m"
  shows "limits_ok c m'"
proof -
  from assms(1) consider "m' = m"
    | r ch tok now where "length m < max_sessions c"
        "count_sessions (live_of_user (ins_actor_email r)) m < max_sessions_per_user c"
        "count_sessions (live_of_node (ins_node_id r)) m < max_sessions_per_node c"
        "m' = hm_put (ins_session_id r) (new_tracked r ch tok now) m"
    | k v v' where "hm_get m k = Some v" "session_update k v v' \<or> session_output k v v'"
        "m' = hm_put k v' m"
    | P where "m' = filter (\<lambda>e. \<not> P e) m"
    unfolding registry_shape_def by blast
  then show ?thesis
  proof cases
    case 1
    with assms(3) show ?thesis by simp
  next
    case (2 r ch tok now)
    have count: "count_sessions P m' \<le> bound"
      if "count_sessions P m \<le> bound"
        and "P (new_tracked r ch tok now) \<Longrightarrow> count_sessions P m < bound" for P bound
    proof (cases "P (new_tracked r ch tok now)")
      case True
      then show ?thesis
        using count_sessions_put_le [OF assms(2), of P "ins_session_id r" "new_tracked r ch tok now"]
          that(2) 2(4) by simp
    next
      case False
      then show ?thesis
        using count_sessions_put_mono [OF assms(2), of P "new_tracked r ch tok now"
            "ins_session_id r"] that(1) 2(4) by simp
    qed
    have "length m' \<le> max_sessions c"
      using count [of "\<lambda>_. True"] 2(1) by (simp add: length_count [symmetric])
    moreover have "count_sessions (live_of_user u) m' \<le> max_sessions_per_user c" for u
      using assms(3) 2(2) by (intro count)
        (auto simp: limits_ok_def live_of_user_def new_tracked_def)
    moreover have "count_sessions (live_of_node n) m' \<le> max_sessions_per_node c" for n
      using assms(3) 2(3) by (intro count)
        (auto simp: limits_ok_def live_of_node_def new_tracked_def)
    ultimately show ?thesis
      by (simp add: limits_ok_def)
  next
    case (3 k v v')
    have count: "count_sessions P m' \<le> count_sessions P m" if "P v' \<Longrightarrow> P v" for P
      using count_sessions_put_mono [OF assms(2), of P v' k] 3(1,3) that by blast
    note keeps = session_update_keeps [OF 3(2)]
    have "count_sessions (live_of_user u) m' \<le> count_sessions (live_of_user u) m" for u
      using keeps by (intro count) (auto simp: live_of_user_def)
    moreover have "count_sessions (live_of_node n) m' \<le> count_sessions (live_of_node n) m" for n
      using keeps by (intro count) (auto simp: live_of_node_def)
    moreover have "length m' \<le> length m"
      using count [of "\<lambda>_. True"] by (simp add: length_count [symmetric])
    ultimately show ?thesis
      using assms(3) unfolding limits_ok_def by (meson le_trans)
  next
    case (4 P)
    have "length m' \<le> length m"
      using 4 by simp
    then show ?thesis
      using assms(3) count_sessions_filter 4 unfolding limits_ok_def by (meson le_trans)
  qed
qed

lemma registry_reachable_limits: "registry_reachable c reg \<Longrightarrow> limits_ok c (tr_sessions reg)"
proof (induction rule: registry_reachable.induct)
  case reach_default
  then show ?case by (simp add: registry_default_def limits_ok_def count_sessions_def)
next
  case (reach_step reg closes reg')
  then show ?case
    using limits_ok_shape [OF registry_step_shape] registry_reachable_ok by blast
qed

section \<open>The replay buffer\<close>

definition output_sequences :: "terminal_server_message list \<Rightarrow> nat list" where
  "output_sequences q =
     concat (map (\<lambda>m. case m of ServerOutput _ n _ \<Rightarrow> [unat n] | _ \<Rightarrow> []) q)"

definition replay_ok :: "terminal_session_id \<Rightarrow> tracked_session \<Rightarrow> bool" where
  "replay_ok sid s =
     (length (ts_replay s) \<le> OUTPUT_REPLAY_CAPACITY
      \<and> (\<forall>m \<in> set (ts_replay s). message_session m = Some sid)
      \<and> (unat (ts_next_output_sequence s) < 2 ^ 64 - 1 \<longrightarrow>
           (\<exists>k \<ge> 1. k \<le> unat (ts_next_output_sequence s)
              \<and> output_sequences (ts_replay s) = [k ..< unat (ts_next_output_sequence s)])))"

lemma output_sequences_append [simp]:
  "output_sequences (a @ b) = output_sequences a @ output_sequences b"
  by (simp add: output_sequences_def)

lemma output_sequences_tl:
  "output_sequences (tl q) = output_sequences q \<or> output_sequences (tl q) = tl (output_sequences q)"
  by (cases q) (auto simp: output_sequences_def split: terminal_server_message.splits)

lemma output_sequences_not_output: "\<not> is_output m \<Longrightarrow> output_sequences [m] = []"
  by (cases m) (simp_all add: output_sequences_def)

lemma push_replay_fields [simp]:
  "ts_next_output_sequence (push_replay s m) = ts_next_output_sequence s"
  "ts_state (push_replay s m) = ts_state s"
  "ts_reconnect_token (push_replay s m) = ts_reconnect_token s"
  by (simp_all add: push_replay_def Let_def)

lemma ts_replay_push:
  "ts_replay (push_replay s m) =
     (if length (ts_replay s) = OUTPUT_REPLAY_CAPACITY then tl (ts_replay s) else ts_replay s) @ [m]"
  by (simp add: push_replay_def Let_def)

text \<open>Pushing a list of messages keeps the last 128: the buffer is a bounded window on the
  history.\<close>

lemma push_replay_window:
  assumes "length (ts_replay s) \<le> OUTPUT_REPLAY_CAPACITY"
  shows "ts_replay (foldl push_replay s msgs) =
    drop (length (ts_replay s) + length msgs - OUTPUT_REPLAY_CAPACITY) (ts_replay s @ msgs)"
  using assms
proof (induction msgs arbitrary: s)
  case Nil
  then show ?case by simp
next
  case (Cons m msgs)
  have len: "length (ts_replay (push_replay s m)) \<le> OUTPUT_REPLAY_CAPACITY"
    using Cons.prems by (auto simp: ts_replay_push OUTPUT_REPLAY_CAPACITY_def)
  show ?case
  proof (cases "length (ts_replay s) = OUTPUT_REPLAY_CAPACITY")
    case True
    have q: "ts_replay (push_replay s m) = tl (ts_replay s) @ [m]"
      using True by (simp add: ts_replay_push)
    obtain x xs where xs: "ts_replay s = x # xs"
      using True by (cases "ts_replay s") (simp_all add: OUTPUT_REPLAY_CAPACITY_def)
    have cap: "OUTPUT_REPLAY_CAPACITY = Suc (length xs)"
      using True xs by simp
    show ?thesis
      using Cons.IH [OF len] unfolding q by (simp add: xs cap)
  next
    case False
    then have q: "ts_replay (push_replay s m) = ts_replay s @ [m]"
      by (simp add: ts_replay_push)
    then show ?thesis
      using Cons.IH [OF len] unfolding q by simp
  qed
qed

lemma in_set_tl: "x \<in> set (tl q) \<Longrightarrow> x \<in> set q"
  by (cases q) simp_all

lemma window_tl:
  assumes "1 \<le> k" "k \<le> n" "output_sequences q = [k ..< n]"
  shows "\<exists>k' \<ge> 1. k' \<le> n \<and> output_sequences (tl q) = [k' ..< n]"
proof (cases "output_sequences (tl q) = output_sequences q")
  case True
  with assms show ?thesis by auto
next
  case False
  then have tl: "output_sequences (tl q) = tl [k ..< n]"
    using output_sequences_tl [of q] assms(3) by metis
  with False assms(3) have "k \<noteq> n"
    by (metis tl_upt upt_rec less_irrefl list.sel(2))
  with assms tl show ?thesis
    by (intro exI [of _ "Suc k"]) simp
qed

lemma replay_ok_push:
  assumes "replay_ok sid s" and "message_session m = Some sid"
    and "unat n' < 2 ^ 64 - 1 \<Longrightarrow>
           unat (ts_next_output_sequence s) < 2 ^ 64 - 1
           \<and> unat (ts_next_output_sequence s) \<le> unat n'
           \<and> output_sequences [m] = [unat (ts_next_output_sequence s) ..< unat n']"
  shows "replay_ok sid (push_replay (s\<lparr>ts_next_output_sequence := n'\<rparr>) m)"
proof -
  define q where
    "q = (if length (ts_replay s) = OUTPUT_REPLAY_CAPACITY then tl (ts_replay s) else ts_replay s)"
  let ?n = "unat (ts_next_output_sequence s)"
  let ?s' = "push_replay (s\<lparr>ts_next_output_sequence := n'\<rparr>) m"
  have r: "ts_replay ?s' = q @ [m]"
    by (simp add: ts_replay_push q_def)
  have "length (q @ [m]) \<le> OUTPUT_REPLAY_CAPACITY"
    using assms(1) by (auto simp: replay_ok_def q_def OUTPUT_REPLAY_CAPACITY_def)
  moreover have "\<forall>x \<in> set (q @ [m]). message_session x = Some sid"
    using assms(1,2) unfolding replay_ok_def q_def by (auto dest: in_set_tl)
  moreover have "\<exists>k \<ge> 1. k \<le> unat n' \<and> output_sequences (q @ [m]) = [k ..< unat n']"
    if n': "unat n' < 2 ^ 64 - 1"
  proof -
    note m = assms(3) [OF n']
    obtain k where k: "1 \<le> k" "k \<le> ?n" "output_sequences (ts_replay s) = [k ..< ?n]"
      using assms(1) m unfolding replay_ok_def by blast
    obtain k' where k': "1 \<le> k'" "k' \<le> ?n" "output_sequences q = [k' ..< ?n]"
      using window_tl [OF k] k by (cases "length (ts_replay s) = OUTPUT_REPLAY_CAPACITY") (auto simp: q_def)
    have "output_sequences (q @ [m]) = [k' ..< ?n] @ [?n ..< unat n']"
      using k'(3) m by simp
    also have "\<dots> = [k' ..< unat n']"
      using upt_add_eq_append [of k' ?n "unat n' - ?n"] k'(2) m by simp
    finally show ?thesis
      using k' m by auto
  qed
  ultimately show ?thesis
    unfolding replay_ok_def r by simp
qed

lemma replay_ok_cong:
  "replay_ok sid s \<Longrightarrow> ts_replay s' = ts_replay s \<Longrightarrow>
   ts_next_output_sequence s' = ts_next_output_sequence s \<Longrightarrow> replay_ok sid s'"
  by (simp add: replay_ok_def)

interpretation replay: session_invariant replay_ok
proof
  show "replay_ok (ins_session_id r) (new_tracked r ch tok now)" for r ch tok now
    by (auto simp: replay_ok_def new_tracked_def output_sequences_def)
next
  fix sid s s'
  assume ok: "replay_ok sid s" and "session_update sid s s'"
  then consider "ts_replay s' = ts_replay s \<and> ts_next_output_sequence s' = ts_next_output_sequence s"
    | m where "\<not> is_output m" "message_session m = Some sid" "s' = push_replay s m"
    unfolding session_update_def by auto
  then show "replay_ok sid s'"
  proof cases
    case 1
    with ok show ?thesis by (blast intro: replay_ok_cong)
  next
    case (2 m)
    then show ?thesis
      using replay_ok_push [OF ok 2(2), of "ts_next_output_sequence s"]
      by (simp add: output_sequences_not_output)
  qed
next
  fix sid s s'
  assume ok: "replay_ok sid s" and "session_output sid s s'"
  then obtain dat where s': "s' = push_replay
      (s\<lparr>ts_next_output_sequence := saturating_add64 (ts_next_output_sequence s) 1\<rparr>)
      (ServerOutput sid (ts_next_output_sequence s) dat)"
    unfolding session_output_def by blast
  show "replay_ok sid s'"
    unfolding s' by (rule replay_ok_push [OF ok])
      (auto simp: unat_saturating_add64 output_sequences_def)
qed

section \<open>What a step does to one session\<close>

lemma hm_get_filter_not:
  assumes "hm_ok m"
  shows "hm_get (filter (\<lambda>e. \<not> P e) m) k =
    (case hm_get m k of None \<Rightarrow> None | Some v \<Rightarrow> if P (k, v) then None else Some v)"
  using assms
proof (induction m)
  case (Cons e m)
  have "hm_get m (fst e) = None"
    using Cons.prems by (simp add: hm_ok_def hm_get_def map_of_eq_None_iff)
  with Cons show ?case
    by (cases e) (auto simp: hm_get_def hm_ok_def split: option.splits)
qed simp

lemma registry_shape_session:
  assumes "registry_shape c m closes m'" and "hm_ok m"
    and "hm_get m sid = Some s" and "hm_get m' sid = Some s'"
  shows "s' = s \<or> session_update sid s s' \<or> session_output sid s s'"
proof -
  from assms(1) consider "m' = m"
    | r ch tok now where "hm_get m (ins_session_id r) = None"
        "m' = hm_put (ins_session_id r) (new_tracked r ch tok now) m"
    | k v v' where "hm_get m k = Some v" "session_update k v v' \<or> session_output k v v'"
        "m' = hm_put k v' m"
    | P where "m' = filter (\<lambda>e. \<not> P e) m"
    unfolding registry_shape_def by blast
  then show ?thesis
    using assms(3,4) by cases (auto simp: hm_get_filter_not [OF assms(2)] split: if_splits)
qed

lemma set_close_backend: "h \<in> set (close_backend b) \<longleftrightarrow> b = Local h"
  by (cases b) (auto simp: close_backend_def)

lemma registry_shape_closes:
  assumes "registry_shape c m closes m'" and "hm_ok m"
  shows "hm_get m sid = Some s \<Longrightarrow> ts_backend s = Local h \<Longrightarrow>
           (\<exists>s'. hm_get m' sid = Some s' \<and> ts_backend s' = Local h)
           \<or> h \<in> set closes \<and> hm_get m' sid = None"
    and "h \<in> set closes \<Longrightarrow>
           \<exists>sid s. hm_get m sid = Some s \<and> ts_backend s = Local h \<and> hm_get m' sid = None"
proof -
  from assms(1) consider "closes = []" "m' = m"
    | r ch tok now where "closes = []" "hm_get m (ins_session_id r) = None"
        "m' = hm_put (ins_session_id r) (new_tracked r ch tok now) m"
    | k v v' where "closes = []" "hm_get m k = Some v"
        "session_update k v v' \<or> session_output k v v'" "m' = hm_put k v' m"
    | P where "closes = concat (map handles_of (filter P m))" "m' = filter (\<lambda>e. \<not> P e) m"
    unfolding registry_shape_def by blast
  then have "(hm_get m sid = Some s \<longrightarrow> ts_backend s = Local h \<longrightarrow>
           (\<exists>s'. hm_get m' sid = Some s' \<and> ts_backend s' = Local h)
           \<or> h \<in> set closes \<and> hm_get m' sid = None)
    \<and> (h \<in> set closes \<longrightarrow>
           (\<exists>sid s. hm_get m sid = Some s \<and> ts_backend s = Local h \<and> hm_get m' sid = None))"
  proof cases
    case 3
    then show ?thesis
      using session_update_keeps [OF 3(3)] by auto
  next
    case (4 P)
    have "h \<in> set closes \<longleftrightarrow> (\<exists>sid s. hm_get m sid = Some s \<and> P (sid, s) \<and> ts_backend s = Local h)"
      by (auto simp: 4(1) handles_of_def set_close_backend hm.entries_get [OF assms(2), symmetric])
    then show ?thesis
      by (auto simp: 4(2) hm_get_filter_not [OF assms(2)] split: option.splits)
  qed auto
  then show "hm_get m sid = Some s \<Longrightarrow> ts_backend s = Local h \<Longrightarrow>
           (\<exists>s'. hm_get m' sid = Some s' \<and> ts_backend s' = Local h)
           \<or> h \<in> set closes \<and> hm_get m' sid = None"
    and "h \<in> set closes \<Longrightarrow>
           \<exists>sid s. hm_get m sid = Some s \<and> ts_backend s = Local h \<and> hm_get m' sid = None"
    by blast+
qed

section \<open>Reattaching\<close>

definition reattach_allowed ::
  "session_registry \<Rightarrow> terminal_session_id \<Rightarrow> terminal_reconnect_token \<Rightarrow> string \<Rightarrow> bool" where
  "reattach_allowed reg sid token actor =
     (\<not> tr_poisoned reg \<and>
      (\<exists>s. hm_get (tr_sessions reg) sid = Some s \<and> ts_actor_email s = actor
         \<and> is_reattachable (ts_state s) \<and> ts_reconnect_token s = token))"

lemma reattach_refused:
  "\<not> reattach_allowed reg sid token actor \<Longrightarrow> reattach reg sid token actor newtok now = (None, reg)"
  by (auto simp: reattach_allowed_def reattach_def split: option.split)

lemma reattach_accepted:
  assumes "reattach_allowed reg sid token actor"
  obtains s where "hm_get (tr_sessions reg) sid = Some s" "\<not> tr_poisoned reg"
    "reattach reg sid token actor newtok now =
      (Some \<lparr>rt_backend = ts_backend s, rt_output_rx = ts_output_tx s,
             rt_replay = ts_replay s, rt_size = ts_size s,
             rt_reconnect_token = newtok, rt_node_id = ts_node_id s,
             rt_transport_status = ts_transport_status s\<rparr>,
       reg\<lparr>tr_sessions := hm_put sid
             (s\<lparr>ts_reconnect_token := newtok, ts_state := Reattaching,
                ts_last_activity := now\<rparr>) (tr_sessions reg)\<rparr>)"
  using assms by (auto simp: reattach_allowed_def reattach_def)

lemma reattach_allowed_token:
  "reattach_allowed reg sid token actor \<Longrightarrow> reconnect_token reg sid = Some token"
  by (auto simp: reattach_allowed_def reconnect_token_def lookup_session_def)

text \<open>A registry with one detached and one failed session, for the witnesses.\<close>

definition example_config :: terminal_session_config where
  "example_config =
     \<lparr>max_sessions = 2, max_sessions_per_user = 1, max_sessions_per_node = 2,
      idle_timeout = secs 5, max_duration = secs 60, disconnect_grace = secs 1\<rparr>"

definition example_insert :: "string \<Rightarrow> pty_handle \<Rightarrow> string \<Rightarrow> terminal_session_insert" where
  "example_insert sid h actor =
     \<lparr>ins_session_id = sid, ins_backend = Local h,
      ins_size = \<lparr>size_cols = 80, size_rows = 24\<rparr>, ins_config = example_config,
      ins_actor_email = actor, ins_node_id = Some ''n1'', ins_transport_status = None\<rparr>"

definition example_registry :: session_registry where
  "example_registry =
     set_state (snd (insert_backend registry_default (example_insert ''term-1'' 7 ''a'') 1 ''t'' 0))
       ''term-1'' Active"

lemmas registry_eval = example_registry_def example_insert_def example_config_def
  registry_default_def insert_backend_def set_state_def update_session_def new_tracked_def
  count_sessions_def live_of_user_def live_of_node_def hm_put_def hm_get_def Let_def

lemma example_registry_reachable: "registry_reachable example_config example_registry"
proof -
  have "registry_step example_config registry_default []
      (snd (insert_backend registry_default (example_insert ''term-1'' 7 ''a'') 1 ''t'' 0))"
    by (rule rs_insert) (simp_all add: example_insert_def registry_default_def hm_get_def)
  then show ?thesis
    unfolding example_registry_def
    by (rule reach_step [OF reach_step [OF reach_default] rs_set_state])
qed

lemma example_registry_sessions:
  "tr_sessions example_registry =
     [(''term-1'',
       \<lparr>ts_backend = Local 7, ts_output_tx = 1, ts_replay = [], ts_next_output_sequence = 1,
        ts_reconnect_token = ''t'', ts_state = Starting, ts_last_activity = 0,
        ts_created_at = 0, ts_size = \<lparr>size_cols = 80, size_rows = 24\<rparr>, ts_actor_email = ''a'',
        ts_node_id = Some ''n1'', ts_transport_status = None\<rparr>\<lparr>ts_state := Active\<rparr>)]"
  "\<not> tr_poisoned example_registry"
  by (simp_all add: registry_eval)

section \<open>Properties\<close>



text \<open>C2: A session is handed over on reattach exactly when it is tracked, belongs to the caller,
  can be reattached and the caller presents its current token; the token is then replaced, so the
  presented one is worth nothing to anybody afterwards, and no other session is touched. A refused
  reattach changes nothing.\<close>

theorem reattach_needs_owner_and_current_token:
  "(fst (reattach reg sid token actor newtok now) \<noteq> None \<longleftrightarrow>
      \<not> tr_poisoned reg \<and>
      (\<exists>s. hm_get (tr_sessions reg) sid = Some s \<and> ts_actor_email s = actor
         \<and> is_reattachable (ts_state s) \<and> ts_reconnect_token s = token))
   \<and> (fst (reattach reg sid token actor newtok now) = None
      \<longrightarrow> snd (reattach reg sid token actor newtok now) = reg)
   \<and> (\<forall>target. fst (reattach reg sid token actor newtok now) = Some target \<longrightarrow>
        rt_reconnect_token target = newtok
        \<and> reconnect_token (snd (reattach reg sid token actor newtok now)) sid = Some newtok
        \<and> session_state (snd (reattach reg sid token actor newtok now)) sid = Some Reattaching
        \<and> (\<forall>other. other \<noteq> sid \<longrightarrow>
             lookup_session (snd (reattach reg sid token actor newtok now)) other
             = lookup_session reg other)
        \<and> (newtok \<noteq> token \<longrightarrow>
             fst (reattach (snd (reattach reg sid token actor newtok now)) sid token actor' t now')
             = None))"
proof (cases "reattach_allowed reg sid token actor")
  case False
  then show ?thesis
    by (simp add: reattach_refused) (simp add: reattach_allowed_def)
next
  case True
  let ?r = "snd (reattach reg sid token actor newtok now)"
  obtain s where s: "hm_get (tr_sessions reg) sid = Some s" "\<not> tr_poisoned reg"
    and eq: "fst (reattach reg sid token actor newtok now) =
        Some \<lparr>rt_backend = ts_backend s, rt_output_rx = ts_output_tx s,
             rt_replay = ts_replay s, rt_size = ts_size s,
             rt_reconnect_token = newtok, rt_node_id = ts_node_id s,
             rt_transport_status = ts_transport_status s\<rparr>"
      "?r = reg\<lparr>tr_sessions := hm_put sid
             (s\<lparr>ts_reconnect_token := newtok, ts_state := Reattaching,
                ts_last_activity := now\<rparr>) (tr_sessions reg)\<rparr>"
    by (rule reattach_accepted [OF True, of newtok now]) simp
  have tok: "reconnect_token ?r sid = Some newtok"
    by (simp add: eq(2) reconnect_token_def lookup_session_def s(2))
  have "session_state ?r sid = Some Reattaching"
    by (simp add: eq(2) session_state_def lookup_session_def s(2))
  moreover have "other \<noteq> sid \<Longrightarrow> lookup_session ?r other = lookup_session reg other" for other
    by (simp add: eq(2) lookup_session_def)
  moreover have "newtok \<noteq> token \<Longrightarrow> fst (reattach ?r sid token actor' t now') = None"
    using reattach_refused [of ?r sid token actor' t now'] reattach_allowed_token tok
    by (metis fst_conv option.inject)
  ultimately show ?thesis
    using True tok eq(1) unfolding reattach_allowed_def [symmetric] by simp
qed

theorem reattach_needs_owner_and_current_token_witness:
  "fst (reattach example_registry ''term-1'' ''t'' ''a'' ''v'' 3) \<noteq> None
   \<and> fst (reattach example_registry ''term-1'' ''t'' ''b'' ''v'' 3) = None
   \<and> fst (reattach (snd (reattach example_registry ''term-1'' ''t'' ''a'' ''v'' 3))
        ''term-1'' ''t'' ''a'' ''w'' 4) = None"
proof -
  have ok: "fst (reattach example_registry ''term-1'' ''t'' ''a'' ''v'' 3) \<noteq> None"
    and bad: "fst (reattach example_registry ''term-1'' ''t'' ''b'' ''v'' 3) = None"
    by (simp_all add: reattach_def example_registry_sessions hm_get_def)
  from ok obtain tgt where "fst (reattach example_registry ''term-1'' ''t'' ''a'' ''v'' 3) = Some tgt"
    by blast
  then show ?thesis
    using ok bad reattach_needs_owner_and_current_token
      [of example_registry "''term-1''" "''t''" "''a''" "''v''" 3 "''a''" "''w''" 4] by simp
qed

text \<open>C32: The replay buffer of every tracked session holds at most 128 messages, all of them of
  that session; its output messages are numbered consecutively and end right before the next
  sequence number, so a client that replays it sees no gap and no duplicate.\<close>

theorem replay_buffer_is_consecutive:
  "registry_reachable c reg \<Longrightarrow> hm_get (tr_sessions reg) sid = Some s \<Longrightarrow>
     length (ts_replay s) \<le> 128
     \<and> (\<forall>m \<in> set (ts_replay s). message_session m = Some sid)
     \<and> (unat (ts_next_output_sequence s) < 2 ^ 64 - 1 \<longrightarrow>
          (\<exists>k. output_sequences (ts_replay s) = [k ..< unat (ts_next_output_sequence s)]))"
  using replay.reachable_invariant [of c reg sid s] hm.entries_get [OF registry_reachable_ok]
  by (auto simp: replay_ok_def OUTPUT_REPLAY_CAPACITY_def)

theorem replay_buffer_is_consecutive_witness:
  "\<exists>reg s. registry_reachable example_config reg \<and> hm_get (tr_sessions reg) ''term-1'' = Some s
     \<and> ts_replay s = [ServerOutput ''term-1'' 1 ''x'', ServerDetached ''term-1'',
                      ServerOutput ''term-1'' 2 ''y'']
     \<and> output_sequences (ts_replay s) = [1 ..< 3] \<and> length (ts_replay s) \<le> 128"
proof -
  let ?r1 = "snd (record_output example_registry ''term-1'' ''x'')"
  let ?r2 = "remember_server_message ?r1 (ServerDetached ''term-1'')"
  let ?r3 = "snd (record_output ?r2 ''term-1'' ''y'')"
  have "registry_reachable example_config ?r1"
    by (rule reach_step [OF example_registry_reachable rs_output])
  then have "registry_reachable example_config ?r2"
    by (rule reach_step) (rule rs_remember, simp)
  then have r3: "registry_reachable example_config ?r3"
    by (rule reach_step) (rule rs_output)
  obtain s where s: "hm_get (tr_sessions ?r3) ''term-1'' = Some s"
      and q: "ts_replay s = [ServerOutput ''term-1'' 1 ''x'', ServerDetached ''term-1'',
                      ServerOutput ''term-1'' 2 ''y'']"
    by (simp add: record_output_def lookup_session_def remember_server_message_def
        update_session_def example_registry_sessions hm_get_def hm_put_def push_replay_def
        OUTPUT_REPLAY_CAPACITY_def saturating_add64_def Let_def)
  have "output_sequences (ts_replay s) = [1 ..< 3]"
    unfolding q by (simp add: output_sequences_def upt_rec)
  moreover have "length (ts_replay s) \<le> 128"
    using replay_buffer_is_consecutive [OF r3 s] by blast
  ultimately show ?thesis
    using r3 s q by blast
qed

text \<open>Pushing messages onto a replay buffer keeps exactly the last 128 of the history.\<close>

theorem replay_buffer_is_window_on_history:
  "length (ts_replay s) \<le> 128 \<Longrightarrow>
     ts_replay (foldl push_replay s msgs) =
       drop (length (ts_replay s @ msgs) - 128) (ts_replay s @ msgs)"
  using push_replay_window [of s msgs] by (simp add: OUTPUT_REPLAY_CAPACITY_def)

theorem replay_buffer_is_window_on_history_witness:
  "ts_replay (foldl push_replay (new_tracked (example_insert ''s'' 1 ''a'') 1 ''t'' 0)
      (replicate 130 (ServerDetached ''s''))) = replicate 128 (ServerDetached ''s'')"
  using replay_buffer_is_window_on_history
    [of "new_tracked (example_insert ''s'' 1 ''a'') 1 ''t'' 0"
      "replicate 130 (ServerDetached ''s'')"]
  by (simp add: new_tracked_def)

text \<open>Draining expired sessions and closing the sessions of a revoked node remove exactly the
  sessions they are meant to remove (live ones past the maximal duration or detached and idle for
  too long; live ones of the node), report each with its owner and channel, close the local PTY of
  each, and leave every other session as it was.\<close>

theorem bulk_removal_is_exact:
  "registry_reachable c reg \<Longrightarrow> \<not> tr_poisoned reg \<Longrightarrow>
     (drain_expired reg maxd idle now =
        (let gone = filter (\<lambda>e. is_expired_session maxd idle now (snd e)) (tr_sessions reg) in
         (map closed_of gone,
          reg\<lparr>tr_sessions := filter (\<lambda>e. \<not> is_expired_session maxd idle now (snd e))
                              (tr_sessions reg)\<rparr>,
          concat (map handles_of gone))))
     \<and> (close_sessions_for_node reg nid =
        (let gone = filter (\<lambda>e. live_of_node (Some nid) (snd e)) (tr_sessions reg) in
         (map closed_of gone,
          reg\<lparr>tr_sessions := filter (\<lambda>e. \<not> live_of_node (Some nid) (snd e)) (tr_sessions reg)\<rparr>,
          concat (map handles_of gone))))"
  using registry_reachable_ok by (simp add: drain_expired_eq close_sessions_for_node_eq Let_def)

theorem bulk_removal_is_exact_witness:
  "drain_expired example_registry (secs 60) (secs 5) (secs 60)
     = ([(''term-1'', ''a'', 1, Local 7)], example_registry\<lparr>tr_sessions := []\<rparr>, [7])
   \<and> fst (close_sessions_for_node example_registry ''n2'') = []"
  using bulk_removal_is_exact [OF example_registry_reachable example_registry_sessions(2),
      of "secs 60" "secs 5" "secs 60" "''n2''"]
  by (simp add: example_registry_sessions is_expired_session_def live_of_node_def closed_of_def
      handles_of_def close_backend_def elapsed_def)

text \<open>C24: No local PTY is leaked and none is closed early: on every step, a session that was
  tracked either stays tracked with its PTY or its PTY is closed, and only PTYs of sessions that
  leave the registry are closed.\<close>

theorem local_ptys_are_closed_with_their_session:
  "registry_reachable c reg \<Longrightarrow> registry_step c reg closes reg' \<Longrightarrow>
     (\<forall>sid s h. hm_get (tr_sessions reg) sid = Some s \<and> ts_backend s = Local h \<longrightarrow>
        (\<exists>s'. hm_get (tr_sessions reg') sid = Some s' \<and> ts_backend s' = Local h)
        \<or> h \<in> set closes \<and> hm_get (tr_sessions reg') sid = None)
     \<and> (\<forall>h \<in> set closes. \<exists>sid s. hm_get (tr_sessions reg) sid = Some s \<and> ts_backend s = Local h
          \<and> hm_get (tr_sessions reg') sid = None)"
  using registry_shape_closes [OF registry_step_shape registry_reachable_ok]
    registry_reachable_ok by blast

theorem local_ptys_are_closed_with_their_session_witness:
  "\<exists>reg'. registry_step example_config example_registry [7] reg'
     \<and> hm_get (tr_sessions example_registry) ''term-1'' \<noteq> None
     \<and> hm_get (tr_sessions reg') ''term-1'' = None"
proof -
  have "registry_step example_config example_registry [7] (example_registry\<lparr>tr_sessions := []\<rparr>)"
    using rs_remove [of example_config example_registry "''term-1''"]
    by (simp add: remove_session_def remove_tracked_def example_registry_sessions hm_get_def
        hm_rem_def close_backend_def)
  moreover from local_ptys_are_closed_with_their_session [OF example_registry_reachable this]
  have "\<exists>sid s. hm_get (tr_sessions example_registry) sid = Some s \<and> ts_backend s = Local 7"
    by simp
  ultimately show ?thesis
    by (intro exI [of _ "example_registry\<lparr>tr_sessions := []\<rparr>"])
      (simp add: example_registry_sessions hm_get_def)
qed

text \<open>A step never changes whose session it is, where it runs, its backend or its creation
  time, and its state only moves along the lifecycle, except that a reattach may take an active
  session straight to reattaching.\<close>

theorem session_identity_and_lifecycle_kept:
  "registry_reachable c reg \<Longrightarrow> registry_step c reg closes reg' \<Longrightarrow>
   hm_get (tr_sessions reg) sid = Some s \<Longrightarrow> hm_get (tr_sessions reg') sid = Some s' \<Longrightarrow>
     ts_actor_email s' = ts_actor_email s \<and> ts_node_id s' = ts_node_id s
     \<and> ts_backend s' = ts_backend s \<and> ts_created_at s' = ts_created_at s
     \<and> (ts_state s' = ts_state s \<or> can_transition_to (ts_state s) (ts_state s')
        \<or> is_reattachable (ts_state s) \<and> ts_state s' = Reattaching)"
proof -
  assume "registry_reachable c reg" and step: "registry_step c reg closes reg'"
    and get: "hm_get (tr_sessions reg) sid = Some s" "hm_get (tr_sessions reg') sid = Some s'"
  then have ok: "hm_ok (tr_sessions reg)"
    by (simp add: registry_reachable_ok)
  have "s' = s \<or> session_update sid s s' \<or> session_output sid s s'"
    by (rule registry_shape_session [OF registry_step_shape [OF step ok] ok get])
  then show ?thesis
    using session_update_keeps [of sid s s'] session_update_state [of sid s s'] by blast
qed

theorem session_identity_and_lifecycle_kept_witness:
  "registry_step example_config example_registry []
       (snd (reattach example_registry ''term-1'' ''t'' ''a'' ''v'' 3))
   \<and> session_state example_registry ''term-1'' = Some Active
   \<and> session_state (snd (reattach example_registry ''term-1'' ''t'' ''a'' ''v'' 3)) ''term-1''
       = Some Reattaching
   \<and> \<not> can_transition_to Active Reattaching"
proof -
  let ?r = "snd (reattach example_registry ''term-1'' ''t'' ''a'' ''v'' 3)"
  have step: "registry_step example_config example_registry [] ?r"
    by (rule rs_reattach)
  obtain s' where s': "hm_get (tr_sessions ?r) ''term-1'' = Some s'" "ts_state s' = Reattaching"
    by (simp add: reattach_def example_registry_sessions hm_get_def hm_put_def)
  show ?thesis
    using session_identity_and_lifecycle_kept [OF example_registry_reachable step _ s'(1)] step s'
    by (simp add: session_state_def lookup_session_def example_registry_sessions hm_get_def
        reattach_def)
qed

end
