(* ===== verification/Sb_Redaction.thy ===== *)
theory Sb_Redaction
  imports Sb_Prelude
begin

text \<open>
  Redaction of secrets from audit messages (\<open>sunbolt-audit/src/redaction.rs\<close>): three passes over
  the text, for header lines, for \<open>key = value\<close> fields with a sensitive key, and for opaque
  tokens. The loops keep the code's indices into the text; a \<open>Cow\<close> is the string it stands for.
\<close>

section \<open>The passes\<close>

definition REDACTION :: string where
  "REDACTION = ''[REDACTED]''"

definition SENSITIVE_KEYS :: "string list" where
  "SENSITIVE_KEYS =
     [''authorization'', ''cookie'', ''set_cookie'', ''password'', ''secret'', ''token'',
      ''session_token'', ''reconnect_token'', ''enrollment_token'',
      ''sunbolt_agent_enrollment_token'', ''credential_secret'', ''credential_proof'',
      ''node_credential'', ''node_credentials'', ''recovery_code'', ''recovery_codes'',
      ''passkey_credential'', ''credential_id'', ''allowed_credential_ids'', ''public_key'',
      ''challenge'', ''challenge_id'', ''raw_id'', ''attestation_object'', ''client_data_json'',
      ''authenticator_data'', ''signature'', ''user_handle'']"

definition slice :: "string \<Rightarrow> nat \<Rightarrow> nat \<Rightarrow> string" where
  "slice t a b = take (b - a) (drop a t)"

definition newline :: char where
  "newline = CHR 0x0A"

definition quote :: char where
  "quote = CHR 0x22"

definition apostrophe :: char where
  "apostrophe = CHR 0x27"

definition backslash :: char where
  "backslash = CHR 0x5C"

text \<open>\<open>while index < bytes.len() && p(bytes[index]) { index += 1 }\<close>.\<close>

function skip_while :: "(char \<Rightarrow> bool) \<Rightarrow> string \<Rightarrow> nat \<Rightarrow> nat" where
  "skip_while p t i = (if i < length t \<and> p (t ! i) then skip_while p t (Suc i) else i)"
  by pat_completeness auto
termination
  by (relation "measure (\<lambda>(p, t, i). length t - i)") auto

declare skip_while.simps [simp del]

definition is_sensitive_header_name :: "string \<Rightarrow> bool" where
  "is_sensitive_header_name name =
     (eq_ignore_ascii_case name ''cookie'' \<or> eq_ignore_ascii_case name ''set-cookie''
      \<or> eq_ignore_ascii_case name ''authorization'')"

text \<open>Output and changed flag for one line, its newline included.\<close>

definition append_redacted_header_line :: "string \<times> bool \<Rightarrow> string \<Rightarrow> string \<times> bool" where
  "append_redacted_header_line st line =
     (let outp = fst st;
          ends = (line \<noteq> [] \<and> last line = newline);
          without = (if ends then butlast line else line);
          nl = (if ends then [newline] else []);
          trimmed = trim_start without;
          prefix_len = length without - length trimmed
      in (case split_once (CHR '':'') trimmed of
            None \<Rightarrow> (outp @ line, snd st)
          | Some (name, val) \<Rightarrow>
              if is_sensitive_header_name name
              then (outp @ take prefix_len without @ name @ '': '' @ REDACTION @ nl, True)
              else (outp @ line, snd st)))"

function header_lines :: "string \<times> bool \<Rightarrow> string \<Rightarrow> string \<times> bool" where
  "header_lines st remaining =
     (if remaining = [] then st
      else if newline \<notin> set remaining then append_redacted_header_line st remaining
      else
        let line_end = length (takeWhile (\<lambda>c. c \<noteq> newline) remaining)
        in header_lines (append_redacted_header_line st (take (line_end + 1) remaining))
             (drop (line_end + 1) remaining))"
  by pat_completeness auto
termination
  by (relation "measure (\<lambda>(st, r). length r)") (auto simp: neq_Nil_conv)

definition redact_sensitive_headers :: "string \<Rightarrow> string" where
  "redact_sensitive_headers text =
     (let (outp, changed) = header_lines ([], False) text
      in if changed then outp else text)"

definition is_identifier_byte :: "char \<Rightarrow> bool" where
  "is_identifier_byte b = (is_ascii_alphanumeric b \<or> b = CHR ''_'' \<or> b = CHR ''-'')"

definition normalize_key :: "string \<Rightarrow> string" where
  "normalize_key key =
     map (\<lambda>b. if is_ascii_upper b then char_of (byte_of b + 32)
               else if b = CHR ''-'' then CHR ''_'' else b) key"

definition is_sensitive_key :: "string \<Rightarrow> bool" where
  "is_sensitive_key key =
     list_ex (\<lambda>s. key = s \<or> ends_with key (CHR ''_'' # s)) SENSITIVE_KEYS"

function next_identifier :: "string \<Rightarrow> nat \<Rightarrow> (nat \<times> nat \<times> string) option" where
  "next_identifier t i =
     (if i < length t then
        if is_identifier_byte (t ! i) \<and> (i = 0 \<or> \<not> is_identifier_byte (t ! (i - 1)))
        then let e = skip_while is_identifier_byte t i
             in Some (i, e, normalize_key (slice t i e))
        else next_identifier t (Suc i)
      else None)"
  by pat_completeness auto
termination
  by (relation "measure (\<lambda>(t, i). length t - i)") auto

declare next_identifier.simps [simp del]

definition next_key_value_delimiter :: "string \<Rightarrow> nat \<Rightarrow> (nat \<times> nat) option" where
  "next_key_value_delimiter t start_at =
     (let i = skip_while is_ascii_whitespace t start_at;
          j = (if i < length t \<and> t ! i = quote
               then skip_while is_ascii_whitespace t (i + 1) else i)
      in if j < length t \<and> (t ! j = CHR '':'' \<or> t ! j = CHR ''='') then Some (j, j + 1)
         else None)"

function quoted_end :: "string \<Rightarrow> char \<Rightarrow> nat \<Rightarrow> nat" where
  "quoted_end t q i =
     (if i < length t then
        if t ! i = backslash then quoted_end t q (i + 2)
        else if t ! i = q then i
        else quoted_end t q (i + 1)
      else length t)"
  by pat_completeness auto
termination
  by (relation "measure (\<lambda>(t, q, i). length t - i)") auto

declare quoted_end.simps [simp del]

definition quoted_value_bounds :: "string \<Rightarrow> nat \<Rightarrow> nat \<times> nat" where
  "quoted_value_bounds t quote_start =
     (quote_start + 1, quoted_end t (t ! quote_start) (quote_start + 1))"

lemma quoted_end_min: "min i (length t) \<le> quoted_end t q i"
proof (induction t q i rule: quoted_end.induct)
  case (1 t q i)
  then show ?case
    by (subst quoted_end.simps) auto
qed

lemma quoted_end_ge: "i \<le> length t \<Longrightarrow> i \<le> quoted_end t q i"
  using quoted_end_min [of i t q] by simp

lemma quoted_end_le: "quoted_end t q i \<le> length t"
  by (induction t q i rule: quoted_end.induct) (subst quoted_end.simps, simp)

text \<open>\<open>depth\<close> is a 32-bit counter; the model's does not overflow, as the text is shorter than
  \<open>2 ^ 32\<close> bytes.\<close>

function balanced_loop :: "string \<Rightarrow> char \<Rightarrow> char \<Rightarrow> nat \<Rightarrow> nat \<Rightarrow> nat" where
  "balanced_loop t op cl depth i =
     (if i < length t then
        if t ! i = op then balanced_loop t op cl (depth + 1) (i + 1)
        else if t ! i = cl then
          (if depth - 1 = 0 then i + 1 else balanced_loop t op cl (depth - 1) (i + 1))
        else if t ! i = quote \<or> t ! i = apostrophe
        then balanced_loop t op cl depth (snd (quoted_value_bounds t i) + 1)
        else balanced_loop t op cl depth (i + 1)
      else length t)"
  by pat_completeness auto
termination
proof (relation "measure (\<lambda>(t, op, cl, d, i). length t - i)", goal_cases)
  case (4 t op cl d i)
  then show ?case
    using quoted_end_ge [of "i + 1" t "t ! i"] by (auto simp: quoted_value_bounds_def)
qed auto

declare balanced_loop.simps [simp del]

definition balanced_value_end :: "string \<Rightarrow> nat \<Rightarrow> char \<Rightarrow> char \<Rightarrow> nat" where
  "balanced_value_end t start_at op cl = balanced_loop t op cl 0 start_at"

definition unquoted_value_end :: "string \<Rightarrow> nat \<Rightarrow> nat" where
  "unquoted_value_end t start_at =
     skip_while (\<lambda>b. \<not> (b = CHR '','' \<or> b = CHR '';'' \<or> b = newline \<or> b = CHR 0x0D)
                      \<and> \<not> is_ascii_whitespace b) t start_at"

definition value_bounds :: "string \<Rightarrow> nat \<Rightarrow> (nat \<times> nat) option" where
  "value_bounds t start_at =
     (let i = skip_while is_ascii_whitespace t start_at in
      if length t \<le> i then None
      else if t ! i = quote \<or> t ! i = apostrophe then Some (quoted_value_bounds t i)
      else if t ! i = CHR ''['' then Some (i, balanced_value_end t i (CHR ''['') (CHR '']''))
      else if t ! i = CHR ''{'' then Some (i, balanced_value_end t i (CHR ''{'') (CHR ''}''))
      else Some (i, unquoted_value_end t i))"

section \<open>Indices only grow\<close>

lemma skip_while_ge: "i \<le> skip_while p t i"
proof (induction p t i rule: skip_while.induct)
  case (1 p t i)
  then show ?case
    by (subst skip_while.simps) (auto dest: Suc_leD)
qed

lemma skip_while_le: "i \<le> length t \<Longrightarrow> skip_while p t i \<le> length t"
proof (induction p t i rule: skip_while.induct)
  case (1 p t i)
  then show ?case
    by (subst skip_while.simps) auto
qed

lemma skip_while_step: "i < length t \<Longrightarrow> p (t ! i) \<Longrightarrow> Suc i \<le> skip_while p t i"
  using skip_while_ge [of "Suc i" p t] by (subst skip_while.simps) simp

lemma next_identifier_bounds:
  "next_identifier t i = Some (s, e, k) \<Longrightarrow> i \<le> s \<and> s < e \<and> e \<le> length t"
proof (induction t i rule: next_identifier.induct)
  case (1 t i)
  show ?case
  proof (cases "i < length t \<and> is_identifier_byte (t ! i)
      \<and> (i = 0 \<or> \<not> is_identifier_byte (t ! (i - 1)))")
    case True
    then show ?thesis
      using "1.prems" skip_while_step [of i t is_identifier_byte]
        skip_while_le [of i t is_identifier_byte]
      by (subst (asm) next_identifier.simps) (auto simp: Let_def)
  next
    case False
    then have "i < length t" and "next_identifier t (Suc i) = Some (s, e, k)"
      using "1.prems" by (subst (asm) next_identifier.simps; auto split: if_splits)+
    then show ?thesis
      using "1.IH" False by fastforce
  qed
qed

lemma balanced_loop_le: "balanced_loop t op cl d i \<le> length t"
proof (induction t op cl d i rule: balanced_loop.induct)
  case (1 t op cl d i)
  then show ?case
    by (subst balanced_loop.simps) auto
qed

lemma balanced_loop_min: "min i (length t) \<le> balanced_loop t op cl d i"
proof (induction t op cl d i rule: balanced_loop.induct)
  case (1 t op cl d i)
  have "i < length t \<Longrightarrow> i < snd (quoted_value_bounds t i) + 1"
    using quoted_end_ge [of "i + 1" t "t ! i"] by (auto simp: quoted_value_bounds_def)
  with 1 show ?case
    by (subst balanced_loop.simps) auto
qed

lemma next_delimiter_bounds:
  "next_key_value_delimiter t i = Some (a, b) \<Longrightarrow> i \<le> a \<and> b = a + 1 \<and> b \<le> length t"
  using skip_while_ge [of i is_ascii_whitespace t]
    skip_while_ge [of "skip_while is_ascii_whitespace t i + 1" is_ascii_whitespace t]
  by (auto simp: next_key_value_delimiter_def Let_def split: if_splits)

lemma value_bounds_bounds:
  "value_bounds t i = Some (a, b) \<Longrightarrow> i \<le> a \<and> a \<le> b \<and> b \<le> length t"
  using skip_while_ge [of i is_ascii_whitespace t]
    quoted_end_ge [of "skip_while is_ascii_whitespace t i + 1" t]
    quoted_end_le [of t] balanced_loop_le [of t]
    balanced_loop_min [of "skip_while is_ascii_whitespace t i" t]
    skip_while_ge [of "skip_while is_ascii_whitespace t i"]
    skip_while_le [of "skip_while is_ascii_whitespace t i" t]
  by (auto simp: value_bounds_def quoted_value_bounds_def balanced_value_end_def
      unquoted_value_end_def Let_def split: if_splits)

section \<open>The key/value pass and the token pass\<close>

text \<open>The loop of \<open>redact_sensitive_key_values\<close>: output so far, end of the last value copied or
  replaced, and index.\<close>

function key_value_loop :: "string \<Rightarrow> string \<Rightarrow> nat \<Rightarrow> nat \<Rightarrow> string \<times> nat" where
  "key_value_loop t outp last_end i =
     (if i < length t then
        (case next_identifier t i of
           None \<Rightarrow> (outp, last_end)
         | Some (ks, ke, key) \<Rightarrow>
             if \<not> is_sensitive_key key then key_value_loop t outp last_end ke
             else
               (case next_key_value_delimiter t ke of
                  None \<Rightarrow> key_value_loop t outp last_end ke
                | Some (ds, de) \<Rightarrow>
                    (case value_bounds t de of
                       None \<Rightarrow> key_value_loop t outp last_end ke
                     | Some (vs, ve) \<Rightarrow>
                         key_value_loop t
                           (outp @ slice t last_end ds @ slice t ds vs @ REDACTION) ve ve)))
      else (outp, last_end))"
  by pat_completeness auto
termination
  by (relation "measure (\<lambda>(t, out, l, i). length t - i)")
    (auto dest!: next_identifier_bounds next_delimiter_bounds value_bounds_bounds)

declare key_value_loop.simps [simp del]

definition redact_sensitive_key_values :: "string \<Rightarrow> string" where
  "redact_sensitive_key_values t =
     (let (outp, last_end) = key_value_loop t [] 0 0
      in if last_end = 0 then t else outp @ drop last_end t)"

definition is_token_byte :: "char \<Rightarrow> bool" where
  "is_token_byte b =
     (is_ascii_alphanumeric b \<or> b = CHR ''-'' \<or> b = CHR ''_'' \<or> b = CHR ''.'' \<or> b = CHR '':'')"

definition is_long_hex_token :: "string \<Rightarrow> bool" where
  "is_long_hex_token c = (32 \<le> length c \<and> list_all is_ascii_hexdigit c)"

definition is_recovery_code :: "string \<Rightarrow> bool" where
  "is_recovery_code c =
     (length c = 22 \<and> c ! 8 = CHR ''-'' \<and> c ! 15 = CHR ''-''
      \<and> list_all (\<lambda>i. i = 8 \<or> i = 15 \<or> is_ascii_hexdigit (c ! i)) [0 ..< length c])"

definition is_sensitive_token :: "string \<Rightarrow> bool" where
  "is_sensitive_token c = (is_long_hex_token c \<or> is_recovery_code c)"

function token_loop :: "string \<Rightarrow> string \<Rightarrow> nat \<Rightarrow> nat \<Rightarrow> string \<times> nat" where
  "token_loop t outp last_end i =
     (if i < length t then
        if is_token_byte (t ! i) then
          (let e = skip_while is_token_byte t i in
           if is_sensitive_token (slice t i e)
           then token_loop t (outp @ slice t last_end i @ REDACTION) e e
           else token_loop t outp last_end e)
        else token_loop t outp last_end (i + 1)
      else (outp, last_end))"
  by pat_completeness auto
termination
proof (relation "measure (\<lambda>(t, out, l, i). length t - i)", goal_cases)
  case (2 t out l i x)
  then show ?case
    using skip_while_step [of i t is_token_byte] by auto
next
  case (3 t out l i x)
  then show ?case
    using skip_while_step [of i t is_token_byte] by auto
qed auto

declare token_loop.simps [simp del]

definition redact_sensitive_tokens :: "string \<Rightarrow> string" where
  "redact_sensitive_tokens t =
     (let (outp, last_end) = token_loop t [] 0 0
      in if last_end = 0 then t else outp @ drop last_end t)"

definition redact_sensitive :: "string \<Rightarrow> string" where
  "redact_sensitive t =
     redact_sensitive_tokens (redact_sensitive_key_values (redact_sensitive_headers t))"

section \<open>The token pass as a pass over the maximal runs\<close>

text \<open>The specification: split the text into its maximal runs of token bytes and the single bytes
  between them, and replace each sensitive run.\<close>

function token_runs :: "string \<Rightarrow> string list" where
  "token_runs [] = []"
| "token_runs (c # cs) =
     (if is_token_byte c
      then (c # takeWhile is_token_byte cs) # token_runs (dropWhile is_token_byte cs)
      else [c] # token_runs cs)"
  by pat_completeness auto
termination
  by (relation "measure length") (simp_all add: le_imp_less_Suc length_dropWhile_le)

definition redact_run :: "string \<Rightarrow> string" where
  "redact_run r = (if is_sensitive_token r then REDACTION else r)"

lemma slice_append:
  assumes "a \<le> b" "b \<le> c"
  shows "slice t a b @ slice t b c = slice t a c"
proof -
  have "c - a = (b - a) + (c - b)"
    using assms by simp
  then have "take (c - a) (drop a t)
      = take (b - a) (drop a t) @ take (c - b) (drop (b - a) (drop a t))"
    by (simp only: take_add)
  with assms(1) show ?thesis
    by (simp add: slice_def)
qed

lemma slice_drop: "a \<le> b \<Longrightarrow> slice t a b @ drop b t = drop a t"
proof -
  assume "a \<le> b"
  then have "drop b t = drop (b - a) (drop a t)"
    by simp
  then show ?thesis
    by (simp only: slice_def append_take_drop_id)
qed

lemma slice_self [simp]: "slice t a a = []"
  by (simp add: slice_def)

lemma slice_one: "i < length t \<Longrightarrow> slice t i (Suc i) = [t ! i]"
  by (simp add: slice_def take_Suc_conv_app_nth [of 0 "drop i t", simplified])

lemma skip_while_takeWhile:
  "i \<le> length t \<Longrightarrow> skip_while p t i = i + length (takeWhile p (drop i t))"
proof (induction p t i rule: skip_while.induct)
  case (1 p t i)
  show ?case
  proof (cases "i < length t \<and> p (t ! i)")
    case True
    then have "drop i t = t ! i # drop (Suc i) t"
      by (simp add: Cons_nth_drop_Suc)
    with True 1 show ?thesis
      by (subst skip_while.simps) simp
  next
    case False
    then have "takeWhile p (drop i t) = []"
      using 1(2) by (cases "i < length t") (simp_all add: Cons_nth_drop_Suc [symmetric])
    with False show ?thesis
      by (subst skip_while.simps) auto
  qed
qed

lemma slice_skip_while:
  "i \<le> length t \<Longrightarrow> slice t i (skip_while p t i) = takeWhile p (drop i t)"
  by (simp add: skip_while_takeWhile slice_def takeWhile_eq_take [symmetric])

lemma drop_skip_while:
  "i \<le> length t \<Longrightarrow> drop (skip_while p t i) t = dropWhile p (drop i t)"
  by (simp add: skip_while_takeWhile dropWhile_eq_drop add.commute)

lemma token_runs_Cons:
  "token_runs (drop i t) =
     (if i < length t then
        if is_token_byte (t ! i)
        then slice t i (skip_while is_token_byte t i)
               # token_runs (drop (skip_while is_token_byte t i) t)
        else [t ! i] # token_runs (drop (Suc i) t)
      else [])"
proof (cases "i < length t")
  case True
  then have "drop i t = t ! i # drop (Suc i) t"
    by (simp add: Cons_nth_drop_Suc)
  with True show ?thesis
    by (simp add: slice_skip_while drop_skip_while)
qed simp

text \<open>The loop's invariant: what it has output, the part it has not copied yet and the redacted
  runs of the rest are together the output so far and the redacted runs from the index on.\<close>

lemma token_loop_runs:
  assumes "token_loop t outp last_end i = (outp', last_end')"
    and "last_end \<le> i" and "i \<le> length t" and "last_end = 0 \<Longrightarrow> outp = []"
  shows "outp' @ drop last_end' t =
      outp @ slice t last_end i @ concat (map redact_run (token_runs (drop i t)))
    \<and> (last_end' = 0 \<longrightarrow> outp' = [])"
  using assms
proof (induction t outp last_end i rule: token_loop.induct)
  case (1 t outp last_end i)
  show ?case
  proof (cases "i < length t")
    case False
    then show ?thesis
      using "1.prems" slice_drop [of last_end i t] by (simp add: token_loop.simps [of t])
  next
    case i: True
    let ?e = "skip_while is_token_byte t i"
    note runs = token_runs_Cons [of i t]
    show ?thesis
    proof (cases "is_token_byte (t ! i)")
      case tok: True
      have e: "Suc i \<le> ?e" "?e \<le> length t"
        using skip_while_step [OF i, of is_token_byte, OF tok] skip_while_le [of i t] i by auto
      show ?thesis
      proof (cases "is_sensitive_token (slice t i ?e)")
        case True
        then have "token_loop t (outp @ slice t last_end i @ REDACTION) ?e ?e
            = (outp', last_end')"
          using "1.prems"(1) i tok by (simp add: token_loop.simps [of t _ _ i] Let_def)
        from "1.IH"(1) [OF i tok refl True this] e True i tok runs show ?thesis
          by (simp add: redact_run_def)
      next
        case False
        then have "token_loop t outp last_end ?e = (outp', last_end')"
          using "1.prems"(1) i tok by (simp add: token_loop.simps [of t _ _ i] Let_def)
        from "1.IH"(2) [OF i tok refl False this] e False i tok runs "1.prems"(2,4)
          slice_append [of last_end i ?e t] show ?thesis
          by (simp add: redact_run_def)
      qed
    next
      case False
      have "\<not> is_sensitive_token [t ! i]"
        by (simp add: is_sensitive_token_def is_long_hex_token_def is_recovery_code_def)
      moreover have "token_loop t outp last_end (i + 1) = (outp', last_end')"
        using "1.prems"(1) i False by (simp add: token_loop.simps [of t _ _ i])
      ultimately show ?thesis
        using "1.IH"(3) [OF i False] i False runs "1.prems"(2,4) slice_one [OF i]
          slice_append [of last_end i "Suc i" t]
        by (simp add: redact_run_def)
    qed
  qed
qed

lemma redact_sensitive_tokens_runs:
  "redact_sensitive_tokens t = concat (map redact_run (token_runs t))"
proof -
  obtain outp last_end where "token_loop t [] 0 0 = (outp, last_end)"
    by fastforce
  with token_loop_runs [OF this] show ?thesis
    by (auto simp: redact_sensitive_tokens_def)
qed

section \<open>No sensitive run is left\<close>

lemma concat_token_runs [simp]: "concat (token_runs t) = t"
  by (induction t rule: token_runs.induct) auto

lemma token_runs_token:
  assumes "r \<noteq> []" "list_all is_token_byte r" "s = [] \<or> \<not> is_token_byte (hd s)"
  shows "token_runs (r @ s) = r # token_runs s"
proof -
  obtain c cs where r: "r = c # cs"
    using assms(1) by (cases r) auto
  have "takeWhile is_token_byte (cs @ s) = cs" and "dropWhile is_token_byte (cs @ s) = s"
    using assms(2,3) r
    by (auto simp: list_all_iff takeWhile_append dropWhile_append intro: takeWhile_eq_Nil_iff [THEN iffD2])
      (cases s; simp)+
  then show ?thesis
    using assms(2) r by simp
qed

lemma REDACTION_runs:
  "token_runs (REDACTION @ s) = ''['' # ''REDACTED'' # '']'' # token_runs s"
proof -
  have "REDACTION @ s = CHR ''['' # (''REDACTED'' @ CHR '']'' # s)"
    by (simp add: REDACTION_def)
  moreover have "\<not> is_token_byte (CHR ''['')" "\<not> is_token_byte (CHR '']'')"
    "list_all is_token_byte ''REDACTED''"
    by (simp_all add: is_token_byte_def sb_bytes byte_of_def)
  ultimately show ?thesis
    using token_runs_token [of "''REDACTED''" "CHR '']'' # s"]
    by (simp only: token_runs.simps if_False list.sel list.simps not_False_eq_True simp_thms)
qed

definition redacted_runs :: "string \<Rightarrow> string list" where
  "redacted_runs r = (if is_sensitive_token r then [''['', ''REDACTED'', '']''] else [r])"

lemma redact_run_head: "r \<noteq> [] \<Longrightarrow> \<not> is_sensitive_token r \<Longrightarrow> redact_run r = r"
  by (simp add: redact_run_def)

lemma token_runs_hd:
  "dropWhile is_token_byte s \<noteq> [] \<Longrightarrow>
   \<exists>c rest. token_runs (dropWhile is_token_byte s) = [c] # rest \<and> \<not> is_token_byte c"
  using hd_dropWhile [of is_token_byte s] by (cases "dropWhile is_token_byte s") simp_all

lemma not_sensitive_single: "\<not> is_sensitive_token [c]"
  by (simp add: is_sensitive_token_def is_long_hex_token_def is_recovery_code_def)

lemma runs_of_redacted:
  "token_runs (concat (map redact_run (token_runs t))) = concat (map redacted_runs (token_runs t))"
proof (induction t rule: token_runs.induct)
  case (2 c cs)
  show ?case
  proof (cases "is_token_byte c")
    case True
    let ?r = "c # takeWhile is_token_byte cs" and ?s = "dropWhile is_token_byte cs"
    let ?rest = "concat (map redact_run (token_runs ?s))"
    have "?rest = [] \<or> \<not> is_token_byte (hd ?rest)"
    proof (cases "?s = []")
      case False
      then obtain d rest where "token_runs ?s = [d] # rest" "\<not> is_token_byte d"
        using token_runs_hd by blast
      then show ?thesis
        by (simp add: redact_run_def not_sensitive_single)
    next
      case True
      then show ?thesis
        by (simp only: token_runs.simps list.map concat.simps) simp
    qed
    moreover have "list_all is_token_byte ?r"
      using True by (auto simp: list_all_iff dest: set_takeWhileD)
    ultimately have "token_runs (?r @ ?rest) = ?r # token_runs ?rest"
      by (intro token_runs_token) auto
    moreover have "concat (map redact_run (token_runs (c # cs))) = redact_run ?r @ ?rest"
      "concat (map redacted_runs (token_runs (c # cs)))
        = redacted_runs ?r @ concat (map redacted_runs (token_runs ?s))"
      using True by simp_all
    moreover have "token_runs (redact_run ?r @ ?rest) = redacted_runs ?r @ token_runs ?rest"
      if "token_runs (?r @ ?rest) = ?r # token_runs ?rest"
      using that REDACTION_runs [of ?rest]
      by (cases "is_sensitive_token ?r")
        (simp_all only: redact_run_def redacted_runs_def if_True if_False append_Cons append_Nil)
    ultimately show ?thesis
      using 2(1) [OF True] by (simp only:)
  next
    case False
    with 2(2) [OF False] show ?thesis
      by (simp add: redact_run_def redacted_runs_def not_sensitive_single)
  qed
qed simp

lemma redacted_token_runs:
  "r \<in> set (token_runs (redact_sensitive_tokens t)) \<Longrightarrow> \<not> is_sensitive_token r"
  by (auto simp: redact_sensitive_tokens_runs runs_of_redacted redacted_runs_def
      is_sensitive_token_def is_long_hex_token_def is_recovery_code_def split: if_splits)

lemma redact_sensitive_tokens_idem:
  "redact_sensitive_tokens (redact_sensitive_tokens t) = redact_sensitive_tokens t"
proof -
  have "map redact_run (token_runs (redact_sensitive_tokens t))
      = token_runs (redact_sensitive_tokens t)"
    using redacted_token_runs by (intro map_idI) (auto simp: redact_run_def)
  then show ?thesis
    by (subst redact_sensitive_tokens_runs) simp
qed

lemma hex_bytes_sensitive: "16 \<le> length bs \<Longrightarrow> is_sensitive_token (hex_bytes bs)"
  by (simp add: is_sensitive_token_def is_long_hex_token_def list_all_iff hex_bytes_hexdigits)

lemma token_runs_all: "r \<noteq> [] \<Longrightarrow> list_all is_token_byte r \<Longrightarrow> token_runs r = [r]"
  using token_runs_token [of r "[]"] by simp

lemma hexdigit_token_byte: "is_ascii_hexdigit c \<Longrightarrow> is_token_byte c"
  by (auto simp: is_token_byte_def sb_bytes)

section \<open>Properties\<close>

text \<open>C38: The token pass replaces exactly the sensitive ones (32 or more hexadecimal digits, or the
  shape of a recovery code) among the maximal runs of token bytes, and copies everything else; the
  redacted text has no sensitive run left, whatever the other passes made of it, so redacting its
  tokens again changes nothing.\<close>

theorem redaction_leaves_no_sensitive_token:
  "redact_sensitive_tokens t = concat (map redact_run (token_runs t))
   \<and> list_all (\<lambda>r. \<not> is_sensitive_token r) (token_runs (redact_sensitive t))
   \<and> redact_sensitive_tokens (redact_sensitive t) = redact_sensitive t"
  using redact_sensitive_tokens_runs [of t] redact_sensitive_tokens_idem redacted_token_runs
  by (simp add: redact_sensitive_def list_all_iff)

text \<open>A secret of 32 or more hexadecimal digits is replaced when it stands alone, but the full
  stop and the colon count as token bytes: with one of them at its end, as at the end of a
  sentence, it passes the token pass unchanged.\<close>

theorem hex_secret_before_punctuation_survives:
  "list_all is_ascii_hexdigit h \<Longrightarrow> 32 \<le> length h \<Longrightarrow> p = CHR ''.'' \<or> p = CHR '':'' \<Longrightarrow>
     redact_sensitive_tokens h = REDACTION \<and> redact_sensitive_tokens (h @ [p]) = h @ [p]"
proof -
  assume h: "list_all is_ascii_hexdigit h" "32 \<le> length h" and p: "p = CHR ''.'' \<or> p = CHR '':''"
  have tok: "list_all is_token_byte h" "is_token_byte p"
    using h(1) p hexdigit_token_byte by (auto simp: list_all_iff is_token_byte_def)
  have "\<not> is_ascii_hexdigit p"
    using p by (auto simp: sb_bytes byte_of_def)
  then have "\<not> is_sensitive_token (h @ [p])"
    using h(2) by (simp add: is_sensitive_token_def is_long_hex_token_def is_recovery_code_def)
  moreover have "is_sensitive_token h"
    using h by (simp add: is_sensitive_token_def is_long_hex_token_def)
  moreover have "token_runs h = [h]" "token_runs (h @ [p]) = [h @ [p]]"
    using tok h(2) by (auto intro!: token_runs_all)
  ultimately show ?thesis
    by (simp add: redact_sensitive_tokens_runs redact_run_def)
qed

theorem hex_secret_before_punctuation_survives_witness:
  "redact_sensitive_tokens (replicate 64 (CHR ''a'') @ ''.'') = replicate 64 (CHR ''a'') @ ''.''
   \<and> redact_sensitive (''rotated '' @ replicate 64 (CHR ''a'') @ ''.'')
       = ''rotated '' @ replicate 64 (CHR ''a'') @ ''.''"
proof -
  have "redact_sensitive (''rotated '' @ replicate 64 (CHR ''a'') @ ''.'')
       = ''rotated '' @ replicate 64 (CHR ''a'') @ ''.''"
    by code_simp
  moreover have "is_ascii_hexdigit (CHR ''a'')"
    by (simp add: sb_bytes byte_of_def)
  ultimately show ?thesis
    using hex_secret_before_punctuation_survives [of "replicate 64 (CHR ''a'')" "CHR ''.''"]
    by (simp add: list_all_iff)
qed

end
