(* ===== verification/Sb_Codec.thy ===== *)
theory Sb_Codec
  imports Sb_Redaction
begin

text \<open>
  Encodings and one-time codes: the random tokens of both crates (\<open>random_token\<close>), recovery code
  texts (\<open>sunbolt-auth/src/recovery_codes.rs\<close>), \<open>base64url_encode\<close>
  (\<open>sunbolt-auth/src/passkeys.rs\<close>), and base 32, URL encoding, HMAC and HOTP
  (\<open>sunbolt-auth/src/totp.rs\<close>). Random bytes and SHA-256 are arguments.
\<close>

section \<open>Tokens and recovery codes\<close>

definition random_token :: "u8 list \<Rightarrow> string" where
  "random_token bytes = hex_bytes bytes"

definition RECOVERY_CODE_BYTES :: nat where
  "RECOVERY_CODE_BYTES = 10"

definition generate_recovery_code :: "u8 list \<Rightarrow> string" where
  "generate_recovery_code bytes =
     concat (map (\<lambda>(index, byte). (if index = 4 \<or> index = 7 then ''-'' else []) @ hex_byte byte)
               (enumerate 0 bytes))"

text \<open>One list of random bytes per code.\<close>

definition generate_recovery_codes :: "u8 list list \<Rightarrow> string list" where
  "generate_recovery_codes randoms = map generate_recovery_code randoms"

text \<open>\<open>char::to_lowercase\<close> on a character outside ASCII is the argument \<open>uni_lower\<close>.\<close>

definition char_lowercase :: "(string \<Rightarrow> string) \<Rightarrow> string \<Rightarrow> string" where
  "char_lowercase uni_lower ch =
     (if list_all (\<lambda>c. byte_of c < 128) ch then to_ascii_lowercase ch else uni_lower ch)"

definition normalize_recovery_code :: "(string \<Rightarrow> string) \<Rightarrow> string \<Rightarrow> string" where
  "normalize_recovery_code uni_lower code =
     concat (map (char_lowercase uni_lower)
               (filter (\<lambda>ch. \<not> is_whitespace ch) (utf8_chars code)))"

definition hash_recovery_code ::
  "(u8 list \<Rightarrow> u8 list) \<Rightarrow> (string \<Rightarrow> string) \<Rightarrow> string \<Rightarrow> string" where
  "hash_recovery_code sha uni_lower code =
     hex_bytes (sha (str_bytes (''sunbolt-recovery-code-v1:''
       @ normalize_recovery_code uni_lower code)))"

record stored_recovery_code =
  src_hash :: string
  src_used :: bool

definition recovery_code_records ::
  "(u8 list \<Rightarrow> u8 list) \<Rightarrow> (string \<Rightarrow> string) \<Rightarrow> string list \<Rightarrow> stored_recovery_code list" where
  "recovery_code_records sha uni_lower codes =
     map (\<lambda>code. \<lparr>src_hash = hash_recovery_code sha uni_lower code, src_used = False\<rparr>) codes"

section \<open>Base 32 and base 64\<close>

definition BASE32_ALPHABET :: string where
  "BASE32_ALPHABET = ''ABCDEFGHIJKLMNOPQRSTUVWXYZ234567''"

text \<open>The inner loop, which emits a character per five bits.\<close>

function base32_drain :: "u32 \<Rightarrow> nat \<Rightarrow> string \<Rightarrow> string \<times> nat" where
  "base32_drain buffer bits_left outp =
     (if 5 \<le> bits_left
      then base32_drain buffer (bits_left - 5)
             (outp @ [BASE32_ALPHABET ! unat (drop_bit (bits_left - 5) buffer AND 31)])
      else (outp, bits_left))"
  by pat_completeness auto
termination
  by (relation "measure (\<lambda>(b, n, out). n)") auto

declare base32_drain.simps [simp del]

fun base32_loop :: "u8 list \<Rightarrow> u32 \<Rightarrow> nat \<Rightarrow> string \<Rightarrow> string \<times> u32 \<times> nat" where
  "base32_loop [] buffer bits_left outp = (outp, buffer, bits_left)"
| "base32_loop (byte # bytes) buffer bits_left outp =
     (let buffer' = push_bit 8 buffer OR ucast byte;
          (outp', left') = base32_drain buffer' (bits_left + 8) outp
      in base32_loop bytes buffer' left' outp')"

definition base32_encode :: "u8 list \<Rightarrow> string" where
  "base32_encode bytes =
     (let (outp, buffer, bits_left) = base32_loop bytes 0 0 []
      in if 0 < bits_left
         then outp @ [BASE32_ALPHABET ! unat (push_bit (5 - bits_left) buffer AND 31)]
         else outp)"

definition BASE64URL_ALPHABET :: string where
  "BASE64URL_ALPHABET = ''ABCDEFGHIJKLMNOPQRSTUVWXYZabcdefghijklmnopqrstuvwxyz0123456789-_''"

definition base64url_char :: "u32 \<Rightarrow> nat \<Rightarrow> char" where
  "base64url_char chunk shift = BASE64URL_ALPHABET ! unat (drop_bit shift chunk AND 63)"

fun base64url_encode :: "u8 list \<Rightarrow> string" where
  "base64url_encode (b0 # b1 # b2 # bytes) =
     (let chunk = push_bit 16 (ucast b0) OR push_bit 8 (ucast b1) OR ucast b2 :: u32
      in [base64url_char chunk 18, base64url_char chunk 12, base64url_char chunk 6,
          base64url_char chunk 0] @ base64url_encode bytes)"
| "base64url_encode [b0] =
     (let chunk = push_bit 16 (ucast b0) :: u32
      in [base64url_char chunk 18, base64url_char chunk 12])"
| "base64url_encode [b0, b1] =
     (let chunk = push_bit 16 (ucast b0) OR push_bit 8 (ucast b1) :: u32
      in [base64url_char chunk 18, base64url_char chunk 12, base64url_char chunk 6])"
| "base64url_encode [] = []"

definition random_challenge :: "u8 list \<Rightarrow> string" where
  "random_challenge bytes = base64url_encode bytes"

section \<open>URL encoding\<close>

definition is_unreserved :: "char \<Rightarrow> bool" where
  "is_unreserved c =
     (is_ascii_alphanumeric c \<or> c = CHR ''-'' \<or> c = CHR ''_'' \<or> c = CHR ''.'' \<or> c = CHR ''~'')"

definition upper_hex_digit :: "nat \<Rightarrow> char" where
  "upper_hex_digit n = (if n < 10 then char_of (48 + n) else char_of (55 + n))"

definition url_encode :: "string \<Rightarrow> string" where
  "url_encode s =
     concat (map (\<lambda>c. if is_unreserved c then [c]
        else [CHR ''%'', upper_hex_digit (byte_of c div 16), upper_hex_digit (byte_of c mod 16)]) s)"

section \<open>HMAC, HOTP and TOTP codes\<close>

definition HMAC_BLOCK_SIZE :: nat where
  "HMAC_BLOCK_SIZE = 64"

definition hmac_key_block :: "(u8 list \<Rightarrow> u8 list) \<Rightarrow> u8 list \<Rightarrow> u8 list" where
  "hmac_key_block sha key =
     (let k = (if HMAC_BLOCK_SIZE < length key then sha key else key)
      in k @ replicate (HMAC_BLOCK_SIZE - length k) 0)"

definition hmac_sha256 :: "(u8 list \<Rightarrow> u8 list) \<Rightarrow> u8 list \<Rightarrow> u8 list \<Rightarrow> u8 list" where
  "hmac_sha256 sha key message =
     (let key_block = hmac_key_block sha key;
          outer_pad = map (\<lambda>b. 0x5c XOR b) key_block;
          inner_pad = map (\<lambda>b. 0x36 XOR b) key_block
      in sha (outer_pad @ sha (inner_pad @ message)))"

definition to_be_bytes :: "u64 \<Rightarrow> u8 list" where
  "to_be_bytes c = map (\<lambda>i. ucast (drop_bit (8 * (7 - i)) c)) [0 ..< 8]"

text \<open>\<open>format!("{:0width$}")\<close>.\<close>

definition zero_padded :: "nat \<Rightarrow> string \<Rightarrow> string" where
  "zero_padded width s = replicate (width - length s) (CHR ''0'') @ s"

text \<open>\<open>10_u32.pow(digits)\<close> does not overflow for up to nine digits; the code uses six.\<close>

definition hotp_sha256 :: "(u8 list \<Rightarrow> u8 list) \<Rightarrow> u8 list \<Rightarrow> u64 \<Rightarrow> nat \<Rightarrow> string" where
  "hotp_sha256 sha secret counter digits =
     (let hmac = hmac_sha256 sha secret (to_be_bytes counter);
          offset = unat (hmac ! (length hmac - 1) AND 0x0f);
          binary = push_bit 24 (ucast (hmac ! offset AND 0x7f))
                   OR push_bit 16 (ucast (hmac ! (offset + 1)))
                   OR push_bit 8 (ucast (hmac ! (offset + 2)))
                   OR ucast (hmac ! (offset + 3)) :: u32;
          modulo = 10 ^ digits :: u32
      in zero_padded digits (show_nat (unat (binary mod modulo))))"

fun diff_bytes :: "u8 \<Rightarrow> u8 list \<Rightarrow> u8 list \<Rightarrow> u8" where
  "diff_bytes d (l # ls) (r # rs) = diff_bytes (d OR (l XOR r)) ls rs"
| "diff_bytes d _ _ = d"

definition constant_time_eq :: "u8 list \<Rightarrow> u8 list \<Rightarrow> bool" where
  "constant_time_eq l r = (if length l \<noteq> length r then False else diff_bytes 0 l r = 0)"

record totp_config =
  totp_issuer :: string
  totp_digits :: nat
  totp_period_secs :: u64
  totp_skew_steps :: u64

definition totp_config_default :: totp_config where
  "totp_config_default =
     \<lparr>totp_issuer = ''Sunbolt'', totp_digits = 6, totp_period_secs = 30, totp_skew_steps = 1\<rparr>"

type_synonym totp_secret = "u8 list"

definition DEFAULT_SECRET_LEN :: nat where
  "DEFAULT_SECRET_LEN = 20"

definition totp_secret_to_base32 :: "totp_secret \<Rightarrow> string" where
  "totp_secret_to_base32 s = base32_encode s"

record totp_factor =
  tf_secret :: totp_secret
  tf_config :: totp_config

definition totp_factor_new :: "totp_secret \<Rightarrow> totp_config \<Rightarrow> totp_factor" where
  "totp_factor_new s c = \<lparr>tf_secret = s, tf_config = c\<rparr>"

definition totp_code_at :: "(u8 list \<Rightarrow> u8 list) \<Rightarrow> totp_factor \<Rightarrow> u64 \<Rightarrow> string" where
  "totp_code_at sha f unix_time_secs =
     (let counter = unix_time_secs div (max (totp_period_secs (tf_config f)) 1)
      in hotp_sha256 sha (tf_secret f) counter (totp_digits (tf_config f)))"

definition verify_code_at :: "(u8 list \<Rightarrow> u8 list) \<Rightarrow> totp_factor \<Rightarrow> string \<Rightarrow> u64 \<Rightarrow> bool" where
  "verify_code_at sha f code unix_time_secs =
     (let period = max (totp_period_secs (tf_config f)) 1;
          counter = unix_time_secs div period;
          min_counter = saturating_sub64 counter (totp_skew_steps (tf_config f));
          max_counter = saturating_add64 counter (totp_skew_steps (tf_config f))
      in list_ex (\<lambda>candidate.
           constant_time_eq
             (str_bytes (hotp_sha256 sha (tf_secret f) (of_nat candidate)
                           (totp_digits (tf_config f))))
             (str_bytes code)) [unat min_counter ..< Suc (unat max_counter)])"

definition provisioning_uri :: "totp_config \<Rightarrow> string \<Rightarrow> totp_secret \<Rightarrow> string" where
  "provisioning_uri c account_name secret =
     (let issuer = url_encode (totp_issuer c); account = url_encode account_name
      in ''otpauth://totp/'' @ issuer @ '':'' @ account @ ''?secret='' @ totp_secret_to_base32 secret
         @ ''&issuer='' @ issuer @ ''&algorithm=SHA256&digits='' @ show_nat (totp_digits c)
         @ ''&period='' @ show_nat (unat (max (totp_period_secs c) 1)))"

definition totp_factor_provisioning_uri :: "totp_factor \<Rightarrow> string \<Rightarrow> string" where
  "totp_factor_provisioning_uri f account_name =
     provisioning_uri (tf_config f) account_name (tf_secret f)"

section \<open>Bit strings\<close>

text \<open>The low \<open>n\<close> bits of a word, highest first; both encodings are regroupings of the bits of
  the bytes.\<close>

definition bits_of :: "nat \<Rightarrow> 'a::len word \<Rightarrow> bool list" where
  "bits_of n w = map (\<lambda>i. bit w (n - 1 - i)) [0 ..< n]"

definition byte_bits :: "u8 list \<Rightarrow> bool list" where
  "byte_bits bs = concat (map (bits_of 8) bs)"

lemma length_bits_of [simp]: "length (bits_of n w) = n"
  by (simp add: bits_of_def)

lemma nth_bits_of: "i < n \<Longrightarrow> bits_of n w ! i = bit w (n - 1 - i)"
  by (simp add: bits_of_def)

lemma bits_of_append:
  assumes "\<And>j. j < k \<Longrightarrow> bit w j = bit v j" "\<And>j. j < n \<Longrightarrow> bit w (k + j) = bit u j"
  shows "bits_of (n + k) w = bits_of n u @ bits_of k v"
proof (rule nth_equalityI)
  fix i
  assume "i < length (bits_of (n + k) w)"
  then have i: "i < n + k"
    by simp
  show "bits_of (n + k) w ! i = (bits_of n u @ bits_of k v) ! i"
  proof (cases "i < n")
    case True
    then have "n + k - 1 - i = k + (n - 1 - i)" and "n - 1 - i < n"
      by auto
    with True i show ?thesis
      using assms(2) [of "n - 1 - i"] by (simp add: nth_append nth_bits_of)
  next
    case False
    then have "n + k - 1 - i = k - 1 - (i - n)" and "k - 1 - (i - n) < k" and "i - n < k"
      using i by auto
    with False i show ?thesis
      using assms(1) [of "k - 1 - (i - n)"] by (simp add: nth_append nth_bits_of)
  qed
qed simp

lemma bits_of_cong: "(\<And>j. j < n \<Longrightarrow> bit v j = bit w j) \<Longrightarrow> bits_of n v = bits_of n w"
  by (simp add: bits_of_def)

lemma bits_of_split: "bits_of (n + k) w = bits_of n (drop_bit k w) @ bits_of k w"
  by (rule bits_of_append) (simp_all add: bit_drop_bit_eq)

text \<open>Decoding: the bits of each character by its position in the alphabet, regrouped into bytes;
  what does not fill a byte is dropped.\<close>

definition char_bits :: "nat \<Rightarrow> string \<Rightarrow> char \<Rightarrow> bool list" where
  "char_bits k alphabet c =
     bits_of k (of_nat (length (takeWhile (\<lambda>x. x \<noteq> c) alphabet)) :: u32)"

definition decoded_bits :: "nat \<Rightarrow> string \<Rightarrow> string \<Rightarrow> bool list" where
  "decoded_bits k alphabet s = concat (map (char_bits k alphabet) s)"

definition byte_value :: "bool list \<Rightarrow> u8" where
  "byte_value bs = horner_sum of_bool 2 (rev bs)"

function bytes_of_bits :: "bool list \<Rightarrow> u8 list" where
  "bytes_of_bits bs =
     (if length bs < 8 then [] else byte_value (take 8 bs) # bytes_of_bits (drop 8 bs))"
  by pat_completeness auto
termination
  by (relation "measure length") auto

declare bytes_of_bits.simps [simp del]

definition base32_decode :: "string \<Rightarrow> u8 list" where
  "base32_decode s = bytes_of_bits (decoded_bits 5 BASE32_ALPHABET s)"

definition base64url_decode :: "string \<Rightarrow> u8 list" where
  "base64url_decode s = bytes_of_bits (decoded_bits 6 BASE64URL_ALPHABET s)"

lemma decoded_bits_simps [simp]:
  "decoded_bits k a [] = []"
  "decoded_bits k a (c # s) = char_bits k a c @ decoded_bits k a s"
  "decoded_bits k a (s @ t) = decoded_bits k a s @ decoded_bits k a t"
  by (simp_all add: decoded_bits_def)

lemma byte_bits_simps [simp]:
  "byte_bits [] = []" "byte_bits (b # bs) = bits_of 8 b @ byte_bits bs"
  by (simp_all add: byte_bits_def)

lemma byte_value_bits: "byte_value (bits_of 8 (b :: u8)) = b"
proof -
  have "rev (bits_of 8 b) = map (bit b) [0 ..< 8]"
    by (simp add: bits_of_def rev_map upt_rec eval_nat_numeral)
  then show ?thesis
    by (simp add: byte_value_def horner_sum_bit_eq_take_bit take_bit_word_eq_self)
qed

lemma bytes_of_bits_byte: "bytes_of_bits (bits_of 8 b @ bs) = b # bytes_of_bits bs"
  by (subst bytes_of_bits.simps) (simp add: byte_value_bits)

lemma bytes_of_byte_bits: "length pad < 8 \<Longrightarrow> bytes_of_bits (byte_bits bs @ pad) = bs"
  by (induction bs) (simp_all add: bytes_of_bits.simps [of pad] bytes_of_bits_byte)

lemma position_nth:
  "distinct xs \<Longrightarrow> i < length xs \<Longrightarrow> length (takeWhile (\<lambda>x. x \<noteq> xs ! i) xs) = i"
  by (subst takeWhile_eq_take_P_nth [of i]) (auto simp: nth_eq_iff_index_eq)

lemma unat_and_mask:
  fixes x :: u32
  shows "unat (x AND mask k) < 2 ^ k"
proof -
  have "unat (x AND mask k) = take_bit k (unat x)"
    by (simp only: take_bit_eq_mask [symmetric] unsigned_take_bit_eq)
  then show ?thesis
    by (simp only: take_bit_nat_less_exp)
qed

lemma char_bits_nth:
  assumes "distinct a" "length a = 2 ^ k" "k \<le> 32"
  shows "char_bits k a (a ! unat (x AND mask k)) = bits_of k (x :: u32)"
proof -
  have "length (takeWhile (\<lambda>y. y \<noteq> a ! unat (x AND mask k)) a) = unat (x AND mask k)"
    by (rule position_nth) (simp_all only: assms unat_and_mask)
  then show ?thesis
    using assms(3) by (auto simp: char_bits_def bit_simps intro!: bits_of_cong)
qed

lemma BASE32_facts: "distinct BASE32_ALPHABET" "length BASE32_ALPHABET = 2 ^ 5"
  by (simp_all add: BASE32_ALPHABET_def)

lemma BASE64URL_facts: "distinct BASE64URL_ALPHABET" "length BASE64URL_ALPHABET = 2 ^ 6"
  by (simp_all add: BASE64URL_ALPHABET_def)

lemma base32_char:
  "char_bits 5 BASE32_ALPHABET (BASE32_ALPHABET ! unat ((x :: u32) AND 31)) = bits_of 5 x"
  using char_bits_nth [OF BASE32_facts, of x] by (simp add: mask_numeral)

lemma base64_char: "char_bits 6 BASE64URL_ALPHABET (base64url_char chunk k)
    = bits_of 6 (drop_bit k chunk)"
  using char_bits_nth [OF BASE64URL_facts, of "drop_bit k chunk"]
  by (simp add: base64url_char_def mask_numeral)

section \<open>Base 32 loses nothing\<close>

lemma bits_of_buffer:
  fixes b :: u32 and y :: u8
  assumes "n \<le> 24"
  shows "bits_of (n + 8) (push_bit 8 b OR ucast y) = bits_of n b @ bits_of 8 y"
proof (rule bits_of_append)
  fix j :: nat
  assume "j < 8"
  then show "bit (push_bit 8 b OR ucast y) j = bit y j"
    by (simp add: bit_simps)
next
  fix j :: nat
  assume "j < n"
  moreover have "\<not> bit y (8 + j)"
    using bit_imp_le_length [of y "8 + j"] by auto
  ultimately show "bit (push_bit 8 b OR ucast y) (8 + j) = bit b j"
    using assms by (simp add: bit_simps)
qed

lemma base32_drain_bits:
  "base32_drain b n s = (s', n') \<Longrightarrow>
     n' < 5 \<and> decoded_bits 5 BASE32_ALPHABET s' @ bits_of n' b
       = decoded_bits 5 BASE32_ALPHABET s @ bits_of n b"
proof (induction b n s rule: base32_drain.induct)
  case (1 b n s)
  show ?case
  proof (cases "5 \<le> n")
    case True
    have "bits_of n b = bits_of 5 (drop_bit (n - 5) b) @ bits_of (n - 5) b"
      using bits_of_split [of 5 "n - 5" b] True by simp
    with True 1 show ?thesis
      by (simp add: base32_drain.simps [of b n s] base32_char)
  next
    case False
    with "1.prems" show ?thesis
      by (simp add: base32_drain.simps [of b n s])
  qed
qed

lemma base32_loop_bits:
  "base32_loop bs b n s = (s', b', n') \<Longrightarrow> n < 5 \<Longrightarrow>
     n' < 5 \<and> decoded_bits 5 BASE32_ALPHABET s' @ bits_of n' b'
       = decoded_bits 5 BASE32_ALPHABET s @ bits_of n b @ byte_bits bs"
proof (induction bs b n s rule: base32_loop.induct)
  case (2 byte bytes b n s)
  obtain s1 n1 where d: "base32_drain (push_bit 8 b OR ucast byte) (n + 8) s = (s1, n1)"
    by fastforce
  then have loop: "base32_loop bytes (push_bit 8 b OR ucast byte) n1 s1 = (s', b', n')"
    using "2.prems"(1) by simp
  note bits = base32_drain_bits [OF d]
  have "bits_of (n + 8) (push_bit 8 b OR ucast byte) = bits_of n b @ bits_of 8 byte"
    using "2.prems"(2) by (intro bits_of_buffer) simp
  with bits "2.IH" [OF refl d [symmetric] refl loop] show ?case
    by simp
qed simp

lemma bits_of_zero: "bits_of n (0 :: 'a::len word) = replicate n False"
  by (rule nth_equalityI) (simp_all add: nth_bits_of)

lemma bits_of_push:
  fixes b :: u32
  assumes "n \<le> 5"
  shows "bits_of 5 (push_bit (5 - n) b) = bits_of n b @ replicate (5 - n) False"
proof -
  have "bits_of (n + (5 - n)) (push_bit (5 - n) b) = bits_of n b @ bits_of (5 - n) (0 :: u32)"
    using assms by (intro bits_of_append) (auto simp: bit_simps)
  with assms show ?thesis
    by (simp add: bits_of_zero)
qed

lemma base32_encode_bits:
  "\<exists>p < 5. decoded_bits 5 BASE32_ALPHABET (base32_encode bs) = byte_bits bs @ replicate p False"
proof -
  obtain s b n where l: "base32_loop bs 0 0 [] = (s, b, n)"
    by (metis prod_cases3)
  then have n: "n < 5" and bits: "decoded_bits 5 BASE32_ALPHABET s @ bits_of n b = byte_bits bs"
    using base32_loop_bits [OF l] by (simp_all add: bits_of_def)
  show ?thesis
  proof (cases "0 < n")
    case True
    then have "decoded_bits 5 BASE32_ALPHABET (base32_encode bs)
        = decoded_bits 5 BASE32_ALPHABET s @ bits_of n b @ replicate (5 - n) False"
      using n by (simp add: base32_encode_def l base32_char bits_of_push)
    then have "decoded_bits 5 BASE32_ALPHABET (base32_encode bs)
        = byte_bits bs @ replicate (5 - n) False"
      using bits by (metis append_assoc)
    then show ?thesis
      using True by (intro exI [of _ "5 - n"]) simp
  next
    case False
    then show ?thesis
      using bits by (intro exI [of _ 0]) (simp add: base32_encode_def l bits_of_def)
  qed
qed

lemma base32_round_trip: "base32_decode (base32_encode bs) = bs"
  using base32_encode_bits [of bs] by (auto simp: base32_decode_def bytes_of_byte_bits)

section \<open>Base 64 loses nothing\<close>

lemma chunk_bits:
  fixes b0 b1 b2 :: u8
  shows "bits_of 24 (push_bit 16 (ucast b0) OR push_bit 8 (ucast b1) OR ucast b2 :: u32)
    = bits_of 8 b0 @ bits_of 8 b1 @ bits_of 8 b2"
proof -
  have split: "push_bit 16 (ucast b0) OR push_bit 8 (ucast b1) OR ucast b2
      = push_bit 8 (push_bit 8 (ucast b0) OR ucast b1) OR (ucast b2 :: u32)"
    by (rule bit_word_eqI) (auto simp: bit_simps)
  have "bits_of 8 (ucast b0 :: u32) = bits_of 8 b0"
    by (rule bits_of_cong) (simp add: bit_simps)
  then show ?thesis
    using bits_of_buffer [of 16 "push_bit 8 (ucast b0) OR ucast b1" b2]
      bits_of_buffer [of 8 "ucast b0" b1] by (simp add: split)
qed

lemma bits_of_24:
  fixes chunk :: u32
  shows "bits_of 24 chunk = bits_of 6 (drop_bit 18 chunk) @ bits_of 6 (drop_bit 12 chunk)
    @ bits_of 6 (drop_bit 6 chunk) @ bits_of 6 (drop_bit 0 chunk)"
  using bits_of_split [of 6 18 chunk] bits_of_split [of 6 12 chunk] bits_of_split [of 6 6 chunk]
  by simp

lemma take_two_groups: "length a = 6 \<Longrightarrow> length b = 6 \<Longrightarrow> a @ b @ c = d \<Longrightarrow> a @ b = take 12 d"
  and take_three_groups: "length a = 6 \<Longrightarrow> length b = 6 \<Longrightarrow> length c = 6 \<Longrightarrow>
    a @ b @ c @ e = d \<Longrightarrow> a @ b @ c = take 18 d"
  by auto

lemma base64url_encode_bits:
  "\<exists>p < 8. decoded_bits 6 BASE64URL_ALPHABET (base64url_encode bs) = byte_bits bs @ replicate p False"
proof (induction bs rule: base64url_encode.induct)
  case (1 b0 b1 b2 bytes)
  then show ?case
    using bits_of_24 [of "push_bit 16 (ucast b0) OR push_bit 8 (ucast b1) OR ucast b2"]
    by (auto simp: base64_char chunk_bits Let_def)
next
  case (2 b0)
  let ?c = "push_bit 16 (ucast b0) :: u32"
  have "bits_of 24 ?c = bits_of 8 b0 @ replicate 16 False"
    using chunk_bits [of b0 0 0] by (simp add: bits_of_zero replicate_add [symmetric])
  then have "bits_of 6 (drop_bit 18 ?c) @ bits_of 6 (drop_bit 12 ?c)
      = take 12 (bits_of 8 b0 @ replicate 16 False)"
    using bits_of_24 [of ?c] by (intro take_two_groups) (simp_all only: length_bits_of)
  then show ?case
    by (intro exI [of _ 4]) (simp add: base64_char Let_def)
next
  case (3 b0 b1)
  let ?c = "push_bit 16 (ucast b0) OR push_bit 8 (ucast b1) :: u32"
  have "bits_of 24 ?c = bits_of 8 b0 @ bits_of 8 b1 @ replicate 8 False"
    using chunk_bits [of b0 b1 0] by (simp add: bits_of_zero)
  then have "bits_of 6 (drop_bit 18 ?c) @ bits_of 6 (drop_bit 12 ?c) @ bits_of 6 (drop_bit 6 ?c)
      = take 18 (bits_of 8 b0 @ bits_of 8 b1 @ replicate 8 False)"
    using bits_of_24 [of ?c] by (intro take_three_groups) (simp_all only: length_bits_of)
  then show ?case
    by (intro exI [of _ 2]) (simp add: base64_char Let_def)
qed simp

lemma base64url_round_trip: "base64url_decode (base64url_encode bs) = bs"
  using base64url_encode_bits [of bs] by (auto simp: base64url_decode_def bytes_of_byte_bits)

section \<open>Comparison and codes\<close>

lemma or_eq_0_iff: "(a OR b = 0) \<longleftrightarrow> a = 0 \<and> b = (0 :: 'a::len word)"
proof
  assume "a OR b = 0"
  then have "\<not> bit a n \<and> \<not> bit b n" for n
    by (metis bit_0_eq bit_or_iff bot_apply bot_bool_def)
  then show "a = 0 \<and> b = 0"
    by (auto intro!: bit_word_eqI)
qed simp

lemma xor_eq_0_iff: "(a XOR b = 0) \<longleftrightarrow> a = (b :: 'a::len word)"
  by (metis xor.assoc xor.left_neutral xor_self_eq)

lemma diff_bytes_zero:
  "length l = length r \<Longrightarrow> diff_bytes d l r = 0 \<longleftrightarrow> d = 0 \<and> l = r"
  by (induction d l r rule: diff_bytes.induct) (auto simp: or_eq_0_iff xor_eq_0_iff)

lemma constant_time_eq_iff: "constant_time_eq l r \<longleftrightarrow> l = r"
  by (auto simp: constant_time_eq_def diff_bytes_zero)

lemma str_bytes_inject: "str_bytes s = str_bytes t \<longleftrightarrow> s = t"
proof
  assume "str_bytes s = str_bytes t"
  then have "map unat (str_bytes s) = map unat (str_bytes t)"
    by simp
  moreover have "unat (of_nat (byte_of c) :: u8) = byte_of c" for c
    using byte_of_bound [of c] unat_of_nat_less [of "byte_of c", where ?'a = 8] by simp
  ultimately have "map byte_of s = map byte_of t"
    by (simp add: str_bytes_def comp_def)
  then show "s = t"
    by (simp add: inj_map_eq_map inj_def)
qed simp

lemma verify_code_at_iff:
  "verify_code_at sha f code t \<longleftrightarrow>
     (\<exists>c. unat (t div max (totp_period_secs (tf_config f)) 1) \<le> unat c + unat (totp_skew_steps (tf_config f))
        \<and> unat c \<le> unat (t div max (totp_period_secs (tf_config f)) 1)
                      + unat (totp_skew_steps (tf_config f))
        \<and> code = hotp_sha256 sha (tf_secret f) c (totp_digits (tf_config f)))"
    (is "_ \<longleftrightarrow> (\<exists>c. ?lo c \<and> ?hi c \<and> code = ?h c)")
proof -
  let ?m = "t div max (totp_period_secs (tf_config f)) 1" and ?k = "totp_skew_steps (tf_config f)"
  have "verify_code_at sha f code t \<longleftrightarrow>
      (\<exists>n. unat ?m - unat ?k \<le> n \<and> n \<le> min (unat ?m + unat ?k) (2 ^ 64 - 1) \<and> code = ?h (of_nat n))"
    unfolding verify_code_at_def Let_def constant_time_eq_iff str_bytes_inject list_ex_iff
    by (simp only: set_upt unat_saturating_add64 unat_saturating_sub64 atLeastLessThan_iff
        less_Suc_eq_le Bex_def) auto
  also have "\<dots> \<longleftrightarrow> (\<exists>c. ?lo c \<and> ?hi c \<and> code = ?h c)"
  proof
    assume "\<exists>n. unat ?m - unat ?k \<le> n \<and> n \<le> min (unat ?m + unat ?k) (2 ^ 64 - 1) \<and> code = ?h (of_nat n)"
    then obtain n where n: "unat ?m - unat ?k \<le> n" "n \<le> unat ?m + unat ?k" "n \<le> 2 ^ 64 - 1"
        "code = ?h (of_nat n)"
      by auto
    have "unat (of_nat n :: u64) = n"
      using n(3) by (intro unat_of_nat_less) simp
    with n have "?lo (of_nat n) \<and> ?hi (of_nat n) \<and> code = ?h (of_nat n)"
      by (simp add: le_diff_conv)
    then show "\<exists>c. ?lo c \<and> ?hi c \<and> code = ?h c"
      by blast
  next
    assume "\<exists>c. ?lo c \<and> ?hi c \<and> code = ?h c"
    then obtain c where c: "?lo c" "?hi c" "code = ?h c"
      by blast
    then show "\<exists>n. unat ?m - unat ?k \<le> n \<and> n \<le> min (unat ?m + unat ?k) (2 ^ 64 - 1) \<and> code = ?h (of_nat n)"
      using unat64_less [of c] by (intro exI [of _ "unat c"]) (simp add: le_diff_conv)
  qed
  finally show ?thesis .
qed

lemma show_nat_length: "n < 10 ^ d \<Longrightarrow> 0 < d \<Longrightarrow> length (show_nat n) \<le> d"
proof (induction n arbitrary: d rule: show_nat.induct)
  case (1 n)
  show ?case
  proof (cases "n < 10")
    case True
    then show ?thesis
      using "1.prems" by (simp add: show_nat.simps [of n])
  next
    case False
    then obtain k where k: "d = Suc k" "0 < k"
      using "1.prems" by (cases d; cases "d - 1") auto
    then have "n div 10 < 10 ^ k"
      using "1.prems"(1) by (simp add: div_less_iff_less_mult mult.commute)
    from "1.IH" [OF False this k(2)] False k show ?thesis
      by (simp add: show_nat.simps [of n])
  qed
qed

lemma zero_padded_digits:
  "list_all is_ascii_digit s \<Longrightarrow> list_all is_ascii_digit (zero_padded w s)"
  by (auto simp: zero_padded_def list_all_iff is_ascii_digit_def byte_of_def)

lemma hotp_shape:
  assumes "0 < digits" "digits \<le> 9"
  shows "length (hotp_sha256 sha secret counter digits) = digits
    \<and> list_all is_ascii_digit (hotp_sha256 sha secret counter digits)"
proof -
  have "(10 :: nat) ^ digits \<le> 10 ^ 9"
    using assms(2) by (intro power_increasing) simp_all
  then have "unat ((10 :: u32) ^ digits) = 10 ^ digits"
    using unat_of_nat_less [of "10 ^ digits", where ?'a = 32] by simp
  then have "unat (x mod (10 :: u32) ^ digits) < 10 ^ digits" for x
    by (simp add: unat_mod)
  then have "length (show_nat (unat (x mod (10 :: u32) ^ digits))) \<le> digits" for x
    using assms(1) by (intro show_nat_length)
  moreover have "list_all is_ascii_digit (show_nat n)" for n
    using show_nat_digits by (simp add: list_all_iff)
  ultimately show ?thesis
    unfolding hotp_sha256_def Let_def by (simp add: zero_padded_digits) (simp add: zero_padded_def)
qed

section \<open>Recovery codes and tokens are redacted\<close>

lemma generate_recovery_code_eq:
  assumes "length bs = 10"
  shows "generate_recovery_code bs =
    hex_bytes (take 4 bs) @ ''-'' @ hex_bytes (take 3 (drop 4 bs)) @ ''-'' @ hex_bytes (drop 7 bs)"
proof -
  obtain b0 b1 b2 b3 b4 b5 b6 b7 b8 b9 where "bs = [b0, b1, b2, b3, b4, b5, b6, b7, b8, b9]"
    using assms by (auto simp: length_Suc_conv eval_nat_numeral)
  then show ?thesis
    by (simp add: generate_recovery_code_def hex_bytes_def enumerate_eq_zip upt_rec)
qed

lemma recovery_code_shape:
  assumes "length bs = 10"
  shows "is_recovery_code (generate_recovery_code bs)"
proof -
  let ?a = "hex_bytes (take 4 bs)" and ?b = "hex_bytes (take 3 (drop 4 bs))"
    and ?c = "hex_bytes (drop 7 bs)"
  have len: "length ?a = 8" "length ?b = 6" "length ?c = 6"
    using assms by simp_all
  have digits: "is_ascii_hexdigit ((?a @ ''-'' @ ?b @ ''-'' @ ?c) ! i)"
    if "i < 22" "i \<noteq> 8" "i \<noteq> 15" for i
  proof -
    have "i < 8 \<or> 8 < i \<and> i < 15 \<or> 15 < i"
      using that(2,3) by arith
    then consider "i < 8" | "8 < i" "i < 15" | "15 < i"
      by blast
    then have "(?a @ ''-'' @ ?b @ ''-'' @ ?c) ! i \<in> set ?a \<union> set ?b \<union> set ?c"
    proof cases
      case 1
      then show ?thesis using len by (simp add: nth_append)
    next
      case 2
      then have "i - 9 < 6" and "\<not> i < 8" and "i - 8 = Suc (i - 9)"
        by arith+
      then have "(?a @ ''-'' @ ?b @ ''-'' @ ?c) ! i = ?b ! (i - 9)" and "i - 9 < length ?b"
        using len by (simp_all add: nth_append)
      then show ?thesis by simp
    next
      case 3
      then have "\<not> i < 8" and "i - 8 = Suc (i - 9)" and "\<not> i - 9 < 6"
        and "i - 9 - 6 = Suc (i - 16)" and "i - 16 < 6"
        using that(1) by arith+
      then have "(?a @ ''-'' @ ?b @ ''-'' @ ?c) ! i = ?c ! (i - 16)" and "i - 16 < length ?c"
        using len by (simp_all add: nth_append)
      then show ?thesis by simp
    qed
    then show ?thesis
      using hex_bytes_hexdigits by blast
  qed
  define code where "code = ?a @ ''-'' @ ?b @ ''-'' @ ?c"
  have "length code = 22" "code ! 8 = CHR ''-''" "code ! 15 = CHR ''-''"
    using len by (simp_all add: code_def nth_append)
  moreover have "i < 22 \<Longrightarrow> i = 8 \<or> i = 15 \<or> is_ascii_hexdigit (code ! i)" for i
    using digits [of i] unfolding code_def by blast
  ultimately show ?thesis
    unfolding is_recovery_code_def generate_recovery_code_eq [OF assms] code_def [symmetric]
    by (auto simp: list_all_iff)
qed

lemma recovery_code_not_blank_char: "is_ascii_hexdigit c \<or> c = CHR ''-'' \<Longrightarrow> is_token_byte c"
  using hexdigit_token_byte by (auto simp: is_token_byte_def)

lemma recovery_code_token_bytes:
  assumes "is_recovery_code c"
  shows "list_all is_token_byte c"
proof -
  have "i = 8 \<or> i = 15 \<or> is_ascii_hexdigit (c ! i)" if "i < length c" for i
    using assms that unfolding is_recovery_code_def list_all_iff set_upt by simp
  moreover have "c ! 8 = CHR ''-''" "c ! 15 = CHR ''-''"
    using assms unfolding is_recovery_code_def by blast+
  ultimately have "is_token_byte (c ! i)" if "i < length c" for i
    using that recovery_code_not_blank_char by metis
  then show ?thesis
    by (auto simp: list_all_length)
qed

lemma token_runs_append:
  "a = [] \<or> \<not> is_token_byte (last a) \<Longrightarrow> token_runs (a @ b) = token_runs a @ token_runs b"
proof (induction a rule: token_runs.induct)
  case (2 c cs)
  show ?case
  proof (cases "is_token_byte c")
    case True
    then have "cs \<noteq> []" and l: "\<not> is_token_byte (last cs)"
      using "2.prems" by (auto split: if_splits)
    then have "last cs \<in> set cs"
      by simp
    with l have tw: "takeWhile is_token_byte (cs @ b) = takeWhile is_token_byte cs"
      and dw: "dropWhile is_token_byte (cs @ b) = dropWhile is_token_byte cs @ b"
      by (simp_all add: takeWhile_append1 dropWhile_append1)
    have "dropWhile is_token_byte cs \<noteq> []"
      using l \<open>last cs \<in> set cs\<close> by (auto simp: dropWhile_eq_Nil_conv)
    then have "last (dropWhile is_token_byte cs) = last cs"
      by (metis last_appendR takeWhile_dropWhile_id)
    with l "2.IH"(1) [OF True] True show ?thesis
      by (simp add: tw dw)
  next
    case False
    with 2 show ?thesis
      by (cases cs) auto
  qed
qed simp

lemma redact_delimited:
  assumes "is_sensitive_token s" "list_all is_token_byte s"
    and "a = [] \<or> \<not> is_token_byte (last a)" "b = [] \<or> \<not> is_token_byte (hd b)"
  shows "redact_sensitive_tokens (a @ s @ b)
    = redact_sensitive_tokens a @ REDACTION @ redact_sensitive_tokens b"
proof -
  have "s \<noteq> []"
    using assms(1) by (auto simp: is_sensitive_token_def is_long_hex_token_def is_recovery_code_def)
  then have "token_runs (a @ s @ b) = token_runs a @ s # token_runs b"
    using token_runs_append [OF assms(3)] token_runs_token [OF _ assms(2,4)] by simp
  then show ?thesis
    using assms(1) by (simp add: redact_sensitive_tokens_runs redact_run_def)
qed

section \<open>Properties\<close>

text \<open>The two unpadded encodings lose nothing: an authenticator that decodes the base 32 secret
  of a provisioning URI, and a browser that decodes a base 64 challenge, get back the very bytes.\<close>

theorem encodings_round_trip:
  "base32_decode (base32_encode bs) = bs \<and> base64url_decode (base64url_encode bs) = bs"
  by (simp add: base32_round_trip base64url_round_trip)

text \<open>C39: A TOTP code is accepted exactly when it is the HOTP value of a time step at most
  \<open>skew_steps\<close> away from the current one (in spite of the saturating bounds and the byte-wise
  comparison), and the values have exactly six digits under the default configuration.\<close>

theorem totp_accepts_exactly_the_window:
  "(verify_code_at sha f code t \<longleftrightarrow>
     (\<exists>c. unat (t div max (totp_period_secs (tf_config f)) 1)
            \<le> unat c + unat (totp_skew_steps (tf_config f))
        \<and> unat c \<le> unat (t div max (totp_period_secs (tf_config f)) 1)
                      + unat (totp_skew_steps (tf_config f))
        \<and> code = hotp_sha256 sha (tf_secret f) c (totp_digits (tf_config f))))
   \<and> verify_code_at sha f (totp_code_at sha f t) t
   \<and> length (totp_code_at sha (totp_factor_new secret totp_config_default) t) = 6
   \<and> list_all is_ascii_digit (totp_code_at sha (totp_factor_new secret totp_config_default) t)"
proof -
  have "verify_code_at sha f (totp_code_at sha f t) t"
    unfolding verify_code_at_iff
    by (rule exI [of _ "t div max (totp_period_secs (tf_config f)) 1"])
      (simp add: totp_code_at_def Let_def)
  then show ?thesis
    using hotp_shape [of 6 sha] unfolding verify_code_at_iff
    by (simp add: totp_code_at_def totp_factor_new_def totp_config_default_def Let_def)
qed

text \<open>Every secret the system generates is recognised by the redactor: a session, reconnect or
  node token and a recovery code, wherever it stands in a text between bytes that are not token
  bytes, is replaced.\<close>

theorem generated_secrets_are_redacted:
  "length bs = 32 \<and> s = random_token bs \<or> length bs = 10 \<and> s = generate_recovery_code bs \<Longrightarrow>
   a = [] \<or> \<not> is_token_byte (last a) \<Longrightarrow> b = [] \<or> \<not> is_token_byte (hd b) \<Longrightarrow>
     redact_sensitive_tokens (a @ s @ b)
       = redact_sensitive_tokens a @ REDACTION @ redact_sensitive_tokens b"
proof -
  assume s: "length bs = 32 \<and> s = random_token bs \<or> length bs = 10 \<and> s = generate_recovery_code bs"
    and ab: "a = [] \<or> \<not> is_token_byte (last a)" "b = [] \<or> \<not> is_token_byte (hd b)"
  have "is_sensitive_token s \<and> list_all is_token_byte s"
    using s
  proof
    assume "length bs = 32 \<and> s = random_token bs"
    then show ?thesis
      using hex_bytes_sensitive [of bs] hex_bytes_hexdigits hexdigit_token_byte
      by (auto simp: random_token_def list_all_iff)
  next
    assume "length bs = 10 \<and> s = generate_recovery_code bs"
    then show ?thesis
      using recovery_code_shape recovery_code_token_bytes by (simp add: is_sensitive_token_def)
  qed
  with ab show ?thesis
    by (blast intro: redact_delimited)
qed

theorem generated_secrets_are_redacted_witness:
  "redact_sensitive_tokens (''code '' @ generate_recovery_code [1, 2, 3, 4, 5, 6, 7, 8, 9, 10] @ '', ok'')
     = ''code '' @ REDACTION @ '', ok''"
proof -
  have "\<not> is_token_byte (last ''code '')" "\<not> is_token_byte (hd '', ok'')"
    "redact_sensitive_tokens ''code '' = ''code ''" "redact_sensitive_tokens '', ok'' = '', ok''"
    by code_simp+
  then show ?thesis
    using generated_secrets_are_redacted
      [of "[1, 2, 3, 4, 5, 6, 7, 8, 9, 10]"
        "generate_recovery_code [1, 2, 3, 4, 5, 6, 7, 8, 9, 10]" "''code ''" "'', ok''"]
    by simp
qed

end
