(* ===== verification/Sb_Audit.thy ===== *)
theory Sb_Audit
  imports Sb_Redaction
begin

text \<open>
  The audit crate (\<open>sunbolt-audit\<close>): event kinds (\<open>types.rs\<close>), the hash chain and its verification
  (\<open>chain.rs\<close>), the append-only log (\<open>log.rs\<close>), and the control plane's wrappers that record
  events (\<open>sunbolt-control/src/audit.rs\<close>). SHA-256 is the argument \<open>sha\<close>, a function on bytes; the
  wall clock is an argument of \<open>record_event\<close>. The log's mutex is never found poisoned, as the code
  recovers its contents.
\<close>

section \<open>Events\<close>

datatype audit_event_kind =
  UserLoginSuccess | UserLoginFailed | UserLogout | UserMfaChallenge | UserMfaSuccess
  | TerminalOpened | TerminalDetached | TerminalReattached | TerminalTerminated
  | TerminalClosed | TerminalFailed | AgentTransportNegotiated | AgentConnected
  | KindAgentDisconnected | AgentAuthenticationFailed | NodeEnrolled | NodeCredentialRotated
  | NodeRevoked | RouteSelected | RouteFailed

fun kind_as_str :: "audit_event_kind \<Rightarrow> string" where
  "kind_as_str UserLoginSuccess = ''user.login.success''"
| "kind_as_str UserLoginFailed = ''user.login.failed''"
| "kind_as_str UserLogout = ''user.logout''"
| "kind_as_str UserMfaChallenge = ''user.mfa.challenge''"
| "kind_as_str UserMfaSuccess = ''user.mfa.success''"
| "kind_as_str TerminalOpened = ''terminal.opened''"
| "kind_as_str TerminalDetached = ''terminal.detached''"
| "kind_as_str TerminalReattached = ''terminal.reattached''"
| "kind_as_str TerminalTerminated = ''terminal.terminated''"
| "kind_as_str TerminalClosed = ''terminal.closed''"
| "kind_as_str TerminalFailed = ''terminal.failed''"
| "kind_as_str AgentTransportNegotiated = ''agent.transport.negotiated''"
| "kind_as_str AgentConnected = ''agent.connected''"
| "kind_as_str KindAgentDisconnected = ''agent.disconnected''"
| "kind_as_str AgentAuthenticationFailed = ''agent.authentication.failed''"
| "kind_as_str NodeEnrolled = ''node.enrolled''"
| "kind_as_str NodeCredentialRotated = ''node.credential.rotated''"
| "kind_as_str NodeRevoked = ''node.revoked''"
| "kind_as_str RouteSelected = ''route.selected''"
| "kind_as_str RouteFailed = ''route.failed''"

definition is_access_history :: "audit_event_kind \<Rightarrow> bool" where
  "is_access_history k =
     (k \<in> {UserLoginSuccess, UserLoginFailed, UserLogout, UserMfaChallenge, UserMfaSuccess,
           TerminalOpened, TerminalDetached, TerminalReattached, TerminalTerminated,
           TerminalClosed, TerminalFailed})"

definition is_operational :: "audit_event_kind \<Rightarrow> bool" where
  "is_operational k =
     (k \<in> {AgentConnected, KindAgentDisconnected, AgentTransportNegotiated, RouteSelected,
           RouteFailed})"

record audit_event =
  ae_id :: u64
  ae_kind :: audit_event_kind
  ae_actor_email :: "string option"
  ae_message :: string
  ae_created_at_unix_secs :: u64
  ae_previous_hash :: string
  ae_event_hash :: string

record audit_event_input =
  ai_kind :: audit_event_kind
  ai_actor_email :: "string option"
  ai_message :: string

section \<open>The hash chain\<close>

type_synonym hash_fun = "u8 list \<Rightarrow> u8 list"

definition GENESIS_HASH :: string where
  "GENESIS_HASH = replicate 64 (CHR ''0'')"

definition hex_sha256 :: "hash_fun \<Rightarrow> u8 list \<Rightarrow> string" where
  "hex_sha256 sha bytes = hex_bytes (sha bytes)"

text \<open>The canonical string that is hashed.\<close>

definition canonical :: "u64 \<Rightarrow> string \<Rightarrow> string option \<Rightarrow> string \<Rightarrow> u64 \<Rightarrow> string \<Rightarrow> string" where
  "canonical i kind_str actor_email message created_at previous_hash =
     previous_hash @ '':'' @ show_nat (unat i) @ '':'' @ kind_str @ '':''
     @ (case actor_email of None \<Rightarrow> [] | Some e \<Rightarrow> e) @ '':'' @ message @ '':''
     @ show_nat (unat created_at)"

definition compute_event_hash ::
  "hash_fun \<Rightarrow> u64 \<Rightarrow> string \<Rightarrow> string option \<Rightarrow> string \<Rightarrow> u64 \<Rightarrow> string \<Rightarrow> string" where
  "compute_event_hash sha i kind_str actor_email message created_at previous_hash =
     hex_sha256 sha
       (str_bytes (canonical i kind_str actor_email message created_at previous_hash))"

fun verify_from :: "hash_fun \<Rightarrow> string \<Rightarrow> audit_event list \<Rightarrow> bool" where
  "verify_from sha expected [] = True"
| "verify_from sha expected (e # es) =
     (if ae_previous_hash e \<noteq> expected then False
      else if ae_event_hash e \<noteq> compute_event_hash sha (ae_id e) (kind_as_str (ae_kind e))
                (ae_actor_email e) (ae_message e) (ae_created_at_unix_secs e)
                (ae_previous_hash e)
      then False
      else verify_from sha (ae_event_hash e) es)"

definition verify_chain :: "hash_fun \<Rightarrow> audit_event list \<Rightarrow> bool" where
  "verify_chain sha es = verify_from sha GENESIS_HASH es"

section \<open>The log\<close>

record audit_log =
  log_events :: "audit_event list"
  log_last_hash :: string
  log_next_id :: u64

definition audit_log_new :: audit_log where
  "audit_log_new = \<lparr>log_events = [], log_last_hash = GENESIS_HASH, log_next_id = 1\<rparr>"

definition audit_record :: "hash_fun \<Rightarrow> u64 \<Rightarrow> audit_event_input \<Rightarrow> audit_log \<Rightarrow> audit_log" where
  "audit_record sha created_at inp st =
     (let i = log_next_id st;
          previous_hash = log_last_hash st;
          message = redact_sensitive (ai_message inp);
          event_hash = compute_event_hash sha i (kind_as_str (ai_kind inp))
                         (ai_actor_email inp) message created_at previous_hash
      in \<lparr>log_events = log_events st @
            [\<lparr>ae_id = i, ae_kind = ai_kind inp, ae_actor_email = ai_actor_email inp,
              ae_message = message, ae_created_at_unix_secs = created_at,
              ae_previous_hash = previous_hash, ae_event_hash = event_hash\<rparr>],
          log_last_hash = event_hash, log_next_id = i + 1\<rparr>)"

definition access_history :: "audit_log \<Rightarrow> audit_event list" where
  "access_history st = filter (\<lambda>e. is_access_history (ae_kind e)) (log_events st)"

definition verify_integrity :: "hash_fun \<Rightarrow> audit_log \<Rightarrow> bool" where
  "verify_integrity sha st = verify_chain sha (log_events st)"

section \<open>The control plane's wrappers\<close>

definition record_event ::
  "hash_fun \<Rightarrow> u64 \<Rightarrow> audit_log \<Rightarrow> audit_event_kind \<Rightarrow> string option \<Rightarrow> string \<Rightarrow> audit_log" where
  "record_event sha now audit kind actor message =
     audit_record sha now \<lparr>ai_kind = kind, ai_actor_email = actor, ai_message = message\<rparr> audit"

definition record_terminal_closed ::
  "hash_fun \<Rightarrow> u64 \<Rightarrow> audit_log \<Rightarrow> string \<Rightarrow> string \<Rightarrow> audit_log" where
  "record_terminal_closed sha now audit actor message =
     record_event sha now audit TerminalClosed (Some actor) message"

definition record_route_selected ::
  "hash_fun \<Rightarrow> u64 \<Rightarrow> audit_log \<Rightarrow> string \<Rightarrow> string \<Rightarrow> string \<Rightarrow> string \<Rightarrow> audit_log" where
  "record_route_selected sha now audit actor node_id session_id route_id =
     record_event sha now audit RouteSelected (Some actor)
       (''route '' @ route_id @ '' selected for terminal session '' @ session_id @ '' on node ''
        @ node_id)"

definition record_route_failed ::
  "hash_fun \<Rightarrow> u64 \<Rightarrow> audit_log \<Rightarrow> string \<Rightarrow> string \<Rightarrow> string \<Rightarrow> string option \<Rightarrow> string
   \<Rightarrow> audit_log" where
  "record_route_failed sha now audit actor node_id session_id route_id reason =
     record_event sha now audit RouteFailed (Some actor)
       (''route '' @ (case route_id of None \<Rightarrow> ''unavailable'' | Some r \<Rightarrow> r)
        @ '' failed for terminal session '' @ session_id @ '' on node '' @ node_id @ '': ''
        @ reason)"

section \<open>What the canonical string determines\<close>

definition event_canonical :: "audit_event \<Rightarrow> string" where
  "event_canonical e =
     canonical (ae_id e) (kind_as_str (ae_kind e)) (ae_actor_email e) (ae_message e)
       (ae_created_at_unix_secs e) (ae_previous_hash e)"

definition actor_and_message :: "audit_event \<Rightarrow> string" where
  "actor_and_message e =
     (case ae_actor_email e of None \<Rightarrow> [] | Some a \<Rightarrow> a) @ '':'' @ ae_message e"

lemma event_hash_canonical:
  "compute_event_hash sha (ae_id e) (kind_as_str (ae_kind e)) (ae_actor_email e) (ae_message e)
     (ae_created_at_unix_secs e) (ae_previous_hash e) = hex_sha256 sha (str_bytes (event_canonical e))"
  by (simp add: compute_event_hash_def event_canonical_def)

lemma event_canonical_eq:
  "event_canonical e = ae_previous_hash e @ '':'' @ show_nat (unat (ae_id e)) @ '':''
     @ kind_as_str (ae_kind e) @ '':'' @ actor_and_message e @ '':''
     @ show_nat (unat (ae_created_at_unix_secs e))"
  by (simp add: event_canonical_def canonical_def actor_and_message_def)

lemma colon_not_digit: "\<not> is_ascii_digit (CHR '':'')"
  by (simp add: sb_bytes byte_of_def)

lemma colon_notin_show_nat: "CHR '':'' \<notin> set (show_nat n)"
  using show_nat_digits colon_not_digit by blast

lemma colon_notin_kind: "CHR '':'' \<notin> set (kind_as_str k)"
  by (cases k) simp_all

lemma kind_as_str_inject: "kind_as_str k = kind_as_str l \<Longrightarrow> k = l"
  by (cases k; cases l; simp)

lemma sep_inject:
  "(c :: char) \<notin> set a \<Longrightarrow> c \<notin> set a' \<Longrightarrow> a @ c # b = a' @ c # b' \<Longrightarrow> a = a' \<and> b = b'"
  using split_once_Some_iff [of c "a @ c # b" a b] split_once_Some_iff [of c "a' @ c # b'" a' b']
  by simp

lemma sep_inject_last:
  assumes "(c :: char) \<notin> set b" "c \<notin> set b'" "a @ c # b = a' @ c # b'"
  shows "a = a' \<and> b = b'"
proof -
  have "rev b @ c # rev a = rev b' @ c # rev a'"
    using arg_cong [OF assms(3), of rev] by simp
  from sep_inject [OF _ _ this] assms(1,2) show ?thesis
    by simp
qed

lemma event_canonical_binds:
  assumes "event_canonical e = event_canonical e'"
    and "CHR '':'' \<notin> set (ae_previous_hash e)" and "CHR '':'' \<notin> set (ae_previous_hash e')"
  shows "ae_previous_hash e = ae_previous_hash e' \<and> ae_id e = ae_id e' \<and> ae_kind e = ae_kind e'
    \<and> actor_and_message e = actor_and_message e'
    \<and> ae_created_at_unix_secs e = ae_created_at_unix_secs e'"
proof -
  note eq = assms(1) [unfolded event_canonical_eq append_Cons append_Nil]
  have 1: "ae_previous_hash e = ae_previous_hash e'"
    using sep_inject [OF assms(2,3) eq] by simp
  note eq2 = sep_inject [OF assms(2,3) eq, THEN conjunct2]
  have 2: "unat (ae_id e) = unat (ae_id e')"
    using sep_inject [OF colon_notin_show_nat colon_notin_show_nat eq2] by simp
  note eq3 = sep_inject [OF colon_notin_show_nat colon_notin_show_nat eq2, THEN conjunct2]
  have 3: "ae_kind e = ae_kind e'"
    using sep_inject [OF colon_notin_kind colon_notin_kind eq3] kind_as_str_inject by blast
  note eq4 = sep_inject [OF colon_notin_kind colon_notin_kind eq3, THEN conjunct2]
  have 4: "actor_and_message e = actor_and_message e'"
    and 5: "unat (ae_created_at_unix_secs e) = unat (ae_created_at_unix_secs e')"
    using sep_inject_last [OF colon_notin_show_nat colon_notin_show_nat eq4] by simp_all
  show ?thesis
    using 1 2 3 4 5 by (simp add: word_unat_eq_iff)
qed

section \<open>Chains\<close>

fun chain_end :: "string \<Rightarrow> audit_event list \<Rightarrow> string" where
  "chain_end h [] = h"
| "chain_end h (e # es) = chain_end (ae_event_hash e) es"

lemma chain_end_append [simp]: "chain_end h (es @ fs) = chain_end (chain_end h es) fs"
  by (induction es arbitrary: h) simp_all

lemma verify_from_append [simp]:
  "verify_from sha h (es @ fs) \<longleftrightarrow> verify_from sha h es \<and> verify_from sha (chain_end h es) fs"
  by (induction es arbitrary: h) auto

lemma verify_from_single:
  "verify_from sha h [e] \<longleftrightarrow>
     ae_previous_hash e = h \<and> ae_event_hash e = hex_sha256 sha (str_bytes (event_canonical e))"
  by (auto simp: event_hash_canonical)

lemma colon_not_hexdigit: "\<not> is_ascii_hexdigit (CHR '':'')"
  by (simp add: sb_bytes byte_of_def)

lemma colon_notin_hash: "CHR '':'' \<notin> set (hex_sha256 sha bs)"
  using hex_bytes_hexdigits colon_not_hexdigit unfolding hex_sha256_def by blast

lemma colon_notin_chain_end:
  "verify_from sha h es \<Longrightarrow> CHR '':'' \<notin> set h \<Longrightarrow> CHR '':'' \<notin> set (chain_end h es)"
  by (induction es arbitrary: h) (auto simp: event_hash_canonical colon_notin_hash split: if_splits)

definition same_content :: "audit_event \<Rightarrow> audit_event \<Rightarrow> bool" where
  "same_content e e' =
     (ae_previous_hash e = ae_previous_hash e' \<and> ae_id e = ae_id e' \<and> ae_kind e = ae_kind e'
      \<and> actor_and_message e = actor_and_message e'
      \<and> ae_created_at_unix_secs e = ae_created_at_unix_secs e'
      \<and> ae_event_hash e = ae_event_hash e')"

definition hash_collision :: "hash_fun \<Rightarrow> audit_event \<Rightarrow> audit_event \<Rightarrow> bool" where
  "hash_collision sha e e' =
     (event_canonical e \<noteq> event_canonical e'
      \<and> sha (str_bytes (event_canonical e)) = sha (str_bytes (event_canonical e')))"

lemma chains_bind:
  assumes "CHR '':'' \<notin> set h"
  shows "length es = length es' \<Longrightarrow> verify_from sha h es \<Longrightarrow> verify_from sha h es' \<Longrightarrow>
    chain_end h es = chain_end h es' \<Longrightarrow>
    list_all2 same_content es es' \<or> (\<exists>(e, e') \<in> set (zip es es'). hash_collision sha e e')"
proof (induction es arbitrary: es' rule: rev_induct)
  case Nil
  then show ?case by simp
next
  case (snoc e es)
  obtain fs f where es': "es' = fs @ [f]" "length es = length fs"
    using snoc.prems(1) by (cases es' rule: rev_cases) auto
  have prev: "ae_previous_hash e = chain_end h es" "ae_previous_hash f = chain_end h fs"
    and hash: "ae_event_hash e = hex_sha256 sha (str_bytes (event_canonical e))"
      "ae_event_hash f = hex_sha256 sha (str_bytes (event_canonical f))"
    and ok: "verify_from sha h es" "verify_from sha h fs"
    using snoc.prems(2,3) es' by (simp_all add: verify_from_single del: verify_from.simps)
  have "ae_event_hash e = ae_event_hash f"
    using snoc.prems(4) es' by simp
  with hash have sha: "sha (str_bytes (event_canonical e)) = sha (str_bytes (event_canonical f))"
    by (simp add: hex_sha256_def hex_bytes_inject)
  show ?case
  proof (cases "event_canonical e = event_canonical f")
    case False
    with sha es' show ?thesis
      by (simp add: hash_collision_def)
  next
    case True
    have colon: "CHR '':'' \<notin> set (ae_previous_hash e)" "CHR '':'' \<notin> set (ae_previous_hash f)"
      using prev ok assms colon_notin_chain_end by simp_all
    note binds = event_canonical_binds [OF True colon]
    then have same: "same_content e f"
      using \<open>ae_event_hash e = ae_event_hash f\<close> by (simp add: same_content_def)
    have "chain_end h es = chain_end h fs"
      using binds prev by simp
    from snoc.IH [OF es'(2) ok this] same es' show ?thesis
      by (auto simp: list_all2_append)
  qed
qed

section \<open>The log's invariant\<close>

definition log_ok :: "hash_fun \<Rightarrow> audit_log \<Rightarrow> bool" where
  "log_ok sha st =
     (verify_from sha GENESIS_HASH (log_events st)
      \<and> log_last_hash st = chain_end GENESIS_HASH (log_events st)
      \<and> (length (log_events st) < 2 ^ 64 - 1 \<longrightarrow>
           unat (log_next_id st) = Suc (length (log_events st))
           \<and> map (\<lambda>e. unat (ae_id e)) (log_events st) = [1 ..< Suc (length (log_events st))])
      \<and> (\<forall>e \<in> set (log_events st).
           list_all (\<lambda>r. \<not> is_sensitive_token r) (token_runs (ae_message e))))"

lemma log_ok_new: "log_ok sha audit_log_new"
  by (simp add: log_ok_def audit_log_new_def)

lemma log_ok_record:
  assumes "log_ok sha st"
  shows "log_ok sha (audit_record sha now inp st)"
proof -
  let ?st = "audit_record sha now inp st" and ?n = "length (log_events st)"
  obtain e where e: "log_events ?st = log_events st @ [e]" "ae_previous_hash e = log_last_hash st"
      "ae_event_hash e = hex_sha256 sha (str_bytes (event_canonical e))" "ae_id e = log_next_id st"
      "log_last_hash ?st = ae_event_hash e" "log_next_id ?st = log_next_id st + 1"
      "ae_message e = redact_sensitive (ai_message inp)"
    by (rule that [of "last (log_events ?st)"])
      (simp_all add: audit_record_def Let_def event_canonical_def compute_event_hash_def)
  have "verify_from sha GENESIS_HASH (log_events ?st)"
    using assms e by (simp add: log_ok_def verify_from_single del: verify_from.simps(2))
  moreover have "log_last_hash ?st = chain_end GENESIS_HASH (log_events ?st)"
    using e by simp
  moreover have "unat (log_next_id ?st) = Suc (Suc ?n)
      \<and> map (\<lambda>e. unat (ae_id e)) (log_events ?st) = [1 ..< Suc (Suc ?n)]"
    if "Suc ?n < 2 ^ 64 - 1"
  proof -
    have "?n < 2 ^ 64 - 1"
      using that by linarith
    then have ids: "unat (log_next_id st) = Suc ?n" "map (\<lambda>e. unat (ae_id e)) (log_events st) = [1 ..< Suc ?n]"
      using assms unfolding log_ok_def by blast+
    moreover have "unat (log_next_id st + 1) = Suc (Suc ?n)"
      using that ids(1) by (simp add: unat_word_ariths)
    ultimately show ?thesis
      using e by simp
  qed
  moreover have "\<forall>e \<in> set (log_events ?st).
      list_all (\<lambda>r. \<not> is_sensitive_token r) (token_runs (ae_message e))"
    using assms e redacted_token_runs by (auto simp: log_ok_def redact_sensitive_def list_all_iff)
  ultimately show ?thesis
    unfolding log_ok_def e(1) by (simp only: length_append_singleton) blast
qed

section \<open>Append-only logs\<close>

text \<open>What the handlers rely on: recording appends exactly one event, of the given kind and
  actor.\<close>

locale append_only_log =
  fixes entries :: "'log \<Rightarrow> audit_event list"
    and rec :: "u64 \<Rightarrow> audit_event_input \<Rightarrow> 'log \<Rightarrow> 'log"
  assumes rec_appends: "\<exists>e. entries (rec now inp l) = entries l @ [e] \<and> ae_kind e = ai_kind inp
    \<and> ae_actor_email e = ai_actor_email inp \<and> ae_created_at_unix_secs e = now"
begin

lemma entries_foldl:
  "\<exists>es. entries (foldl (\<lambda>l (now, inp). rec now inp l) l inputs) = entries l @ es
     \<and> map ae_kind es = map (ai_kind \<circ> snd) inputs
     \<and> map ae_actor_email es = map (ai_actor_email \<circ> snd) inputs
     \<and> map ae_created_at_unix_secs es = map fst inputs"
proof (induction inputs arbitrary: l)
  case Nil
  then show ?case by simp
next
  case (Cons i inputs)
  obtain now inp where i: "i = (now, inp)"
    by fastforce
  obtain e where e: "entries (rec now inp l) = entries l @ [e]"
      "ae_kind e = ai_kind inp" "ae_actor_email e = ai_actor_email inp"
      "ae_created_at_unix_secs e = now"
    using rec_appends by blast
  from Cons.IH [of "rec now inp l"] obtain es where
    "entries (foldl (\<lambda>l (now, inp). rec now inp l) (rec now inp l) inputs)
       = (entries l @ [e]) @ es"
    "map ae_kind es = map (ai_kind \<circ> snd) inputs"
    "map ae_actor_email es = map (ai_actor_email \<circ> snd) inputs"
    "map ae_created_at_unix_secs es = map fst inputs"
    unfolding e(1) by blast
  with e i show ?case
    by (intro exI [of _ "e # es"]) simp
qed

end

interpretation audit: append_only_log log_events "audit_record sha" for sha
  by unfold_locales (simp add: audit_record_def Let_def)

definition record_all :: "hash_fun \<Rightarrow> (u64 \<times> audit_event_input) list \<Rightarrow> audit_log \<Rightarrow> audit_log" where
  "record_all sha inputs l = foldl (\<lambda>l (now, inp). audit_record sha now inp l) l inputs"

lemma log_ok_record_all: "log_ok sha l \<Longrightarrow> log_ok sha (record_all sha inputs l)"
  unfolding record_all_def
  by (induction inputs arbitrary: l) (auto simp: log_ok_record split: prod.split)

section \<open>Properties\<close>


text \<open>C37: The chain is tamper evident: two event lists of the same length that both verify and end
  in the same hash agree in every event's identifier, kind, time, hashes and in the text
  \<open>actor:message\<close>, unless two events at the same position exhibit a SHA-256 collision.\<close>

theorem audit_chain_is_tamper_evident:
  "verify_chain sha es \<Longrightarrow> verify_chain sha es' \<Longrightarrow> length es = length es' \<Longrightarrow>
   chain_end GENESIS_HASH es = chain_end GENESIS_HASH es' \<Longrightarrow>
     list_all2 same_content es es' \<or> (\<exists>(e, e') \<in> set (zip es es'). hash_collision sha e e')"
  using chains_bind [of GENESIS_HASH es es' sha]
  by (simp add: verify_chain_def GENESIS_HASH_def)

text \<open>What the chain does not detect, whatever the hash function: moving text over a colon
  between an event's actor and its message, replacing a missing actor by an empty one, and
  cutting events off the end.\<close>

theorem audit_chain_misses_actor_boundary_and_truncation:
  "verify_chain sha
       (es @ e\<lparr>ae_actor_email := Some a, ae_message := b @ '':'' @ c\<rparr> # fs)
     = verify_chain sha
       (es @ e\<lparr>ae_actor_email := Some (a @ '':'' @ b), ae_message := c\<rparr> # fs)
   \<and> verify_chain sha (es @ e\<lparr>ae_actor_email := None\<rparr> # fs)
     = verify_chain sha (es @ e\<lparr>ae_actor_email := Some []\<rparr> # fs)
   \<and> (verify_chain sha (es @ fs) \<longrightarrow> verify_chain sha es)"
  by (simp add: verify_chain_def compute_event_hash_def canonical_def)

text \<open>A toy hash and a log of two events, for the witnesses.\<close>

definition example_sha :: hash_fun where
  "example_sha bs = [of_nat (length bs)]"

definition example_inputs :: "(u64 \<times> audit_event_input) list" where
  "example_inputs =
     [(5, \<lparr>ai_kind = UserLoginSuccess, ai_actor_email = Some ''a'', ai_message = ''in''\<rparr>),
      (6, \<lparr>ai_kind = UserLogout, ai_actor_email = Some ''a'', ai_message = ''out''\<rparr>)]"


theorem audit_chain_is_tamper_evident_witness:
  "list_all2 same_content (log_events (record_all example_sha example_inputs audit_log_new))
     (log_events (record_all example_sha example_inputs audit_log_new))"
proof -
  let ?es = "log_events (record_all example_sha example_inputs audit_log_new)"
  have "verify_chain example_sha ?es"
    using log_ok_record_all [OF log_ok_new] by (simp add: verify_chain_def log_ok_def)
  moreover have "\<not> hash_collision example_sha e e" for e
    by (simp add: hash_collision_def)
  moreover have "(e, e') \<in> set (zip ?es ?es) \<Longrightarrow> e = e'" for e e'
    by (auto simp: set_zip)
  ultimately show ?thesis
    using audit_chain_is_tamper_evident [of example_sha ?es ?es] by blast
qed

theorem audit_chain_misses_actor_boundary_and_truncation_witness:
  "verify_chain example_sha (log_events (record_all example_sha example_inputs audit_log_new))
   \<and> verify_chain example_sha (butlast (log_events (record_all example_sha example_inputs audit_log_new)))"
proof -
  let ?es = "log_events (record_all example_sha example_inputs audit_log_new)"
  have ok: "verify_chain example_sha ?es"
    using log_ok_record_all [OF log_ok_new] by (simp add: verify_chain_def log_ok_def)
  have "?es \<noteq> []"
    by (simp add: record_all_def example_inputs_def audit_record_def Let_def)
  then have "?es = butlast ?es @ [last ?es]"
    by simp
  then show ?thesis
    using audit_chain_misses_actor_boundary_and_truncation [of example_sha "butlast ?es" _ _ _ _ "[last ?es]"] ok
    by metis
qed

end
