(* ===== verification/Sb_Auth.thy ===== *)
theory Sb_Auth
  imports Sb_Codec
begin

text \<open>
  The authentication crate (\<open>sunbolt-auth\<close>): the in-memory service (\<open>lib.rs\<close>) with its users,
  login sessions, MFA factors, recovery codes, passkeys and workspaces, the factor interface
  (\<open>mfa.rs\<close>), the TOTP factor (\<open>totp.rs\<close>), passkey records (\<open>passkeys.rs\<close>) and RBAC records
  (\<open>rbac.rs\<close>). SHA-256, Unicode lower-casing, random bytes and clock readings are arguments.
  \<open>sv_poisoned\<close> says that the store's mutex is poisoned; the atomic counters stay usable. The
  service's maps are only looked up, inserted into and filtered, so they are partial functions.
\<close>

section \<open>Records\<close>

datatype user_role = Admin | Operator | Viewer

record user =
  user_id :: u64
  user_email :: string
  user_role :: user_role

record stored_user =
  su_user :: user
  su_password_hash :: string

record session_record =
  sr_user_id :: u64
  sr_expires_at :: instant
  sr_recent_mfa_at :: "instant option"

datatype factor_type =
  FactorPassword | FactorTotp | FactorRecoveryCode | FactorWebAuthn | FactorEmailOtp
  | FactorHardwareKey | FactorAdminApproval | FactorSshKeySignature

datatype mfa_purpose = PurposeLogin | PurposeTerminalStepUp | PurposeFactorEnrollment

record auth_context =
  ctx_user :: user
  ctx_purpose :: mfa_purpose

record auth_factor_enrollment =
  afe_id :: u64
  afe_user_id :: u64
  afe_factor_type :: factor_type
  afe_label :: string
  afe_enabled :: bool

record factor_challenge =
  fc_challenge_id :: string
  fc_user_id :: u64
  fc_factor_type :: factor_type
  fc_purpose :: mfa_purpose
  fc_message :: string

record factor_response =
  frs_challenge_id :: string
  frs_factor_type :: factor_type
  frs_secret :: string

record factor_result =
  frt_user_id :: u64
  frt_factor_type :: factor_type
  frt_verified :: bool

datatype auth_error =
  InvalidCredentials | InvalidSession | UserNotFound | InvalidFactorLabel | FactorNotEnrolled
  | FactorTypeMismatch | FactorVerificationFailed | TotpSecretMissing | RecoveryCodeInvalid
  | InvalidPasskeyRelyingParty | InvalidPasskeyCredential | PasskeyChallengeNotFound
  | PasskeyCredentialUnavailable | InvalidRbacRecord | RbacRecordNotFound
  | StoreUnavailable string

text \<open>The trait \<open>AuthFactor\<close>: an implementation is its three methods.\<close>

record auth_factor =
  factor_kind :: factor_type
  begin_challenge :: "auth_context \<Rightarrow> auth_error + factor_challenge"
  verify_challenge :: "auth_context \<Rightarrow> factor_response \<Rightarrow> auth_error + factor_result"

record passkey_credential =
  pk_id :: u64
  pk_user_id :: u64
  pk_credential_id :: string
  pk_public_key :: string
  pk_label :: string
  pk_enabled :: bool

record passkey_registration_challenge =
  prc_challenge_id :: string
  prc_user_id :: u64
  prc_user_email :: string
  prc_relying_party_id :: string
  prc_relying_party_name :: string
  prc_origin :: string
  prc_challenge :: string

record passkey_authentication_challenge =
  pac_challenge_id :: string
  pac_user_id :: u64
  pac_relying_party_id :: string
  pac_origin :: string
  pac_challenge :: string
  pac_allowed_credential_ids :: "string list"

record workspace =
  ws_id :: u64
  ws_name :: string

record rbac_role =
  role_id :: u64
  role_name :: string

record workspace_member =
  wm_workspace_id :: u64
  wm_user_id :: u64
  wm_role_id :: u64

record role_permission =
  rper_role_id :: u64
  rper_permission :: string

record workspace_node =
  wn_workspace_id :: u64
  wn_node_id :: string

record recovery_code_batch =
  rcb_factor :: auth_factor_enrollment
  rcb_codes :: "string list"

record totp_enrollment =
  te_factor :: auth_factor_enrollment
  te_secret_base32 :: string
  te_provisioning_uri :: string
  te_qr_code_payload :: string

record totp_recovery_path =
  trp_user_id :: u64
  trp_fallback_factors :: "factor_type list"
  trp_message :: string

record auth_config =
  session_ttl :: duration
  recent_mfa_ttl :: duration
  secure_cookie :: bool
  require_step_up_mfa_for_terminal :: bool
  bootstrap_admin_enabled :: bool
  admin_email :: string
  admin_password :: string

record auth_store =
  users_by_id :: "u64 \<rightharpoonup> stored_user"
  user_ids_by_email :: "string \<rightharpoonup> u64"
  sessions_by_token :: "string \<rightharpoonup> session_record"
  auth_factors_by_id :: "u64 \<rightharpoonup> auth_factor_enrollment"
  factor_ids_by_user_id :: "u64 \<rightharpoonup> u64 list"
  passkey_authentication_challenges_by_id :: "string \<rightharpoonup> passkey_authentication_challenge"
  passkey_credentials_by_id :: "u64 \<rightharpoonup> passkey_credential"
  passkey_credential_ids_by_user_id :: "u64 \<rightharpoonup> u64 list"
  passkey_registration_challenges_by_id :: "string \<rightharpoonup> passkey_registration_challenge"
  recovery_codes_by_factor_id :: "u64 \<rightharpoonup> stored_recovery_code list"
  role_permissions_by_role_id :: "u64 \<rightharpoonup> role_permission list"
  roles_by_id :: "u64 \<rightharpoonup> rbac_role"
  totp_secrets_by_factor_id :: "u64 \<rightharpoonup> totp_secret"
  workspace_members_by_workspace_id :: "u64 \<rightharpoonup> workspace_member list"
  workspace_nodes_by_node_id :: "string \<rightharpoonup> workspace_node"
  workspaces_by_id :: "u64 \<rightharpoonup> workspace"

record auth_service =
  sv_poisoned :: bool
  sv_store :: auth_store
  next_user_id :: u64
  next_factor_id :: u64
  next_passkey_credential_id :: u64
  next_role_id :: u64
  next_workspace_id :: u64
  sv_config :: auth_config

definition auth_store_default :: auth_store where
  "auth_store_default =
     \<lparr>users_by_id = Map.empty, user_ids_by_email = Map.empty, sessions_by_token = Map.empty,
      auth_factors_by_id = Map.empty, factor_ids_by_user_id = Map.empty,
      passkey_authentication_challenges_by_id = Map.empty, passkey_credentials_by_id = Map.empty,
      passkey_credential_ids_by_user_id = Map.empty,
      passkey_registration_challenges_by_id = Map.empty,
      recovery_codes_by_factor_id = Map.empty, role_permissions_by_role_id = Map.empty,
      roles_by_id = Map.empty, totp_secrets_by_factor_id = Map.empty,
      workspace_members_by_workspace_id = Map.empty, workspace_nodes_by_node_id = Map.empty,
      workspaces_by_id = Map.empty\<rparr>"

section \<open>Helpers\<close>

text \<open>\<open>map.entry(k).or_default().push(x)\<close> and \<open>map.get(&k).into_iter().flatten()\<close>.\<close>

definition entry_list :: "('k \<rightharpoonup> 'v list) \<Rightarrow> 'k \<Rightarrow> 'v list" where
  "entry_list m k = (case m k of None \<Rightarrow> [] | Some l \<Rightarrow> l)"

definition entry_push :: "'k \<Rightarrow> 'v \<Rightarrow> ('k \<rightharpoonup> 'v list) \<Rightarrow> ('k \<rightharpoonup> 'v list)" where
  "entry_push k x m = m(k \<mapsto> entry_list m k @ [x])"

fun filter_map :: "('a \<Rightarrow> 'b option) \<Rightarrow> 'a list \<Rightarrow> 'b list" where
  "filter_map f [] = []"
| "filter_map f (x # xs) = (case f x of None \<Rightarrow> filter_map f xs | Some y \<Rightarrow> y # filter_map f xs)"

fun find_map :: "('a \<Rightarrow> 'b option) \<Rightarrow> 'a list \<Rightarrow> 'b option" where
  "find_map f [] = None"
| "find_map f (x # xs) = (case f x of None \<Rightarrow> find_map f xs | Some y \<Rightarrow> Some y)"

definition map_retain :: "('v \<Rightarrow> bool) \<Rightarrow> ('k \<rightharpoonup> 'v) \<Rightarrow> ('k \<rightharpoonup> 'v)" where
  "map_retain P m = (\<lambda>k. case m k of None \<Rightarrow> None | Some v \<Rightarrow> if P v then Some v else None)"

definition normalize_email :: "string \<Rightarrow> string" where
  "normalize_email email = to_ascii_lowercase (trim email)"

definition password_hash :: "(u8 list \<Rightarrow> u8 list) \<Rightarrow> string \<Rightarrow> string" where
  "password_hash sha password = hex_bytes (sha (str_bytes (''sunbolt-dev-v1:'' @ password)))"

definition env_u64 :: "(string \<Rightarrow> string option) \<Rightarrow> string \<Rightarrow> nat option" where
  "env_u64 env name = Option.bind (env name) (parse_uint (2 ^ 64 - 1))"

definition env_bool :: "(string \<Rightarrow> string option) \<Rightarrow> string \<Rightarrow> bool option" where
  "env_bool env name =
     (case env name of
        None \<Rightarrow> None
      | Some v \<Rightarrow>
          let w = to_ascii_lowercase (trim v) in
          if w \<in> {''1'', ''true'', ''yes'', ''on''} then Some True
          else if w \<in> {''0'', ''false'', ''no'', ''off''} then Some False
          else None)"

definition DEFAULT_SESSION_TTL_SECS :: nat where
  "DEFAULT_SESSION_TTL_SECS = 28800"

definition DEFAULT_RECENT_MFA_TTL_SECS :: nat where
  "DEFAULT_RECENT_MFA_TTL_SECS = 600"

definition DEFAULT_ADMIN_EMAIL :: string where
  "DEFAULT_ADMIN_EMAIL = ''admin@sunbolt.local''"

definition DEFAULT_ADMIN_PASSWORD :: string where
  "DEFAULT_ADMIN_PASSWORD = ''sunbolt-dev-admin''"

definition SESSION_COOKIE_NAME :: string where
  "SESSION_COOKIE_NAME = ''sunbolt_session''"

definition product_name :: string where
  "product_name = ''Sunbolt''"

definition env_nonblank :: "(string \<Rightarrow> string option) \<Rightarrow> string \<Rightarrow> string \<Rightarrow> string" where
  "env_nonblank env name dflt =
     (case env name of
        None \<Rightarrow> dflt
      | Some v \<Rightarrow> if is_blank v then dflt else v)"

definition auth_config_from_env :: "(string \<Rightarrow> string option) \<Rightarrow> auth_config" where
  "auth_config_from_env env =
     (let get_bool = (\<lambda>name d. case env_bool env name of None \<Rightarrow> d | Some b \<Rightarrow> b);
          get_u64 = (\<lambda>name d. case env_u64 env name of None \<Rightarrow> d | Some n \<Rightarrow> n)
      in \<lparr>session_ttl = secs (get_u64 ''SUNBOLT_SESSION_TTL_SECS'' DEFAULT_SESSION_TTL_SECS),
          recent_mfa_ttl = secs (get_u64 ''SUNBOLT_RECENT_MFA_TTL_SECS''
                                   DEFAULT_RECENT_MFA_TTL_SECS),
          secure_cookie = get_bool ''SUNBOLT_COOKIE_SECURE'' False,
          require_step_up_mfa_for_terminal =
            get_bool ''SUNBOLT_REQUIRE_TERMINAL_STEP_UP_MFA'' True,
          bootstrap_admin_enabled = get_bool ''SUNBOLT_DEV_BOOTSTRAP_ADMIN'' True,
          admin_email = env_nonblank env ''SUNBOLT_DEV_ADMIN_EMAIL'' DEFAULT_ADMIN_EMAIL,
          admin_password = env_nonblank env ''SUNBOLT_DEV_ADMIN_PASSWORD''
                             DEFAULT_ADMIN_PASSWORD\<rparr>)"

section \<open>Users and login sessions\<close>

definition upsert_user ::
  "(u8 list \<Rightarrow> u8 list) \<Rightarrow> auth_service \<Rightarrow> string \<Rightarrow> string \<Rightarrow> user_role
   \<Rightarrow> (auth_error + user) \<times> auth_service" where
  "upsert_user sha sv email password role =
     (if is_blank email then (Inl InvalidCredentials, sv)
      else if password = [] then (Inl InvalidCredentials, sv)
      else if sv_poisoned sv then (Inl (StoreUnavailable ''users''), sv)
      else
        let st = sv_store sv; normalized = normalize_email email; ph = password_hash sha password
        in (case user_ids_by_email st normalized of
              Some uid \<Rightarrow>
                (case users_by_id st uid of
                   None \<Rightarrow> (Inl (StoreUnavailable ''user-record''), sv)
                 | Some su \<Rightarrow>
                     let su' = su\<lparr>su_user := (su_user su)\<lparr>user_role := role\<rparr>,
                                 su_password_hash := ph\<rparr>
                     in (Inr (su_user su'),
                         sv\<lparr>sv_store := st\<lparr>users_by_id := (users_by_id st)(uid \<mapsto> su')\<rparr>\<rparr>))
            | None \<Rightarrow>
                let u = \<lparr>user_id = next_user_id sv, user_email = normalized, user_role = role\<rparr>
                in (Inr u,
                    sv\<lparr>next_user_id := next_user_id sv + 1,
                       sv_store := st\<lparr>
                         user_ids_by_email := (user_ids_by_email st)(normalized \<mapsto> user_id u),
                         users_by_id := (users_by_id st)
                           (user_id u \<mapsto> \<lparr>su_user = u, su_password_hash = ph\<rparr>)\<rparr>\<rparr>)))"

definition bootstrap_admin ::
  "(u8 list \<Rightarrow> u8 list) \<Rightarrow> auth_service \<Rightarrow> (auth_error + user) \<times> auth_service" where
  "bootstrap_admin sha sv =
     upsert_user sha sv (admin_email (sv_config sv)) (admin_password (sv_config sv)) Admin"

definition auth_service_new :: "(u8 list \<Rightarrow> u8 list) \<Rightarrow> auth_config \<Rightarrow> auth_service" where
  "auth_service_new sha config =
     (let sv = \<lparr>sv_poisoned = False, sv_store = auth_store_default, next_user_id = 1,
                next_factor_id = 1, next_passkey_credential_id = 1, next_role_id = 1,
                next_workspace_id = 1, sv_config = config\<rparr>
      in if bootstrap_admin_enabled config then snd (bootstrap_admin sha sv) else sv)"

definition login ::
  "(u8 list \<Rightarrow> u8 list) \<Rightarrow> auth_service \<Rightarrow> string \<Rightarrow> string \<Rightarrow> instant \<Rightarrow> string
   \<Rightarrow> (auth_error + user \<times> string) \<times> auth_service" where
  "login sha sv email password now token =
     (if sv_poisoned sv then (Inl (StoreUnavailable ''sessions''), sv)
      else
        let st = sv_store sv in
        case user_ids_by_email st (normalize_email email) of
          None \<Rightarrow> (Inl InvalidCredentials, sv)
        | Some uid \<Rightarrow>
            (case users_by_id st uid of
               None \<Rightarrow> (Inl InvalidCredentials, sv)
             | Some su \<Rightarrow>
                 if su_password_hash su \<noteq> password_hash sha password
                 then (Inl InvalidCredentials, sv)
                 else
                   (Inr (su_user su, token),
                    sv\<lparr>sv_store := st\<lparr>sessions_by_token := (sessions_by_token st)
                      (token \<mapsto> \<lparr>sr_user_id = user_id (su_user su),
                                  sr_expires_at = now + session_ttl (sv_config sv),
                                  sr_recent_mfa_at = None\<rparr>)\<rparr>\<rparr>)))"

definition purge_expired_sessions :: "auth_store \<Rightarrow> instant \<Rightarrow> auth_store" where
  "purge_expired_sessions st now =
     st\<lparr>sessions_by_token := map_retain (\<lambda>s. now < sr_expires_at s) (sessions_by_token st)\<rparr>"

definition current_user ::
  "auth_service \<Rightarrow> string \<Rightarrow> instant \<Rightarrow> (auth_error + user option) \<times> auth_service" where
  "current_user sv token now =
     (if sv_poisoned sv then (Inl (StoreUnavailable ''sessions''), sv)
      else
        let st = purge_expired_sessions (sv_store sv) now; sv' = sv\<lparr>sv_store := st\<rparr> in
        case sessions_by_token st token of
          None \<Rightarrow> (Inr None, sv')
        | Some s \<Rightarrow> (Inr (map_option su_user (users_by_id st (sr_user_id s))), sv'))"

definition logout :: "auth_service \<Rightarrow> string \<Rightarrow> (auth_error + unit) \<times> auth_service" where
  "logout sv token =
     (if sv_poisoned sv then (Inl (StoreUnavailable ''sessions''), sv)
      else (Inr (),
            sv\<lparr>sv_store := (sv_store sv)
                 \<lparr>sessions_by_token := (sessions_by_token (sv_store sv))(token := None)\<rparr>\<rparr>))"

definition can_open_terminal :: "user \<Rightarrow> bool" where
  "can_open_terminal u = (user_role u = Admin \<or> user_role u = Operator)"

definition terminal_step_up_policy_enabled :: "auth_service \<Rightarrow> bool" where
  "terminal_step_up_policy_enabled sv = require_step_up_mfa_for_terminal (sv_config sv)"

definition has_recent_mfa ::
  "auth_service \<Rightarrow> string \<Rightarrow> instant \<Rightarrow> (auth_error + bool) \<times> auth_service" where
  "has_recent_mfa sv token now =
     (if sv_poisoned sv then (Inl (StoreUnavailable ''sessions''), sv)
      else
        let st = purge_expired_sessions (sv_store sv) now; sv' = sv\<lparr>sv_store := st\<rparr> in
        case sessions_by_token st token of
          None \<Rightarrow> (Inr False, sv')
        | Some s \<Rightarrow>
            (Inr (case sr_recent_mfa_at s of
                    None \<Rightarrow> False
                  | Some t \<Rightarrow> elapsed now t \<le> recent_mfa_ttl (sv_config sv)), sv'))"

definition record_mfa_success ::
  "auth_service \<Rightarrow> string \<Rightarrow> instant \<Rightarrow> (auth_error + unit) \<times> auth_service" where
  "record_mfa_success sv token now =
     (if sv_poisoned sv then (Inl (StoreUnavailable ''sessions''), sv)
      else
        let st = purge_expired_sessions (sv_store sv) now in
        case sessions_by_token st token of
          None \<Rightarrow> (Inl InvalidSession, sv\<lparr>sv_store := st\<rparr>)
        | Some s \<Rightarrow>
            (Inr (),
             sv\<lparr>sv_store := st\<lparr>sessions_by_token := (sessions_by_token st)
                 (token \<mapsto> s\<lparr>sr_recent_mfa_at := Some now\<rparr>)\<rparr>\<rparr>))"

definition can_open_terminal_with_session ::
  "auth_service \<Rightarrow> user \<Rightarrow> string \<Rightarrow> instant \<Rightarrow> (auth_error + bool) \<times> auth_service" where
  "can_open_terminal_with_session sv u token now =
     (if \<not> can_open_terminal u then (Inr False, sv)
      else if \<not> require_step_up_mfa_for_terminal (sv_config sv) then (Inr True, sv)
      else has_recent_mfa sv token now)"

section \<open>MFA factors\<close>

definition factors_of :: "auth_store \<Rightarrow> u64 \<Rightarrow> auth_factor_enrollment list" where
  "factors_of st uid =
     filter_map (\<lambda>fid. auth_factors_by_id st fid) (entry_list (factor_ids_by_user_id st) uid)"

definition enroll_factor ::
  "auth_service \<Rightarrow> u64 \<Rightarrow> factor_type \<Rightarrow> string
   \<Rightarrow> (auth_error + auth_factor_enrollment) \<times> auth_service" where
  "enroll_factor sv uid ft label =
     (if is_blank label then (Inl InvalidFactorLabel, sv)
      else if sv_poisoned sv then (Inl (StoreUnavailable ''auth-factors''), sv)
      else
        let st = sv_store sv in
        case users_by_id st uid of
          None \<Rightarrow> (Inl UserNotFound, sv)
        | Some _ \<Rightarrow>
            let e = \<lparr>afe_id = next_factor_id sv, afe_user_id = uid, afe_factor_type = ft,
                     afe_label = trim label, afe_enabled = True\<rparr>
            in (Inr e,
                sv\<lparr>next_factor_id := next_factor_id sv + 1,
                   sv_store := st\<lparr>
                     factor_ids_by_user_id := entry_push uid (afe_id e) (factor_ids_by_user_id st),
                     auth_factors_by_id := (auth_factors_by_id st)(afe_id e \<mapsto> e)\<rparr>\<rparr>))"

definition build_totp_enrollment ::
  "auth_factor_enrollment \<Rightarrow> string \<Rightarrow> totp_config \<Rightarrow> totp_secret \<Rightarrow> totp_enrollment" where
  "build_totp_enrollment factor email config secret =
     (let uri = provisioning_uri config email secret
      in \<lparr>te_factor = factor, te_secret_base32 = totp_secret_to_base32 secret,
          te_provisioning_uri = uri, te_qr_code_payload = uri\<rparr>)"

definition enroll_totp_factor_with_secret ::
  "auth_service \<Rightarrow> u64 \<Rightarrow> string \<Rightarrow> totp_secret
   \<Rightarrow> (auth_error + totp_enrollment) \<times> auth_service" where
  "enroll_totp_factor_with_secret sv uid label secret =
     (case enroll_factor sv uid FactorTotp label of
        (Inl e, sv') \<Rightarrow> (Inl e, sv')
      | (Inr factor, sv') \<Rightarrow>
          if sv_poisoned sv' then (Inl (StoreUnavailable ''totp''), sv')
          else
            let st = sv_store sv';
                st' = st\<lparr>totp_secrets_by_factor_id :=
                          (totp_secrets_by_factor_id st)(afe_id factor \<mapsto> secret)\<rparr>;
                sv'' = sv'\<lparr>sv_store := st'\<rparr>
            in (case users_by_id st' uid of
                  None \<Rightarrow> (Inl UserNotFound, sv'')
                | Some su \<Rightarrow>
                    (Inr (build_totp_enrollment factor (user_email (su_user su))
                            totp_config_default secret), sv'')))"

definition enroll_totp_factor ::
  "auth_service \<Rightarrow> u64 \<Rightarrow> string \<Rightarrow> u8 list \<Rightarrow> (auth_error + totp_enrollment) \<times> auth_service" where
  "enroll_totp_factor sv uid label random =
     enroll_totp_factor_with_secret sv uid label random"

definition factors_for_user ::
  "auth_service \<Rightarrow> u64 \<Rightarrow> auth_error + auth_factor_enrollment list" where
  "factors_for_user sv uid =
     (if sv_poisoned sv then Inl (StoreUnavailable ''auth-factors'')
      else Inr (filter afe_enabled (factors_of (sv_store sv) uid)))"

definition ensure_factor_enrolled ::
  "auth_service \<Rightarrow> u64 \<Rightarrow> factor_type \<Rightarrow> auth_error + unit" where
  "ensure_factor_enrolled sv uid ft =
     (if sv_poisoned sv then Inl (StoreUnavailable ''auth-factors'')
      else if list_ex (\<lambda>f. afe_enabled f \<and> afe_factor_type f = ft) (factors_of (sv_store sv) uid)
      then Inr () else Inl FactorNotEnrolled)"

definition begin_factor_challenge ::
  "auth_service \<Rightarrow> auth_factor \<Rightarrow> auth_context \<Rightarrow> auth_error + factor_challenge" where
  "begin_factor_challenge sv factor ctx =
     (case ensure_factor_enrolled sv (user_id (ctx_user ctx)) (factor_kind factor) of
        Inl e \<Rightarrow> Inl e
      | Inr _ \<Rightarrow> begin_challenge factor ctx)"

definition verify_factor_challenge ::
  "auth_service \<Rightarrow> auth_factor \<Rightarrow> auth_context \<Rightarrow> factor_response \<Rightarrow> auth_error + factor_result" where
  "verify_factor_challenge sv factor ctx response =
     (if frs_factor_type response \<noteq> factor_kind factor then Inl FactorTypeMismatch
      else (case ensure_factor_enrolled sv (user_id (ctx_user ctx)) (factor_kind factor) of
              Inl e \<Rightarrow> Inl e
            | Inr _ \<Rightarrow>
                (case verify_challenge factor ctx response of
                   Inl e \<Rightarrow> Inl e
                 | Inr result \<Rightarrow>
                     if frt_user_id result \<noteq> user_id (ctx_user ctx)
                        \<or> frt_factor_type result \<noteq> factor_kind factor
                     then Inl FactorTypeMismatch
                     else if \<not> frt_verified result then Inl FactorVerificationFailed
                     else Inr result)))"

text \<open>\<open>impl AuthFactor for TotpFactor\<close>; \<open>unix_now\<close> is the wall clock in seconds.\<close>

definition totp_begin_challenge :: "u64 \<Rightarrow> auth_context \<Rightarrow> auth_error + factor_challenge" where
  "totp_begin_challenge unix_now ctx =
     Inr \<lparr>fc_challenge_id = ''totp-'' @ show_nat (unat (user_id (ctx_user ctx))) @ ''-''
                              @ show_nat (unat unix_now),
          fc_user_id = user_id (ctx_user ctx), fc_factor_type = FactorTotp,
          fc_purpose = ctx_purpose ctx,
          fc_message = ''Enter the code from your authenticator app''\<rparr>"

definition totp_verify_challenge ::
  "(u8 list \<Rightarrow> u8 list) \<Rightarrow> totp_factor \<Rightarrow> u64 \<Rightarrow> auth_context \<Rightarrow> factor_response
   \<Rightarrow> auth_error + factor_result" where
  "totp_verify_challenge sha f unix_now ctx response =
     Inr \<lparr>frt_user_id = user_id (ctx_user ctx), frt_factor_type = FactorTotp,
          frt_verified = verify_code_at sha f (trim (frs_secret response)) unix_now\<rparr>"

definition totp_auth_factor :: "(u8 list \<Rightarrow> u8 list) \<Rightarrow> totp_factor \<Rightarrow> u64 \<Rightarrow> auth_factor" where
  "totp_auth_factor sha f unix_now =
     \<lparr>factor_kind = FactorTotp, begin_challenge = totp_begin_challenge unix_now,
      verify_challenge = totp_verify_challenge sha f unix_now\<rparr>"

definition totp_factor_for_user :: "auth_service \<Rightarrow> u64 \<Rightarrow> auth_error + totp_factor" where
  "totp_factor_for_user sv uid =
     (if sv_poisoned sv then Inl (StoreUnavailable ''totp'')
      else
        let st = sv_store sv in
        case find_map
               (\<lambda>fid. case auth_factors_by_id st fid of
                        None \<Rightarrow> None
                      | Some f \<Rightarrow>
                          if afe_enabled f \<and> afe_factor_type f = FactorTotp
                          then totp_secrets_by_factor_id st (afe_id f) else None)
               (entry_list (factor_ids_by_user_id st) uid) of
          None \<Rightarrow> Inl TotpSecretMissing
        | Some secret \<Rightarrow> Inr (totp_factor_new secret totp_config_default))"

definition verify_totp_code ::
  "(u8 list \<Rightarrow> u8 list) \<Rightarrow> auth_service \<Rightarrow> user \<Rightarrow> mfa_purpose \<Rightarrow> string \<Rightarrow> u64
   \<Rightarrow> auth_error + factor_result" where
  "verify_totp_code sha sv u purpose code unix_now =
     (case totp_factor_for_user sv (user_id u) of
        Inl e \<Rightarrow> Inl e
      | Inr f \<Rightarrow>
          let factor = totp_auth_factor sha f unix_now;
              ctx = \<lparr>ctx_user = u, ctx_purpose = purpose\<rparr>
          in (case begin_factor_challenge sv factor ctx of
                Inl e \<Rightarrow> Inl e
              | Inr ch \<Rightarrow>
                  verify_factor_challenge sv factor ctx
                    \<lparr>frs_challenge_id = fc_challenge_id ch, frs_factor_type = FactorTotp,
                     frs_secret = code\<rparr>))"

definition default_totp_recovery_path :: "u64 \<Rightarrow> totp_recovery_path" where
  "default_totp_recovery_path uid =
     \<lparr>trp_user_id = uid, trp_fallback_factors = [FactorRecoveryCode, FactorAdminApproval],
      trp_message = ''Use a recovery code or contact an administrator to regain access''\<rparr>"

definition get_totp_recovery_path :: "auth_service \<Rightarrow> u64 \<Rightarrow> auth_error + totp_recovery_path" where
  "get_totp_recovery_path sv uid =
     (case ensure_factor_enrolled sv uid FactorTotp of
        Inl e \<Rightarrow> Inl e
      | Inr _ \<Rightarrow> Inr (default_totp_recovery_path uid))"

section \<open>Recovery codes\<close>

definition find_factor ::
  "auth_service \<Rightarrow> string \<Rightarrow> u64 \<Rightarrow> factor_type \<Rightarrow> auth_error + auth_factor_enrollment option" where
  "find_factor sv lock uid ft =
     (if sv_poisoned sv then Inl (StoreUnavailable lock)
      else Inr (find (\<lambda>f. afe_enabled f \<and> afe_factor_type f = ft) (factors_of (sv_store sv) uid)))"

definition recovery_code_factor_for_user ::
  "auth_service \<Rightarrow> u64 \<Rightarrow> auth_error + auth_factor_enrollment option" where
  "recovery_code_factor_for_user sv uid = find_factor sv ''recovery-codes'' uid FactorRecoveryCode"

definition store_recovery_code_records ::
  "auth_service \<Rightarrow> u64 \<Rightarrow> stored_recovery_code list \<Rightarrow> (auth_error + unit) \<times> auth_service" where
  "store_recovery_code_records sv fid records =
     (if sv_poisoned sv then (Inl (StoreUnavailable ''recovery-codes''), sv)
      else (Inr (),
            sv\<lparr>sv_store := (sv_store sv)\<lparr>recovery_codes_by_factor_id :=
                 (recovery_codes_by_factor_id (sv_store sv))(fid \<mapsto> records)\<rparr>\<rparr>))"

definition store_codes_and_build ::
  "(u8 list \<Rightarrow> u8 list) \<Rightarrow> (string \<Rightarrow> string) \<Rightarrow> auth_service \<Rightarrow> auth_factor_enrollment \<Rightarrow> u8 list list
   \<Rightarrow> (auth_error + recovery_code_batch) \<times> auth_service" where
  "store_codes_and_build sha uni sv factor randoms =
     (let codes = generate_recovery_codes randoms;
          records = recovery_code_records sha uni codes
      in (case store_recovery_code_records sv (afe_id factor) records of
            (Inl e, sv') \<Rightarrow> (Inl e, sv')
          | (Inr _, sv') \<Rightarrow> (Inr \<lparr>rcb_factor = factor, rcb_codes = codes\<rparr>, sv')))"

definition service_generate_recovery_codes ::
  "(u8 list \<Rightarrow> u8 list) \<Rightarrow> (string \<Rightarrow> string) \<Rightarrow> auth_service \<Rightarrow> u64 \<Rightarrow> u8 list list
   \<Rightarrow> (auth_error + recovery_code_batch) \<times> auth_service" where
  "service_generate_recovery_codes sha uni sv uid randoms =
     (case enroll_factor sv uid FactorRecoveryCode ''Recovery codes'' of
        (Inl e, sv') \<Rightarrow> (Inl e, sv')
      | (Inr factor, sv') \<Rightarrow> store_codes_and_build sha uni sv' factor randoms)"

definition regenerate_recovery_codes ::
  "(u8 list \<Rightarrow> u8 list) \<Rightarrow> (string \<Rightarrow> string) \<Rightarrow> auth_service \<Rightarrow> u64 \<Rightarrow> u8 list list
   \<Rightarrow> (auth_error + recovery_code_batch) \<times> auth_service" where
  "regenerate_recovery_codes sha uni sv uid randoms =
     (case recovery_code_factor_for_user sv uid of
        Inl e \<Rightarrow> (Inl e, sv)
      | Inr found \<Rightarrow>
          let factor = (case found of
                Some f \<Rightarrow> f
              | None \<Rightarrow> \<lparr>afe_id = 0, afe_user_id = uid, afe_factor_type = FactorRecoveryCode,
                         afe_label = ''Recovery codes'', afe_enabled = True\<rparr>)
          in if afe_id factor = 0 then service_generate_recovery_codes sha uni sv uid randoms
             else store_codes_and_build sha uni sv factor randoms)"

text \<open>The first record with the hash that is not used is marked as used.\<close>

fun use_record :: "string \<Rightarrow> stored_recovery_code list \<Rightarrow> stored_recovery_code list option" where
  "use_record h [] = None"
| "use_record h (r # rs) =
     (if src_hash r = h \<and> \<not> src_used r then Some (r\<lparr>src_used := True\<rparr> # rs)
      else map_option (\<lambda>rs'. r # rs') (use_record h rs))"

definition verify_recovery_code ::
  "(u8 list \<Rightarrow> u8 list) \<Rightarrow> (string \<Rightarrow> string) \<Rightarrow> auth_service \<Rightarrow> user \<Rightarrow> string
   \<Rightarrow> (auth_error + factor_result) \<times> auth_service" where
  "verify_recovery_code sha uni sv u code =
     (case recovery_code_factor_for_user sv (user_id u) of
        Inl e \<Rightarrow> (Inl e, sv)
      | Inr None \<Rightarrow> (Inl RecoveryCodeInvalid, sv)
      | Inr (Some factor) \<Rightarrow>
          if sv_poisoned sv then (Inl (StoreUnavailable ''recovery-codes''), sv)
          else
            let st = sv_store sv in
            case recovery_codes_by_factor_id st (afe_id factor) of
              None \<Rightarrow> (Inl RecoveryCodeInvalid, sv)
            | Some records \<Rightarrow>
                (case use_record (hash_recovery_code sha uni code) records of
                   None \<Rightarrow> (Inl RecoveryCodeInvalid, sv)
                 | Some records' \<Rightarrow>
                     (Inr \<lparr>frt_user_id = user_id u, frt_factor_type = FactorRecoveryCode,
                           frt_verified = True\<rparr>,
                      sv\<lparr>sv_store := st\<lparr>recovery_codes_by_factor_id :=
                          (recovery_codes_by_factor_id st)(afe_id factor \<mapsto> records')\<rparr>\<rparr>)))"

section \<open>Passkeys\<close>

definition validate_passkey_relying_party :: "string \<Rightarrow> string \<Rightarrow> auth_error + unit" where
  "validate_passkey_relying_party rp_id origin =
     (if is_blank rp_id \<or> is_blank origin then Inl InvalidPasskeyRelyingParty else Inr ())"

definition registration_challenge ::
  "u64 \<Rightarrow> string \<Rightarrow> string \<Rightarrow> string \<Rightarrow> string \<Rightarrow> u8 list \<Rightarrow> passkey_registration_challenge" where
  "registration_challenge uid email rp_id rp_name origin random =
     (let challenge = random_challenge random
      in \<lparr>prc_challenge_id = ''passkey-registration-'' @ show_nat (unat uid) @ ''-'' @ challenge,
          prc_user_id = uid, prc_user_email = email, prc_relying_party_id = rp_id,
          prc_relying_party_name = rp_name, prc_origin = origin, prc_challenge = challenge\<rparr>)"

definition authentication_challenge ::
  "u64 \<Rightarrow> string \<Rightarrow> string \<Rightarrow> string list \<Rightarrow> u8 list \<Rightarrow> passkey_authentication_challenge" where
  "authentication_challenge uid rp_id origin allowed random =
     (let challenge = random_challenge random
      in \<lparr>pac_challenge_id = ''passkey-authentication-'' @ show_nat (unat uid) @ ''-'' @ challenge,
          pac_user_id = uid, pac_relying_party_id = rp_id, pac_origin = origin,
          pac_challenge = challenge, pac_allowed_credential_ids = allowed\<rparr>)"

definition passkey_credential_of ::
  "u64 \<Rightarrow> u64 \<Rightarrow> string \<Rightarrow> string \<Rightarrow> string \<Rightarrow> passkey_credential" where
  "passkey_credential_of i uid cid key label =
     \<lparr>pk_id = i, pk_user_id = uid, pk_credential_id = cid, pk_public_key = key,
      pk_label = trim label, pk_enabled = True\<rparr>"

definition begin_passkey_registration ::
  "auth_service \<Rightarrow> user \<Rightarrow> string \<Rightarrow> string \<Rightarrow> u8 list
   \<Rightarrow> (auth_error + passkey_registration_challenge) \<times> auth_service" where
  "begin_passkey_registration sv u rp_id origin random =
     (case validate_passkey_relying_party rp_id origin of
        Inl e \<Rightarrow> (Inl e, sv)
      | Inr _ \<Rightarrow>
          let ch = registration_challenge (user_id u) (user_email u) rp_id product_name origin
                     random
          in if sv_poisoned sv then (Inl (StoreUnavailable ''passkeys''), sv)
             else (Inr ch,
                   sv\<lparr>sv_store := (sv_store sv)\<lparr>passkey_registration_challenges_by_id :=
                        (passkey_registration_challenges_by_id (sv_store sv))
                          (prc_challenge_id ch \<mapsto> ch)\<rparr>\<rparr>))"

definition passkey_factor_for_user ::
  "auth_service \<Rightarrow> u64 \<Rightarrow> auth_error + auth_factor_enrollment option" where
  "passkey_factor_for_user sv uid = find_factor sv ''passkeys'' uid FactorWebAuthn"

definition ensure_passkey_factor ::
  "auth_service \<Rightarrow> u64 \<Rightarrow> (auth_error + auth_factor_enrollment) \<times> auth_service" where
  "ensure_passkey_factor sv uid =
     (case passkey_factor_for_user sv uid of
        Inl e \<Rightarrow> (Inl e, sv)
      | Inr (Some f) \<Rightarrow> (Inr f, sv)
      | Inr None \<Rightarrow> enroll_factor sv uid FactorWebAuthn ''Passkeys'')"

definition register_passkey_credential ::
  "auth_service \<Rightarrow> u64 \<Rightarrow> string \<Rightarrow> string \<Rightarrow> string \<Rightarrow> string
   \<Rightarrow> (auth_error + passkey_credential) \<times> auth_service" where
  "register_passkey_credential sv uid challenge_id cid key label =
     (if is_blank label \<or> is_blank cid \<or> is_blank key then (Inl InvalidPasskeyCredential, sv)
      else (case ensure_passkey_factor sv uid of
        (Inl e, sv1) \<Rightarrow> (Inl e, sv1)
      | (Inr factor, sv1) \<Rightarrow>
          if sv_poisoned sv1 then (Inl (StoreUnavailable ''passkeys''), sv1)
          else
            let st = sv_store sv1 in
            case passkey_registration_challenges_by_id st challenge_id of
              None \<Rightarrow> (Inl PasskeyChallengeNotFound, sv1)
            | Some ch \<Rightarrow>
                let st1 = st\<lparr>passkey_registration_challenges_by_id :=
                      (passkey_registration_challenges_by_id st)(challenge_id := None)\<rparr>;
                    sv2 = sv1\<lparr>sv_store := st1\<rparr>
                in if prc_user_id ch \<noteq> uid then (Inl PasskeyChallengeNotFound, sv2)
                   else
                     let c = passkey_credential_of (next_passkey_credential_id sv2) uid cid key label
                     in (Inr c,
                         sv2\<lparr>next_passkey_credential_id := next_passkey_credential_id sv2 + 1,
                             sv_store := st1\<lparr>
                               passkey_credential_ids_by_user_id :=
                                 entry_push uid (pk_id c) (passkey_credential_ids_by_user_id st1),
                               passkey_credentials_by_id :=
                                 (passkey_credentials_by_id st1)(pk_id c \<mapsto> c),
                               auth_factors_by_id :=
                                 (auth_factors_by_id st1)(afe_id factor \<mapsto> factor)\<rparr>\<rparr>)))"

definition passkeys_for_user :: "auth_service \<Rightarrow> u64 \<Rightarrow> auth_error + passkey_credential list" where
  "passkeys_for_user sv uid =
     (if sv_poisoned sv then Inl (StoreUnavailable ''passkeys'')
      else Inr (filter pk_enabled
             (filter_map (\<lambda>cid. passkey_credentials_by_id (sv_store sv) cid)
                (entry_list (passkey_credential_ids_by_user_id (sv_store sv)) uid))))"

definition begin_passkey_authentication ::
  "auth_service \<Rightarrow> user \<Rightarrow> string \<Rightarrow> string \<Rightarrow> u8 list
   \<Rightarrow> (auth_error + passkey_authentication_challenge) \<times> auth_service" where
  "begin_passkey_authentication sv u rp_id origin random =
     (case validate_passkey_relying_party rp_id origin of
        Inl e \<Rightarrow> (Inl e, sv)
      | Inr _ \<Rightarrow>
          (case passkeys_for_user sv (user_id u) of
             Inl e \<Rightarrow> (Inl e, sv)
           | Inr creds \<Rightarrow>
               let allowed = map pk_credential_id creds in
               if allowed = [] then (Inl PasskeyCredentialUnavailable, sv)
               else
                 let ch = authentication_challenge (user_id u) rp_id origin allowed random in
                 if sv_poisoned sv then (Inl (StoreUnavailable ''passkeys''), sv)
                 else (Inr ch,
                       sv\<lparr>sv_store := (sv_store sv)\<lparr>passkey_authentication_challenges_by_id :=
                            (passkey_authentication_challenges_by_id (sv_store sv))
                              (pac_challenge_id ch \<mapsto> ch)\<rparr>\<rparr>)))"

section \<open>Roles, workspaces and permissions\<close>

text \<open>A \<open>Permission\<close> is its identifier; its field is private, so the constants are all there
  are.\<close>

type_synonym permission = string

definition TERMINAL_OPEN :: permission where
  "TERMINAL_OPEN = ''terminal.open''"

definition TERMINAL_REATTACH :: permission where
  "TERMINAL_REATTACH = ''terminal.reattach''"

definition TERMINAL_CLOSE :: permission where
  "TERMINAL_CLOSE = ''terminal.close''"

definition TERMINAL_TERMINATE :: permission where
  "TERMINAL_TERMINATE = ''terminal.terminate''"

definition AUDIT_VIEW :: permission where
  "AUDIT_VIEW = ''audit.view''"

definition NODE_VIEW :: permission where
  "NODE_VIEW = ''node.view''"

definition NODE_REGISTER :: permission where
  "NODE_REGISTER = ''node.register''"

definition NODE_REVOKE :: permission where
  "NODE_REVOKE = ''node.revoke''"

definition NODE_CREDENTIAL_ROTATE :: permission where
  "NODE_CREDENTIAL_ROTATE = ''node.credential.rotate''"

definition USER_MANAGE :: permission where
  "USER_MANAGE = ''user.manage''"

definition ROLE_MANAGE :: permission where
  "ROLE_MANAGE = ''role.manage''"

lemmas permission_defs = TERMINAL_OPEN_def TERMINAL_REATTACH_def TERMINAL_CLOSE_def TERMINAL_TERMINATE_def AUDIT_VIEW_def NODE_VIEW_def NODE_REGISTER_def NODE_REVOKE_def NODE_CREDENTIAL_ROTATE_def USER_MANAGE_def ROLE_MANAGE_def

definition create_workspace ::
  "auth_service \<Rightarrow> string \<Rightarrow> (auth_error + workspace) \<times> auth_service" where
  "create_workspace sv name =
     (if is_blank name then (Inl InvalidRbacRecord, sv)
      else
        let w = \<lparr>ws_id = next_workspace_id sv, ws_name = trim name\<rparr>;
            sv' = sv\<lparr>next_workspace_id := next_workspace_id sv + 1\<rparr>
        in if sv_poisoned sv' then (Inl (StoreUnavailable ''rbac''), sv')
           else (Inr w,
                 sv'\<lparr>sv_store := (sv_store sv')\<lparr>workspaces_by_id :=
                       (workspaces_by_id (sv_store sv'))(ws_id w \<mapsto> w)\<rparr>\<rparr>))"

definition create_role :: "auth_service \<Rightarrow> string \<Rightarrow> (auth_error + rbac_role) \<times> auth_service" where
  "create_role sv name =
     (if is_blank name then (Inl InvalidRbacRecord, sv)
      else
        let r = \<lparr>role_id = next_role_id sv, role_name = trim name\<rparr>;
            sv' = sv\<lparr>next_role_id := next_role_id sv + 1\<rparr>
        in if sv_poisoned sv' then (Inl (StoreUnavailable ''rbac''), sv')
           else (Inr r,
                 sv'\<lparr>sv_store := (sv_store sv')\<lparr>roles_by_id :=
                       (roles_by_id (sv_store sv'))(role_id r \<mapsto> r)\<rparr>\<rparr>))"

definition grant_role_permission ::
  "auth_service \<Rightarrow> u64 \<Rightarrow> permission \<Rightarrow> (auth_error + role_permission) \<times> auth_service" where
  "grant_role_permission sv rid perm =
     (if sv_poisoned sv then (Inl (StoreUnavailable ''rbac''), sv)
      else
        let st = sv_store sv in
        if roles_by_id st rid = None then (Inl RbacRecordNotFound, sv)
        else
          let rp = \<lparr>rper_role_id = rid, rper_permission = perm\<rparr>
          in (Inr rp,
              sv\<lparr>sv_store := st\<lparr>role_permissions_by_role_id :=
                   entry_push rid rp (role_permissions_by_role_id st)\<rparr>\<rparr>))"

definition add_workspace_member ::
  "auth_service \<Rightarrow> u64 \<Rightarrow> u64 \<Rightarrow> u64 \<Rightarrow> (auth_error + workspace_member) \<times> auth_service" where
  "add_workspace_member sv wid uid rid =
     (if sv_poisoned sv then (Inl (StoreUnavailable ''rbac''), sv)
      else
        let st = sv_store sv in
        if workspaces_by_id st wid = None \<or> users_by_id st uid = None \<or> roles_by_id st rid = None
        then (Inl RbacRecordNotFound, sv)
        else
          let m = \<lparr>wm_workspace_id = wid, wm_user_id = uid, wm_role_id = rid\<rparr>
          in (Inr m,
              sv\<lparr>sv_store := st\<lparr>workspace_members_by_workspace_id :=
                   entry_push wid m (workspace_members_by_workspace_id st)\<rparr>\<rparr>))"

definition map_node_to_workspace ::
  "auth_service \<Rightarrow> u64 \<Rightarrow> string \<Rightarrow> (auth_error + workspace_node) \<times> auth_service" where
  "map_node_to_workspace sv wid nid =
     (if is_blank nid then (Inl InvalidRbacRecord, sv)
      else if sv_poisoned sv then (Inl (StoreUnavailable ''rbac''), sv)
      else
        let st = sv_store sv in
        if workspaces_by_id st wid = None then (Inl RbacRecordNotFound, sv)
        else
          let n = \<lparr>wn_workspace_id = wid, wn_node_id = nid\<rparr>
          in (Inr n,
              sv\<lparr>sv_store := st\<lparr>workspace_nodes_by_node_id :=
                   (workspace_nodes_by_node_id st)(nid \<mapsto> n)\<rparr>\<rparr>))"

definition user_has_workspace_permission ::
  "auth_service \<Rightarrow> user \<Rightarrow> u64 \<Rightarrow> permission \<Rightarrow> auth_error + bool" where
  "user_has_workspace_permission sv u wid perm =
     (if user_role u = Admin then Inr True
      else if sv_poisoned sv then Inl (StoreUnavailable ''rbac'')
      else
        let st = sv_store sv in
        Inr (list_ex
          (\<lambda>m. list_ex (\<lambda>rp. rper_permission rp = perm)
                 (entry_list (role_permissions_by_role_id st) (wm_role_id m)))
          (filter (\<lambda>m. wm_user_id m = user_id u)
             (entry_list (workspace_members_by_workspace_id st) wid))))"

definition user_has_node_permission ::
  "auth_service \<Rightarrow> user \<Rightarrow> string \<Rightarrow> permission \<Rightarrow> auth_error + bool" where
  "user_has_node_permission sv u nid perm =
     (if user_role u = Admin then Inr True
      else if sv_poisoned sv then Inl (StoreUnavailable ''rbac'')
      else (case workspace_nodes_by_node_id (sv_store sv) nid of
              None \<Rightarrow> Inr False
            | Some n \<Rightarrow> user_has_workspace_permission sv u (wn_workspace_id n) perm))"

definition user_has_control_plane_permission :: "user \<Rightarrow> permission \<Rightarrow> bool" where
  "user_has_control_plane_permission u perm =
     (user_role u = Admin
      \<or> user_role u = Operator \<and> (perm = TERMINAL_OPEN \<or> perm = TERMINAL_REATTACH))"

section \<open>Cookies\<close>

definition session_cookie_header :: "auth_service \<Rightarrow> string \<Rightarrow> string" where
  "session_cookie_header sv token =
     (let max_age = as_secs (session_ttl (sv_config sv));
          cookie = SESSION_COOKIE_NAME @ ''='' @ token @ ''; Path=/; Max-Age='' @ show_nat max_age
                   @ ''; HttpOnly; SameSite=Strict''
      in if secure_cookie (sv_config sv) then cookie @ ''; Secure'' else cookie)"

definition clear_session_cookie_header :: "auth_service \<Rightarrow> string" where
  "clear_session_cookie_header sv =
     (let cookie = SESSION_COOKIE_NAME @ ''=; Path=/; Max-Age=0; HttpOnly; SameSite=Strict''
      in if secure_cookie (sv_config sv) then cookie @ ''; Secure'' else cookie)"

section \<open>Facts on the helpers\<close>

lemma map_retain_Some [simp]: "map_retain P m k = Some v \<longleftrightarrow> m k = Some v \<and> P v"
  by (auto simp: map_retain_def split: option.splits)

lemma map_retain_None: "map_retain P m k = None \<longleftrightarrow> (\<forall>v. m k = Some v \<longrightarrow> \<not> P v)"
  by (auto simp: map_retain_def split: option.splits)

lemma entry_list_push [simp]:
  "entry_list (entry_push k x m) k' = (if k' = k then entry_list m k @ [x] else entry_list m k')"
  by (simp add: entry_list_def entry_push_def)

lemma set_filter_map [simp]: "set (filter_map f xs) = {y. \<exists>x \<in> set xs. f x = Some y}"
  by (induction xs) (auto split: option.splits)

lemma filter_map_append [simp]: "filter_map f (xs @ ys) = filter_map f xs @ filter_map f ys"
  by (induction xs) (auto split: option.splits)

section \<open>The store's invariant\<close>

text \<open>One account per email address; sessions, factors, secrets and recovery codes belong to
  accounts and factors that exist; every factor is listed once, under its own user. The counters
  bound the identifiers in use.\<close>

definition users_ok :: "auth_store \<Rightarrow> u64 \<Rightarrow> bool" where
  "users_ok st nxt =
     ((\<forall>e uid. user_ids_by_email st e = Some uid \<longrightarrow>
         (\<exists>su. users_by_id st uid = Some su \<and> user_email (su_user su) = e))
      \<and> (\<forall>uid su. users_by_id st uid = Some su \<longrightarrow>
           user_id (su_user su) = uid \<and> uid < nxt
           \<and> user_ids_by_email st (user_email (su_user su)) = Some uid))"

definition sessions_ok :: "auth_store \<Rightarrow> bool" where
  "sessions_ok st =
     (\<forall>t s. sessions_by_token st t = Some s \<longrightarrow> users_by_id st (sr_user_id s) \<noteq> None)"

definition factors_ok :: "auth_store \<Rightarrow> u64 \<Rightarrow> bool" where
  "factors_ok st nxt =
     ((\<forall>uid fid. fid \<in> set (entry_list (factor_ids_by_user_id st) uid) \<longrightarrow>
         (\<exists>f. auth_factors_by_id st fid = Some f \<and> afe_user_id f = uid))
      \<and> (\<forall>fid f. auth_factors_by_id st fid = Some f \<longrightarrow>
           afe_id f = fid \<and> fid < nxt \<and> users_by_id st (afe_user_id f) \<noteq> None
           \<and> fid \<in> set (entry_list (factor_ids_by_user_id st) (afe_user_id f)))
      \<and> (\<forall>uid. distinct (entry_list (factor_ids_by_user_id st) uid))
      \<and> nxt \<noteq> 0 \<and> auth_factors_by_id st 0 = None)"

definition secrets_ok :: "auth_store \<Rightarrow> bool" where
  "secrets_ok st =
     ((\<forall>fid s. totp_secrets_by_factor_id st fid = Some s \<longrightarrow>
         (\<exists>f. auth_factors_by_id st fid = Some f \<and> afe_factor_type f = FactorTotp))
      \<and> (\<forall>fid rs. recovery_codes_by_factor_id st fid = Some rs \<longrightarrow>
           (\<exists>f. auth_factors_by_id st fid = Some f \<and> afe_factor_type f = FactorRecoveryCode)))"

definition service_ok :: "auth_service \<Rightarrow> bool" where
  "service_ok sv =
     (users_ok (sv_store sv) (next_user_id sv) \<and> sessions_ok (sv_store sv)
      \<and> factors_ok (sv_store sv) (next_factor_id sv) \<and> secrets_ok (sv_store sv))"

lemmas service_ok_defs = service_ok_def users_ok_def sessions_ok_def factors_ok_def secrets_ok_def

section \<open>Every operation keeps the invariant\<close>

lemma users_ok_new:
  assumes "users_ok st n" "n \<noteq> - 1" "user_ids_by_email st e = None"
  shows "users_ok (st\<lparr>user_ids_by_email := (user_ids_by_email st)(e \<mapsto> n),
      users_by_id := (users_by_id st)(n \<mapsto> \<lparr>su_user = \<lparr>user_id = n, user_email = e, user_role = r\<rparr>,
        su_password_hash = ph\<rparr>)\<rparr>) (n + 1)"
proof -
  have fresh: "users_by_id st n = None"
    using assms(1) by (cases "users_by_id st n") (auto simp: users_ok_def)
  have email: "users_by_id st uid = Some su \<Longrightarrow> user_email (su_user su) \<noteq> e" for uid su
    using assms(1,3) by (auto simp: users_ok_def)
  have less: "users_by_id st uid = Some su \<Longrightarrow> uid < n + 1" for uid su
    using assms(1) word_less_Suc [OF assms(2)] unfolding users_ok_def by (meson less_trans)
  show ?thesis
    using assms(1) fresh email less word_less_Suc [OF assms(2)]
    by (auto simp: users_ok_def) (metis option.distinct(1))+
qed

lemma users_ok_update:
  assumes "users_ok st n" "users_by_id st uid = Some su" "user_id (su_user su') = user_id (su_user su)"
    "user_email (su_user su') = user_email (su_user su)"
  shows "users_ok (st\<lparr>users_by_id := (users_by_id st)(uid \<mapsto> su')\<rparr>) n"
proof -
  have "user_ids_by_email st e = Some uid \<Longrightarrow> user_email (su_user su) = e" for e
    using assms(1,2) unfolding users_ok_def by fastforce
  with assms show ?thesis
    unfolding users_ok_def by simp
qed

lemma service_ok_users:
  assumes "service_ok sv" and "users_ok st' n"
    and "\<And>uid. users_by_id (sv_store sv) uid \<noteq> None \<Longrightarrow> users_by_id st' uid \<noteq> None"
    and "sessions_by_token st' = sessions_by_token (sv_store sv)"
      "auth_factors_by_id st' = auth_factors_by_id (sv_store sv)"
      "factor_ids_by_user_id st' = factor_ids_by_user_id (sv_store sv)"
      "totp_secrets_by_factor_id st' = totp_secrets_by_factor_id (sv_store sv)"
      "recovery_codes_by_factor_id st' = recovery_codes_by_factor_id (sv_store sv)"
  shows "service_ok (sv\<lparr>next_user_id := n, sv_store := st'\<rparr>)"
  using assms unfolding service_ok_def sessions_ok_def factors_ok_def secrets_ok_def by simp

lemma upsert_user_ok:
  assumes "service_ok sv" "next_user_id sv \<noteq> - 1"
  shows "service_ok (snd (upsert_user sha sv email password role))"
proof (cases "is_blank email \<or> password = [] \<or> sv_poisoned sv")
  case True
  with assms(1) show ?thesis by (auto simp: upsert_user_def)
next
  case False
  let ?st = "sv_store sv" and ?e = "normalize_email email"
  have users: "users_ok ?st (next_user_id sv)"
    using assms(1) by (simp add: service_ok_def)
  show ?thesis
  proof (cases "user_ids_by_email ?st ?e")
    case None
    have "users_by_id ?st uid \<noteq> None \<Longrightarrow> uid \<noteq> next_user_id sv" for uid
      using users unfolding users_ok_def by (metis not_None_eq order_less_irrefl)
    with None False show ?thesis
      using service_ok_users [OF assms(1) users_ok_new [OF users assms(2) None]]
      by (simp add: upsert_user_def Let_def)
  next
    case (Some uid)
    then obtain su where su: "users_by_id ?st uid = Some su"
      using users unfolding users_ok_def by blast
    have "service_ok (sv\<lparr>next_user_id := next_user_id sv, sv_store := ?st\<lparr>users_by_id :=
        (users_by_id ?st)(uid \<mapsto> su\<lparr>su_user := (su_user su)\<lparr>user_role := role\<rparr>,
          su_password_hash := password_hash sha password\<rparr>)\<rparr>\<rparr>)"
      by (rule service_ok_users [OF assms(1) users_ok_update [OF users su]]) auto
    with Some su False show ?thesis
      by (simp add: upsert_user_def Let_def)
  qed
qed

text \<open>What the other operations change.\<close>

lemma service_ok_sessions:
  assumes "service_ok sv"
    and "\<And>t s. sess t = Some s \<Longrightarrow> users_by_id (sv_store sv) (sr_user_id s) \<noteq> None"
  shows "service_ok (sv\<lparr>sv_store := (sv_store sv)\<lparr>sessions_by_token := sess\<rparr>\<rparr>)"
  using assms unfolding service_ok_defs by simp

lemma service_ok_session_user:
  "service_ok sv \<Longrightarrow> sessions_by_token (sv_store sv) t = Some s \<Longrightarrow>
     \<exists>su. users_by_id (sv_store sv) (sr_user_id s) = Some su"
  unfolding service_ok_def sessions_ok_def by blast

lemma service_ok_user_id:
  "service_ok sv \<Longrightarrow> users_by_id (sv_store sv) uid = Some su \<Longrightarrow> user_id (su_user su) = uid"
  unfolding service_ok_def users_ok_def by blast

lemma login_ok:
  assumes "service_ok sv"
  shows "service_ok (snd (login sha sv email password now token))"
  using assms service_ok_session_user [OF assms] service_ok_user_id [OF assms]
  by (auto simp: login_def Let_def intro!: service_ok_sessions split: option.splits if_splits)

lemma purge_ok:
  assumes "service_ok sv"
  shows "service_ok (sv\<lparr>sv_store := purge_expired_sessions (sv_store sv) now\<rparr>)"
  using assms unfolding purge_expired_sessions_def
  by (intro service_ok_sessions) (auto simp: service_ok_def sessions_ok_def)

lemma current_user_ok: "service_ok sv \<Longrightarrow> service_ok (snd (current_user sv token now))"
  using purge_ok by (auto simp: current_user_def Let_def split: option.splits)

lemma has_recent_mfa_ok: "service_ok sv \<Longrightarrow> service_ok (snd (has_recent_mfa sv token now))"
  using purge_ok by (auto simp: has_recent_mfa_def Let_def split: option.splits)

lemma logout_ok:
  assumes "service_ok sv"
  shows "service_ok (snd (logout sv token))"
proof -
  have "service_ok (sv\<lparr>sv_store := (sv_store sv)\<lparr>sessions_by_token :=
      (sessions_by_token (sv_store sv))(token := None)\<rparr>\<rparr>)"
    using service_ok_session_user [OF assms]
    by (intro service_ok_sessions [OF assms]) (auto split: if_splits)
  with assms show ?thesis
    by (simp add: logout_def)
qed

lemma record_mfa_success_ok:
  assumes "service_ok sv"
  shows "service_ok (snd (record_mfa_success sv token now))"
proof (cases "sv_poisoned sv")
  case True
  with assms show ?thesis by (simp add: record_mfa_success_def)
next
  case False
  let ?sv = "sv\<lparr>sv_store := purge_expired_sessions (sv_store sv) now\<rparr>"
  have ok: "service_ok ?sv"
    by (rule purge_ok [OF assms])
  show ?thesis
  proof (cases "sessions_by_token (sv_store ?sv) token")
    case None
    with ok False show ?thesis by (simp add: record_mfa_success_def Let_def)
  next
    case (Some s)
    have "service_ok (?sv\<lparr>sv_store := (sv_store ?sv)\<lparr>sessions_by_token :=
        (sessions_by_token (sv_store ?sv))(token \<mapsto> s\<lparr>sr_recent_mfa_at := Some now\<rparr>)\<rparr>\<rparr>)"
      using ok Some by (intro service_ok_sessions) (auto simp: service_ok_def sessions_ok_def split: if_splits)
    with Some False show ?thesis
      by (simp add: record_mfa_success_def Let_def)
  qed
qed

lemma service_ok_other:
  assumes "service_ok sv"
    and "users_by_id (sv_store sv') = users_by_id (sv_store sv)"
      "user_ids_by_email (sv_store sv') = user_ids_by_email (sv_store sv)"
      "sessions_by_token (sv_store sv') = sessions_by_token (sv_store sv)"
      "auth_factors_by_id (sv_store sv') = auth_factors_by_id (sv_store sv)"
      "factor_ids_by_user_id (sv_store sv') = factor_ids_by_user_id (sv_store sv)"
      "totp_secrets_by_factor_id (sv_store sv') = totp_secrets_by_factor_id (sv_store sv)"
      "recovery_codes_by_factor_id (sv_store sv') = recovery_codes_by_factor_id (sv_store sv)"
      "next_user_id sv' = next_user_id sv" "next_factor_id sv' = next_factor_id sv"
  shows "service_ok sv'"
  using assms unfolding service_ok_defs by simp

lemma enroll_factor_cases:
  obtains e where "enroll_factor sv uid ft label = (Inl e, sv)"
  | f where "users_by_id (sv_store sv) uid \<noteq> None" "\<not> sv_poisoned sv"
      "f = \<lparr>afe_id = next_factor_id sv, afe_user_id = uid, afe_factor_type = ft,
             afe_label = trim label, afe_enabled = True\<rparr>"
      "enroll_factor sv uid ft label =
        (Inr f, sv\<lparr>next_factor_id := next_factor_id sv + 1,
           sv_store := (sv_store sv)\<lparr>
             factor_ids_by_user_id :=
               entry_push uid (afe_id f) (factor_ids_by_user_id (sv_store sv)),
             auth_factors_by_id := (auth_factors_by_id (sv_store sv))(afe_id f \<mapsto> f)\<rparr>\<rparr>)"
proof (cases "is_blank label \<or> sv_poisoned sv \<or> users_by_id (sv_store sv) uid = None")
  case True
  then have "\<exists>e. enroll_factor sv uid ft label = (Inl e, sv)"
    by (auto simp: enroll_factor_def Let_def)
  with that(1) show ?thesis by blast
next
  case False
  then show ?thesis
    by (intro that(2) [OF _ _ refl]) (auto simp: enroll_factor_def Let_def)
qed

lemma factors_ok_new:
  assumes "factors_ok st n" "n \<noteq> - 1" "users_by_id st uid \<noteq> None" "afe_id f = n" "afe_user_id f = uid"
  shows "factors_ok (st\<lparr>factor_ids_by_user_id := entry_push uid n (factor_ids_by_user_id st),
      auth_factors_by_id := (auth_factors_by_id st)(n \<mapsto> f)\<rparr>) (n + 1)"
proof -
  have less: "auth_factors_by_id st fid = Some g \<Longrightarrow> fid < n" for fid g
    using assms(1) unfolding factors_ok_def by blast
  have less1: "auth_factors_by_id st fid = Some g \<Longrightarrow> fid < n + 1" for fid g
    using less word_less_Suc [OF assms(2)] by (rule less_trans)
  have fresh: "n \<notin> set (entry_list (factor_ids_by_user_id st) u)" for u
    using assms(1) less unfolding factors_ok_def by (metis order_less_irrefl)
  show ?thesis
    unfolding factors_ok_def
  proof (intro conjI allI impI)
    fix u fid
    assume "fid \<in> set (entry_list (factor_ids_by_user_id
      (st\<lparr>factor_ids_by_user_id := entry_push uid n (factor_ids_by_user_id st),
          auth_factors_by_id := (auth_factors_by_id st)(n \<mapsto> f)\<rparr>)) u)"
    then have "u = uid \<and> fid = n \<or> fid \<in> set (entry_list (factor_ids_by_user_id st) u)"
      by (auto split: if_splits)
    moreover have "fid \<noteq> n" if "fid \<in> set (entry_list (factor_ids_by_user_id st) u)"
      using that fresh by blast
    ultimately show "\<exists>g. auth_factors_by_id
      (st\<lparr>factor_ids_by_user_id := entry_push uid n (factor_ids_by_user_id st),
          auth_factors_by_id := (auth_factors_by_id st)(n \<mapsto> f)\<rparr>) fid = Some g \<and> afe_user_id g = u"
      using assms unfolding factors_ok_def by auto
  next
    fix fid g
    assume "auth_factors_by_id
      (st\<lparr>factor_ids_by_user_id := entry_push uid n (factor_ids_by_user_id st),
          auth_factors_by_id := (auth_factors_by_id st)(n \<mapsto> f)\<rparr>) fid = Some g"
    then consider "fid = n" "g = f" | "fid \<noteq> n" "auth_factors_by_id st fid = Some g"
      by (auto split: if_splits)
    then have "afe_id g = fid \<and> fid < n + 1 \<and> users_by_id st (afe_user_id g) \<noteq> None
        \<and> fid \<in> set (entry_list (entry_push uid n (factor_ids_by_user_id st)) (afe_user_id g))"
    proof cases
      case 1
      then show ?thesis
        using assms word_less_Suc [OF assms(2)] by auto
    next
      case 2
      then have "afe_id g = fid" "users_by_id st (afe_user_id g) \<noteq> None"
        "fid \<in> set (entry_list (factor_ids_by_user_id st) (afe_user_id g))"
        using assms(1) unfolding factors_ok_def by blast+
      with less1 [OF 2(2)] show ?thesis
        by auto
    qed
    then show "afe_id g = fid" "fid < n + 1"
      "users_by_id (st\<lparr>factor_ids_by_user_id := entry_push uid n (factor_ids_by_user_id st),
          auth_factors_by_id := (auth_factors_by_id st)(n \<mapsto> f)\<rparr>) (afe_user_id g) \<noteq> None"
      "fid \<in> set (entry_list (factor_ids_by_user_id
        (st\<lparr>factor_ids_by_user_id := entry_push uid n (factor_ids_by_user_id st),
            auth_factors_by_id := (auth_factors_by_id st)(n \<mapsto> f)\<rparr>)) (afe_user_id g))"
      by simp_all
  next
    fix u
    show "distinct (entry_list (factor_ids_by_user_id
      (st\<lparr>factor_ids_by_user_id := entry_push uid n (factor_ids_by_user_id st),
          auth_factors_by_id := (auth_factors_by_id st)(n \<mapsto> f)\<rparr>)) u)"
      using assms(1) fresh unfolding factors_ok_def by simp
  next
    show "n + 1 \<noteq> 0"
      using assms(2) by (metis add.commute eq_neg_iff_add_eq_0)
    show "auth_factors_by_id
      (st\<lparr>factor_ids_by_user_id := entry_push uid n (factor_ids_by_user_id st),
          auth_factors_by_id := (auth_factors_by_id st)(n \<mapsto> f)\<rparr>) 0 = None"
      using assms(1) unfolding factors_ok_def by simp
  qed
qed

lemma enroll_factor_ok:
  assumes "service_ok sv" "next_factor_id sv \<noteq> - 1"
  shows "service_ok (snd (enroll_factor sv uid ft label))"
proof (rule enroll_factor_cases [of sv uid ft label])
  fix e
  assume "enroll_factor sv uid ft label = (Inl e, sv)"
  with assms(1) show ?thesis by simp
next
  fix f
  assume u: "users_by_id (sv_store sv) uid \<noteq> None"
    and f: "f = \<lparr>afe_id = next_factor_id sv, afe_user_id = uid, afe_factor_type = ft,
             afe_label = trim label, afe_enabled = True\<rparr>"
    and e: "enroll_factor sv uid ft label =
        (Inr f, sv\<lparr>next_factor_id := next_factor_id sv + 1,
           sv_store := (sv_store sv)\<lparr>
             factor_ids_by_user_id :=
               entry_push uid (afe_id f) (factor_ids_by_user_id (sv_store sv)),
             auth_factors_by_id := (auth_factors_by_id (sv_store sv))(afe_id f \<mapsto> f)\<rparr>\<rparr>)"
  have id: "afe_id f = next_factor_id sv" "afe_user_id f = uid"
    by (simp_all add: f)
  have ok: "factors_ok (sv_store sv) (next_factor_id sv)" "secrets_ok (sv_store sv)"
    using assms(1) by (simp_all add: service_ok_def)
  have fresh: "auth_factors_by_id (sv_store sv) (next_factor_id sv) = None"
    using ok(1) unfolding factors_ok_def by (metis not_None_eq order_less_irrefl)
  have "secrets_ok ((sv_store sv)\<lparr>factor_ids_by_user_id :=
        entry_push uid (next_factor_id sv) (factor_ids_by_user_id (sv_store sv)),
      auth_factors_by_id := (auth_factors_by_id (sv_store sv))(next_factor_id sv \<mapsto> f)\<rparr>)"
  proof -
    have "totp_secrets_by_factor_id (sv_store sv) fid = Some x \<Longrightarrow> fid \<noteq> next_factor_id sv"
      and "recovery_codes_by_factor_id (sv_store sv) fid = Some y \<Longrightarrow> fid \<noteq> next_factor_id sv"
      for fid x y
      using ok(2) fresh unfolding secrets_ok_def by fastforce+
    with ok(2) show ?thesis
      unfolding secrets_ok_def by simp
  qed
  then show ?thesis
    using assms(1) factors_ok_new [OF ok(1) assms(2) u id] id(1)
    by (simp add: e service_ok_def users_ok_def sessions_ok_def)
qed

lemma enrolled_factor:
  "fst (enroll_factor sv uid ft label) = Inr f \<Longrightarrow>
     auth_factors_by_id (sv_store (snd (enroll_factor sv uid ft label))) (afe_id f) = Some f
     \<and> afe_factor_type f = ft \<and> afe_user_id f = uid
     \<and> \<not> sv_poisoned (snd (enroll_factor sv uid ft label)) \<and> users_by_id (sv_store sv) uid \<noteq> None"
  by (rule enroll_factor_cases [of sv uid ft label]) auto

lemma enroll_totp_ok:
  assumes "service_ok sv" "next_factor_id sv \<noteq> - 1"
  shows "service_ok (snd (enroll_totp_factor_with_secret sv uid label secret))"
proof (cases "fst (enroll_factor sv uid FactorTotp label)")
  case (Inl e)
  then show ?thesis
    using enroll_factor_ok [OF assms, of uid FactorTotp label]
    by (cases "enroll_factor sv uid FactorTotp label") (simp add: enroll_totp_factor_with_secret_def)
next
  case (Inr f)
  let ?sv = "snd (enroll_factor sv uid FactorTotp label)"
  have ok: "service_ok ?sv"
    by (rule enroll_factor_ok [OF assms])
  have eq: "enroll_factor sv uid FactorTotp label = (Inr f, ?sv)"
    using Inr by (metis prod.collapse)
  note f = enrolled_factor [OF Inr]
  have "secrets_ok ((sv_store ?sv)\<lparr>totp_secrets_by_factor_id :=
      (totp_secrets_by_factor_id (sv_store ?sv))(afe_id f \<mapsto> secret)\<rparr>)"
    using ok f unfolding service_ok_def secrets_ok_def by simp
  then have "service_ok (?sv\<lparr>sv_store := (sv_store ?sv)\<lparr>totp_secrets_by_factor_id :=
      (totp_secrets_by_factor_id (sv_store ?sv))(afe_id f \<mapsto> secret)\<rparr>\<rparr>)"
    using ok by (simp add: service_ok_def users_ok_def sessions_ok_def factors_ok_def)
  with ok f show ?thesis
    by (subst enroll_totp_factor_with_secret_def, subst eq)
      (auto simp: Let_def split: option.splits)
qed

lemma store_records_ok:
  assumes "service_ok sv" "auth_factors_by_id (sv_store sv) fid = Some f"
    "afe_factor_type f = FactorRecoveryCode"
  shows "service_ok (sv\<lparr>sv_store := (sv_store sv)\<lparr>recovery_codes_by_factor_id :=
      (recovery_codes_by_factor_id (sv_store sv))(fid \<mapsto> rs)\<rparr>\<rparr>)"
  using assms unfolding service_ok_defs by simp

lemma store_codes_ok:
  assumes "service_ok sv" "auth_factors_by_id (sv_store sv) (afe_id f) = Some f"
    "afe_factor_type f = FactorRecoveryCode"
  shows "service_ok (snd (store_codes_and_build sha uni sv f randoms))"
  using assms(1) store_records_ok [OF assms]
  by (simp add: store_codes_and_build_def store_recovery_code_records_def Let_def)

lemma generate_codes_ok:
  assumes "service_ok sv" "next_factor_id sv \<noteq> - 1"
  shows "service_ok (snd (service_generate_recovery_codes sha uni sv uid randoms))"
proof (cases "fst (enroll_factor sv uid FactorRecoveryCode ''Recovery codes'')")
  case (Inl e)
  then show ?thesis
    using enroll_factor_ok [OF assms, of uid FactorRecoveryCode "''Recovery codes''"]
    by (cases "enroll_factor sv uid FactorRecoveryCode ''Recovery codes''")
      (simp add: service_generate_recovery_codes_def)
next
  case (Inr f)
  let ?sv = "snd (enroll_factor sv uid FactorRecoveryCode ''Recovery codes'')"
  have eq: "enroll_factor sv uid FactorRecoveryCode ''Recovery codes'' = (Inr f, ?sv)"
    using Inr by (metis prod.collapse)
  show ?thesis
    using store_codes_ok [OF enroll_factor_ok [OF assms]] enrolled_factor [OF Inr]
    by (subst service_generate_recovery_codes_def, subst eq) simp
qed

lemma find_factor_Some:
  assumes "service_ok sv" "find_factor sv l uid ft = Inr (Some f)"
  shows "auth_factors_by_id (sv_store sv) (afe_id f) = Some f \<and> afe_factor_type f = ft
    \<and> afe_user_id f = uid \<and> afe_enabled f \<and> \<not> sv_poisoned sv"
proof -
  have np: "\<not> sv_poisoned sv"
    and find: "find (\<lambda>f. afe_enabled f \<and> afe_factor_type f = ft) (factors_of (sv_store sv) uid) = Some f"
    using assms(2) by (auto simp: find_factor_def split: if_splits)
  then have "f \<in> set (factors_of (sv_store sv) uid)" "afe_enabled f" "afe_factor_type f = ft"
    by (auto simp: find_Some_iff)
  moreover from this(1) obtain fid where "fid \<in> set (entry_list (factor_ids_by_user_id (sv_store sv)) uid)"
      "auth_factors_by_id (sv_store sv) fid = Some f"
    by (auto simp: factors_of_def)
  moreover from this have "afe_id f = fid" "afe_user_id f = uid"
    using assms(1) unfolding service_ok_def factors_ok_def by fastforce+
  ultimately show ?thesis
    using np by simp
qed

lemma regenerate_codes_ok:
  assumes "service_ok sv" "next_factor_id sv \<noteq> - 1"
  shows "service_ok (snd (regenerate_recovery_codes sha uni sv uid randoms))"
proof (cases "recovery_code_factor_for_user sv uid")
  case (Inl e)
  with assms(1) show ?thesis by (simp add: regenerate_recovery_codes_def)
next
  case (Inr found)
  then show ?thesis
    using generate_codes_ok [OF assms] store_codes_ok [OF assms(1)] find_factor_Some [OF assms(1)]
    by (cases found)
      (auto simp: regenerate_recovery_codes_def Let_def recovery_code_factor_for_user_def)
qed

lemma verify_recovery_code_ok:
  assumes "service_ok sv"
  shows "service_ok (snd (verify_recovery_code sha uni sv u code))"
proof (cases "recovery_code_factor_for_user sv (user_id u)")
  case (Inl e)
  with assms show ?thesis by (simp add: verify_recovery_code_def)
next
  case (Inr found)
  then show ?thesis
    using assms find_factor_Some [OF assms] store_records_ok [OF assms]
    by (cases found)
      (auto simp: verify_recovery_code_def Let_def recovery_code_factor_for_user_def
        split: option.splits)
qed

lemma begin_passkey_registration_ok:
  "service_ok sv \<Longrightarrow> service_ok (snd (begin_passkey_registration sv u rp origin random))"
  by (auto simp: begin_passkey_registration_def Let_def split: sum.splits
      intro: service_ok_other)

lemma begin_passkey_authentication_ok:
  "service_ok sv \<Longrightarrow> service_ok (snd (begin_passkey_authentication sv u rp origin random))"
  by (auto simp: begin_passkey_authentication_def Let_def split: sum.splits
      intro: service_ok_other)

lemma ensure_passkey_factor_ok:
  assumes "service_ok sv" "next_factor_id sv \<noteq> - 1"
  shows "service_ok (snd (ensure_passkey_factor sv uid))"
    and "fst (ensure_passkey_factor sv uid) = Inr f \<Longrightarrow>
      auth_factors_by_id (sv_store (snd (ensure_passkey_factor sv uid))) (afe_id f) = Some f"
  using enroll_factor_ok [OF assms, of uid FactorWebAuthn "''Passkeys''"] assms(1)
    enrolled_factor [of sv uid FactorWebAuthn "''Passkeys''" f]
    find_factor_Some [OF assms(1), of "''passkeys''" uid FactorWebAuthn f]
  by (auto simp: ensure_passkey_factor_def passkey_factor_for_user_def
      split: sum.splits option.splits)

lemma register_passkey_ok:
  assumes "service_ok sv" "next_factor_id sv \<noteq> - 1"
  shows "service_ok (snd (register_passkey_credential sv uid ch cid key label))"
proof (cases "is_blank label \<or> is_blank cid \<or> is_blank key")
  case True
  with assms(1) show ?thesis by (auto simp: register_passkey_credential_def)
next
  case False
  let ?sv = "snd (ensure_passkey_factor sv uid)"
  note ok = ensure_passkey_factor_ok [OF assms, of uid]
  show ?thesis
  proof (cases "fst (ensure_passkey_factor sv uid)")
    case (Inl e)
    with False ok(1) show ?thesis
      by (cases "ensure_passkey_factor sv uid") (simp add: register_passkey_credential_def)
  next
    case (Inr f)
    have eq: "ensure_passkey_factor sv uid = (Inr f, ?sv)"
      using Inr by (metis prod.collapse)
    have "auth_factors_by_id (sv_store ?sv) (afe_id f) = Some f"
      by (rule ok(2) [OF Inr])
    then have same: "(auth_factors_by_id (sv_store ?sv))(afe_id f \<mapsto> f) = auth_factors_by_id (sv_store ?sv)"
      by (rule map_upd_triv)
    show ?thesis
      using False ok(1) unfolding register_passkey_credential_def
      by (subst eq) (auto simp: Let_def same split: option.splits intro: service_ok_other [OF ok(1)])
  qed
qed

lemma rbac_ok:
  assumes "service_ok sv"
  shows "service_ok (snd (create_workspace sv name))" "service_ok (snd (create_role sv name))"
    "service_ok (snd (grant_role_permission sv rid perm))"
    "service_ok (snd (add_workspace_member sv wid uid rid))"
    "service_ok (snd (map_node_to_workspace sv wid nid))"
  using assms
  by (auto simp: create_workspace_def create_role_def grant_role_permission_def
      add_workspace_member_def map_node_to_workspace_def Let_def intro: service_ok_other [OF assms])

section \<open>Reachable services\<close>

text \<open>Any sequence of the operations, with any users, random bytes and clock readings, and a mutex
  that may get poisoned; an operation that allocates an identifier needs a counter that has not
  run through all 64-bit values.\<close>

inductive auth_step ::
  "(u8 list \<Rightarrow> u8 list) \<Rightarrow> (string \<Rightarrow> string) \<Rightarrow> auth_service \<Rightarrow> auth_service \<Rightarrow> bool" for sha uni where
  as_upsert: "next_user_id sv \<noteq> - 1 \<Longrightarrow> auth_step sha uni sv (snd (upsert_user sha sv e p r))"
| as_login: "auth_step sha uni sv (snd (login sha sv e p now tok))"
| as_current_user: "auth_step sha uni sv (snd (current_user sv tok now))"
| as_logout: "auth_step sha uni sv (snd (logout sv tok))"
| as_recent_mfa: "auth_step sha uni sv (snd (has_recent_mfa sv tok now))"
| as_record_mfa: "auth_step sha uni sv (snd (record_mfa_success sv tok now))"
| as_enroll: "next_factor_id sv \<noteq> - 1 \<Longrightarrow> auth_step sha uni sv (snd (enroll_factor sv uid ft l))"
| as_totp: "next_factor_id sv \<noteq> - 1 \<Longrightarrow>
    auth_step sha uni sv (snd (enroll_totp_factor_with_secret sv uid l secret))"
| as_generate: "next_factor_id sv \<noteq> - 1 \<Longrightarrow>
    auth_step sha uni sv (snd (service_generate_recovery_codes sha uni sv uid randoms))"
| as_regenerate: "next_factor_id sv \<noteq> - 1 \<Longrightarrow>
    auth_step sha uni sv (snd (regenerate_recovery_codes sha uni sv uid randoms))"
| as_verify_code: "auth_step sha uni sv (snd (verify_recovery_code sha uni sv u code))"
| as_begin_registration: "auth_step sha uni sv (snd (begin_passkey_registration sv u rp org random))"
| as_register: "next_factor_id sv \<noteq> - 1 \<Longrightarrow>
    auth_step sha uni sv (snd (register_passkey_credential sv uid ch cid key l))"
| as_begin_authentication:
    "auth_step sha uni sv (snd (begin_passkey_authentication sv u rp org random))"
| as_workspace: "auth_step sha uni sv (snd (create_workspace sv name))"
| as_role: "auth_step sha uni sv (snd (create_role sv name))"
| as_grant: "auth_step sha uni sv (snd (grant_role_permission sv rid perm))"
| as_member: "auth_step sha uni sv (snd (add_workspace_member sv wid uid rid))"
| as_node: "auth_step sha uni sv (snd (map_node_to_workspace sv wid nid))"
| as_poison: "auth_step sha uni sv (sv\<lparr>sv_poisoned := True\<rparr>)"

inductive auth_reachable ::
  "(u8 list \<Rightarrow> u8 list) \<Rightarrow> (string \<Rightarrow> string) \<Rightarrow> auth_service \<Rightarrow> bool" for sha uni where
  auth_start: "auth_reachable sha uni (auth_service_new sha config)"
| auth_next: "auth_reachable sha uni sv \<Longrightarrow> auth_step sha uni sv sv' \<Longrightarrow> auth_reachable sha uni sv'"

lemma service_ok_poison: "service_ok sv \<Longrightarrow> service_ok (sv\<lparr>sv_poisoned := True\<rparr>)"
  by (rule service_ok_other) simp_all

lemma service_ok_new: "service_ok (auth_service_new sha config)"
proof -
  let ?sv = "\<lparr>sv_poisoned = False, sv_store = auth_store_default, next_user_id = 1,
                next_factor_id = 1, next_passkey_credential_id = 1, next_role_id = 1,
                next_workspace_id = 1, sv_config = config\<rparr>"
  have "service_ok ?sv"
    by (simp add: service_ok_defs auth_store_default_def entry_list_def)
  then show ?thesis
    using upsert_user_ok [of ?sv] by (simp add: auth_service_new_def bootstrap_admin_def Let_def)
qed

lemma auth_step_ok: "auth_step sha uni sv sv' \<Longrightarrow> service_ok sv \<Longrightarrow> service_ok sv'"
  by (erule auth_step.cases)
    (simp_all add: upsert_user_ok login_ok current_user_ok logout_ok has_recent_mfa_ok
      record_mfa_success_ok enroll_factor_ok enroll_totp_ok generate_codes_ok regenerate_codes_ok
      verify_recovery_code_ok begin_passkey_registration_ok register_passkey_ok
      begin_passkey_authentication_ok rbac_ok service_ok_poison)

lemma auth_reachable_ok: "auth_reachable sha uni sv \<Longrightarrow> service_ok sv"
  by (induction rule: auth_reachable.induct) (auto simp: service_ok_new dest: auth_step_ok)

section \<open>MFA through the factor interface\<close>

text \<open>What the service expects of a factor: a verification answers for the user and the factor
  type it was asked about.\<close>

locale sound_factor =
  fixes factor :: auth_factor and accepts :: "auth_context \<Rightarrow> factor_response \<Rightarrow> bool"
  assumes verify_answers: "verify_challenge factor ctx response =
    Inr \<lparr>frt_user_id = user_id (ctx_user ctx), frt_factor_type = factor_kind factor,
         frt_verified = accepts ctx response\<rparr>"
begin

lemma verify_factor_challenge_eq:
  "verify_factor_challenge sv factor ctx response =
     (if frs_factor_type response \<noteq> factor_kind factor then Inl FactorTypeMismatch
      else (case ensure_factor_enrolled sv (user_id (ctx_user ctx)) (factor_kind factor) of
              Inl e \<Rightarrow> Inl e
            | Inr _ \<Rightarrow>
                if accepts ctx response
                then Inr \<lparr>frt_user_id = user_id (ctx_user ctx),
                          frt_factor_type = factor_kind factor, frt_verified = True\<rparr>
                else Inl FactorVerificationFailed))"
  by (simp add: verify_factor_challenge_def verify_answers split: sum.splits)

lemma verified_iff:
  "(\<exists>r. verify_factor_challenge sv factor ctx response = Inr r) \<longleftrightarrow>
     frs_factor_type response = factor_kind factor
     \<and> ensure_factor_enrolled sv (user_id (ctx_user ctx)) (factor_kind factor) = Inr ()
     \<and> accepts ctx response"
  by (auto simp: verify_factor_challenge_eq split: sum.splits)

end

interpretation totp: sound_factor "totp_auth_factor sha f now"
  "\<lambda>ctx response. verify_code_at sha f (trim (frs_secret response)) now" for sha f now
  by unfold_locales (simp add: totp_auth_factor_def totp_verify_challenge_def)

lemma find_map_Some: "find_map f xs = Some y \<Longrightarrow> \<exists>x \<in> set xs. f x = Some y"
  by (induction xs) (auto split: option.splits)

lemma totp_factor_enrolled:
  assumes "totp_factor_for_user sv uid = Inr f"
  shows "ensure_factor_enrolled sv uid FactorTotp = Inr ()"
proof -
  have np: "\<not> sv_poisoned sv"
    using assms by (auto simp: totp_factor_for_user_def split: if_splits)
  obtain secret where "find_map (\<lambda>fid. case auth_factors_by_id (sv_store sv) fid of
        None \<Rightarrow> None
      | Some f \<Rightarrow> if afe_enabled f \<and> afe_factor_type f = FactorTotp
          then totp_secrets_by_factor_id (sv_store sv) (afe_id f) else None)
      (entry_list (factor_ids_by_user_id (sv_store sv)) uid) = Some secret"
    using assms by (auto simp: totp_factor_for_user_def Let_def split: if_splits option.splits)
  from find_map_Some [OF this] obtain fid g where "fid \<in> set (entry_list (factor_ids_by_user_id (sv_store sv)) uid)"
      "auth_factors_by_id (sv_store sv) fid = Some g" "afe_enabled g" "afe_factor_type g = FactorTotp"
    by (auto split: option.splits if_splits)
  with np show ?thesis
    by (force simp: ensure_factor_enrolled_def factors_of_def list_ex_iff)
qed

lemma verify_totp_code_iff:
  "(\<exists>r. verify_totp_code sha sv u purpose code now = Inr r) \<longleftrightarrow>
     (\<exists>f. totp_factor_for_user sv (user_id u) = Inr f \<and> verify_code_at sha f (trim code) now)"
  using totp_factor_enrolled [of sv "user_id u"] totp.verified_iff
  by (auto simp: verify_totp_code_def begin_factor_challenge_def totp_auth_factor_def
      totp_begin_challenge_def Let_def split: sum.splits)

section \<open>Using up recovery codes\<close>

lemma use_record_Some_iff:
  "(\<exists>rs'. use_record h rs = Some rs') \<longleftrightarrow> (\<exists>r \<in> set rs. src_hash r = h \<and> \<not> src_used r)"
  by (induction rs) auto

lemma use_record_spends:
  "use_record h rs = Some rs' \<Longrightarrow>
     map src_hash rs' = map src_hash rs
     \<and> (distinct (map src_hash rs) \<longrightarrow> use_record h rs' = None)
     \<and> (h' \<noteq> h \<longrightarrow> ((\<exists>x. use_record h' rs' = Some x) \<longleftrightarrow> (\<exists>x. use_record h' rs = Some x)))"
proof (induction rs arbitrary: rs')
  case Nil
  then show ?case by simp
next
  case (Cons r rs)
  show ?case
  proof (cases "src_hash r = h \<and> \<not> src_used r")
    case True
    then have rs': "rs' = r\<lparr>src_used := True\<rparr> # rs"
      using Cons.prems by simp
    have "h \<notin> set (map src_hash rs) \<Longrightarrow> use_record h rs = None"
      using use_record_Some_iff [of h rs] by (cases "use_record h rs") auto
    with True show ?thesis
      by (auto simp: rs')
  next
    case False
    then obtain rs1 where "use_record h rs = Some rs1" "rs' = r # rs1"
      using Cons.prems by (auto split: if_splits)
    with Cons.IH [of rs1] False show ?thesis
      by auto
  qed
qed

lemma find_append: "find P (xs @ ys) = (case find P xs of None \<Rightarrow> find P ys | Some x \<Rightarrow> Some x)"
  by (induction xs) auto

lemma verify_recovery_code_eq:
  assumes "recovery_code_factor_for_user sv (user_id u) = Inr (Some f)"
    and "recovery_codes_by_factor_id (sv_store sv) (afe_id f) = Some rs"
  shows "verify_recovery_code sha uni sv u code =
    (case use_record (hash_recovery_code sha uni code) rs of
       None \<Rightarrow> (Inl RecoveryCodeInvalid, sv)
     | Some rs' \<Rightarrow>
         (Inr \<lparr>frt_user_id = user_id u, frt_factor_type = FactorRecoveryCode, frt_verified = True\<rparr>,
          sv\<lparr>sv_store := (sv_store sv)\<lparr>recovery_codes_by_factor_id :=
            (recovery_codes_by_factor_id (sv_store sv))(afe_id f \<mapsto> rs')\<rparr>\<rparr>))"
proof -
  have "\<not> sv_poisoned sv"
    using assms(1) by (auto simp: recovery_code_factor_for_user_def find_factor_def split: if_splits)
  with assms show ?thesis
    by (simp add: verify_recovery_code_def Let_def)
qed

lemma verify_recovery_code_success:
  assumes "fst (verify_recovery_code sha uni sv u code) = Inr res"
  obtains f rs rs' where "recovery_code_factor_for_user sv (user_id u) = Inr (Some f)"
    "recovery_codes_by_factor_id (sv_store sv) (afe_id f) = Some rs"
    "use_record (hash_recovery_code sha uni code) rs = Some rs'"
  using assms unfolding verify_recovery_code_def
  by (auto simp: Let_def split: sum.splits option.splits if_splits)

lemma recovery_factor_other_store:
  "sv_poisoned sv' = sv_poisoned sv \<Longrightarrow>
   factor_ids_by_user_id (sv_store sv') = factor_ids_by_user_id (sv_store sv) \<Longrightarrow>
   auth_factors_by_id (sv_store sv') = auth_factors_by_id (sv_store sv) \<Longrightarrow>
   recovery_code_factor_for_user sv' uid = recovery_code_factor_for_user sv uid"
  by (simp add: recovery_code_factor_for_user_def find_factor_def factors_of_def)

section \<open>Logging in\<close>

lemma login_success:
  assumes "fst (login sha sv email password now token) = Inr (u, token')"
  obtains su where "token' = token" "su_user su = u" "\<not> sv_poisoned sv"
    "user_ids_by_email (sv_store sv) (normalize_email email) \<noteq> None"
    "users_by_id (sv_store sv) (the (user_ids_by_email (sv_store sv) (normalize_email email))) = Some su"
    "su_password_hash su = password_hash sha password"
    "snd (login sha sv email password now token) =
       sv\<lparr>sv_store := (sv_store sv)\<lparr>sessions_by_token := (sessions_by_token (sv_store sv))
         (token \<mapsto> \<lparr>sr_user_id = user_id u, sr_expires_at = now + session_ttl (sv_config sv),
                     sr_recent_mfa_at = None\<rparr>)\<rparr>\<rparr>"
  using assms unfolding login_def
  by (auto simp: Let_def split: option.splits if_splits)

lemma current_user_eq:
  "\<not> sv_poisoned sv \<Longrightarrow> fst (current_user sv token now) =
     (case sessions_by_token (sv_store sv) token of
        None \<Rightarrow> Inr None
      | Some s \<Rightarrow> if now < sr_expires_at s
                  then Inr (map_option su_user (users_by_id (sv_store sv) (sr_user_id s)))
                  else Inr None)"
  by (auto simp: current_user_def purge_expired_sessions_def map_retain_def Let_def split: option.splits)

lemma has_recent_mfa_eq:
  "\<not> sv_poisoned sv \<Longrightarrow> fst (has_recent_mfa sv token now) =
     Inr (\<exists>s t. sessions_by_token (sv_store sv) token = Some s \<and> now < sr_expires_at s
            \<and> sr_recent_mfa_at s = Some t \<and> elapsed now t \<le> recent_mfa_ttl (sv_config sv))"
  by (auto simp: has_recent_mfa_def purge_expired_sessions_def map_retain_def Let_def
      split: option.splits)

section \<open>A service for the witnesses\<close>

definition toy_sha :: "u8 list \<Rightarrow> u8 list" where
  "toy_sha bs = bs"

definition toy_config :: auth_config where
  "toy_config =
     \<lparr>session_ttl = secs 100, recent_mfa_ttl = secs 10, secure_cookie = True,
      require_step_up_mfa_for_terminal = True, bootstrap_admin_enabled = True,
      admin_email = ''a'', admin_password = ''p''\<rparr>"

definition toy_user :: user where
  "toy_user = \<lparr>user_id = 1, user_email = ''a'', user_role = Admin\<rparr>"

definition toy_service :: auth_service where
  "toy_service = auth_service_new toy_sha toy_config"

lemma toy_strings: "\<not> is_blank ''a''" "normalize_email ''a'' = ''a''"
    "\<not> is_blank ''Recovery codes''" "trim ''Recovery codes'' = ''Recovery codes''"
    "\<not> is_blank ''Passkeys''" "trim ''Passkeys'' = ''Passkeys''"
  by code_simp+

lemma toy_service_eq:
  "toy_service =
     \<lparr>sv_poisoned = False,
      sv_store = auth_store_default
        \<lparr>user_ids_by_email := [''a'' \<mapsto> 1],
         users_by_id := [1 \<mapsto> \<lparr>su_user = toy_user, su_password_hash = password_hash toy_sha ''p''\<rparr>]\<rparr>,
      next_user_id = 2, next_factor_id = 1, next_passkey_credential_id = 1, next_role_id = 1,
      next_workspace_id = 1, sv_config = toy_config\<rparr>"
  by (simp add: toy_service_def auth_service_new_def toy_config_def bootstrap_admin_def
      upsert_user_def toy_strings auth_store_default_def toy_user_def Let_def)

definition toy_login :: auth_service where
  "toy_login = snd (login toy_sha toy_service ''a'' ''p'' 5 ''tok'')"

lemma toy_login_fields:
  "sv_poisoned toy_login = False"
  "sessions_by_token (sv_store toy_login) =
     [''tok'' \<mapsto> \<lparr>sr_user_id = 1, sr_expires_at = 5 + secs 100, sr_recent_mfa_at = None\<rparr>]"
  "require_step_up_mfa_for_terminal (sv_config toy_login)"
  "recent_mfa_ttl (sv_config toy_login) = secs 10"
  by (simp_all add: toy_login_def login_def toy_service_eq toy_strings auth_store_default_def
      toy_user_def toy_config_def Let_def)

lemma toy_reachable: "auth_reachable toy_sha uni toy_service"
  unfolding toy_service_def by (rule auth_start)

section \<open>Properties\<close>

text \<open>C34: In every reachable service there is one account per email address, under its identifier;
  every login session belongs to an account; every factor is listed exactly once, with its own
  user, who exists; TOTP secrets and recovery codes are attached to factors of their own type.\<close>

theorem auth_store_is_consistent:
  "auth_reachable sha uni sv \<Longrightarrow>
     (\<forall>uid su. users_by_id (sv_store sv) uid = Some su \<longrightarrow>
        user_id (su_user su) = uid
        \<and> (\<forall>uid' su'. users_by_id (sv_store sv) uid' = Some su'
             \<and> user_email (su_user su') = user_email (su_user su) \<longrightarrow> uid' = uid))
     \<and> (\<forall>t s. sessions_by_token (sv_store sv) t = Some s \<longrightarrow>
          (\<exists>su. users_by_id (sv_store sv) (sr_user_id s) = Some su))
     \<and> (\<forall>uid. distinct (entry_list (factor_ids_by_user_id (sv_store sv)) uid))
     \<and> (\<forall>fid f. auth_factors_by_id (sv_store sv) fid = Some f \<longrightarrow>
          (\<exists>su. users_by_id (sv_store sv) (afe_user_id f) = Some su)
          \<and> (\<forall>uid. fid \<in> set (entry_list (factor_ids_by_user_id (sv_store sv)) uid)
               \<longleftrightarrow> uid = afe_user_id f))
     \<and> (\<forall>fid x. totp_secrets_by_factor_id (sv_store sv) fid = Some x \<longrightarrow>
          (\<exists>f. auth_factors_by_id (sv_store sv) fid = Some f \<and> afe_factor_type f = FactorTotp))
     \<and> (\<forall>fid rs. recovery_codes_by_factor_id (sv_store sv) fid = Some rs \<longrightarrow>
          (\<exists>f. auth_factors_by_id (sv_store sv) fid = Some f
             \<and> afe_factor_type f = FactorRecoveryCode))"
proof -
  assume "auth_reachable sha uni sv"
  then have ok: "service_ok sv"
    by (rule auth_reachable_ok)
  then have u: "users_ok (sv_store sv) (next_user_id sv)" and s: "sessions_ok (sv_store sv)"
    and f: "factors_ok (sv_store sv) (next_factor_id sv)" and x: "secrets_ok (sv_store sv)"
    by (simp_all add: service_ok_def)
  show ?thesis
  proof (intro conjI)
    show "\<forall>uid su. users_by_id (sv_store sv) uid = Some su \<longrightarrow>
        user_id (su_user su) = uid
        \<and> (\<forall>uid' su'. users_by_id (sv_store sv) uid' = Some su'
             \<and> user_email (su_user su') = user_email (su_user su) \<longrightarrow> uid' = uid)"
      using u unfolding users_ok_def by (metis option.inject)
    show "\<forall>fid g. auth_factors_by_id (sv_store sv) fid = Some g \<longrightarrow>
          (\<exists>su. users_by_id (sv_store sv) (afe_user_id g) = Some su)
          \<and> (\<forall>uid. fid \<in> set (entry_list (factor_ids_by_user_id (sv_store sv)) uid)
               \<longleftrightarrow> uid = afe_user_id g)"
    proof (intro allI impI)
      fix fid g
      assume g: "auth_factors_by_id (sv_store sv) fid = Some g"
      then have "users_by_id (sv_store sv) (afe_user_id g) \<noteq> None"
        and "fid \<in> set (entry_list (factor_ids_by_user_id (sv_store sv)) (afe_user_id g))"
        using f unfolding factors_ok_def by blast+
      moreover have "afe_user_id g = uid"
        if "fid \<in> set (entry_list (factor_ids_by_user_id (sv_store sv)) uid)" for uid
        using f g that unfolding factors_ok_def by fastforce
      ultimately show "(\<exists>su. users_by_id (sv_store sv) (afe_user_id g) = Some su)
          \<and> (\<forall>uid. fid \<in> set (entry_list (factor_ids_by_user_id (sv_store sv)) uid)
               \<longleftrightarrow> uid = afe_user_id g)"
        by blast
    qed
    show "\<forall>t s. sessions_by_token (sv_store sv) t = Some s \<longrightarrow>
          (\<exists>su. users_by_id (sv_store sv) (sr_user_id s) = Some su)"
      using s unfolding sessions_ok_def by blast
    show "\<forall>uid. distinct (entry_list (factor_ids_by_user_id (sv_store sv)) uid)"
      using f unfolding factors_ok_def by blast
    show "\<forall>fid x. totp_secrets_by_factor_id (sv_store sv) fid = Some x \<longrightarrow>
          (\<exists>f. auth_factors_by_id (sv_store sv) fid = Some f \<and> afe_factor_type f = FactorTotp)"
      using x unfolding secrets_ok_def by blast
    show "\<forall>fid rs. recovery_codes_by_factor_id (sv_store sv) fid = Some rs \<longrightarrow>
          (\<exists>f. auth_factors_by_id (sv_store sv) fid = Some f
             \<and> afe_factor_type f = FactorRecoveryCode)"
      using x unfolding secrets_ok_def by blast
  qed
qed

theorem auth_store_is_consistent_witness:
  "\<exists>su. users_by_id (sv_store toy_service) 1 = Some su \<and> user_id (su_user su) = 1"
proof -
  obtain su where su: "users_by_id (sv_store toy_service) 1 = Some su"
    by (simp add: toy_service_eq)
  then have "user_id (su_user su) = 1"
    using auth_store_is_consistent [OF toy_reachable [of "\<lambda>c. c"], THEN conjunct1] by blast
  with su show ?thesis by blast
qed

text \<open>A login succeeds only with the account's password, for the trimmed and lower-cased email
  address; its token then names that user until the session's lifetime is over and never after,
  nor after a logout; it never starts with recent MFA.\<close>

theorem login_session_lifecycle:
  "fst (login sha sv email password t token) = Inr (u, token') \<Longrightarrow> auth_reachable sha uni sv \<Longrightarrow>
     token' = token \<and> user_email u = normalize_email email
     \<and> (\<exists>su. users_by_id (sv_store sv) (user_id u) = Some su \<and> su_user su = u
           \<and> su_password_hash su = password_hash sha password)
     \<and> (now < t + session_ttl (sv_config sv) \<longrightarrow>
          fst (current_user (snd (login sha sv email password t token)) token now) = Inr (Some u))
     \<and> (t + session_ttl (sv_config sv) \<le> now \<longrightarrow>
          fst (current_user (snd (login sha sv email password t token)) token now) = Inr None)
     \<and> fst (current_user (snd (logout (snd (login sha sv email password t token)) token)) token now)
         = Inr None
     \<and> fst (has_recent_mfa (snd (login sha sv email password t token)) token now) = Inr False"
proof -
  assume login: "fst (login sha sv email password t token) = Inr (u, token')"
    and "auth_reachable sha uni sv"
  then have ok: "service_ok sv"
    by (simp add: auth_reachable_ok)
  obtain su where su: "token' = token" "su_user su = u" "\<not> sv_poisoned sv"
    "user_ids_by_email (sv_store sv) (normalize_email email) \<noteq> None"
    "users_by_id (sv_store sv) (the (user_ids_by_email (sv_store sv) (normalize_email email))) = Some su"
    "su_password_hash su = password_hash sha password"
    and sv': "snd (login sha sv email password t token) =
       sv\<lparr>sv_store := (sv_store sv)\<lparr>sessions_by_token := (sessions_by_token (sv_store sv))
         (token \<mapsto> \<lparr>sr_user_id = user_id u, sr_expires_at = t + session_ttl (sv_config sv),
                     sr_recent_mfa_at = None\<rparr>)\<rparr>\<rparr>"
    by (rule login_success [OF login])
  obtain uid where uid: "user_ids_by_email (sv_store sv) (normalize_email email) = Some uid"
    using su(4) by blast
  then have user: "users_by_id (sv_store sv) uid = Some su"
    using su(5) by simp
  have "user_email u = normalize_email email"
    using ok uid user su(2) unfolding service_ok_def users_ok_def by fastforce
  moreover have "user_id u = uid"
    using service_ok_user_id [OF ok user] su(2) by simp
  ultimately show ?thesis
    using su user
    by (simp add: sv' current_user_eq has_recent_mfa_eq logout_def)
qed

theorem login_session_lifecycle_witness:
  "fst (login toy_sha toy_service ''a'' ''p'' 5 ''tok'') = Inr (toy_user, ''tok'')
   \<and> fst (current_user (snd (login toy_sha toy_service ''a'' ''p'' 5 ''tok'')) ''tok'' (secs 100))
       = Inr (Some toy_user)
   \<and> fst (current_user (snd (login toy_sha toy_service ''a'' ''p'' 5 ''tok'')) ''tok'' (secs 101))
       = Inr None"
proof -
  have login: "fst (login toy_sha toy_service ''a'' ''p'' 5 ''tok'') = Inr (toy_user, ''tok'')"
    by (simp add: login_def toy_service_eq toy_strings auth_store_default_def Let_def)
  have ttl: "session_ttl (sv_config toy_service) = secs 100"
    by (simp add: toy_service_eq toy_config_def)
  show ?thesis
    using login_session_lifecycle [OF login toy_reachable, of "secs 100"]
      login_session_lifecycle [OF login toy_reachable, of "secs 101"] login
    by (simp add: ttl secs_def)
qed

text \<open>A terminal may be opened with a session exactly when the user is an administrator or
  operator and, where step-up MFA is required, the session has not expired and an MFA success was
  recorded on it within the MFA lifetime. Recording one makes the difference for exactly that
  time.\<close>

theorem terminal_access_needs_role_and_recent_mfa:
  "(fst (can_open_terminal_with_session sv u token now) = Inr True \<longleftrightarrow>
     (user_role u = Admin \<or> user_role u = Operator)
     \<and> (\<not> require_step_up_mfa_for_terminal (sv_config sv)
        \<or> \<not> sv_poisoned sv
          \<and> (\<exists>s t. sessions_by_token (sv_store sv) token = Some s \<and> now < sr_expires_at s
               \<and> sr_recent_mfa_at s = Some t \<and> elapsed now t \<le> recent_mfa_ttl (sv_config sv))))
   \<and> (fst (record_mfa_success sv token t0) = Inr () \<longrightarrow>
        user_role u = Admin \<longrightarrow> t0 \<le> now \<longrightarrow>
        (\<exists>s. sessions_by_token (sv_store sv) token = Some s \<and> t0 < sr_expires_at s
           \<and> (require_step_up_mfa_for_terminal (sv_config sv) \<longrightarrow>
                fst (can_open_terminal_with_session (snd (record_mfa_success sv token t0)) u token now)
                = Inr (now < sr_expires_at s \<and> now - t0 \<le> recent_mfa_ttl (sv_config sv)))))"
proof (intro conjI impI)
  show "fst (can_open_terminal_with_session sv u token now) = Inr True \<longleftrightarrow>
     (user_role u = Admin \<or> user_role u = Operator)
     \<and> (\<not> require_step_up_mfa_for_terminal (sv_config sv)
        \<or> \<not> sv_poisoned sv
          \<and> (\<exists>s t. sessions_by_token (sv_store sv) token = Some s \<and> now < sr_expires_at s
               \<and> sr_recent_mfa_at s = Some t \<and> elapsed now t \<le> recent_mfa_ttl (sv_config sv)))"
    using has_recent_mfa_eq [of sv token now]
    by (cases "sv_poisoned sv")
      (auto simp: can_open_terminal_with_session_def can_open_terminal_def has_recent_mfa_def)
next
  assume rec: "fst (record_mfa_success sv token t0) = Inr ()" and admin: "user_role u = Admin"
  have np: "\<not> sv_poisoned sv"
    using rec by (auto simp: record_mfa_success_def split: if_splits)
  let ?st = "purge_expired_sessions (sv_store sv) t0"
  obtain s where s: "sessions_by_token ?st token = Some s"
    using rec np by (auto simp: record_mfa_success_def Let_def split: option.splits)
  then have s': "sessions_by_token (sv_store sv) token = Some s" "t0 < sr_expires_at s"
    by (simp_all add: purge_expired_sessions_def)
  have sv': "snd (record_mfa_success sv token t0) =
      sv\<lparr>sv_store := ?st\<lparr>sessions_by_token := (sessions_by_token ?st)
                 (token \<mapsto> s\<lparr>sr_recent_mfa_at := Some t0\<rparr>)\<rparr>\<rparr>"
    using np s by (simp add: record_mfa_success_def Let_def)
  show "\<exists>s. sessions_by_token (sv_store sv) token = Some s \<and> t0 < sr_expires_at s
           \<and> (require_step_up_mfa_for_terminal (sv_config sv) \<longrightarrow>
                fst (can_open_terminal_with_session (snd (record_mfa_success sv token t0)) u token now)
                = Inr (now < sr_expires_at s \<and> now - t0 \<le> recent_mfa_ttl (sv_config sv)))"
    using s' np admin
    by (simp add: sv' can_open_terminal_with_session_def can_open_terminal_def has_recent_mfa_eq
        elapsed_def)
qed

theorem terminal_access_needs_role_and_recent_mfa_witness:
  "fst (can_open_terminal_with_session (snd (record_mfa_success toy_login ''tok'' 7))
     toy_user ''tok'' 8) = Inr True
   \<and> fst (can_open_terminal_with_session toy_login toy_user ''tok'' 8) \<noteq> Inr True"
proof -
  have rec: "fst (record_mfa_success toy_login ''tok'' 7) = Inr ()"
    by (simp add: record_mfa_success_def toy_login_fields purge_expired_sessions_def
        map_retain_def secs_def Let_def)
  have admin: "user_role toy_user = Admin"
    by (simp add: toy_user_def)
  have "fst (can_open_terminal_with_session (snd (record_mfa_success toy_login ''tok'' 7))
     toy_user ''tok'' 8) = Inr True"
    using terminal_access_needs_role_and_recent_mfa
      [of toy_login toy_user "''tok''" 8 7, THEN conjunct2] rec admin
    by (simp add: toy_login_fields secs_def)
  moreover have "fst (can_open_terminal_with_session toy_login toy_user ''tok'' 8) \<noteq> Inr True"
    using terminal_access_needs_role_and_recent_mfa
      [of toy_login toy_user "''tok''" 8 7, THEN conjunct1]
    by (simp add: toy_login_fields)
  ultimately show ?thesis ..
qed

section \<open>Recovery codes of a batch\<close>

lemma filter_map_upd:
  "k \<notin> set xs \<Longrightarrow> filter_map (\<lambda>x. (m(k \<mapsto> v)) x) xs = filter_map m xs"
  by (induction xs) (auto split: option.splits)

lemma fresh_records_usable:
  "(\<exists>rs'. use_record h (recovery_code_records sha uni codes) = Some rs')
     \<longleftrightarrow> h \<in> hash_recovery_code sha uni ` set codes"
  by (auto simp: use_record_Some_iff recovery_code_records_def)

lemma verify_ok_iff:
  assumes "recovery_code_factor_for_user sv (user_id u) = Inr (Some f)"
  shows "(\<exists>r. fst (verify_recovery_code sha uni sv u code) = Inr r) \<longleftrightarrow>
    (\<exists>rs. recovery_codes_by_factor_id (sv_store sv) (afe_id f) = Some rs
       \<and> (\<exists>rs'. use_record (hash_recovery_code sha uni code) rs = Some rs'))"
proof -
  have "\<not> sv_poisoned sv"
    using assms by (auto simp: recovery_code_factor_for_user_def find_factor_def split: if_splits)
  with assms show ?thesis
    by (simp add: verify_recovery_code_def Let_def split: option.split)
qed

lemma enrolled_recovery_factor:
  assumes "fst (enroll_factor sv uid FactorRecoveryCode l) = Inr f"
    and "service_ok sv" "next_factor_id sv \<noteq> - 1"
  shows "recovery_code_factor_for_user (snd (enroll_factor sv uid FactorRecoveryCode l)) uid =
    (case recovery_code_factor_for_user sv uid of
       Inl e \<Rightarrow> Inl e | Inr None \<Rightarrow> Inr (Some f) | Inr (Some g) \<Rightarrow> Inr (Some g))"
proof -
  let ?fs = "entry_list (factor_ids_by_user_id (sv_store sv)) uid"
  obtain "\<not> sv_poisoned sv" and f: "afe_id f = next_factor_id sv" "afe_enabled f"
      "afe_factor_type f = FactorRecoveryCode"
    and sv': "snd (enroll_factor sv uid FactorRecoveryCode l) =
      sv\<lparr>next_factor_id := next_factor_id sv + 1,
         sv_store := (sv_store sv)\<lparr>
           factor_ids_by_user_id :=
             entry_push uid (afe_id f) (factor_ids_by_user_id (sv_store sv)),
           auth_factors_by_id := (auth_factors_by_id (sv_store sv))(afe_id f \<mapsto> f)\<rparr>\<rparr>"
    using assms(1) by (cases rule: enroll_factor_cases [of sv uid FactorRecoveryCode l]) auto
  have "next_factor_id sv \<notin> set ?fs"
    using assms(2) unfolding service_ok_def factors_ok_def by (metis order_less_irrefl)
  then have "filter_map (\<lambda>fid. ((auth_factors_by_id (sv_store sv))(afe_id f \<mapsto> f)) fid) ?fs
      = filter_map (auth_factors_by_id (sv_store sv)) ?fs"
    unfolding f(1) by (rule filter_map_upd)
  then show ?thesis
    using \<open>\<not> sv_poisoned sv\<close> f
    by (simp add: recovery_code_factor_for_user_def find_factor_def factors_of_def sv' find_append
        split: option.split)
qed

lemma store_codes_result:
  assumes "\<not> sv_poisoned sv"
  shows "store_codes_and_build sha uni sv f randoms =
    (Inr \<lparr>rcb_factor = f, rcb_codes = generate_recovery_codes randoms\<rparr>,
     sv\<lparr>sv_store := (sv_store sv)\<lparr>recovery_codes_by_factor_id :=
       (recovery_codes_by_factor_id (sv_store sv))
         (afe_id f \<mapsto> recovery_code_records sha uni (generate_recovery_codes randoms))\<rparr>\<rparr>)"
  using assms by (simp add: store_codes_and_build_def store_recovery_code_records_def Let_def)

lemma generate_codes_success:
  assumes "fst (service_generate_recovery_codes sha uni sv uid randoms) = Inr batch"
  obtains f where "fst (enroll_factor sv uid FactorRecoveryCode ''Recovery codes'') = Inr f"
    "rcb_codes batch = generate_recovery_codes randoms"
    "snd (service_generate_recovery_codes sha uni sv uid randoms) =
      snd (store_codes_and_build sha uni
        (snd (enroll_factor sv uid FactorRecoveryCode ''Recovery codes'')) f randoms)"
    "\<not> sv_poisoned (snd (enroll_factor sv uid FactorRecoveryCode ''Recovery codes''))"
proof (cases "fst (enroll_factor sv uid FactorRecoveryCode ''Recovery codes'')")
  case (Inl e)
  then have "enroll_factor sv uid FactorRecoveryCode ''Recovery codes''
      = (Inl e, snd (enroll_factor sv uid FactorRecoveryCode ''Recovery codes''))"
    by (metis prod.collapse)
  with assms show ?thesis
    by (cases "enroll_factor sv uid FactorRecoveryCode ''Recovery codes''")
      (simp add: service_generate_recovery_codes_def)
next
  case (Inr f)
  then have eq: "enroll_factor sv uid FactorRecoveryCode ''Recovery codes''
      = (Inr f, snd (enroll_factor sv uid FactorRecoveryCode ''Recovery codes''))"
    by (metis prod.collapse)
  have gen: "service_generate_recovery_codes sha uni sv uid randoms = store_codes_and_build sha uni
        (snd (enroll_factor sv uid FactorRecoveryCode ''Recovery codes'')) f randoms"
    unfolding service_generate_recovery_codes_def by (subst eq) simp
  note np = enrolled_factor [OF Inr]
  show ?thesis
    using that [OF Inr] assms np by (auto simp: gen store_codes_result)
qed

lemma generate_first_batch:
  assumes gen: "fst (service_generate_recovery_codes sha uni sv (user_id u) randoms) = Inr batch"
    and ok: "service_ok sv" "next_factor_id sv \<noteq> - 1"
    and none: "recovery_code_factor_for_user sv (user_id u) = Inr None"
  shows "(\<exists>r. fst (verify_recovery_code sha uni
      (snd (service_generate_recovery_codes sha uni sv (user_id u) randoms)) u code) = Inr r)
    \<longleftrightarrow> hash_recovery_code sha uni code \<in> hash_recovery_code sha uni ` set (rcb_codes batch)"
proof -
  obtain f where f: "fst (enroll_factor sv (user_id u) FactorRecoveryCode ''Recovery codes'') = Inr f"
    "rcb_codes batch = generate_recovery_codes randoms"
    and sv': "snd (service_generate_recovery_codes sha uni sv (user_id u) randoms) =
      snd (store_codes_and_build sha uni
        (snd (enroll_factor sv (user_id u) FactorRecoveryCode ''Recovery codes'')) f randoms)"
    and np: "\<not> sv_poisoned (snd (enroll_factor sv (user_id u) FactorRecoveryCode ''Recovery codes''))"
    by (rule generate_codes_success [OF gen])
  let ?sv' = "snd (service_generate_recovery_codes sha uni sv (user_id u) randoms)"
  have "recovery_code_factor_for_user ?sv' (user_id u)
      = recovery_code_factor_for_user
          (snd (enroll_factor sv (user_id u) FactorRecoveryCode ''Recovery codes'')) (user_id u)"
    by (rule recovery_factor_other_store) (simp_all add: sv' store_codes_result [OF np])
  also have "\<dots> = Inr (Some f)"
    by (simp add: enrolled_recovery_factor [OF f(1) ok] none)
  finally have fac: "recovery_code_factor_for_user ?sv' (user_id u) = Inr (Some f)" .
  show ?thesis
    unfolding verify_ok_iff [OF fac]
    by (simp add: sv' store_codes_result [OF np] fresh_records_usable f(2))
qed

lemma generate_second_batch:
  assumes gen: "fst (service_generate_recovery_codes sha uni sv (user_id u) randoms) = Inr batch"
    and ok: "service_ok sv" "next_factor_id sv \<noteq> - 1"
    and some: "recovery_code_factor_for_user sv (user_id u) = Inr (Some g)"
  shows "(\<exists>r. fst (verify_recovery_code sha uni
      (snd (service_generate_recovery_codes sha uni sv (user_id u) randoms)) u code) = Inr r)
    \<longleftrightarrow> (\<exists>r. fst (verify_recovery_code sha uni sv u code) = Inr r)"
proof -
  obtain f where f: "fst (enroll_factor sv (user_id u) FactorRecoveryCode ''Recovery codes'') = Inr f"
    and sv': "snd (service_generate_recovery_codes sha uni sv (user_id u) randoms) =
      snd (store_codes_and_build sha uni
        (snd (enroll_factor sv (user_id u) FactorRecoveryCode ''Recovery codes'')) f randoms)"
    and np: "\<not> sv_poisoned (snd (enroll_factor sv (user_id u) FactorRecoveryCode ''Recovery codes''))"
    by (rule generate_codes_success [OF gen])
  let ?sv' = "snd (service_generate_recovery_codes sha uni sv (user_id u) randoms)"
  have "recovery_code_factor_for_user ?sv' (user_id u)
      = recovery_code_factor_for_user
          (snd (enroll_factor sv (user_id u) FactorRecoveryCode ''Recovery codes'')) (user_id u)"
    by (rule recovery_factor_other_store) (simp_all add: sv' store_codes_result [OF np])
  also have "\<dots> = Inr (Some g)"
    by (simp add: enrolled_recovery_factor [OF f ok] some)
  finally have fac: "recovery_code_factor_for_user ?sv' (user_id u) = Inr (Some g)" .
  have "afe_id g \<noteq> afe_id f"
  proof -
    have "auth_factors_by_id (sv_store sv) (afe_id g) = Some g"
      using find_factor_Some [OF ok(1)] some by (simp add: recovery_code_factor_for_user_def)
    then have "afe_id g < next_factor_id sv"
      using ok(1) unfolding service_ok_def factors_ok_def by blast
    moreover have "afe_id f = next_factor_id sv"
      using f by (cases rule: enroll_factor_cases [of sv "user_id u" FactorRecoveryCode "''Recovery codes''"]) auto
    ultimately show ?thesis by auto
  qed
  moreover have "recovery_codes_by_factor_id
      (sv_store (snd (enroll_factor sv (user_id u) FactorRecoveryCode ''Recovery codes'')))
      = recovery_codes_by_factor_id (sv_store sv)"
    by (cases rule: enroll_factor_cases [of sv "user_id u" FactorRecoveryCode "''Recovery codes''"]) auto
  ultimately show ?thesis
    unfolding verify_ok_iff [OF fac] verify_ok_iff [OF some]
    by (simp add: sv' store_codes_result [OF np])
qed

lemma regenerate_batch:
  assumes reg: "fst (regenerate_recovery_codes sha uni sv (user_id u) randoms) = Inr batch"
    and ok: "service_ok sv" "next_factor_id sv \<noteq> - 1"
  shows "(\<exists>r. fst (verify_recovery_code sha uni
      (snd (regenerate_recovery_codes sha uni sv (user_id u) randoms)) u code) = Inr r)
    \<longleftrightarrow> hash_recovery_code sha uni code \<in> hash_recovery_code sha uni ` set (rcb_codes batch)"
proof (cases "recovery_code_factor_for_user sv (user_id u)")
  case (Inl e)
  with reg show ?thesis by (simp add: regenerate_recovery_codes_def)
next
  case (Inr found)
  show ?thesis
  proof (cases found)
    case None
    then have eq: "regenerate_recovery_codes sha uni sv (user_id u) randoms
        = service_generate_recovery_codes sha uni sv (user_id u) randoms"
      using Inr by (simp add: regenerate_recovery_codes_def)
    have none: "recovery_code_factor_for_user sv (user_id u) = Inr None"
      using Inr None by simp
    show ?thesis
      unfolding eq by (rule generate_first_batch [OF reg [unfolded eq] ok none])
  next
    case (Some g)
    then have ff: "find_factor sv ''recovery-codes'' (user_id u) FactorRecoveryCode = Inr (Some g)"
      using Inr by (simp add: recovery_code_factor_for_user_def)
    have g: "auth_factors_by_id (sv_store sv) (afe_id g) = Some g" "\<not> sv_poisoned sv"
      using find_factor_Some [OF ok(1) ff] by simp_all
    have "auth_factors_by_id (sv_store sv) 0 = None"
      using ok(1) unfolding service_ok_def factors_ok_def by blast
    with g(1) have "afe_id g \<noteq> 0"
      by force
    then have eq: "regenerate_recovery_codes sha uni sv (user_id u) randoms
        = store_codes_and_build sha uni sv g randoms"
      using Inr Some by (simp add: regenerate_recovery_codes_def Let_def)
    have fac: "recovery_code_factor_for_user (snd (store_codes_and_build sha uni sv g randoms))
        (user_id u) = Inr (Some g)"
      using Inr Some
      by (subst recovery_factor_other_store [of _ sv]) (simp_all add: store_codes_result [OF g(2)])
    have "rcb_codes batch = generate_recovery_codes randoms"
      using reg by (auto simp: eq store_codes_result [OF g(2)])
    then show ?thesis
      unfolding eq verify_ok_iff [OF fac]
      by (simp add: store_codes_result [OF g(2)] fresh_records_usable)
  qed
qed

text \<open>How often a code with this hash can still be used.\<close>

definition recovery_uses :: "auth_service \<Rightarrow> u64 \<Rightarrow> string \<Rightarrow> nat" where
  "recovery_uses sv uid h =
     (case recovery_code_factor_for_user sv uid of
        Inr (Some f) \<Rightarrow>
          (case recovery_codes_by_factor_id (sv_store sv) (afe_id f) of
             None \<Rightarrow> 0
           | Some rs \<Rightarrow> length (filter (\<lambda>r. src_hash r = h \<and> \<not> src_used r) rs))
      | _ \<Rightarrow> 0)"

lemma use_record_count:
  "use_record h rs = Some rs' \<Longrightarrow>
     length (filter (\<lambda>r. src_hash r = h' \<and> \<not> src_used r) rs)
       = length (filter (\<lambda>r. src_hash r = h' \<and> \<not> src_used r) rs') + (if h' = h then 1 else 0)"
  by (induction rs arbitrary: rs') (auto split: if_splits)

lemma use_record_None_count:
  "use_record h rs = None \<Longrightarrow> length (filter (\<lambda>r. src_hash r = h \<and> \<not> src_used r) rs) = 0"
  by (induction rs) (auto split: if_splits)

lemma recovery_factor_owner:
  assumes "service_ok sv" "recovery_code_factor_for_user sv uid = Inr (Some f)"
  shows "afe_user_id f = uid"
proof -
  have "find_factor sv ''recovery-codes'' uid FactorRecoveryCode = Inr (Some f)"
    using assms(2) by (simp add: recovery_code_factor_for_user_def)
  with find_factor_Some [OF assms(1)] show ?thesis
    by blast
qed

lemma verify_recovery_code_poisoned:
  "sv_poisoned sv \<Longrightarrow> verify_recovery_code sha uni sv u code = (Inl (StoreUnavailable ''recovery-codes''), sv)"
  by (simp add: verify_recovery_code_def recovery_code_factor_for_user_def find_factor_def)

lemma recovery_uses_cong:
  assumes "recovery_code_factor_for_user sv' uid = recovery_code_factor_for_user sv uid"
    and "\<And>g. recovery_code_factor_for_user sv uid = Inr (Some g) \<Longrightarrow>
      recovery_codes_by_factor_id (sv_store sv') (afe_id g)
        = recovery_codes_by_factor_id (sv_store sv) (afe_id g)"
  shows "recovery_uses sv' uid h = recovery_uses sv uid h"
proof (cases "\<exists>g. recovery_code_factor_for_user sv uid = Inr (Some g)")
  case True
  then obtain g where g: "recovery_code_factor_for_user sv uid = Inr (Some g)" ..
  show ?thesis
    by (simp only: recovery_uses_def assms(1) assms(2) [OF g] g sum.case option.case)
next
  case False
  then show ?thesis
    by (cases "recovery_code_factor_for_user sv uid"; cases "projr (recovery_code_factor_for_user sv uid)")
      (simp_all add: recovery_uses_def assms(1))
qed

lemma verify_recovery_code_refused:
  assumes "fst (verify_recovery_code sha uni sv u code) = Inl e"
  shows "snd (verify_recovery_code sha uni sv u code) = sv"
proof (cases "\<exists>f rs. recovery_code_factor_for_user sv (user_id u) = Inr (Some f)
      \<and> recovery_codes_by_factor_id (sv_store sv) (afe_id f) = Some rs")
  case True
  then obtain f rs where "recovery_code_factor_for_user sv (user_id u) = Inr (Some f)"
      "recovery_codes_by_factor_id (sv_store sv) (afe_id f) = Some rs" by blast
  note eq = verify_recovery_code_eq [OF this, of sha uni code]
  show ?thesis
    using assms unfolding eq
    by (cases "use_record (hash_recovery_code sha uni code) rs") simp_all
next
  case False
  then show ?thesis
    unfolding verify_recovery_code_def
    by (cases "recovery_code_factor_for_user sv (user_id u)";
        cases "projr (recovery_code_factor_for_user sv (user_id u))")
      (simp_all add: Let_def)
qed

lemma recovery_uses_spent:
  assumes ok: "service_ok sv"
    and fac: "recovery_code_factor_for_user sv (user_id u) = Inr (Some f)"
    and rs: "recovery_codes_by_factor_id (sv_store sv) (afe_id f) = Some rs"
    and used: "use_record (hash_recovery_code sha uni code) rs = Some rs'"
  shows "recovery_uses sv uid h =
      recovery_uses (snd (verify_recovery_code sha uni sv u code)) uid h
      + (if uid = user_id u \<and> h = hash_recovery_code sha uni code then 1 else 0)"
proof -
  let ?sv' = "snd (verify_recovery_code sha uni sv u code)"
  have sv': "?sv' = sv\<lparr>sv_store := (sv_store sv)\<lparr>recovery_codes_by_factor_id :=
            (recovery_codes_by_factor_id (sv_store sv))(afe_id f \<mapsto> rs')\<rparr>\<rparr>"
    using verify_recovery_code_eq [OF fac rs, of sha uni code] used by simp
  have same: "recovery_code_factor_for_user ?sv' v = recovery_code_factor_for_user sv v" for v
    by (rule recovery_factor_other_store) (simp_all add: sv')
  show ?thesis
  proof (cases "uid = user_id u")
    case True
    then show ?thesis
      using use_record_count [OF used, of h]
      by (simp add: recovery_uses_def same fac rs) (simp add: sv')
  next
    case False
    have "afe_id g \<noteq> afe_id f" if g: "recovery_code_factor_for_user sv uid = Inr (Some g)" for g
    proof
      assume eq: "afe_id g = afe_id f"
      have gf: "find_factor sv ''recovery-codes'' uid FactorRecoveryCode = Inr (Some g)"
           "find_factor sv ''recovery-codes'' (user_id u) FactorRecoveryCode = Inr (Some f)"
        using g fac by (simp_all add: recovery_code_factor_for_user_def)
      have "g = f"
        using find_factor_Some [OF ok gf(1), THEN conjunct1]
          find_factor_Some [OF ok gf(2), THEN conjunct1] eq by (metis option.inject)
      with recovery_factor_owner [OF ok g] recovery_factor_owner [OF ok fac] False show False
        by simp
    qed
    then have "recovery_uses ?sv' uid h = recovery_uses sv uid h"
      by (intro recovery_uses_cong [OF same]) (simp add: sv')
    with False show ?thesis
      by simp
  qed
qed

lemma recovery_uses_zero:
  assumes "\<And>f rs rs'. recovery_code_factor_for_user sv uid = Inr (Some f) \<Longrightarrow>
      recovery_codes_by_factor_id (sv_store sv) (afe_id f) = Some rs \<Longrightarrow>
      use_record h rs \<noteq> Some rs'"
  shows "recovery_uses sv uid h = 0"
proof (cases "recovery_code_factor_for_user sv uid")
  case (Inl e)
  then show ?thesis by (simp add: recovery_uses_def)
next
  case (Inr found)
  show ?thesis
  proof (cases found)
    case None
    with Inr show ?thesis by (simp add: recovery_uses_def)
  next
    case (Some f)
    show ?thesis
    proof (cases "recovery_codes_by_factor_id (sv_store sv) (afe_id f)")
      case None
      with Inr Some show ?thesis by (simp add: recovery_uses_def)
    next
      case rs: (Some rs)
      have "use_record h rs = None"
        using assms [OF Inr [unfolded Some] rs] by (cases "use_record h rs") blast+
      with Inr Some rs show ?thesis
        by (simp only: recovery_uses_def sum.case option.case use_record_None_count)
    qed
  qed
qed

text \<open>A recovery code is accepted exactly while the user has an unused record with its hash;
  accepting it uses up one such record and changes how often any other code, of this user or of
  another one, can be used in nothing; a refused code changes nothing at all.\<close>

theorem recovery_codes_are_spent_one_by_one:
  "auth_reachable sha uni sv \<Longrightarrow>
     (case verify_recovery_code sha uni sv u code of
        (Inl e, sv') \<Rightarrow>
          sv' = sv \<and> recovery_uses sv (user_id u) (hash_recovery_code sha uni code) = 0
      | (Inr r, sv') \<Rightarrow>
          r = \<lparr>frt_user_id = user_id u, frt_factor_type = FactorRecoveryCode, frt_verified = True\<rparr>
          \<and> (\<forall>uid h. recovery_uses sv uid h = recovery_uses sv' uid h
               + (if uid = user_id u \<and> h = hash_recovery_code sha uni code then 1 else 0)))"
proof -
  assume "auth_reachable sha uni sv"
  then have ok: "service_ok sv"
    by (rule auth_reachable_ok)
  show ?thesis
  proof (cases "\<exists>f rs rs'. recovery_code_factor_for_user sv (user_id u) = Inr (Some f)
      \<and> recovery_codes_by_factor_id (sv_store sv) (afe_id f) = Some rs
      \<and> use_record (hash_recovery_code sha uni code) rs = Some rs'")
    case True
    then obtain f rs rs' where w: "recovery_code_factor_for_user sv (user_id u) = Inr (Some f)"
      "recovery_codes_by_factor_id (sv_store sv) (afe_id f) = Some rs"
      "use_record (hash_recovery_code sha uni code) rs = Some rs'" by blast
    show ?thesis
      using recovery_uses_spent [OF ok w] w(3) verify_recovery_code_eq [OF w(1,2), of sha uni code]
      by simp
  next
    case False
    have "\<exists>e. fst (verify_recovery_code sha uni sv u code) = Inl e"
    proof (cases "fst (verify_recovery_code sha uni sv u code)")
      case (Inr r)
      then show ?thesis
        by (rule verify_recovery_code_success) (use False in blast)
    qed simp
    then obtain e where e: "fst (verify_recovery_code sha uni sv u code) = Inl e" ..
    have eq: "verify_recovery_code sha uni sv u code = (Inl e, sv)"
      using e verify_recovery_code_refused [OF e] by (metis prod.collapse)
    have "recovery_uses sv (user_id u) (hash_recovery_code sha uni code) = 0"
      by (rule recovery_uses_zero) (use False in blast)
    then show ?thesis
      unfolding eq by simp
  qed
qed


definition toy_coded :: auth_service where
  "toy_coded = snd (service_generate_recovery_codes toy_sha (\<lambda>c. c) toy_service 1 [[7], [8]])"

lemma toy_coded_reachable: "auth_reachable toy_sha (\<lambda>c. c) toy_coded"
  unfolding toy_coded_def
  by (rule auth_next [OF toy_reachable as_generate]) (simp add: toy_service_eq)

lemma toy_coded_eq:
  "recovery_code_factor_for_user toy_coded 1 = Inr (Some
     \<lparr>afe_id = 1, afe_user_id = 1, afe_factor_type = FactorRecoveryCode,
      afe_label = ''Recovery codes'', afe_enabled = True\<rparr>)"
  "recovery_codes_by_factor_id (sv_store toy_coded) 1 =
     Some (recovery_code_records toy_sha (\<lambda>c. c) (generate_recovery_codes [[7], [8]]))"
  by (simp_all add: toy_coded_def service_generate_recovery_codes_def enroll_factor_def
      toy_strings toy_service_eq auth_store_default_def store_codes_and_build_def
      store_recovery_code_records_def recovery_code_factor_for_user_def find_factor_def
      factors_of_def entry_push_def entry_list_def Let_def)

lemma toy_code_hash:
  "hash_recovery_code toy_sha (\<lambda>c. c) (generate_recovery_code [7])
     \<in> src_hash ` set (recovery_code_records toy_sha (\<lambda>c. c) (generate_recovery_codes [[7], [8]]))"
  by (simp add: recovery_code_records_def generate_recovery_codes_def)

theorem recovery_codes_are_spent_one_by_one_witness:
  "\<exists>r sv'. verify_recovery_code toy_sha (\<lambda>c. c) toy_coded toy_user (generate_recovery_code [7]) = (Inr r, sv')
     \<and> recovery_uses toy_coded 1 (hash_recovery_code toy_sha (\<lambda>c. c) (generate_recovery_code [7]))
       = Suc (recovery_uses sv' 1 (hash_recovery_code toy_sha (\<lambda>c. c) (generate_recovery_code [7])))"
proof -
  let ?h = "hash_recovery_code toy_sha (\<lambda>c. c) (generate_recovery_code [7])"
  have uid: "user_id toy_user = 1"
    by (simp add: toy_user_def)
  have "recovery_uses toy_coded 1 ?h \<noteq> 0"
    by (simp add: recovery_uses_def toy_coded_eq recovery_code_records_def generate_recovery_codes_def)
  then show ?thesis
    using recovery_codes_are_spent_one_by_one [OF toy_coded_reachable, of toy_user "generate_recovery_code [7]"]
    by (cases "verify_recovery_code toy_sha (\<lambda>c. c) toy_coded toy_user (generate_recovery_code [7])";
        cases "fst (verify_recovery_code toy_sha (\<lambda>c. c) toy_coded toy_user (generate_recovery_code [7]))")
      (simp_all add: uid)
qed

text \<open>After a regeneration of the recovery codes exactly the codes of the new batch are accepted
  (up to the hash); every code handed out before is refused.\<close>

theorem regenerated_batch_replaces_the_old_codes:
  "auth_reachable sha uni sv \<Longrightarrow> next_factor_id sv \<noteq> - 1 \<Longrightarrow>
     regenerate_recovery_codes sha uni sv (user_id u) randoms = (Inr batch, sv') \<Longrightarrow>
     (\<exists>r. fst (verify_recovery_code sha uni sv' u code) = Inr r)
       \<longleftrightarrow> hash_recovery_code sha uni code \<in> hash_recovery_code sha uni ` set (rcb_codes batch)"
proof -
  assume reach: "auth_reachable sha uni sv" and n: "next_factor_id sv \<noteq> - 1"
    and reg: "regenerate_recovery_codes sha uni sv (user_id u) randoms = (Inr batch, sv')"
  show ?thesis
    using regenerate_batch [of sha uni sv u randoms batch code] reg auth_reachable_ok [OF reach] n
    by simp
qed

theorem regenerated_batch_replaces_the_old_codes_witness:
  "\<exists>batch sv'. regenerate_recovery_codes toy_sha (\<lambda>c. c) toy_coded 1 [[9]] = (Inr batch, sv')
     \<and> (\<exists>r. fst (verify_recovery_code toy_sha (\<lambda>c. c) sv' toy_user (generate_recovery_code [9])) = Inr r)"
proof -
  have uid: "user_id toy_user = 1"
    by (simp add: toy_user_def)
  have n: "next_factor_id toy_coded \<noteq> - 1"
    by (simp add: toy_coded_def service_generate_recovery_codes_def enroll_factor_def
      toy_strings toy_service_eq auth_store_default_def store_codes_and_build_def
      store_recovery_code_records_def Let_def)
  have "\<not> sv_poisoned toy_coded"
    using toy_coded_eq(1) by (auto simp: recovery_code_factor_for_user_def find_factor_def split: if_splits)
  then obtain batch sv' where reg: "regenerate_recovery_codes toy_sha (\<lambda>c. c) toy_coded 1 [[9]] = (Inr batch, sv')"
    and codes: "rcb_codes batch = generate_recovery_codes [[9]]"
    by (simp add: regenerate_recovery_codes_def toy_coded_eq store_codes_result Let_def)
  have "\<exists>r. fst (verify_recovery_code toy_sha (\<lambda>c. c) sv' toy_user (generate_recovery_code [9])) = Inr r"
    using regenerated_batch_replaces_the_old_codes
      [OF toy_coded_reachable n, of toy_user "[[9]]" batch sv' "generate_recovery_code [9]"] reg codes
    by (simp add: uid generate_recovery_codes_def)
  with reg show ?thesis by blast
qed

text \<open>A second batch made by \<open>generate_recovery_codes\<close> (not \<open>regenerate\<close>) is attached to a new
  factor that the verification never looks at: the call returns codes, and what is accepted
  stays exactly what it was.\<close>

theorem generating_again_returns_unusable_codes:
  "auth_reachable sha uni sv \<Longrightarrow> next_factor_id sv \<noteq> - 1 \<Longrightarrow>
     recovery_code_factor_for_user sv (user_id u) = Inr (Some f) \<Longrightarrow>
     service_generate_recovery_codes sha uni sv (user_id u) randoms = (Inr batch, sv') \<Longrightarrow>
     rcb_codes batch = generate_recovery_codes randoms
     \<and> ((\<exists>r. fst (verify_recovery_code sha uni sv' u code) = Inr r)
         \<longleftrightarrow> (\<exists>r. fst (verify_recovery_code sha uni sv u code) = Inr r))"
proof -
  assume reach: "auth_reachable sha uni sv" and n: "next_factor_id sv \<noteq> - 1"
    and some: "recovery_code_factor_for_user sv (user_id u) = Inr (Some f)"
    and gen: "service_generate_recovery_codes sha uni sv (user_id u) randoms = (Inr batch, sv')"
  have gen': "fst (service_generate_recovery_codes sha uni sv (user_id u) randoms) = Inr batch"
    by (simp add: gen)
  have "rcb_codes batch = generate_recovery_codes randoms"
    by (rule generate_codes_success [OF gen'])
  moreover have "(\<exists>r. fst (verify_recovery_code sha uni sv' u code) = Inr r)
         \<longleftrightarrow> (\<exists>r. fst (verify_recovery_code sha uni sv u code) = Inr r)"
    using generate_second_batch [OF gen' auth_reachable_ok [OF reach] n some] by (simp add: gen)
  ultimately show ?thesis ..
qed

theorem generating_again_returns_unusable_codes_witness:
  "\<exists>batch sv'. service_generate_recovery_codes toy_sha (\<lambda>c. c) toy_coded 1 [[9]] = (Inr batch, sv')
     \<and> rcb_codes batch = [generate_recovery_code [9]]"
proof -
  have uid: "user_id toy_user = 1"
    by (simp add: toy_user_def)
  have n: "next_factor_id toy_coded \<noteq> - 1" and f: "recovery_code_factor_for_user toy_coded (user_id toy_user)
      = Inr (Some \<lparr>afe_id = 1, afe_user_id = 1, afe_factor_type = FactorRecoveryCode,
      afe_label = ''Recovery codes'', afe_enabled = True\<rparr>)"
    by (simp_all add: toy_coded_eq uid) (simp add: toy_coded_def service_generate_recovery_codes_def enroll_factor_def
      toy_strings toy_service_eq auth_store_default_def store_codes_and_build_def
      store_recovery_code_records_def Let_def)
  obtain batch sv' where gen: "service_generate_recovery_codes toy_sha (\<lambda>c. c) toy_coded 1 [[9]] = (Inr batch, sv')"
    by (simp add: toy_coded_def service_generate_recovery_codes_def enroll_factor_def
      toy_strings toy_service_eq auth_store_default_def store_codes_and_build_def
      store_recovery_code_records_def Let_def)
  show ?thesis
    using generating_again_returns_unusable_codes [OF toy_coded_reachable n f, of "[[9]]" batch sv' "[]"] gen
    by (simp add: uid generate_recovery_codes_def)
qed

section \<open>Passkey registration\<close>

lemma enroll_default_label:
  "users_by_id (sv_store sv) uid \<noteq> None \<Longrightarrow> \<not> sv_poisoned sv \<Longrightarrow>
     \<exists>f. fst (enroll_factor sv uid ft ''Passkeys'') = Inr f"
  by (auto simp: enroll_factor_def toy_strings Let_def)

lemma enroll_keeps_passkeys:
  "passkey_registration_challenges_by_id (sv_store (snd (enroll_factor sv uid ft l)))
     = passkey_registration_challenges_by_id (sv_store sv)"
  "passkey_credential_ids_by_user_id (sv_store (snd (enroll_factor sv uid ft l)))
     = passkey_credential_ids_by_user_id (sv_store sv)"
  "passkey_credentials_by_id (sv_store (snd (enroll_factor sv uid ft l)))
     = passkey_credentials_by_id (sv_store sv)"
  "next_passkey_credential_id (snd (enroll_factor sv uid ft l)) = next_passkey_credential_id sv"
  "sv_poisoned (snd (enroll_factor sv uid ft l)) = sv_poisoned sv"
  by (cases rule: enroll_factor_cases [of sv uid ft l]; simp)+

lemma ensure_passkey_cases:
  obtains e where "ensure_passkey_factor sv uid = (Inl e, snd (ensure_passkey_factor sv uid))"
  | f where "ensure_passkey_factor sv uid = (Inr f, sv)"
      "passkey_factor_for_user sv uid = Inr (Some f)"
  | f where "ensure_passkey_factor sv uid = (Inr f, snd (enroll_factor sv uid FactorWebAuthn ''Passkeys''))"
      "fst (enroll_factor sv uid FactorWebAuthn ''Passkeys'') = Inr f"
      "passkey_factor_for_user sv uid = Inr None"
proof (cases "passkey_factor_for_user sv uid")
  case (Inl e)
  with that(1) show ?thesis by (simp add: ensure_passkey_factor_def)
next
  case (Inr found)
  show ?thesis
  proof (cases found)
    case None
    then have eq: "ensure_passkey_factor sv uid = enroll_factor sv uid FactorWebAuthn ''Passkeys''"
      using Inr by (simp add: ensure_passkey_factor_def)
    show ?thesis
    proof (cases "fst (enroll_factor sv uid FactorWebAuthn ''Passkeys'')")
      case (Inl e)
      show ?thesis
        by (rule that(1) [of e]) (metis eq Inl prod.collapse)
    next
      case (Inr f)
      show ?thesis
        by (rule that(3) [of f]) (use eq Inr \<open>passkey_factor_for_user sv uid = Inr found\<close> None in \<open>simp_all add: prod_eq_iff\<close>)
    qed
  next
    case (Some f)
    with Inr that(2) show ?thesis by (simp add: ensure_passkey_factor_def)
  qed
qed

lemma ensure_passkey_keeps:
  "passkey_registration_challenges_by_id (sv_store (snd (ensure_passkey_factor sv uid)))
     = passkey_registration_challenges_by_id (sv_store sv)"
  "passkey_credential_ids_by_user_id (sv_store (snd (ensure_passkey_factor sv uid)))
     = passkey_credential_ids_by_user_id (sv_store sv)"
  "passkey_credentials_by_id (sv_store (snd (ensure_passkey_factor sv uid)))
     = passkey_credentials_by_id (sv_store sv)"
  "next_passkey_credential_id (snd (ensure_passkey_factor sv uid)) = next_passkey_credential_id sv"
  "sv_poisoned (snd (ensure_passkey_factor sv uid)) = sv_poisoned sv"
  unfolding ensure_passkey_factor_def
  by (cases "passkey_factor_for_user sv uid"; cases "projr (passkey_factor_for_user sv uid)";
      simp add: enroll_keeps_passkeys)+


lemma register_passkey_eq:
  assumes "\<not> is_blank label" "\<not> is_blank cid" "\<not> is_blank key"
    and ens: "ensure_passkey_factor sv uid = (Inr factor, sv1)" and np: "\<not> sv_poisoned sv1"
  shows "passkey_registration_challenges_by_id (sv_store sv1) ch = None \<Longrightarrow>
      register_passkey_credential sv uid ch cid key label = (Inl PasskeyChallengeNotFound, sv1)"
    and "passkey_registration_challenges_by_id (sv_store sv1) ch = Some challenge \<Longrightarrow>
      prc_user_id challenge \<noteq> uid \<Longrightarrow>
      register_passkey_credential sv uid ch cid key label =
        (Inl PasskeyChallengeNotFound, sv1\<lparr>sv_store := (sv_store sv1)\<lparr>
           passkey_registration_challenges_by_id :=
             (passkey_registration_challenges_by_id (sv_store sv1))(ch := None)\<rparr>\<rparr>)"
  using assms by (simp_all add: register_passkey_credential_def ens np Let_def)

lemma register_passkey_success:
  assumes "register_passkey_credential sv uid ch cid key label = (Inr c, sv')"
  shows "(\<exists>challenge. passkey_registration_challenges_by_id (sv_store sv) ch = Some challenge
        \<and> prc_user_id challenge = uid)
    \<and> c = passkey_credential_of (next_passkey_credential_id sv) uid cid key label
    \<and> next_passkey_credential_id sv' = next_passkey_credential_id sv + 1
    \<and> passkey_registration_challenges_by_id (sv_store sv')
        = (passkey_registration_challenges_by_id (sv_store sv))(ch := None)
    \<and> passkey_credential_ids_by_user_id (sv_store sv')
        = entry_push uid (pk_id c) (passkey_credential_ids_by_user_id (sv_store sv))
    \<and> passkey_credentials_by_id (sv_store sv') = (passkey_credentials_by_id (sv_store sv))(pk_id c \<mapsto> c)
    \<and> \<not> sv_poisoned sv'"
proof -
  let ?sv1 = "snd (ensure_passkey_factor sv uid)"
  have ok: "\<not> is_blank label \<and> \<not> is_blank cid \<and> \<not> is_blank key"
    using assms by (auto simp: register_passkey_credential_def split: if_splits)
  obtain f where f: "ensure_passkey_factor sv uid = (Inr f, ?sv1)"
    using assms ok
    by (cases "ensure_passkey_factor sv uid"; cases "fst (ensure_passkey_factor sv uid)")
      (simp_all add: register_passkey_credential_def)
  have np: "\<not> sv_poisoned ?sv1"
    using assms ok by (subst (asm) register_passkey_credential_def, subst (asm) f) (auto split: if_splits)
  obtain challenge where c: "passkey_registration_challenges_by_id (sv_store ?sv1) ch = Some challenge"
    using register_passkey_eq(1) [OF _ _ _ f np, of label cid key ch] ok assms
    by (cases "passkey_registration_challenges_by_id (sv_store ?sv1) ch") auto
  have u: "prc_user_id challenge = uid"
    using register_passkey_eq(2) [OF _ _ _ f np c, of label cid key] ok assms by auto
  have "\<exists>ch. passkey_registration_challenges_by_id (sv_store sv) ch = Some challenge"
    using c by (auto simp: ensure_passkey_keeps)
  from assms show ?thesis
    using ok np c u ensure_passkey_keeps [of sv uid]
    by (subst (asm) register_passkey_credential_def, subst (asm) f)
      (simp add: Let_def, elim conjE, hypsubst, simp)
qed

text \<open>A passkey is registered only against a registration challenge that was issued to the same
  user; the challenge is consumed, so no later registration by anyone succeeds with it; the new
  credential is listed last among the user's usable passkeys and offered for authentication.\<close>

theorem passkey_registration_consumes_its_challenge:
  "register_passkey_credential sv uid ch cid key label = (Inr c, sv') \<Longrightarrow>
     (\<exists>challenge. passkey_registration_challenges_by_id (sv_store sv) ch = Some challenge
        \<and> prc_user_id challenge = uid)
     \<and> pk_user_id c = uid \<and> pk_credential_id c = cid \<and> pk_public_key c = key
     \<and> (\<exists>cs. passkeys_for_user sv' uid = Inr (cs @ [c]))
     \<and> (\<forall>uid' cid' key' label' c'.
          fst (register_passkey_credential sv' uid' ch cid' key' label') \<noteq> Inr c')"
proof -
  assume reg: "register_passkey_credential sv uid ch cid key label = (Inr c, sv')"
  note s = register_passkey_success [OF reg]
  have "fst (register_passkey_credential sv' uid' ch cid' key' label') \<noteq> Inr c'"
    for uid' cid' key' label' c'
  proof
    assume "fst (register_passkey_credential sv' uid' ch cid' key' label') = Inr c'"
    then have "register_passkey_credential sv' uid' ch cid' key' label'
        = (Inr c', snd (register_passkey_credential sv' uid' ch cid' key' label'))"
      by (metis prod.collapse)
    from register_passkey_success [OF this, THEN conjunct1] s show False
      by auto
  qed
  moreover have "\<exists>cs. passkeys_for_user sv' uid = Inr (cs @ [c])"
    using s by (auto simp: passkeys_for_user_def passkey_credential_of_def)
  ultimately show ?thesis
    using s by (auto simp: passkey_credential_of_def)
qed

definition toy_passkey :: auth_service where
  "toy_passkey = snd (begin_passkey_registration toy_service toy_user ''a'' ''a'' [1])"

definition toy_challenge_id :: string where
  "toy_challenge_id = prc_challenge_id (registration_challenge 1 ''a'' ''a'' product_name ''a'' [1])"

lemma toy_passkey_eq:
  "toy_passkey = toy_service\<lparr>sv_store := (sv_store toy_service)
     \<lparr>passkey_registration_challenges_by_id :=
        [toy_challenge_id \<mapsto> registration_challenge 1 ''a'' ''a'' product_name ''a'' [1]]\<rparr>\<rparr>"
  by (simp add: toy_passkey_def begin_passkey_registration_def validate_passkey_relying_party_def
      toy_strings toy_service_eq toy_user_def toy_challenge_id_def auth_store_default_def Let_def)

theorem passkey_registration_consumes_its_challenge_witness:
  "\<exists>c sv'. register_passkey_credential toy_passkey 1 toy_challenge_id ''a'' ''a'' ''a'' = (Inr c, sv')
     \<and> pk_user_id c = 1 \<and> (\<exists>cs. passkeys_for_user sv' 1 = Inr (cs @ [c]))"
proof -
  obtain c sv' where reg: "register_passkey_credential toy_passkey 1 toy_challenge_id ''a'' ''a'' ''a'' = (Inr c, sv')"
    by (simp add: register_passkey_credential_def toy_strings toy_passkey_eq toy_service_eq
        ensure_passkey_factor_def passkey_factor_for_user_def find_factor_def factors_of_def
        entry_list_def auth_store_default_def enroll_factor_def registration_challenge_def Let_def)
  show ?thesis
    using passkey_registration_consumes_its_challenge [OF reg] reg by blast
qed

text \<open>A registration with an unknown challenge is refused, but it has by then enrolled a
  WebAuthn factor for a user who had none: the refused call changes what factors the user has.\<close>

theorem refused_passkey_registration_enrolls_factor:
  "auth_reachable sha uni sv \<Longrightarrow> \<not> sv_poisoned sv \<Longrightarrow> users_by_id (sv_store sv) uid \<noteq> None \<Longrightarrow>
     passkey_factor_for_user sv uid = Inr None \<Longrightarrow>
     passkey_registration_challenges_by_id (sv_store sv) ch = None \<Longrightarrow>
     \<not> is_blank label \<Longrightarrow> \<not> is_blank cid \<Longrightarrow> \<not> is_blank key \<Longrightarrow>
     fst (register_passkey_credential sv uid ch cid key label) = Inl PasskeyChallengeNotFound
     \<and> ensure_factor_enrolled sv uid FactorWebAuthn = Inl FactorNotEnrolled
     \<and> ensure_factor_enrolled (snd (register_passkey_credential sv uid ch cid key label)) uid
          FactorWebAuthn = Inr ()"
proof -
  assume a: "auth_reachable sha uni sv" "\<not> sv_poisoned sv" "users_by_id (sv_store sv) uid \<noteq> None"
    "passkey_factor_for_user sv uid = Inr None"
    "passkey_registration_challenges_by_id (sv_store sv) ch = None"
    "\<not> is_blank label" "\<not> is_blank cid" "\<not> is_blank key"
  let ?sv1 = "snd (enroll_factor sv uid FactorWebAuthn ''Passkeys'')"
  obtain f where f: "fst (enroll_factor sv uid FactorWebAuthn ''Passkeys'') = Inr f"
    using enroll_default_label [OF a(3) a(2)] ..
  then have ens: "ensure_passkey_factor sv uid = (Inr f, ?sv1)"
    using a(4) by (simp add: ensure_passkey_factor_def prod_eq_iff)
  have reg: "register_passkey_credential sv uid ch cid key label = (Inl PasskeyChallengeNotFound, ?sv1)"
    by (rule register_passkey_eq(1) [OF a(6-8) ens]) (simp_all add: enroll_keeps_passkeys a)
  have "find (\<lambda>f. afe_enabled f \<and> afe_factor_type f = FactorWebAuthn) (factors_of (sv_store sv) uid) = None"
    using a(2,4) by (simp add: passkey_factor_for_user_def find_factor_def)
  then have "ensure_factor_enrolled sv uid FactorWebAuthn = Inl FactorNotEnrolled"
    using a(2) by (auto simp: ensure_factor_enrolled_def find_None_iff list_ex_iff)
  moreover have "ensure_factor_enrolled ?sv1 uid FactorWebAuthn = Inr ()"
    using f a(2)
    by (cases rule: enroll_factor_cases [of sv uid FactorWebAuthn "''Passkeys''"])
      (auto simp: ensure_factor_enrolled_def factors_of_def list_ex_iff)
  ultimately show ?thesis
    by (simp add: reg)
qed

theorem refused_passkey_registration_enrolls_factor_witness:
  "ensure_factor_enrolled toy_service 1 FactorWebAuthn = Inl FactorNotEnrolled
   \<and> ensure_factor_enrolled
       (snd (register_passkey_credential toy_service 1 ''x'' ''a'' ''a'' ''a'')) 1 FactorWebAuthn = Inr ()"
  using refused_passkey_registration_enrolls_factor
    [OF toy_reachable [of "\<lambda>c. c"], of 1 "''x''" "''a''" "''a''" "''a''"]
  by (simp add: toy_strings toy_service_eq passkey_factor_for_user_def find_factor_def factors_of_def
        entry_list_def auth_store_default_def)

section \<open>Permissions\<close>

text \<open>Outside administrators, a permission on a node comes from one place only: a membership in
  the workspace that the node was last mapped to, with a role that has been granted it; and a
  grant adds precisely that permission for the members with that role.\<close>

theorem node_permissions_come_from_grants:
  "(user_has_node_permission sv u nid perm = Inr True \<longleftrightarrow>
     user_role u = Admin
     \<or> \<not> sv_poisoned sv
       \<and> (\<exists>n m rp. workspace_nodes_by_node_id (sv_store sv) nid = Some n
            \<and> m \<in> set (entry_list (workspace_members_by_workspace_id (sv_store sv)) (wn_workspace_id n))
            \<and> wm_user_id m = user_id u
            \<and> rp \<in> set (entry_list (role_permissions_by_role_id (sv_store sv)) (wm_role_id m))
            \<and> rper_permission rp = perm))
   \<and> (grant_role_permission sv rid p = (Inr rp, sv') \<longrightarrow>
        (user_has_node_permission sv' u nid perm = Inr True \<longleftrightarrow>
           user_has_node_permission sv u nid perm = Inr True
           \<or> p = perm
             \<and> (\<exists>n m. workspace_nodes_by_node_id (sv_store sv) nid = Some n
                  \<and> m \<in> set (entry_list (workspace_members_by_workspace_id (sv_store sv)) (wn_workspace_id n))
                  \<and> wm_user_id m = user_id u \<and> wm_role_id m = rid)))"
proof -
  have iff: "user_has_node_permission s u nid perm = Inr True \<longleftrightarrow>
     user_role u = Admin
     \<or> \<not> sv_poisoned s
       \<and> (\<exists>n m rp. workspace_nodes_by_node_id (sv_store s) nid = Some n
            \<and> m \<in> set (entry_list (workspace_members_by_workspace_id (sv_store s)) (wn_workspace_id n))
            \<and> wm_user_id m = user_id u
            \<and> rp \<in> set (entry_list (role_permissions_by_role_id (sv_store s)) (wm_role_id m))
            \<and> rper_permission rp = perm)" for s
    by (cases "user_role u = Admin"; cases "sv_poisoned s";
        cases "workspace_nodes_by_node_id (sv_store s) nid")
      (auto simp: user_has_node_permission_def user_has_workspace_permission_def list_ex_iff Let_def)
  have "user_has_node_permission sv' u nid perm = Inr True \<longleftrightarrow>
           user_has_node_permission sv u nid perm = Inr True
           \<or> p = perm
             \<and> (\<exists>n m. workspace_nodes_by_node_id (sv_store sv) nid = Some n
                  \<and> m \<in> set (entry_list (workspace_members_by_workspace_id (sv_store sv)) (wn_workspace_id n))
                  \<and> wm_user_id m = user_id u \<and> wm_role_id m = rid)"
    if grant: "grant_role_permission sv rid p = (Inr rp, sv')"
  proof -
    have np: "\<not> sv_poisoned sv" and rp: "rp = \<lparr>rper_role_id = rid, rper_permission = p\<rparr>"
      and sv': "sv' = sv\<lparr>sv_store := (sv_store sv)\<lparr>role_permissions_by_role_id :=
                   entry_push rid rp (role_permissions_by_role_id (sv_store sv))\<rparr>\<rparr>"
      using grant by (auto simp: grant_role_permission_def Let_def split: if_splits)
    show ?thesis
    proof (cases "workspace_nodes_by_node_id (sv_store sv) nid")
      case None
      then show ?thesis
        unfolding iff by (simp add: sv' np)
    next
      case (Some n)
      have perms: "(\<exists>x. x \<in> set (entry_list (entry_push rid rp m) k) \<and> rper_permission x = perm)
          \<longleftrightarrow> (\<exists>x. x \<in> set (entry_list m k) \<and> rper_permission x = perm) \<or> k = rid \<and> p = perm" for m k
        by (auto simp: rp)
      show ?thesis
        unfolding iff using np perms [of "role_permissions_by_role_id (sv_store sv)"] Some
        by (simp add: sv' del: entry_list_push) blast
    qed
  qed
  with iff show ?thesis by blast
qed

definition toy_rbac :: auth_service where
  "toy_rbac =
     (let sv1 = snd (create_workspace (snd (create_role toy_service ''a'')) ''a'');
          sv2 = snd (add_workspace_member sv1 1 1 1)
      in snd (map_node_to_workspace sv2 1 ''a''))"

lemma toy_rbac_fields:
  "sv_poisoned toy_rbac = False" "roles_by_id (sv_store toy_rbac) 1 \<noteq> None"
  "workspace_nodes_by_node_id (sv_store toy_rbac) ''a'' = Some \<lparr>wn_workspace_id = 1, wn_node_id = ''a''\<rparr>"
  "entry_list (workspace_members_by_workspace_id (sv_store toy_rbac)) 1 =
     [\<lparr>wm_workspace_id = 1, wm_user_id = 1, wm_role_id = 1\<rparr>]"
  by (simp_all add: toy_rbac_def create_role_def create_workspace_def add_workspace_member_def
      map_node_to_workspace_def toy_strings toy_service_eq auth_store_default_def entry_push_def
      entry_list_def Let_def)

theorem node_permissions_come_from_grants_witness:
  "user_has_node_permission (snd (grant_role_permission toy_rbac 1 TERMINAL_OPEN))
     (toy_user\<lparr>user_role := Viewer\<rparr>) ''a'' TERMINAL_OPEN = Inr True"
proof -
  have grant: "grant_role_permission toy_rbac 1 TERMINAL_OPEN =
      (Inr \<lparr>rper_role_id = 1, rper_permission = TERMINAL_OPEN\<rparr>,
       snd (grant_role_permission toy_rbac 1 TERMINAL_OPEN))"
    using toy_rbac_fields by (simp add: grant_role_permission_def Let_def)
  show ?thesis
    using node_permissions_come_from_grants [of toy_rbac "toy_user\<lparr>user_role := Viewer\<rparr>" "''a''"
        TERMINAL_OPEN 1 TERMINAL_OPEN, THEN conjunct2, rule_format, OF grant]
    by (simp add: toy_rbac_fields toy_user_def)
qed


section \<open>TOTP enrollment\<close>

lemma find_map_append:
  "find_map f (xs @ ys) = (case find_map f xs of None \<Rightarrow> find_map f ys | Some y \<Rightarrow> Some y)"
  by (induction xs) (auto split: option.splits)

lemma find_map_cong: "(\<And>x. x \<in> set xs \<Longrightarrow> f x = g x) \<Longrightarrow> find_map f xs = find_map g xs"
  by (induction xs) (auto split: option.splits)

lemma enroll_totp_success:
  assumes "enroll_totp_factor_with_secret sv uid label secret = (Inr e, sv')"
  obtains f where "\<not> sv_poisoned sv" "afe_id f = next_factor_id sv" "afe_enabled f"
    "afe_factor_type f = FactorTotp"
    "sv' = sv\<lparr>next_factor_id := next_factor_id sv + 1,
           sv_store := (sv_store sv)\<lparr>
             factor_ids_by_user_id :=
               entry_push uid (afe_id f) (factor_ids_by_user_id (sv_store sv)),
             auth_factors_by_id := (auth_factors_by_id (sv_store sv))(afe_id f \<mapsto> f),
             totp_secrets_by_factor_id :=
               (totp_secrets_by_factor_id (sv_store sv))(afe_id f \<mapsto> secret)\<rparr>\<rparr>"
proof (cases rule: enroll_factor_cases [of sv uid FactorTotp label])
  case (1 e)
  with assms show ?thesis by (simp add: enroll_totp_factor_with_secret_def)
next
  case (2 f)
  obtain su where "users_by_id (sv_store sv) uid = Some su"
    using 2(1) by blast
  with 2 assms show ?thesis
    by (intro that [of f])
      (auto simp: enroll_totp_factor_with_secret_def Let_def)
qed

lemma totp_factor_after_enrollment:
  assumes "enroll_totp_factor_with_secret sv uid label secret = (Inr e, sv')" "service_ok sv"
  shows "totp_factor_for_user sv' uid =
    (case totp_factor_for_user sv uid of
       Inr f \<Rightarrow> Inr f | Inl _ \<Rightarrow> Inr (totp_factor_new secret totp_config_default))"
proof -
  obtain f where f: "\<not> sv_poisoned sv" "afe_id f = next_factor_id sv" "afe_enabled f"
    "afe_factor_type f = FactorTotp"
    and sv': "sv' = sv\<lparr>next_factor_id := next_factor_id sv + 1,
           sv_store := (sv_store sv)\<lparr>
             factor_ids_by_user_id :=
               entry_push uid (afe_id f) (factor_ids_by_user_id (sv_store sv)),
             auth_factors_by_id := (auth_factors_by_id (sv_store sv))(afe_id f \<mapsto> f),
             totp_secrets_by_factor_id :=
               (totp_secrets_by_factor_id (sv_store sv))(afe_id f \<mapsto> secret)\<rparr>\<rparr>"
    by (rule enroll_totp_success [OF assms(1)])
  let ?look = "\<lambda>st fid. case auth_factors_by_id st fid of
                        None \<Rightarrow> None
                      | Some g \<Rightarrow>
                          if afe_enabled g \<and> afe_factor_type g = FactorTotp
                          then totp_secrets_by_factor_id st (afe_id g) else None"
  let ?fs = "entry_list (factor_ids_by_user_id (sv_store sv)) uid"
  have old: "?look (sv_store sv') fid = ?look (sv_store sv) fid" if "fid \<in> set ?fs" for fid
  proof -
    obtain g where g: "auth_factors_by_id (sv_store sv) fid = Some g"
      using assms(2) \<open>fid \<in> set ?fs\<close> unfolding service_ok_def factors_ok_def by blast
    then have "afe_id g = fid \<and> fid < next_factor_id sv"
      using assms(2) unfolding service_ok_def factors_ok_def by blast
    then have "fid \<noteq> afe_id f" "afe_id g \<noteq> afe_id f"
      using f(2) by auto
    with g show ?thesis
      by (simp add: sv')
  qed
  have "find_map (?look (sv_store sv')) ?fs = find_map (?look (sv_store sv)) ?fs"
    by (rule find_map_cong) (rule old)
  moreover have "find_map (?look (sv_store sv')) [afe_id f] = Some secret"
    using f by (simp add: sv')
  moreover have "entry_list (factor_ids_by_user_id (sv_store sv')) uid = ?fs @ [afe_id f]"
    by (simp add: sv')
  ultimately have find: "find_map (?look (sv_store sv'))
      (entry_list (factor_ids_by_user_id (sv_store sv')) uid)
      = (case find_map (?look (sv_store sv)) ?fs of None \<Rightarrow> Some secret | Some s \<Rightarrow> Some s)"
    by (simp only: find_map_append)
  have np': "\<not> sv_poisoned sv'"
    using f(1) by (simp add: sv')
  show ?thesis
    unfolding totp_factor_for_user_def Let_def find
    by (cases "find_map (?look (sv_store sv)) ?fs") (simp_all add: f(1) np')
qed

text \<open>After a TOTP enrollment of a user who had no TOTP secret, exactly the codes of the new
  secret verify, at the time of the check and for any purpose. If the user already had one, the
  enrollment changes nothing: the old secret is still the one that counts, and the new one is
  never consulted.\<close>

theorem totp_enrollment_decides_the_codes:
  "auth_reachable sha uni sv \<Longrightarrow>
     enroll_totp_factor_with_secret sv (user_id u) label secret = (Inr e, sv') \<Longrightarrow>
     (\<exists>r. verify_totp_code sha sv' u purpose code now = Inr r)
       \<longleftrightarrow> verify_code_at sha
             (case totp_factor_for_user sv (user_id u) of
                Inr f \<Rightarrow> f
              | Inl _ \<Rightarrow> totp_factor_new secret totp_config_default) (trim code) now"
proof -
  assume reach: "auth_reachable sha uni sv"
    and enroll: "enroll_totp_factor_with_secret sv (user_id u) label secret = (Inr e, sv')"
  show ?thesis
    unfolding verify_totp_code_iff totp_factor_after_enrollment [OF enroll auth_reachable_ok [OF reach]]
    by (cases "totp_factor_for_user sv (user_id u)") simp_all
qed

theorem totp_enrollment_decides_the_codes_witness:
  "\<exists>e sv'. enroll_totp_factor_with_secret toy_service 1 ''a'' [1, 2, 3] = (Inr e, sv')
     \<and> ((\<exists>r. verify_totp_code toy_sha sv' toy_user PurposeLogin ''000000'' 59 = Inr r)
          \<longleftrightarrow> verify_code_at toy_sha (totp_factor_new [1, 2, 3] totp_config_default) (trim ''000000'') 59)"
proof -
  have uid: "user_id toy_user = 1"
    by (simp add: toy_user_def)
  obtain e sv' where en: "enroll_totp_factor_with_secret toy_service 1 ''a'' [1, 2, 3] = (Inr e, sv')"
    by (simp add: enroll_totp_factor_with_secret_def enroll_factor_def toy_strings toy_service_eq
        auth_store_default_def Let_def)
  have none: "totp_factor_for_user toy_service 1 = Inl TotpSecretMissing"
    by (simp add: totp_factor_for_user_def toy_service_eq auth_store_default_def entry_list_def Let_def)
  show ?thesis
    using totp_enrollment_decides_the_codes
      [OF toy_reachable [of "\<lambda>c. c"], of toy_user "''a''" "[1, 2, 3]" e sv' PurposeLogin "''000000''" 59] en
    by (simp add: uid none)
qed

end
