(* ===== verification/Sb_Rate_Limit.thy ===== *)
theory Sb_Rate_Limit
  imports Sb_Prelude
begin

text \<open>
  The sliding-window rate limiter (\<open>sunbolt-control/src/rate_limit.rs\<close>) that guards logins, MFA
  step-ups, terminal opens, enrollment tokens and agent connections. A \<open>VecDeque\<close> is a list with
  its front first; the mutex recovers from poisoning, so there is no failure to model. The clock
  reading is an argument. \<open>rl_run\<close> plays a list of attempts; \<open>ref_run\<close> is the specification, which
  keeps every admitted attempt for ever and counts those that are younger than the window.
\<close>

section \<open>The limiter\<close>

record rate_limiter =
  rl_inner :: "string \<rightharpoonup> instant list"
  rl_window :: duration
  rl_max_attempts :: nat

definition rate_limiter_new :: "duration \<Rightarrow> nat \<Rightarrow> rate_limiter" where
  "rate_limiter_new w n = \<lparr>rl_inner = Map.empty, rl_window = w, rl_max_attempts = n\<rparr>"

text \<open>\<open>Instant::checked_sub\<close>: there is no instant before the earliest one.\<close>

definition checked_sub_instant :: "instant \<Rightarrow> duration \<Rightarrow> instant option" where
  "checked_sub_instant t d = (if d \<le> t then Some (t - d) else None)"

fun pop_expired :: "instant \<Rightarrow> instant list \<Rightarrow> instant list" where
  "pop_expired cutoff [] = []"
| "pop_expired cutoff (t # ts) = (if t \<le> cutoff then pop_expired cutoff ts else t # ts)"

definition check_and_record :: "rate_limiter \<Rightarrow> string \<Rightarrow> instant \<Rightarrow> bool \<times> rate_limiter" where
  "check_and_record rl key now =
     (let cutoff = (case checked_sub_instant now (rl_window rl) of Some c \<Rightarrow> c | None \<Rightarrow> now);
          bucket = pop_expired cutoff (case rl_inner rl key of Some b \<Rightarrow> b | None \<Rightarrow> [])
      in if rl_max_attempts rl \<le> length bucket
         then (False, rl\<lparr>rl_inner := (rl_inner rl)(key \<mapsto> bucket)\<rparr>)
         else (True, rl\<lparr>rl_inner := (rl_inner rl)(key \<mapsto> bucket @ [now])\<rparr>))"

fun rl_run :: "rate_limiter \<Rightarrow> (string \<times> instant) list \<Rightarrow> bool list" where
  "rl_run rl [] = []"
| "rl_run rl ((key, now) # as) =
     (let (ok, rl') = check_and_record rl key now in ok # rl_run rl' as)"

section \<open>The specification\<close>

definition young :: "duration \<Rightarrow> instant \<Rightarrow> string \<Rightarrow> (string \<times> instant) list \<Rightarrow> (string \<times> instant) list" where
  "young w now key log = filter (\<lambda>(k, t). k = key \<and> now < t + w) log"

fun ref_run :: "duration \<Rightarrow> nat \<Rightarrow> (string \<times> instant) list \<Rightarrow> (string \<times> instant) list \<Rightarrow> bool list" where
  "ref_run w n log [] = []"
| "ref_run w n log ((key, now) # as) =
     (if length (young w now key log) < n
      then True # ref_run w n (log @ [(key, now)]) as
      else False # ref_run w n log as)"

definition admitted :: "bool list \<Rightarrow> (string \<times> instant) list \<Rightarrow> (string \<times> instant) list" where
  "admitted oks as = map snd (filter fst (zip oks as))"

section \<open>The bucket holds the young attempts\<close>

lemma pop_expired_filter: "sorted ts \<Longrightarrow> pop_expired c ts = filter (\<lambda>t. c < t) ts"
proof (induction ts)
  case (Cons t ts)
  then show ?case
    by (cases "t \<le> c") (fastforce simp: filter_id_conv intro!: filter_True [symmetric])+
qed simp

definition keyed_times :: "string \<Rightarrow> (string \<times> instant) list \<Rightarrow> instant list" where
  "keyed_times key log = map snd (filter (\<lambda>(k, t). k = key) log)"

lemma keyed_times_append [simp]:
  "keyed_times key (log @ [(k, t)]) = keyed_times key log @ (if k = key then [t] else [])"
  by (simp add: keyed_times_def)

lemma young_length:
  "w \<le> now \<Longrightarrow> length (young w now key log) = length (filter (\<lambda>t. now - w < t) (keyed_times key log))"
  by (induction log) (auto simp: young_def keyed_times_def)

definition bucket_of :: "rate_limiter \<Rightarrow> string \<Rightarrow> instant list" where
  "bucket_of rl key = (case rl_inner rl key of Some b \<Rightarrow> b | None \<Rightarrow> [])"

text \<open>The limiter represents a log: each bucket is sorted, not younger than \<open>seen\<close>, and agrees with
  the log on every attempt that can still count.\<close>

definition represents :: "rate_limiter \<Rightarrow> (string \<times> instant) list \<Rightarrow> instant \<Rightarrow> bool" where
  "represents rl log seen =
     (\<forall>key. sorted (bucket_of rl key) \<and> (\<forall>t \<in> set (bucket_of rl key). t \<le> seen)
        \<and> (\<forall>c \<ge> seen - rl_window rl.
              filter (\<lambda>t. c < t) (bucket_of rl key) = filter (\<lambda>t. c < t) (keyed_times key log)))"

lemma check_and_record_eq:
  assumes "sorted (bucket_of rl key)" "rl_window rl \<le> now"
  shows "check_and_record rl key now =
    (let b = filter (\<lambda>t. now - rl_window rl < t) (bucket_of rl key)
     in if rl_max_attempts rl \<le> length b
        then (False, rl\<lparr>rl_inner := (rl_inner rl)(key \<mapsto> b)\<rparr>)
        else (True, rl\<lparr>rl_inner := (rl_inner rl)(key \<mapsto> b @ [now])\<rparr>))"
  using assms
  by (simp add: check_and_record_def checked_sub_instant_def pop_expired_filter bucket_of_def Let_def)

lemma represents_step:
  assumes rep: "represents rl log seen" and "seen \<le> now" "rl_window rl \<le> now"
    and b: "b = filter (\<lambda>t. now - rl_window rl < t) (bucket_of rl key)"
  shows "represents (rl\<lparr>rl_inner := (rl_inner rl)(key \<mapsto> b)\<rparr>) log now"
    and "represents (rl\<lparr>rl_inner := (rl_inner rl)(key \<mapsto> b @ [now])\<rparr>) (log @ [(key, now)]) now"
proof -
  have s: "sorted (bucket_of rl k)" "\<And>t. t \<in> set (bucket_of rl k) \<Longrightarrow> t \<le> now" for k
    using rep assms(2) unfolding represents_def by force+
  have f: "filter (\<lambda>t. c < t) (bucket_of rl k) = filter (\<lambda>t. c < t) (keyed_times k log)"
    if "now - rl_window rl \<le> c" for c k
    using rep assms(2) that unfolding represents_def by (meson diff_le_mono order_trans)
  have fb: "filter (\<lambda>t. c < t) b = filter (\<lambda>t. c < t) (keyed_times key log)"
    if "now - rl_window rl \<le> c" for c
    using f [OF that, of key] that
    by (simp add: b) (metis (mono_tags, lifting) filter_cong order_le_less_trans)
  have sb: "sorted b" "\<And>t. t \<in> set b \<Longrightarrow> t \<le> now"
    using s by (auto simp: b sorted_wrt_filter)
  show "represents (rl\<lparr>rl_inner := (rl_inner rl)(key \<mapsto> b)\<rparr>) log now"
    using s f fb sb by (simp add: represents_def bucket_of_def)
  show "represents (rl\<lparr>rl_inner := (rl_inner rl)(key \<mapsto> b @ [now])\<rparr>) (log @ [(key, now)]) now"
    using s f fb sb by (simp add: represents_def bucket_of_def sorted_append)
qed

lemma rl_run_eq_ref_run:
  assumes "represents rl log seen" "sorted (map snd as)" "\<And>t. t \<in> set (map snd as) \<Longrightarrow> seen \<le> t"
    and "\<And>t. t \<in> set (map snd as) \<Longrightarrow> rl_window rl \<le> t"
  shows "rl_run rl as = ref_run (rl_window rl) (rl_max_attempts rl) log as"
  using assms
proof (induction as arbitrary: rl log seen)
  case (Cons a as)
  obtain key now where a: "a = (key, now)" by fastforce
  let ?b = "filter (\<lambda>t. now - rl_window rl < t) (bucket_of rl key)"
  have now: "seen \<le> now" "rl_window rl \<le> now"
    using Cons.prems(3,4) by (simp_all add: a)
  note step = represents_step [OF Cons.prems(1) now refl, of key]
  have sorted: "sorted (bucket_of rl key)"
    using Cons.prems(1) by (simp add: represents_def)
  have len: "length ?b = length (young (rl_window rl) now key log)"
    using Cons.prems(1) now unfolding represents_def young_length [OF now(2)]
    by (metis diff_le_mono)
  have later: "sorted (map snd as)" "\<And>t. t \<in> set (map snd as) \<Longrightarrow> now \<le> t"
      "\<And>t. t \<in> set (map snd as) \<Longrightarrow> rl_window rl \<le> t"
    using Cons.prems(2,4) by (auto simp: a)
  show ?case
    using Cons.IH [OF step(1) later(1,2)] Cons.IH [OF step(2) later(1,2)] later(3) len
    by (simp add: a check_and_record_eq [OF sorted now(2)] Let_def)
qed simp

section \<open>What the specification guarantees\<close>

lemma admitted_Nil [simp]: "admitted [] as = []" "admitted oks [] = []"
  by (simp_all add: admitted_def)

lemma admitted_Cons [simp]:
  "admitted (ok # oks) (a # as) = (if ok then a # admitted oks as else admitted oks as)"
  by (simp add: admitted_def)

lemma length_ref_run [simp]: "length (ref_run w n log as) = length as"
  by (induction w n log as rule: ref_run.induct) auto

text \<open>If no interval held more than \<open>n\<close> attempts of the log, none does after the run.\<close>

lemma ref_run_bound:
  assumes "\<And>key T. length (filter (\<lambda>(k, t). k = key \<and> T < t \<and> t \<le> T + w) log) \<le> n"
    and "sorted (map snd as)"
    and "\<And>t u. t \<in> set (map snd log) \<Longrightarrow> u \<in> set (map snd as) \<Longrightarrow> t \<le> u"
  shows "length (filter (\<lambda>(k, t). k = key \<and> T < t \<and> t \<le> T + w)
      (log @ admitted (ref_run w n log as) as)) \<le> n"
  using assms
proof (induction as arbitrary: log)
  case Nil
  then show ?case by simp
next
  case (Cons a as)
  obtain k now where a: "a = (k, now)" by fastforce
  have older: "t \<le> now" if "t \<in> set (map snd log)" for t
    using Cons.prems(3) [OF that, of now] by (simp add: a)
  show ?case
  proof (cases "length (young w now k log) < n")
    case False
    then show ?thesis
      using Cons.IH [of log] Cons.prems by (simp add: a)
  next
    case True
    have "length (filter (\<lambda>(k, t). k = key \<and> T < t \<and> t \<le> T + w) (log @ [(k, now)])) \<le> n" for key T
    proof (cases "k = key \<and> T < now \<and> now \<le> T + w")
      case True
      have "length (filter (\<lambda>(k, t). k = key \<and> T < t \<and> t \<le> T + w) log) \<le> length (young w now key log)"
        unfolding young_def length_filter_conv_card
        by (rule card_mono) (use True in auto)
      with True \<open>length (young w now k log) < n\<close> show ?thesis
        by simp
    next
      case False
      with Cons.prems(1) [of key T] show ?thesis
        by auto
    qed
    moreover have "t \<le> u" if "t \<in> set (map snd (log @ [(k, now)]))" "u \<in> set (map snd as)" for t u
      using that Cons.prems(2,3) by (auto simp: a)
    ultimately show ?thesis
      using Cons.IH [of "log @ [(k, now)]"] Cons.prems(2) True by (simp add: a)
  qed
qed

section \<open>Properties\<close>

text \<open>C16: With a clock that does not run backwards and has run for at least one window, the limiter
  decides every attempt as the specification does: an attempt is admitted exactly if fewer than the
  limit were admitted for the same key less than a window ago. Forgetting expired attempts loses
  nothing, refused attempts do not count, and the keys do not influence each other.\<close>

theorem rate_limiter_is_sliding_window:
  "sorted (map snd as) \<Longrightarrow> list_all (\<lambda>(k, t). w \<le> t) as \<Longrightarrow>
     rl_run (rate_limiter_new w n) as = ref_run w n [] as"
proof -
  assume "sorted (map snd as)" "list_all (\<lambda>(k, t). w \<le> t) as"
  moreover have "represents (rate_limiter_new w n) [] 0"
    by (simp add: represents_def rate_limiter_new_def bucket_of_def keyed_times_def)
  ultimately show ?thesis
    using rl_run_eq_ref_run [of "rate_limiter_new w n" "[]" 0 as]
    by (force simp: rate_limiter_new_def list_all_iff)
qed

theorem rate_limiter_is_sliding_window_witness:
  "rl_run (rate_limiter_new 10 2)
     [(''a'', 10), (''a'', 12), (''a'', 13), (''b'', 13), (''a'', 20), (''a'', 21), (''a'', 22)]
   = [True, True, False, True, True, False, True]"
  by (subst rate_limiter_is_sliding_window) (simp_all add: young_def)

text \<open>No window of time, wherever it starts, sees more attempts of one key admitted than the
  limit.\<close>

theorem rate_limiter_bounds_every_window:
  "sorted (map snd as) \<Longrightarrow> list_all (\<lambda>(k, t). w \<le> t) as \<Longrightarrow>
     length (filter (\<lambda>(k, t). k = key \<and> T < t \<and> t \<le> T + w)
       (admitted (rl_run (rate_limiter_new w n) as) as)) \<le> n"
proof -
  assume as: "sorted (map snd as)" "list_all (\<lambda>(k, t). w \<le> t) as"
  have "represents (rate_limiter_new w n) [] 0"
    by (simp add: represents_def rate_limiter_new_def bucket_of_def keyed_times_def)
  then have "rl_run (rate_limiter_new w n) as = ref_run w n [] as"
    using rl_run_eq_ref_run [of "rate_limiter_new w n" "[]" 0 as] as
    by (force simp: rate_limiter_new_def list_all_iff)
  then show ?thesis
    using ref_run_bound [of w "[]" n as key T] as(1) by simp
qed

theorem rate_limiter_bounds_every_window_witness:
  "length (filter (\<lambda>(k, t). k = ''a'' \<and> 9 < t \<and> t \<le> 9 + 10)
     (admitted (rl_run (rate_limiter_new 10 2) [(''a'', 10), (''a'', 12), (''a'', 13)])
       [(''a'', 10), (''a'', 12), (''a'', 13)])) \<le> 2"
  by (rule rate_limiter_bounds_every_window) simp_all

end
