(* ===== verification/Sb_Routing.thy ===== *)
theory Sb_Routing
  imports Sb_Prelude
begin

text \<open>
  Route selection (\<open>sunbolt-control/src/routing.rs\<close>): the trait \<open>NodeRouter\<close> as the locale
  \<open>node_router\<close>, with the laws its documentation promises, and \<open>InMemoryNodeRouter\<close>, on which the
  locale is interpreted. The mutex recovers from poisoning, so there is no failure to model.
\<close>

section \<open>Requests, routes and endpoints\<close>

record route_request =
  rq_target_node_id :: string
  rq_direct_agent_connected :: bool
  rq_relay_candidates :: "string list"

datatype node_route =
    DirectAgent string
  | RelayNode string string

datatype route_endpoint =
    DirectEndpoint string
  | RelayEndpoint string

text \<open>\<open>RelayNode target relay\<close>.\<close>

fun endpoint :: "node_route \<Rightarrow> route_endpoint" where
  "endpoint (DirectAgent target) = DirectEndpoint target"
| "endpoint (RelayNode target relay) = RelayEndpoint relay"

fun route_id :: "node_route \<Rightarrow> string" where
  "route_id (DirectAgent target) = ''direct-agent:'' @ target"
| "route_id (RelayNode target relay) = ''relay:'' @ relay @ '':'' @ target"

fun route_target :: "node_route \<Rightarrow> string" where
  "route_target (DirectAgent target) = target"
| "route_target (RelayNode target relay) = target"

datatype route_health = Healthy | Degraded | Unhealthy

datatype route_error = NoRoute

section \<open>What a router promises\<close>

text \<open>A selected route leads to the requested node, over a connected agent or one of the candidate
  relays, and its endpoint is not unhealthy; without a route there was none. A success makes the
  endpoint healthy, a failure makes its health no better, and reports concern their endpoint
  only.\<close>

fun no_better :: "route_health \<Rightarrow> route_health \<Rightarrow> bool" where
  "no_better Healthy new = (new \<noteq> Healthy)"
| "no_better Degraded new = (new \<noteq> Healthy)"
| "no_better Unhealthy new = (new = Unhealthy)"

locale node_router =
  fixes select :: "'r \<Rightarrow> route_request \<Rightarrow> route_error + node_route"
    and success :: "'r \<Rightarrow> node_route \<Rightarrow> 'r"
    and failure :: "'r \<Rightarrow> node_route \<Rightarrow> 'r"
    and health :: "'r \<Rightarrow> route_endpoint \<Rightarrow> route_health"
  assumes select_healthy: "select r req = Inr route \<Longrightarrow> health r (endpoint route) \<noteq> Unhealthy"
    and select_offered: "select r req = Inr route \<Longrightarrow>
      route = DirectAgent (rq_target_node_id req) \<and> rq_direct_agent_connected req
      \<or> (\<exists>relay \<in> set (rq_relay_candidates req). route = RelayNode (rq_target_node_id req) relay)"
    and select_none: "select r req = Inl e \<Longrightarrow>
      (rq_direct_agent_connected req \<longrightarrow> health r (DirectEndpoint (rq_target_node_id req)) = Unhealthy)
      \<and> (\<forall>relay \<in> set (rq_relay_candidates req). health r (RelayEndpoint relay) = Unhealthy)"
    and health_success: "health (success r route) ep =
      (if ep = endpoint route then Healthy else health r ep)"
    and health_failure: "no_better (health r (endpoint route)) (health (failure r route) (endpoint route))"
    and health_failure_other: "ep \<noteq> endpoint route \<Longrightarrow> health (failure r route) ep = health r ep"
begin

text \<open>A client of the router (a terminal open) asks for a route, tries it and reports how it went.\<close>

fun attempt :: "'r \<Rightarrow> route_request \<times> bool \<Rightarrow> 'r" where
  "attempt r (req, worked) =
     (case select r req of
        Inl _ \<Rightarrow> r
      | Inr route \<Rightarrow> if worked then success r route else failure r route)"

lemma target_of_selected: "select r req = Inr route \<Longrightarrow> route_target route = rq_target_node_id req"
  using select_offered by fastforce

lemma selected_iff:
  "(\<exists>route. select r req = Inr route) \<longleftrightarrow>
     (rq_direct_agent_connected req \<and> health r (DirectEndpoint (rq_target_node_id req)) \<noteq> Unhealthy)
     \<or> (\<exists>relay \<in> set (rq_relay_candidates req). health r (RelayEndpoint relay) \<noteq> Unhealthy)"
  using select_healthy [of r req] select_offered [of r req] select_none [of r req]
  by (cases "select r req") fastforce+

lemma unhealthy_stays:
  "health r ep = Unhealthy \<Longrightarrow> health (attempt r a) ep = Unhealthy"
proof (cases a)
  case (Pair req worked)
  assume u: "health r ep = Unhealthy"
  show ?thesis
  proof (cases "select r req")
    case (Inl e)
    with Pair u show ?thesis by simp
  next
    case (Inr route)
    then have "ep \<noteq> endpoint route"
      using select_healthy u by blast
    with Pair Inr u show ?thesis
      by (simp add: health_success health_failure_other)
  qed
qed

lemma unhealthy_for_ever:
  "health r ep = Unhealthy \<Longrightarrow> health (foldl attempt r as) ep = Unhealthy"
  by (induction as arbitrary: r) (simp_all add: unhealthy_stays)

lemma retired_endpoint_is_never_selected:
  assumes "health r ep = Unhealthy" "select (foldl attempt r as) req = Inr route"
  shows "endpoint route \<noteq> ep"
  using unhealthy_for_ever [OF assms(1), of as] select_healthy [OF assms(2)] by blast

end

section \<open>The in-memory router\<close>

record route_health_record =
  rhr_consecutive_failures :: u8

definition UNHEALTHY_AFTER :: u8 where
  "UNHEALTHY_AFTER = 3"

definition record_healthy :: route_health_record where
  "record_healthy = \<lparr>rhr_consecutive_failures = 0\<rparr>"

definition record_degraded :: route_health_record where
  "record_degraded = \<lparr>rhr_consecutive_failures = 1\<rparr>"

definition saturating_inc8 :: "u8 \<Rightarrow> u8" where
  "saturating_inc8 n = (if n = - 1 then n else n + 1)"

definition record_record_failure :: "route_health_record \<Rightarrow> route_health_record" where
  "record_record_failure r =
     r\<lparr>rhr_consecutive_failures := saturating_inc8 (rhr_consecutive_failures r)\<rparr>"

definition record_health :: "route_health_record \<Rightarrow> route_health" where
  "record_health r =
     (if rhr_consecutive_failures r = 0 then Healthy
      else if UNHEALTHY_AFTER \<le> rhr_consecutive_failures r then Unhealthy
      else Degraded)"

type_synonym memory_router = "route_endpoint \<rightharpoonup> route_health_record"

definition router_default :: memory_router where
  "router_default = Map.empty"

definition route_health_of :: "memory_router \<Rightarrow> route_endpoint \<Rightarrow> route_health" where
  "route_health_of r ep = (case r ep of None \<Rightarrow> Healthy | Some rec \<Rightarrow> record_health rec)"

definition select_route :: "memory_router \<Rightarrow> route_request \<Rightarrow> route_error + node_route" where
  "select_route r req =
     (let direct = DirectEndpoint (rq_target_node_id req)
      in if rq_direct_agent_connected req \<and> route_health_of r direct \<noteq> Unhealthy
         then Inr (DirectAgent (rq_target_node_id req))
         else (case find (\<lambda>relay. route_health_of r (RelayEndpoint relay) \<noteq> Unhealthy)
                      (rq_relay_candidates req) of
                 None \<Rightarrow> Inl NoRoute
               | Some relay \<Rightarrow> Inr (RelayNode (rq_target_node_id req) relay)))"

definition record_success :: "memory_router \<Rightarrow> node_route \<Rightarrow> memory_router" where
  "record_success r route = r(endpoint route \<mapsto> record_healthy)"

definition record_failure :: "memory_router \<Rightarrow> node_route \<Rightarrow> memory_router" where
  "record_failure r route =
     r(endpoint route \<mapsto>
         (case r (endpoint route) of
            Some rec \<Rightarrow> record_record_failure rec
          | None \<Rightarrow> record_degraded))"

section \<open>The in-memory router keeps the promise\<close>

lemma unat_saturating_inc8: "unat (saturating_inc8 n) = min (Suc (unat n)) 255"
proof (cases "n = - 1")
  case True
  moreover have "unat (- 1 :: u8) = 255"
    by (simp add: unsigned_minus_1_eq_mask mask_eq_exp_minus_1)
  ultimately show ?thesis by (simp add: saturating_inc8_def)
next
  case False
  then have "1 + n \<noteq> 0"
    by (metis add.commute eq_neg_iff_add_eq_0)
  then have "unat (1 + n) = Suc (unat n)"
    by (rule unatSuc)
  moreover have "unat (n + 1) < 256"
    by (rule order_less_le_trans [OF unsigned_less]) simp
  ultimately show ?thesis
    using False by (simp add: saturating_inc8_def add.commute)
qed

lemma record_health_nat:
  "record_health r =
     (if unat (rhr_consecutive_failures r) = 0 then Healthy
      else if 3 \<le> unat (rhr_consecutive_failures r) then Unhealthy else Degraded)"
  by (simp add: record_health_def UNHEALTHY_AFTER_def word_le_nat_alt unat_eq_zero)

lemma health_after_failure:
  "no_better (route_health_of r (endpoint route)) (route_health_of (record_failure r route) (endpoint route))"
  by (cases "r (endpoint route)")
    (auto simp: route_health_of_def record_failure_def record_health_nat record_record_failure_def
      unat_saturating_inc8 record_degraded_def)

interpretation memory: node_router select_route record_success record_failure route_health_of
proof
  fix r req route e ep
  show "select_route r req = Inr route \<Longrightarrow> route_health_of r (endpoint route) \<noteq> Unhealthy"
    by (auto simp: select_route_def Let_def find_Some_iff split: if_splits option.splits)
  show "select_route r req = Inr route \<Longrightarrow>
      route = DirectAgent (rq_target_node_id req) \<and> rq_direct_agent_connected req
      \<or> (\<exists>relay \<in> set (rq_relay_candidates req). route = RelayNode (rq_target_node_id req) relay)"
    by (auto simp: select_route_def Let_def find_Some_iff split: if_splits option.splits)
  show "select_route r req = Inl e \<Longrightarrow>
      (rq_direct_agent_connected req \<longrightarrow> route_health_of r (DirectEndpoint (rq_target_node_id req)) = Unhealthy)
      \<and> (\<forall>relay \<in> set (rq_relay_candidates req). route_health_of r (RelayEndpoint relay) = Unhealthy)"
    by (auto simp: select_route_def Let_def find_None_iff split: if_splits option.splits)
  show "route_health_of (record_success r route) ep =
      (if ep = endpoint route then Healthy else route_health_of r ep)"
    by (simp add: record_success_def route_health_of_def record_healthy_def record_health_def)
  show "no_better (route_health_of r (endpoint route))
      (route_health_of (record_failure r route) (endpoint route))"
    by (rule health_after_failure)
  show "ep \<noteq> endpoint route \<Longrightarrow> route_health_of (record_failure r route) ep = route_health_of r ep"
    by (simp add: record_failure_def route_health_of_def)
qed

text \<open>What a client does, spelled out.\<close>

definition route_attempt :: "memory_router \<Rightarrow> route_request \<times> bool \<Rightarrow> memory_router" where
  "route_attempt r a =
     (case select_route r (fst a) of
        Inl _ \<Rightarrow> r
      | Inr route \<Rightarrow> if snd a then record_success r route else record_failure r route)"

lemma route_attempt_eq: "route_attempt = memory.attempt"
  by (intro ext) (auto simp: route_attempt_def split: sum.splits)

text \<open>The failures of an endpoint since its last success.\<close>

definition failures :: "memory_router \<Rightarrow> route_endpoint \<Rightarrow> nat" where
  "failures r ep = (case r ep of None \<Rightarrow> 0 | Some rec \<Rightarrow> unat (rhr_consecutive_failures rec))"

lemma failures_record_failure:
  "failures (record_failure r route) ep =
     (if ep = endpoint route then min (Suc (failures r ep)) 255 else failures r ep)"
  by (cases "r (endpoint route)")
    (auto simp: failures_def record_failure_def record_record_failure_def unat_saturating_inc8
      record_degraded_def)

lemma failures_repeat:
  "failures (((\<lambda>r. record_failure r route) ^^ n) r) (endpoint route) = min (n + failures r (endpoint route)) 255
     \<or> 255 < failures r (endpoint route)"
proof (induction n)
  case 0
  then show ?case by auto
next
  case (Suc n)
  then show ?case
    by (auto simp: failures_record_failure)
qed

lemma health_failures:
  "route_health_of r ep =
     (if failures r ep = 0 then Healthy else if 3 \<le> failures r ep then Unhealthy else Degraded)"
  by (simp add: route_health_of_def failures_def record_health_nat split: option.split)

section \<open>Properties\<close>

text \<open>A route is selected exactly if the agent is connected over a healthy enough endpoint, or
  some candidate relay is; the direct agent is preferred, and otherwise the first such candidate
  is taken; the route leads to the requested node.\<close>

theorem route_selection_characterised:
  "select_route r req =
     (if rq_direct_agent_connected req
         \<and> route_health_of r (DirectEndpoint (rq_target_node_id req)) \<noteq> Unhealthy
      then Inr (DirectAgent (rq_target_node_id req))
      else (case dropWhile (\<lambda>relay. route_health_of r (RelayEndpoint relay) = Unhealthy)
                   (rq_relay_candidates req) of
              [] \<Rightarrow> Inl NoRoute
            | relay # _ \<Rightarrow> Inr (RelayNode (rq_target_node_id req) relay)))
   \<and> (\<exists>route. select_route r req = Inr route) =
       (rq_direct_agent_connected req
          \<and> route_health_of r (DirectEndpoint (rq_target_node_id req)) \<noteq> Unhealthy
        \<or> list_ex (\<lambda>relay. route_health_of r (RelayEndpoint relay) \<noteq> Unhealthy)
            (rq_relay_candidates req))"
proof
  have "find (\<lambda>relay. \<not> P relay) xs = (case dropWhile P xs of [] \<Rightarrow> None | x # _ \<Rightarrow> Some x)"
    for P and xs :: "string list"
    by (induction xs) auto
  then show "select_route r req =
     (if rq_direct_agent_connected req
         \<and> route_health_of r (DirectEndpoint (rq_target_node_id req)) \<noteq> Unhealthy
      then Inr (DirectAgent (rq_target_node_id req))
      else (case dropWhile (\<lambda>relay. route_health_of r (RelayEndpoint relay) = Unhealthy)
                   (rq_relay_candidates req) of
              [] \<Rightarrow> Inl NoRoute
            | relay # _ \<Rightarrow> Inr (RelayNode (rq_target_node_id req) relay)))"
    by (cases "dropWhile (\<lambda>relay. route_health_of r (RelayEndpoint relay) = Unhealthy)
          (rq_relay_candidates req)") (simp_all only: select_route_def Let_def option.case list.case)
  show "(\<exists>route. select_route r req = Inr route) =
       (rq_direct_agent_connected req
          \<and> route_health_of r (DirectEndpoint (rq_target_node_id req)) \<noteq> Unhealthy
        \<or> list_ex (\<lambda>relay. route_health_of r (RelayEndpoint relay) \<noteq> Unhealthy)
            (rq_relay_candidates req))"
    using memory.selected_iff [of r req] by (simp add: list_ex_iff)
qed

text \<open>An endpoint is unhealthy after three failures in a row, not before, and a success at any
  point starts the count afresh; the count saturates instead of wrapping round to healthy.\<close>

theorem three_failures_make_unhealthy:
  "route_health_of (((\<lambda>r. record_failure r route) ^^ n) (record_success r route)) (endpoint route) =
     (if n = 0 then Healthy else if n < 3 then Degraded else Unhealthy)
   \<and> route_health_of (((\<lambda>r. record_failure r route) ^^ n) router_default) (endpoint route) =
     (if n = 0 then Healthy else if n < 3 then Degraded else Unhealthy)"
  using failures_repeat [of n route "record_success r route"] failures_repeat [of n route router_default]
  by (auto simp: health_failures failures_def record_success_def record_healthy_def router_default_def)

text \<open>C40: Once an endpoint is unhealthy, no sequence of later attempts brings it back, however they
  turn out: it is never selected again, so no success is ever recorded for it.\<close>

theorem unhealthy_endpoint_is_retired_for_ever:
  "route_health_of r ep = Unhealthy \<Longrightarrow>
     route_health_of (foldl route_attempt r as) ep = Unhealthy
     \<and> select_route (foldl route_attempt r as) \<lparr>rq_target_node_id = n, rq_direct_agent_connected = c,
          rq_relay_candidates = filter (\<lambda>relay. RelayEndpoint relay = ep) relays\<rparr>
        = (if c \<and> DirectEndpoint n \<noteq> ep
              \<and> route_health_of (foldl route_attempt r as) (DirectEndpoint n) \<noteq> Unhealthy
           then Inr (DirectAgent n) else Inl NoRoute)"
proof
  assume u: "route_health_of r ep = Unhealthy"
  show un: "route_health_of (foldl route_attempt r as) ep = Unhealthy"
    unfolding route_attempt_eq by (rule memory.unhealthy_for_ever [OF u])
  have "find (\<lambda>relay. route_health_of (foldl route_attempt r as) (RelayEndpoint relay) \<noteq> Unhealthy)
      (filter (\<lambda>relay. RelayEndpoint relay = ep) relays) = None"
    using un by (auto simp: find_None_iff)
  then show "select_route (foldl route_attempt r as) \<lparr>rq_target_node_id = n, rq_direct_agent_connected = c,
          rq_relay_candidates = filter (\<lambda>relay. RelayEndpoint relay = ep) relays\<rparr>
        = (if c \<and> DirectEndpoint n \<noteq> ep
              \<and> route_health_of (foldl route_attempt r as) (DirectEndpoint n) \<noteq> Unhealthy
           then Inr (DirectAgent n) else Inl NoRoute)"
    using un by (auto simp: select_route_def Let_def)
qed

theorem unhealthy_endpoint_is_retired_for_ever_witness:
  "select_route
     (foldl route_attempt
        (((\<lambda>r. record_failure r (DirectAgent ''n'')) ^^ 3) router_default)
        [(\<lparr>rq_target_node_id = ''n'', rq_direct_agent_connected = True, rq_relay_candidates = []\<rparr>, True)])
     \<lparr>rq_target_node_id = ''n'', rq_direct_agent_connected = True, rq_relay_candidates = []\<rparr>
   = Inl NoRoute"
proof -
  let ?r = "((\<lambda>r. record_failure r (DirectAgent ''n'')) ^^ 3) router_default"
  have "route_health_of ?r (DirectEndpoint ''n'') = Unhealthy"
    by code_simp
  from unhealthy_endpoint_is_retired_for_ever [OF this,
      of "[(\<lparr>rq_target_node_id = ''n'', rq_direct_agent_connected = True, rq_relay_candidates = []\<rparr>, True)]"
        "''n''" True "[]"]
  show ?thesis by simp
qed

end
