(* ===== verification/Sb_Nodes.thy ===== *)
theory Sb_Nodes
  imports Sb_Auth
begin

text \<open>
  Node enrollment, credentials and liveness (\<open>sunbolt-control/src/node.rs\<close>, with the credential
  functions and request types of \<open>agent/mod.rs\<close>). SHA-256 and the 64-bit hash of tokens
  (\<open>DefaultHasher\<close>) are arguments, as are random bytes and the clocks; every operation reads each
  clock once. The mutex recovers from poisoning. The wall clock is in nanoseconds from the Unix
  epoch, before it if negative.
\<close>

section \<open>Data\<close>

datatype enrollment_error = InvalidToken | TokenUsed | TokenExpired

datatype node_connection_error = UnknownNode | InvalidCredential | CredentialExpired | NodeRevokedError

datatype node_status = NodeEnrolled | NodeOnline | NodeOffline | NodeRevoked

record enrollment_token_record =
  etr_id :: u64
  etr_created_by_user_id :: u64
  etr_expires_at :: instant
  etr_used_by_node_id :: "u64 option"

record node_record =
  nr_id :: u64
  nr_node_id :: string
  nr_display_name :: string
  nr_hostname :: string
  nr_os :: string
  nr_architecture :: string
  nr_agent_version :: string
  nr_status :: node_status

record node_credential_record =
  ncr_node_id :: u64
  ncr_fingerprint :: string
  ncr_proof :: string
  ncr_created_at :: instant
  ncr_created_at_unix_secs :: int
  ncr_expires_at :: instant
  ncr_expires_at_unix_secs :: int
  ncr_rotated_from :: "string option"

record node_heartbeat_record =
  nhr_node_id :: u64
  nhr_status :: node_status
  nhr_received_at :: instant

record node_view =
  nv_node_id :: string
  nv_display_name :: string
  nv_hostname :: string
  nv_os :: string
  nv_architecture :: string
  nv_agent_version :: string
  nv_status :: node_status
  nv_credential_expires_at_unix_secs :: "int option"

record rotated_node_credential =
  rnc_fingerprint :: string
  rnc_secret :: string
  rnc_created_at_unix_secs :: int
  rnc_expires_at_unix_secs :: int
  rnc_previous_fingerprint :: "string option"

record node_credential_rotation_response =
  ncrr_node :: node_view
  ncrr_credential :: rotated_node_credential

record enrollment_token_response =
  etp_token :: string
  etp_expires_in_secs :: nat
  etp_enrollment_command :: string

record agent_enrollment_request =
  aer_token :: string
  aer_node_name :: string
  aer_hostname :: string
  aer_os :: string
  aer_architecture :: string
  aer_agent_version :: string

record agent_enrollment_response =
  aep_node_id :: string
  aep_credential_fingerprint :: string
  aep_credential_secret :: string
  aep_credential_expires_at_unix_secs :: int

record agent_heartbeat_request =
  ahr_node_id :: string
  ahr_credential_fingerprint :: string
  ahr_credential_proof :: string
  ahr_hostname :: string
  ahr_os :: string
  ahr_architecture :: string
  ahr_agent_version :: string

record node_registry =
  ne_tokens_by_hash :: "u64 \<rightharpoonup> enrollment_token_record"
  ne_nodes :: "node_record list"
  ne_credentials :: "node_credential_record list"
  ne_heartbeats :: "node_heartbeat_record list"
  ne_next_token_id :: u64
  ne_next_node_id :: u64

definition node_registry_default :: node_registry where
  "node_registry_default =
     \<lparr>ne_tokens_by_hash = Map.empty, ne_nodes = [], ne_credentials = [], ne_heartbeats = [],
      ne_next_token_id = 1, ne_next_node_id = 1\<rparr>"

definition NODE_OFFLINE_AFTER :: duration where
  "NODE_OFFLINE_AFTER = secs 90"

definition NODE_CREDENTIAL_TTL :: duration where
  "NODE_CREDENTIAL_TTL = secs (90 * 24 * 60 * 60)"

section \<open>Credentials\<close>

type_synonym sha256 = "u8 list \<Rightarrow> u8 list"

definition credential_fingerprint :: "sha256 \<Rightarrow> string \<Rightarrow> string" where
  "credential_fingerprint sha secret = ''sha256:'' @ hex_bytes (sha (str_bytes secret))"

definition credential_proof :: "sha256 \<Rightarrow> string \<Rightarrow> string \<Rightarrow> string" where
  "credential_proof sha node_id secret =
     credential_fingerprint sha
       (''sunbolt-agent-auth-v1'' @ [char_of (0 :: nat)] @ node_id @ [char_of (0 :: nat)] @ secret)"

definition generate_node_credential :: "sha256 \<Rightarrow> u8 list \<Rightarrow> string \<times> string" where
  "generate_node_credential sha random =
     (let secret = random_token random in (secret, credential_fingerprint sha secret))"

definition I64_MAX :: int where
  "I64_MAX = 9223372036854775807"

definition unix_secs :: "int \<Rightarrow> int" where
  "unix_secs sys_now = min (max sys_now 0 div 1000000000) I64_MAX"

definition credential_expiration_unix_secs :: "int \<Rightarrow> int" where
  "credential_expiration_unix_secs sys_now = unix_secs (sys_now + int NODE_CREDENTIAL_TTL)"

section \<open>Looking things up\<close>

fun position :: "('a \<Rightarrow> bool) \<Rightarrow> 'a list \<Rightarrow> nat option" where
  "position P [] = None"
| "position P (x # xs) = (if P x then Some 0 else map_option Suc (position P xs))"

definition node_index :: "node_registry \<Rightarrow> string \<Rightarrow> nat option" where
  "node_index reg nid = position (\<lambda>n. nr_node_id n = nid) (ne_nodes reg)"

text \<open>\<open>Iterator::max\<close> and \<open>max_by_key\<close>; the latter keeps the last of several greatest elements.\<close>

fun max_by :: "('a \<Rightarrow> 'a \<Rightarrow> bool) \<Rightarrow> 'a list \<Rightarrow> 'a option" where
  "max_by le [] = None"
| "max_by le (x # xs) = Some (foldl (\<lambda>m y. if le m y then y else m) x xs)"

definition latest_heartbeat_at :: "node_registry \<Rightarrow> u64 \<Rightarrow> instant option" where
  "latest_heartbeat_at reg nid =
     map_option nhr_received_at
       (max_by (\<lambda>a b. nhr_received_at a \<le> nhr_received_at b)
          (filter (\<lambda>h. nhr_node_id h = nid \<and> nhr_status h \<noteq> NodeRevoked) (ne_heartbeats reg)))"

definition authenticated_credential ::
  "node_registry \<Rightarrow> u64 \<Rightarrow> string \<Rightarrow> string \<Rightarrow> node_credential_record option" where
  "authenticated_credential reg nid proof_text fingerprint =
     find (\<lambda>c. ncr_node_id c = nid \<and> ncr_fingerprint c = fingerprint \<and> ncr_proof c = proof_text)
       (ne_credentials reg)"

definition credential_expiration_for_node :: "node_registry \<Rightarrow> u64 \<Rightarrow> int option" where
  "credential_expiration_for_node reg nid =
     max_by (\<le>)
       (map ncr_expires_at_unix_secs (filter (\<lambda>c. ncr_node_id c = nid) (ne_credentials reg)))"

definition credential_key_le :: "node_credential_record \<Rightarrow> node_credential_record \<Rightarrow> bool" where
  "credential_key_le a b =
     (ncr_created_at a < ncr_created_at b
      \<or> ncr_created_at a = ncr_created_at b
        \<and> (ncr_created_at_unix_secs a < ncr_created_at_unix_secs b
           \<or> ncr_created_at_unix_secs a = ncr_created_at_unix_secs b
             \<and> (ncr_rotated_from a \<noteq> None \<longrightarrow> ncr_rotated_from b \<noteq> None)))"

definition latest_credential_for_node ::
  "node_registry \<Rightarrow> u64 \<Rightarrow> node_credential_record option" where
  "latest_credential_for_node reg nid =
     max_by credential_key_le (filter (\<lambda>c. ncr_node_id c = nid) (ne_credentials reg))"

definition node_view_of ::
  "node_record \<Rightarrow> instant option \<Rightarrow> int option \<Rightarrow> instant \<Rightarrow> node_view" where
  "node_view_of node last_heartbeat expires now =
     \<lparr>nv_node_id = nr_node_id node, nv_display_name = nr_display_name node,
      nv_hostname = nr_hostname node, nv_os = nr_os node,
      nv_architecture = nr_architecture node, nv_agent_version = nr_agent_version node,
      nv_status =
        (if nr_status node = NodeOnline
            \<and> (case last_heartbeat of None \<Rightarrow> False | Some t \<Rightarrow> NODE_OFFLINE_AFTER \<le> elapsed now t)
         then NodeOffline else nr_status node),
      nv_credential_expires_at_unix_secs = expires\<rparr>"

section \<open>Operations\<close>

definition create_token ::
  "(string \<Rightarrow> u64) \<Rightarrow> node_registry \<Rightarrow> user \<Rightarrow> duration \<Rightarrow> instant \<Rightarrow> u8 list
   \<Rightarrow> enrollment_token_response \<times> node_registry" where
  "create_token token_hash reg u ttl now random =
     (let token = random_token random
      in (\<lparr>etp_token = token, etp_expires_in_secs = as_secs ttl,
           etp_enrollment_command =
             ''SUNBOLT_CONTROL_PLANE_URL=http://127.0.0.1:3000 SUNBOLT_AGENT_ENROLLMENT_TOKEN=''
             @ token @ '' cargo run -p sunbolt-agent''\<rparr>,
          reg\<lparr>ne_next_token_id := ne_next_token_id reg + 1,
              ne_tokens_by_hash := (ne_tokens_by_hash reg)(token_hash token \<mapsto>
                \<lparr>etr_id = ne_next_token_id reg, etr_created_by_user_id = user_id u,
                 etr_expires_at = now + ttl, etr_used_by_node_id = None\<rparr>)\<rparr>))"

definition enroll ::
  "sha256 \<Rightarrow> (string \<Rightarrow> u64) \<Rightarrow> node_registry \<Rightarrow> agent_enrollment_request \<Rightarrow> instant \<Rightarrow> int
   \<Rightarrow> u8 list \<Rightarrow> (enrollment_error + agent_enrollment_response) \<times> node_registry" where
  "enroll sha token_hash reg req now sys_now random =
     (case ne_tokens_by_hash reg (token_hash (aer_token req)) of
        None \<Rightarrow> (Inl InvalidToken, reg)
      | Some token \<Rightarrow>
          if etr_used_by_node_id token \<noteq> None then (Inl TokenUsed, reg)
          else if etr_expires_at token \<le> now then (Inl TokenExpired, reg)
          else
            let nid = ne_next_node_id reg;
                name = ''node-'' @ show_nat (unat nid);
                (secret, fingerprint) = generate_node_credential sha random;
                created = unix_secs sys_now;
                expires = credential_expiration_unix_secs sys_now
            in (Inr \<lparr>aep_node_id = name, aep_credential_fingerprint = fingerprint,
                     aep_credential_secret = secret,
                     aep_credential_expires_at_unix_secs = expires\<rparr>,
                reg\<lparr>ne_next_node_id := nid + 1,
                    ne_tokens_by_hash := (ne_tokens_by_hash reg)(token_hash (aer_token req) \<mapsto>
                      token\<lparr>etr_used_by_node_id := Some nid\<rparr>),
                    ne_nodes := ne_nodes reg @
                      [\<lparr>nr_id = nid, nr_node_id = name, nr_display_name = aer_node_name req,
                        nr_hostname = aer_hostname req, nr_os = aer_os req,
                        nr_architecture = aer_architecture req,
                        nr_agent_version = aer_agent_version req, nr_status = NodeEnrolled\<rparr>],
                    ne_credentials := ne_credentials reg @
                      [\<lparr>ncr_node_id = nid, ncr_fingerprint = fingerprint,
                        ncr_proof = credential_proof sha name secret, ncr_created_at = now,
                        ncr_created_at_unix_secs = created,
                        ncr_expires_at = now + NODE_CREDENTIAL_TTL,
                        ncr_expires_at_unix_secs = expires, ncr_rotated_from = None\<rparr>],
                    ne_heartbeats := ne_heartbeats reg @
                      [\<lparr>nhr_node_id = nid, nhr_status = NodeEnrolled, nhr_received_at = now\<rparr>]\<rparr>))"

text \<open>What \<open>heartbeat\<close> and \<open>authenticate_transport\<close> have in common: the node and its credential are
  checked, the node is updated and goes online, and the heartbeat is noted.\<close>

definition check_credential ::
  "node_registry \<Rightarrow> string \<Rightarrow> string \<Rightarrow> string \<Rightarrow> instant \<Rightarrow> node_connection_error + nat" where
  "check_credential reg nid fingerprint proof_text now =
     (case node_index reg nid of
        None \<Rightarrow> Inl UnknownNode
      | Some i \<Rightarrow>
          let node = ne_nodes reg ! i in
          if nr_status node = NodeRevoked then Inl NodeRevokedError
          else (case authenticated_credential reg (nr_id node) proof_text fingerprint of
                  None \<Rightarrow> Inl InvalidCredential
                | Some c \<Rightarrow> if ncr_expires_at c \<le> now then Inl CredentialExpired else Inr i))"

definition seen_online ::
  "node_registry \<Rightarrow> nat \<Rightarrow> (node_record \<Rightarrow> node_record) \<Rightarrow> instant \<Rightarrow> node_view \<times> node_registry" where
  "seen_online reg i f now =
     (let node = (f (ne_nodes reg ! i))\<lparr>nr_status := NodeOnline\<rparr>;
          reg' = reg\<lparr>ne_nodes := (ne_nodes reg)[i := node],
                     ne_heartbeats := ne_heartbeats reg @
                       [\<lparr>nhr_node_id = nr_id node, nhr_status = NodeOnline, nhr_received_at = now\<rparr>]\<rparr>
      in (node_view_of node (Some now) (credential_expiration_for_node reg' (nr_id node)) now, reg'))"

definition heartbeat ::
  "node_registry \<Rightarrow> agent_heartbeat_request \<Rightarrow> instant
   \<Rightarrow> (node_connection_error + node_view) \<times> node_registry" where
  "heartbeat reg req now =
     (case check_credential reg (ahr_node_id req) (ahr_credential_fingerprint req)
             (ahr_credential_proof req) now of
        Inl e \<Rightarrow> (Inl e, reg)
      | Inr i \<Rightarrow>
          let (view, reg') = seen_online reg i
                (\<lambda>n. n\<lparr>nr_hostname := ahr_hostname req, nr_os := ahr_os req,
                       nr_architecture := ahr_architecture req,
                       nr_agent_version := ahr_agent_version req\<rparr>) now
          in (Inr view, reg'))"

definition authenticate_transport ::
  "node_registry \<Rightarrow> string \<Rightarrow> string \<Rightarrow> string \<Rightarrow> string \<Rightarrow> instant
   \<Rightarrow> (node_connection_error + node_view) \<times> node_registry" where
  "authenticate_transport reg nid fingerprint proof_text agent_version now =
     (case check_credential reg nid fingerprint proof_text now of
        Inl e \<Rightarrow> (Inl e, reg)
      | Inr i \<Rightarrow>
          let (view, reg') = seen_online reg i (\<lambda>n. n\<lparr>nr_agent_version := agent_version\<rparr>) now
          in (Inr view, reg'))"

definition view_now :: "node_registry \<Rightarrow> instant \<Rightarrow> node_record \<Rightarrow> node_view" where
  "view_now reg now node =
     node_view_of node (latest_heartbeat_at reg (nr_id node))
       (credential_expiration_for_node reg (nr_id node)) now"

definition list_nodes :: "node_registry \<Rightarrow> instant \<Rightarrow> node_view list" where
  "list_nodes reg now = map (view_now reg now) (ne_nodes reg)"

definition node_details :: "node_registry \<Rightarrow> string \<Rightarrow> instant \<Rightarrow> node_view option" where
  "node_details reg nid now =
     map_option (view_now reg now) (find (\<lambda>n. nr_node_id n = nid) (ne_nodes reg))"

definition revoke_node ::
  "node_registry \<Rightarrow> string \<Rightarrow> instant \<Rightarrow> (node_connection_error + node_view) \<times> node_registry" where
  "revoke_node reg nid now =
     (case node_index reg nid of
        None \<Rightarrow> (Inl UnknownNode, reg)
      | Some i \<Rightarrow>
          let node = (ne_nodes reg ! i)\<lparr>nr_status := NodeRevoked\<rparr>;
              reg' = reg\<lparr>ne_nodes := (ne_nodes reg)[i := node]\<rparr>
          in (Inr (view_now reg' now node), reg'))"

definition rotate_credential ::
  "sha256 \<Rightarrow> node_registry \<Rightarrow> string \<Rightarrow> instant \<Rightarrow> int \<Rightarrow> u8 list
   \<Rightarrow> (node_connection_error + node_credential_rotation_response) \<times> node_registry" where
  "rotate_credential sha reg nid now sys_now random =
     (case node_index reg nid of
        None \<Rightarrow> (Inl UnknownNode, reg)
      | Some i \<Rightarrow>
          let node = ne_nodes reg ! i in
          if nr_status node = NodeRevoked then (Inl NodeRevokedError, reg)
          else
            let previous = map_option ncr_fingerprint (latest_credential_for_node reg (nr_id node));
                (secret, fingerprint) = generate_node_credential sha random;
                created = unix_secs sys_now;
                expires = credential_expiration_unix_secs sys_now;
                reg' = reg\<lparr>ne_credentials := ne_credentials reg @
                  [\<lparr>ncr_node_id = nr_id node, ncr_fingerprint = fingerprint,
                    ncr_proof = credential_proof sha nid secret, ncr_created_at = now,
                    ncr_created_at_unix_secs = created,
                    ncr_expires_at = now + NODE_CREDENTIAL_TTL,
                    ncr_expires_at_unix_secs = expires, ncr_rotated_from = previous\<rparr>]\<rparr>
            in (Inr \<lparr>ncrr_node = view_now reg' now node,
                     ncrr_credential =
                       \<lparr>rnc_fingerprint = fingerprint, rnc_secret = secret,
                        rnc_created_at_unix_secs = created, rnc_expires_at_unix_secs = expires,
                        rnc_previous_fingerprint = previous\<rparr>\<rparr>,
                reg'))"

definition node_is_online :: "node_registry \<Rightarrow> string \<Rightarrow> instant \<Rightarrow> bool" where
  "node_is_online reg nid now =
     (case node_details reg nid now of None \<Rightarrow> False | Some v \<Rightarrow> nv_status v = NodeOnline)"

section \<open>Sequences of operations\<close>

datatype node_op =
    OpCreateToken user duration instant "u8 list"
  | OpEnroll agent_enrollment_request instant int "u8 list"
  | OpHeartbeat agent_heartbeat_request instant
  | OpAuthenticate string string string string instant
  | OpRevoke string instant
  | OpRotate string instant int "u8 list"

fun node_apply :: "sha256 \<Rightarrow> (string \<Rightarrow> u64) \<Rightarrow> node_registry \<Rightarrow> node_op \<Rightarrow> node_registry" where
  "node_apply sha th reg (OpCreateToken u ttl now random) = snd (create_token th reg u ttl now random)"
| "node_apply sha th reg (OpEnroll req now sys random) = snd (enroll sha th reg req now sys random)"
| "node_apply sha th reg (OpHeartbeat req now) = snd (heartbeat reg req now)"
| "node_apply sha th reg (OpAuthenticate nid fp pr v now) =
     snd (authenticate_transport reg nid fp pr v now)"
| "node_apply sha th reg (OpRevoke nid now) = snd (revoke_node reg nid now)"
| "node_apply sha th reg (OpRotate nid now sys random) =
     snd (rotate_credential sha reg nid now sys random)"

definition node_run :: "sha256 \<Rightarrow> (string \<Rightarrow> u64) \<Rightarrow> node_registry \<Rightarrow> node_op list \<Rightarrow> node_registry" where
  "node_run sha th reg ops = foldl (node_apply sha th) reg ops"

section \<open>Facts on the lookups\<close>

lemma position_Some: "position P xs = Some i \<longleftrightarrow> i < length xs \<and> P (xs ! i) \<and> (\<forall>j<i. \<not> P (xs ! j))"
proof (induction xs arbitrary: i)
  case (Cons x xs)
  then show ?case
    by (cases i) (auto simp: less_Suc_eq_0_disj)
qed simp

lemma position_None: "position P xs = None \<longleftrightarrow> (\<forall>x \<in> set xs. \<not> P x)"
  by (induction xs) auto

lemma position_find: "find P xs = map_option (\<lambda>i. xs ! i) (position P xs)"
  by (induction xs) (auto simp: option.map_comp comp_def)

lemma position_append: "position P xs = Some i \<Longrightarrow> position P (xs @ ys) = Some i"
  by (induction xs arbitrary: i) (auto split: if_splits)

lemma position_append_new:
  "position P xs = None \<Longrightarrow> P y \<Longrightarrow> position P (xs @ [y]) = Some (length xs)"
  by (induction xs) (auto split: if_splits)

lemma position_map: "map f xs = map f ys \<Longrightarrow> position (\<lambda>x. f x = k) xs = position (\<lambda>x. f x = k) ys"
proof (induction xs arbitrary: ys)
  case Nil
  then show ?case by simp
next
  case (Cons x xs)
  then obtain y ys' where "ys = y # ys'" "f x = f y" "map f xs = map f ys'"
    by (cases ys) auto
  with Cons.IH [of ys'] show ?case by simp
qed

lemma map_update_same: "f y = f (xs ! i) \<Longrightarrow> map f (xs[i := y]) = map f xs"
  by (cases "i < length xs") (simp_all add: map_update list_update_same_conv list_update_beyond)

lemma max_by_append:
  "max_by le (xs @ [y]) = (case max_by le xs of None \<Rightarrow> Some y | Some m \<Rightarrow> Some (if le m y then y else m))"
  by (cases xs) simp_all

lemma max_by_mem: "max_by le xs = Some m \<Longrightarrow> m \<in> set xs"
proof (induction xs arbitrary: m rule: rev_induct)
  case (snoc x xs)
  then show ?case
    by (auto simp: max_by_append split: option.splits if_splits)
qed simp

section \<open>The invariant\<close>

text \<open>Node identifiers are unique and below the counter, names follow from them; used tokens,
  credentials and heartbeats belong to known nodes, and a node was enrolled with one token.\<close>

definition nodes_ok :: "node_registry \<Rightarrow> bool" where
  "nodes_ok reg =
     (distinct (map nr_id (ne_nodes reg))
      \<and> (\<forall>n \<in> set (ne_nodes reg). nr_id n < ne_next_node_id reg \<and> nr_status n \<noteq> NodeOffline
           \<and> nr_node_id n = ''node-'' @ show_nat (unat (nr_id n)))
      \<and> (\<forall>h t i. ne_tokens_by_hash reg h = Some t \<and> etr_used_by_node_id t = Some i \<longrightarrow>
           i \<in> nr_id ` set (ne_nodes reg)
           \<and> (\<forall>h' t'. ne_tokens_by_hash reg h' = Some t' \<and> etr_used_by_node_id t' = Some i \<longrightarrow> h' = h))
      \<and> (\<forall>c \<in> set (ne_credentials reg). ncr_node_id c \<in> nr_id ` set (ne_nodes reg))
      \<and> (\<forall>h \<in> set (ne_heartbeats reg). nhr_node_id h \<in> nr_id ` set (ne_nodes reg)))"

lemma nodes_ok_default: "nodes_ok node_registry_default"
  by (simp add: nodes_ok_def node_registry_default_def)

lemma check_credential_Inr:
  assumes "check_credential reg nid fp pr now = Inr i"
  shows "node_index reg nid = Some i \<and> i < length (ne_nodes reg) \<and> nr_node_id (ne_nodes reg ! i) = nid
    \<and> nr_status (ne_nodes reg ! i) \<noteq> NodeRevoked
    \<and> (\<exists>c. authenticated_credential reg (nr_id (ne_nodes reg ! i)) pr fp = Some c
         \<and> now < ncr_expires_at c)"
  using assms
  by (auto simp: check_credential_def Let_def node_index_def position_Some
      split: option.splits if_splits)

text \<open>Replacing a node by one with the same identifier and name.\<close>

lemma nodes_ok_update:
  assumes ok: "nodes_ok reg" and i: "i < length (ne_nodes reg)"
    and n: "nr_id n = nr_id (ne_nodes reg ! i)" "nr_node_id n = nr_node_id (ne_nodes reg ! i)"
      "nr_status n \<noteq> NodeOffline"
    and hs: "\<And>h. h \<in> set hs \<Longrightarrow> nhr_node_id h = nr_id n"
  shows "nodes_ok (reg\<lparr>ne_nodes := (ne_nodes reg)[i := n], ne_heartbeats := ne_heartbeats reg @ hs\<rparr>)"
proof -
  have ids: "map nr_id ((ne_nodes reg)[i := n]) = map nr_id (ne_nodes reg)"
    by (rule map_update_same) (rule n(1))
  then have img: "nr_id ` set ((ne_nodes reg)[i := n]) = nr_id ` set (ne_nodes reg)"
    by (metis set_map)
  have mem: "ne_nodes reg ! i \<in> set (ne_nodes reg)"
    using i by simp
  show ?thesis
    using ok mem n hs i
    by (auto simp: nodes_ok_def ids img dest!: set_update_subset_insert [THEN subsetD])
qed

lemma node_apply_ok:
  assumes ok: "nodes_ok reg" and next_id: "ne_next_node_id reg \<noteq> - 1"
  shows "nodes_ok (node_apply sha th reg op)"
proof (cases op)
  case (OpCreateToken u ttl now random)
  with ok show ?thesis
    by (auto simp: create_token_def nodes_ok_def Let_def)
next
  case (OpEnroll req now sys random)
  show ?thesis
  proof (cases "fst (enroll sha th reg req now sys random)")
    case (Inl e)
    then have "snd (enroll sha th reg req now sys random) = reg"
      by (auto simp: enroll_def Let_def split: option.splits if_splits prod.splits)
    with ok OpEnroll show ?thesis by simp
  next
    case (Inr r)
    have less: "n \<in> set (ne_nodes reg) \<Longrightarrow> nr_id n < ne_next_node_id reg" for n
      using ok by (simp add: nodes_ok_def)
    then have fresh: "ne_next_node_id reg \<notin> nr_id ` set (ne_nodes reg)"
      by (metis image_iff order_less_irrefl)
    have used: "ne_tokens_by_hash reg h = Some t \<Longrightarrow> etr_used_by_node_id t \<noteq> Some (ne_next_node_id reg)" for h t
      using ok fresh unfolding nodes_ok_def by blast
    have up: "n \<in> set (ne_nodes reg) \<Longrightarrow> nr_id n < ne_next_node_id reg + 1" for n
      using less word_less_Suc [OF next_id] by (rule less_trans)
    show ?thesis
      using ok Inr fresh used up word_less_Suc [OF next_id] OpEnroll
      by (auto simp: enroll_def Let_def nodes_ok_def generate_node_credential_def
          split: option.splits if_splits)
  qed
next
  case (OpHeartbeat req now)
  show ?thesis
  proof (cases "check_credential reg (ahr_node_id req) (ahr_credential_fingerprint req)
      (ahr_credential_proof req) now")
    case (Inl e)
    with ok OpHeartbeat show ?thesis by (simp add: heartbeat_def)
  next
    case (Inr i)
    from check_credential_Inr [OF this] Inr OpHeartbeat show ?thesis
      by (auto simp: heartbeat_def seen_online_def Let_def intro!: nodes_ok_update [OF ok])
  qed
next
  case (OpAuthenticate nid fp pr v now)
  show ?thesis
  proof (cases "check_credential reg nid fp pr now")
    case (Inl e)
    with ok OpAuthenticate show ?thesis by (simp add: authenticate_transport_def)
  next
    case (Inr i)
    from check_credential_Inr [OF this] Inr OpAuthenticate show ?thesis
      by (auto simp: authenticate_transport_def seen_online_def Let_def intro!: nodes_ok_update [OF ok])
  qed
next
  case (OpRevoke nid now)
  show ?thesis
  proof (cases "node_index reg nid")
    case None
    with ok OpRevoke show ?thesis by (simp add: revoke_node_def)
  next
    case (Some i)
    then have "i < length (ne_nodes reg)"
      by (simp add: node_index_def position_Some)
    from nodes_ok_update [OF ok this, of "(ne_nodes reg ! i)\<lparr>nr_status := NodeRevoked\<rparr>" "[]"]
    show ?thesis
      using OpRevoke Some by (simp add: revoke_node_def Let_def)
  qed
next
  case (OpRotate nid now sys random)
  then show ?thesis
    using ok
    by (auto simp: rotate_credential_def nodes_ok_def Let_def node_index_def position_Some
        generate_node_credential_def split: option.splits)
qed

lemma next_node_id_apply:
  "ne_next_node_id (node_apply sha th reg op) = ne_next_node_id reg
   \<or> ne_next_node_id (node_apply sha th reg op) = ne_next_node_id reg + 1"
  by (cases op)
    (auto simp: create_token_def enroll_def heartbeat_def authenticate_transport_def seen_online_def
      revoke_node_def rotate_credential_def generate_node_credential_def Let_def
      split: option.splits sum.splits)

lemma node_run_ok:
  assumes "nodes_ok reg" "unat (ne_next_node_id reg) + length ops < 2 ^ 64"
  shows "nodes_ok (node_run sha th reg ops)
    \<and> unat (ne_next_node_id (node_run sha th reg ops)) \<le> unat (ne_next_node_id reg) + length ops"
  using assms
proof (induction ops arbitrary: reg)
  case Nil
  then show ?case by (simp add: node_run_def)
next
  case (Cons op ops)
  have n: "ne_next_node_id reg \<noteq> - 1"
  proof
    assume "ne_next_node_id reg = - 1"
    then have "unat (ne_next_node_id reg) = 2 ^ 64 - 1"
      by (simp add: unsigned_minus_1_eq_mask mask_eq_exp_minus_1)
    with Cons.prems(2) show False by simp
  qed
  then have "unat (ne_next_node_id reg + 1) = Suc (unat (ne_next_node_id reg))"
    using unatSuc [of "ne_next_node_id reg"] by (metis add.commute eq_neg_iff_add_eq_0)
  then have "unat (ne_next_node_id (node_apply sha th reg op)) \<le> Suc (unat (ne_next_node_id reg))"
    using next_node_id_apply [of sha th reg op] by auto
  with Cons.IH [OF node_apply_ok [OF Cons.prems(1) n, of sha th op]] Cons.prems(2)
  show ?case by (simp add: node_run_def)
qed

section \<open>What a run keeps\<close>

definition token_spent :: "node_registry \<Rightarrow> u64 \<Rightarrow> bool" where
  "token_spent reg h = (\<exists>t. ne_tokens_by_hash reg h = Some t \<and> etr_used_by_node_id t \<noteq> None)"

fun creates_hash :: "(string \<Rightarrow> u64) \<Rightarrow> u64 \<Rightarrow> node_op \<Rightarrow> bool" where
  "creates_hash th h (OpCreateToken u ttl now random) = (th (random_token random) = h)"
| "creates_hash th h _ = False"

lemma tokens_other_ops:
  "ne_tokens_by_hash (snd (heartbeat reg hr now)) = ne_tokens_by_hash reg"
  "ne_tokens_by_hash (snd (authenticate_transport reg nid fp pr v now)) = ne_tokens_by_hash reg"
  "ne_tokens_by_hash (snd (revoke_node reg nid now)) = ne_tokens_by_hash reg"
  "ne_tokens_by_hash (snd (rotate_credential sha reg nid now sys random)) = ne_tokens_by_hash reg"
  by (simp_all add: heartbeat_def authenticate_transport_def seen_online_def revoke_node_def
      rotate_credential_def generate_node_credential_def Let_def split: option.split sum.split)

lemma enroll_cases:
  obtains e where "enroll sha th reg req now sys random = (Inl e, reg)"
  | t where "ne_tokens_by_hash reg (th (aer_token req)) = Some t" "etr_used_by_node_id t = None"
      "now < etr_expires_at t"
      "fst (enroll sha th reg req now sys random) = Inr
         \<lparr>aep_node_id = ''node-'' @ show_nat (unat (ne_next_node_id reg)),
          aep_credential_fingerprint = credential_fingerprint sha (random_token random),
          aep_credential_secret = random_token random,
          aep_credential_expires_at_unix_secs = credential_expiration_unix_secs sys\<rparr>"
  by (cases "ne_tokens_by_hash reg (th (aer_token req))";
      cases "etr_used_by_node_id (the (ne_tokens_by_hash reg (th (aer_token req))))";
      cases "etr_expires_at (the (ne_tokens_by_hash reg (th (aer_token req)))) \<le> now")
    (simp_all add: enroll_def generate_node_credential_def Let_def)

lemma token_spent_enroll:
  "token_spent reg h \<Longrightarrow> token_spent (snd (enroll sha th reg req now sys random)) h"
  by (auto simp: token_spent_def enroll_def generate_node_credential_def Let_def split: option.splits)

lemma token_spent_apply:
  "token_spent reg h \<Longrightarrow> \<not> creates_hash th h op \<Longrightarrow> token_spent (node_apply sha th reg op) h"
  by (cases op)
    (simp_all add: token_spent_enroll, simp_all add: token_spent_def tokens_other_ops,
      auto simp: create_token_def Let_def)

lemma token_spent_run:
  "token_spent reg h \<Longrightarrow> \<not> list_ex (creates_hash th h) ops \<Longrightarrow> token_spent (node_run sha th reg ops) h"
  by (induction ops arbitrary: reg) (simp_all add: node_run_def token_spent_apply)

lemma token_spent_TokenUsed:
  "token_spent reg (th (aer_token req)) \<Longrightarrow> enroll sha th reg req now sys random = (Inl TokenUsed, reg)"
  by (auto simp: token_spent_def enroll_def)

lemma enroll_spends: "fst (enroll sha th reg req now sys random) = Inr r \<Longrightarrow>
    token_spent (snd (enroll sha th reg req now sys random)) (th (aer_token req))"
  by (auto simp: token_spent_def enroll_def generate_node_credential_def Let_def
      split: option.splits if_splits)

text \<open>A node that is revoked stays so.\<close>

definition node_revoked :: "node_registry \<Rightarrow> string \<Rightarrow> bool" where
  "node_revoked reg nid =
     (\<exists>i. node_index reg nid = Some i \<and> nr_status (ne_nodes reg ! i) = NodeRevoked)"

lemma node_revoked_update:
  assumes "node_revoked reg nid" "ne_nodes reg' = (ne_nodes reg)[i := n]"
    "nr_node_id n = nr_node_id (ne_nodes reg ! i)"
    "nr_status (ne_nodes reg ! i) = NodeRevoked \<Longrightarrow> nr_status n = NodeRevoked"
  shows "node_revoked reg' nid"
proof -
  obtain k where k: "node_index reg nid = Some k" "nr_status (ne_nodes reg ! k) = NodeRevoked"
    using assms(1) by (auto simp: node_revoked_def)
  then have "k < length (ne_nodes reg)"
    by (simp add: node_index_def position_Some)
  moreover have "node_index reg' nid = Some k"
    using k(1) assms(2,3) unfolding node_index_def
    by (metis map_update_same position_map)
  ultimately show ?thesis
    using k(2) assms(2,4) by (cases "k = i") (auto simp: node_revoked_def)
qed

lemma node_revoked_append:
  assumes "node_revoked reg nid" "ne_nodes reg' = ne_nodes reg @ ns"
  shows "node_revoked reg' nid"
proof -
  obtain k where k: "node_index reg nid = Some k" "nr_status (ne_nodes reg ! k) = NodeRevoked"
    using assms(1) by (auto simp: node_revoked_def)
  then have "k < length (ne_nodes reg)"
    by (simp add: node_index_def position_Some)
  with k assms(2) show ?thesis
    by (auto simp: node_revoked_def node_index_def position_append nth_append)
qed

lemma node_revoked_same: "node_revoked reg nid \<Longrightarrow> ne_nodes reg' = ne_nodes reg \<Longrightarrow> node_revoked reg' nid"
  by (simp add: node_revoked_def node_index_def)

lemma nodes_after_enroll:
  "ne_nodes (snd (enroll sha th reg req now sys random)) = ne_nodes reg
   \<or> (\<exists>n. ne_nodes (snd (enroll sha th reg req now sys random)) = ne_nodes reg @ [n])"
  by (auto simp: enroll_def generate_node_credential_def Let_def split: option.split)

lemma nodes_after_heartbeat:
  "ne_nodes (snd (heartbeat reg hr now)) = ne_nodes reg
   \<or> (\<exists>i n. ne_nodes (snd (heartbeat reg hr now)) = (ne_nodes reg)[i := n]
        \<and> nr_node_id n = nr_node_id (ne_nodes reg ! i) \<and> nr_status (ne_nodes reg ! i) \<noteq> NodeRevoked)"
proof (cases "check_credential reg (ahr_node_id hr) (ahr_credential_fingerprint hr)
    (ahr_credential_proof hr) now")
  case (Inl e)
  then show ?thesis by (simp add: heartbeat_def)
next
  case (Inr i)
  from check_credential_Inr [OF this] Inr show ?thesis
    by (intro disjI2 exI [of _ i] exI) (auto simp: heartbeat_def seen_online_def Let_def)
qed

lemma nodes_after_authenticate:
  "ne_nodes (snd (authenticate_transport reg nid fp pr v now)) = ne_nodes reg
   \<or> (\<exists>i n. ne_nodes (snd (authenticate_transport reg nid fp pr v now)) = (ne_nodes reg)[i := n]
        \<and> nr_node_id n = nr_node_id (ne_nodes reg ! i) \<and> nr_status (ne_nodes reg ! i) \<noteq> NodeRevoked)"
proof (cases "check_credential reg nid fp pr now")
  case (Inl e)
  then show ?thesis by (simp add: authenticate_transport_def)
next
  case (Inr i)
  from check_credential_Inr [OF this] Inr show ?thesis
    by (intro disjI2 exI [of _ i] exI) (auto simp: authenticate_transport_def seen_online_def Let_def)
qed

lemma node_revoked_apply:
  assumes "node_revoked reg nid"
  shows "node_revoked (node_apply sha th reg op) nid"
proof (cases op)
  case (OpEnroll req now sys random)
  with nodes_after_enroll [of sha th reg req now sys random] show ?thesis
    by (auto intro: node_revoked_same [OF assms] node_revoked_append [OF assms])
next
  case (OpHeartbeat hr now)
  with nodes_after_heartbeat [of reg hr now] show ?thesis
    by (auto intro: node_revoked_same [OF assms] node_revoked_update [OF assms])
next
  case (OpAuthenticate n fp pr v now)
  with nodes_after_authenticate [of reg n fp pr v now] show ?thesis
    by (auto intro: node_revoked_same [OF assms] node_revoked_update [OF assms])
next
  case (OpRevoke n now)
  show ?thesis
  proof (cases "node_index reg n")
    case None
    with OpRevoke assms show ?thesis by (simp add: revoke_node_def)
  next
    case (Some i)
    then show ?thesis
      using OpRevoke by (auto simp: revoke_node_def Let_def intro: node_revoked_update [OF assms])
  qed
qed (auto simp: create_token_def rotate_credential_def generate_node_credential_def Let_def
      intro: node_revoked_same [OF assms] split: option.split)

lemma node_revoked_run: "node_revoked reg nid \<Longrightarrow> node_revoked (node_run sha th reg ops) nid"
  by (induction ops arbitrary: reg) (simp_all add: node_run_def node_revoked_apply)

lemma revoke_revokes: "fst (revoke_node reg nid now) = Inr v \<Longrightarrow> node_revoked (snd (revoke_node reg nid now)) nid"
proof (cases "node_index reg nid")
  case (Some i)
  then have "i < length (ne_nodes reg)" "nr_node_id (ne_nodes reg ! i) = nid"
    by (simp_all add: node_index_def position_Some)
  moreover have "position (\<lambda>n. nr_node_id n = nid)
      ((ne_nodes reg)[i := (ne_nodes reg ! i)\<lparr>nr_status := NodeRevoked\<rparr>]) = Some i"
    using Some unfolding node_index_def
    by (subst position_map [where ys = "ne_nodes reg"]) (simp_all add: map_update_same)
  ultimately show ?thesis
    using Some by (simp add: revoke_node_def node_revoked_def node_index_def Let_def)
qed (simp add: revoke_node_def)

lemma node_revoked_refuses:
  assumes "node_revoked reg nid"
  shows "check_credential reg nid fp pr now = Inl NodeRevokedError"
    "fst (rotate_credential sha reg nid now sys random) = Inl NodeRevokedError"
    "map_option nv_status (node_details reg nid now) = Some NodeRevoked"
proof -
  obtain i where i: "node_index reg nid = Some i" "nr_status (ne_nodes reg ! i) = NodeRevoked"
    using assms by (auto simp: node_revoked_def)
  then show "check_credential reg nid fp pr now = Inl NodeRevokedError"
    "fst (rotate_credential sha reg nid now sys random) = Inl NodeRevokedError"
    by (simp_all add: check_credential_def rotate_credential_def)
  show "map_option nv_status (node_details reg nid now) = Some NodeRevoked"
    using i by (simp add: node_details_def position_find node_index_def view_now_def node_view_of_def)
qed

section \<open>A node that has just enrolled\<close>

lemma authenticate_Inr_iff:
  "(\<exists>v. fst (authenticate_transport reg nid fp pr ver now) = Inr v)
     \<longleftrightarrow> (\<exists>i. check_credential reg nid fp pr now = Inr i)"
  by (cases "check_credential reg nid fp pr now")
    (simp_all add: authenticate_transport_def split: prod.split)

lemma find_append_last:
  "\<forall>x \<in> set xs. \<not> P x \<Longrightarrow> find P (xs @ [y]) = (if P y then Some y else None)"
  by (induction xs) auto

lemma node_name_inject: "''node-'' @ show_nat a = ''node-'' @ show_nat b \<Longrightarrow> a = b"
proof -
  assume "''node-'' @ show_nat a = ''node-'' @ show_nat b"
  then have "show_nat a = show_nat b"
    by simp
  then show "a = b"
    using parse_show_nat [of a "max a b"] parse_show_nat [of b "max a b"] by simp
qed

lemma enrolled_check_credential:
  assumes ok: "nodes_ok reg"
    and en: "fst (enroll sha th reg req now sys random) = Inr r"
  shows "check_credential (snd (enroll sha th reg req now sys random)) (aep_node_id r) fp pr t =
    (if fp \<noteq> aep_credential_fingerprint r
        \<or> pr \<noteq> credential_proof sha (aep_node_id r) (aep_credential_secret r) then Inl InvalidCredential
     else if now + NODE_CREDENTIAL_TTL \<le> t then Inl CredentialExpired
     else Inr (length (ne_nodes reg)))"
proof -
  let ?reg' = "snd (enroll sha th reg req now sys random)"
  let ?nid = "ne_next_node_id reg" and ?secret = "random_token random"
  let ?name = "''node-'' @ show_nat (unat ?nid)"
  have r: "aep_node_id r = ?name" "aep_credential_fingerprint r = credential_fingerprint sha ?secret"
    "aep_credential_secret r = ?secret"
    using en by (cases rule: enroll_cases [of sha th reg req now sys random]; auto)+
  obtain node c where reg': "ne_nodes ?reg' = ne_nodes reg @ [node]"
      "ne_credentials ?reg' = ne_credentials reg @ [c]"
    and node: "nr_id node = ?nid" "nr_node_id node = ?name" "nr_status node = NodeEnrolled"
    and c: "ncr_node_id c = ?nid" "ncr_fingerprint c = credential_fingerprint sha ?secret"
      "ncr_proof c = credential_proof sha ?name ?secret" "ncr_expires_at c = now + NODE_CREDENTIAL_TTL"
    using en by (auto simp: enroll_def generate_node_credential_def Let_def
        split: option.splits if_splits)
  have ids: "n \<in> set (ne_nodes reg) \<Longrightarrow> nr_id n < ?nid" for n
    using ok by (simp add: nodes_ok_def)
  have "n \<in> set (ne_nodes reg) \<Longrightarrow> nr_node_id n \<noteq> ?name" for n
  proof
    assume n: "n \<in> set (ne_nodes reg)" and name: "nr_node_id n = ?name"
    then have "nr_node_id n = ''node-'' @ show_nat (unat (nr_id n))"
      using ok unfolding nodes_ok_def by blast
    with name have "unat (nr_id n) = unat ?nid"
      by (intro node_name_inject) simp
    with ids [OF n] show False
      by (simp add: word_less_nat_alt)
  qed
  then have "position (\<lambda>n. nr_node_id n = ?name) (ne_nodes reg) = None"
    by (auto simp: position_None)
  then have idx: "node_index ?reg' ?name = Some (length (ne_nodes reg))"
    using node by (simp add: node_index_def reg' position_append_new)
  have "x \<in> set (ne_credentials reg) \<Longrightarrow> ncr_node_id x \<noteq> ?nid" for x
    using ok ids unfolding nodes_ok_def by fastforce
  then have cred: "authenticated_credential ?reg' ?nid pr fp =
      (if credential_fingerprint sha ?secret = fp \<and> credential_proof sha ?name ?secret = pr
       then Some c else None)"
    using c by (auto simp: authenticated_credential_def reg' find_append_last)
  have at: "ne_nodes ?reg' ! length (ne_nodes reg) = node"
    by (simp add: reg')
  show ?thesis
    unfolding check_credential_def r idx option.case Let_def at node(1) cred
    using node(3) c(4) by auto
qed

section \<open>Liveness\<close>

lemma latest_heartbeat_append:
  assumes "\<And>h. h \<in> set (ne_heartbeats reg) \<Longrightarrow> nhr_received_at h \<le> t"
    and "ne_heartbeats reg' = ne_heartbeats reg @ [\<lparr>nhr_node_id = nid, nhr_status = st, nhr_received_at = t\<rparr>]"
    and "st \<noteq> NodeRevoked"
  shows "latest_heartbeat_at reg' nid = Some t"
proof -
  let ?hs = "filter (\<lambda>h. nhr_node_id h = nid \<and> nhr_status h \<noteq> NodeRevoked) (ne_heartbeats reg)"
  have "m \<in> set ?hs" if "max_by (\<lambda>a b. nhr_received_at a \<le> nhr_received_at b) ?hs = Some m" for m
    using that by (rule max_by_mem)
  then have "nhr_received_at m \<le> t"
    if "max_by (\<lambda>a b. nhr_received_at a \<le> nhr_received_at b) ?hs = Some m" for m
    using that assms(1) by fastforce
  then show ?thesis
    using assms(2,3)
    by (auto simp: latest_heartbeat_at_def max_by_append split: option.split)
qed

section \<open>A registry for the witnesses\<close>

definition toy_token_hash :: "string \<Rightarrow> u64" where
  "toy_token_hash s = of_nat (length s)"

definition toy_ops :: "node_op list" where
  "toy_ops = [OpCreateToken toy_user (secs 60) 0 [1]]"

definition toy_request :: agent_enrollment_request where
  "toy_request = \<lparr>aer_token = ''ab'', aer_node_name = ''n'', aer_hostname = ''h'', aer_os = ''o'',
     aer_architecture = ''x'', aer_agent_version = ''v''\<rparr>"

definition toy_registry :: node_registry where
  "toy_registry = node_run toy_sha toy_token_hash node_registry_default toy_ops"

definition toy_enrolled :: node_registry where
  "toy_enrolled = snd (enroll toy_sha toy_token_hash toy_registry toy_request 1 0 [2])"

lemma toy_registry_token:
  "ne_tokens_by_hash toy_registry 2 =
     Some \<lparr>etr_id = 1, etr_created_by_user_id = 1, etr_expires_at = secs 60, etr_used_by_node_id = None\<rparr>"
  by (simp add: toy_registry_def toy_ops_def node_run_def create_token_def toy_token_hash_def
      random_token_def toy_user_def node_registry_default_def Let_def)

lemma toy_registry_nodes: "ne_nodes toy_registry = []" "ne_next_node_id toy_registry = 1"
    "ne_credentials toy_registry = []" "ne_heartbeats toy_registry = []"
  by (simp_all add: toy_registry_def toy_ops_def node_run_def create_token_def
      node_registry_default_def Let_def)

lemma toy_enroll:
  "enroll toy_sha toy_token_hash toy_registry toy_request 1 0 [2] =
     (Inr \<lparr>aep_node_id = ''node-1'',
           aep_credential_fingerprint = credential_fingerprint toy_sha (random_token [2]),
           aep_credential_secret = random_token [2],
           aep_credential_expires_at_unix_secs = credential_expiration_unix_secs 0\<rparr>,
      toy_enrolled)"
proof -
  have "show_nat 1 = ''1''"
    by code_simp
  then show ?thesis
    unfolding toy_enrolled_def prod_eq_iff
    by (simp add: enroll_def toy_request_def toy_token_hash_def toy_registry_token secs_def
        toy_registry_nodes generate_node_credential_def Let_def)
qed

lemma toy_enrolled_fields:
  "ne_nodes toy_enrolled = [\<lparr>nr_id = 1, nr_node_id = ''node-1'', nr_display_name = ''n'',
     nr_hostname = ''h'', nr_os = ''o'', nr_architecture = ''x'', nr_agent_version = ''v'',
     nr_status = NodeEnrolled\<rparr>]"
  "ne_heartbeats toy_enrolled = [\<lparr>nhr_node_id = 1, nhr_status = NodeEnrolled, nhr_received_at = 1\<rparr>]"
  "map ncr_node_id (ne_credentials toy_enrolled) = [1]"
  "map ncr_fingerprint (ne_credentials toy_enrolled) = [credential_fingerprint toy_sha (random_token [2])]"
  "map ncr_proof (ne_credentials toy_enrolled) = [credential_proof toy_sha ''node-1'' (random_token [2])]"
  "map ncr_expires_at (ne_credentials toy_enrolled) = [1 + NODE_CREDENTIAL_TTL]"
proof -
  have "show_nat 1 = ''1''"
    by code_simp
  then show "ne_nodes toy_enrolled = [\<lparr>nr_id = 1, nr_node_id = ''node-1'', nr_display_name = ''n'',
     nr_hostname = ''h'', nr_os = ''o'', nr_architecture = ''x'', nr_agent_version = ''v'',
     nr_status = NodeEnrolled\<rparr>]"
  "ne_heartbeats toy_enrolled = [\<lparr>nhr_node_id = 1, nhr_status = NodeEnrolled, nhr_received_at = 1\<rparr>]"
  "map ncr_node_id (ne_credentials toy_enrolled) = [1]"
  "map ncr_fingerprint (ne_credentials toy_enrolled) = [credential_fingerprint toy_sha (random_token [2])]"
  "map ncr_proof (ne_credentials toy_enrolled) = [credential_proof toy_sha ''node-1'' (random_token [2])]"
  "map ncr_expires_at (ne_credentials toy_enrolled) = [1 + NODE_CREDENTIAL_TTL]"
    unfolding toy_enrolled_def
    by (simp_all add: enroll_def toy_request_def toy_token_hash_def toy_registry_token secs_def
        toy_registry_nodes generate_node_credential_def Let_def)
qed

lemma toy_revoke: "\<exists>v reg'. revoke_node toy_enrolled ''node-1'' 2 = (Inr v, reg')"
  by (simp add: revoke_node_def node_index_def toy_enrolled_fields Let_def)

lemma toy_rotate:
  "\<exists>resp reg'. rotate_credential toy_sha toy_enrolled ''node-1'' 3 0 [9] = (Inr resp, reg')"
  by (simp add: rotate_credential_def node_index_def toy_enrolled_fields
      generate_node_credential_def Let_def)

section \<open>Properties\<close>

text \<open>Over any run of fewer than \<open>2 ^ 64 - 1\<close> operations, node identifiers and names are unique,
  every credential and every spent token belongs to a known node, no token enrolled two nodes and
  no node was enrolled by two tokens; \<open>Offline\<close> is only ever shown, never stored.\<close>

theorem node_registry_is_consistent:
  "length ops < 2 ^ 64 - 1 \<Longrightarrow> reg = node_run sha th node_registry_default ops \<Longrightarrow>
     distinct (map nr_id (ne_nodes reg)) \<and> distinct (map nr_node_id (ne_nodes reg))
     \<and> (\<forall>c \<in> set (ne_credentials reg). ncr_node_id c \<in> nr_id ` set (ne_nodes reg))
     \<and> (\<forall>h t i. ne_tokens_by_hash reg h = Some t \<and> etr_used_by_node_id t = Some i \<longrightarrow>
           i \<in> nr_id ` set (ne_nodes reg)
           \<and> (\<forall>h' t'. ne_tokens_by_hash reg h' = Some t' \<and> etr_used_by_node_id t' = Some i \<longrightarrow> h' = h))
     \<and> (\<forall>n \<in> set (ne_nodes reg). nr_status n \<noteq> NodeOffline)"
proof -
  assume len: "length ops < 2 ^ 64 - 1" and reg: "reg = node_run sha th node_registry_default ops"
  have "unat (ne_next_node_id node_registry_default) = 1"
    by (simp add: node_registry_default_def)
  with len have ok: "nodes_ok reg"
    unfolding reg by (intro node_run_ok [THEN conjunct1] nodes_ok_default) simp
  have names: "nr_node_id n = ''node-'' @ show_nat (unat (nr_id n))" if "n \<in> set (ne_nodes reg)" for n
    using ok that unfolding nodes_ok_def by blast
  have d: "distinct (map nr_id (ne_nodes reg))"
    using ok by (simp add: nodes_ok_def)
  have "inj_on nr_node_id (set (ne_nodes reg))"
  proof (rule inj_onI)
    fix a b
    assume ab: "a \<in> set (ne_nodes reg)" "b \<in> set (ne_nodes reg)" "nr_node_id a = nr_node_id b"
    then have "unat (nr_id a) = unat (nr_id b)"
      by (intro node_name_inject) (simp add: names)
    then have "nr_id a = nr_id b"
      by (simp add: word_unat_eq_iff)
    with d ab show "a = b"
      by (auto simp: distinct_map dest: inj_onD)
  qed
  then have "distinct (map nr_node_id (ne_nodes reg))"
    using d by (simp add: distinct_map)
  with ok show ?thesis
    by (auto simp: nodes_ok_def)
qed

theorem node_registry_is_consistent_witness:
  "distinct (map nr_node_id (ne_nodes toy_registry)) \<and> length toy_ops = 1"
proof -
  have len: "length toy_ops < 2 ^ 64 - 1"
    by (simp add: toy_ops_def)
  show ?thesis
    using node_registry_is_consistent [OF len toy_registry_def] by (simp add: toy_ops_def)
qed

text \<open>C15: An enrollment token is spent by the enrollment that it admits: whatever happens afterwards,
  unless a new token with the same hash is created, it never admits another one.\<close>

theorem enrollment_tokens_are_single_use:
  "enroll sha th reg req now sys random = (Inr r, reg') \<Longrightarrow>
     \<not> list_ex (creates_hash th (th (aer_token req))) ops \<Longrightarrow>
     th (aer_token req') = th (aer_token req) \<Longrightarrow>
     fst (enroll sha th (node_run sha th reg' ops) req' now' sys' random') = Inl TokenUsed
     \<and> snd (enroll sha th (node_run sha th reg' ops) req' now' sys' random') = node_run sha th reg' ops"
proof -
  assume en: "enroll sha th reg req now sys random = (Inr r, reg')"
    and ops: "\<not> list_ex (creates_hash th (th (aer_token req))) ops"
    and th: "th (aer_token req') = th (aer_token req)"
  have "token_spent reg' (th (aer_token req))"
    using enroll_spends [of sha th reg req now sys random r] en by simp
  then have "token_spent (node_run sha th reg' ops) (th (aer_token req'))"
    unfolding th using ops by (rule token_spent_run)
  from token_spent_TokenUsed [of _ th req', OF this] show ?thesis
    by simp
qed

theorem enrollment_tokens_are_single_use_witness:
  "fst (enroll toy_sha toy_token_hash
      (node_run toy_sha toy_token_hash toy_enrolled [OpRevoke ''node-1'' 2]) toy_request 3 0 [4])
   = Inl TokenUsed"
proof -
  have "\<not> list_ex (creates_hash toy_token_hash (toy_token_hash (aer_token toy_request)))
      [OpRevoke ''node-1'' 2]"
    by simp
  from enrollment_tokens_are_single_use [OF toy_enroll this refl]
  show ?thesis by blast
qed

text \<open>C14: Revocation is final: in every later state the node's heartbeats, transport connections and
  credential rotations are refused, with the right credential or a wrong one, and it is shown as
  revoked.\<close>

theorem revoked_node_never_comes_back:
  "revoke_node reg nid now = (Inr v, reg') \<Longrightarrow> ahr_node_id req = nid \<Longrightarrow>
     later = node_run sha th reg' ops \<Longrightarrow>
     fst (heartbeat later req t) = Inl NodeRevokedError
     \<and> fst (authenticate_transport later nid fp pr ver t) = Inl NodeRevokedError
     \<and> fst (rotate_credential sha later nid t sys random) = Inl NodeRevokedError
     \<and> map_option nv_status (node_details later nid t) = Some NodeRevoked
     \<and> \<not> node_is_online later nid t"
proof -
  assume rev: "revoke_node reg nid now = (Inr v, reg')" and nid: "ahr_node_id req = nid"
    and later: "later = node_run sha th reg' ops"
  have "node_revoked reg' nid"
    using revoke_revokes [of reg nid now v] rev by simp
  then have "node_revoked later nid"
    unfolding later by (rule node_revoked_run)
  note refused = node_revoked_refuses [OF this]
  have "\<not> node_is_online later nid t"
    using refused(3) [of t] by (cases "node_details later nid t") (simp_all add: node_is_online_def)
  with refused show ?thesis
    by (simp add: heartbeat_def authenticate_transport_def nid)
qed

theorem revoked_node_never_comes_back_witness:
  "\<exists>reg'. snd (revoke_node toy_enrolled ''node-1'' 2) = reg'
     \<and> fst (authenticate_transport (node_run toy_sha toy_token_hash reg' []) ''node-1''
         (credential_fingerprint toy_sha (random_token [2]))
         (credential_proof toy_sha ''node-1'' (random_token [2])) ''v'' 3) = Inl NodeRevokedError"
proof -
  obtain v reg' where rev: "revoke_node toy_enrolled ''node-1'' 2 = (Inr v, reg')"
    using toy_revoke by blast
  let ?req = "\<lparr>ahr_node_id = ''node-1'', ahr_credential_fingerprint = [], ahr_credential_proof = [],
    ahr_hostname = [], ahr_os = [], ahr_architecture = [], ahr_agent_version = []\<rparr>"
  have nid: "ahr_node_id ?req = ''node-1''"
    by simp
  show ?thesis
    using revoked_node_never_comes_back [OF rev nid refl] rev by auto
qed

text \<open>What enrollment hands out is what authentication asks for: directly after it, the agent is
  admitted with the fingerprint it was given and the proof computed from its node identifier and
  secret until the credential expires, and with nothing else.\<close>

theorem enrolled_agent_authenticates:
  "length ops < 2 ^ 64 - 1 \<Longrightarrow> reg = node_run sha th node_registry_default ops \<Longrightarrow>
     enroll sha th reg req now sys random = (Inr r, reg') \<Longrightarrow>
     (if fp \<noteq> aep_credential_fingerprint r
         \<or> pr \<noteq> credential_proof sha (aep_node_id r) (aep_credential_secret r)
      then fst (authenticate_transport reg' (aep_node_id r) fp pr ver t) = Inl InvalidCredential
      else if now + NODE_CREDENTIAL_TTL \<le> t
      then fst (authenticate_transport reg' (aep_node_id r) fp pr ver t) = Inl CredentialExpired
      else (\<exists>view. fst (authenticate_transport reg' (aep_node_id r) fp pr ver t) = Inr view
              \<and> nv_node_id view = aep_node_id r \<and> nv_status view = NodeOnline
              \<and> nv_agent_version view = ver \<and> nv_display_name view = aer_node_name req))"
proof -
  assume len: "length ops < 2 ^ 64 - 1" and reg: "reg = node_run sha th node_registry_default ops"
    and en: "enroll sha th reg req now sys random = (Inr r, reg')"
  have "unat (ne_next_node_id node_registry_default) = 1"
    by (simp add: node_registry_default_def)
  with len have ok: "nodes_ok reg"
    unfolding reg by (intro node_run_ok [THEN conjunct1] nodes_ok_default) simp
  have en': "fst (enroll sha th reg req now sys random) = Inr r"
    by (simp add: en)
  note check = enrolled_check_credential [OF ok en', of fp pr t, unfolded en snd_conv]
  obtain node where node: "ne_nodes reg' = ne_nodes reg @ [node]" "nr_node_id node = aep_node_id r"
      "nr_display_name node = aer_node_name req"
    using en by (auto simp: enroll_def generate_node_credential_def Let_def
        split: option.splits if_splits)
  show ?thesis
    using check node
    by (auto simp: authenticate_transport_def seen_online_def Let_def node_view_of_def
        NODE_OFFLINE_AFTER_def sb_defs split: if_splits)
qed

theorem enrolled_agent_authenticates_witness:
  "\<exists>view. fst (authenticate_transport toy_enrolled ''node-1''
         (credential_fingerprint toy_sha (random_token [2]))
         (credential_proof toy_sha ''node-1'' (random_token [2])) ''w'' 7) = Inr view
     \<and> nv_status view = NodeOnline"
proof -
  have len: "length toy_ops < 2 ^ 64 - 1"
    by (simp add: toy_ops_def)
  have "\<not> 1 + NODE_CREDENTIAL_TTL \<le> 7"
    by (simp add: NODE_CREDENTIAL_TTL_def secs_def)
  with enrolled_agent_authenticates [OF len toy_registry_def toy_enroll,
      of "credential_fingerprint toy_sha (random_token [2])"
        "credential_proof toy_sha ''node-1'' (random_token [2])" "''w''" 7]
  show ?thesis
    by auto
qed

text \<open>A rotation adds a credential that is good at once and takes none away: every credential
  that was accepted before is accepted until its own expiry, so a leaked one outlives its
  rotation.\<close>

theorem rotation_leaves_old_credentials_valid:
  "rotate_credential sha reg nid now sys random = (Inr resp, reg') \<Longrightarrow>
     (\<exists>v. fst (authenticate_transport reg' nid fp pr ver t) = Inr v) \<longleftrightarrow>
       (\<exists>v. fst (authenticate_transport reg nid fp pr ver t) = Inr v)
       \<or> fp = rnc_fingerprint (ncrr_credential resp)
         \<and> pr = credential_proof sha nid (rnc_secret (ncrr_credential resp))
         \<and> t < now + NODE_CREDENTIAL_TTL
         \<and> fst (authenticate_transport reg nid fp pr ver t) = Inl InvalidCredential"
proof -
  assume rot: "rotate_credential sha reg nid now sys random = (Inr resp, reg')"
  obtain i where i: "node_index reg nid = Some i" "nr_status (ne_nodes reg ! i) \<noteq> NodeRevoked"
    using rot by (auto simp: rotate_credential_def Let_def split: option.splits if_splits)
  let ?node = "ne_nodes reg ! i" and ?P = "\<lambda>c. ncr_node_id c = nr_id (ne_nodes reg ! i)
    \<and> ncr_fingerprint c = fp \<and> ncr_proof c = pr"
  obtain c where reg': "ne_nodes reg' = ne_nodes reg" "ne_credentials reg' = ne_credentials reg @ [c]"
    and c: "ncr_node_id c = nr_id ?node" "ncr_fingerprint c = rnc_fingerprint (ncrr_credential resp)"
      "ncr_proof c = credential_proof sha nid (rnc_secret (ncrr_credential resp))"
      "ncr_expires_at c = now + NODE_CREDENTIAL_TTL"
    using rot i by (auto simp: rotate_credential_def generate_node_credential_def Let_def)
  have idx: "node_index reg' nid = Some i"
    using i(1) by (simp add: node_index_def reg')
  show ?thesis
  proof (cases "find ?P (ne_credentials reg)")
    case (Some old)
    then have "find ?P (ne_credentials reg') = Some old"
      by (simp add: reg' find_append)
    with Some i idx show ?thesis
      unfolding authenticate_Inr_iff
      by (simp add: check_credential_def authenticated_credential_def reg' authenticate_transport_def Let_def)
  next
    case None
    then have "find ?P (ne_credentials reg') = (if ?P c then Some c else None)"
      by (simp add: reg' find_append)
    with None i idx c show ?thesis
      unfolding authenticate_Inr_iff
      by (auto simp: check_credential_def authenticated_credential_def reg' authenticate_transport_def Let_def)
  qed
qed

theorem rotation_leaves_old_credentials_valid_witness:
  "\<exists>resp reg' v. rotate_credential toy_sha toy_enrolled ''node-1'' 3 0 [9] = (Inr resp, reg')
     \<and> fst (authenticate_transport reg' ''node-1''
         (credential_fingerprint toy_sha (random_token [2]))
         (credential_proof toy_sha ''node-1'' (random_token [2])) ''w'' 7) = Inr v"
proof -
  obtain resp reg' where rot: "rotate_credential toy_sha toy_enrolled ''node-1'' 3 0 [9] = (Inr resp, reg')"
    using toy_rotate by blast
  obtain c where c: "ne_credentials toy_enrolled = [c]"
    using toy_enrolled_fields(3) by (cases "ne_credentials toy_enrolled") auto
  have "\<exists>v. fst (authenticate_transport toy_enrolled ''node-1''
         (credential_fingerprint toy_sha (random_token [2]))
         (credential_proof toy_sha ''node-1'' (random_token [2])) ''w'' 7) = Inr v"
    using toy_enrolled_fields(3-6) c
    by (simp add: authenticate_Inr_iff check_credential_def node_index_def toy_enrolled_fields(1)
        authenticated_credential_def NODE_CREDENTIAL_TTL_def secs_def)
  then show ?thesis
    using rotation_leaves_old_credentials_valid [OF rot] rot by blast
qed

text \<open>A node whose heartbeat was just accepted is online for the next 90 seconds, and is shown
  as offline from then on if it is not heard of again.\<close>

theorem node_is_online_for_90_seconds:
  "heartbeat reg req t = (Inr v, reg') \<Longrightarrow>
     list_all (\<lambda>h. nhr_received_at h \<le> t) (ne_heartbeats reg) \<Longrightarrow>
     (node_is_online reg' (ahr_node_id req) t' \<longleftrightarrow> t' < t + secs 90)
     \<and> map_option nv_status (node_details reg' (ahr_node_id req) t')
         = Some (if t' < t + secs 90 then NodeOnline else NodeOffline)"
proof -
  assume hb: "heartbeat reg req t = (Inr v, reg')"
    and mono: "list_all (\<lambda>h. nhr_received_at h \<le> t) (ne_heartbeats reg)"
  obtain i where chk: "check_credential reg (ahr_node_id req) (ahr_credential_fingerprint req)
      (ahr_credential_proof req) t = Inr i"
    using hb by (auto simp: heartbeat_def split: sum.splits)
  note i = check_credential_Inr [OF chk]
  obtain node where node: "ne_nodes reg' = (ne_nodes reg)[i := node]" "nr_status node = NodeOnline"
      "nr_node_id node = ahr_node_id req"
    and hs: "ne_heartbeats reg' = ne_heartbeats reg @
      [\<lparr>nhr_node_id = nr_id node, nhr_status = NodeOnline, nhr_received_at = t\<rparr>]"
    using hb chk i by (auto simp: heartbeat_def seen_online_def Let_def)
  have latest: "latest_heartbeat_at reg' (nr_id node) = Some t"
    by (rule latest_heartbeat_append [OF _ hs]) (use mono in \<open>auto simp: list_all_iff\<close>)
  have "position (\<lambda>n. nr_node_id n = ahr_node_id req) (ne_nodes reg') = Some i"
    using i node(3) unfolding node(1) node_index_def
    by (subst position_map [where ys = "ne_nodes reg"]) (simp_all add: map_update_same)
  then have find: "find (\<lambda>n. nr_node_id n = ahr_node_id req) (ne_nodes reg') = Some node"
    using i by (simp add: position_find node(1))
  have "map_option nv_status (node_details reg' (ahr_node_id req) t')
         = Some (if t' < t + secs 90 then NodeOnline else NodeOffline)"
    using node(2) by (auto simp: node_details_def find view_now_def node_view_of_def latest
        NODE_OFFLINE_AFTER_def elapsed_def secs_def)
  then show ?thesis
    by (auto simp: node_is_online_def split: option.split if_splits)
qed

definition toy_heartbeat :: agent_heartbeat_request where
  "toy_heartbeat = \<lparr>ahr_node_id = ''node-1'',
     ahr_credential_fingerprint = credential_fingerprint toy_sha (random_token [2]),
     ahr_credential_proof = credential_proof toy_sha ''node-1'' (random_token [2]),
     ahr_hostname = ''h'', ahr_os = ''o'', ahr_architecture = ''x'', ahr_agent_version = ''v''\<rparr>"

theorem node_is_online_for_90_seconds_witness:
  "node_is_online (snd (heartbeat toy_enrolled toy_heartbeat 2)) ''node-1'' 3
   \<and> \<not> node_is_online (snd (heartbeat toy_enrolled toy_heartbeat 2)) ''node-1'' (secs 91)"
proof -
  obtain c where c: "ne_credentials toy_enrolled = [c]"
    using toy_enrolled_fields(3) by (cases "ne_credentials toy_enrolled") auto
  obtain v reg' where hb: "heartbeat toy_enrolled toy_heartbeat 2 = (Inr v, reg')"
    using toy_enrolled_fields(3-6) c
    by (simp add: heartbeat_def check_credential_def node_index_def toy_enrolled_fields(1)
        authenticated_credential_def NODE_CREDENTIAL_TTL_def secs_def toy_heartbeat_def split_beta)
  have old: "list_all (\<lambda>h. nhr_received_at h \<le> 2) (ne_heartbeats toy_enrolled)"
    by (simp add: toy_enrolled_fields)
  show ?thesis
    using node_is_online_for_90_seconds [OF hb old, of 3] node_is_online_for_90_seconds [OF hb old, of "secs 91"]
    by (simp add: hb secs_def) (simp add: toy_heartbeat_def)
qed

end
