(* ===== verification/Sb_Config.thy ===== *)
theory Sb_Config
  imports Sb_Sessions Sb_Auth
begin

text \<open>
  Start-up configuration: \<open>sunbolt-control/src/config.rs\<close>, the start-up part of \<open>state.rs\<close>, the
  start-up errors of \<open>error.rs\<close>, and \<open>sunbolt-storage/src/config.rs\<close> with \<open>error.rs\<close>. The
  environment is an argument; whether the database can be connected to and pinged are results that
  the caller supplies, with the database library's error type left open.
\<close>

section \<open>The environment\<close>

text \<open>A variable is absent, valid Unicode, or not; \<open>env::var(name).ok()\<close> sees the second case only.\<close>

datatype env_value = EnvUnicode string | EnvNotUnicode

type_synonym environment = "string \<Rightarrow> env_value option"

definition env_lookup :: "environment \<Rightarrow> string \<Rightarrow> string option" where
  "env_lookup env name = (case env name of Some (EnvUnicode s) \<Rightarrow> Some s | _ \<Rightarrow> None)"

definition env_usize :: "environment \<Rightarrow> string \<Rightarrow> nat option" where
  "env_usize env name = Option.bind (env_lookup env name) (parse_uint (2 ^ 64 - 1))"

definition env_duration_secs :: "environment \<Rightarrow> string \<Rightarrow> duration option" where
  "env_duration_secs env name = map_option secs (env_usize env name)"

section \<open>Storage configuration\<close>

text \<open>\<open>DbErr\<close>, the error type of the database library.\<close>

typedecl db_error

datatype storage_error =
    MissingEnvVar string
  | InvalidEnvVar string string
  | StorageConnect db_error
  | StoragePing db_error
  | StorageRepository string string db_error

record postgres_config =
  pg_database_url :: string
  pg_max_connections :: u32
  pg_min_connections :: u32
  pg_connect_timeout_secs :: u64
  pg_acquire_timeout_secs :: u64

definition required_env :: "environment \<Rightarrow> string \<Rightarrow> storage_error + string" where
  "required_env env name =
     (case env_lookup env name of None \<Rightarrow> Inl (MissingEnvVar name) | Some v \<Rightarrow> Inr v)"

definition parse_u32_env :: "environment \<Rightarrow> string \<Rightarrow> u32 \<Rightarrow> storage_error + u32" where
  "parse_u32_env env name dflt =
     (case env name of
        None \<Rightarrow> Inr dflt
      | Some EnvNotUnicode \<Rightarrow> Inl (InvalidEnvVar name ''<non-utf8>'')
      | Some (EnvUnicode v) \<Rightarrow>
          (case parse_uint (2 ^ 32 - 1) v of
             None \<Rightarrow> Inl (InvalidEnvVar name v)
           | Some n \<Rightarrow> Inr (of_nat n)))"

definition parse_u64_env :: "environment \<Rightarrow> string \<Rightarrow> u64 \<Rightarrow> storage_error + u64" where
  "parse_u64_env env name dflt =
     (case env name of
        None \<Rightarrow> Inr dflt
      | Some EnvNotUnicode \<Rightarrow> Inl (InvalidEnvVar name ''<non-utf8>'')
      | Some (EnvUnicode v) \<Rightarrow>
          (case parse_uint (2 ^ 64 - 1) v of
             None \<Rightarrow> Inl (InvalidEnvVar name v)
           | Some n \<Rightarrow> Inr (of_nat n)))"

definition postgres_config_from_env :: "environment \<Rightarrow> storage_error + postgres_config" where
  "postgres_config_from_env env =
     (case required_env env ''SUNBOLT_DATABASE_URL'' of
        Inl e \<Rightarrow> Inl e
      | Inr url \<Rightarrow>
     (case parse_u32_env env ''SUNBOLT_DB_MAX_CONNECTIONS'' 16 of
        Inl e \<Rightarrow> Inl e
      | Inr max_connections \<Rightarrow>
     (case parse_u32_env env ''SUNBOLT_DB_MIN_CONNECTIONS'' 1 of
        Inl e \<Rightarrow> Inl e
      | Inr min_connections \<Rightarrow>
     (case parse_u64_env env ''SUNBOLT_DB_CONNECT_TIMEOUT_SECS'' 10 of
        Inl e \<Rightarrow> Inl e
      | Inr connect_timeout \<Rightarrow>
     (case parse_u64_env env ''SUNBOLT_DB_ACQUIRE_TIMEOUT_SECS'' 10 of
        Inl e \<Rightarrow> Inl e
      | Inr acquire_timeout \<Rightarrow>
          Inr \<lparr>pg_database_url = url, pg_max_connections = max_connections,
               pg_min_connections = min_connections, pg_connect_timeout_secs = connect_timeout,
               pg_acquire_timeout_secs = acquire_timeout\<rparr>)))))"

section \<open>Runtime mode\<close>

datatype startup_error =
    MissingRequiredEnv string
  | InvalidRuntimeMode string
  | MissingProductionConfig string
  | UnsafeProductionConfig string
  | MissingProductionStorage storage_error
  | StorageUnavailable storage_error
  | NonDurableProductionState string

datatype runtime_mode = Development | Production

definition runtime_mode_parse :: "string \<Rightarrow> startup_error + runtime_mode" where
  "runtime_mode_parse value =
     (if trim value = ''development'' then Inr Development
      else if trim value = ''production'' then Inr Production
      else Inl (InvalidRuntimeMode (''invalid SUNBOLT_ENV `'' @ trim value
                  @ ''`; expected `development` or `production`'')))"

definition runtime_mode_from_env_value :: "string option \<Rightarrow> startup_error + runtime_mode" where
  "runtime_mode_from_env_value value =
     (case value of
        None \<Rightarrow> Inl (MissingRequiredEnv ''SUNBOLT_ENV'')
      | Some v \<Rightarrow> runtime_mode_parse v)"

definition runtime_mode_from_env :: "environment \<Rightarrow> startup_error + runtime_mode" where
  "runtime_mode_from_env env =
     (case env ''SUNBOLT_ENV'' of
        Some (EnvUnicode v) \<Rightarrow> runtime_mode_from_env_value (Some v)
      | None \<Rightarrow> runtime_mode_from_env_value None
      | Some EnvNotUnicode \<Rightarrow>
          Inl (InvalidRuntimeMode ''invalid SUNBOLT_ENV; value must be valid Unicode''))"

definition mode_as_str :: "runtime_mode \<Rightarrow> string" where
  "mode_as_str mode = (case mode of Development \<Rightarrow> ''development'' | Production \<Rightarrow> ''production'')"

definition is_production :: "runtime_mode \<Rightarrow> bool" where
  "is_production mode = (mode = Production)"

section \<open>Durable state\<close>

datatype production_state_backend = Postgres | RecoverableFromDurableSessionStore | RuntimeOnly

definition is_durable_or_recoverable :: "production_state_backend \<Rightarrow> bool" where
  "is_durable_or_recoverable b = (b = Postgres \<or> b = RecoverableFromDurableSessionStore)"

record production_state_config =
  psc_users :: production_state_backend
  psc_auth_sessions :: production_state_backend
  psc_recent_mfa :: production_state_backend
  psc_nodes_and_credentials :: production_state_backend
  psc_terminal_session_metadata :: production_state_backend
  psc_audit_logs :: production_state_backend

definition psc_postgres :: production_state_config where
  "psc_postgres =
     \<lparr>psc_users = Postgres, psc_auth_sessions = Postgres,
      psc_recent_mfa = RecoverableFromDurableSessionStore, psc_nodes_and_credentials = Postgres,
      psc_terminal_session_metadata = Postgres, psc_audit_logs = Postgres\<rparr>"

definition psc_development_runtime_only :: production_state_config where
  "psc_development_runtime_only =
     \<lparr>psc_users = RuntimeOnly, psc_auth_sessions = RuntimeOnly, psc_recent_mfa = RuntimeOnly,
      psc_nodes_and_credentials = RuntimeOnly, psc_terminal_session_metadata = RuntimeOnly,
      psc_audit_logs = RuntimeOnly\<rparr>"

definition required_states :: "production_state_config \<Rightarrow> (string \<times> production_state_backend) list" where
  "required_states c =
     [(''users'', psc_users c), (''auth sessions'', psc_auth_sessions c),
      (''recent MFA state'', psc_recent_mfa c),
      (''nodes and credentials'', psc_nodes_and_credentials c),
      (''terminal session metadata'', psc_terminal_session_metadata c),
      (''audit logs'', psc_audit_logs c)]"

definition validate_for :: "production_state_config \<Rightarrow> runtime_mode \<Rightarrow> startup_error + unit" where
  "validate_for c mode =
     (if \<not> is_production mode then Inr ()
      else (case find (\<lambda>(state, backend). \<not> is_durable_or_recoverable backend) (required_states c) of
              Some (state, _) \<Rightarrow> Inl (NonDurableProductionState state)
            | None \<Rightarrow> Inr ()))"

section \<open>Terminal limits and origins from the environment\<close>

definition or_default :: "'a option \<Rightarrow> 'a \<Rightarrow> 'a" where
  "or_default x d = (case x of None \<Rightarrow> d | Some y \<Rightarrow> y)"

definition terminal_config_from_env :: "environment \<Rightarrow> terminal_session_config" where
  "terminal_config_from_env env =
     \<lparr>max_sessions = or_default (env_usize env ''SUNBOLT_MAX_TERMINAL_SESSIONS'') 16,
      max_sessions_per_user =
        or_default (env_usize env ''SUNBOLT_MAX_TERMINAL_SESSIONS_PER_USER'') 5,
      max_sessions_per_node =
        or_default (env_usize env ''SUNBOLT_MAX_TERMINAL_SESSIONS_PER_NODE'') 10,
      idle_timeout =
        or_default (env_duration_secs env ''SUNBOLT_TERMINAL_IDLE_TIMEOUT_SECS'') (secs (30 * 60)),
      max_duration =
        or_default (env_duration_secs env ''SUNBOLT_TERMINAL_MAX_DURATION_SECS'')
          (secs (8 * 60 * 60)),
      disconnect_grace =
        or_default (env_duration_secs env ''SUNBOLT_TERMINAL_DISCONNECT_GRACE_SECS'') (secs 30)\<rparr>"

definition allowed_origins_from_env :: "environment \<Rightarrow> string list" where
  "allowed_origins_from_env env =
     (case env_lookup env ''SUNBOLT_ALLOWED_ORIGINS'' of
        None \<Rightarrow> []
      | Some s \<Rightarrow>
          if is_blank s then []
          else filter (\<lambda>origin. origin \<noteq> []) (map trim (split_on (CHR '','') s)))"

definition REQUIRED_PRODUCTION_CONFIG_VARS :: "string list" where
  "REQUIRED_PRODUCTION_CONFIG_VARS = [''SUNBOLT_DATABASE_URL'', ''SUNBOLT_PUBLIC_URL'']"

definition validate_runtime_config_for_mode ::
  "runtime_mode \<Rightarrow> auth_config \<Rightarrow> string list \<Rightarrow> (string \<Rightarrow> string option)
   \<Rightarrow> startup_error + unit" where
  "validate_runtime_config_for_mode mode config origins lookup =
     (if \<not> is_production mode then Inr ()
      else (case find (\<lambda>name. case lookup name of None \<Rightarrow> True | Some v \<Rightarrow> is_blank v)
                   REQUIRED_PRODUCTION_CONFIG_VARS of
              Some name \<Rightarrow> Inl (MissingProductionConfig name)
            | None \<Rightarrow>
                if bootstrap_admin_enabled config
                then Inl (UnsafeProductionConfig
                       ''SUNBOLT_DEV_BOOTSTRAP_ADMIN must be false in production'')
                else if \<not> secure_cookie config
                then Inl (UnsafeProductionConfig
                       ''SUNBOLT_COOKIE_SECURE must be true in production'')
                else if origins = [] \<or> list_ex (\<lambda>origin. origin = ''*'') origins
                then Inl (UnsafeProductionConfig
                       ''SUNBOLT_ALLOWED_ORIGINS must list explicit browser origins in production'')
                else Inr ()))"

section \<open>Start-up\<close>

record production_state =
  ps_storage_connected :: bool
  ps_backends :: production_state_config

definition production_state_development :: production_state where
  "production_state_development =
     \<lparr>ps_storage_connected = False, ps_backends = psc_development_runtime_only\<rparr>"

definition required_postgres_config_for_mode ::
  "runtime_mode \<Rightarrow> storage_error + postgres_config \<Rightarrow> startup_error + postgres_config option" where
  "required_postgres_config_for_mode mode loaded =
     (if is_production mode
      then (case loaded of Inl e \<Rightarrow> Inl (MissingProductionStorage e) | Inr c \<Rightarrow> Inr (Some c))
      else Inr None)"

text \<open>\<open>connect\<close> and \<open>ping\<close> are what the database answers for a configuration; the \<open>expect\<close> on the
  configuration is the case \<open>None\<close>, a panic, for which there is no result.\<close>

definition production_state_from_mode ::
  "runtime_mode \<Rightarrow> environment \<Rightarrow> (postgres_config \<Rightarrow> storage_error + unit)
   \<Rightarrow> (postgres_config \<Rightarrow> storage_error + unit)
   \<Rightarrow> (startup_error + production_state) option" where
  "production_state_from_mode mode env connect ping =
     (if \<not> is_production mode then Some (Inr production_state_development)
      else (case validate_for psc_postgres mode of
        Inl e \<Rightarrow> Some (Inl e)
      | Inr _ \<Rightarrow>
     (case required_postgres_config_for_mode mode (postgres_config_from_env env) of
        Inl e \<Rightarrow> Some (Inl e)
      | Inr None \<Rightarrow> None
      | Inr (Some c) \<Rightarrow>
     (case connect c of
        Inl e \<Rightarrow> Some (Inl (StorageUnavailable e))
      | Inr _ \<Rightarrow>
     (case ping c of
        Inl e \<Rightarrow> Some (Inl (StorageUnavailable e))
      | Inr _ \<Rightarrow> Some (Inr \<lparr>ps_storage_connected = True, ps_backends = psc_postgres\<rparr>))))))"

text \<open>\<open>auth_config_for_mode\<close>: the debug assertions fail with a panic, \<open>None\<close>.\<close>

definition auth_config_for_mode :: "runtime_mode \<Rightarrow> auth_config \<Rightarrow> auth_config option" where
  "auth_config_for_mode mode config =
     (if is_production mode \<and> (bootstrap_admin_enabled config \<or> \<not> secure_cookie config)
      then None else Some config)"

text \<open>The part of \<open>AppState\<close> that start-up decides.\<close>

record startup_state =
  ss_runtime_mode :: runtime_mode
  ss_production_state :: production_state
  ss_auth_config :: auth_config
  ss_allowed_origins :: "string list"
  ss_terminal_config :: terminal_session_config

definition try_from_env ::
  "environment \<Rightarrow> (postgres_config \<Rightarrow> storage_error + unit)
   \<Rightarrow> (postgres_config \<Rightarrow> storage_error + unit) \<Rightarrow> (startup_error + startup_state) option" where
  "try_from_env env connect ping =
     (case runtime_mode_from_env env of
        Inl e \<Rightarrow> Some (Inl e)
      | Inr mode \<Rightarrow>
          let config = auth_config_from_env (env_lookup env);
              origins = allowed_origins_from_env env
          in (case validate_runtime_config_for_mode mode config origins (env_lookup env) of
                Inl e \<Rightarrow> Some (Inl e)
              | Inr _ \<Rightarrow>
                  (case production_state_from_mode mode env connect ping of
                     None \<Rightarrow> None
                   | Some (Inl e) \<Rightarrow> Some (Inl e)
                   | Some (Inr ps) \<Rightarrow>
                       (case auth_config_for_mode mode config of
                          None \<Rightarrow> None
                        | Some config' \<Rightarrow>
                            Some (Inr \<lparr>ss_runtime_mode = mode, ss_production_state = ps,
                                   ss_auth_config = config', ss_allowed_origins = origins,
                                   ss_terminal_config = terminal_config_from_env env\<rparr>)))))"

section \<open>Facts\<close>

lemma postgres_durable: "validate_for psc_postgres mode = Inr ()"
  by (simp add: validate_for_def required_states_def psc_postgres_def is_durable_or_recoverable_def)

lemma validate_runtime_Inr:
  assumes "validate_runtime_config_for_mode Production config origins lookup = Inr u"
  shows "\<not> bootstrap_admin_enabled config \<and> secure_cookie config \<and> origins \<noteq> [] \<and> ''*'' \<notin> set origins
    \<and> (\<exists>url. lookup ''SUNBOLT_DATABASE_URL'' = Some url \<and> \<not> is_blank url)
    \<and> (\<exists>url. lookup ''SUNBOLT_PUBLIC_URL'' = Some url \<and> \<not> is_blank url)"
  using assms
  by (auto simp: validate_runtime_config_for_mode_def is_production_def find_None_iff list_ex_iff
      REQUIRED_PRODUCTION_CONFIG_VARS_def split: option.splits if_splits)

lemma auth_service_new_empty:
  assumes "\<not> bootstrap_admin_enabled config"
  shows "fst (login sha (auth_service_new sha config) email password now token) = Inl InvalidCredentials"
  using assms by (simp add: auth_service_new_def login_def auth_store_default_def Let_def)

lemma production_state_Inr:
  assumes "production_state_from_mode Production env connect ping = Some (Inr ps)"
  shows "ps = \<lparr>ps_storage_connected = True, ps_backends = psc_postgres\<rparr>
    \<and> (\<exists>c. postgres_config_from_env env = Inr c \<and> connect c = Inr () \<and> ping c = Inr ())"
  using assms
  by (auto simp: production_state_from_mode_def is_production_def postgres_durable
      required_postgres_config_for_mode_def split: sum.splits)

lemma production_state_not_None: "production_state_from_mode mode env connect ping \<noteq> None"
  by (auto simp: production_state_from_mode_def postgres_durable required_postgres_config_for_mode_def
      split: sum.split)

section \<open>Properties\<close>

text \<open>Start-up comes to a decision for every environment.\<close>

lemma startup_decides: "try_from_env env connect ping \<noteq> None"
proof (cases "runtime_mode_from_env env")
  case (Inl e)
  then show ?thesis by (simp add: try_from_env_def)
next
  case (Inr mode)
  show ?thesis
  proof (cases "validate_runtime_config_for_mode mode (auth_config_from_env (env_lookup env)) (allowed_origins_from_env env) (env_lookup env)")
    case Inl
    with Inr show ?thesis by (simp add: try_from_env_def)
  next
    case valid: (Inr u)
    have "auth_config_for_mode mode (auth_config_from_env (env_lookup env)) \<noteq> None"
      using validate_runtime_Inr [of "auth_config_from_env (env_lookup env)" "allowed_origins_from_env env" "env_lookup env" u] valid
      by (cases mode) (simp_all add: auth_config_for_mode_def is_production_def)
    with Inr valid production_state_not_None [of mode env connect ping] show ?thesis
      by (auto simp: try_from_env_def Let_def split: sum.split option.split)
  qed
qed


definition toy_environment :: environment where
  "toy_environment =
     [''SUNBOLT_ENV'' \<mapsto> EnvUnicode ''production'', ''SUNBOLT_DATABASE_URL'' \<mapsto> EnvUnicode ''pg'',
      ''SUNBOLT_PUBLIC_URL'' \<mapsto> EnvUnicode ''https://a'',
      ''SUNBOLT_DEV_BOOTSTRAP_ADMIN'' \<mapsto> EnvUnicode ''false'',
      ''SUNBOLT_COOKIE_SECURE'' \<mapsto> EnvUnicode ''true'',
      ''SUNBOLT_ALLOWED_ORIGINS'' \<mapsto> EnvUnicode ''https://a,''  ]"

lemma toy_environment_strings:
  "trim ''production'' = ''production''" "\<not> is_blank ''pg''" "\<not> is_blank ''https://a''"
  "to_ascii_lowercase (trim ''false'') = ''false''" "to_ascii_lowercase (trim ''true'') = ''true''"
  "\<not> is_blank ''https://a,''" "trim ''https://a'' = ''https://a''" "trim [] = []"
  "split_on (CHR '','') ''https://a,'' = [''https://a'', []]"
  "filter (\<lambda>origin. origin \<noteq> []) (map trim (split_on (CHR '','') ''https://a,'')) = [''https://a'']"
  by code_simp+

lemma toy_environment_config:
  "allowed_origins_from_env toy_environment = [''https://a'']"
  "bootstrap_admin_enabled (auth_config_from_env (env_lookup toy_environment)) = False"
  "secure_cookie (auth_config_from_env (env_lookup toy_environment)) = True"
  by (simp_all add: allowed_origins_from_env_def env_lookup_def toy_environment_def
      toy_environment_strings auth_config_from_env_def env_bool_def Let_def)

lemma toy_startup:
  "\<exists>st. try_from_env toy_environment (\<lambda>_. Inr ()) (\<lambda>_. Inr ()) = Some (Inr st)
     \<and> ss_runtime_mode st = Production \<and> ss_allowed_origins st = [''https://a'']"
proof -
  have mode: "runtime_mode_from_env toy_environment = Inr Production"
    by (simp add: runtime_mode_from_env_def runtime_mode_from_env_value_def runtime_mode_parse_def
        toy_environment_def toy_environment_strings)
  have valid: "validate_runtime_config_for_mode Production (auth_config_from_env (env_lookup toy_environment))
      (allowed_origins_from_env toy_environment) (env_lookup toy_environment) = Inr ()"
    by (simp add: validate_runtime_config_for_mode_def is_production_def
        REQUIRED_PRODUCTION_CONFIG_VARS_def toy_environment_config)
      (simp add: env_lookup_def toy_environment_def toy_environment_strings)
  obtain c where "postgres_config_from_env toy_environment = Inr c"
    by (simp add: postgres_config_from_env_def required_env_def env_lookup_def parse_u32_env_def
        parse_u64_env_def toy_environment_def)
  then have ps: "\<exists>ps. production_state_from_mode Production toy_environment
      (\<lambda>_. Inr ()) (\<lambda>_. Inr ()) = Some (Inr ps)"
    by (simp add: production_state_from_mode_def is_production_def postgres_durable
        required_postgres_config_for_mode_def)
  then show ?thesis
    using mode valid
    by (auto simp: try_from_env_def auth_config_for_mode_def toy_environment_config Let_def)
qed


end
