(* ===== verification/Sb_Http.thy ===== *)
theory Sb_Http
  imports Sb_Auth
begin

text \<open>
  The HTTP edge of the control plane: \<open>sunbolt-control/src/security.rs\<close> (CSP, origins, CSRF),
  \<open>auth.rs\<close> (session cookie, authorization, the authentication middleware), the middlewares and the
  layering of \<open>routes/mod.rs\<close>, the request identifiers of \<open>observability.rs\<close> and the error texts of
  \<open>error.rs\<close>. The HTTP library is seen through what the code asks of it: the first value of a
  header, as text if it is visible ASCII; setting and appending response headers.
\<close>

section \<open>Requests and responses\<close>

text \<open>\<open>HeaderValue::to_str\<close> gives the text or fails.\<close>

datatype header_value = HeaderText string | HeaderOpaque

type_synonym header_map = "string \<Rightarrow> header_value option"

definition header_str :: "header_map \<Rightarrow> string \<Rightarrow> string option" where
  "header_str hs name = (case hs name of Some (HeaderText t) \<Rightarrow> Some t | _ \<Rightarrow> None)"

record http_request =
  req_method :: string
  req_headers :: header_map
  req_request_id :: "string option"
  req_user :: "user option"

record http_response =
  rsp_status :: nat
  rsp_error :: "string option"
  rsp_headers :: "(string \<times> string) list"

definition error_response :: "nat \<Rightarrow> string \<Rightarrow> http_response" where
  "error_response status text = \<lparr>rsp_status = status, rsp_error = Some text, rsp_headers = []\<rparr>"

definition header_insert :: "string \<Rightarrow> string \<Rightarrow> http_response \<Rightarrow> http_response" where
  "header_insert name v r =
     r\<lparr>rsp_headers := filter (\<lambda>(n, _). n \<noteq> name) (rsp_headers r) @ [(name, v)]\<rparr>"

definition header_append :: "string \<Rightarrow> string \<Rightarrow> http_response \<Rightarrow> http_response" where
  "header_append name v r = r\<lparr>rsp_headers := rsp_headers r @ [(name, v)]\<rparr>"

definition header_values :: "string \<Rightarrow> http_response \<Rightarrow> string list" where
  "header_values name r = map snd (filter (\<lambda>(n, _). n = name) (rsp_headers r))"

section \<open>Content security policy\<close>

definition quoted :: "string \<Rightarrow> string" where
  "quoted t = [CHR 0x27] @ t @ [CHR 0x27]"

definition CSP_BASE_HEADER_VALUE :: string where
  "CSP_BASE_HEADER_VALUE =
     ''default-src '' @ quoted ''self'' @ ''; script-src '' @ quoted ''self'' @ '' ''
     @ quoted ''wasm-unsafe-eval'' @ ''; style-src '' @ quoted ''self'' @ '' ''
     @ quoted ''unsafe-inline'' @ ''; img-src '' @ quoted ''self'' @ '' data:; base-uri ''
     @ quoted ''self'' @ ''; form-action '' @ quoted ''self'' @ ''; object-src '' @ quoted ''none''
     @ ''; frame-ancestors '' @ quoted ''none''"

definition allows_any_origin :: "string list \<Rightarrow> bool" where
  "allows_any_origin origins = (origins = [] \<or> list_ex (\<lambda>origin. origin = ''*'') origins)"

definition push_unique_source :: "string list \<Rightarrow> string \<Rightarrow> string list" where
  "push_unique_source sources source =
     (if list_ex (\<lambda>x. x = source) sources then sources else sources @ [source])"

definition websocket_origin_for :: "string \<Rightarrow> string option" where
  "websocket_origin_for origin =
     (case strip_prefix ''https://'' origin of
        Some rest \<Rightarrow> Some (''wss://'' @ rest)
      | None \<Rightarrow> map_option (\<lambda>rest. ''ws://'' @ rest) (strip_prefix ''http://'' origin))"

fun push_origins :: "string list \<Rightarrow> string list \<Rightarrow> string list" where
  "push_origins sources [] = sources"
| "push_origins sources (origin # origins) =
     (let sources1 = push_unique_source sources origin
      in push_origins
           (case websocket_origin_for origin of
              None \<Rightarrow> sources1
            | Some ws \<Rightarrow> push_unique_source sources1 ws) origins)"

definition self_source :: string where
  "self_source = quoted ''self''"

definition connect_sources :: "string list \<Rightarrow> string list" where
  "connect_sources origins =
     (if allows_any_origin origins then [self_source, ''ws:'', ''wss:'']
      else push_origins [self_source] origins)"

fun join_with :: "string \<Rightarrow> string list \<Rightarrow> string" where
  "join_with sep [] = []"
| "join_with sep [s] = s"
| "join_with sep (s # t # ts) = s @ sep @ join_with sep (t # ts)"

definition content_security_policy :: "string list \<Rightarrow> string" where
  "content_security_policy origins =
     CSP_BASE_HEADER_VALUE @ ''; connect-src '' @ join_with '' '' (connect_sources origins)"

section \<open>Origins and CSRF\<close>

definition request_origin :: "header_map \<Rightarrow> string option" where
  "request_origin hs = header_str hs ''origin''"

definition is_allowed_origin :: "header_map \<Rightarrow> string list \<Rightarrow> bool" where
  "is_allowed_origin hs origins =
     (if allows_any_origin origins then True
      else (case request_origin hs of
              None \<Rightarrow> True
            | Some origin \<Rightarrow> list_ex (\<lambda>x. x = origin) origins))"

definition is_cors_preflight :: "string \<Rightarrow> header_map \<Rightarrow> bool" where
  "is_cors_preflight method hs =
     (method = ''OPTIONS'' \<and> request_origin hs \<noteq> None
      \<and> hs ''access-control-request-method'' \<noteq> None)"

definition CSRF_HEADER_NAME :: string where
  "CSRF_HEADER_NAME = ''x-sunbolt-csrf''"

definition CSRF_HEADER_VALUE :: string where
  "CSRF_HEADER_VALUE = ''1''"

definition has_valid_csrf_header :: "header_map \<Rightarrow> bool" where
  "has_valid_csrf_header hs = (header_str hs CSRF_HEADER_NAME = Some CSRF_HEADER_VALUE)"

section \<open>The session cookie and authorization\<close>

fun cookie_loop :: "string list \<Rightarrow> string option" where
  "cookie_loop [] = None"
| "cookie_loop (cookie # cookies) =
     (case split_once (CHR ''='') (trim cookie) of
        None \<Rightarrow> None
      | Some (name, v) \<Rightarrow> if name = SESSION_COOKIE_NAME then Some v else cookie_loop cookies)"

definition session_token_from_headers :: "header_map \<Rightarrow> string option" where
  "session_token_from_headers hs =
     (case header_str hs ''cookie'' of
        None \<Rightarrow> None
      | Some text \<Rightarrow> cookie_loop (split_on (CHR '';'') text))"

datatype terminal_authorization_error = Unauthorized | Forbidden | StepUpMfaRequired | AuthInternal

fun authorization_status :: "terminal_authorization_error \<Rightarrow> nat" where
  "authorization_status Unauthorized = 401"
| "authorization_status Forbidden = 403"
| "authorization_status StepUpMfaRequired = 403"
| "authorization_status AuthInternal = 500"

fun authorization_message :: "terminal_authorization_error \<Rightarrow> string" where
  "authorization_message Unauthorized = ''terminal websocket authorization failed''"
| "authorization_message Forbidden = ''terminal access is forbidden''"
| "authorization_message StepUpMfaRequired = ''step-up MFA is required before opening a terminal''"
| "authorization_message AuthInternal = ''terminal authorization service unavailable''"

definition authorize_terminal_request ::
  "auth_service \<Rightarrow> header_map \<Rightarrow> instant
   \<Rightarrow> (terminal_authorization_error + user) \<times> auth_service" where
  "authorize_terminal_request sv hs now =
     (case session_token_from_headers hs of
        None \<Rightarrow> (Inl Unauthorized, sv)
      | Some token \<Rightarrow>
          (case current_user sv token now of
             (Inl _, sv1) \<Rightarrow> (Inl AuthInternal, sv1)
           | (Inr None, sv1) \<Rightarrow> (Inl Unauthorized, sv1)
           | (Inr (Some u), sv1) \<Rightarrow>
               if \<not> can_open_terminal u then (Inl Forbidden, sv1)
               else (case can_open_terminal_with_session sv1 u token now of
                       (Inl _, sv2) \<Rightarrow> (Inl AuthInternal, sv2)
                     | (Inr True, sv2) \<Rightarrow> (Inr u, sv2)
                     | (Inr False, sv2) \<Rightarrow>
                         if terminal_step_up_policy_enabled sv2 then (Inl StepUpMfaRequired, sv2)
                         else (Inl Forbidden, sv2))))"

section \<open>Middlewares\<close>

text \<open>What follows a middleware is a function of the request and the state, here the authentication
  service and the rest of the application state.\<close>

type_synonym 's handler = "http_request \<Rightarrow> auth_service \<times> 's \<Rightarrow> http_response \<times> auth_service \<times> 's"

definition require_auth_middleware :: "instant \<Rightarrow> 's handler \<Rightarrow> 's handler" where
  "require_auth_middleware now after req s =
     (case session_token_from_headers (req_headers req) of
        None \<Rightarrow> (error_response 401 ''missing auth session'', s)
      | Some token \<Rightarrow>
          (case current_user (fst s) token now of
             (Inl _, sv1) \<Rightarrow> (error_response 500 ''auth service unavailable'', sv1, snd s)
           | (Inr None, sv1) \<Rightarrow> (error_response 401 ''invalid auth session'', sv1, snd s)
           | (Inr (Some u), sv1) \<Rightarrow> after (req\<lparr>req_user := Some u\<rparr>) (sv1, snd s)))"

definition browser_csrf_middleware :: "'s handler \<Rightarrow> 's handler" where
  "browser_csrf_middleware after req s =
     (if \<not> has_valid_csrf_header (req_headers req)
      then (error_response 403 ''csrf protection failed'', s)
      else after req s)"

definition apply_cors_headers :: "string \<Rightarrow> http_response \<Rightarrow> http_response" where
  "apply_cors_headers origin r =
     header_append ''vary'' ''Origin''
       (header_insert ''access-control-expose-headers'' ''x-request-id''
         (header_insert ''access-control-allow-headers''
            ''content-type, x-request-id, x-sunbolt-csrf''
           (header_insert ''access-control-allow-methods'' ''GET, POST, OPTIONS''
             (header_insert ''access-control-allow-credentials'' ''true''
               (header_insert ''access-control-allow-origin'' origin r)))))"

definition browser_origin_middleware :: "string list \<Rightarrow> 's handler \<Rightarrow> 's handler" where
  "browser_origin_middleware origins after req s =
     (if \<not> is_allowed_origin (req_headers req) origins
      then (error_response 403 ''cross-origin request rejected'', s)
      else
        let origin = request_origin (req_headers req);
            cors = (\<lambda>r. case origin of None \<Rightarrow> r | Some x \<Rightarrow> apply_cors_headers x r)
        in if is_cors_preflight (req_method req) (req_headers req)
           then (cors \<lparr>rsp_status = 204, rsp_error = None, rsp_headers = []\<rparr>, s)
           else let (r, s') = after req s in (cors r, s'))"

definition security_headers_middleware :: "string list \<Rightarrow> 's handler \<Rightarrow> 's handler" where
  "security_headers_middleware origins after req s =
     (let (r, s') = after req s
      in (header_insert ''content-security-policy'' (content_security_policy origins) r, s'))"

text \<open>Request identifiers. \<open>HeaderValue::from_str\<close> accepts every identifier that gets here.\<close>

definition valid_request_id :: "header_value \<Rightarrow> string option" where
  "valid_request_id v =
     (case v of
        HeaderOpaque \<Rightarrow> None
      | HeaderText text \<Rightarrow>
          if text = [] \<or> 128 < length text then None
          else if list_all (\<lambda>c. is_ascii_alphanumeric c
                    \<or> c \<in> {CHR ''-'', CHR ''_'', CHR ''.'', CHR '':''}) text
          then Some text else None)"

fun hex_pad :: "nat \<Rightarrow> nat \<Rightarrow> string" where
  "hex_pad 0 n = []"
| "hex_pad (Suc k) n = hex_pad k (n div 16) @ [hex_digit (n mod 16)]"

definition generate_request_id :: "u64 \<Rightarrow> string \<times> u64" where
  "generate_request_id next_id = (''req-'' @ hex_pad 16 (unat next_id), next_id + 1)"

definition request_id_middleware :: "u64 \<Rightarrow> 's handler \<Rightarrow> http_request \<Rightarrow> auth_service \<times> 's
    \<Rightarrow> (http_response \<times> auth_service \<times> 's) \<times> u64" where
  "request_id_middleware next_id after req s =
     (let (rid, next_id') =
            (case Option.bind (req_headers req ''x-request-id'') valid_request_id of
               Some rid \<Rightarrow> (rid, next_id)
             | None \<Rightarrow> generate_request_id next_id);
          (r, s') = after (req\<lparr>req_request_id := Some rid\<rparr>) s
      in ((header_insert ''x-request-id'' rid r, s'), next_id'))"

text \<open>The span a request is logged under. A field of a span is empty until it is recorded and keeps
  the value recorded last; \<open>route_id\<close> starts as the pattern of the matched route, or the path.\<close>

record request_span =
  sp_request_id :: string
  sp_method :: string
  sp_route_id :: string
  sp_path :: string
  sp_actor_id :: "string option"
  sp_actor_email :: "string option"
  sp_node_id :: "string option"
  sp_session_id :: "string option"
  sp_transport_id :: "string option"

definition make_request_span :: "string option \<Rightarrow> string \<Rightarrow> http_request \<Rightarrow> request_span" where
  "make_request_span matched_path uri_path req =
     \<lparr>sp_request_id = (case req_request_id req of None \<Rightarrow> ''missing'' | Some i \<Rightarrow> i),
      sp_method = req_method req,
      sp_route_id = (case matched_path of None \<Rightarrow> uri_path | Some p \<Rightarrow> p),
      sp_path = uri_path, sp_actor_id = None, sp_actor_email = None, sp_node_id = None,
      sp_session_id = None, sp_transport_id = None\<rparr>"

definition record_actor_email :: "string \<Rightarrow> request_span \<Rightarrow> request_span" where
  "record_actor_email v sp = sp\<lparr>sp_actor_email := Some v\<rparr>"

definition record_node_id :: "string \<Rightarrow> request_span \<Rightarrow> request_span" where
  "record_node_id v sp = sp\<lparr>sp_node_id := Some v\<rparr>"

definition record_session_id :: "string \<Rightarrow> request_span \<Rightarrow> request_span" where
  "record_session_id v sp = sp\<lparr>sp_session_id := Some v\<rparr>"

definition record_transport_id :: "string \<Rightarrow> request_span \<Rightarrow> request_span" where
  "record_transport_id v sp = sp\<lparr>sp_transport_id := Some v\<rparr>"

definition record_route_id :: "string \<Rightarrow> request_span \<Rightarrow> request_span" where
  "record_route_id v sp = sp\<lparr>sp_route_id := v\<rparr>"

text \<open>The trace layer makes the span of a request when it arrives.\<close>

definition trace_layer ::
  "string option \<Rightarrow> string \<Rightarrow> 's handler \<Rightarrow> ('s \<times> request_span option) handler" where
  "trace_layer matched_path uri_path after req s =
     (let (r, sv, s') = after req (fst s, fst (snd s))
      in (r, sv, s', Some (make_request_span matched_path uri_path req)))"

text \<open>The layers of a state-changing browser route, outermost first.\<close>

definition guarded_post :: "string list \<Rightarrow> instant \<Rightarrow> 's handler \<Rightarrow> 's handler" where
  "guarded_post origins now h =
     security_headers_middleware origins
       (browser_origin_middleware origins
         (require_auth_middleware now (browser_csrf_middleware h)))"

section \<open>Response headers\<close>

lemma header_values_insert [simp]:
  "header_values name (header_insert name' v r) =
     (if name = name' then [v] else header_values name r)"
  by (auto simp: header_values_def header_insert_def filter_empty_conv comp_def
      intro!: arg_cong [where f = "map snd"] filter_cong)

lemma header_values_append [simp]:
  "header_values name (header_append name' v r) =
     header_values name r @ (if name = name' then [v] else [])"
  by (simp add: header_values_def header_append_def)

lemma header_values_Nil [simp]: "header_values name \<lparr>rsp_status = st, rsp_error = e, rsp_headers = []\<rparr> = []"
  by (simp add: header_values_def)

lemma cors_status [simp]:
  "rsp_status (apply_cors_headers origin r) = rsp_status r"
  "rsp_status (header_insert n v r) = rsp_status r"
  by (simp_all add: apply_cors_headers_def header_insert_def header_append_def)

lemma cors_allow_origin [simp]:
  "header_values ''access-control-allow-origin'' (apply_cors_headers origin r) = [origin]"
  by (simp add: apply_cors_headers_def)

section \<open>Request identifiers\<close>

lemma length_hex_pad [simp]: "length (hex_pad k n) = k"
  by (induction k arbitrary: n) auto

lemma hex_pad_hexdigits: "list_all is_ascii_hexdigit (hex_pad k n)"
  by (induction k arbitrary: n) (auto simp: hex_digit_hexdigit)

lemma hex_pad_inject:
  "m < 16 ^ k \<Longrightarrow> n < 16 ^ k \<Longrightarrow> hex_pad k m = hex_pad k n \<Longrightarrow> m = n"
proof (induction k arbitrary: m n)
  case (Suc k)
  have "m div 16 = n div 16"
    using Suc.prems by (intro Suc.IH) (simp_all add: less_mult_imp_div_less mult.commute)
  moreover have "m mod 16 = n mod 16"
    using Suc.prems(3) by (simp add: hex_digit_inject)
  ultimately show ?case
    by (metis div_mult_mod_eq)
qed simp

text \<open>A generated identifier is one a client could send, and two counters never give the same one.\<close>

lemma generated_id_valid:
  "valid_request_id (HeaderText (fst (generate_request_id n))) = Some (fst (generate_request_id n))"
proof -
  have "list_all is_ascii_alphanumeric (hex_pad 16 (unat n))"
    using hex_pad_hexdigits [of 16 "unat n"]
    by (fastforce simp: list_all_iff sb_bytes)
  then have "list_all (\<lambda>c. is_ascii_alphanumeric c \<or> c \<in> {CHR ''-'', CHR ''_'', CHR ''.'', CHR '':''})
      (hex_pad 16 (unat n))"
    by (auto simp: list_all_iff)
  moreover have "list_all is_ascii_alphanumeric ''req''"
    by code_simp
  ultimately show ?thesis
    by (simp add: valid_request_id_def generate_request_id_def)
qed

lemma generated_ids_differ:
  "fst (generate_request_id m) = fst (generate_request_id n) \<longleftrightarrow> m = n"
proof -
  have "unat x < 16 ^ 16" for x :: u64
    using unsigned_less [of x] by simp
  then show ?thesis
    using hex_pad_inject [of "unat m" 16 "unat n"] by (auto simp: generate_request_id_def intro: word_unat_eq_iff [THEN iffD2])
qed

lemma valid_request_id_idem: "valid_request_id v = Some i \<Longrightarrow> valid_request_id (HeaderText i) = Some i"
  by (auto simp: valid_request_id_def split: header_value.splits if_splits)

lemma header_insert_values [simp]: "header_values n (header_insert n v r) = [v]"
  by (auto simp: header_values_def header_insert_def split_beta intro: filter_False)

text \<open>Every answer carries one identifier, a valid one, and the rest of the service sees the same one.
  A client that sent a valid identifier gets it back and the counter stays.\<close>

lemma request_id_middleware_answers:
  assumes "request_id_middleware n after req s = ((r, s'), n')"
  obtains i r' where "after (req\<lparr>req_request_id := Some i\<rparr>) s = (r', s')"
    "r = header_insert ''x-request-id'' i r'" "valid_request_id (HeaderText i) = Some i"
    "(Option.bind (req_headers req ''x-request-id'') valid_request_id = Some i \<and> n' = n)
     \<or> (Option.bind (req_headers req ''x-request-id'') valid_request_id = None
        \<and> i = fst (generate_request_id n) \<and> n' = n + 1)"
proof -
  let ?sent = "Option.bind (req_headers req ''x-request-id'') valid_request_id"
  define i where "i = (case ?sent of None \<Rightarrow> fst (generate_request_id n) | Some i \<Rightarrow> i)"
  define k where "k = (case ?sent of None \<Rightarrow> n + 1 | Some _ \<Rightarrow> n)"
  obtain r' s1 where after: "after (req\<lparr>req_request_id := Some i\<rparr>) s = (r', s1)"
    by (rule prod.exhaust)
  have "request_id_middleware n after req s = ((header_insert ''x-request-id'' i r', s1), k)"
    using after by (cases ?sent) (simp_all add: request_id_middleware_def generate_request_id_def i_def k_def)
  then have eq: "r = header_insert ''x-request-id'' i r'" "s' = s1" "n' = k"
    using assms by simp_all
  have "valid_request_id (HeaderText i) = Some i"
    using generated_id_valid [of n]
    by (cases ?sent) (auto simp: i_def bind_eq_Some_conv valid_request_id_idem)
  moreover have "?sent = Some i \<and> n' = n \<or> ?sent = None \<and> i = fst (generate_request_id n) \<and> n' = n + 1"
    by (cases ?sent) (simp_all add: i_def k_def eq)
  ultimately show ?thesis
    using that [of i r'] after eq by blast
qed

section \<open>Cookies\<close>

lemma trim_space: "s = [] \<or> \<not> is_utf8_cont (hd s) \<Longrightarrow> trim (CHR '' '' # s) = trim s"
proof -
  assume s: "s = [] \<or> \<not> is_utf8_cont (hd s)"
  have "takeWhile is_utf8_cont s = []" "dropWhile is_utf8_cont s = s"
    using s by (cases s; simp)+
  then have "utf8_chars (CHR '' '' # s) = [CHR '' ''] # utf8_chars s"
    by simp
  moreover have "is_whitespace [CHR '' '']"
    by code_simp
  ultimately show ?thesis
    by (simp add: trim_def)
qed

text \<open>A cookie of another application, as it stands in a \<open>Cookie\<close> header.\<close>

definition other_cookie :: "string \<Rightarrow> bool" where
  "other_cookie c =
     (trim c = c \<and> CHR '';'' \<notin> set c \<and> c \<noteq> [] \<and> \<not> is_utf8_cont (hd c)
      \<and> (case split_once (CHR ''='') c of None \<Rightarrow> False | Some (n, _) \<Rightarrow> n \<noteq> SESSION_COOKIE_NAME))"

lemma cookie_loop_others:
  "list_all other_cookie cs \<Longrightarrow> cookie_loop (map (\<lambda>c. CHR '' '' # c) cs @ rest) = cookie_loop rest"
  by (induction cs) (auto simp: other_cookie_def trim_space split: option.splits)

definition cookie_header :: "string list \<Rightarrow> string" where
  "cookie_header cs = join_with ''; '' cs"

lemma split_cookie_header:
  "list_all (\<lambda>c. CHR '';'' \<notin> set c) (c # cs) \<Longrightarrow>
     split_on (CHR '';'') (cookie_header (c # cs)) = c # map (\<lambda>c. CHR '' '' # c) cs"
proof (induction cs arbitrary: c)
  case Nil
  then show ?case by (simp add: cookie_header_def split_on_absent)
next
  case (Cons d ds)
  have "split_on (CHR '';'') (CHR '' '' # cookie_header (d # ds)) = (CHR '' '' # d) # map (\<lambda>c. CHR '' '' # c) ds"
    using Cons.IH [of d] Cons.prems by simp
  then have "split_on (CHR '';'') (c @ CHR '';'' # CHR '' '' # cookie_header (d # ds))
      = c # (CHR '' '' # d) # map (\<lambda>c. CHR '' '' # c) ds"
    using Cons.prems by (subst split_on_append) simp_all
  then show ?case
    by (simp add: cookie_header_def)
qed

lemma session_cookie_split:
  "split_once (CHR ''='') (SESSION_COOKIE_NAME @ CHR ''='' # v) = Some (SESSION_COOKIE_NAME, v)"
  by (simp add: split_once_Some_iff SESSION_COOKIE_NAME_def)

lemma cookie_loop_session:
  assumes "trim c = c" "c = SESSION_COOKIE_NAME @ CHR ''='' # v"
  shows "cookie_loop (c # cs) = Some v" "cookie_loop ((CHR '' '' # c) # cs) = Some v"
proof -
  have "\<not> is_utf8_cont (hd c)"
    by (simp add: assms(2) SESSION_COOKIE_NAME_def is_utf8_cont_def byte_of_def)
  then have "trim (CHR '' '' # c) = c"
    using assms(1) by (simp add: trim_space)
  moreover have "split_once (CHR ''='') c = Some (SESSION_COOKIE_NAME, v)"
    unfolding assms(2) by (rule session_cookie_split)
  ultimately show "cookie_loop (c # cs) = Some v" "cookie_loop ((CHR '' '' # c) # cs) = Some v"
    using assms(1) by simp_all
qed

section \<open>Properties\<close>

text \<open>A browser request with an explicit origin that is not configured is refused with 403 before
  any other layer runs and gets no CORS grant; for an allowed origin exactly that origin is
  granted, never a wildcard or another origin, and a preflight never reaches the handler.\<close>

theorem foreign_origins_are_refused:
  "header_str (req_headers req) ''origin'' = Some x \<Longrightarrow>
     (if origins \<noteq> [] \<and> ''*'' \<notin> set origins \<and> x \<notin> set origins
      then rsp_status (fst (browser_origin_middleware origins after req s)) = 403
           \<and> snd (browser_origin_middleware origins after req s) = s
           \<and> header_values ''access-control-allow-origin''
               (fst (browser_origin_middleware origins after req s)) = []
      else header_values ''access-control-allow-origin''
             (fst (browser_origin_middleware origins after req s)) = [x]
           \<and> snd (browser_origin_middleware origins after req s) =
               (if is_cors_preflight (req_method req) (req_headers req) then s
                else snd (after req s)))"
proof -
  assume x: "header_str (req_headers req) ''origin'' = Some x"
  have allowed: "is_allowed_origin (req_headers req) origins \<longleftrightarrow>
      \<not> (origins \<noteq> [] \<and> ''*'' \<notin> set origins \<and> x \<notin> set origins)"
    by (auto simp: is_allowed_origin_def allows_any_origin_def request_origin_def x list_ex_iff)
  show ?thesis
    unfolding browser_origin_middleware_def allowed
    by (simp add: request_origin_def x error_response_def Let_def split_beta)
qed

theorem foreign_origins_are_refused_witness:
  "rsp_status (fst (browser_origin_middleware [''https://a''] (\<lambda>req s. (error_response 200 ''x'', s))
     \<lparr>req_method = ''GET'', req_headers = [''origin'' \<mapsto> HeaderText ''https://b''],
      req_request_id = None, req_user = None\<rparr> (toy_service, ()))) = 403"
proof -
  let ?req = "\<lparr>req_method = ''GET'', req_headers = [''origin'' \<mapsto> HeaderText ''https://b''],
      req_request_id = None, req_user = None\<rparr>"
  have "header_str (req_headers ?req) ''origin'' = Some ''https://b''"
    by (simp add: header_str_def)
  from foreign_origins_are_refused [OF this, of "[''https://a'']"
      "\<lambda>req s. (error_response 200 ''x'', s)" "(toy_service, ())"] show ?thesis
    by simp
qed

text \<open>The handler behind a state-changing route runs only for a request that carries the session
  cookie of a logged-in user and the CSRF header and does not come from a foreign origin; it then
  sees that user. In every other case the application state is what it was.\<close>

theorem guarded_handler_runs_only_when_authorised:
  "(\<exists>u token.
      session_token_from_headers (req_headers req) = Some token
      \<and> fst (current_user sv token now) = Inr (Some u)
      \<and> has_valid_csrf_header (req_headers req)
      \<and> is_allowed_origin (req_headers req) origins
      \<and> \<not> is_cors_preflight (req_method req) (req_headers req)
      \<and> snd (guarded_post origins now h req (sv, x)) =
          snd (h (req\<lparr>req_user := Some u\<rparr>) (snd (current_user sv token now), x))
      \<and> rsp_status (fst (guarded_post origins now h req (sv, x))) =
          rsp_status (fst (h (req\<lparr>req_user := Some u\<rparr>) (snd (current_user sv token now), x))))
   \<or> snd (snd (guarded_post origins now h req (sv, x))) = x
     \<and> rsp_status (fst (guarded_post origins now h req (sv, x))) \<in> {204, 401, 403, 500}"
proof -
  define inner where "inner = browser_csrf_middleware h"
  define auth where "auth = require_auth_middleware now inner"
  have csp: "guarded_post origins now h req (sv, x) =
      (header_insert ''content-security-policy'' (content_security_policy origins)
         (fst (browser_origin_middleware origins auth req (sv, x))),
       snd (browser_origin_middleware origins auth req (sv, x)))"
    by (simp add: guarded_post_def security_headers_middleware_def auth_def inner_def split_beta Let_def)
  show ?thesis
  proof (cases "is_allowed_origin (req_headers req) origins
      \<and> \<not> is_cors_preflight (req_method req) (req_headers req)")
    case False
    then show ?thesis
      unfolding csp
      by (auto simp: browser_origin_middleware_def error_response_def Let_def split: option.split)
  next
    case True
    then have org: "snd (browser_origin_middleware origins auth req (sv, x)) = snd (auth req (sv, x))"
      "rsp_status (fst (browser_origin_middleware origins auth req (sv, x))) = rsp_status (fst (auth req (sv, x)))"
      by (simp_all add: browser_origin_middleware_def Let_def split_beta split: option.split)
    show ?thesis
    proof (cases "\<exists>u token. session_token_from_headers (req_headers req) = Some token
        \<and> fst (current_user sv token now) = Inr (Some u)")
      case True
      then obtain u token where ut: "session_token_from_headers (req_headers req) = Some token"
        "fst (current_user sv token now) = Inr (Some u)" by blast
      have eq: "current_user sv token now = (Inr (Some u), snd (current_user sv token now))"
        using ut(2) by (metis prod.collapse)
      have auth: "auth req (sv, x) = inner (req\<lparr>req_user := Some u\<rparr>) (snd (current_user sv token now), x)"
        unfolding auth_def require_auth_middleware_def ut(1) option.case fst_conv by (subst eq) simp
      show ?thesis
      proof (cases "has_valid_csrf_header (req_headers req)")
        case True
        then show ?thesis
          using ut org \<open>is_allowed_origin _ _ \<and> _\<close>
          by (simp add: csp auth inner_def browser_csrf_middleware_def)
      next
        case False
        then show ?thesis
          by (simp add: csp org auth inner_def browser_csrf_middleware_def error_response_def)
      qed
    next
      case False
      then have "snd (snd (auth req (sv, x))) = x \<and> rsp_status (fst (auth req (sv, x))) \<in> {401, 500}"
        unfolding auth_def require_auth_middleware_def
        by (force simp: error_response_def split: option.split sum.split prod.split)
      then show ?thesis
        by (auto simp: csp org)
    qed
  qed
qed

text \<open>The browser's \<open>Cookie\<close> header gives the session token back, wherever the session cookie
  stands among the cookies of other applications, provided that each cookie before it has an
  equals sign; one nameless cookie before it is enough to lose the session.\<close>

theorem session_cookie_is_found_unless_a_nameless_one_precedes:
  "list_all other_cookie before \<Longrightarrow> list_all (\<lambda>c. CHR '';'' \<notin> set c) behind \<Longrightarrow>
     trim (SESSION_COOKIE_NAME @ CHR ''='' # token) = SESSION_COOKIE_NAME @ CHR ''='' # token \<Longrightarrow>
     CHR '';'' \<notin> set token \<Longrightarrow> CHR ''='' \<notin> set (trim bad) \<Longrightarrow> CHR '';'' \<notin> set bad \<Longrightarrow>
     session_token_from_headers [''cookie'' \<mapsto> HeaderText
        (cookie_header (before @ (SESSION_COOKIE_NAME @ CHR ''='' # token) # behind))] = Some token
     \<and> session_token_from_headers [''cookie'' \<mapsto> HeaderText
        (cookie_header (bad # before @ (SESSION_COOKIE_NAME @ CHR ''='' # token) # behind))] = None"
proof
  assume before: "list_all other_cookie before" and behind: "list_all (\<lambda>c. CHR '';'' \<notin> set c) behind"
    and trimmed: "trim (SESSION_COOKIE_NAME @ CHR ''='' # token) = SESSION_COOKIE_NAME @ CHR ''='' # token"
    and token: "CHR '';'' \<notin> set token" and bad: "CHR ''='' \<notin> set (trim bad)" "CHR '';'' \<notin> set bad"
  let ?c = "SESSION_COOKIE_NAME @ CHR ''='' # token" and ?sp = "map (\<lambda>c. CHR '' '' # c)"
  have clean: "list_all (\<lambda>c. CHR '';'' \<notin> set c) before" "CHR '';'' \<notin> set ?c"
    using before token by (auto simp: list_all_iff other_cookie_def SESSION_COOKIE_NAME_def)
  have "cookie_loop (split_on (CHR '';'') (cookie_header (before @ ?c # behind))) = Some token"
  proof (cases before)
    case Nil
    have "split_on (CHR '';'') (cookie_header (?c # behind)) = ?c # ?sp behind"
      using clean behind by (intro split_cookie_header) simp
    with Nil show ?thesis
      by (simp only: append_Nil cookie_loop_session(1) [OF trimmed refl])
  next
    case (Cons d ds)
    have d: "trim d = d" "\<exists>n v. split_once (CHR ''='') d = Some (n, v) \<and> n \<noteq> SESSION_COOKIE_NAME"
      using before Cons by (auto simp: other_cookie_def split: option.splits)
    have "split_on (CHR '';'') (cookie_header (d # ds @ ?c # behind)) = d # ?sp (ds @ ?c # behind)"
      using clean behind Cons by (intro split_cookie_header) simp
    moreover have "cookie_loop (d # ?sp (ds @ ?c # behind)) = cookie_loop (?sp ds @ (CHR '' '' # ?c) # ?sp behind)"
      using d by auto
    moreover have "\<dots> = cookie_loop ((CHR '' '' # ?c) # ?sp behind)"
      using before Cons by (intro cookie_loop_others) simp
    moreover have "\<dots> = Some token"
      by (rule cookie_loop_session(2) [OF trimmed refl])
    ultimately show ?thesis
      using Cons by simp
  qed
  then show "session_token_from_headers [''cookie'' \<mapsto> HeaderText (cookie_header (before @ ?c # behind))]
      = Some token"
    by (simp add: session_token_from_headers_def header_str_def)
  have "split_on (CHR '';'') (cookie_header (bad # before @ ?c # behind)) = bad # ?sp (before @ ?c # behind)"
    using clean behind bad by (intro split_cookie_header) simp
  moreover have "split_once (CHR ''='') (trim bad) = None"
    using bad by (simp add: split_once_None_iff)
  ultimately show "session_token_from_headers [''cookie'' \<mapsto> HeaderText
      (cookie_header (bad # before @ ?c # behind))] = None"
    by (simp add: session_token_from_headers_def header_str_def)
qed

theorem session_cookie_is_found_unless_a_nameless_one_precedes_witness:
  "session_token_from_headers [''cookie'' \<mapsto> HeaderText
      (cookie_header [''theme=dark'', ''sunbolt_session=abc'', ''b=c''])] = Some ''abc''
   \<and> session_token_from_headers [''cookie'' \<mapsto> HeaderText
      (cookie_header [''flag'', ''theme=dark'', ''sunbolt_session=abc'', ''b=c''])] = None"
proof -
  have before: "list_all other_cookie [''theme=dark'']" and behind: "list_all (\<lambda>c. CHR '';'' \<notin> set c) [''b=c'']"
    and trimmed: "trim (SESSION_COOKIE_NAME @ CHR ''='' # ''abc'') = SESSION_COOKIE_NAME @ CHR ''='' # ''abc''"
    and token: "CHR '';'' \<notin> set ''abc''" and bad: "CHR ''='' \<notin> set (trim ''flag'')" "CHR '';'' \<notin> set ''flag''"
    by code_simp+
  from session_cookie_is_found_unless_a_nameless_one_precedes [OF before behind trimmed token bad]
  show ?thesis
    by (simp add: SESSION_COOKIE_NAME_def)
qed

text \<open>The content security policy of explicit origins allows connections to the page's own
  origin, the configured origins and their WebSocket counterparts, each listed once, and to
  nothing else.\<close>

theorem csp_connects_to_configured_origins_only:
  "origins \<noteq> [] \<Longrightarrow> ''*'' \<notin> set origins \<Longrightarrow>
     distinct (connect_sources origins)
     \<and> set (connect_sources origins) =
         insert self_source (set origins \<union> {ws. \<exists>x \<in> set origins. websocket_origin_for x = Some ws})
     \<and> content_security_policy origins =
         CSP_BASE_HEADER_VALUE @ ''; connect-src '' @ join_with '' '' (connect_sources origins)"
proof -
  assume o: "origins \<noteq> []" "''*'' \<notin> set origins"
  have push: "distinct (push_unique_source xs y) = distinct xs"
    "set (push_unique_source xs y) = insert y (set xs)" for xs y
    by (auto simp: push_unique_source_def list_ex_iff)
  have "distinct (push_origins xs origins) = distinct xs
      \<and> set (push_origins xs origins) =
          set xs \<union> set origins \<union> {ws. \<exists>x \<in> set origins. websocket_origin_for x = Some ws}" for xs origins
    by (induction xs origins rule: push_origins.induct) (auto simp: push Let_def split: option.splits)
  moreover have "connect_sources origins = push_origins [self_source] origins"
    using o by (auto simp: connect_sources_def allows_any_origin_def list_ex_iff)
  ultimately show ?thesis
    by (simp add: content_security_policy_def)
qed

theorem csp_connects_to_configured_origins_only_witness:
  "set (connect_sources [''https://a'']) = {self_source, ''https://a'', ''wss://a''}"
proof -
  have "[''https://a''] \<noteq> []" "''*'' \<notin> set [''https://a'']"
    by simp_all
  moreover have "websocket_origin_for ''https://a'' = Some ''wss://a''"
    by code_simp
  ultimately show ?thesis
    using csp_connects_to_configured_origins_only [of "[''https://a'']"] by auto
qed

end
