(* ===== verification/Sb_Channel.thy ===== *)
theory Sb_Channel
  imports Sb_Prelude
begin

text \<open>
  The bounded message channels between the tasks of the control plane and of the agent
  (\<open>tokio::sync::mpsc\<close>). The channel is a library type and a parameter of the models that use one:
  \<open>mpsc\<close> bundles the operations the code calls (a send that waits for room is
  \<open>try_send\<close> repeated until it succeeds or the channel is closed), and the locale \<open>mpsc_contract\<close> states what the
  documentation of tokio promises of them, through a view of a channel as a mailbox: a capacity, the
  messages sent and not yet received, and whether all senders, or the receiver, have been dropped.
  Inside the locale stand the lemmas the components use; \<open>mailbox_ops\<close> is the interface read off
  the view itself, the instance at which the properties' witnesses are evaluated.
\<close>

section \<open>The interface\<close>

datatype 'a recv = Received 'a | Pending | Ended

record ('c, 'a) mpsc =
  mp_channel :: "nat \<Rightarrow> 'c"
  mp_try_send :: "'a \<Rightarrow> 'c \<Rightarrow> bool \<times> 'c"
  mp_recv :: "'c \<Rightarrow> 'a recv \<times> 'c"
  mp_drop_senders :: "'c \<Rightarrow> 'c"
  mp_drop_receiver :: "'c \<Rightarrow> 'c"
  mp_is_closed :: "'c \<Rightarrow> bool"

record 'a mailbox =
  mb_capacity :: nat
  mb_queue :: "'a list"
  mb_senders_gone :: bool
  mb_receiver_gone :: bool

definition mailbox_new :: "nat \<Rightarrow> 'a mailbox" where
  "mailbox_new n = \<lparr>mb_capacity = n, mb_queue = [], mb_senders_gone = False, mb_receiver_gone = False\<rparr>"

text \<open>\<open>try_send\<close> is refused when the receiver is gone or the buffer is full.\<close>

definition mailbox_accepts :: "'a mailbox \<Rightarrow> bool" where
  "mailbox_accepts m = (\<not> mb_receiver_gone m \<and> length (mb_queue m) < mb_capacity m)"

definition mailbox_send :: "'a \<Rightarrow> 'a mailbox \<Rightarrow> bool \<times> 'a mailbox" where
  "mailbox_send x m =
     (if mailbox_accepts m then (True, m\<lparr>mb_queue := mb_queue m @ [x]\<rparr>) else (False, m))"

text \<open>A receive takes the oldest message; on an empty channel it ends when every sender is gone
  and waits (\<open>recv\<close>) or reports emptiness (\<open>try_recv\<close>) otherwise.\<close>

definition mailbox_recv :: "'a mailbox \<Rightarrow> 'a recv \<times> 'a mailbox" where
  "mailbox_recv m =
     (case mb_queue m of
        [] \<Rightarrow> (if mb_senders_gone m then Ended else Pending, m)
      | x # xs \<Rightarrow> (Received x, m\<lparr>mb_queue := xs\<rparr>))"

definition mailbox_drop_senders :: "'a mailbox \<Rightarrow> 'a mailbox" where
  "mailbox_drop_senders m = m\<lparr>mb_senders_gone := True\<rparr>"

definition mailbox_drop_receiver :: "'a mailbox \<Rightarrow> 'a mailbox" where
  "mailbox_drop_receiver m = m\<lparr>mb_receiver_gone := True, mb_queue := []\<rparr>"

definition mailbox_ops :: "('a mailbox, 'a) mpsc" where
  "mailbox_ops =
     \<lparr>mp_channel = mailbox_new, mp_try_send = mailbox_send, mp_recv = mailbox_recv,
      mp_drop_senders = mailbox_drop_senders, mp_drop_receiver = mailbox_drop_receiver,
      mp_is_closed = mb_receiver_gone\<rparr>"

lemma mailbox_ops_simps [simp]:
  "mp_channel mailbox_ops = mailbox_new"
  "mp_try_send mailbox_ops = mailbox_send"
  "mp_recv mailbox_ops = mailbox_recv"
  "mp_drop_senders mailbox_ops = mailbox_drop_senders"
  "mp_drop_receiver mailbox_ops = mailbox_drop_receiver"
  "mp_is_closed mailbox_ops = mb_receiver_gone"
  by (simp_all add: mailbox_ops_def)

lemma mailbox_new_simps [simp]:
  "mb_capacity (mailbox_new n) = n" "mb_queue (mailbox_new n) = []"
  "mb_senders_gone (mailbox_new n) = False" "mb_receiver_gone (mailbox_new n) = False"
  by (simp_all add: mailbox_new_def)

section \<open>Facts on mailboxes\<close>

text \<open>A mailbox never holds more than its capacity.\<close>

definition mailbox_ok :: "'a mailbox \<Rightarrow> bool" where
  "mailbox_ok m = (length (mb_queue m) \<le> mb_capacity m)"

lemma mailbox_ok_new [simp]: "mailbox_ok (mailbox_new n)"
  by (simp add: mailbox_ok_def)

lemma mailbox_ok_send [simp]: "mailbox_ok m \<Longrightarrow> mailbox_ok (snd (mailbox_send x m))"
  by (auto simp: mailbox_ok_def mailbox_send_def mailbox_accepts_def)

lemma mailbox_ok_recv [simp]: "mailbox_ok m \<Longrightarrow> mailbox_ok (snd (mailbox_recv m))"
  by (auto simp: mailbox_ok_def mailbox_recv_def split: list.split)

lemma mailbox_ok_drops [simp]:
  "mailbox_ok m \<Longrightarrow> mailbox_ok (mailbox_drop_senders m)" "mailbox_ok (mailbox_drop_receiver m)"
  by (simp_all add: mailbox_ok_def mailbox_drop_senders_def mailbox_drop_receiver_def)

lemma queue_send [simp]:
  "mb_queue (snd (mailbox_send x m)) = (if mailbox_accepts m then mb_queue m @ [x] else mb_queue m)"
  by (simp add: mailbox_send_def)

lemma fst_mailbox_send [simp]: "fst (mailbox_send x m) = mailbox_accepts m"
  by (simp add: mailbox_send_def)

lemma queue_recv [simp]: "mb_queue (snd (mailbox_recv m)) = tl (mb_queue m)"
  by (simp add: mailbox_recv_def split: list.split)

lemma flags_send [simp]:
  "mb_capacity (snd (mailbox_send x m)) = mb_capacity m"
  "mb_senders_gone (snd (mailbox_send x m)) = mb_senders_gone m"
  "mb_receiver_gone (snd (mailbox_send x m)) = mb_receiver_gone m"
  by (simp_all add: mailbox_send_def)

lemma flags_recv [simp]:
  "mb_capacity (snd (mailbox_recv m)) = mb_capacity m"
  "mb_senders_gone (snd (mailbox_recv m)) = mb_senders_gone m"
  "mb_receiver_gone (snd (mailbox_recv m)) = mb_receiver_gone m"
  by (simp_all add: mailbox_recv_def split: list.split)

lemma recv_received_iff: "fst (mailbox_recv m) = Received x \<longleftrightarrow> (\<exists>xs. mb_queue m = x # xs)"
  by (auto simp: mailbox_recv_def split: list.split)

section \<open>The contract\<close>

locale mpsc_contract =
  fixes mp :: "('c, 'a) mpsc"
    and view :: "'c \<Rightarrow> 'a mailbox"
  assumes view_channel: "view (mp_channel mp n) = mailbox_new n"
    and view_try_send: "map_prod id view (mp_try_send mp x c) = mailbox_send x (view c)"
    and view_recv: "map_prod id view (mp_recv mp c) = mailbox_recv (view c)"
    and view_drop_senders: "view (mp_drop_senders mp c) = mailbox_drop_senders (view c)"
    and view_drop_receiver: "view (mp_drop_receiver mp c) = mailbox_drop_receiver (view c)"
    and is_closed_view: "mp_is_closed mp c = mb_receiver_gone (view c)"
begin

lemma fst_try_send [simp]: "fst (mp_try_send mp x c) = mailbox_accepts (view c)"
  using view_try_send [of x c]
  by (cases "mp_try_send mp x c") (auto simp: mailbox_send_def split: if_splits)

lemma view_snd_try_send [simp]: "view (snd (mp_try_send mp x c)) = snd (mailbox_send x (view c))"
  using view_try_send [of x c] by (metis snd_map_prod)

lemma fst_recv [simp]: "fst (mp_recv mp c) = fst (mailbox_recv (view c))"
  using view_recv [of c] by (metis fst_map_prod id_apply)

lemma view_snd_recv [simp]: "view (snd (mp_recv mp c)) = snd (mailbox_recv (view c))"
  using view_recv [of c] by (metis snd_map_prod)

end

interpretation mailbox: mpsc_contract mailbox_ops "\<lambda>m. m"
  by unfold_locales (simp_all add: map_prod_def id_def split: prod.splits)

lemma mailbox_contract: "mpsc_contract mailbox_ops (\<lambda>m. m)"
  by (rule mailbox.mpsc_contract_axioms)

end
