(* ===== verification/Sb_Transport.thy ===== *)
theory Sb_Transport
  imports Sb_Protocol Sb_Nodes Sb_Audit Sb_Rate_Limit Sb_Channel
begin

text \<open>
  The agent side of the control plane (\<open>sunbolt-control/src/agent/mod.rs\<close>): the registry of
  connected agents, the negotiation of a transport, the handling of one frame, the long-poll
  endpoint and the websocket connection as a state machine.

  A \<open>RegisteredAgentConnection\<close> is cloned freely and its clones share two channels and, for a long
  poll, a counter. The shared part is a \<open>link\<close> in the list \<open>ts_links\<close>, the connection holds its
  index, \<open>lk_clones\<close> counts the clones alive and \<open>lk_senders\<close> the command senders cloned out of
  them: with the last clone the event receiver is dropped (and both receiving ends of a long-poll
  link), with the last clone and sender the command channel's sending side. The channels are
  tokio's and come in through \<open>transport_env\<close>, as do SHA-256 and serde's parser. One handler call
  runs under one clock reading \<open>now\<close> (and \<open>stamp\<close>, the audit time). A long poll suspends once, to
  wait for a command: it is split there into \<open>long_poll_begin\<close> and \<open>long_poll_finish\<close>, and
  \<open>meanwhile\<close> is what the other tasks do to the shared state in between.
\<close>

section \<open>Constants and types\<close>

definition AGENT_TRANSPORT_CHANNEL_CAPACITY :: nat where
  "AGENT_TRANSPORT_CHANNEL_CAPACITY = 128"

definition AGENT_TRANSPORT_HEARTBEAT_INTERVAL :: duration where
  "AGENT_TRANSPORT_HEARTBEAT_INTERVAL = secs 30"

definition AGENT_TRANSPORT_LIVENESS_TIMEOUT :: duration where
  "AGENT_TRANSPORT_LIVENESS_TIMEOUT = secs 90"

definition AGENT_TRANSPORT_MAX_IN_FLIGHT_MESSAGES :: u32 where
  "AGENT_TRANSPORT_MAX_IN_FLIGHT_MESSAGES = 128"

definition AGENT_TRANSPORT_LONG_POLL_RETRY :: duration where
  "AGENT_TRANSPORT_LONG_POLL_RETRY = secs 1"

definition AGENT_TRANSPORT_LONG_POLL_BATCH :: nat where
  "AGENT_TRANSPORT_LONG_POLL_BATCH = 32"

definition LONG_POLL_DEGRADED_REASON :: string where
  "LONG_POLL_DEGRADED_REASON =
     ''restrictive network fallback active; terminal latency may be higher''"

definition millis :: "duration \<Rightarrow> u64" where
  "millis d = (if d div 1000000 < 2 ^ 64 then of_nat (d div 1000000) else - 1)"

definition heartbeat_timed_out :: "instant \<Rightarrow> instant \<Rightarrow> duration \<Rightarrow> bool" where
  "heartbeat_timed_out now last_heartbeat_at timeout = (timeout \<le> elapsed now last_heartbeat_at)"

datatype agent_transport_connection_error =
  ConnMissingClientHello | ConnInvalidEnvelope | ConnUnsupportedProtocolVersion
  | ConnUnsupportedTransport | ConnAuthenticationFailed | ConnRevoked

datatype agent_connection_registration = Existing | Registered | ReplacedExisting

record registered_agent_connection =
  rac_link :: nat
  rac_transport_id :: agent_transport_id
  rac_transport_kind :: agent_transport_kind
  rac_degraded_reason :: "string option"
  rac_long_poll :: bool

record ('c, 'e) link =
  lk_commands :: 'c
  lk_events :: 'e
  lk_next_message_id :: agent_transport_message_id
  lk_long_poll :: bool
  lk_clones :: nat
  lk_senders :: nat

record ('c, 'e) transport_env =
  te_commands :: "('c, agent_terminal_command) mpsc"
  te_events :: "('e, agent_terminal_event) mpsc"
  te_sha :: hash_fun
  te_parse :: "string \<Rightarrow> agent_transport_envelope option"

record ('c, 'e) transport_state =
  ts_connections :: "(string, registered_agent_connection) hmap"
  ts_links :: "('c, 'e) link list"
  ts_nodes :: node_registry
  ts_audit :: audit_log
  ts_auth_failures :: rate_limiter

record agent_transport_handshake =
  hs_node_id :: node_id
  hs_transport_id :: agent_transport_id
  hs_selected_transport :: agent_transport_kind

datatype transport_frame_outcome =
  HeartbeatReceived agent_transport_message_id | TerminalEventReceived | Ignored

section \<open>The connection registry\<close>

definition terminal_transport_status_of ::
  "registered_agent_connection \<Rightarrow> terminal_transport_status" where
  "terminal_transport_status_of conn =
     \<lparr>tts_kind = rac_transport_kind conn,
      tts_degraded = is_restrictive_network_fallback (rac_transport_kind conn),
      tts_message = rac_degraded_reason conn\<rparr>"

text \<open>Two fresh channels; the connection made of them has one clone, the registry's.\<close>

definition new_link ::
  "('c, 'e) transport_env \<Rightarrow> bool \<Rightarrow> ('c, 'e) transport_state \<Rightarrow> nat \<times> ('c, 'e) transport_state" where
  "new_link env long_poll st =
     (length (ts_links st),
      st\<lparr>ts_links := ts_links st @
           [\<lparr>lk_commands = mp_channel (te_commands env) AGENT_TRANSPORT_CHANNEL_CAPACITY,
             lk_events = mp_channel (te_events env) AGENT_TRANSPORT_CHANNEL_CAPACITY,
             lk_next_message_id = 2, lk_long_poll = long_poll, lk_clones = 1,
             lk_senders = 0\<rparr>]\<rparr>)"

definition update_link ::
  "nat \<Rightarrow> (('c, 'e) link \<Rightarrow> ('c, 'e) link) \<Rightarrow> ('c, 'e) transport_state \<Rightarrow> ('c, 'e) transport_state" where
  "update_link h f st = st\<lparr>ts_links := (ts_links st)[h := f (ts_links st ! h)]\<rparr>"

definition clone_connection ::
  "registered_agent_connection \<Rightarrow> ('c, 'e) transport_state \<Rightarrow> ('c, 'e) transport_state" where
  "clone_connection conn =
     update_link (rac_link conn) (\<lambda>l. l\<lparr>lk_clones := lk_clones l + 1\<rparr>)"

text \<open>The drop of a clone; the last one drops the event receiver, and the command sender unless
  a clone of that is alive, and a long-poll link also owns the opposite ends.\<close>

definition drop_clone :: "('c, 'e) transport_env \<Rightarrow> ('c, 'e) link \<Rightarrow> ('c, 'e) link" where
  "drop_clone env l =
     (if lk_clones l = 1
      then l\<lparr>lk_clones := 0,
             lk_commands :=
               (let c = (if lk_senders l = 0 then mp_drop_senders (te_commands env) (lk_commands l)
                         else lk_commands l)
                in if lk_long_poll l then mp_drop_receiver (te_commands env) c else c),
             lk_events :=
               (let e = mp_drop_receiver (te_events env) (lk_events l)
                in if lk_long_poll l then mp_drop_senders (te_events env) e else e)\<rparr>
      else l\<lparr>lk_clones := lk_clones l - 1\<rparr>)"

definition clone_sender :: "('c, 'e) link \<Rightarrow> ('c, 'e) link" where
  "clone_sender l = l\<lparr>lk_senders := lk_senders l + 1\<rparr>"

definition drop_sender :: "('c, 'e) transport_env \<Rightarrow> ('c, 'e) link \<Rightarrow> ('c, 'e) link" where
  "drop_sender env l =
     (if lk_senders l = 1 \<and> lk_clones l = 0
      then l\<lparr>lk_senders := 0, lk_commands := mp_drop_senders (te_commands env) (lk_commands l)\<rparr>
      else l\<lparr>lk_senders := lk_senders l - 1\<rparr>)"

definition drop_connection ::
  "('c, 'e) transport_env \<Rightarrow> registered_agent_connection \<Rightarrow> ('c, 'e) transport_state
   \<Rightarrow> ('c, 'e) transport_state" where
  "drop_connection env conn = update_link (rac_link conn) (drop_clone env)"

text \<open>\<open>HashMap::insert\<close> drops the connection it replaces.\<close>

definition insert_connection ::
  "('c, 'e) transport_env \<Rightarrow> ('c, 'e) transport_state \<Rightarrow> string \<Rightarrow> registered_agent_connection
   \<Rightarrow> agent_connection_registration \<times> ('c, 'e) transport_state" where
  "insert_connection env st nid conn =
     (let st' = st\<lparr>ts_connections := hm_put nid conn (ts_connections st)\<rparr>
      in case hm_get (ts_connections st) nid of
           Some old \<Rightarrow> (ReplacedExisting, drop_connection env old st')
         | None \<Rightarrow> (Registered, st'))"

definition register_transport ::
  "('c, 'e) transport_env \<Rightarrow> ('c, 'e) transport_state \<Rightarrow> string \<Rightarrow> agent_transport_id
   \<Rightarrow> agent_transport_kind \<Rightarrow> nat \<Rightarrow> agent_connection_registration \<times> ('c, 'e) transport_state" where
  "register_transport env st nid tid kind h =
     insert_connection env st nid
       \<lparr>rac_link = h, rac_transport_id = tid, rac_transport_kind = kind,
        rac_degraded_reason = None, rac_long_poll = False\<rparr>"

definition ensure_long_poll_transport ::
  "('c, 'e) transport_env \<Rightarrow> ('c, 'e) transport_state \<Rightarrow> string \<Rightarrow> agent_transport_id
   \<Rightarrow> (agent_connection_registration \<times> registered_agent_connection) \<times> ('c, 'e) transport_state" where
  "ensure_long_poll_transport env st nid tid =
     (let fresh =
        (let (h, st1) = new_link env True st;
             conn = \<lparr>rac_link = h, rac_transport_id = tid, rac_transport_kind = LongPollHttps,
                     rac_degraded_reason = Some LONG_POLL_DEGRADED_REASON,
                     rac_long_poll = True\<rparr>;
             (registration, st2) = insert_connection env (clone_connection conn st1) nid conn
         in ((registration, conn), st2))
      in case hm_get (ts_connections st) nid of
           Some conn \<Rightarrow>
             if rac_transport_id conn = tid \<and> rac_transport_kind conn = LongPollHttps
             then ((Existing, conn), clone_connection conn st) else fresh
         | None \<Rightarrow> fresh)"

definition connection ::
  "('c, 'e) transport_state \<Rightarrow> string
   \<Rightarrow> registered_agent_connection option \<times> ('c, 'e) transport_state" where
  "connection st nid =
     (case hm_get (ts_connections st) nid of
        None \<Rightarrow> (None, st)
      | Some conn \<Rightarrow> (Some conn, clone_connection conn st))"

definition disconnect ::
  "('c, 'e) transport_env \<Rightarrow> ('c, 'e) transport_state \<Rightarrow> string \<Rightarrow> ('c, 'e) transport_state" where
  "disconnect env st nid =
     (case hm_get (ts_connections st) nid of
        None \<Rightarrow> st
      | Some conn \<Rightarrow>
          drop_connection env conn (st\<lparr>ts_connections := hm_rem nid (ts_connections st)\<rparr>))"

definition disconnect_transport ::
  "('c, 'e) transport_env \<Rightarrow> ('c, 'e) transport_state \<Rightarrow> string \<Rightarrow> agent_transport_id
   \<Rightarrow> bool \<times> ('c, 'e) transport_state" where
  "disconnect_transport env st nid tid =
     (case hm_get (ts_connections st) nid of
        None \<Rightarrow> (False, st)
      | Some conn \<Rightarrow>
          if rac_transport_id conn = tid
          then (True, drop_connection env conn
                        (st\<lparr>ts_connections := hm_rem nid (ts_connections st)\<rparr>))
          else (False, st))"

definition connected_node_ids_except :: "('c, 'e) transport_state \<Rightarrow> string \<Rightarrow> node_id list" where
  "connected_node_ids_except st nid = filter (\<lambda>c. c \<noteq> nid) (map fst (ts_connections st))"

section \<open>Negotiation\<close>

definition transport_error :: "agent_transport_error_code \<Rightarrow> string \<Rightarrow> agent_transport_error" where
  "transport_error code message = \<lparr>ate_code = code, ate_message = message\<rparr>"

fun transport_error_for_connection :: "agent_transport_connection_error \<Rightarrow> agent_transport_error" where
  "transport_error_for_connection ConnMissingClientHello =
     transport_error CodeMalformedMessage ''first agent transport frame must be a valid client hello''"
| "transport_error_for_connection ConnInvalidEnvelope =
     transport_error CodeMalformedMessage ''first agent transport frame must be a valid client hello''"
| "transport_error_for_connection ConnUnsupportedProtocolVersion =
     transport_error CodeUnsupportedProtocolVersion
       ''agent transport protocol version is not supported''"
| "transport_error_for_connection ConnUnsupportedTransport =
     transport_error CodeUnsupportedTransport
       ''agent transport does not support the required transport''"
| "transport_error_for_connection ConnAuthenticationFailed =
     transport_error CodeAuthenticationFailed ''agent transport authentication failed''"
| "transport_error_for_connection ConnRevoked =
     transport_error CodeNodeRevoked ''agent node is revoked''"

definition server_hello :: "agent_transport_handshake \<Rightarrow> agent_transport_server_hello" where
  "server_hello hs =
     \<lparr>sh_accepted_protocol_version = PROTOCOL_VERSION,
      sh_selected_transport = hs_selected_transport hs,
      sh_heartbeat_interval_ms = millis AGENT_TRANSPORT_HEARTBEAT_INTERVAL,
      sh_liveness_timeout_ms = millis AGENT_TRANSPORT_LIVENESS_TIMEOUT,
      sh_max_in_flight_messages = AGENT_TRANSPORT_MAX_IN_FLIGHT_MESSAGES,
      sh_reconnect_policy = production_default,
      sh_resume = ResumeNotRequested\<rparr>"

definition validate_client_hello_for_transport ::
  "agent_transport_client_hello \<Rightarrow> agent_transport_kind
   \<Rightarrow> agent_transport_connection_error + unit" where
  "validate_client_hello_for_transport hello required_transport =
     (if PROTOCOL_VERSION \<notin> set (ch_supported_protocol_versions hello)
      then Inl ConnUnsupportedProtocolVersion
      else if required_transport \<notin> set (ch_supported_transports hello)
      then Inl ConnUnsupportedTransport
      else Inr ())"

fun connection_error_of :: "node_connection_error \<Rightarrow> agent_transport_connection_error" where
  "connection_error_of UnknownNode = ConnAuthenticationFailed"
| "connection_error_of InvalidCredential = ConnAuthenticationFailed"
| "connection_error_of CredentialExpired = ConnAuthenticationFailed"
| "connection_error_of NodeRevokedError = ConnRevoked"

definition authenticate_transport_client ::
  "node_registry \<Rightarrow> node_id \<Rightarrow> agent_transport_client_hello \<Rightarrow> instant
   \<Rightarrow> (agent_transport_connection_error + node_view) \<times> node_registry" where
  "authenticate_transport_client reg nid hello now =
     (case authenticate_transport reg nid (ch_credential_fingerprint hello)
             (ch_credential_proof hello) (ch_agent_version hello) now of
        (Inl e, reg') \<Rightarrow> (Inl (connection_error_of e), reg')
      | (Inr view, reg') \<Rightarrow> (Inr view, reg'))"

definition negotiate_transport_for_kind ::
  "node_registry \<Rightarrow> agent_transport_envelope \<Rightarrow> agent_transport_kind \<Rightarrow> instant
   \<Rightarrow> (agent_transport_connection_error + agent_transport_handshake) \<times> node_registry" where
  "negotiate_transport_for_kind reg e selected_transport now =
     (case envelope_validate e of
        Inl _ \<Rightarrow> (Inl ConnInvalidEnvelope, reg)
      | Inr _ \<Rightarrow>
          (case env_payload e of
             PayloadClientHello hello \<Rightarrow>
               (case validate_client_hello_for_transport hello selected_transport of
                  Inl err \<Rightarrow> (Inl err, reg)
                | Inr _ \<Rightarrow>
                    (case authenticate_transport_client reg (env_node_id e) hello now of
                       (Inl err, reg') \<Rightarrow> (Inl err, reg')
                     | (Inr _, reg') \<Rightarrow>
                         (Inr \<lparr>hs_node_id = env_node_id e, hs_transport_id = env_transport_id e,
                               hs_selected_transport = selected_transport\<rparr>, reg')))
           | _ \<Rightarrow> (Inl ConnMissingClientHello, reg)))"

definition negotiate_transport ::
  "node_registry \<Rightarrow> agent_transport_envelope \<Rightarrow> instant
   \<Rightarrow> (agent_transport_connection_error + agent_transport_handshake) \<times> node_registry" where
  "negotiate_transport reg e = negotiate_transport_for_kind reg e WebSocketTlsTcp443"

section \<open>Authentication failures\<close>

fun authentication_failure_reason :: "agent_transport_connection_error \<Rightarrow> string" where
  "authentication_failure_reason ConnAuthenticationFailed = ''invalid node identity''"
| "authentication_failure_reason ConnRevoked = ''node revoked''"
| "authentication_failure_reason _ = ''not an authentication failure''"

definition transport_audit ::
  "('c, 'e) transport_env \<Rightarrow> u64 \<Rightarrow> audit_event_kind \<Rightarrow> string \<Rightarrow> ('c, 'e) transport_state
   \<Rightarrow> ('c, 'e) transport_state" where
  "transport_audit env stamp kind message st =
     st\<lparr>ts_audit := audit_record (te_sha env) stamp
                     \<lparr>ai_kind = kind, ai_actor_email = None, ai_message = message\<rparr> (ts_audit st)\<rparr>"

text \<open>The result says whether the attempt is over the limit.\<close>

definition record_agent_transport_authentication_failure ::
  "('c, 'e) transport_env \<Rightarrow> ('c, 'e) transport_state \<Rightarrow> node_id \<Rightarrow> agent_transport_id
   \<Rightarrow> agent_transport_connection_error \<Rightarrow> instant \<Rightarrow> u64 \<Rightarrow> bool \<times> ('c, 'e) transport_state" where
  "record_agent_transport_authentication_failure env st nid tid error now stamp =
     (if error \<noteq> ConnAuthenticationFailed \<and> error \<noteq> ConnRevoked then (False, st)
      else
        let (allowed, rl) = check_and_record (ts_auth_failures st) nid now
        in (\<not> allowed,
            transport_audit env stamp AgentAuthenticationFailed
              (if allowed
               then ''agent transport authentication failed for node '' @ nid @ '' on transport ''
                    @ tid @ '': '' @ authentication_failure_reason error
               else ''agent transport authentication rate limit exceeded for node '' @ nid
                    @ '' on transport '' @ tid)
              (st\<lparr>ts_auth_failures := rl\<rparr>)))"

definition transport_error_for_auth_rate_limit ::
  "agent_transport_connection_error \<Rightarrow> bool \<Rightarrow> agent_transport_error" where
  "transport_error_for_auth_rate_limit error rate_limited =
     (if rate_limited
      then transport_error CodeAuthenticationFailed ''too many agent transport authentication failures''
      else transport_error_for_connection error)"

section \<open>One frame from the agent\<close>

definition handle_agent_transport_envelope ::
  "('e, agent_terminal_event) mpsc \<Rightarrow> agent_transport_handshake \<Rightarrow> agent_transport_envelope \<Rightarrow> 'e
   \<Rightarrow> (agent_transport_error + transport_frame_outcome) \<times> 'e" where
  "handle_agent_transport_envelope mp hs e event_tx =
     (case envelope_validate e of
        Inl err \<Rightarrow>
          (Inl (transport_error CodeMalformedMessage
                  (''invalid transport envelope: '' @ protocol_error_text_of err)), event_tx)
      | Inr _ \<Rightarrow>
          if env_node_id e \<noteq> hs_node_id hs \<or> env_transport_id e \<noteq> hs_transport_id hs
          then (Inl (transport_error CodeMalformedMessage
                       ''transport envelope identity does not match connection''), event_tx)
          else
            (case env_payload e of
               PayloadHeartbeat (HeartbeatPing _) \<Rightarrow> (Inr (HeartbeatReceived (env_message_id e)), event_tx)
             | PayloadTerminalEvent _ event \<Rightarrow>
                 (let (sent, event_tx') = mp_try_send mp event event_tx
                  in if sent then (Inr TerminalEventReceived, event_tx')
                     else (Inl (transport_error CodeBackpressureLimitExceeded
                                  ''terminal event channel is full''), event_tx'))
             | _ \<Rightarrow> (Inr Ignored, event_tx)))"

definition transport_command_envelope ::
  "agent_transport_handshake \<Rightarrow> agent_transport_message_id \<Rightarrow> agent_terminal_command
   \<Rightarrow> agent_transport_envelope" where
  "transport_command_envelope hs mid command =
     envelope_current mid (hs_node_id hs) (hs_transport_id hs) (PayloadTerminalCommand command)"

definition pong_envelope ::
  "agent_transport_handshake \<Rightarrow> agent_transport_message_id \<Rightarrow> agent_transport_message_id
   \<Rightarrow> agent_transport_envelope" where
  "pong_envelope hs mid ping_message_id =
     envelope_current mid (hs_node_id hs) (hs_transport_id hs)
       (PayloadHeartbeat (HeartbeatPong ping_message_id 0))"

section \<open>The long poll\<close>

definition next_long_poll_message_id ::
  "('c, 'e) link \<Rightarrow> agent_transport_message_id \<times> ('c, 'e) link" where
  "next_long_poll_message_id l =
     (lk_next_message_id l, l\<lparr>lk_next_message_id := message_id_next (lk_next_message_id l)\<rparr>)"

definition push_envelope ::
  "(agent_transport_message_id \<Rightarrow> agent_transport_envelope)
   \<Rightarrow> agent_transport_envelope list \<times> ('c, 'e) link \<Rightarrow> agent_transport_envelope list \<times> ('c, 'e) link" where
  "push_envelope f s =
     (let (mid, l) = next_long_poll_message_id (snd s) in (fst s @ [f mid], l))"

definition handle_long_poll_event ::
  "('c, 'e) transport_env \<Rightarrow> agent_transport_handshake
   \<Rightarrow> agent_transport_envelope list \<times> ('c, 'e) link \<Rightarrow> agent_transport_envelope
   \<Rightarrow> agent_transport_envelope list \<times> ('c, 'e) link" where
  "handle_long_poll_event env hs s e =
     (let (result, events) = handle_agent_transport_envelope (te_events env) hs e (lk_events (snd s));
          s' = (fst s, (snd s)\<lparr>lk_events := events\<rparr>)
      in case result of
           Inr (HeartbeatReceived ping) \<Rightarrow> push_envelope (\<lambda>mid. pong_envelope hs mid ping) s'
         | Inr _ \<Rightarrow> s'
         | Inl err \<Rightarrow>
             push_envelope
               (\<lambda>mid. envelope_current mid (hs_node_id hs) (hs_transport_id hs) (PayloadError err)) s')"

definition push_command ::
  "agent_transport_handshake \<Rightarrow> agent_terminal_command
   \<Rightarrow> agent_transport_envelope list \<times> ('c, 'e) link \<Rightarrow> agent_transport_envelope list \<times> ('c, 'e) link" where
  "push_command hs x = push_envelope (\<lambda>mid. transport_command_envelope hs mid x)"

text \<open>The \<open>while envelopes.len() < 32\<close> loop: each round pushes an envelope or leaves.\<close>

function drain_commands ::
  "('c, 'e) transport_env \<Rightarrow> agent_transport_handshake
   \<Rightarrow> agent_transport_envelope list \<times> ('c, 'e) link \<Rightarrow> agent_transport_envelope list \<times> ('c, 'e) link" where
  "drain_commands env hs s =
     (if length (fst s) < AGENT_TRANSPORT_LONG_POLL_BATCH
      then (case mp_recv (te_commands env) (lk_commands (snd s)) of
              (Received x, c) \<Rightarrow>
                drain_commands env hs (push_command hs x (fst s, (snd s)\<lparr>lk_commands := c\<rparr>))
            | (_, c) \<Rightarrow> (fst s, (snd s)\<lparr>lk_commands := c\<rparr>))
      else s)"
  by pat_completeness auto
termination
  by (relation "measure (\<lambda>(env, hs, s). AGENT_TRANSPORT_LONG_POLL_BATCH - length (fst s))")
    (auto simp: push_command_def push_envelope_def next_long_poll_message_id_def Let_def)

declare drain_commands.simps [simp del]

text \<open>With nothing but the hello to say, the poll has waited for a first command.\<close>

definition append_long_poll_commands ::
  "('c, 'e) transport_env \<Rightarrow> agent_transport_handshake
   \<Rightarrow> agent_transport_envelope list \<times> ('c, 'e) link \<Rightarrow> agent_transport_envelope list \<times> ('c, 'e) link" where
  "append_long_poll_commands env hs s =
     drain_commands env hs
       (if length (fst s) = 1
        then (case mp_recv (te_commands env) (lk_commands (snd s)) of
                (Received x, c) \<Rightarrow> push_command hs x (fst s, (snd s)\<lparr>lk_commands := c\<rparr>)
              | (_, c) \<Rightarrow> (fst s, (snd s)\<lparr>lk_commands := c\<rparr>))
        else s)"

fun kind_debug :: "agent_transport_kind \<Rightarrow> string" where
  "kind_debug WebSocketTlsTcp443 = ''WebSocketTlsTcp443''"
| "kind_debug Http2TlsTcp443 = ''Http2TlsTcp443''"
| "kind_debug QuicUdp443 = ''QuicUdp443''"
| "kind_debug LongPollHttps = ''LongPollHttps''"

definition audit_replaced ::
  "('c, 'e) transport_env \<Rightarrow> u64 \<Rightarrow> agent_connection_registration \<Rightarrow> node_id
   \<Rightarrow> ('c, 'e) transport_state \<Rightarrow> ('c, 'e) transport_state" where
  "audit_replaced env stamp registration nid st =
     (if registration = ReplacedExisting
      then transport_audit env stamp KindAgentDisconnected
             (''duplicate agent transport replaced existing connection for node '' @ nid) st
      else st)"

definition audit_negotiated ::
  "('c, 'e) transport_env \<Rightarrow> u64 \<Rightarrow> agent_transport_handshake
   \<Rightarrow> ('c, 'e) transport_state \<Rightarrow> ('c, 'e) transport_state" where
  "audit_negotiated env stamp hs =
     transport_audit env stamp AgentTransportNegotiated
       (''agent transport '' @ hs_transport_id hs @ '' negotiated for node '' @ hs_node_id hs
        @ '' using '' @ kind_debug (hs_selected_transport hs))"

definition record_long_poll_registration ::
  "('c, 'e) transport_env \<Rightarrow> u64 \<Rightarrow> agent_connection_registration \<Rightarrow> agent_transport_handshake
   \<Rightarrow> ('c, 'e) transport_state \<Rightarrow> ('c, 'e) transport_state" where
  "record_long_poll_registration env stamp registration hs st =
     (if registration = Existing then st
      else transport_audit env stamp AgentConnected
             (''agent node '' @ hs_node_id hs @ '' connected on degraded long-poll transport ''
              @ hs_transport_id hs)
             (audit_negotiated env stamp hs
               (audit_replaced env stamp registration (hs_node_id hs) st)))"

definition long_poll_response :: "agent_transport_envelope list \<Rightarrow> agent_transport_long_poll_response" where
  "long_poll_response es =
     \<lparr>lps_envelopes = es, lps_retry_after_ms = millis AGENT_TRANSPORT_LONG_POLL_RETRY,
      lps_degraded = True, lps_degraded_reason = Some LONG_POLL_DEGRADED_REASON\<rparr>"

definition hello_envelope ::
  "agent_transport_handshake \<Rightarrow> agent_transport_message_id \<Rightarrow> agent_transport_envelope" where
  "hello_envelope hs mid =
     envelope_current mid (hs_node_id hs) (hs_transport_id hs) (PayloadServerHello (server_hello hs))"

text \<open>A poll that has sent its hello and handled the agent's events.\<close>

record pending_poll =
  pp_handshake :: agent_transport_handshake
  pp_connection :: registered_agent_connection
  pp_envelopes :: "agent_transport_envelope list"

definition poll_events ::
  "('c, 'e) transport_env \<Rightarrow> agent_transport_handshake \<Rightarrow> agent_transport_envelope list
   \<Rightarrow> ('c, 'e) link \<Rightarrow> agent_transport_envelope list \<times> ('c, 'e) link" where
  "poll_events env hs events l =
     foldl (handle_long_poll_event env hs) (push_envelope (hello_envelope hs) ([], l)) events"

definition long_poll_begin ::
  "('c, 'e) transport_env \<Rightarrow> ('c, 'e) transport_state \<Rightarrow> agent_transport_long_poll_request
   \<Rightarrow> instant \<Rightarrow> u64
   \<Rightarrow> (agent_transport_connection_error + pending_poll) \<times> ('c, 'e) transport_state" where
  "long_poll_begin env st request now stamp =
     (case negotiate_transport_for_kind (ts_nodes st) (lpq_client_hello request) LongPollHttps now of
        (Inl err, reg) \<Rightarrow> (Inl err, st\<lparr>ts_nodes := reg\<rparr>)
      | (Inr hs, reg) \<Rightarrow>
          (case ensure_long_poll_transport env (st\<lparr>ts_nodes := reg\<rparr>) (hs_node_id hs)
                  (hs_transport_id hs) of
             ((registration, conn), st1) \<Rightarrow>
               let st2 = record_long_poll_registration env stamp registration hs st1
               in if \<not> rac_long_poll conn
                  then (Inl ConnUnsupportedTransport, drop_connection env conn st2)
                  else
                    let (es, l) = poll_events env hs (lpq_events request) (ts_links st2 ! rac_link conn)
                    in (Inr \<lparr>pp_handshake = hs, pp_connection = conn, pp_envelopes = es\<rparr>,
                        update_link (rac_link conn) (\<lambda>_. l) st2)))"

definition long_poll_finish ::
  "('c, 'e) transport_env \<Rightarrow> ('c, 'e) transport_state \<Rightarrow> pending_poll
   \<Rightarrow> agent_transport_long_poll_response \<times> ('c, 'e) transport_state" where
  "long_poll_finish env st pp =
     (let conn = pp_connection pp;
          (es, l) = append_long_poll_commands env (pp_handshake pp)
                      (pp_envelopes pp, ts_links st ! rac_link conn)
      in (long_poll_response es,
          drop_connection env conn (update_link (rac_link conn) (\<lambda>_. l) st)))"

definition handle_agent_transport_long_poll_request ::
  "('c, 'e) transport_env \<Rightarrow> ('c, 'e) transport_state \<Rightarrow> agent_transport_long_poll_request
   \<Rightarrow> (('c, 'e) transport_state \<Rightarrow> ('c, 'e) transport_state) \<Rightarrow> instant \<Rightarrow> u64
   \<Rightarrow> (agent_transport_connection_error + agent_transport_long_poll_response)
      \<times> ('c, 'e) transport_state" where
  "handle_agent_transport_long_poll_request env st request meanwhile now stamp =
     (case long_poll_begin env st request now stamp of
        (Inl err, st') \<Rightarrow> (Inl err, st')
      | (Inr pp, st') \<Rightarrow>
          let (response, st'') = long_poll_finish env (meanwhile st') pp in (Inr response, st''))"

text \<open>The endpoint: status and body.\<close>

definition agent_transport_long_poll ::
  "('c, 'e) transport_env \<Rightarrow> ('c, 'e) transport_state \<Rightarrow> agent_transport_long_poll_request
   \<Rightarrow> (('c, 'e) transport_state \<Rightarrow> ('c, 'e) transport_state) \<Rightarrow> instant \<Rightarrow> u64
   \<Rightarrow> (nat \<times> agent_transport_long_poll_response) \<times> ('c, 'e) transport_state" where
  "agent_transport_long_poll env st request meanwhile now stamp =
     (let nid = env_node_id (lpq_client_hello request);
          tid = env_transport_id (lpq_client_hello request)
      in case handle_agent_transport_long_poll_request env st request meanwhile now stamp of
           (Inr response, st') \<Rightarrow> ((200, response), st')
         | (Inl err, st') \<Rightarrow>
             (let (rate_limited, st'') =
                record_agent_transport_authentication_failure env st' nid tid err now stamp
              in ((if rate_limited then 429 else 400,
                   long_poll_response
                     [envelope_current message_id_first nid tid
                        (PayloadError (transport_error_for_auth_rate_limit err rate_limited))]),
                  st'')))"

section \<open>The websocket connection\<close>

text \<open>A connection in its \<open>select!\<close> loop. The inputs are what the loop can wake up for, with what
  the websocket library answers to the send that follows: a message, an error or the end of the
  stream, a command on the channel, the liveness tick.\<close>

datatype ws_message = WsText string | WsOther

record socket_connection =
  so_handshake :: agent_transport_handshake
  so_link :: nat
  so_next_message_id :: agent_transport_message_id
  so_last_heartbeat_at :: instant

datatype socket_input =
  SocketMessage ws_message bool instant
  | SocketError string
  | SocketEnd
  | SocketCommand bool
  | SocketTick instant

definition parse_transport_envelope ::
  "('c, 'e) transport_env \<Rightarrow> ws_message
   \<Rightarrow> agent_transport_connection_error + agent_transport_envelope" where
  "parse_transport_envelope env m =
     (case m of
        WsText text \<Rightarrow>
          (case te_parse env text of None \<Rightarrow> Inl ConnInvalidEnvelope | Some e \<Rightarrow> Inr e)
      | WsOther \<Rightarrow> Inl ConnInvalidEnvelope)"

text \<open>Leaving the handler drops its ends of the channels.\<close>

definition drop_socket_ends ::
  "('c, 'e) transport_env \<Rightarrow> nat \<Rightarrow> ('c, 'e) transport_state \<Rightarrow> ('c, 'e) transport_state" where
  "drop_socket_ends env h =
     update_link h (\<lambda>l. l\<lparr>lk_commands := mp_drop_receiver (te_commands env) (lk_commands l),
                         lk_events := mp_drop_senders (te_events env) (lk_events l)\<rparr>)"

definition open_agent_transport_socket ::
  "('c, 'e) transport_env \<Rightarrow> ('c, 'e) transport_state \<Rightarrow> ws_message option \<Rightarrow> bool \<Rightarrow> instant \<Rightarrow> u64
   \<Rightarrow> agent_transport_envelope list \<times> socket_connection option \<times> ('c, 'e) transport_state" where
  "open_agent_transport_socket env st first_message hello_sent now stamp =
     (case first_message of
        None \<Rightarrow> ([], None, st)
      | Some m \<Rightarrow>
          (case parse_transport_envelope env m of
             Inl err \<Rightarrow>
               ([envelope_current message_id_first ''unknown'' ''unknown''
                   (PayloadError (transport_error_for_connection err))], None, st)
           | Inr e \<Rightarrow>
               (case negotiate_transport (ts_nodes st) e now of
                  (Inl err, reg) \<Rightarrow>
                    (let (rate_limited, st') = record_agent_transport_authentication_failure env
                           (st\<lparr>ts_nodes := reg\<rparr>) (env_node_id e) (env_transport_id e) err now stamp
                     in ([envelope_current message_id_first (env_node_id e) (env_transport_id e)
                            (PayloadError (transport_error_for_auth_rate_limit err rate_limited))],
                         None, st'))
                | (Inr hs, reg) \<Rightarrow>
                    (let (h, st1) = new_link env False (st\<lparr>ts_nodes := reg\<rparr>);
                         (registration, st2) = register_transport env st1 (hs_node_id hs)
                           (hs_transport_id hs) (hs_selected_transport hs) h;
                         st3 = transport_audit env stamp AgentConnected
                                 (''agent node '' @ hs_node_id hs @ '' connected on transport ''
                                  @ hs_transport_id hs)
                                 (audit_negotiated env stamp hs
                                   (audit_replaced env stamp registration (hs_node_id hs) st2))
                     in if hello_sent
                        then ([hello_envelope hs 2],
                              Some \<lparr>so_handshake = hs, so_link = h, so_next_message_id = 3,
                                    so_last_heartbeat_at = now\<rparr>, st3)
                        else ([], None,
                              drop_socket_ends env h
                                (snd (disconnect_transport env st3 (hs_node_id hs)
                                        (hs_transport_id hs))))))))"

text \<open>One round of the loop: the envelope sent, the reason when the loop ends, and the states.\<close>

definition send_numbered ::
  "(agent_transport_message_id \<Rightarrow> agent_transport_envelope) \<Rightarrow> bool \<Rightarrow> string option
   \<Rightarrow> socket_connection \<Rightarrow> agent_transport_envelope list \<times> string option \<times> socket_connection" where
  "send_numbered f sent reason sc =
     (if sent then [f (so_next_message_id sc)] else [],
      if sent then None else reason,
      sc\<lparr>so_next_message_id := message_id_next (so_next_message_id sc)\<rparr>)"

fun socket_step ::
  "('c, 'e) transport_env \<Rightarrow> socket_connection \<Rightarrow> ('c, 'e) link \<Rightarrow> socket_input
   \<Rightarrow> (agent_transport_envelope list \<times> string option \<times> socket_connection) \<times> ('c, 'e) link" where
  "socket_step env sc l (SocketMessage m sent now) =
     (let hs = so_handshake sc;
          (result, events) =
            (case parse_transport_envelope env m of
               Inr e \<Rightarrow> handle_agent_transport_envelope (te_events env) hs e (lk_events l)
             | Inl _ \<Rightarrow> (Inl (transport_error CodeMalformedMessage
                                ''invalid transport frame: InvalidEnvelope''), lk_events l));
          l' = l\<lparr>lk_events := events\<rparr>
      in case result of
           Inr (HeartbeatReceived ping) \<Rightarrow>
             (send_numbered (\<lambda>mid. pong_envelope hs mid ping) sent
                (Some ''failed to send heartbeat acknowledgement'')
                (sc\<lparr>so_last_heartbeat_at := now\<rparr>), l')
         | Inr _ \<Rightarrow> (([], None, sc), l')
         | Inl err \<Rightarrow>
             (send_numbered
                (\<lambda>mid. envelope_current mid (hs_node_id hs) (hs_transport_id hs)
                   (PayloadError (transport_error CodeMalformedMessage
                      (''invalid transport frame: '' @ ate_message err)))) sent None sc, l'))"
| "socket_step env sc l (SocketError e) = (([], Some (''agent websocket error: '' @ e), sc), l)"
| "socket_step env sc l SocketEnd = (([], Some ''agent websocket closed'', sc), l)"
| "socket_step env sc l (SocketCommand sent) =
     (case mp_recv (te_commands env) (lk_commands l) of
        (Received x, c) \<Rightarrow>
          (send_numbered (\<lambda>mid. transport_command_envelope (so_handshake sc) mid x) sent
             (Some ''failed to send terminal command to agent'') sc, l\<lparr>lk_commands := c\<rparr>)
      | (Ended, c) \<Rightarrow> (([], Some ''agent command channel closed'', sc), l\<lparr>lk_commands := c\<rparr>)
      | (Pending, c) \<Rightarrow> (([], None, sc), l\<lparr>lk_commands := c\<rparr>))"
| "socket_step env sc l (SocketTick now) =
     (([], if heartbeat_timed_out now (so_last_heartbeat_at sc) AGENT_TRANSPORT_LIVENESS_TIMEOUT
           then Some ''agent transport heartbeat timeout'' else None, sc), l)"

definition close_agent_transport_socket ::
  "('c, 'e) transport_env \<Rightarrow> socket_connection \<Rightarrow> string \<Rightarrow> u64 \<Rightarrow> ('c, 'e) transport_state
   \<Rightarrow> ('c, 'e) transport_state" where
  "close_agent_transport_socket env sc reason stamp st =
     (let hs = so_handshake sc
      in drop_socket_ends env (so_link sc)
           (transport_audit env stamp KindAgentDisconnected
              (''agent node '' @ hs_node_id hs @ '' disconnected from transport ''
               @ hs_transport_id hs @ '': '' @ reason)
              (snd (disconnect_transport env st (hs_node_id hs) (hs_transport_id hs)))))"

definition socket_round ::
  "('c, 'e) transport_env \<Rightarrow> u64 \<Rightarrow> socket_connection \<Rightarrow> ('c, 'e) transport_state \<Rightarrow> socket_input
   \<Rightarrow> agent_transport_envelope list \<times> socket_connection option \<times> ('c, 'e) transport_state" where
  "socket_round env stamp sc st inp =
     (case socket_step env sc (ts_links st ! so_link sc) inp of
        ((sent, reason, sc'), l) \<Rightarrow>
          let st' = update_link (so_link sc) (\<lambda>_. l) st
          in case reason of
               None \<Rightarrow> (sent, Some sc', st')
             | Some why \<Rightarrow> (sent, None, close_agent_transport_socket env sc' why stamp st'))"


section \<open>Negotiation admits an authenticated agent or changes nothing\<close>

lemma authenticate_transport_cases:
  "authenticate_transport reg nid fp pr v now = (r, reg') \<Longrightarrow>
     (case r of
        Inl e \<Rightarrow> check_credential reg nid fp pr now = Inl e \<and> reg' = reg
      | Inr _ \<Rightarrow> (\<exists>i. check_credential reg nid fp pr now = Inr i)
                  \<and> reg' = snd (authenticate_transport reg nid fp pr v now))"
  by (cases "check_credential reg nid fp pr now")
    (auto simp: authenticate_transport_def split_beta)

lemma negotiate_Inl:
  "negotiate_transport_for_kind reg e k now = (Inl err, reg') \<Longrightarrow> reg' = reg"
  by (auto simp: negotiate_transport_for_kind_def authenticate_transport_client_def
      dest!: authenticate_transport_cases
      split: sum.splits agent_transport_payload.splits prod.splits)

lemma negotiate_Inr:
  assumes "negotiate_transport_for_kind reg e k now = (Inr hs, reg')"
  obtains hello i where "env_payload e = PayloadClientHello hello"
    "envelope_validate e = Inr ()"
    "PROTOCOL_VERSION \<in> set (ch_supported_protocol_versions hello)"
    "k \<in> set (ch_supported_transports hello)"
    "check_credential reg (env_node_id e) (ch_credential_fingerprint hello)
       (ch_credential_proof hello) now = Inr i"
    "reg' = snd (authenticate_transport reg (env_node_id e) (ch_credential_fingerprint hello)
       (ch_credential_proof hello) (ch_agent_version hello) now)"
    "hs = \<lparr>hs_node_id = env_node_id e, hs_transport_id = env_transport_id e,
           hs_selected_transport = k\<rparr>"
  using assms
  by (auto simp: negotiate_transport_for_kind_def authenticate_transport_client_def
      validate_client_hello_for_transport_def
      dest!: authenticate_transport_cases
      split: sum.splits agent_transport_payload.splits prod.splits if_splits)

lemma transport_credential_Inr:
  "check_credential reg nid fp pr now = Inr i \<Longrightarrow>
     node_index reg nid = Some i \<and> nr_status (ne_nodes reg ! i) \<noteq> node_status.NodeRevoked
     \<and> (\<exists>c \<in> set (ne_credentials reg). ncr_node_id c = nr_id (ne_nodes reg ! i)
          \<and> ncr_fingerprint c = fp \<and> ncr_proof c = pr \<and> now < ncr_expires_at c)"
  by (auto simp: check_credential_def Let_def authenticated_credential_def find_Some_iff
      split: option.splits if_splits)

section \<open>The envelopes of a response\<close>

definition addressed_to :: "agent_transport_handshake \<Rightarrow> agent_transport_envelope \<Rightarrow> bool" where
  "addressed_to hs e =
     (env_protocol_version e = PROTOCOL_VERSION \<and> env_node_id e = hs_node_id hs
      \<and> env_transport_id e = hs_transport_id hs)"

definition numbered_from :: "agent_transport_message_id \<Rightarrow> agent_transport_envelope list \<Rightarrow> bool" where
  "numbered_from mid es =
     (map (\<lambda>e. unat (env_message_id e)) es
        = map (\<lambda>i. min (unat mid + i) (2 ^ 64 - 1)) [0 ..< length es])"

definition advanced :: "agent_transport_message_id \<Rightarrow> nat \<Rightarrow> agent_transport_message_id \<Rightarrow> bool" where
  "advanced mid n mid' = (unat mid' = min (unat mid + n) (2 ^ 64 - 1))"

fun command_of :: "agent_transport_envelope \<Rightarrow> agent_terminal_command option" where
  "command_of e = (case env_payload e of PayloadTerminalCommand x \<Rightarrow> Some x | _ \<Rightarrow> None)"

definition commands_in :: "agent_transport_envelope list \<Rightarrow> agent_terminal_command list" where
  "commands_in es = List.map_filter command_of es"

lemma unat_message_id_next_min: "unat (message_id_next m) = min (unat m + 1) (2 ^ 64 - 1)"
  by (simp add: message_id_next_def unat_saturating_add64)

lemma numbered_from_Nil [simp]: "numbered_from mid []"
  by (simp add: numbered_from_def)

lemma advanced_0 [simp]: "advanced mid 0 mid"
  using unat64_less [of mid] by (simp add: advanced_def)

lemma advanced_next: "advanced mid n mid' \<Longrightarrow> advanced mid (Suc n) (message_id_next mid')"
  by (simp add: advanced_def unat_message_id_next_min)

lemma numbered_from_snoc:
  "numbered_from mid es \<Longrightarrow> advanced mid (length es) (env_message_id e) \<Longrightarrow>
     numbered_from mid (es @ [e])"
  by (simp add: numbered_from_def advanced_def)

lemma commands_in_simps [simp]:
  "commands_in [] = []"
  "commands_in (es @ fs) = commands_in es @ commands_in fs"
  "commands_in [transport_command_envelope hs mid x] = [x]"
  "commands_in [pong_envelope hs mid ping] = []"
  "commands_in [hello_envelope hs mid] = []"
  "commands_in [envelope_current mid nid tid (PayloadError err)] = []"
  by (simp_all add: commands_in_def map_filter_def transport_command_envelope_def pong_envelope_def
      hello_envelope_def envelope_current_def)

text \<open>What holds of a response under construction that started with the counter at \<open>mid\<close>.\<close>

definition response_ok ::
  "agent_transport_handshake \<Rightarrow> agent_transport_message_id
   \<Rightarrow> agent_transport_envelope list \<times> ('c, 'e) link \<Rightarrow> bool" where
  "response_ok hs mid s =
     (list_all (addressed_to hs) (fst s) \<and> numbered_from mid (fst s)
      \<and> advanced mid (length (fst s)) (lk_next_message_id (snd s)))"

lemma response_ok_start: "response_ok hs (lk_next_message_id l) ([], l)"
  by (simp add: response_ok_def)

lemma fst_push_envelope: "fst (push_envelope f s) = fst s @ [f (lk_next_message_id (snd s))]"
  by (simp add: push_envelope_def next_long_poll_message_id_def)

lemma snd_push_envelope:
  "snd (push_envelope f s)
     = (snd s)\<lparr>lk_next_message_id := message_id_next (lk_next_message_id (snd s))\<rparr>"
  by (simp add: push_envelope_def next_long_poll_message_id_def)

lemmas push_simps = fst_push_envelope snd_push_envelope

lemma response_ok_push:
  assumes "response_ok hs mid s" and "\<And>m. addressed_to hs (f m)" and "\<And>m. env_message_id (f m) = m"
  shows "response_ok hs mid (push_envelope f s)"
  using assms by (simp add: response_ok_def push_simps numbered_from_snoc advanced_next)

lemma response_ok_channels:
  "response_ok hs mid (es, l\<lparr>lk_commands := c\<rparr>) = response_ok hs mid (es, l)"
  "response_ok hs mid (es, l\<lparr>lk_events := ev\<rparr>) = response_ok hs mid (es, l)"
  by (simp_all add: response_ok_def)

lemma envelope_builders [simp]:
  "addressed_to hs (pong_envelope hs m ping)" "env_message_id (pong_envelope hs m ping) = m"
  "addressed_to hs (hello_envelope hs m)" "env_message_id (hello_envelope hs m) = m"
  "addressed_to hs (transport_command_envelope hs m x)"
  "env_message_id (transport_command_envelope hs m x) = m"
  "addressed_to hs (envelope_current m (hs_node_id hs) (hs_transport_id hs) p)"
  "env_message_id (envelope_current m nid tid p) = m"
  by (simp_all add: addressed_to_def pong_envelope_def hello_envelope_def
      transport_command_envelope_def envelope_current_def)

lemma response_ok_event:
  assumes "response_ok hs mid s"
  shows "response_ok hs mid (handle_long_poll_event env hs s e)"
proof -
  obtain r ev where r: "handle_agent_transport_envelope (te_events env) hs e (lk_events (snd s)) = (r, ev)"
    by fastforce
  have s: "response_ok hs mid (fst s, (snd s)\<lparr>lk_events := ev\<rparr>)"
    using assms by (simp add: response_ok_channels)
  show ?thesis
  proof (cases r)
    case (Inl err)
    with r response_ok_push [OF s] show ?thesis
      by (simp add: handle_long_poll_event_def)
  next
    case (Inr out)
    with r s response_ok_push [OF s] show ?thesis
      by (cases out) (simp_all add: handle_long_poll_event_def)
  qed
qed

lemma response_ok_events:
  "response_ok hs mid s \<Longrightarrow> response_ok hs mid (foldl (handle_long_poll_event env hs) s es)"
  by (induction es arbitrary: s) (simp_all add: response_ok_event)

lemma response_ok_command:
  "response_ok hs mid s \<Longrightarrow> response_ok hs mid (push_command hs x (fst s, (snd s)\<lparr>lk_commands := c\<rparr>))"
  unfolding push_command_def by (rule response_ok_push) (simp_all add: response_ok_channels)

lemma response_ok_drain:
  "response_ok hs mid s \<Longrightarrow> response_ok hs mid (drain_commands env hs s)"
proof (induction env hs s rule: drain_commands.induct)
  case (1 env hs s)
  show ?case
  proof (cases "length (fst s) < AGENT_TRANSPORT_LONG_POLL_BATCH")
    case True
    obtain r c where r: "mp_recv (te_commands env) (lk_commands (snd s)) = (r, c)"
      by fastforce
    show ?thesis
    proof (cases r)
      case (Received x)
      with "1.IH" [OF True r [symmetric] Received response_ok_command [OF "1.prems"]] r True
      show ?thesis
        by (subst drain_commands.simps) simp
    qed (use r True "1.prems" in \<open>(subst drain_commands.simps, simp add: response_ok_channels)+\<close>)
  next
    case False
    with "1.prems" show ?thesis
      by (subst drain_commands.simps) simp
  qed
qed

lemma response_ok_append:
  "response_ok hs mid s \<Longrightarrow> response_ok hs mid (append_long_poll_commands env hs s)"
  unfolding append_long_poll_commands_def
  by (rule response_ok_drain)
    (auto simp: response_ok_channels response_ok_command split: prod.split recv.split)

lemma poll_events_ok: "response_ok hs (lk_next_message_id l) (poll_events env hs events l)"
  unfolding poll_events_def
  by (intro response_ok_events response_ok_push response_ok_start) simp_all


section \<open>Commands and events against the channels' contract\<close>

text \<open>The event an envelope brings to the connection, if it is accepted as a terminal event of
  that connection.\<close>

definition event_for :: "agent_transport_handshake \<Rightarrow> agent_transport_envelope \<Rightarrow> agent_terminal_event option" where
  "event_for hs e =
     (if envelope_validate e = Inr () \<and> env_node_id e = hs_node_id hs
         \<and> env_transport_id e = hs_transport_id hs
      then (case env_payload e of PayloadTerminalEvent _ ev \<Rightarrow> Some ev | _ \<Rightarrow> None) else None)"

definition room :: "'a mailbox \<Rightarrow> nat" where
  "room m = (if mb_receiver_gone m then 0 else mb_capacity m - length (mb_queue m))"

lemma mailbox_accepts_room: "mailbox_accepts m = (0 < room m)"
  by (auto simp: mailbox_accepts_def room_def)

lemma room_send: "room (snd (mailbox_send x m)) = room m - 1"
  by (auto simp: mailbox_send_def mailbox_accepts_def room_def)

lemma fst_handle_event:
  "fst (handle_long_poll_event env hs s e) = fst s
   \<or> (\<exists>p. fst (handle_long_poll_event env hs s e)
          = fst s @ [envelope_current (lk_next_message_id (snd s)) (hs_node_id hs) (hs_transport_id hs) p]
        \<and> (\<forall>x. p \<noteq> PayloadTerminalCommand x))"
  by (auto simp: handle_long_poll_event_def split_beta Let_def push_simps pong_envelope_def
      split: sum.split transport_frame_outcome.split)

lemma commands_in_event: "commands_in (fst (handle_long_poll_event env hs s e)) = commands_in (fst s)"
proof -
  have "commands_in [envelope_current mid nid tid p] = []" if "\<forall>x. p \<noteq> PayloadTerminalCommand x"
    for mid nid tid p
    using that by (cases p) (simp_all add: commands_in_def map_filter_def envelope_current_def)
  then show ?thesis
    using fst_handle_event [of env hs s e] by auto
qed

lemma link_handle_event:
  "lk_commands (snd (handle_long_poll_event env hs s e)) = lk_commands (snd s)
   \<and> lk_long_poll (snd (handle_long_poll_event env hs s e)) = lk_long_poll (snd s)
   \<and> lk_clones (snd (handle_long_poll_event env hs s e)) = lk_clones (snd s)
   \<and> lk_events (snd (handle_long_poll_event env hs s e))
       = snd (handle_agent_transport_envelope (te_events env) hs e (lk_events (snd s)))"
  by (auto simp: handle_long_poll_event_def split_beta Let_def push_simps
      split: sum.split transport_frame_outcome.split)

lemma poll_events_frame:
  "commands_in (fst (poll_events env hs events l)) = []
   \<and> lk_commands (snd (poll_events env hs events l)) = lk_commands l
   \<and> lk_long_poll (snd (poll_events env hs events l)) = lk_long_poll l
   \<and> lk_clones (snd (poll_events env hs events l)) = lk_clones l
   \<and> 1 \<le> length (fst (poll_events env hs events l))
   \<and> length (fst (poll_events env hs events l)) \<le> 1 + length events"
proof -
  have "commands_in (fst (foldl (handle_long_poll_event env hs) s es)) = commands_in (fst s)
     \<and> lk_commands (snd (foldl (handle_long_poll_event env hs) s es)) = lk_commands (snd s)
     \<and> lk_long_poll (snd (foldl (handle_long_poll_event env hs) s es)) = lk_long_poll (snd s)
     \<and> lk_clones (snd (foldl (handle_long_poll_event env hs) s es)) = lk_clones (snd s)
     \<and> length (fst s) \<le> length (fst (foldl (handle_long_poll_event env hs) s es))
     \<and> length (fst (foldl (handle_long_poll_event env hs) s es)) \<le> length (fst s) + length es"
    for s :: "agent_transport_envelope list \<times> ('a, 'b) link" and es
  proof (induction es arbitrary: s)
    case (Cons e es)
    have "length (fst s) \<le> length (fst (handle_long_poll_event env hs s e))
        \<and> length (fst (handle_long_poll_event env hs s e)) \<le> length (fst s) + 1"
      using fst_handle_event [of env hs s e] by auto
    with Cons.IH [of "handle_long_poll_event env hs s e"] show ?case
      by (simp add: commands_in_event link_handle_event)
  qed simp
  from this [of "push_envelope (hello_envelope hs) ([], l)" events] show ?thesis
    by (simp add: poll_events_def push_simps)
qed

locale transport_channels =
  cmd: mpsc_contract "te_commands env" cview + ev: mpsc_contract "te_events env" eview
  for env :: "('c, 'e) transport_env"
    and cview :: "'c \<Rightarrow> agent_terminal_command mailbox"
    and eview :: "'e \<Rightarrow> agent_terminal_event mailbox"
begin

lemma view_handle_envelope:
  "eview (snd (handle_agent_transport_envelope (te_events env) hs e c)) =
     (case event_for hs e of None \<Rightarrow> eview c | Some x \<Rightarrow> snd (mailbox_send x (eview c)))"
  by (auto simp: handle_agent_transport_envelope_def event_for_def split_beta
      split: sum.split agent_transport_payload.split agent_transport_heartbeat.split)

lemma handle_envelope_full:
  "event_for hs e = Some x \<Longrightarrow> fst (handle_agent_transport_envelope (te_events env) hs e c) =
     (if 0 < room (eview c) then Inr TerminalEventReceived
      else Inl (transport_error CodeBackpressureLimitExceeded ''terminal event channel is full''))"
  by (auto simp: handle_agent_transport_envelope_def event_for_def split_beta mailbox_accepts_room
      split: sum.splits agent_transport_payload.splits if_splits)

lemma queue_events:
  "mb_queue (eview (lk_events (snd (foldl (handle_long_poll_event env hs) s es)))) =
     mb_queue (eview (lk_events (snd s)))
     @ take (room (eview (lk_events (snd s)))) (List.map_filter (event_for hs) es)"
proof (induction es arbitrary: s)
  case (Cons e es)
  let ?c = "eview (lk_events (snd s))"
  show ?case
  proof (cases "event_for hs e")
    case None
    then show ?thesis
      by (simp add: Cons.IH link_handle_event view_handle_envelope map_filter_simps)
  next
    case (Some x)
    then show ?thesis
      by (cases "room ?c")
        (simp_all add: Cons.IH link_handle_event view_handle_envelope map_filter_simps
          mailbox_accepts_room room_send)
  qed
qed (simp add: map_filter_simps)

lemma queue_poll_events:
  "mb_queue (eview (lk_events (snd (poll_events env hs events l)))) =
     mb_queue (eview (lk_events l)) @ take (room (eview (lk_events l))) (List.map_filter (event_for hs) events)"
  by (simp add: poll_events_def queue_events push_simps)

lemma drain_spec:
  "commands_in (fst (drain_commands env hs s)) =
     commands_in (fst s) @ take (32 - length (fst s)) (mb_queue (cview (lk_commands (snd s))))
   \<and> mb_queue (cview (lk_commands (snd (drain_commands env hs s)))) =
     drop (32 - length (fst s)) (mb_queue (cview (lk_commands (snd s))))
   \<and> mb_receiver_gone (cview (lk_commands (snd (drain_commands env hs s))))
       = mb_receiver_gone (cview (lk_commands (snd s)))
   \<and> length (fst (drain_commands env hs s)) =
       length (fst s) + min (32 - length (fst s)) (length (mb_queue (cview (lk_commands (snd s)))))"
  (is "?P s")
proof (induction "32 - length (fst s)" arbitrary: s)
  case 0
  then show ?case
    by (subst (1 2 3 4) drain_commands.simps) (simp add: AGENT_TRANSPORT_LONG_POLL_BATCH_def)
next
  case (Suc n)
  then have len: "length (fst s) < AGENT_TRANSPORT_LONG_POLL_BATCH"
    by (simp add: AGENT_TRANSPORT_LONG_POLL_BATCH_def)
  obtain r c where r: "mp_recv (te_commands env) (lk_commands (snd s)) = (r, c)"
    by fastforce
  then have r': "r = fst (mailbox_recv (cview (lk_commands (snd s))))"
      and c: "cview c = snd (mailbox_recv (cview (lk_commands (snd s))))"
    using cmd.fst_recv [of "lk_commands (snd s)"] cmd.view_snd_recv [of "lk_commands (snd s)"] by auto
  show ?case
  proof (cases "mb_queue (cview (lk_commands (snd s)))")
    case Nil
    then have "\<exists>y. drain_commands env hs s = (fst s, (snd s)\<lparr>lk_commands := c\<rparr>)"
      using len r r' by (subst drain_commands.simps) (auto simp: mailbox_recv_def)
    then show ?thesis
      using Nil c by simp
  next
    case (Cons x xs)
    let ?s = "push_command hs x (fst s, (snd s)\<lparr>lk_commands := c\<rparr>)"
    have d: "drain_commands env hs s = drain_commands env hs ?s"
      using len r r' Cons by (subst drain_commands.simps) (simp add: mailbox_recv_def)
    have s: "fst ?s = fst s @ [transport_command_envelope hs (lk_next_message_id (snd s)) x]"
        "lk_commands (snd ?s) = c"
      by (simp_all add: push_command_def push_simps)
    have n: "n = 32 - length (fst ?s)" and n': "32 - length (fst s) = Suc n"
      using Suc.hyps(2) s by simp_all
    have n'': "31 - length (fst s) = n"
      using n' by arith
    from Suc.hyps(1) [OF n] show ?thesis
      unfolding d n' using Cons c by (simp add: s n'')
  qed
qed

lemma append_spec:
  assumes "1 \<le> length (fst s)"
  shows "commands_in (fst (append_long_poll_commands env hs s)) =
     commands_in (fst s) @ take (32 - length (fst s)) (mb_queue (cview (lk_commands (snd s))))
   \<and> mb_queue (cview (lk_commands (snd (append_long_poll_commands env hs s)))) =
     drop (32 - length (fst s)) (mb_queue (cview (lk_commands (snd s))))
   \<and> mb_receiver_gone (cview (lk_commands (snd (append_long_poll_commands env hs s))))
       = mb_receiver_gone (cview (lk_commands (snd s)))
   \<and> length (fst (append_long_poll_commands env hs s)) =
       length (fst s) + min (32 - length (fst s)) (length (mb_queue (cview (lk_commands (snd s)))))"
proof (cases "length (fst s) = 1")
  case False
  then have "append_long_poll_commands env hs s = drain_commands env hs s"
    by (simp add: append_long_poll_commands_def)
  then show ?thesis
    by (simp only: drain_spec)
next
  case True
  obtain r c where r: "mp_recv (te_commands env) (lk_commands (snd s)) = (r, c)"
    by fastforce
  then have r': "r = fst (mailbox_recv (cview (lk_commands (snd s))))"
      and c: "cview c = snd (mailbox_recv (cview (lk_commands (snd s))))"
    using cmd.fst_recv [of "lk_commands (snd s)"] cmd.view_snd_recv [of "lk_commands (snd s)"] by auto
  show ?thesis
  proof (cases "mb_queue (cview (lk_commands (snd s)))")
    case Nil
    then have "append_long_poll_commands env hs s
        = drain_commands env hs (fst s, (snd s)\<lparr>lk_commands := c\<rparr>)"
      using True r r' by (auto simp: append_long_poll_commands_def mailbox_recv_def)
    then show ?thesis
      using Nil c True drain_spec [of hs "(fst s, (snd s)\<lparr>lk_commands := c\<rparr>)"] by simp
  next
    case (Cons x xs)
    let ?s = "push_command hs x (fst s, (snd s)\<lparr>lk_commands := c\<rparr>)"
    have d: "append_long_poll_commands env hs s = drain_commands env hs ?s"
      using True r r' Cons by (simp add: append_long_poll_commands_def mailbox_recv_def)
    have s: "fst ?s = fst s @ [transport_command_envelope hs (lk_next_message_id (snd s)) x]"
        "lk_commands (snd ?s) = c"
      by (simp_all add: push_command_def push_simps)
    show ?thesis
      unfolding d using drain_spec [of hs ?s] Cons c True by (simp add: s)
  qed
qed

end


section \<open>Any number of tasks\<close>

text \<open>The hub: the shared state, the polls that are waiting, the websocket connections that are
  open, and the log of the commands put into and taken out of each link. A step is one atomic
  stretch of some task: a poll up to its wait or from there to its response, a websocket opening or
  one round of its loop, a terminal handler taking and dropping a connection or a command sender,
  sending a command or receiving an event, and the disconnection of a node.\<close>

record ('c, 'e) hub =
  hub_state :: "('c, 'e) transport_state"
  hub_polls :: "pending_poll list"
  hub_sockets :: "socket_connection list"
  hub_sent :: "(nat \<times> agent_terminal_command) list"
  hub_delivered :: "(nat \<times> agent_terminal_command) list"

datatype transport_op =
  TrPollBegin agent_transport_long_poll_request instant u64
  | TrPollFinish nat
  | TrSocketOpen "ws_message option" bool instant u64
  | TrSocketInput nat socket_input u64
  | TrDisconnect string
  | TrAttach string
  | TrDetach registered_agent_connection
  | TrCloneSender nat
  | TrDropSender nat
  | TrSend nat agent_terminal_command
  | TrReceive nat

definition remove_nth :: "nat \<Rightarrow> 'a list \<Rightarrow> 'a list" where
  "remove_nth i xs = take i xs @ drop (Suc i) xs"

definition opt_list :: "'a option \<Rightarrow> 'a list" where
  "opt_list x = (case x of None \<Rightarrow> [] | Some y \<Rightarrow> [y])"

fun hub_step :: "('c, 'e) transport_env \<Rightarrow> ('c, 'e) hub \<Rightarrow> transport_op \<Rightarrow> ('c, 'e) hub" where
  "hub_step env hub (TrPollBegin request now stamp) =
     (case long_poll_begin env (hub_state hub) request now stamp of
        (Inr pp, st) \<Rightarrow> hub\<lparr>hub_state := st, hub_polls := hub_polls hub @ [pp]\<rparr>
      | (Inl err, st) \<Rightarrow>
          hub\<lparr>hub_state := snd (record_agent_transport_authentication_failure env st
                 (env_node_id (lpq_client_hello request)) (env_transport_id (lpq_client_hello request))
                 err now stamp)\<rparr>)"
| "hub_step env hub (TrPollFinish i) =
     (if i < length (hub_polls hub)
      then (case long_poll_finish env (hub_state hub) (hub_polls hub ! i) of
              (response, st) \<Rightarrow>
                hub\<lparr>hub_state := st, hub_polls := remove_nth i (hub_polls hub),
                    hub_delivered := hub_delivered hub @
                      map (Pair (rac_link (pp_connection (hub_polls hub ! i))))
                        (commands_in (lps_envelopes response))\<rparr>)
      else hub)"
| "hub_step env hub (TrSocketOpen m hello_sent now stamp) =
     (case open_agent_transport_socket env (hub_state hub) m hello_sent now stamp of
        (_, sc, st) \<Rightarrow> hub\<lparr>hub_state := st, hub_sockets := hub_sockets hub @ opt_list sc\<rparr>)"
| "hub_step env hub (TrSocketInput i inp stamp) =
     (if i < length (hub_sockets hub)
      then (case socket_round env stamp (hub_sockets hub ! i) (hub_state hub) inp of
              (sent, sc, st) \<Rightarrow>
                hub\<lparr>hub_state := st,
                    hub_sockets := (case sc of None \<Rightarrow> remove_nth i (hub_sockets hub)
                                    | Some sc' \<Rightarrow> (hub_sockets hub)[i := sc']),
                    hub_delivered := hub_delivered hub @
                      map (Pair (so_link (hub_sockets hub ! i))) (commands_in sent)\<rparr>)
      else hub)"
| "hub_step env hub (TrDisconnect nid) = hub\<lparr>hub_state := disconnect env (hub_state hub) nid\<rparr>"
| "hub_step env hub (TrAttach nid) = hub\<lparr>hub_state := snd (connection (hub_state hub) nid)\<rparr>"
| "hub_step env hub (TrDetach conn) = hub\<lparr>hub_state := drop_connection env conn (hub_state hub)\<rparr>"
| "hub_step env hub (TrCloneSender h) = hub\<lparr>hub_state := update_link h clone_sender (hub_state hub)\<rparr>"
| "hub_step env hub (TrDropSender h) =
     hub\<lparr>hub_state := update_link h (drop_sender env) (hub_state hub)\<rparr>"
| "hub_step env hub (TrSend h x) =
     (if h < length (ts_links (hub_state hub))
      then (case mp_try_send (te_commands env) x (lk_commands (ts_links (hub_state hub) ! h)) of
              (ok, c) \<Rightarrow>
                hub\<lparr>hub_state := update_link h (\<lambda>l. l\<lparr>lk_commands := c\<rparr>) (hub_state hub),
                    hub_sent := hub_sent hub @ (if ok then [(h, x)] else [])\<rparr>)
      else hub)"
| "hub_step env hub (TrReceive h) =
     hub\<lparr>hub_state := update_link h
       (\<lambda>l. l\<lparr>lk_events := snd (mp_recv (te_events env) (lk_events l))\<rparr>) (hub_state hub)\<rparr>"

definition hub_run :: "('c, 'e) transport_env \<Rightarrow> ('c, 'e) hub \<Rightarrow> transport_op list \<Rightarrow> ('c, 'e) hub" where
  "hub_run env = foldl (hub_step env)"

definition hub_start :: "node_registry \<Rightarrow> rate_limiter \<Rightarrow> ('c, 'e) hub" where
  "hub_start reg rl =
     \<lparr>hub_state = \<lparr>ts_connections = [], ts_links = [], ts_nodes = reg, ts_audit = audit_log_new,
                   ts_auth_failures = rl\<rparr>,
      hub_polls = [], hub_sockets = [], hub_sent = [], hub_delivered = []\<rparr>"

definition commands_on :: "nat \<Rightarrow> (nat \<times> agent_terminal_command) list \<Rightarrow> agent_terminal_command list" where
  "commands_on h log = map snd (filter (\<lambda>e. fst e = h) log)"

section \<open>What a step leaves of a long-poll link\<close>

text \<open>A step is quiet when it leaves the command queue of every long-poll link as it is, or drops
  its receiver and with it the queue; new links start empty.\<close>

definition quiet_link ::
  "('c \<Rightarrow> agent_terminal_command mailbox) \<Rightarrow> ('c, 'e) link \<Rightarrow> ('c, 'e) link \<Rightarrow> bool" where
  "quiet_link cview l l' =
     (lk_long_poll l' = lk_long_poll l
      \<and> (lk_long_poll l \<longrightarrow>
           mb_queue (cview (lk_commands l')) = mb_queue (cview (lk_commands l))
           \<and> mb_receiver_gone (cview (lk_commands l')) = mb_receiver_gone (cview (lk_commands l))
         \<or> mb_queue (cview (lk_commands l')) = [] \<and> mb_receiver_gone (cview (lk_commands l'))))"

definition quiet ::
  "('c \<Rightarrow> agent_terminal_command mailbox) \<Rightarrow> ('c, 'e) transport_state \<Rightarrow> ('c, 'e) transport_state \<Rightarrow> bool" where
  "quiet cview st st' =
     (length (ts_links st) \<le> length (ts_links st')
      \<and> (\<forall>h < length (ts_links st). quiet_link cview (ts_links st ! h) (ts_links st' ! h))
      \<and> (\<forall>h < length (ts_links st'). length (ts_links st) \<le> h \<longrightarrow> lk_long_poll (ts_links st' ! h) \<longrightarrow>
           mb_queue (cview (lk_commands (ts_links st' ! h))) = []))"

lemma quiet_refl [simp]: "quiet cview st st"
  by (simp add: quiet_def quiet_link_def)

lemma quiet_link_refl [simp]: "quiet_link cview l l"
  by (simp add: quiet_link_def)

lemma quiet_link_trans: "quiet_link cview l l' \<Longrightarrow> quiet_link cview l' l'' \<Longrightarrow> quiet_link cview l l''"
  by (auto simp: quiet_link_def)

lemma quiet_trans [trans]: "quiet cview st st' \<Longrightarrow> quiet cview st' st'' \<Longrightarrow> quiet cview st st''"
proof -
  assume a: "quiet cview st st'" "quiet cview st' st''"
  then have len: "length (ts_links st) \<le> length (ts_links st')"
      "length (ts_links st') \<le> length (ts_links st'')"
    by (auto simp: quiet_def)
  have "mb_queue (cview (lk_commands (ts_links st'' ! h))) = []"
    if h: "h < length (ts_links st'')" "length (ts_links st) \<le> h" "lk_long_poll (ts_links st'' ! h)" for h
  proof (cases "h < length (ts_links st')")
    case True
    then show ?thesis
      using a h by (auto simp: quiet_def quiet_link_def)
  next
    case False
    then show ?thesis
      using a h by (auto simp: quiet_def)
  qed
  moreover have "quiet_link cview (ts_links st ! h) (ts_links st'' ! h)" if "h < length (ts_links st)" for h
    using a that len by (auto simp: quiet_def intro: quiet_link_trans)
  ultimately show ?thesis
    using len by (auto simp: quiet_def)
qed


lemma update_link_simps [simp]:
  "length (ts_links (update_link h f st)) = length (ts_links st)"
  "ts_connections (update_link h f st) = ts_connections st"
  by (simp_all add: update_link_def)

lemma update_link_nth:
  "h' < length (ts_links st) \<Longrightarrow> ts_links (update_link h f st) ! h'
     = (if h' = h then f (ts_links st ! h) else ts_links st ! h')"
  by (simp add: update_link_def)

lemma quiet_update:
  "(h < length (ts_links st) \<Longrightarrow> quiet_link cview (ts_links st ! h) (f (ts_links st ! h))) \<Longrightarrow>
     quiet cview st (update_link h f st)"
  by (auto simp: quiet_def update_link_nth)

lemma quiet_same_links: "ts_links st' = ts_links st \<Longrightarrow> quiet cview st st'"
  by (simp add: quiet_def)

lemma transport_audit_links [simp]:
  "ts_links (transport_audit env stamp k m st) = ts_links st"
  "ts_connections (transport_audit env stamp k m st) = ts_connections st"
  by (simp_all add: transport_audit_def)

lemma audit_links [simp]:
  "ts_links (audit_replaced env stamp reg nid st) = ts_links st"
  "ts_links (audit_negotiated env stamp hs st) = ts_links st"
  "ts_links (record_long_poll_registration env stamp reg hs st) = ts_links st"
  "ts_connections (audit_replaced env stamp reg nid st) = ts_connections st"
  "ts_connections (audit_negotiated env stamp hs st) = ts_connections st"
  "ts_connections (record_long_poll_registration env stamp reg hs st) = ts_connections st"
  by (simp_all add: audit_replaced_def audit_negotiated_def record_long_poll_registration_def)

lemma auth_failure_links [simp]:
  "ts_links (snd (record_agent_transport_authentication_failure env st nid tid err now stamp)) = ts_links st"
  "ts_connections (snd (record_agent_transport_authentication_failure env st nid tid err now stamp))
     = ts_connections st"
  by (simp_all add: record_agent_transport_authentication_failure_def Let_def split_beta)

context transport_channels
begin

lemma quiet_drop_clone: "quiet_link cview l (drop_clone env l)"
  by (simp add: quiet_link_def drop_clone_def Let_def cmd.view_drop_senders cmd.view_drop_receiver
      mailbox_drop_senders_def mailbox_drop_receiver_def)

lemma quiet_drop_sender: "quiet_link cview l (drop_sender env l)"
  by (simp add: quiet_link_def drop_sender_def cmd.view_drop_senders mailbox_drop_senders_def)

lemma quiet_drop_connection: "quiet cview st (drop_connection env conn st)"
  unfolding drop_connection_def by (intro quiet_update quiet_drop_clone)

lemma quiet_clone: "quiet cview st (clone_connection conn st)"
  unfolding clone_connection_def by (rule quiet_update) (simp add: quiet_link_def)

lemma quiet_new_link: "quiet cview st (snd (new_link env lp st))"
  by (auto simp: quiet_def new_link_def nth_append cmd.view_channel)

lemma quiet_insert: "quiet cview st (snd (insert_connection env st nid conn))"
proof -
  have "quiet cview st (st\<lparr>ts_connections := m\<rparr>)" for m
    by (rule quiet_same_links) simp
  then show ?thesis
    using quiet_trans [OF _ quiet_drop_connection]
    by (auto simp: insert_connection_def Let_def split: option.split)
qed

lemma quiet_ensure: "quiet cview st (snd (ensure_long_poll_transport env st nid tid))"
proof -
  have fresh: "quiet cview st (snd (insert_connection env (clone_connection c (snd (new_link env True st))) nid c))"
    for c
    by (rule quiet_trans [OF quiet_trans [OF quiet_new_link quiet_clone] quiet_insert])
  show ?thesis
    using quiet_clone fresh
    by (auto simp: ensure_long_poll_transport_def Let_def split_beta split: option.split)
qed

lemma quiet_disconnect:
  "quiet cview st (disconnect env st nid)" "quiet cview st (snd (disconnect_transport env st nid tid))"
proof -
  have "quiet cview st (st\<lparr>ts_connections := m\<rparr>)" for m
    by (rule quiet_same_links) simp
  then show "quiet cview st (disconnect env st nid)"
      "quiet cview st (snd (disconnect_transport env st nid tid))"
    using quiet_trans [OF _ quiet_drop_connection]
    by (auto simp: disconnect_def disconnect_transport_def split: option.split)
qed

lemma quiet_drop_socket_ends: "quiet cview st (drop_socket_ends env h st)"
  unfolding drop_socket_ends_def
  by (rule quiet_update)
    (simp add: quiet_link_def cmd.view_drop_receiver mailbox_drop_receiver_def)

lemma quiet_poll_begin: "quiet cview st (snd (long_poll_begin env st request now stamp))"
proof (cases "negotiate_transport_for_kind (ts_nodes st) (lpq_client_hello request) LongPollHttps now")
  case (Pair r reg)
  show ?thesis
  proof (cases r)
    case (Inl err)
    with Pair show ?thesis
      by (auto simp: long_poll_begin_def intro: quiet_same_links)
  next
    case (Inr hs)
    obtain registration conn st1 where st1:
      "ensure_long_poll_transport env (st\<lparr>ts_nodes := reg\<rparr>) (hs_node_id hs) (hs_transport_id hs)
         = ((registration, conn), st1)"
      by (metis surj_pair)
    let ?st2 = "record_long_poll_registration env stamp registration hs st1"
    have "quiet cview st (st\<lparr>ts_nodes := reg\<rparr>)"
      by (rule quiet_same_links) simp
    also have "quiet cview (st\<lparr>ts_nodes := reg\<rparr>) st1"
      using quiet_ensure [of "st\<lparr>ts_nodes := reg\<rparr>"] st1 by (metis snd_conv)
    also have "quiet cview st1 ?st2"
      by (rule quiet_same_links) simp
    finally have q: "quiet cview st ?st2" .
    let ?l = "ts_links ?st2 ! rac_link conn"
    have "quiet cview ?st2
        (update_link (rac_link conn) (\<lambda>_. snd (poll_events env hs (lpq_events request) ?l)) ?st2)"
      by (rule quiet_update) (simp add: quiet_link_def poll_events_frame)
    from quiet_trans [OF q this] quiet_trans [OF q quiet_drop_connection] Pair Inr st1
    show ?thesis
      by (simp add: long_poll_begin_def Let_def split_beta)
  qed
qed

lemma quiet_socket_open:
  "quiet cview st (snd (snd (open_agent_transport_socket env st m hello_sent now stamp)))"
proof (cases "\<exists>m' e hs reg. m = Some m' \<and> parse_transport_envelope env m' = Inr e
               \<and> negotiate_transport (ts_nodes st) e now = (Inr hs, reg)")
  case False
  show ?thesis
  proof (cases "\<exists>m' e err reg. m = Some m' \<and> parse_transport_envelope env m' = Inr e
               \<and> negotiate_transport (ts_nodes st) e now = (Inl err, reg)")
    case True
    then show ?thesis
      by (auto simp: open_agent_transport_socket_def split_beta intro!: quiet_same_links)
  next
    case no: False
    have "snd (snd (open_agent_transport_socket env st m hello_sent now stamp)) = st"
    proof (cases m)
      case (Some m')
      show ?thesis
      proof (cases "parse_transport_envelope env m'")
        case (Inr e)
        obtain r reg where "negotiate_transport (ts_nodes st) e now = (r, reg)"
          by fastforce
        with False no Some Inr show ?thesis
          by (cases r) blast+
      qed (use Some in \<open>simp add: open_agent_transport_socket_def\<close>)
    qed (simp add: open_agent_transport_socket_def)
    then show ?thesis
      by simp
  qed
next
  case True
  then obtain m' e hs reg where m: "m = Some m'" "parse_transport_envelope env m' = Inr e"
      "negotiate_transport (ts_nodes st) e now = (Inr hs, reg)"
    by blast
  obtain h st1 where st1: "new_link env False (st\<lparr>ts_nodes := reg\<rparr>) = (h, st1)"
    by fastforce
  obtain r st2 where st2: "register_transport env st1 (hs_node_id hs) (hs_transport_id hs)
      (hs_selected_transport hs) h = (r, st2)"
    by fastforce
  let ?st3 = "transport_audit env stamp AgentConnected
                (''agent node '' @ hs_node_id hs @ '' connected on transport '' @ hs_transport_id hs)
                (audit_negotiated env stamp hs (audit_replaced env stamp r (hs_node_id hs) st2))"
  have "quiet cview st (st\<lparr>ts_nodes := reg\<rparr>)"
    by (rule quiet_same_links) simp
  also have "quiet cview (st\<lparr>ts_nodes := reg\<rparr>) st1"
    using quiet_new_link [of "st\<lparr>ts_nodes := reg\<rparr>" False] st1 by simp
  also have "quiet cview st1 st2"
    using quiet_insert [of st1] st2 unfolding register_transport_def by (metis snd_conv)
  also have "quiet cview st2 ?st3"
    by (rule quiet_same_links) simp
  finally have q: "quiet cview st ?st3" .
  have "quiet cview st (drop_socket_ends env h
          (snd (disconnect_transport env ?st3 (hs_node_id hs) (hs_transport_id hs))))"
    by (rule quiet_trans [OF quiet_trans [OF q quiet_disconnect(2)] quiet_drop_socket_ends])
  with q m st1 st2 show ?thesis
    by (simp add: open_agent_transport_socket_def Let_def)
qed

lemma step_link_long_poll [simp]: "lk_long_poll (snd (socket_step env sc l inp)) = lk_long_poll l"
  by (cases inp) (auto simp: split_beta Let_def split: sum.split transport_frame_outcome.split recv.split)

lemma quiet_socket_round:
  "\<not> lk_long_poll (ts_links st ! so_link sc) \<Longrightarrow>
     quiet cview st (snd (snd (socket_round env stamp sc st inp)))"
proof -
  assume lp: "\<not> lk_long_poll (ts_links st ! so_link sc)"
  obtain sent reason sc' l where s: "socket_step env sc (ts_links st ! so_link sc) inp = ((sent, reason, sc'), l)"
    by (metis surj_pair)
  then have "lk_long_poll l = lk_long_poll (ts_links st ! so_link sc)"
    by (metis snd_conv step_link_long_poll)
  with lp have q: "quiet cview st (update_link (so_link sc) (\<lambda>_. l) st)"
    by (intro quiet_update) (simp add: quiet_link_def)
  have "quiet cview st (close_agent_transport_socket env sc' why stamp (update_link (so_link sc) (\<lambda>_. l) st))" for why
  proof -
    have "quiet cview st (snd (disconnect_transport env (update_link (so_link sc) (\<lambda>_. l) st)
            (hs_node_id (so_handshake sc')) (hs_transport_id (so_handshake sc'))))"
      (is "quiet cview st ?st1")
      by (rule quiet_trans [OF q quiet_disconnect(2)])
    also have "quiet cview ?st1 (transport_audit env stamp KindAgentDisconnected m ?st1)" for m
      by (rule quiet_same_links) simp
    finally show ?thesis
      unfolding close_agent_transport_socket_def Let_def by (rule quiet_trans [OF _ quiet_drop_socket_ends])
  qed
  with q s show ?thesis
    by (simp add: socket_round_def Let_def split: option.split)
qed

end

section \<open>The hub's invariant\<close>

definition conns_ok :: "('c, 'e) transport_state \<Rightarrow> bool" where
  "conns_ok st =
     (\<forall>nid conn. hm_get (ts_connections st) nid = Some conn \<longrightarrow> rac_link conn < length (ts_links st))"

definition log_ok_on ::
  "('c \<Rightarrow> agent_terminal_command mailbox) \<Rightarrow> ('c, 'e) link list \<Rightarrow> (nat \<times> agent_terminal_command) list
   \<Rightarrow> (nat \<times> agent_terminal_command) list \<Rightarrow> nat \<Rightarrow> bool" where
  "log_ok_on cview links sent delivered h =
     (if h < length links
      then lk_long_poll (links ! h) \<longrightarrow>
             (let m = cview (lk_commands (links ! h))
              in \<exists>lost. commands_on h sent = commands_on h delivered @ mb_queue m @ lost
                   \<and> (mb_receiver_gone m \<or> lost = []))
      else commands_on h sent = [] \<and> commands_on h delivered = [])"

definition hub_ok :: "('c \<Rightarrow> agent_terminal_command mailbox) \<Rightarrow> ('c, 'e) hub \<Rightarrow> bool" where
  "hub_ok cview hub =
     (let links = ts_links (hub_state hub)
      in conns_ok (hub_state hub)
         \<and> (\<forall>sc \<in> set (hub_sockets hub). so_link sc < length links \<and> \<not> lk_long_poll (links ! so_link sc))
         \<and> (\<forall>pp \<in> set (hub_polls hub). rac_link (pp_connection pp) < length links
              \<and> 1 \<le> length (pp_envelopes pp) \<and> commands_in (pp_envelopes pp) = [])
         \<and> (\<forall>h. log_ok_on cview links (hub_sent hub) (hub_delivered hub) h))"

lemma commands_on_simps [simp]:
  "commands_on h [] = []"
  "commands_on h (log @ log') = commands_on h log @ commands_on h log'"
  "commands_on h (map (Pair h') xs) = (if h' = h then xs else [])"
  "commands_on h [(h', x)] = (if h' = h then [x] else [])"
  by (auto simp: commands_on_def filter_map comp_def)

lemma log_ok_quiet:
  assumes "quiet cview st st'" and "log_ok_on cview (ts_links st) sent delivered h"
  shows "log_ok_on cview (ts_links st') sent delivered h"
proof (cases "h < length (ts_links st)")
  case True
  then have "quiet_link cview (ts_links st ! h) (ts_links st' ! h)" "h < length (ts_links st')"
    using assms(1) by (auto simp: quiet_def)
  with True assms(2) show ?thesis
    by (auto simp: log_ok_on_def quiet_link_def Let_def)
next
  case False
  with assms show ?thesis
    by (auto simp: log_ok_on_def quiet_def Let_def)
qed

lemma hub_ok_quiet:
  assumes "hub_ok cview hub" and "quiet cview (hub_state hub) st" and "conns_ok st"
    and "\<forall>sc \<in> set socks. sc \<in> set (hub_sockets hub) \<or> (\<exists>sc' \<in> set (hub_sockets hub). so_link sc = so_link sc')
           \<or> so_link sc < length (ts_links st) \<and> \<not> lk_long_poll (ts_links st ! so_link sc)"
    and "\<forall>pp \<in> set polls. pp \<in> set (hub_polls hub) \<or> rac_link (pp_connection pp) < length (ts_links st)
           \<and> 1 \<le> length (pp_envelopes pp) \<and> commands_in (pp_envelopes pp) = []"
  shows "hub_ok cview (hub\<lparr>hub_state := st, hub_sockets := socks, hub_polls := polls\<rparr>)"
proof -
  let ?ls = "ts_links (hub_state hub)"
  have len: "length ?ls \<le> length (ts_links st)"
    and same: "h < length ?ls \<Longrightarrow> lk_long_poll (ts_links st ! h) = lk_long_poll (?ls ! h)" for h
    using assms(2) by (auto simp: quiet_def quiet_link_def)
  have "so_link sc < length (ts_links st) \<and> \<not> lk_long_poll (ts_links st ! so_link sc)"
    if "sc \<in> set socks" for sc
  proof -
    have "so_link sc' < length (ts_links st) \<and> \<not> lk_long_poll (ts_links st ! so_link sc')"
      if "sc' \<in> set (hub_sockets hub)" for sc'
      using assms(1) that len same [of "so_link sc'"] by (auto simp: hub_ok_def Let_def)
    then show ?thesis
      using assms(4) that by metis
  qed
  moreover have "rac_link (pp_connection pp) < length (ts_links st)
      \<and> 1 \<le> length (pp_envelopes pp) \<and> commands_in (pp_envelopes pp) = []" if "pp \<in> set polls" for pp
    using assms(1,5) that len by (auto simp: hub_ok_def Let_def dest!: bspec)
  moreover have "log_ok_on cview (ts_links st) (hub_sent hub) (hub_delivered hub) h" for h
    using assms(1) log_ok_quiet [OF assms(2)] by (simp add: hub_ok_def Let_def)
  ultimately show ?thesis
    using assms(3) by (auto simp: hub_ok_def Let_def)
qed

lemma conns_ok_update [simp]: "conns_ok (update_link h f st) = conns_ok st"
  by (simp add: conns_ok_def)

lemma conns_ok_drop [simp]: "conns_ok (drop_connection env conn st) = conns_ok st"
    and conns_ok_clone [simp]: "conns_ok (clone_connection conn st) = conns_ok st"
    and conns_ok_ends [simp]: "conns_ok (drop_socket_ends env h st) = conns_ok st"
  by (simp_all add: drop_connection_def clone_connection_def drop_socket_ends_def)

lemma conns_ok_new_link: "conns_ok st \<Longrightarrow> conns_ok (snd (new_link env lp st))"
  by (auto simp: conns_ok_def new_link_def less_Suc_eq)

lemma length_links_simps [simp]:
  "length (ts_links (drop_connection env conn st)) = length (ts_links st)"
  "length (ts_links (clone_connection conn st)) = length (ts_links st)"
  "length (ts_links (snd (insert_connection env st nid c))) = length (ts_links st)"
  "length (ts_links (snd (new_link env lp st))) = Suc (length (ts_links st))"
  by (simp_all add: drop_connection_def clone_connection_def insert_connection_def new_link_def Let_def
      split: option.split)

lemma connections_simps [simp]:
  "ts_connections (drop_connection env conn st) = ts_connections st"
  "ts_connections (clone_connection conn st) = ts_connections st"
  "ts_connections (snd (new_link env lp st)) = ts_connections st"
  "ts_connections (snd (insert_connection env st nid c)) = hm_put nid c (ts_connections st)"
  "ts_connections (drop_socket_ends env h st) = ts_connections st"
  by (simp_all add: drop_connection_def clone_connection_def insert_connection_def new_link_def Let_def
      drop_socket_ends_def split: option.split)

lemma conns_ok_insert:
  "conns_ok st \<Longrightarrow> rac_link conn < length (ts_links st) \<Longrightarrow> conns_ok (snd (insert_connection env st nid conn))"
  by (simp add: conns_ok_def)

lemma conns_ok_disconnect:
  assumes "conns_ok st"
  shows "conns_ok (disconnect env st nid)" "conns_ok (snd (disconnect_transport env st nid tid))"
proof -
  have "conns_ok (st\<lparr>ts_connections := hm_rem nid (ts_connections st)\<rparr>)"
    using assms by (simp add: conns_ok_def)
  then show "conns_ok (disconnect env st nid)" "conns_ok (snd (disconnect_transport env st nid tid))"
    using assms by (auto simp: disconnect_def disconnect_transport_def split: option.split)
qed

lemma conns_ok_same:
  "ts_connections st' = ts_connections st \<Longrightarrow> ts_links st' = ts_links st \<Longrightarrow> conns_ok st' = conns_ok st"
  by (simp add: conns_ok_def)

text \<open>The connection that a poll finds or makes is the one registered for the node, a long-poll
  connection under the poll's identifier.\<close>

lemma ensure_connection:
  assumes "ensure_long_poll_transport env st nid tid = ((registration, conn), st')"
  shows "conns_ok st \<Longrightarrow> conns_ok st' \<and> rac_link conn < length (ts_links st')"
    and "hm_get (ts_connections st') nid = Some conn" "rac_transport_id conn = tid"
    and "rac_transport_kind conn = LongPollHttps"
proof -
  let ?fresh = "\<lparr>rac_link = length (ts_links st), rac_transport_id = tid, rac_transport_kind = LongPollHttps,
                 rac_degraded_reason = Some LONG_POLL_DEGRADED_REASON, rac_long_poll = True\<rparr>"
  let ?st1 = "clone_connection ?fresh (snd (new_link env True st))"
  consider (old) "hm_get (ts_connections st) nid = Some conn" "rac_transport_id conn = tid"
      "rac_transport_kind conn = LongPollHttps" "st' = clone_connection conn st"
    | (new) "conn = ?fresh" "st' = snd (insert_connection env ?st1 nid ?fresh)"
    using assms
    by (auto simp: ensure_long_poll_transport_def Let_def split_beta new_link_def
        split: option.splits if_splits)
  then have "(conns_ok st \<longrightarrow> conns_ok st' \<and> rac_link conn < length (ts_links st'))
      \<and> hm_get (ts_connections st') nid = Some conn \<and> rac_transport_id conn = tid
      \<and> rac_transport_kind conn = LongPollHttps"
  proof (cases)
    case old
    then show ?thesis
      by (auto simp: conns_ok_def)
  next
    case new
    then show ?thesis
      by (simp add: conns_ok_insert conns_ok_new_link)
  qed
  then show "conns_ok st \<Longrightarrow> conns_ok st' \<and> rac_link conn < length (ts_links st')"
      "hm_get (ts_connections st') nid = Some conn" "rac_transport_id conn = tid"
      "rac_transport_kind conn = LongPollHttps"
    by blast+
qed


lemma conns_ok_nodes [simp]:
  "conns_ok (st\<lparr>ts_nodes := reg\<rparr>) = conns_ok st"
  by (simp add: conns_ok_def)

lemma conns_ok_audits [simp]:
  "conns_ok (transport_audit env stamp k m st) = conns_ok st"
  "conns_ok (audit_replaced env stamp r nid st) = conns_ok st"
  "conns_ok (audit_negotiated env stamp hs st) = conns_ok st"
  "conns_ok (record_long_poll_registration env stamp r hs st) = conns_ok st"
  "conns_ok (snd (record_agent_transport_authentication_failure env st nid tid err now stamp)) = conns_ok st"
  by (simp_all add: conns_ok_def)

text \<open>A poll that begins, in one piece.\<close>

lemma poll_begin_cases:
  obtains (refused) err reg where "long_poll_begin env st request now stamp = (Inl err, st\<lparr>ts_nodes := reg\<rparr>)"
      "negotiate_transport_for_kind (ts_nodes st) (lpq_client_hello request) LongPollHttps now = (Inl err, reg)"
  | (not_long_poll) hs reg registration conn st1 where
      "negotiate_transport_for_kind (ts_nodes st) (lpq_client_hello request) LongPollHttps now = (Inr hs, reg)"
      "ensure_long_poll_transport env (st\<lparr>ts_nodes := reg\<rparr>) (hs_node_id hs) (hs_transport_id hs)
         = ((registration, conn), st1)"
      "\<not> rac_long_poll conn"
      "long_poll_begin env st request now stamp = (Inl ConnUnsupportedTransport,
         drop_connection env conn (record_long_poll_registration env stamp registration hs st1))"
  | (begun) hs reg registration conn st1 st2 where
      "negotiate_transport_for_kind (ts_nodes st) (lpq_client_hello request) LongPollHttps now = (Inr hs, reg)"
      "ensure_long_poll_transport env (st\<lparr>ts_nodes := reg\<rparr>) (hs_node_id hs) (hs_transport_id hs)
         = ((registration, conn), st1)"
      "rac_long_poll conn"
      "st2 = record_long_poll_registration env stamp registration hs st1"
      "long_poll_begin env st request now stamp =
         (Inr \<lparr>pp_handshake = hs, pp_connection = conn,
               pp_envelopes = fst (poll_events env hs (lpq_events request) (ts_links st1 ! rac_link conn))\<rparr>,
          update_link (rac_link conn)
            (\<lambda>_. snd (poll_events env hs (lpq_events request) (ts_links st1 ! rac_link conn))) st2)"
proof -
  obtain r reg where n: "negotiate_transport_for_kind (ts_nodes st) (lpq_client_hello request)
      LongPollHttps now = (r, reg)"
    by fastforce
  show ?thesis
  proof (cases r)
    case (Inl err)
    with n refused show ?thesis
      by (simp add: long_poll_begin_def)
  next
    case (Inr hs)
    obtain registration conn st1 where e: "ensure_long_poll_transport env (st\<lparr>ts_nodes := reg\<rparr>)
        (hs_node_id hs) (hs_transport_id hs) = ((registration, conn), st1)"
      by (metis surj_pair)
    show ?thesis
    proof (cases "rac_long_poll conn")
      case True
      from n Inr e True show ?thesis
        by (intro begun [of hs reg registration conn st1])
          (simp_all add: long_poll_begin_def Let_def split_beta)
    next
      case False
      from n Inr e False show ?thesis
        by (intro not_long_poll [of hs reg registration conn st1])
          (simp_all add: long_poll_begin_def Let_def split_beta)
    qed
  qed
qed

lemma conns_ok_poll_begin:
  assumes "conns_ok st" and "long_poll_begin env st request now stamp = (r, st')"
  shows "conns_ok st'"
    and "r = Inr pp \<Longrightarrow> rac_link (pp_connection pp) < length (ts_links st')
           \<and> 1 \<le> length (pp_envelopes pp) \<and> commands_in (pp_envelopes pp) = []"
proof -
  have "conns_ok st' \<and> (r = Inr pp \<longrightarrow> rac_link (pp_connection pp) < length (ts_links st')
           \<and> 1 \<le> length (pp_envelopes pp) \<and> commands_in (pp_envelopes pp) = [])"
  proof (cases rule: poll_begin_cases [of env st request now stamp])
    case (refused err reg)
    with assms show ?thesis by auto
  next
    case (not_long_poll hs reg registration conn st1)
    with assms ensure_connection(1) [OF not_long_poll(2)] show ?thesis by auto
  next
    case (begun hs reg registration conn st1 st2)
    note e = ensure_connection(1) [OF begun(2)]
    have "conns_ok st1" "rac_link conn < length (ts_links st1)"
      using e assms(1) by simp_all
    then show ?thesis
      using begun(4,5) assms(2) by (auto simp: poll_events_frame [simplified])
  qed
  then show "conns_ok st'" and "r = Inr pp \<Longrightarrow> rac_link (pp_connection pp) < length (ts_links st')
           \<and> 1 \<le> length (pp_envelopes pp) \<and> commands_in (pp_envelopes pp) = []"
    by blast+
qed

lemma insert_long_poll:
  assumes "h < length (ts_links st)"
  shows "lk_long_poll (ts_links (snd (insert_connection env st nid conn)) ! h) = lk_long_poll (ts_links st ! h)"
proof (cases "hm_get (ts_connections st) nid")
  case None
  then show ?thesis
    by (simp add: insert_connection_def)
next
  case (Some old)
  with assms show ?thesis
    by (simp add: insert_connection_def drop_connection_def update_link_nth drop_clone_def)
qed

lemma register_link:
  assumes "new_link env False st = (h, st1)" and "register_transport env st1 nid tid kind h = (r, st2)"
    and "conns_ok st"
  shows "conns_ok st2" "h < length (ts_links st2)" "\<not> lk_long_poll (ts_links st2 ! h)"
proof -
  let ?conn = "\<lparr>rac_link = h, rac_transport_id = tid, rac_transport_kind = kind,
                rac_degraded_reason = None, rac_long_poll = False\<rparr>"
  have h: "h = length (ts_links st)" "st1 = snd (new_link env False st)"
    using assms(1) by (auto simp: new_link_def)
  then have ok1: "conns_ok st1" "h < length (ts_links st1)" "\<not> lk_long_poll (ts_links st1 ! h)"
    using conns_ok_new_link [OF assms(3)] by (auto simp: new_link_def nth_append)
  have st2: "st2 = snd (insert_connection env st1 nid ?conn)"
    using assms(2) by (simp add: register_transport_def)
  then show "conns_ok st2"
    using conns_ok_insert [OF ok1(1), of ?conn] ok1(2) by simp
  show "h < length (ts_links st2)"
    using st2 ok1(2) by simp
  show "\<not> lk_long_poll (ts_links st2 ! h)"
    unfolding st2 insert_long_poll [OF ok1(2)] by (rule ok1(3))
qed

lemma socket_open_cases:
  obtains (silent)
      "fst (snd (open_agent_transport_socket env st m hello_sent now stamp)) = None"
      "ts_links (snd (snd (open_agent_transport_socket env st m hello_sent now stamp))) = ts_links st"
      "ts_connections (snd (snd (open_agent_transport_socket env st m hello_sent now stamp)))
         = ts_connections st"
  | (opened) hs reg h st1 r st2 where
      "\<exists>m' e. m = Some m' \<and> parse_transport_envelope env m' = Inr e
               \<and> negotiate_transport (ts_nodes st) e now = (Inr hs, reg)"
      "new_link env False (st\<lparr>ts_nodes := reg\<rparr>) = (h, st1)"
      "register_transport env st1 (hs_node_id hs) (hs_transport_id hs) (hs_selected_transport hs) h = (r, st2)"
      "open_agent_transport_socket env st m hello_sent now stamp =
         (let st3 = transport_audit env stamp AgentConnected
                (''agent node '' @ hs_node_id hs @ '' connected on transport '' @ hs_transport_id hs)
                (audit_negotiated env stamp hs (audit_replaced env stamp r (hs_node_id hs) st2))
          in if hello_sent
             then ([hello_envelope hs 2],
                   Some \<lparr>so_handshake = hs, so_link = h, so_next_message_id = 3,
                         so_last_heartbeat_at = now\<rparr>, st3)
             else ([], None,
                   drop_socket_ends env h
                     (snd (disconnect_transport env st3 (hs_node_id hs) (hs_transport_id hs)))))"
proof (cases m)
  case None
  then show ?thesis
    by (intro silent) (simp_all add: open_agent_transport_socket_def)
next
  case (Some m')
  show ?thesis
  proof (cases "parse_transport_envelope env m'")
    case (Inl err)
    with Some show ?thesis
      by (intro silent) (simp_all add: open_agent_transport_socket_def)
  next
    case (Inr e)
    obtain n reg where n: "negotiate_transport (ts_nodes st) e now = (n, reg)"
      by fastforce
    show ?thesis
    proof (cases n)
      case (Inl err)
      show ?thesis
        using Some Inr n Inl
        by (intro silent) (simp_all add: open_agent_transport_socket_def split_beta)
    next
      case hs: (Inr hs)
      obtain h st1 where st1: "new_link env False (st\<lparr>ts_nodes := reg\<rparr>) = (h, st1)"
        by fastforce
      obtain r st2 where st2: "register_transport env st1 (hs_node_id hs) (hs_transport_id hs)
          (hs_selected_transport hs) h = (r, st2)"
        by fastforce
      show ?thesis
        using Some Inr n hs st1 st2
        by (intro opened [OF _ st1 st2]) (simp_all add: open_agent_transport_socket_def Let_def)
    qed
  qed
qed


lemma negotiated_conns_ok:
  assumes "conns_ok st"
  shows "conns_ok (snd (snd (open_agent_transport_socket env st m hello_sent now stamp)))"
    and "fst (snd (open_agent_transport_socket env st m hello_sent now stamp)) = Some sc \<Longrightarrow>
           so_link sc < length (ts_links (snd (snd (open_agent_transport_socket env st m hello_sent now stamp))))
           \<and> \<not> lk_long_poll
               (ts_links (snd (snd (open_agent_transport_socket env st m hello_sent now stamp))) ! so_link sc)"
proof -
  let ?r = "open_agent_transport_socket env st m hello_sent now stamp"
  have "conns_ok (snd (snd ?r))
      \<and> (fst (snd ?r) = Some sc \<longrightarrow> so_link sc < length (ts_links (snd (snd ?r)))
           \<and> \<not> lk_long_poll (ts_links (snd (snd ?r)) ! so_link sc))"
  proof (cases rule: socket_open_cases [of env st m hello_sent now stamp])
    case silent
    with conns_ok_same [OF silent(3,2)] assms show ?thesis
      by simp
  next
    case (opened hs reg h st1 r st2)
    from register_link [OF opened(2,3)] assms
    have ok: "conns_ok st2" "h < length (ts_links st2)" "\<not> lk_long_poll (ts_links st2 ! h)"
      by simp_all
    show ?thesis
      unfolding opened(4) Let_def using ok by (cases hello_sent) (auto intro: conns_ok_disconnect)
  qed
  then show "conns_ok (snd (snd ?r))"
    and "fst (snd ?r) = Some sc \<Longrightarrow> so_link sc < length (ts_links (snd (snd ?r)))
           \<and> \<not> lk_long_poll (ts_links (snd (snd ?r)) ! so_link sc)"
    by blast+
qed

lemma step_link_so_link: "so_link (snd (snd (fst (socket_step env sc l inp)))) = so_link sc"
  by (cases inp)
    (auto simp: split_beta Let_def send_numbered_def split: sum.split transport_frame_outcome.split recv.split)

lemma conns_ok_round:
  assumes "conns_ok st"
  shows "conns_ok (snd (snd (socket_round env stamp sc st inp)))"
    and "fst (snd (socket_round env stamp sc st inp)) = Some sc' \<Longrightarrow> so_link sc' = so_link sc"
  using assms step_link_so_link [of env sc "ts_links st ! so_link sc" inp]
  by (auto simp: socket_round_def Let_def split_beta close_agent_transport_socket_def
      intro: conns_ok_disconnect split: option.splits)

lemma set_remove_nth: "set (remove_nth i xs) \<subseteq> set xs"
  by (auto simp: remove_nth_def dest: in_set_takeD in_set_dropD)

lemma drain_long_poll: "lk_long_poll (snd (drain_commands env hs s)) = lk_long_poll (snd s)"
proof (induction env hs s rule: drain_commands.induct)
  case (1 env hs s)
  obtain r c where r: "mp_recv (te_commands env) (lk_commands (snd s)) = (r, c)"
    by fastforce
  show ?case
  proof (cases "length (fst s) < AGENT_TRANSPORT_LONG_POLL_BATCH")
    case True
    show ?thesis
    proof (cases r)
      case (Received x)
      with "1.IH" [OF True r [symmetric] Received] r True show ?thesis
        by (subst drain_commands.simps) (simp add: push_command_def push_simps)
    qed (use r True in \<open>(subst drain_commands.simps, simp)+\<close>)
  qed (subst drain_commands.simps, simp)
qed

lemma append_long_poll: "lk_long_poll (snd (append_long_poll_commands env hs s)) = lk_long_poll (snd s)"
  by (auto simp: append_long_poll_commands_def drain_long_poll push_command_def push_simps
      split: prod.split recv.split)

lemma hub_ok_start: "hub_ok cview (hub_start reg rl)"
  by (simp add: hub_ok_def hub_start_def conns_ok_def log_ok_on_def)

lemma hub_ok_log_other:
  assumes "hub_ok cview hub" and "h < length (ts_links (hub_state hub))"
    and "\<not> lk_long_poll (ts_links (hub_state hub) ! h)"
  shows "hub_ok cview (hub\<lparr>hub_delivered := hub_delivered hub @ map (Pair h) xs\<rparr>)"
proof -
  have "log_ok_on cview (ts_links (hub_state hub)) (hub_sent hub) (hub_delivered hub @ map (Pair h) xs) k"
    if "log_ok_on cview (ts_links (hub_state hub)) (hub_sent hub) (hub_delivered hub) k" for k
    using that assms(2,3) by (cases "k = h") (simp_all add: log_ok_on_def)
  with assms(1) show ?thesis
    by (auto simp: hub_ok_def Let_def)
qed

context transport_channels
begin

lemma hub_ok_send: "hub_ok cview hub \<Longrightarrow> hub_ok cview (hub_step env hub (TrSend h x))"
proof (cases "h < length (ts_links (hub_state hub))")
  case h: True
  assume ok: "hub_ok cview hub"
  let ?c = "lk_commands (ts_links (hub_state hub) ! h)"
  obtain r c where r: "mp_try_send (te_commands env) x ?c = (r, c)"
    by fastforce
  then have r': "r = mailbox_accepts (cview ?c)" and c: "cview c = snd (mailbox_send x (cview ?c))"
    using cmd.fst_try_send [of x ?c] cmd.view_snd_try_send [of x ?c] by auto
  let ?st = "update_link h (\<lambda>l. l\<lparr>lk_commands := c\<rparr>) (hub_state hub)"
  have lp: "lk_long_poll (ts_links ?st ! k) = lk_long_poll (ts_links (hub_state hub) ! k)"
    if "k < length (ts_links (hub_state hub))" for k
    using that by (simp add: update_link_nth)
  have "log_ok_on cview (ts_links ?st) (hub_sent hub @ (if r then [(h, x)] else [])) (hub_delivered hub) k" for k
  proof -
    have o: "log_ok_on cview (ts_links (hub_state hub)) (hub_sent hub) (hub_delivered hub) k"
      using ok by (simp add: hub_ok_def Let_def)
    show ?thesis
    proof (cases "k = h")
      case False
      with o h show ?thesis
        by (auto simp: log_ok_on_def update_link_nth)
    next
      case True
      with o h r' c show ?thesis
        by (auto simp: log_ok_on_def update_link_nth Let_def mailbox_accepts_def)
    qed
  qed
  with ok h r lp show ?thesis
    by (auto simp: hub_ok_def Let_def)
qed simp

lemma hub_ok_finish: "hub_ok cview hub \<Longrightarrow> hub_ok cview (hub_step env hub (TrPollFinish i))"
proof (cases "i < length (hub_polls hub)")
  case i: True
  assume ok: "hub_ok cview hub"
  let ?st = "hub_state hub" and ?pp = "hub_polls hub ! i"
  let ?h = "rac_link (pp_connection ?pp)"
  have pp: "?h < length (ts_links ?st)" "1 \<le> length (pp_envelopes ?pp)" "commands_in (pp_envelopes ?pp) = []"
    using ok i by (auto simp: hub_ok_def Let_def)
  obtain es l where a: "append_long_poll_commands env (pp_handshake ?pp) (pp_envelopes ?pp, ts_links ?st ! ?h) = (es, l)"
    by fastforce
  let ?q = "mb_queue (cview (lk_commands (ts_links ?st ! ?h)))"
  let ?n = "32 - length (pp_envelopes ?pp)"
  have es: "commands_in es = take ?n ?q" "mb_queue (cview (lk_commands l)) = drop ?n ?q"
    "mb_receiver_gone (cview (lk_commands l)) = mb_receiver_gone (cview (lk_commands (ts_links ?st ! ?h)))"
    using append_spec [of "(pp_envelopes ?pp, ts_links ?st ! ?h)" "pp_handshake ?pp"] a pp by auto
  have l: "lk_long_poll l = lk_long_poll (ts_links ?st ! ?h)"
    using append_long_poll [of env "pp_handshake ?pp" "(pp_envelopes ?pp, ts_links ?st ! ?h)"] a by simp
  let ?st1 = "update_link ?h (\<lambda>_. l) ?st"
  let ?hub1 = "hub\<lparr>hub_state := ?st1, hub_polls := remove_nth i (hub_polls hub),
                   hub_delivered := hub_delivered hub @ map (Pair ?h) (commands_in es)\<rparr>"
  have lp: "lk_long_poll (ts_links ?st1 ! k) = lk_long_poll (ts_links ?st ! k)"
    if "k < length (ts_links ?st)" for k
    using that l by (simp add: update_link_nth)
  have "log_ok_on cview (ts_links ?st1) (hub_sent hub) (hub_delivered hub @ map (Pair ?h) (commands_in es)) k" for k
  proof -
    have o: "log_ok_on cview (ts_links ?st) (hub_sent hub) (hub_delivered hub) k"
      using ok by (simp add: hub_ok_def Let_def)
    show ?thesis
    proof (cases "k = ?h")
      case False
      with o show ?thesis
        by (auto simp: log_ok_on_def update_link_nth)
    next
      case True
      have "?q @ lost = take ?n ?q @ drop ?n ?q @ lost" for lost
        by simp
      with True o es l pp show ?thesis
        by (auto simp: log_ok_on_def update_link_nth Let_def)
    qed
  qed
  then have ok1: "hub_ok cview ?hub1"
    using ok lp set_remove_nth [of i "hub_polls hub"] by (auto simp: hub_ok_def Let_def)
  have "hub_step env hub (TrPollFinish i)
      = ?hub1\<lparr>hub_state := drop_connection env (pp_connection ?pp) (hub_state ?hub1),
              hub_sockets := hub_sockets ?hub1, hub_polls := hub_polls ?hub1\<rparr>"
    using i a by (simp add: long_poll_finish_def Let_def long_poll_response_def)
  moreover have "conns_ok (hub_state ?hub1)"
    using ok1 by (simp add: hub_ok_def Let_def)
  ultimately show ?thesis
    using hub_ok_quiet [OF ok1 quiet_drop_connection, of "pp_connection ?pp" "hub_sockets ?hub1" "hub_polls ?hub1"]
    by simp
qed simp

lemma hub_ok_state:
  "hub_ok cview hub \<Longrightarrow> quiet cview (hub_state hub) st \<Longrightarrow> conns_ok st \<Longrightarrow>
     hub_ok cview (hub\<lparr>hub_state := st\<rparr>)"
  using hub_ok_quiet [of cview hub st "hub_sockets hub" "hub_polls hub"] by simp

lemma hub_ok_begin: "hub_ok cview hub \<Longrightarrow> hub_ok cview (hub_step env hub (TrPollBegin request now stamp))"
proof -
  assume ok: "hub_ok cview hub"
  then have c: "conns_ok (hub_state hub)"
    by (simp add: hub_ok_def Let_def)
  obtain r st where r: "long_poll_begin env (hub_state hub) request now stamp = (r, st)"
    by fastforce
  have q: "quiet cview (hub_state hub) st"
    using quiet_poll_begin [of "hub_state hub" request now stamp] r by simp
  note b = conns_ok_poll_begin [OF c r]
  show ?thesis
  proof (cases r)
    case (Inl err)
    let ?st' = "snd (record_agent_transport_authentication_failure env st
                 (env_node_id (lpq_client_hello request)) (env_transport_id (lpq_client_hello request))
                 err now stamp)"
    have "quiet cview (hub_state hub) ?st'"
      by (rule quiet_trans [OF q quiet_same_links]) simp
    from hub_ok_state [OF ok this] b(1) Inl r show ?thesis
      by simp
  next
    case (Inr pp)
    have "\<forall>p \<in> set (hub_polls hub @ [pp]). p \<in> set (hub_polls hub)
        \<or> rac_link (pp_connection p) < length (ts_links st) \<and> 1 \<le> length (pp_envelopes p)
          \<and> commands_in (pp_envelopes p) = []"
      using b(2) [OF Inr] by simp
    from hub_ok_quiet [OF ok q b(1) _ this, of "hub_sockets hub"] Inr r show ?thesis
      by simp
  qed
qed

lemma hub_ok_open: "hub_ok cview hub \<Longrightarrow> hub_ok cview (hub_step env hub (TrSocketOpen m hello_sent now stamp))"
proof -
  assume ok: "hub_ok cview hub"
  then have c: "conns_ok (hub_state hub)"
    by (simp add: hub_ok_def Let_def)
  obtain es sc st where r: "open_agent_transport_socket env (hub_state hub) m hello_sent now stamp = (es, sc, st)"
    by (metis surj_pair)
  have q: "quiet cview (hub_state hub) st"
    using quiet_socket_open [of "hub_state hub" m hello_sent now stamp] r by simp
  have c': "conns_ok st"
    using negotiated_conns_ok(1) [OF c, of env m hello_sent now stamp] r by simp
  have s: "so_link s < length (ts_links st) \<and> \<not> lk_long_poll (ts_links st ! so_link s)" if "sc = Some s" for s
    using negotiated_conns_ok(2) [OF c, of env m hello_sent now stamp s] r that by simp
  have "\<forall>s \<in> set (hub_sockets hub @ opt_list sc). s \<in> set (hub_sockets hub)
      \<or> (\<exists>s' \<in> set (hub_sockets hub). so_link s = so_link s')
      \<or> so_link s < length (ts_links st) \<and> \<not> lk_long_poll (ts_links st ! so_link s)"
    using s by (auto simp: opt_list_def split: option.splits)
  from hub_ok_quiet [OF ok q c' this, of "hub_polls hub"] r show ?thesis
    by simp
qed

lemma hub_ok_round: "hub_ok cview hub \<Longrightarrow> hub_ok cview (hub_step env hub (TrSocketInput i inp stamp))"
proof (cases "i < length (hub_sockets hub)")
  case i: True
  assume ok: "hub_ok cview hub"
  let ?sc = "hub_sockets hub ! i"
  have c: "conns_ok (hub_state hub)"
    and sc: "so_link ?sc < length (ts_links (hub_state hub))"
      "\<not> lk_long_poll (ts_links (hub_state hub) ! so_link ?sc)"
    using ok i by (auto simp: hub_ok_def Let_def)
  obtain sent sc' st where r: "socket_round env stamp ?sc (hub_state hub) inp = (sent, sc', st)"
    by (metis surj_pair)
  have q: "quiet cview (hub_state hub) st"
    using quiet_socket_round [OF sc(2), of stamp inp] r by simp
  have c': "conns_ok st"
    using conns_ok_round(1) [OF c, of env stamp ?sc inp] r by simp
  have s: "so_link s = so_link ?sc" if "sc' = Some s" for s
    using conns_ok_round(2) [OF c, of env stamp ?sc inp s] r that by simp
  let ?socks = "case sc' of None \<Rightarrow> remove_nth i (hub_sockets hub) | Some s \<Rightarrow> (hub_sockets hub)[i := s]"
  have "\<forall>s \<in> set ?socks. s \<in> set (hub_sockets hub)
      \<or> (\<exists>s' \<in> set (hub_sockets hub). so_link s = so_link s')
      \<or> so_link s < length (ts_links st) \<and> \<not> lk_long_poll (ts_links st ! so_link s)"
  proof (cases sc')
    case None
    then show ?thesis
      using set_remove_nth [of i "hub_sockets hub"] by auto
  next
    case (Some s)
    have "?sc \<in> set (hub_sockets hub)"
      using i by simp
    with Some show ?thesis
      using set_update_subset_insert [of "hub_sockets hub" i s] s by auto
  qed
  from hub_ok_quiet [OF hub_ok_log_other [OF ok sc, of "commands_in sent"] _ c' _ _, of ?socks "hub_polls hub"] this q
  have "hub_ok cview (hub\<lparr>hub_delivered := hub_delivered hub @ map (Pair (so_link ?sc)) (commands_in sent),
      hub_state := st, hub_sockets := ?socks\<rparr>)"
    by simp
  moreover have "hub_step env hub (TrSocketInput i inp stamp)
      = hub\<lparr>hub_delivered := hub_delivered hub @ map (Pair (so_link ?sc)) (commands_in sent),
            hub_state := st, hub_sockets := ?socks\<rparr>"
    using i r by simp
  ultimately show ?thesis
    by simp
qed simp

lemma hub_ok_step: "hub_ok cview hub \<Longrightarrow> hub_ok cview (hub_step env hub op)"
proof -
  assume ok: "hub_ok cview hub"
  then have c: "conns_ok (hub_state hub)"
    by (simp add: hub_ok_def Let_def)
  show ?thesis
  proof (cases op)
    case (TrDisconnect nid)
    with hub_ok_state [OF ok quiet_disconnect(1) conns_ok_disconnect(1) [OF c]] show ?thesis
      by simp
  next
    case (TrAttach nid)
    have "quiet cview (hub_state hub) (snd (connection (hub_state hub) nid))"
        "conns_ok (snd (connection (hub_state hub) nid))"
      using quiet_clone c by (auto simp: connection_def split: option.split)
    with TrAttach hub_ok_state [OF ok] show ?thesis
      by simp
  next
    case (TrDetach conn)
    with hub_ok_state [OF ok quiet_drop_connection] c show ?thesis
      by simp
  next
    case (TrCloneSender h)
    have "quiet cview (hub_state hub) (update_link h clone_sender (hub_state hub))"
      by (rule quiet_update) (simp add: quiet_link_def clone_sender_def)
    with TrCloneSender hub_ok_state [OF ok] c show ?thesis
      by simp
  next
    case (TrDropSender h)
    have "quiet cview (hub_state hub) (update_link h (drop_sender env) (hub_state hub))"
      by (intro quiet_update quiet_drop_sender)
    with TrDropSender hub_ok_state [OF ok] c show ?thesis
      by simp
  next
    case (TrReceive h)
    have "quiet cview (hub_state hub) (update_link h
        (\<lambda>l. l\<lparr>lk_events := snd (mp_recv (te_events env) (lk_events l))\<rparr>) (hub_state hub))"
      by (rule quiet_update) (simp add: quiet_link_def)
    with TrReceive hub_ok_state [OF ok] c show ?thesis
      by simp
  qed (use ok hub_ok_begin hub_ok_finish hub_ok_open hub_ok_round hub_ok_send in blast)+
qed

lemma hub_ok_run: "hub_ok cview hub \<Longrightarrow> hub_ok cview (hub_run env hub ops)"
  unfolding hub_run_def by (induction ops arbitrary: hub) (simp_all add: hub_ok_step)

lemma commands_logged:
  assumes "h < length (ts_links (hub_state (hub_run env (hub_start reg rl) ops)))"
    and "lk_long_poll (ts_links (hub_state (hub_run env (hub_start reg rl) ops)) ! h)"
  shows "\<exists>lost. commands_on h (hub_sent (hub_run env (hub_start reg rl) ops)) =
        commands_on h (hub_delivered (hub_run env (hub_start reg rl) ops))
        @ mb_queue (cview (lk_commands (ts_links (hub_state (hub_run env (hub_start reg rl) ops)) ! h))) @ lost
      \<and> (mb_receiver_gone (cview (lk_commands (ts_links (hub_state (hub_run env (hub_start reg rl) ops)) ! h)))
         \<or> lost = [])"
proof -
  have "log_ok_on cview (ts_links (hub_state (hub_run env (hub_start reg rl) ops)))
      (hub_sent (hub_run env (hub_start reg rl) ops)) (hub_delivered (hub_run env (hub_start reg rl) ops)) h"
    using hub_ok_run [OF hub_ok_start, of reg rl ops] by (simp add: hub_ok_def Let_def)
  with assms show ?thesis
    by (simp add: log_ok_on_def Let_def)
qed

end


text \<open>A response only grows.\<close>

lemma drain_extends: "\<exists>fs. fst (drain_commands env hs s) = fst s @ fs"
proof (induction env hs s rule: drain_commands.induct)
  case (1 env hs s)
  obtain r c where r: "mp_recv (te_commands env) (lk_commands (snd s)) = (r, c)"
    by fastforce
  show ?case
  proof (cases "length (fst s) < AGENT_TRANSPORT_LONG_POLL_BATCH")
    case True
    show ?thesis
    proof (cases r)
      case (Received x)
      with "1.IH" [OF True r [symmetric] Received] r True show ?thesis
        by (subst drain_commands.simps) (auto simp: push_command_def push_simps)
    qed (use r True in \<open>(subst drain_commands.simps, simp)+\<close>)
  qed (subst drain_commands.simps, simp)
qed

lemma append_extends: "\<exists>fs. fst (append_long_poll_commands env hs s) = fst s @ fs"
proof -
  let ?s = "if length (fst s) = 1
        then (case mp_recv (te_commands env) (lk_commands (snd s)) of
                (Received x, c) \<Rightarrow> push_command hs x (fst s, (snd s)\<lparr>lk_commands := c\<rparr>)
              | (_, c) \<Rightarrow> (fst s, (snd s)\<lparr>lk_commands := c\<rparr>))
        else s"
  have "\<exists>fs. fst ?s = fst s @ fs"
    by (auto simp: push_command_def push_simps split: prod.split recv.split)
  moreover obtain gs where "fst (drain_commands env hs ?s) = fst ?s @ gs"
    using drain_extends by blast
  ultimately show ?thesis
    unfolding append_long_poll_commands_def by auto
qed

lemma poll_events_hello:
  "\<exists>fs. fst (poll_events env hs events l) = hello_envelope hs (lk_next_message_id l) # fs"
proof -
  have "\<exists>fs. fst (foldl (handle_long_poll_event env hs) s es) = fst s @ fs" for s :: "agent_transport_envelope list \<times> ('a, 'b) link" and es
  proof (induction es arbitrary: s)
    case (Cons e es)
    obtain fs gs where "fst (handle_long_poll_event env hs s e) = fst s @ gs"
      "fst (foldl (handle_long_poll_event env hs) (handle_long_poll_event env hs s e) es)
         = fst (handle_long_poll_event env hs s e) @ fs"
      using fst_handle_event [of env hs s e] Cons.IH by (metis append_Nil2)
    then show ?case
      by simp
  qed simp
  from this [of "push_envelope (hello_envelope hs) ([], l)" events] show ?thesis
    by (simp add: poll_events_def push_simps)
qed

section \<open>Concrete channels, agents and requests\<close>

definition mail_env :: "(agent_terminal_command mailbox, agent_terminal_event mailbox) transport_env" where
  "mail_env = \<lparr>te_commands = mailbox_ops, te_events = mailbox_ops, te_sha = (\<lambda>_. []),
               te_parse = (\<lambda>_. None)\<rparr>"

lemma mail_env_simps [simp]:
  "te_commands mail_env = mailbox_ops" "te_events mail_env = mailbox_ops"
  by (simp_all add: mail_env_def)

interpretation mail: transport_channels mail_env "\<lambda>m. m" "\<lambda>m. m"
  by (intro transport_channels.intro) (simp_all add: mailbox_contract)

definition toy_client_hello :: agent_transport_client_hello where
  "toy_client_hello =
     \<lparr>ch_supported_protocol_versions = [1],
      ch_supported_transports = [WebSocketTlsTcp443, LongPollHttps],
      ch_preferred_transport = WebSocketTlsTcp443, ch_agent_version = ''v'',
      ch_credential_fingerprint = credential_fingerprint toy_sha (random_token [2]),
      ch_credential_proof = credential_proof toy_sha ''node-1'' (random_token [2]),
      ch_resume = None\<rparr>"

definition toy_hello :: agent_transport_envelope where
  "toy_hello = envelope_current 1 ''node-1'' ''t'' (PayloadClientHello toy_client_hello)"

definition toy_transport :: "(agent_terminal_command mailbox, agent_terminal_event mailbox) transport_state" where
  "toy_transport = hub_state (hub_start toy_enrolled (rate_limiter_new (secs 60) 5))"

lemma toy_negotiate:
  assumes "k \<in> {WebSocketTlsTcp443, LongPollHttps}"
  shows "fst (negotiate_transport_for_kind toy_enrolled toy_hello k 2)
     = Inr \<lparr>hs_node_id = ''node-1'', hs_transport_id = ''t'', hs_selected_transport = k\<rparr>"
proof -
  obtain c where c: "ne_credentials toy_enrolled = [c]"
    using toy_enrolled_fields(3) by (cases "ne_credentials toy_enrolled") auto
  have "check_credential toy_enrolled ''node-1'' (credential_fingerprint toy_sha (random_token [2]))
      (credential_proof toy_sha ''node-1'' (random_token [2])) 2 = Inr 0"
    using toy_enrolled_fields(3-6) c
    by (simp add: check_credential_def node_index_def toy_enrolled_fields(1)
        authenticated_credential_def NODE_CREDENTIAL_TTL_def secs_def)
  then obtain view reg where au: "authenticate_transport_client toy_enrolled ''node-1'' toy_client_hello 2 = (Inr view, reg)"
    by (simp add: authenticate_transport_client_def authenticate_transport_def toy_client_hello_def split_beta)
  have "validate_client_hello_for_transport toy_client_hello k = Inr ()"
    using assms by (auto simp: validate_client_hello_for_transport_def PROTOCOL_VERSION_def toy_client_hello_def)
  moreover have "envelope_validate toy_hello = Inr ()" "env_payload toy_hello = PayloadClientHello toy_client_hello"
      "env_node_id toy_hello = ''node-1''" "env_transport_id toy_hello = ''t''"
    by (simp_all add: toy_hello_def envelope_validate_def envelope_current_def message_id_is_valid_def)
  ultimately show ?thesis
    by (simp add: negotiate_transport_for_kind_def au)
qed

definition toy_poll :: agent_transport_long_poll_request where
  "toy_poll = \<lparr>lpq_client_hello = toy_hello, lpq_events = []\<rparr>"

section \<open>Properties\<close>

text \<open>What the control plane demands of a client hello.\<close>

definition admissible ::
  "node_registry \<Rightarrow> agent_transport_envelope \<Rightarrow> agent_transport_kind \<Rightarrow> instant \<Rightarrow> bool" where
  "admissible reg e k now =
     (env_protocol_version e = PROTOCOL_VERSION
      \<and> (case env_payload e of
           PayloadClientHello hello \<Rightarrow>
             PROTOCOL_VERSION \<in> set (ch_supported_protocol_versions hello)
             \<and> k \<in> set (ch_supported_transports hello)
             \<and> list_ex (\<lambda>node. nr_node_id node = env_node_id e \<and> nr_status node \<noteq> node_status.NodeRevoked
                  \<and> list_ex (\<lambda>c. ncr_node_id c = nr_id node
                        \<and> ncr_fingerprint c = ch_credential_fingerprint hello
                        \<and> ncr_proof c = ch_credential_proof hello \<and> now < ncr_expires_at c)
                      (ne_credentials reg))
                 (ne_nodes reg)
         | _ \<Rightarrow> False))"

lemma negotiated_admissible:
  assumes "negotiate_transport_for_kind reg e k now = (Inr hs, reg')"
  shows "admissible reg e k now"
proof (rule negotiate_Inr [OF assms])
  fix hello i
  assume h: "env_payload e = PayloadClientHello hello" "envelope_validate e = Inr ()"
    "PROTOCOL_VERSION \<in> set (ch_supported_protocol_versions hello)"
    "k \<in> set (ch_supported_transports hello)"
    "check_credential reg (env_node_id e) (ch_credential_fingerprint hello)
       (ch_credential_proof hello) now = Inr i"
  then have i: "i < length (ne_nodes reg)" "nr_node_id (ne_nodes reg ! i) = env_node_id e"
    using transport_credential_Inr [OF h(5)] by (auto simp: node_index_def position_Some)
  have v: "env_protocol_version e = PROTOCOL_VERSION"
    using h(2) by (auto simp: envelope_validate_def split: if_splits)
  obtain c where c: "c \<in> set (ne_credentials reg)" "ncr_node_id c = nr_id (ne_nodes reg ! i)"
      "ncr_fingerprint c = ch_credential_fingerprint hello" "ncr_proof c = ch_credential_proof hello"
      "now < ncr_expires_at c" and "nr_status (ne_nodes reg ! i) \<noteq> node_status.NodeRevoked"
    using transport_credential_Inr [OF h(5)] by blast
  moreover have "ne_nodes reg ! i \<in> set (ne_nodes reg)"
    using i by simp
  ultimately have "list_ex (\<lambda>node. nr_node_id node = env_node_id e \<and> nr_status node \<noteq> node_status.NodeRevoked
                  \<and> list_ex (\<lambda>c. ncr_node_id c = nr_id node
                        \<and> ncr_fingerprint c = ch_credential_fingerprint hello
                        \<and> ncr_proof c = ch_credential_proof hello \<and> now < ncr_expires_at c)
                      (ne_credentials reg)) (ne_nodes reg)"
    using i(2) by (intro list_ex_iff [THEN iffD2] bexI [of _ "ne_nodes reg ! i"] conjI bexI [of _ c])
  with h v show ?thesis
    by (simp add: admissible_def)
qed

text \<open>C28: An agent whose client hello is not admissible - wrong protocol version or transport, not a
  hello, an unknown or revoked node, a credential that does not match or has expired - gets an error
  from the long-poll endpoint and from the websocket, and leaves the connections, the channels and
  the node registry as they are.\<close>

theorem transport_admits_only_enrolled_agents:
  assumes "\<not> admissible (ts_nodes st) (lpq_client_hello request) LongPollHttps now"
    and "te_parse env text = Some e" and "\<not> admissible (ts_nodes st) e WebSocketTlsTcp443 now"
    and "agent_transport_long_poll env st request meanwhile now stamp = ((status, response), st1)"
    and "open_agent_transport_socket env st (Some (WsText text)) hello_sent now stamp = (sent, sc, st2)"
  shows "status \<in> {400, 429} \<and> sc = None
     \<and> (\<exists>error. map env_payload (lps_envelopes response) = [PayloadError error])
     \<and> (\<exists>error. map env_payload sent = [PayloadError error])
     \<and> ts_connections st1 = ts_connections st \<and> ts_links st1 = ts_links st \<and> ts_nodes st1 = ts_nodes st
     \<and> ts_connections st2 = ts_connections st \<and> ts_links st2 = ts_links st \<and> ts_nodes st2 = ts_nodes st"
proof -
  have nodes: "ts_nodes (snd (record_agent_transport_authentication_failure env s nid tid err now stamp))
      = ts_nodes s" for s :: "('a, 'b) transport_state" and nid tid err
    by (simp add: record_agent_transport_authentication_failure_def transport_audit_def Let_def split_beta)
  obtain err reg where "negotiate_transport_for_kind (ts_nodes st) (lpq_client_hello request) LongPollHttps now
      = (Inl err, reg)"
    using assms(1) negotiated_admissible by (metis old.sum.exhaust surj_pair)
  moreover from this have "reg = ts_nodes st"
    by (rule negotiate_Inl)
  ultimately have lp: "long_poll_begin env st request now stamp = (Inl err, st)"
    by (simp add: long_poll_begin_def)
  obtain err' reg' where n: "negotiate_transport_for_kind (ts_nodes st) e WebSocketTlsTcp443 now
      = (Inl err', reg')"
    using assms(3) negotiated_admissible by (metis old.sum.exhaust surj_pair)
  moreover from this have "reg' = ts_nodes st"
    by (rule negotiate_Inl)
  ultimately have ws: "negotiate_transport (ts_nodes st) e now = (Inl err', ts_nodes st)"
    by (simp add: negotiate_transport_def)
  from assms(4) have "status \<in> {400, 429}
      \<and> (\<exists>error. map env_payload (lps_envelopes response) = [PayloadError error])
      \<and> ts_connections st1 = ts_connections st \<and> ts_links st1 = ts_links st \<and> ts_nodes st1 = ts_nodes st"
    using nodes
    by (auto simp: agent_transport_long_poll_def handle_agent_transport_long_poll_request_def lp Let_def
        split_beta long_poll_response_def envelope_current_def)
  moreover from assms(2,5) ws have "sc = None \<and> (\<exists>error. map env_payload sent = [PayloadError error])
      \<and> ts_connections st2 = ts_connections st \<and> ts_links st2 = ts_links st \<and> ts_nodes st2 = ts_nodes st"
    using nodes
    by (auto simp: open_agent_transport_socket_def parse_transport_envelope_def split_beta
        envelope_current_def)
  ultimately show ?thesis
    by blast
qed


text \<open>A hello of an unknown protocol version, as the long poll's request and as websocket text.\<close>

definition toy_old_hello :: agent_transport_envelope where
  "toy_old_hello = toy_hello\<lparr>env_protocol_version := 2\<rparr>"

theorem transport_admits_only_enrolled_agents_witness:
  "fst (fst (agent_transport_long_poll mail_env toy_transport
        \<lparr>lpq_client_hello = toy_old_hello, lpq_events = []\<rparr> id 2 0)) \<in> {400, 429}
   \<and> fst (snd (open_agent_transport_socket (mail_env\<lparr>te_parse := \<lambda>_. Some toy_old_hello\<rparr>) toy_transport
        (Some (WsText ''{}'')) True 2 0)) = None"
proof -
  have no: "\<not> admissible reg toy_old_hello k 2" for reg k
    by (simp add: admissible_def toy_old_hello_def PROTOCOL_VERSION_def)
  let ?env = "mail_env\<lparr>te_parse := \<lambda>_. Some toy_old_hello\<rparr>"
  let ?req = "\<lparr>lpq_client_hello = toy_old_hello, lpq_events = []\<rparr>"
  have "fst (fst (agent_transport_long_poll env toy_transport ?req id 2 0)) \<in> {400, 429}
      \<and> fst (snd (open_agent_transport_socket ?env toy_transport (Some (WsText ''{}'')) True 2 0)) = None"
    if "env = ?env" for env
  proof -
    obtain status response st1 where a: "agent_transport_long_poll ?env toy_transport ?req id 2 0
        = ((status, response), st1)"
      by (metis surj_pair)
    obtain sent sc st2 where b: "open_agent_transport_socket ?env toy_transport (Some (WsText ''{}'')) True 2 0
        = (sent, sc, st2)"
      by (metis surj_pair)
    have "te_parse ?env ''{}'' = Some toy_old_hello"
      by simp
    from transport_admits_only_enrolled_agents [OF _ this no a b] no that show ?thesis
      by (simp add: a b)
  qed
  from this [OF refl] show ?thesis
    by (simp add: agent_transport_long_poll_def handle_agent_transport_long_poll_request_def
        long_poll_begin_def negotiate_transport_for_kind_def envelope_validate_def toy_old_hello_def
        PROTOCOL_VERSION_def record_agent_transport_authentication_failure_def)
qed

text \<open>Every envelope of a poll's response has the current protocol version and the node and
  transport of the poll's hello, the first is the server hello, and the message identifiers are
  consecutive and continue where the link's counter stood (saturating at the top), provided no
  other poll of the same link drew identifiers during the wait; the counter then continues after
  the last one.\<close>

theorem long_poll_responses_are_numbered_and_addressed:
  assumes "long_poll_begin env st request now stamp = (Inr pp, st1)"
    and "rac_link (pp_connection pp) < length (ts_links st2)"
    and "lk_next_message_id (ts_links st2 ! rac_link (pp_connection pp))
           = lk_next_message_id (ts_links st1 ! rac_link (pp_connection pp))"
    and "conns_ok st" and "long_poll_finish env st2 pp = (response, st3)"
  shows "list_all (addressed_to (pp_handshake pp)) (lps_envelopes response)
     \<and> hs_node_id (pp_handshake pp) = env_node_id (lpq_client_hello request)
     \<and> hs_transport_id (pp_handshake pp) = env_transport_id (lpq_client_hello request)
     \<and> (\<exists>mid. numbered_from mid (lps_envelopes response)
          \<and> advanced mid (length (lps_envelopes response))
              (lk_next_message_id (ts_links st3 ! rac_link (pp_connection pp))))
     \<and> map env_payload (take 1 (lps_envelopes response))
         = [PayloadServerHello (server_hello (pp_handshake pp))]"
proof (cases rule: poll_begin_cases [of env st request now stamp])
  case (begun hs reg registration conn s1 s2)
  let ?l = "ts_links s1 ! rac_link conn" and ?h = "rac_link conn"
  have pp: "pp = \<lparr>pp_handshake = hs, pp_connection = conn,
               pp_envelopes = fst (poll_events env hs (lpq_events request) ?l)\<rparr>"
    and st1: "st1 = update_link ?h (\<lambda>_. snd (poll_events env hs (lpq_events request) ?l)) s2"
    using begun(5) assms(1) by auto
  have "?h < length (ts_links st1)"
    using conns_ok_poll_begin(2) [OF assms(4,1) refl] pp by simp
  then have "ts_links st1 ! ?h = snd (poll_events env hs (lpq_events request) ?l)"
    unfolding st1 by (simp add: update_link_nth)
  with poll_events_ok [of hs ?l env "lpq_events request"] assms(3) pp
  have ok: "response_ok hs (lk_next_message_id ?l) (pp_envelopes pp, ts_links st2 ! ?h)"
    by (simp add: response_ok_def)
  obtain es l where f: "append_long_poll_commands env hs (pp_envelopes pp, ts_links st2 ! ?h) = (es, l)"
    by fastforce
  have r: "lps_envelopes response = es"
    and st3: "st3 = drop_connection env conn (update_link ?h (\<lambda>_. l) st2)"
    using assms(5) f pp by (auto simp: long_poll_finish_def long_poll_response_def)
  have "response_ok hs (lk_next_message_id ?l) (es, l)"
    using response_ok_append [OF ok, of env] f by simp
  moreover have "lk_next_message_id (ts_links st3 ! ?h) = lk_next_message_id l"
    using assms(2) pp by (simp add: st3 drop_connection_def update_link_nth drop_clone_def)
  moreover have "take 1 es = [hello_envelope hs (lk_next_message_id ?l)]"
    using append_extends [of env hs "(pp_envelopes pp, ts_links st2 ! ?h)"] f pp poll_events_hello [of env hs "lpq_events request" ?l]
    by auto
  moreover have "hs_node_id hs = env_node_id (lpq_client_hello request)
      \<and> hs_transport_id hs = env_transport_id (lpq_client_hello request)"
    by (rule negotiate_Inr [OF begun(1)]) simp
  ultimately show ?thesis
    using r pp by (auto simp: response_ok_def hello_envelope_def envelope_current_def)
qed (use assms(1) in auto)


lemma toy_begin:
  "fst (long_poll_begin mail_env toy_transport toy_poll 2 0) =
     Inr \<lparr>pp_handshake = \<lparr>hs_node_id = ''node-1'', hs_transport_id = ''t'',
                          hs_selected_transport = LongPollHttps\<rparr>,
          pp_connection = \<lparr>rac_link = 0, rac_transport_id = ''t'', rac_transport_kind = LongPollHttps,
             rac_degraded_reason = Some LONG_POLL_DEGRADED_REASON, rac_long_poll = True\<rparr>,
          pp_envelopes = [hello_envelope \<lparr>hs_node_id = ''node-1'', hs_transport_id = ''t'',
                          hs_selected_transport = LongPollHttps\<rparr> 2]\<rparr>"
proof -
  let ?hs = "\<lparr>hs_node_id = ''node-1'', hs_transport_id = ''t'', hs_selected_transport = LongPollHttps\<rparr>"
  obtain reg where n: "negotiate_transport_for_kind (ts_nodes toy_transport) (lpq_client_hello toy_poll)
      LongPollHttps 2 = (Inr ?hs, reg)"
    using toy_negotiate [of LongPollHttps]
    by (cases "negotiate_transport_for_kind toy_enrolled toy_hello LongPollHttps 2")
      (auto simp: toy_transport_def hub_start_def toy_poll_def)
  then show ?thesis
    by (simp add: long_poll_begin_def ensure_long_poll_transport_def new_link_def Let_def
        toy_transport_def hub_start_def insert_connection_def clone_connection_def update_link_def
        poll_events_def toy_poll_def push_envelope_def next_long_poll_message_id_def split_beta)
qed

theorem long_poll_responses_are_numbered_and_addressed_witness:
  "\<exists>pp st1. long_poll_begin mail_env toy_transport toy_poll 2 0 = (Inr pp, st1)
     \<and> list_all (addressed_to (pp_handshake pp)) (lps_envelopes (fst (long_poll_finish mail_env st1 pp)))
     \<and> (\<exists>mid. numbered_from mid (lps_envelopes (fst (long_poll_finish mail_env st1 pp))))"
proof -
  obtain pp st1 where b: "long_poll_begin mail_env toy_transport toy_poll 2 0 = (Inr pp, st1)"
    using toy_begin by (cases "long_poll_begin mail_env toy_transport toy_poll 2 0") auto
  have ok: "conns_ok toy_transport"
    by (simp add: conns_ok_def toy_transport_def hub_start_def)
  obtain response st3 where f: "long_poll_finish mail_env st1 pp = (response, st3)"
    by fastforce
  from long_poll_responses_are_numbered_and_addressed [OF b conns_ok_poll_begin(2) [OF ok b refl, THEN conjunct1] refl ok f]
  show ?thesis
    using b f by auto
qed

text \<open>C27: A command that was put into a long-poll link is delivered at most once and in order:
  over any run of the hub's tasks (polls that overlap, websockets, terminal handlers, disconnections
  and replacements), the commands sent on a link are those delivered on it, then those still queued,
  then those lost, and none is lost while the receiving end is alive.\<close>

theorem commands_reach_the_agent_once_and_in_order:
  "transport_channels env cview eview \<Longrightarrow> hub = hub_run env (hub_start reg rl) ops \<Longrightarrow>
   h < length (ts_links (hub_state hub)) \<Longrightarrow> lk_long_poll (ts_links (hub_state hub) ! h) \<Longrightarrow>
   \<exists>lost. commands_on h (hub_sent hub)
       = commands_on h (hub_delivered hub)
         @ mb_queue (cview (lk_commands (ts_links (hub_state hub) ! h))) @ lost
     \<and> (mb_receiver_gone (cview (lk_commands (ts_links (hub_state hub) ! h))) \<or> lost = [])"
  using transport_channels.commands_logged [of env cview eview h reg rl ops] by simp

text \<open>A poll is waiting and a terminal handler sends a command.\<close>

definition toy_run :: "transport_op list" where
  "toy_run = [TrPollBegin toy_poll 2 0, TrSend 0 (CloseTerminal ''a''), TrPollFinish 0,
              TrSend 0 (CloseTerminal ''b'')]"

lemma toy_begin_links:
  "ts_links (snd (long_poll_begin mail_env toy_transport toy_poll 2 0)) =
     [\<lparr>lk_commands = mailbox_new 128, lk_events = mailbox_new 128, lk_next_message_id = message_id_next 2,
       lk_long_poll = True, lk_clones = 2, lk_senders = 0\<rparr>]"
proof -
  let ?hs = "\<lparr>hs_node_id = ''node-1'', hs_transport_id = ''t'', hs_selected_transport = LongPollHttps\<rparr>"
  obtain reg where n: "negotiate_transport_for_kind (ts_nodes toy_transport) (lpq_client_hello toy_poll)
      LongPollHttps 2 = (Inr ?hs, reg)"
    using toy_negotiate [of LongPollHttps]
    by (cases "negotiate_transport_for_kind toy_enrolled toy_hello LongPollHttps 2")
      (auto simp: toy_transport_def hub_start_def toy_poll_def)
  then show ?thesis
    by (simp add: long_poll_begin_def ensure_long_poll_transport_def new_link_def Let_def
        toy_transport_def hub_start_def insert_connection_def clone_connection_def update_link_def
        poll_events_def toy_poll_def push_envelope_def next_long_poll_message_id_def split_beta
        AGENT_TRANSPORT_CHANNEL_CAPACITY_def)
qed

lemma toy_begun:
  obtains pp st where "long_poll_begin mail_env toy_transport toy_poll 2 0 = (Inr pp, st)"
  using toy_begin by (metis prod.collapse)

lemma toy_run_links:
  defines "hub \<equiv> hub_run mail_env (hub_start toy_enrolled (rate_limiter_new (secs 60) 5)) (take 2 toy_run)"
  shows "length (ts_links (hub_state hub)) = 1" "lk_long_poll (ts_links (hub_state hub) ! 0)"
    "hub_sent hub = [(0, CloseTerminal ''a'')]"
proof -
  obtain pp st where b: "long_poll_begin mail_env toy_transport toy_poll 2 0 = (Inr pp, st)"
    by (rule toy_begun)
  have l: "ts_links st = [\<lparr>lk_commands = mailbox_new 128, lk_events = mailbox_new 128, lk_next_message_id = message_id_next 2,
       lk_long_poll = True, lk_clones = 2, lk_senders = 0\<rparr>]"
    using toy_begin_links b by simp
  have s: "mailbox_send (CloseTerminal ''a'') (mailbox_new 128)
      = (True, (mailbox_new 128)\<lparr>mb_queue := [CloseTerminal ''a'']\<rparr>)"
    by (simp add: mailbox_send_def mailbox_accepts_def)
  let ?start = "hub_start toy_enrolled (rate_limiter_new (secs 60) 5)
    :: (agent_terminal_command mailbox, agent_terminal_event mailbox) hub"
  have 1: "hub_step mail_env ?start (TrPollBegin toy_poll 2 0)
      = ?start\<lparr>hub_state := st, hub_polls := hub_polls ?start @ [pp]\<rparr>"
    using b unfolding toy_transport_def by (simp only: hub_step.simps prod.case sum.case)
  have 2: "hub = hub_step mail_env (hub_step mail_env ?start (TrPollBegin toy_poll 2 0))
      (TrSend 0 (CloseTerminal ''a''))"
    by (simp only: hub_def hub_run_def toy_run_def take_Suc_Cons numeral_2_eq_2 take_0 foldl.simps)
  have 3: "hub_sent ?start = []"
    by (simp add: hub_start_def)
  have hub: "hub = ?start\<lparr>hub_state := update_link 0 (\<lambda>k. k\<lparr>lk_commands := (mailbox_new 128)\<lparr>mb_queue := [CloseTerminal ''a'']\<rparr>\<rparr>) st,
      hub_polls := hub_polls ?start @ [pp], hub_sent := [(0, CloseTerminal ''a'')]\<rparr>"
    unfolding 2 1 using l s 3 by simp
  show "length (ts_links (hub_state hub)) = 1" "lk_long_poll (ts_links (hub_state hub) ! 0)"
    "hub_sent hub = [(0, CloseTerminal ''a'')]"
    unfolding hub using l by (simp_all add: update_link_def)
qed

theorem commands_reach_the_agent_once_and_in_order_witness:
  "\<exists>hub :: (agent_terminal_command mailbox, agent_terminal_event mailbox) hub.
     hub_sent hub = [(0, CloseTerminal ''a'')]
     \<and> (\<exists>lost. commands_on 0 (hub_sent hub)
          = commands_on 0 (hub_delivered hub) @ mb_queue (lk_commands (ts_links (hub_state hub) ! 0)) @ lost)"
proof -
  let ?hub = "hub_run mail_env (hub_start toy_enrolled (rate_limiter_new (secs 60) 5)) (take 2 toy_run)"
  have "0 < length (ts_links (hub_state ?hub))"
    using toy_run_links(1) by simp
  from commands_reach_the_agent_once_and_in_order [OF mail.transport_channels_axioms refl this toy_run_links(2)]
    toy_run_links(3)
  show ?thesis
    by (intro exI [of _ ?hub]) auto
qed


text \<open>An agent reports the exit of a terminal, once under its own name and once under another's.\<close>

definition toy_event :: "node_id \<Rightarrow> agent_transport_envelope" where
  "toy_event nid = envelope_current 2 nid ''t''
     (PayloadTerminalEvent None (TerminalExited ''s'' \<lparr>exit_status = Some 0\<rparr>))"


definition poll_link ::
  "('c, 'e) transport_env \<Rightarrow> agent_transport_handshake \<Rightarrow> ('c, 'e) link
   \<Rightarrow> agent_transport_envelope list \<times> ('c, 'e) link" where
  "poll_link env hs l = append_long_poll_commands env hs (poll_events env hs [] l)"

fun poll_times ::
  "('c, 'e) transport_env \<Rightarrow> agent_transport_handshake \<Rightarrow> nat \<Rightarrow> ('c, 'e) link
   \<Rightarrow> agent_terminal_command list \<times> ('c, 'e) link" where
  "poll_times env hs 0 l = ([], l)"
| "poll_times env hs (Suc k) l =
     (let (es, l') = poll_link env hs l; (xs, l'') = poll_times env hs k l'
      in (commands_in es @ xs, l''))"

lemma poll_link_spec:
  assumes "transport_channels env cview eview"
  shows "commands_in (fst (poll_link env hs l)) = take 31 (mb_queue (cview (lk_commands l)))"
    and "mb_queue (cview (lk_commands (snd (poll_link env hs l)))) = drop 31 (mb_queue (cview (lk_commands l)))"
proof -
  have p: "poll_events env hs [] l = ([hello_envelope hs (lk_next_message_id l)],
      l\<lparr>lk_next_message_id := message_id_next (lk_next_message_id l)\<rparr>)"
    by (simp add: poll_events_def push_envelope_def next_long_poll_message_id_def)
  show "commands_in (fst (poll_link env hs l)) = take 31 (mb_queue (cview (lk_commands l)))"
    "mb_queue (cview (lk_commands (snd (poll_link env hs l)))) = drop 31 (mb_queue (cview (lk_commands l)))"
    using transport_channels.append_spec [OF assms, of "poll_events env hs [] l" hs]
    by (simp_all add: poll_link_def p)
qed

text \<open>No queued command waits for ever: \<open>k\<close> polls without events in a row, each of which
  answers without a new command arriving, deliver the first \<open>31 * k\<close> commands of the queue in order,
  so that after \<open>length / 31 + 1\<close> of them the queue is empty.\<close>

theorem queued_commands_are_eventually_delivered:
  "transport_channels env cview eview \<Longrightarrow>
     fst (poll_times env hs k l) = take (31 * k) (mb_queue (cview (lk_commands l)))
     \<and> mb_queue (cview (lk_commands (snd (poll_times env hs k l))))
         = drop (31 * k) (mb_queue (cview (lk_commands l)))
     \<and> mb_queue (cview (lk_commands (snd (poll_times env hs
          (length (mb_queue (cview (lk_commands l))) div 31 + 1) l)))) = []"
proof -
  assume t: "transport_channels env cview eview"
  have *: "fst (poll_times env hs k l) = take (31 * k) (mb_queue (cview (lk_commands l)))
     \<and> mb_queue (cview (lk_commands (snd (poll_times env hs k l))))
         = drop (31 * k) (mb_queue (cview (lk_commands l)))" for k
    by (induction k arbitrary: l)
      (simp_all add: split_beta poll_link_spec [OF t] take_add [symmetric] add.commute)
  let ?n = "length (mb_queue (cview (lk_commands l)))"
  have "?n \<le> 31 * (?n div 31 + 1)"
    by presburger
  then have "mb_queue (cview (lk_commands (snd (poll_times env hs (?n div 31 + 1) l)))) = []"
    by (simp only: * drop_all)
  with * [of k] show ?thesis
    by blast
qed

theorem queued_commands_are_eventually_delivered_witness:
  "fst (poll_times mail_env \<lparr>hs_node_id = ''n'', hs_transport_id = ''t'', hs_selected_transport = LongPollHttps\<rparr> 1
        \<lparr>lk_commands = (mailbox_new 128)\<lparr>mb_queue := [CloseTerminal ''a'']\<rparr>, lk_events = mailbox_new 128,
         lk_next_message_id = 2, lk_long_poll = True, lk_clones = 1, lk_senders = 0\<rparr>)
     = [CloseTerminal ''a'']"
  using queued_commands_are_eventually_delivered [OF mail.transport_channels_axioms,
    of "\<lparr>hs_node_id = ''n'', hs_transport_id = ''t'', hs_selected_transport = LongPollHttps\<rparr>" 1
      "\<lparr>lk_commands = (mailbox_new 128)\<lparr>mb_queue := [CloseTerminal ''a'']\<rparr>, lk_events = mailbox_new 128,
         lk_next_message_id = 2, lk_long_poll = True, lk_clones = 1, lk_senders = 0\<rparr>"]
  by simp


text \<open>A websocket connection over a list of inputs.\<close>

fun socket_run ::
  "('c, 'e) transport_env \<Rightarrow> u64 \<Rightarrow> socket_connection option \<Rightarrow> ('c, 'e) transport_state
   \<Rightarrow> socket_input list \<Rightarrow> socket_connection option \<times> ('c, 'e) transport_state" where
  "socket_run env stamp (Some sc) st (i # is) =
     (case socket_round env stamp sc st i of (_, sc', st') \<Rightarrow> socket_run env stamp sc' st' is)"
| "socket_run env stamp sc st _ = (sc, st)"

definition ping_for :: "('c, 'e) transport_env \<Rightarrow> agent_transport_handshake \<Rightarrow> socket_input \<Rightarrow> bool" where
  "ping_for env hs inp =
     (case inp of
        SocketMessage (WsText text) _ _ \<Rightarrow>
          (case te_parse env text of
             Some e \<Rightarrow> envelope_validate e = Inr () \<and> env_node_id e = hs_node_id hs
               \<and> env_transport_id e = hs_transport_id hs
               \<and> (case env_payload e of PayloadHeartbeat (HeartbeatPing _) \<Rightarrow> True | _ \<Rightarrow> False)
           | None \<Rightarrow> False)
      | _ \<Rightarrow> False)"

lemma handle_envelope_heartbeat:
  "handle_agent_transport_envelope mp hs e c = (Inr (HeartbeatReceived ping), c') \<Longrightarrow>
     envelope_validate e = Inr () \<and> env_node_id e = hs_node_id hs
     \<and> env_transport_id e = hs_transport_id hs
     \<and> (case env_payload e of PayloadHeartbeat (HeartbeatPing _) \<Rightarrow> True | _ \<Rightarrow> False)"
  by (auto simp: handle_agent_transport_envelope_def split_beta
      split: sum.splits if_splits agent_transport_payload.splits agent_transport_heartbeat.splits)

lemma step_heartbeat:
  assumes "socket_step env sc l inp = ((sent, reason, sc'), l')" and "\<not> ping_for env (so_handshake sc) inp"
  shows "so_last_heartbeat_at sc' = so_last_heartbeat_at sc \<and> so_handshake sc' = so_handshake sc"
proof (cases inp)
  case (SocketMessage m ok now)
  let ?r = "case parse_transport_envelope env m of
      Inr e \<Rightarrow> handle_agent_transport_envelope (te_events env) (so_handshake sc) e (lk_events l)
    | Inl _ \<Rightarrow> (Inl (transport_error CodeMalformedMessage ''invalid transport frame: InvalidEnvelope''), lk_events l)"
  have "fst ?r \<noteq> Inr (HeartbeatReceived ping)" for ping
  proof
    assume "fst ?r = Inr (HeartbeatReceived ping)"
    then obtain e c' where e: "parse_transport_envelope env m = Inr e"
        "handle_agent_transport_envelope (te_events env) (so_handshake sc) e (lk_events l)
           = (Inr (HeartbeatReceived ping), c')"
      by (cases "parse_transport_envelope env m") (auto simp: prod_eq_iff)
    from e(1) obtain frame where "m = WsText frame" "te_parse env frame = Some e"
      by (auto simp: parse_transport_envelope_def split: ws_message.splits option.splits)
    with handle_envelope_heartbeat [OF e(2)] assms(2) SocketMessage show False
      by (simp add: ping_for_def)
  qed
  with assms(1) SocketMessage show ?thesis
    by (cases "fst ?r"; cases "projr (fst ?r)")
      (auto simp: split_beta Let_def send_numbered_def split: sum.splits)
qed (use assms(1) in \<open>auto simp: send_numbered_def split_beta split: recv.splits\<close>)

lemma close_connections:
  "ts_connections (close_agent_transport_socket env sc reason stamp st) =
     (case hm_get (ts_connections st) (hs_node_id (so_handshake sc)) of
        None \<Rightarrow> ts_connections st
      | Some conn \<Rightarrow>
          if rac_transport_id conn = hs_transport_id (so_handshake sc)
          then hm_rem (hs_node_id (so_handshake sc)) (ts_connections st) else ts_connections st)"
  by (simp add: close_agent_transport_socket_def Let_def disconnect_transport_def split: option.split)

lemma round_silent:
  assumes "\<not> ping_for env (so_handshake sc) inp" and "socket_round env stamp sc st inp = (sent, Some sc', st')"
  shows "so_last_heartbeat_at sc' = so_last_heartbeat_at sc" "so_handshake sc' = so_handshake sc"
proof -
  obtain sent' reason sc1 l where s: "socket_step env sc (ts_links st ! so_link sc) inp = ((sent', reason, sc1), l)"
    by (metis surj_pair)
  with assms(2) have "sc' = sc1"
    by (simp add: socket_round_def Let_def split: option.splits)
  with step_heartbeat [OF s assms(1)] show "so_last_heartbeat_at sc' = so_last_heartbeat_at sc"
      "so_handshake sc' = so_handshake sc"
    by simp_all
qed

lemma round_closed:
  assumes "socket_round env stamp sc st inp = (sent, None, st')" and "\<not> ping_for env (so_handshake sc) inp"
    and "hm_get (ts_connections st') (hs_node_id (so_handshake sc)) = Some conn"
  shows "rac_transport_id conn \<noteq> hs_transport_id (so_handshake sc)"
proof -
  obtain sent' reason sc1 l where s: "socket_step env sc (ts_links st ! so_link sc) inp = ((sent', reason, sc1), l)"
    by (metis surj_pair)
  from step_heartbeat [OF s assms(2)] have hs: "so_handshake sc1 = so_handshake sc"
    by simp
  from assms(1) s obtain why where "st' = close_agent_transport_socket env sc1 why stamp
      (update_link (so_link sc) (\<lambda>_. l) st)"
    by (auto simp: socket_round_def Let_def split: option.splits)
  with assms(3) hs show ?thesis
    by (auto simp: close_connections split: option.splits if_splits)
qed

text \<open>C29: An agent on a websocket that sends no valid ping for 90 seconds is disconnected by the next
  liveness tick, whatever other frames and commands went over the connection in the meantime, and
  the registry no longer holds a connection of its node under its transport identifier.\<close>

theorem silent_agent_is_disconnected:
  "\<not> list_ex (ping_for env (so_handshake sc)) inputs \<Longrightarrow>
   so_last_heartbeat_at sc + secs 90 \<le> now \<Longrightarrow>
   socket_run env stamp (Some sc) st (inputs @ [SocketTick now]) = (sc', st') \<Longrightarrow>
     sc' = None
     \<and> (\<forall>conn. hm_get (ts_connections st') (hs_node_id (so_handshake sc)) = Some conn \<longrightarrow>
           rac_transport_id conn \<noteq> hs_transport_id (so_handshake sc))"
proof (induction inputs arbitrary: sc st)
  case Nil
  obtain sent sc1 st1 where r: "socket_round env stamp sc st (SocketTick now) = (sent, sc1, st1)"
    by (metis surj_pair)
  have "heartbeat_timed_out now (so_last_heartbeat_at sc) AGENT_TRANSPORT_LIVENESS_TIMEOUT"
    using Nil.prems(2) by (simp add: heartbeat_timed_out_def AGENT_TRANSPORT_LIVENESS_TIMEOUT_def elapsed_def)
  with r have n: "sc1 = None"
    by (auto simp: socket_round_def Let_def)
  have "\<not> ping_for env (so_handshake sc) (SocketTick now)"
    by (simp add: ping_for_def)
  with Nil.prems(3) r n round_closed [OF r [unfolded n]] show ?case
    by auto
next
  case (Cons inp inputs)
  obtain sent sc1 st1 where r: "socket_round env stamp sc st inp = (sent, sc1, st1)"
    by (metis surj_pair)
  have np: "\<not> ping_for env (so_handshake sc) inp"
    using Cons.prems(1) by simp
  show ?case
  proof (cases sc1)
    case None
    with Cons.prems(3) r round_closed [OF r [unfolded None] np] show ?thesis
      by auto
  next
    case (Some s)
    note hs = round_silent [OF np r [unfolded Some]]
    have "\<not> list_ex (ping_for env (so_handshake s)) inputs" "so_last_heartbeat_at s + secs 90 \<le> now"
        "socket_run env stamp (Some s) st1 (inputs @ [SocketTick now]) = (sc', st')"
      using Cons.prems hs r Some by simp_all
    from Cons.IH [OF this] hs show ?thesis
      by simp
  qed
qed

theorem silent_agent_is_disconnected_witness:
  "fst (socket_run mail_env 0
      (Some \<lparr>so_handshake = \<lparr>hs_node_id = ''n'', hs_transport_id = ''t'', hs_selected_transport = WebSocketTlsTcp443\<rparr>,
             so_link = 0, so_next_message_id = 3, so_last_heartbeat_at = 7\<rparr>)
      (toy_transport\<lparr>ts_links := [\<lparr>lk_commands = mailbox_new 128, lk_events = mailbox_new 128,
         lk_next_message_id = 2, lk_long_poll = False, lk_clones = 1, lk_senders = 0\<rparr>]\<rparr>)
      ([SocketMessage WsOther True 8, SocketCommand True] @ [SocketTick (7 + secs 90)])) = None"
proof -
  let ?sc = "\<lparr>so_handshake = \<lparr>hs_node_id = ''n'', hs_transport_id = ''t'',
      hs_selected_transport = WebSocketTlsTcp443\<rparr>, so_link = 0, so_next_message_id = 3, so_last_heartbeat_at = 7\<rparr>"
  let ?st = "toy_transport\<lparr>ts_links := [\<lparr>lk_commands = mailbox_new 128, lk_events = mailbox_new 128,
         lk_next_message_id = 2, lk_long_poll = False, lk_clones = 1, lk_senders = 0\<rparr>]\<rparr>"
  have "\<not> list_ex (ping_for mail_env (so_handshake ?sc)) [SocketMessage WsOther True 8, SocketCommand True]"
    by (simp add: ping_for_def)
  moreover have "so_last_heartbeat_at ?sc + secs 90 \<le> 7 + secs 90"
    by simp
  ultimately show ?thesis
    using silent_agent_is_disconnected [of mail_env ?sc "[SocketMessage WsOther True 8, SocketCommand True]"
        "7 + secs 90" 0 ?st] by (metis prod.collapse)
qed

text \<open>When a websocket handler ends it removes its node's registration by transport identifier,
  not by connection: a newer connection under the same identifier is removed with it, one under
  another identifier stays.\<close>

theorem closing_a_socket_unregisters_by_transport_id:
  "hm_get (ts_connections (close_agent_transport_socket env sc reason stamp st)) nid =
     (case hm_get (ts_connections st) nid of
        None \<Rightarrow> None
      | Some conn \<Rightarrow>
          if nid = hs_node_id (so_handshake sc) \<and> rac_transport_id conn = hs_transport_id (so_handshake sc)
          then None else Some conn)"
  by (auto simp: close_connections split: option.split)

end
