(* ===== verification/Sb_Utf8.thy ===== *)
theory Sb_Utf8
  imports Sb_Prelude
begin

text \<open>
  \<open>String::from_utf8_lossy\<close> of Rust's standard library, which the agent and the control plane apply
  to each chunk that is read from a PTY. Strings are lists of bytes (characters below 256) in UTF-8.
  \<open>utf8_step\<close> looks at the front of a non-empty byte list and says how many bytes to take and whether
  they are a character; a broken sequence is cut off before the first byte that cannot continue it
  and becomes the replacement character.
\<close>

definition is_cont :: "u8 \<Rightarrow> bool" where
  "is_cont b = (0x80 \<le> b \<and> b \<le> 0xBF)"

text \<open>The second bytes allowed after a leading byte of three or four byte sequences.\<close>

definition second_of_three :: "u8 \<Rightarrow> u8 \<Rightarrow> bool" where
  "second_of_three b c =
     (b = 0xE0 \<and> 0xA0 \<le> c \<and> c \<le> 0xBF
      \<or> (0xE1 \<le> b \<and> b \<le> 0xEC \<or> 0xEE \<le> b \<and> b \<le> 0xEF) \<and> is_cont c
      \<or> b = 0xED \<and> 0x80 \<le> c \<and> c \<le> 0x9F)"

definition second_of_four :: "u8 \<Rightarrow> u8 \<Rightarrow> bool" where
  "second_of_four b c =
     (b = 0xF0 \<and> 0x90 \<le> c \<and> c \<le> 0xBF
      \<or> 0xF1 \<le> b \<and> b \<le> 0xF3 \<and> is_cont c
      \<or> b = 0xF4 \<and> 0x80 \<le> c \<and> c \<le> 0x8F)"

text \<open>The leading bytes of sequences of one to four bytes.\<close>

definition is_ascii_byte :: "u8 \<Rightarrow> bool" where
  "is_ascii_byte b = (b < 0x80)"

definition leads_two :: "u8 \<Rightarrow> bool" where
  "leads_two b = (0xC2 \<le> b \<and> b \<le> 0xDF)"

definition leads_three :: "u8 \<Rightarrow> bool" where
  "leads_three b = (0xE0 \<le> b \<and> b \<le> 0xEF)"

definition leads_four :: "u8 \<Rightarrow> bool" where
  "leads_four b = (0xF0 \<le> b \<and> b \<le> 0xF4)"

definition utf8_step :: "u8 list \<Rightarrow> nat \<times> bool" where
  "utf8_step bs =
     (let b = hd bs; rest = tl bs
      in if is_ascii_byte b then (1, True)
         else if leads_two b
         then (case rest of c # _ \<Rightarrow> if is_cont c then (2, True) else (1, False) | [] \<Rightarrow> (1, False))
         else if leads_three b
         then (case rest of
                 c # d # _ \<Rightarrow> if \<not> second_of_three b c then (1, False)
                              else if is_cont d then (3, True) else (2, False)
               | [c] \<Rightarrow> if second_of_three b c then (2, False) else (1, False)
               | [] \<Rightarrow> (1, False))
         else if leads_four b
         then (case rest of
                 c # d # e # _ \<Rightarrow> if \<not> second_of_four b c then (1, False)
                                  else if \<not> is_cont d then (2, False)
                                  else if is_cont e then (4, True) else (3, False)
               | [c, d] \<Rightarrow> if \<not> second_of_four b c then (1, False)
                           else if is_cont d then (3, False) else (2, False)
               | [c] \<Rightarrow> if second_of_four b c then (2, False) else (1, False)
               | [] \<Rightarrow> (1, False))
         else (1, False))"

definition replacement_character :: string where
  "replacement_character = [char_of (0xEF :: nat), char_of (0xBF :: nat), char_of (0xBD :: nat)]"

lemma utf8_step_pos: "1 \<le> fst (utf8_step bs)"
  by (auto simp: utf8_step_def Let_def split: list.split)

function utf8_lossy :: "u8 list \<Rightarrow> string" where
  "utf8_lossy [] = []"
| "utf8_lossy (b # bs) =
     (case utf8_step (b # bs) of (n, ok) \<Rightarrow>
        (if ok then map char_of_byte (take n (b # bs)) else replacement_character)
        @ utf8_lossy (drop n (b # bs)))"
  by pat_completeness auto
termination
proof (relation "measure length")
  fix b :: u8 and bs n ok
  assume "(n, ok) = utf8_step (b # bs)"
  then have "1 \<le> n"
    using utf8_step_pos [of "b # bs"] by (metis fst_conv)
  then show "(drop n (b # bs), b # bs) \<in> measure length"
    by simp
qed simp

declare utf8_lossy.simps(2) [simp del]

text \<open>Valid UTF-8: every step takes a character.\<close>

function utf8_valid :: "u8 list \<Rightarrow> bool" where
  "utf8_valid [] = True"
| "utf8_valid (b # bs) =
     (case utf8_step (b # bs) of (n, ok) \<Rightarrow> ok \<and> utf8_valid (drop n (b # bs)))"
  by pat_completeness auto
termination
proof (relation "measure length")
  fix b :: u8 and bs n ok
  assume "(n, ok) = utf8_step (b # bs)"
  then have "1 \<le> n"
    using utf8_step_pos [of "b # bs"] by (metis fst_conv)
  then show "(drop n (b # bs), b # bs) \<in> measure length"
    by simp
qed simp

declare utf8_valid.simps(2) [simp del]

section \<open>Valid text is kept\<close>

lemma utf8_step_len: "snd (utf8_step bs) \<Longrightarrow> bs \<noteq> [] \<Longrightarrow> fst (utf8_step bs) \<le> length bs"
  by (cases bs) (auto simp: utf8_step_def Let_def split: list.splits if_splits)

lemma utf8_step_append:
  assumes "snd (utf8_step bs)" and "bs \<noteq> []"
  shows "utf8_step (bs @ cs) = utf8_step bs"
proof -
  obtain b rest where bs: "bs = b # rest"
    using assms(2) by (cases bs) auto
  consider "rest = []" | c where "rest = [c]" | c d where "rest = [c, d]"
    | c d e r where "rest = c # d # e # r"
    by (metis list.exhaust)
  then show ?thesis
  proof cases
    case 1
    with assms bs have "is_ascii_byte b"
      by (simp add: utf8_step_def Let_def split: if_splits)
    then show ?thesis
      by (simp add: utf8_step_def Let_def bs)
  next
    case (2 c)
    with assms bs have "is_ascii_byte b \<or> leads_two b"
      by (simp add: utf8_step_def Let_def split: if_splits)
    then show ?thesis
      by (auto simp: utf8_step_def Let_def bs 2)
  next
    case (3 c d)
    with assms bs have "is_ascii_byte b \<or> leads_two b \<or> leads_three b"
      by (simp add: utf8_step_def Let_def split: if_splits)
    then show ?thesis
      by (auto simp: utf8_step_def Let_def bs 3)
  next
    case (4 c d e r)
    then show ?thesis
      by (simp add: utf8_step_def Let_def bs)
  qed
qed

lemma utf8_lossy_valid: "utf8_valid bs \<Longrightarrow> utf8_lossy bs = map char_of_byte bs"
proof (induction bs rule: utf8_valid.induct)
  case (2 b bs)
  obtain n ok where s: "utf8_step (b # bs) = (n, ok)"
    by fastforce
  with "2.prems" have ok: "ok" and v: "utf8_valid (drop n (b # bs))"
    by (simp_all add: utf8_valid.simps(2))
  have "utf8_lossy (b # bs) = map char_of_byte (take n (b # bs)) @ map char_of_byte (drop n (b # bs))"
    using "2.IH" [OF s [symmetric] v] s ok by (subst utf8_lossy.simps(2)) simp
  also have "\<dots> = map char_of_byte (b # bs)"
    by (metis append_take_drop_id map_append)
  finally show ?case .
qed simp

text \<open>Decoding chunk by chunk is decoding the whole when the cut is at the end of a character.\<close>

lemma utf8_lossy_append: "utf8_valid bs \<Longrightarrow> utf8_lossy (bs @ cs) = utf8_lossy bs @ utf8_lossy cs"
proof (induction bs rule: utf8_valid.induct)
  case (2 b bs)
  obtain n ok where s: "utf8_step (b # bs) = (n, ok)"
    by fastforce
  with "2.prems" have ok: "ok" and v: "utf8_valid (drop n (b # bs))"
    by (simp_all add: utf8_valid.simps(2))
  have n: "n \<le> length (b # bs)"
    using utf8_step_len [of "b # bs"] s ok by simp
  have s': "utf8_step (b # bs @ cs) = (n, ok)"
    using utf8_step_append [of "b # bs" cs] s ok by simp
  have cut: "take n (b # bs @ cs) = take n (b # bs)" "drop n (b # bs @ cs) = drop n (b # bs) @ cs"
    using n take_append [of n "b # bs" cs] drop_append [of n "b # bs" cs] by simp_all
  have "utf8_lossy (b # (bs @ cs)) = map char_of_byte (take n (b # bs)) @ utf8_lossy (drop n (b # bs) @ cs)"
    using s' ok by (subst utf8_lossy.simps(2)) (simp add: cut)
  also have "\<dots> = (map char_of_byte (take n (b # bs)) @ utf8_lossy (drop n (b # bs))) @ utf8_lossy cs"
    using "2.IH" [OF s [symmetric] v] by simp
  also have "map char_of_byte (take n (b # bs)) @ utf8_lossy (drop n (b # bs)) = utf8_lossy (b # bs)"
    using s ok by (simp add: utf8_lossy.simps(2))
  finally show ?case
    by simp
qed simp

lemma utf8_valid_append: "utf8_valid bs \<Longrightarrow> utf8_valid cs \<Longrightarrow> utf8_valid (bs @ cs)"
proof (induction bs rule: utf8_valid.induct)
  case (2 b bs)
  obtain n ok where s: "utf8_step (b # bs) = (n, ok)"
    by fastforce
  with "2.prems" have ok: "ok" and v: "utf8_valid (drop n (b # bs))"
    by (simp_all add: utf8_valid.simps(2))
  have n: "n \<le> length (b # bs)"
    using utf8_step_len [of "b # bs"] s ok by simp
  have s': "utf8_step (b # bs @ cs) = (n, ok)"
    using utf8_step_append [of "b # bs" cs] s ok by simp
  have "utf8_valid (drop n (b # bs) @ cs)"
    using "2.IH" [OF s [symmetric] v "2.prems"(2)] .
  moreover have "drop n (b # bs @ cs) = drop n (b # bs) @ cs"
    using n drop_append [of n "b # bs" cs] by simp
  ultimately show ?case
    using s' ok by (simp add: utf8_valid.simps(2))
qed simp

end
