(* ===== verification/Sb_Agent.thy ===== *)
theory Sb_Agent
  imports Sb_Terminal Sb_Transport Sb_Utf8
begin

text \<open>
  The agent crate (\<open>sunbolt-agent/src/lib.rs\<close>): its configuration, the identity it keeps on disk, the
  messages and endpoints of its outbound connection, the terminal runtime that executes the control
  plane's commands on local PTYs, and the run loop. The environment is the argument \<open>lookup\<close>; the
  results of the file system, of the HTTP client and of the PTY library are arguments, and the calls
  made to them are part of the result. Hashing and credentials are those of \<open>Sb_Nodes\<close>: both sides
  have the same two functions. The wire records are shared with \<open>Sb_Nodes\<close>, too.
\<close>

section \<open>Configuration\<close>

definition DEFAULT_CONTROL_PLANE_URL :: string where
  "DEFAULT_CONTROL_PLANE_URL = ''http://127.0.0.1:3000''"

definition DEFAULT_NODE_NAME :: string where
  "DEFAULT_NODE_NAME = ''local-agent''"

definition AGENT_HEARTBEAT_INTERVAL :: duration where
  "AGENT_HEARTBEAT_INTERVAL = secs 30"

definition AGENT_TRANSPORT_WS_PATH :: string where
  "AGENT_TRANSPORT_WS_PATH = ''/agent/transport/ws''"

definition AGENT_TRANSPORT_QUIC_PATH :: string where
  "AGENT_TRANSPORT_QUIC_PATH = ''/agent/transport/quic''"

definition AGENT_TRANSPORT_LONG_POLL_PATH :: string where
  "AGENT_TRANSPORT_LONG_POLL_PATH = ''/agent/transport/long-poll''"

definition AGENT_IDENTITY_FILE_NAME :: string where
  "AGENT_IDENTITY_FILE_NAME = ''identity.json''"

record agent_config =
  ac_control_plane_url :: string
  ac_node_name :: string
  ac_enrollment_token :: "string option"
  ac_identity_path :: string

record local_node_info =
  ln_hostname :: string
  ln_os :: string
  ln_architecture :: string
  ln_agent_version :: string

text \<open>\<open>lookup(..).filter(|value| !value.trim().is_empty())\<close>.\<close>

definition lookup_text :: "(string \<Rightarrow> string option) \<Rightarrow> string \<Rightarrow> string option" where
  "lookup_text lookup name =
     (case lookup name of Some v \<Rightarrow> if is_blank v then None else Some v | None \<Rightarrow> None)"

definition hostname_from_lookup :: "(string \<Rightarrow> string option) \<Rightarrow> string" where
  "hostname_from_lookup lookup =
     (case (case lookup ''HOSTNAME'' of Some v \<Rightarrow> Some v | None \<Rightarrow> lookup ''COMPUTERNAME'') of
        Some v \<Rightarrow> if is_blank v then DEFAULT_NODE_NAME else v
      | None \<Rightarrow> DEFAULT_NODE_NAME)"

definition default_node_name :: "(string \<Rightarrow> string option) \<Rightarrow> string" where
  "default_node_name lookup =
     (let hostname = hostname_from_lookup lookup
      in if is_blank hostname then DEFAULT_NODE_NAME else hostname)"

text \<open>\<open>Path::join\<close> with a relative component, on Unix.\<close>

definition path_join :: "string \<Rightarrow> string \<Rightarrow> string" where
  "path_join base part =
     (if base = [] then part else if ends_with base ''/'' then base @ part else base @ ''/'' @ part)"

definition default_identity_path :: "(string \<Rightarrow> string option) \<Rightarrow> string" where
  "default_identity_path lookup =
     (case lookup_text lookup ''XDG_CONFIG_HOME'' of
        Some config_home \<Rightarrow> path_join (path_join config_home ''sunbolt'') AGENT_IDENTITY_FILE_NAME
      | None \<Rightarrow>
        (case lookup_text lookup ''HOME'' of
           Some home \<Rightarrow>
             path_join (path_join (path_join home ''.config'') ''sunbolt'') AGENT_IDENTITY_FILE_NAME
         | None \<Rightarrow>
           (case lookup_text lookup ''USERPROFILE'' of
              Some profile \<Rightarrow>
                path_join (path_join (path_join (path_join profile ''AppData'') ''Roaming'') ''Sunbolt'')
                  AGENT_IDENTITY_FILE_NAME
            | None \<Rightarrow> path_join ''.sunbolt'' AGENT_IDENTITY_FILE_NAME)))"

definition agent_config_from_lookup :: "(string \<Rightarrow> string option) \<Rightarrow> agent_config" where
  "agent_config_from_lookup lookup =
     \<lparr>ac_control_plane_url =
        (case lookup_text lookup ''SUNBOLT_CONTROL_PLANE_URL'' of
           Some v \<Rightarrow> v | None \<Rightarrow> DEFAULT_CONTROL_PLANE_URL),
      ac_node_name =
        (case lookup_text lookup ''SUNBOLT_AGENT_NODE_NAME'' of
           Some v \<Rightarrow> v | None \<Rightarrow> default_node_name lookup),
      ac_enrollment_token = lookup_text lookup ''SUNBOLT_AGENT_ENROLLMENT_TOKEN'',
      ac_identity_path =
        (case lookup_text lookup ''SUNBOLT_AGENT_IDENTITY_PATH'' of
           Some v \<Rightarrow> v | None \<Rightarrow> default_identity_path lookup)\<rparr>"

text \<open>\<open>env::consts\<close> and the crate's version are arguments.\<close>

definition local_node_info_from_lookup ::
  "string \<Rightarrow> string \<Rightarrow> string \<Rightarrow> (string \<Rightarrow> string option) \<Rightarrow> local_node_info" where
  "local_node_info_from_lookup os arch version lookup =
     \<lparr>ln_hostname = hostname_from_lookup lookup, ln_os = os, ln_architecture = arch,
      ln_agent_version = version\<rparr>"

section \<open>URLs\<close>

fun trim_end_slashes_rev :: "string \<Rightarrow> string" where
  "trim_end_slashes_rev [] = []"
| "trim_end_slashes_rev (c # cs) = (if c = CHR ''/'' then trim_end_slashes_rev cs else c # cs)"

definition join_url_path :: "string \<Rightarrow> string \<Rightarrow> string" where
  "join_url_path base path = rev (trim_end_slashes_rev (rev base)) @ path"

definition url_with_schemes :: "string \<Rightarrow> string \<Rightarrow> string \<Rightarrow> string" where
  "url_with_schemes secure plain endpoint =
     (case strip_prefix ''https://'' endpoint of
        Some rest \<Rightarrow> secure @ rest
      | None \<Rightarrow>
        (case strip_prefix ''http://'' endpoint of
           Some rest \<Rightarrow> plain @ rest
         | None \<Rightarrow> endpoint))"

definition websocket_url_for_path :: "string \<Rightarrow> string \<Rightarrow> string" where
  "websocket_url_for_path base path = url_with_schemes ''wss://'' ''ws://'' (join_url_path base path)"

definition quic_url_for_path :: "string \<Rightarrow> string \<Rightarrow> string" where
  "quic_url_for_path base path = url_with_schemes ''quic://'' ''quic://'' (join_url_path base path)"

section \<open>Identity\<close>

record agent_node_identity =
  ai_node_id :: string
  ai_credential_fingerprint :: string
  ai_credential_secret :: string
  ai_credential_expires_at_unix_secs :: int
  ai_agent_version :: string

datatype agent_error =
  MissingEnrollmentToken
  | ControlPlaneRequest string
  | IdentityIo string
  | IdentityFormat string
  | TerminalSessionExists string
  | TerminalSessionMissing string
  | AgentTerminalError pty_error

definition identity_from_enrollment ::
  "agent_enrollment_response \<Rightarrow> local_node_info \<Rightarrow> agent_node_identity" where
  "identity_from_enrollment enrollment info =
     \<lparr>ai_node_id = aep_node_id enrollment,
      ai_credential_fingerprint = aep_credential_fingerprint enrollment,
      ai_credential_secret = aep_credential_secret enrollment,
      ai_credential_expires_at_unix_secs = aep_credential_expires_at_unix_secs enrollment,
      ai_agent_version = ln_agent_version info\<rparr>"

definition credential_secret_matches_fingerprint :: "sha256 \<Rightarrow> agent_node_identity \<Rightarrow> bool" where
  "credential_secret_matches_fingerprint sha identity =
     (credential_fingerprint sha (ai_credential_secret identity) = ai_credential_fingerprint identity)"

text \<open>What reading the file gives: no such file, another error, or its contents; serde's parser is
  the argument \<open>parse\<close>.\<close>

datatype read_result = ReadNotFound | ReadFailed string | ReadContents string

definition load_from_path ::
  "(string \<Rightarrow> string + agent_node_identity) \<Rightarrow> read_result \<Rightarrow> agent_error + agent_node_identity option" where
  "load_from_path parse r =
     (case r of
        ReadNotFound \<Rightarrow> Inr None
      | ReadFailed e \<Rightarrow> Inl (IdentityIo e)
      | ReadContents s \<Rightarrow>
          (case parse s of Inl e \<Rightarrow> Inl (IdentityFormat e) | Inr identity \<Rightarrow> Inr (Some identity)))"

text \<open>The file system calls of \<open>save_to_path\<close> (on Unix) and their results: \<open>None\<close> for success.\<close>

datatype fs_call =
  CreateDirAll string | SetPermissions string nat | OpenTruncate string nat
  | WriteIdentity string agent_node_identity

record fs_results =
  fr_parent_exists :: bool
  fr_create_dir :: "string option"
  fr_dir_permissions :: "string option"
  fr_open :: "string option"
  fr_write :: "string option"
  fr_file_permissions :: "string option"

text \<open>\<open>Path::parent\<close> of a path that has a file name; \<open>None\<close> also when it is empty.\<close>

definition path_parent :: "string \<Rightarrow> string option" where
  "path_parent path =
     (let rest = dropWhile (\<lambda>c. c \<noteq> CHR ''/'') (rev path)
      in if rest = [] then None
         else Some (if trim_end_slashes_rev rest = [] then ''/'' else rev (trim_end_slashes_rev rest)))"

definition prepare_parent :: "fs_results \<Rightarrow> string \<Rightarrow> (agent_error + unit) \<times> fs_call list" where
  "prepare_parent r path =
     (case path_parent path of
        None \<Rightarrow> (Inr (), [])
      | Some parent \<Rightarrow>
          (case fr_create_dir r of
             Some e \<Rightarrow> (Inl (IdentityIo e), [CreateDirAll parent])
           | None \<Rightarrow>
               if fr_parent_exists r then (Inr (), [CreateDirAll parent])
               else (case fr_dir_permissions r of
                       Some e \<Rightarrow> (Inl (IdentityIo e), [CreateDirAll parent, SetPermissions parent 448])
                     | None \<Rightarrow> (Inr (), [CreateDirAll parent, SetPermissions parent 448]))))"

definition save_to_path ::
  "fs_results \<Rightarrow> agent_node_identity \<Rightarrow> string \<Rightarrow> (agent_error + unit) \<times> fs_call list" where
  "save_to_path r identity path =
     (case prepare_parent r path of
        (Inl e, calls) \<Rightarrow> (Inl e, calls)
      | (Inr _, calls) \<Rightarrow>
          (case fr_open r of
             Some e \<Rightarrow> (Inl (IdentityIo e), calls @ [OpenTruncate path 384])
           | None \<Rightarrow>
             (case fr_write r of
                Some e \<Rightarrow> (Inl (IdentityFormat e), calls @ [OpenTruncate path 384, WriteIdentity path identity])
              | None \<Rightarrow>
                (case fr_file_permissions r of
                   Some e \<Rightarrow> (Inl (IdentityIo e),
                     calls @ [OpenTruncate path 384, WriteIdentity path identity, SetPermissions path 384])
                 | None \<Rightarrow> (Inr (),
                     calls @ [OpenTruncate path 384, WriteIdentity path identity, SetPermissions path 384])))))"

section \<open>The outbound connection\<close>

datatype agent_heartbeat_status = AgentOnline

record agent_heartbeat_message =
  ahm_node_id :: string
  ahm_credential_fingerprint :: string
  ahm_credential_proof :: string
  ahm_hostname :: string
  ahm_os :: string
  ahm_architecture :: string
  ahm_agent_version :: string
  ahm_status :: agent_heartbeat_status

definition heartbeat_from_node_identity ::
  "sha256 \<Rightarrow> string \<Rightarrow> string \<Rightarrow> string \<Rightarrow> local_node_info \<Rightarrow> agent_heartbeat_message" where
  "heartbeat_from_node_identity sha nid fingerprint secret info =
     \<lparr>ahm_node_id = nid, ahm_credential_fingerprint = fingerprint,
      ahm_credential_proof = credential_proof sha nid secret,
      ahm_hostname = ln_hostname info, ahm_os = ln_os info,
      ahm_architecture = ln_architecture info, ahm_agent_version = ln_agent_version info,
      ahm_status = AgentOnline\<rparr>"

definition heartbeat_endpoint_path :: string where
  "heartbeat_endpoint_path = ''/agent/heartbeat''"

record agent_connection =
  acn_control_plane_url :: string
  acn_heartbeat :: agent_heartbeat_message

definition agent_connection_new ::
  "sha256 \<Rightarrow> agent_config \<Rightarrow> agent_node_identity \<Rightarrow> local_node_info \<Rightarrow> agent_connection" where
  "agent_connection_new sha config identity info =
     \<lparr>acn_control_plane_url = ac_control_plane_url config,
      acn_heartbeat = heartbeat_from_node_identity sha (ai_node_id identity)
        (ai_credential_fingerprint identity) (ai_credential_secret identity) info\<rparr>"

definition heartbeat_endpoint :: "agent_connection \<Rightarrow> string" where
  "heartbeat_endpoint conn = join_url_path (acn_control_plane_url conn) heartbeat_endpoint_path"

definition transport_endpoint :: "agent_connection \<Rightarrow> string" where
  "transport_endpoint conn = websocket_url_for_path (acn_control_plane_url conn) AGENT_TRANSPORT_WS_PATH"

definition quic_transport_endpoint :: "agent_connection \<Rightarrow> string" where
  "quic_transport_endpoint conn = quic_url_for_path (acn_control_plane_url conn) AGENT_TRANSPORT_QUIC_PATH"

definition long_poll_transport_endpoint :: "agent_connection \<Rightarrow> string" where
  "long_poll_transport_endpoint conn =
     join_url_path (acn_control_plane_url conn) AGENT_TRANSPORT_LONG_POLL_PATH"

definition outbound_transport_id :: "agent_connection \<Rightarrow> agent_transport_id" where
  "outbound_transport_id conn = ahm_node_id (acn_heartbeat conn) @ ''-outbound''"

definition transport_attempts :: "agent_transport_kind list" where
  "transport_attempts = [QuicUdp443, WebSocketTlsTcp443, Http2TlsTcp443, LongPollHttps]"

definition transport_client_hello :: "agent_connection \<Rightarrow> agent_transport_client_hello" where
  "transport_client_hello conn =
     \<lparr>ch_supported_protocol_versions = [PROTOCOL_VERSION],
      ch_supported_transports = transport_attempts,
      ch_preferred_transport = QuicUdp443,
      ch_agent_version = ahm_agent_version (acn_heartbeat conn),
      ch_credential_fingerprint = ahm_credential_fingerprint (acn_heartbeat conn),
      ch_credential_proof = ahm_credential_proof (acn_heartbeat conn),
      ch_resume = None\<rparr>"

definition transport_client_hello_envelope :: "agent_connection \<Rightarrow> agent_transport_envelope" where
  "transport_client_hello_envelope conn =
     envelope_current message_id_first (ahm_node_id (acn_heartbeat conn)) (outbound_transport_id conn)
       (PayloadClientHello (transport_client_hello conn))"

definition heartbeat_envelope ::
  "agent_connection \<Rightarrow> agent_transport_message_id \<Rightarrow> agent_transport_envelope" where
  "heartbeat_envelope conn mid =
     envelope_current mid (ahm_node_id (acn_heartbeat conn)) (outbound_transport_id conn)
       (PayloadHeartbeat (HeartbeatPing 0))"

record agent_outbound_transport_plan =
  op_endpoint :: string
  op_quic_fast_path_endpoint :: string
  op_long_poll_fallback_endpoint :: string
  op_transport_attempt_order :: "agent_transport_kind list"
  op_client_hello :: agent_transport_client_hello
  op_reconnect_policy :: agent_transport_reconnect_policy
  op_heartbeat_interval :: duration

definition outbound_plan_from_connection :: "agent_connection \<Rightarrow> agent_outbound_transport_plan" where
  "outbound_plan_from_connection conn =
     \<lparr>op_endpoint = transport_endpoint conn,
      op_quic_fast_path_endpoint = quic_transport_endpoint conn,
      op_long_poll_fallback_endpoint = long_poll_transport_endpoint conn,
      op_transport_attempt_order = transport_attempts,
      op_client_hello = transport_client_hello conn,
      op_reconnect_policy = production_default,
      op_heartbeat_interval = AGENT_HEARTBEAT_INTERVAL\<rparr>"

definition enrollment_request_from_config ::
  "agent_config \<Rightarrow> local_node_info \<Rightarrow> agent_error + agent_enrollment_request" where
  "enrollment_request_from_config config info =
     (case ac_enrollment_token config of
        None \<Rightarrow> Inl MissingEnrollmentToken
      | Some token \<Rightarrow>
          Inr \<lparr>aer_token = token, aer_node_name = ac_node_name config,
               aer_hostname = ln_hostname info, aer_os = ln_os info,
               aer_architecture = ln_architecture info, aer_agent_version = ln_agent_version info\<rparr>)"

definition enrollment_endpoint_path :: string where
  "enrollment_endpoint_path = ''/agent/enroll''"

section \<open>The terminal runtime\<close>

record agent_terminal_runtime =
  atr_sessions :: "(terminal_session_id, pty_session) hmap"

definition terminal_runtime_new :: agent_terminal_runtime where
  "terminal_runtime_new = \<lparr>atr_sessions = []\<rparr>"

definition terminal_size_from_protocol :: "terminal_size \<Rightarrow> pty_terminal_size" where
  "terminal_size_from_protocol s = terminal_size_new (max (size_cols s) 1) (max (size_rows s) 1)"

definition terminal_exit_of :: "terminal_exit_status \<Rightarrow> terminal_exit" where
  "terminal_exit_of e = \<lparr>exit_status = exit_code e\<rparr>"

text \<open>What the PTY calls of one operation answer.\<close>

record pty_results =
  pr_open :: "string option"
  pr_spawn :: "string option"
  pr_reader :: "string option"
  pr_writer :: "string option"
  pr_write :: "string option"
  pr_flush :: "string option"
  pr_resize :: "string option"
  pr_kill :: "string option"

definition runtime_session ::
  "agent_terminal_runtime \<Rightarrow> terminal_session_id \<Rightarrow> agent_error + pty_session" where
  "runtime_session rt sid =
     (case hm_get (atr_sessions rt) sid of
        None \<Rightarrow> Inl (TerminalSessionMissing sid)
      | Some s \<Rightarrow> Inr s)"

fun handle_command ::
  "(string \<Rightarrow> string option) \<Rightarrow> pty_results \<Rightarrow> agent_terminal_runtime \<Rightarrow> agent_terminal_command
   \<Rightarrow> (agent_error + agent_terminal_event option) \<times> agent_terminal_runtime \<times> pty_call list" where
  "handle_command env r rt (StartTerminal sid sz) =
     (if hm_get (atr_sessions rt) sid \<noteq> None then (Inl (TerminalSessionExists sid), rt, [])
      else (case spawn_default_shell env (terminal_size_from_protocol sz) (pr_open r) (pr_spawn r)
                   (pr_reader r) (pr_writer r) of
              (Inl e, calls) \<Rightarrow> (Inl (AgentTerminalError e), rt, calls)
            | (Inr s, calls) \<Rightarrow>
                (Inr (Some (TerminalStarted sid sz)),
                 rt\<lparr>atr_sessions := hm_put sid s (atr_sessions rt)\<rparr>, calls)))"
| "handle_command env r rt (WriteInput sid data) =
     (case runtime_session rt sid of
        Inl e \<Rightarrow> (Inl e, rt, [])
      | Inr s \<Rightarrow>
          (case write_input s (str_bytes data) (pr_write r) (pr_flush r) of
             (Inl e, calls) \<Rightarrow> (Inl (AgentTerminalError e), rt, calls)
           | (Inr _, calls) \<Rightarrow> (Inr None, rt, calls)))"
| "handle_command env r rt (ResizeTerminal sid sz) =
     (case runtime_session rt sid of
        Inl e \<Rightarrow> (Inl e, rt, [])
      | Inr s \<Rightarrow>
          (case resize s (terminal_size_from_protocol sz) (pr_resize r) of
             (Inl e, calls) \<Rightarrow> (Inl (AgentTerminalError e), rt, calls)
           | (Inr _, calls) \<Rightarrow> (Inr None, rt, calls)))"
| "handle_command env r rt (CloseTerminal sid) =
     (case hm_get (atr_sessions rt) sid of
        None \<Rightarrow> (Inl (TerminalSessionMissing sid), rt, [])
      | Some s \<Rightarrow>
          let rt' = rt\<lparr>atr_sessions := hm_rem sid (atr_sessions rt)\<rparr>
          in (case close s (pr_kill r) of
                (result, s', calls) \<Rightarrow>
                  (case result of
                     Inl e \<Rightarrow> Inl (AgentTerminalError e)
                   | Inr _ \<Rightarrow> Inr (Some (TerminalExited sid \<lparr>exit_status = None\<rparr>)),
                   rt', calls @ snd (drop_session s' (pr_kill r)))))"

text \<open>The buffer's contents after \<open>read\<close> are the bytes read.\<close>

definition runtime_read_output ::
  "agent_terminal_runtime \<Rightarrow> terminal_session_id \<Rightarrow> (string + u8 list)
   \<Rightarrow> (agent_error + agent_terminal_event option) \<times> pty_call list" where
  "runtime_read_output rt sid readr =
     (case runtime_session rt sid of
        Inl e \<Rightarrow> (Inl e, [])
      | Inr s \<Rightarrow>
          (case read_output s readr of
             (Inl e, calls) \<Rightarrow> (Inl (AgentTerminalError e), calls)
           | (Inr bs, calls) \<Rightarrow>
               (Inr (if bs = [] then None else Some (TerminalOutput sid (utf8_lossy bs))), calls)))"

text \<open>Whichever way \<open>try_wait_exit\<close> ends, the session it looked at stays the runtime's.\<close>

definition runtime_poll_exit ::
  "agent_terminal_runtime \<Rightarrow> terminal_session_id \<Rightarrow> (string + u32 option) \<Rightarrow> string option
   \<Rightarrow> (agent_error + agent_terminal_event option) \<times> agent_terminal_runtime \<times> pty_call list" where
  "runtime_poll_exit rt sid waitr killr =
     (case runtime_session rt sid of
        Inl e \<Rightarrow> (Inl e, rt, [])
      | Inr s \<Rightarrow>
          (case try_wait_exit s waitr of
             (result, s', calls) \<Rightarrow>
               let rt' = rt\<lparr>atr_sessions := hm_put sid s' (atr_sessions rt)\<rparr>
               in (case result of
                     Inl e \<Rightarrow> (Inl (AgentTerminalError e), rt', calls)
                   | Inr None \<Rightarrow> (Inr None, rt', calls)
                   | Inr (Some exit) \<Rightarrow>
                       (Inr (Some (TerminalExited sid (terminal_exit_of exit))),
                        rt\<lparr>atr_sessions := hm_rem sid (atr_sessions rt)\<rparr>,
                        calls @ snd (drop_session s' killr)))))"

definition session_count :: "agent_terminal_runtime \<Rightarrow> nat" where
  "session_count rt = length (atr_sessions rt)"

section \<open>The run loop\<close>

datatype agent_call =
  PostEnroll string agent_enrollment_request
  | PostHeartbeat string agent_heartbeat_message
  | FsCall fs_call

definition product_name :: string where
  "product_name = ''Sunbolt''"

definition agent_component_name :: string where
  "agent_component_name = product_name @ '' agent''"

definition startup_logs :: "agent_config \<Rightarrow> local_node_info \<Rightarrow> string list" where
  "startup_logs config info =
     [''starting '' @ agent_component_name,
      ''node name: '' @ ac_node_name config,
      ''control plane: '' @ ac_control_plane_url config,
      ''node info: hostname='' @ ln_hostname info @ '' os='' @ ln_os info @ '' architecture=''
        @ ln_architecture info @ '' agent_version='' @ ln_agent_version info]"

text \<open>\<open>response\<close> is what the request came to: the error text of any of the three steps (sending,
  status, body), or the body.\<close>

definition agent_enroll ::
  "agent_config \<Rightarrow> local_node_info \<Rightarrow> string + agent_enrollment_response
   \<Rightarrow> (agent_error + agent_enrollment_response) \<times> agent_call list" where
  "agent_enroll config info response =
     (case enrollment_request_from_config config info of
        Inl e \<Rightarrow> (Inl e, [])
      | Inr request \<Rightarrow>
          (case response of Inl e \<Rightarrow> Inl (ControlPlaneRequest e) | Inr r \<Rightarrow> Inr r,
           [PostEnroll (join_url_path (ac_control_plane_url config) enrollment_endpoint_path) request]))"

definition load_or_enroll_identity ::
  "(string \<Rightarrow> string + agent_node_identity) \<Rightarrow> agent_config \<Rightarrow> local_node_info \<Rightarrow> read_result
   \<Rightarrow> string + agent_enrollment_response \<Rightarrow> fs_results
   \<Rightarrow> (agent_error + agent_node_identity) \<times> agent_call list" where
  "load_or_enroll_identity parse config info rd response fsr =
     (case load_from_path parse rd of
        Inl e \<Rightarrow> (Inl e, [])
      | Inr (Some identity) \<Rightarrow> (Inr identity, [])
      | Inr None \<Rightarrow>
          (case agent_enroll config info response of
             (Inl e, calls) \<Rightarrow> (Inl e, calls)
           | (Inr enrollment, calls) \<Rightarrow>
               let identity = identity_from_enrollment enrollment info
               in (case save_to_path fsr identity (ac_identity_path config) of
                     (Inl e, fs) \<Rightarrow> (Inl e, calls @ map FsCall fs)
                   | (Inr _, fs) \<Rightarrow> (Inr identity, calls @ map FsCall fs))))"

definition send_heartbeat ::
  "agent_connection \<Rightarrow> string option \<Rightarrow> (agent_error + unit) \<times> agent_call list" where
  "send_heartbeat conn response =
     (case response of Some e \<Rightarrow> Inl (ControlPlaneRequest e) | None \<Rightarrow> Inr (),
      [PostHeartbeat (heartbeat_endpoint conn) (acn_heartbeat conn)])"

text \<open>What wakes the loop: the shutdown signal, or a tick with what its heartbeat came to. The result
  is \<open>None\<close> while the loop runs.\<close>

datatype agent_wakeup = Shutdown | HeartbeatTick "string option"

fun agent_loop ::
  "agent_connection \<Rightarrow> agent_wakeup list \<Rightarrow> (agent_error + unit) option \<times> agent_call list" where
  "agent_loop conn [] = (None, [])"
| "agent_loop conn (Shutdown # ws) = (Some (Inr ()), [])"
| "agent_loop conn (HeartbeatTick response # ws) =
     (case send_heartbeat conn response of
        (Inl e, calls) \<Rightarrow> (Some (Inl e), calls)
      | (Inr _, calls) \<Rightarrow> (let (r, calls') = agent_loop conn ws in (r, calls @ calls')))"

definition run_until_shutdown ::
  "sha256 \<Rightarrow> (string \<Rightarrow> string + agent_node_identity) \<Rightarrow> agent_config \<Rightarrow> local_node_info \<Rightarrow> read_result
   \<Rightarrow> string + agent_enrollment_response \<Rightarrow> fs_results \<Rightarrow> string option \<Rightarrow> agent_wakeup list
   \<Rightarrow> (agent_error + unit) option \<times> agent_call list" where
  "run_until_shutdown sha parse config info rd response fsr first ws =
     (case load_or_enroll_identity parse config info rd response fsr of
        (Inl e, calls) \<Rightarrow> (Some (Inl e), calls)
      | (Inr identity, calls) \<Rightarrow>
          let conn = agent_connection_new sha config identity info
          in (case send_heartbeat conn first of
                (Inl e, calls') \<Rightarrow> (Some (Inl e), calls @ calls')
              | (Inr _, calls') \<Rightarrow>
                  let (r, calls'') = agent_loop conn ws in (r, calls @ calls' @ calls'')))"


section \<open>Running the terminal runtime\<close>

datatype runtime_op =
  RtCommand agent_terminal_command pty_results
  | RtRead terminal_session_id "string + u8 list"
  | RtPollExit terminal_session_id "string + u32 option" "string option"

text \<open>One operation: the event or error it reports, the new runtime and the PTY calls.\<close>

fun runtime_step ::
  "(string \<Rightarrow> string option) \<Rightarrow> agent_terminal_runtime \<Rightarrow> runtime_op
   \<Rightarrow> (agent_error + agent_terminal_event option) \<times> agent_terminal_runtime \<times> pty_call list" where
  "runtime_step env rt (RtCommand c r) = handle_command env r rt c"
| "runtime_step env rt (RtRead sid readr) = (let (res, calls) = runtime_read_output rt sid readr in (res, rt, calls))"
| "runtime_step env rt (RtPollExit sid waitr killr) = runtime_poll_exit rt sid waitr killr"

text \<open>The ledger of a run: shells started, shells killed, exits seen by a poll.\<close>

record ledger =
  lg_runtime :: agent_terminal_runtime
  lg_started :: nat
  lg_killed :: nat
  lg_reaped :: nat

fun is_started :: "agent_error + agent_terminal_event option \<Rightarrow> bool" where
  "is_started (Inr (Some (TerminalStarted _ _))) = True"
| "is_started _ = False"

fun is_reaped :: "runtime_op \<Rightarrow> agent_error + agent_terminal_event option \<Rightarrow> bool" where
  "is_reaped (RtPollExit _ _ _) (Inr (Some (TerminalExited _ _))) = True"
| "is_reaped _ _ = False"

definition ledger_step :: "(string \<Rightarrow> string option) \<Rightarrow> ledger \<Rightarrow> runtime_op \<Rightarrow> ledger" where
  "ledger_step env g op =
     (case runtime_step env (lg_runtime g) op of
        (res, rt, calls) \<Rightarrow>
          \<lparr>lg_runtime = rt,
           lg_started = lg_started g + (if is_started res then 1 else 0),
           lg_killed = lg_killed g + length (filter (\<lambda>c. c = CallKill) calls),
           lg_reaped = lg_reaped g + (if is_reaped op res then 1 else 0)\<rparr>)"

definition ledger_run :: "(string \<Rightarrow> string option) \<Rightarrow> runtime_op list \<Rightarrow> ledger" where
  "ledger_run env = foldl (ledger_step env)
     \<lparr>lg_runtime = terminal_runtime_new, lg_started = 0, lg_killed = 0, lg_reaped = 0\<rparr>"

text \<open>Every session the runtime holds is a live shell: not closed, its child held, no lock
  poisoned.\<close>

definition live_session :: "pty_session \<Rightarrow> bool" where
  "live_session s = (\<not> closed s \<and> child_held s \<and> \<not> child_poisoned s)"

definition runtime_ok :: "agent_terminal_runtime \<Rightarrow> bool" where
  "runtime_ok rt =
     (hm_ok (atr_sessions rt)
      \<and> (\<forall>sid s. hm_get (atr_sessions rt) sid = Some s \<longrightarrow> live_session s))"

lemma length_hm_put:
  "hm_ok m \<Longrightarrow> length (hm_put k v m) = (if hm_get m k = None then Suc (length m) else length m)"
proof (induction m)
  case (Cons e m)
  obtain k' w where e: "e = (k', w)"
    by fastforce
  with Cons show ?case
    by (auto simp: hm_ok_def hm_put_def hm_get_def)
qed (simp add: hm_put_def hm_get_def)

lemma length_hm_rem:
  "hm_ok m \<Longrightarrow> hm_get m k \<noteq> None \<Longrightarrow> Suc (length (hm_rem k m)) = length m"
proof (induction m)
  case (Cons e m)
  obtain k' w where e: "e = (k', w)"
    by fastforce
  show ?case
  proof (cases "k' = k")
    case True
    with Cons.prems(1) e have "AList.delete k m = m"
      by (intro delete_id) (auto simp: hm_ok_def)
    with True e show ?thesis
      by (simp add: hm_rem_def)
  next
    case False
    with Cons e show ?thesis
      by (simp add: hm_ok_def hm_rem_def hm_get_def)
  qed
qed (simp add: hm_get_def)

lemma spawn_live:
  "spawn_default_shell env sz a b c d = (Inr s, calls) \<Longrightarrow> live_session s \<and> CallKill \<notin> set calls"
  by (auto simp: spawn_default_shell_def spawn_shell_def live_session_def split: option.splits)

lemma no_kill_calls:
  "CallKill \<notin> set (snd (spawn_default_shell env sz a b c d))"
  "CallKill \<notin> set (snd (write_input s bs w f))"
  "CallKill \<notin> set (snd (resize s psz r))"
  "CallKill \<notin> set (snd (read_output s rd))"
  "CallKill \<notin> set (snd (snd (try_wait_exit s t)))"
  by (auto simp: spawn_default_shell_def spawn_shell_def write_input_def resize_def read_output_def
      try_wait_exit_def split: option.splits sum.splits if_splits)

lemma no_kill_filter: "CallKill \<notin> set calls \<Longrightarrow> filter (\<lambda>c. c = CallKill) calls = []"
  by (auto simp: filter_empty_conv)

lemma close_live:
  "live_session s \<Longrightarrow> snd (snd (close s k)) = [CallKill] \<and> closed (fst (snd (close s k)))
     \<and> snd (drop_session (fst (snd (close s k))) k') = []"
  by (auto simp: close_def live_session_def drop_session_def Let_def split: option.split)

lemma try_wait_live:
  assumes "live_session s" and "try_wait_exit s t = (r, s', calls)"
  shows "(\<exists>e. r = Inr (Some e)) \<Longrightarrow> closed s'" and "\<not> (\<exists>e. r = Inr (Some e)) \<Longrightarrow> s' = s"
  using assms by (auto simp: try_wait_exit_def live_session_def split: if_splits sum.splits option.splits)

lemma runtime_ok_rem: "runtime_ok rt \<Longrightarrow> runtime_ok (rt\<lparr>atr_sessions := hm_rem sid (atr_sessions rt)\<rparr>)"
  by (simp add: runtime_ok_def hm.ok_rem)

lemma runtime_ok_put:
  "runtime_ok rt \<Longrightarrow> live_session s \<Longrightarrow> runtime_ok (rt\<lparr>atr_sessions := hm_put sid s (atr_sessions rt)\<rparr>)"
  by (simp add: runtime_ok_def hm.ok_put)

definition balanced :: "ledger \<Rightarrow> bool" where
  "balanced g =
     (runtime_ok (lg_runtime g)
      \<and> lg_started g = session_count (lg_runtime g) + lg_killed g + lg_reaped g)"

lemma balanced_command: "balanced g \<Longrightarrow> balanced (ledger_step env g (RtCommand c r))"
proof (cases c)
  case (StartTerminal sid sz)
  assume b: "balanced g"
  obtain res calls where sp: "spawn_default_shell env (terminal_size_from_protocol sz) (pr_open r) (pr_spawn r)
      (pr_reader r) (pr_writer r) = (res, calls)"
    by fastforce
  have k: "filter (\<lambda>c. c = CallKill) calls = []"
    using no_kill_calls(1) sp by (metis no_kill_filter snd_conv)
  show ?thesis
  proof (cases "hm_get (atr_sessions (lg_runtime g)) sid")
    case None
    have ok: "hm_ok (atr_sessions (lg_runtime g))"
      using b by (simp add: balanced_def runtime_ok_def)
    show ?thesis
    proof (cases res)
      case (Inl e)
      with b StartTerminal None sp k show ?thesis
        by (simp add: ledger_step_def balanced_def)
    next
      case (Inr s)
      have "live_session s"
        using spawn_live sp Inr by blast
      with b StartTerminal None sp k Inr length_hm_put [OF ok, of sid s] show ?thesis
        by (simp add: ledger_step_def balanced_def runtime_ok_put session_count_def)
    qed
  next
    case (Some s)
    with b StartTerminal show ?thesis
      by (simp add: ledger_step_def balanced_def)
  qed
next
  case (WriteInput sid data)
  assume b: "balanced g"
  show ?thesis
  proof (cases "runtime_session (lg_runtime g) sid")
    case (Inl e)
    with b WriteInput show ?thesis
      by (simp add: ledger_step_def balanced_def)
  next
    case (Inr s)
    obtain res calls where w: "write_input s (str_bytes data) (pr_write r) (pr_flush r) = (res, calls)"
      by fastforce
    have "filter (\<lambda>c. c = CallKill) calls = []"
      using no_kill_calls(2) w by (metis no_kill_filter snd_conv)
    with b WriteInput Inr w show ?thesis
      by (cases res) (simp_all add: ledger_step_def balanced_def)
  qed
next
  case (ResizeTerminal sid sz)
  assume b: "balanced g"
  show ?thesis
  proof (cases "runtime_session (lg_runtime g) sid")
    case (Inl e)
    with b ResizeTerminal show ?thesis
      by (simp add: ledger_step_def balanced_def)
  next
    case (Inr s)
    obtain res calls where w: "resize s (terminal_size_from_protocol sz) (pr_resize r) = (res, calls)"
      by fastforce
    have "filter (\<lambda>c. c = CallKill) calls = []"
      using no_kill_calls(3) w by (metis no_kill_filter snd_conv)
    with b ResizeTerminal Inr w show ?thesis
      by (cases res) (simp_all add: ledger_step_def balanced_def)
  qed
next
  case (CloseTerminal sid)
  assume b: "balanced g"
  show ?thesis
  proof (cases "hm_get (atr_sessions (lg_runtime g)) sid")
    case None
    with b CloseTerminal show ?thesis
      by (simp add: ledger_step_def balanced_def)
  next
    case (Some s)
    have ok: "runtime_ok (lg_runtime g)" "hm_ok (atr_sessions (lg_runtime g))" and live: "live_session s"
      using b Some by (auto simp: balanced_def runtime_ok_def)
    obtain res s' calls where cl: "close s (pr_kill r) = (res, s', calls)"
      by (metis surj_pair)
    have calls: "calls = [CallKill]" "snd (drop_session s' (pr_kill r)) = []"
      using close_live [OF live, of "pr_kill r"] cl by simp_all
    have len: "Suc (length (hm_rem sid (atr_sessions (lg_runtime g)))) = length (atr_sessions (lg_runtime g))"
      using length_hm_rem [OF ok(2)] Some by simp
    show ?thesis
      using b CloseTerminal Some cl calls len runtime_ok_rem [OF ok(1), of sid]
      by (cases res) (simp_all add: ledger_step_def balanced_def session_count_def)
  qed
qed

lemma balanced_read: "balanced g \<Longrightarrow> balanced (ledger_step env g (RtRead sid rd))"
proof -
  assume b: "balanced g"
  obtain res calls where r: "runtime_read_output (lg_runtime g) sid rd = (res, calls)"
    by fastforce
  have "CallKill \<notin> set calls \<and> \<not> is_started res"
    using r no_kill_calls(4) [of _ rd]
    by (auto simp: runtime_read_output_def split_beta split: sum.splits if_splits)
  with b r show ?thesis
    by (simp add: ledger_step_def balanced_def no_kill_filter)
qed

lemma balanced_poll: "balanced g \<Longrightarrow> balanced (ledger_step env g (RtPollExit sid waitr killr))"
proof (cases "hm_get (atr_sessions (lg_runtime g)) sid")
  case None
  assume b: "balanced g"
  with None show ?thesis
    by (simp add: ledger_step_def balanced_def runtime_poll_exit_def runtime_session_def)
next
  case (Some s)
  assume b: "balanced g"
  then have ok: "runtime_ok (lg_runtime g)" "hm_ok (atr_sessions (lg_runtime g))" and live: "live_session s"
    using Some by (auto simp: balanced_def runtime_ok_def)
  obtain res s' calls where w: "try_wait_exit s waitr = (res, s', calls)"
    by (metis surj_pair)
  have k: "filter (\<lambda>c. c = CallKill) calls = []"
    using no_kill_calls(5) [of s waitr] w by (simp add: no_kill_filter)
  show ?thesis
  proof (cases "\<exists>e. res = Inr (Some e)")
    case True
    then obtain e where e: "res = Inr (Some e)"
      by blast
    have "closed s'"
      using try_wait_live(1) [OF live w] e by blast
    then have d: "snd (drop_session s' killr) = []"
      by (simp add: drop_session_def close_def)
    have len: "Suc (length (hm_rem sid (atr_sessions (lg_runtime g)))) = length (atr_sessions (lg_runtime g))"
      using length_hm_rem [OF ok(2)] Some by simp
    show ?thesis
      using b Some w e k d len runtime_ok_rem [OF ok(1), of sid]
      by (simp add: ledger_step_def balanced_def runtime_poll_exit_def runtime_session_def session_count_def)
  next
    case False
    then have s': "s' = s"
      using try_wait_live(2) [OF live w] by blast
    have put: "runtime_ok ((lg_runtime g)\<lparr>atr_sessions := hm_put sid s (atr_sessions (lg_runtime g))\<rparr>)"
      by (rule runtime_ok_put [OF ok(1) live])
    have len: "length (hm_put sid s (atr_sessions (lg_runtime g))) = length (atr_sessions (lg_runtime g))"
      using length_hm_put [OF ok(2)] Some by simp
    show ?thesis
    proof (cases res)
      case (Inl e)
      with b Some w k s' put len show ?thesis
        by (simp add: ledger_step_def balanced_def runtime_poll_exit_def runtime_session_def session_count_def)
    next
      case (Inr x)
      with False have "x = None"
        by (cases x) auto
      with Inr b Some w k s' put len show ?thesis
        by (simp add: ledger_step_def balanced_def runtime_poll_exit_def runtime_session_def session_count_def)
    qed
  qed
qed

lemma balanced_run: "balanced (ledger_run env ops)"
proof -
  have "balanced g \<Longrightarrow> balanced (foldl (ledger_step env) g ops)" for g
  proof (induction ops arbitrary: g)
    case (Cons op ops)
    then show ?case
      by (cases op) (simp_all add: balanced_command balanced_read balanced_poll)
  qed simp
  moreover have "balanced \<lparr>lg_runtime = terminal_runtime_new, lg_started = 0, lg_killed = 0, lg_reaped = 0\<rparr>"
    by (simp add: balanced_def runtime_ok_def terminal_runtime_new_def session_count_def)
  ultimately show ?thesis
    unfolding ledger_run_def by blast
qed


section \<open>The agent and the control plane\<close>

text \<open>How the control plane reads a heartbeat message: the same fields but the status.\<close>

definition received_heartbeat :: "agent_heartbeat_message \<Rightarrow> agent_heartbeat_request" where
  "received_heartbeat m =
     \<lparr>ahr_node_id = ahm_node_id m, ahr_credential_fingerprint = ahm_credential_fingerprint m,
      ahr_credential_proof = ahm_credential_proof m, ahr_hostname = ahm_hostname m,
      ahr_os = ahm_os m, ahr_architecture = ahm_architecture m,
      ahr_agent_version = ahm_agent_version m\<rparr>"

lemma enrolled_credential:
  assumes "length ops < 2 ^ 64 - 1" and "reg = node_run sha th node_registry_default ops"
    and "enroll sha th reg req now sys random = (Inr r, reg')" and "t < now + NODE_CREDENTIAL_TTL"
  shows "\<exists>i. check_credential reg' (aep_node_id r) (aep_credential_fingerprint r)
      (credential_proof sha (aep_node_id r) (aep_credential_secret r)) t = Inr i"
proof -
  have "unat (ne_next_node_id node_registry_default) = 1"
    by (simp add: node_registry_default_def)
  with assms(1) have ok: "nodes_ok reg"
    unfolding assms(2) by (intro node_run_ok [THEN conjunct1] nodes_ok_default) simp
  have en': "fst (enroll sha th reg req now sys random) = Inr r"
    by (simp add: assms(3))
  from enrolled_check_credential [OF ok en', of "aep_credential_fingerprint r"
      "credential_proof sha (aep_node_id r) (aep_credential_secret r)" t] assms(3,4)
  show ?thesis
    by auto
qed

section \<open>Properties\<close>

text \<open>What an agent does with its enrollment is what the control plane expects: with the request
  the agent builds from its configuration and the identity it makes of the answer, its client hello
  is accepted on every transport kind and its heartbeat puts the node online, from the enrollment
  until the credential expires.\<close>

theorem enrolled_agent_is_admitted:
  "length ops < 2 ^ 64 - 1 \<Longrightarrow> reg = node_run sha th node_registry_default ops \<Longrightarrow>
   enrollment_request_from_config config info = Inr req \<Longrightarrow>
   enroll sha th reg req now sys random = (Inr r, reg') \<Longrightarrow> t < now + NODE_CREDENTIAL_TTL \<Longrightarrow>
   conn = agent_connection_new sha config (identity_from_enrollment r info) info \<Longrightarrow>
     fst (negotiate_transport_for_kind reg' (transport_client_hello_envelope conn) kind t)
       = Inr \<lparr>hs_node_id = aep_node_id r, hs_transport_id = aep_node_id r @ ''-outbound'',
              hs_selected_transport = kind\<rparr>
     \<and> (\<exists>view. fst (heartbeat reg' (received_heartbeat (acn_heartbeat conn)) t) = Inr view
          \<and> nv_status view = NodeOnline)"
proof -
  assume len: "length ops < 2 ^ 64 - 1" "reg = node_run sha th node_registry_default ops"
    and en: "enroll sha th reg req now sys random = (Inr r, reg')" "t < now + NODE_CREDENTIAL_TTL"
    and conn: "conn = agent_connection_new sha config (identity_from_enrollment r info) info"
  obtain i where i: "check_credential reg' (aep_node_id r) (aep_credential_fingerprint r)
      (credential_proof sha (aep_node_id r) (aep_credential_secret r)) t = Inr i"
    using enrolled_credential [OF len en] by blast
  have hb: "ahm_node_id (acn_heartbeat conn) = aep_node_id r"
      "ahm_credential_fingerprint (acn_heartbeat conn) = aep_credential_fingerprint r"
      "ahm_credential_proof (acn_heartbeat conn)
         = credential_proof sha (aep_node_id r) (aep_credential_secret r)"
    by (simp_all add: conn agent_connection_new_def heartbeat_from_node_identity_def identity_from_enrollment_def)
  let ?e = "transport_client_hello_envelope conn"
  have e: "envelope_validate ?e = Inr ()" "env_payload ?e = PayloadClientHello (transport_client_hello conn)"
      "env_node_id ?e = aep_node_id r" "env_transport_id ?e = aep_node_id r @ ''-outbound''"
    by (simp_all add: transport_client_hello_envelope_def envelope_current_def envelope_validate_def
        message_id_is_valid_def message_id_first_def outbound_transport_id_def hb)
  have "validate_client_hello_for_transport (transport_client_hello conn) kind = Inr ()"
    by (cases kind) (simp_all add: validate_client_hello_for_transport_def transport_client_hello_def
        transport_attempts_def)
  moreover have "\<exists>view reg''. authenticate_transport_client reg' (aep_node_id r) (transport_client_hello conn) t
      = (Inr view, reg'')"
    using i by (simp add: authenticate_transport_client_def authenticate_transport_def
        transport_client_hello_def hb split_beta)
  ultimately have "fst (negotiate_transport_for_kind reg' ?e kind t)
       = Inr \<lparr>hs_node_id = aep_node_id r, hs_transport_id = aep_node_id r @ ''-outbound'',
              hs_selected_transport = kind\<rparr>"
    using e by (auto simp: negotiate_transport_for_kind_def)
  moreover have "\<exists>view. fst (heartbeat reg' (received_heartbeat (acn_heartbeat conn)) t) = Inr view
          \<and> nv_status view = NodeOnline"
    using i by (simp add: heartbeat_def received_heartbeat_def hb split_beta seen_online_def Let_def
        node_view_of_def NODE_OFFLINE_AFTER_def elapsed_def secs_def)
  ultimately show ?thesis
    by blast
qed

definition toy_agent_config :: agent_config where
  "toy_agent_config = \<lparr>ac_control_plane_url = ''http://127.0.0.1:3000'', ac_node_name = ''n'',
     ac_enrollment_token = Some ''ab'', ac_identity_path = ''identity.json''\<rparr>"

definition toy_info :: local_node_info where
  "toy_info = \<lparr>ln_hostname = ''h'', ln_os = ''o'', ln_architecture = ''x'', ln_agent_version = ''v''\<rparr>"

lemma toy_agent_request: "enrollment_request_from_config toy_agent_config toy_info = Inr toy_request"
  by (simp add: enrollment_request_from_config_def toy_agent_config_def toy_info_def toy_request_def)

theorem enrolled_agent_is_admitted_witness:
  "\<exists>r. fst (enroll toy_sha toy_token_hash toy_registry toy_request 1 0 [2]) = Inr r
     \<and> fst (negotiate_transport_for_kind toy_enrolled (transport_client_hello_envelope
           (agent_connection_new toy_sha toy_agent_config (identity_from_enrollment r toy_info) toy_info))
           LongPollHttps 5)
       = Inr \<lparr>hs_node_id = aep_node_id r, hs_transport_id = aep_node_id r @ ''-outbound'',
              hs_selected_transport = LongPollHttps\<rparr>"
proof -
  have len: "length toy_ops < 2 ^ 64 - 1"
    by (simp add: toy_ops_def)
  have t: "5 < 1 + NODE_CREDENTIAL_TTL"
    by (simp add: NODE_CREDENTIAL_TTL_def secs_def)
  obtain r where e: "enroll toy_sha toy_token_hash toy_registry toy_request 1 0 [2] = (Inr r, toy_enrolled)"
    using toy_enroll by blast
  show ?thesis
    using enrolled_agent_is_admitted [OF len toy_registry_def toy_agent_request e t refl, of LongPollHttps]
    by (intro exI [of _ r] conjI) (simp only: e fst_conv, blast)
qed


text \<open>The run loop ends exactly when it is told to or when a heartbeat fails: it posts one
  heartbeat per tick, always the same one to the same endpoint, stops with success at the first
  shutdown signal and with the error of the first heartbeat that fails, and runs on while neither
  has happened.\<close>

theorem agent_loop_stops_at_shutdown_or_failure:
  "agent_loop conn ws =
     (case dropWhile (\<lambda>w. w = HeartbeatTick None) ws of
        [] \<Rightarrow> None
      | Shutdown # _ \<Rightarrow> Some (Inr ())
      | HeartbeatTick (Some e) # _ \<Rightarrow> Some (Inl (ControlPlaneRequest e))
      | HeartbeatTick None # _ \<Rightarrow> None,
      replicate
        (length (takeWhile (\<lambda>w. w = HeartbeatTick None) ws)
         + (case dropWhile (\<lambda>w. w = HeartbeatTick None) ws of HeartbeatTick _ # _ \<Rightarrow> 1 | _ \<Rightarrow> 0))
        (PostHeartbeat (heartbeat_endpoint conn) (acn_heartbeat conn)))"
proof (induction ws)
  case (Cons w ws)
  show ?case
  proof (cases w)
    case (HeartbeatTick response)
    with Cons.IH show ?thesis
      by (cases response) (simp_all add: send_heartbeat_def)
  qed simp
qed simp

text \<open>The identity is written once and for its owner only: an agent that finds an identity file
  never enrolls and touches no file; one that does not posts one enrollment request, and only with a
  token configured; the identity file is opened and left with mode 0600, the directory made for it
  has mode 0700, and the run goes on only when all of that has succeeded.\<close>

theorem agent_identity_is_enrolled_once_and_private:
  "load_or_enroll_identity parse config info rd response fsr = (result, calls) \<Longrightarrow>
     (rd \<noteq> ReadNotFound \<longrightarrow> calls = [])
     \<and> (ac_enrollment_token config = None \<longrightarrow> calls = [])
     \<and> length (filter (\<lambda>c. \<exists>url req. c = PostEnroll url req) calls) \<le> 1
     \<and> (\<forall>path mode. FsCall (OpenTruncate path mode) \<in> set calls \<longrightarrow>
          path = ac_identity_path config \<and> mode = 384)
     \<and> (\<forall>path mode. FsCall (SetPermissions path mode) \<in> set calls \<longrightarrow>
          (path, mode) = (ac_identity_path config, 384)
          \<or> Some path = path_parent (ac_identity_path config) \<and> mode = 448)
     \<and> (\<forall>identity. result = Inr identity \<and> rd = ReadNotFound \<longrightarrow>
          drop (length calls - 2) calls
            = [FsCall (WriteIdentity (ac_identity_path config) identity),
               FsCall (SetPermissions (ac_identity_path config) 384)])"
proof -
  assume l: "load_or_enroll_identity parse config info rd response fsr = (result, calls)"
  show ?thesis
  proof (cases "rd = ReadNotFound")
    case False
    with l have "calls = []"
      by (cases rd) (auto simp: load_or_enroll_identity_def load_from_path_def split: sum.splits)
    with False show ?thesis
      by simp
  next
    case rd: True
    show ?thesis
    proof (cases "\<exists>token enrollment. ac_enrollment_token config = Some token \<and> response = Inr enrollment")
      case False
      have "calls = [] \<or> (\<exists>url req. calls = [PostEnroll url req]) \<and> ac_enrollment_token config \<noteq> None"
          "\<nexists>identity. result = Inr identity"
        using l rd False
        by (auto simp: load_or_enroll_identity_def load_from_path_def agent_enroll_def
            enrollment_request_from_config_def split: option.splits sum.splits)
      then show ?thesis
        using rd by auto
    next
      case True
      then obtain token enrollment where te: "ac_enrollment_token config = Some token" "response = Inr enrollment"
        by blast
      let ?id = "identity_from_enrollment enrollment info" and ?path = "ac_identity_path config"
      obtain sr fs where sv: "save_to_path fsr ?id ?path = (sr, fs)"
        by fastforce
      obtain url req where calls: "calls = PostEnroll url req # map FsCall fs"
        and result: "result = (case sr of Inl e \<Rightarrow> Inl e | Inr _ \<Rightarrow> Inr ?id)"
        using l rd te sv
        by (auto simp: load_or_enroll_identity_def load_from_path_def agent_enroll_def
            enrollment_request_from_config_def split: sum.splits)
      obtain pr pcalls where p: "prepare_parent fsr ?path = (pr, pcalls)"
        by fastforce
      have pc: "(\<forall>path mode. OpenTruncate path mode \<notin> set pcalls)
          \<and> (\<forall>path mode. SetPermissions path mode \<in> set pcalls \<longrightarrow> Some path = path_parent ?path \<and> mode = 448)"
        using p by (auto simp: prepare_parent_def split: option.splits if_splits)
      have "(\<forall>path mode. OpenTruncate path mode \<in> set fs \<longrightarrow> path = ?path \<and> mode = 384)
          \<and> (\<forall>path mode. SetPermissions path mode \<in> set fs \<longrightarrow>
               (path, mode) = (?path, 384) \<or> Some path = path_parent ?path \<and> mode = 448)
          \<and> (\<forall>u. sr = Inr u \<longrightarrow> (\<exists>as. fs = as @ [WriteIdentity ?path ?id, SetPermissions ?path 384]))"
        using sv p pc by (auto simp: save_to_path_def split: sum.splits option.splits)
      then show ?thesis
        using calls result te rd
        by (auto simp: filter_map comp_def split: sum.splits)
    qed
  qed
qed


theorem agent_identity_is_enrolled_once_and_private_witness:
  "snd (load_or_enroll_identity (\<lambda>_. Inl []) toy_agent_config toy_info ReadNotFound (Inl ''down'')
     \<lparr>fr_parent_exists = True, fr_create_dir = None, fr_dir_permissions = None, fr_open = None,
      fr_write = None, fr_file_permissions = None\<rparr>)
   = [PostEnroll ''http://127.0.0.1:3000/agent/enroll'' toy_request]
   \<and> length (filter (\<lambda>c. \<exists>url req. c = PostEnroll url req)
       (snd (load_or_enroll_identity (\<lambda>_. Inl []) toy_agent_config toy_info ReadNotFound (Inl ''down'')
     \<lparr>fr_parent_exists = True, fr_create_dir = None, fr_dir_permissions = None, fr_open = None,
      fr_write = None, fr_file_permissions = None\<rparr>))) \<le> 1"
proof -
  let ?fsr = "\<lparr>fr_parent_exists = True, fr_create_dir = None, fr_dir_permissions = None, fr_open = None,
      fr_write = None, fr_file_permissions = None\<rparr>"
  obtain result calls where l: "load_or_enroll_identity (\<lambda>_. Inl []) toy_agent_config toy_info ReadNotFound
      (Inl ''down'') ?fsr = (result, calls)"
    by fastforce
  have "join_url_path ''http://127.0.0.1:3000'' enrollment_endpoint_path = ''http://127.0.0.1:3000/agent/enroll''"
    by (simp add: join_url_path_def enrollment_endpoint_path_def)
  then have "calls = [PostEnroll ''http://127.0.0.1:3000/agent/enroll'' toy_request]"
    using l toy_agent_request
    by (auto simp: load_or_enroll_identity_def load_from_path_def agent_enroll_def toy_agent_config_def)
  with agent_identity_is_enrolled_once_and_private [OF l] l show ?thesis
    by simp
qed

text \<open>An enrollment whose identity cannot be saved is lost: the agent's run ends with the error,
  and every later attempt with the same token is refused as used.\<close>

theorem failed_save_burns_the_enrollment_token:
  "enrollment_request_from_config config info = Inr req \<Longrightarrow>
   enroll sha th reg req now sys random = (Inr r, reg') \<Longrightarrow>
   fst (save_to_path fsr (identity_from_enrollment r info) (ac_identity_path config)) = Inl e \<Longrightarrow>
     fst (run_until_shutdown sha parse config info ReadNotFound (Inr r) fsr first ws) = Some (Inl e)
     \<and> (\<forall>req' now' sys' random'. enrollment_request_from_config config info = Inr req' \<longrightarrow>
          fst (enroll sha th reg' req' now' sys' random') = Inl TokenUsed)"
proof -
  assume rq: "enrollment_request_from_config config info = Inr req"
    and en: "enroll sha th reg req now sys random = (Inr r, reg')"
    and sv: "fst (save_to_path fsr (identity_from_enrollment r info) (ac_identity_path config)) = Inl e"
  have "fst (load_or_enroll_identity parse config info ReadNotFound (Inr r) fsr) = Inl e"
    using sv rq by (simp add: load_or_enroll_identity_def load_from_path_def agent_enroll_def split_beta)
  then have "fst (run_until_shutdown sha parse config info ReadNotFound (Inr r) fsr first ws) = Some (Inl e)"
    by (simp add: run_until_shutdown_def split_beta)
  moreover obtain t where "ne_tokens_by_hash reg' (th (aer_token req)) = Some t" "etr_used_by_node_id t \<noteq> None"
    using en by (auto simp: enroll_def Let_def split_beta split: option.splits if_splits)
  then have "fst (enroll sha th reg' req now' sys' random') = Inl TokenUsed" for now' sys' random'
    by (simp add: enroll_def)
  ultimately show ?thesis
    using rq by simp
qed

definition toy_full_disk :: fs_results where
  "toy_full_disk = \<lparr>fr_parent_exists = True, fr_create_dir = None, fr_dir_permissions = None,
     fr_open = Some ''no space'', fr_write = None, fr_file_permissions = None\<rparr>"

theorem failed_save_burns_the_enrollment_token_witness:
  "fst (enroll toy_sha toy_token_hash toy_enrolled toy_request 2 0 [3]) = Inl TokenUsed"
proof -
  obtain r where en: "enroll toy_sha toy_token_hash toy_registry toy_request 1 0 [2] = (Inr r, toy_enrolled)"
    using toy_enroll by blast
  have "fst (save_to_path toy_full_disk (identity_from_enrollment r toy_info) (ac_identity_path toy_agent_config))
      = Inl (IdentityIo ''no space'')"
    by (simp add: save_to_path_def prepare_parent_def toy_full_disk_def toy_agent_config_def path_parent_def)
  from failed_save_burns_the_enrollment_token [OF toy_agent_request en this] toy_agent_request
  show ?thesis
    by simp
qed

text \<open>Output is decoded read by read: two reads whose first ends at the end of a character give,
  joined, the decoding of all their bytes; but a character cut in two by the end of a read is
  replaced on both sides, as the three bytes of the Euro sign show.\<close>

theorem output_is_decoded_read_by_read:
  "runtime_session rt sid = Inr s \<Longrightarrow> live_session s \<Longrightarrow> \<not> reader_poisoned s \<Longrightarrow> bs \<noteq> [] \<Longrightarrow> cs \<noteq> [] \<Longrightarrow>
     fst (runtime_read_output rt sid (Inr bs)) = Inr (Some (TerminalOutput sid (utf8_lossy bs)))
     \<and> (utf8_valid bs \<longrightarrow> utf8_lossy bs @ utf8_lossy cs = utf8_lossy (bs @ cs))
     \<and> (utf8_valid bs \<and> utf8_valid cs \<longrightarrow>
          utf8_lossy bs @ utf8_lossy cs = map char_of_byte (bs @ cs))
     \<and> utf8_valid [0xE2, 0x82, 0xAC]
     \<and> utf8_lossy [0xE2, 0x82] @ utf8_lossy [0xAC] \<noteq> utf8_lossy [0xE2, 0x82, 0xAC]"
proof -
  assume s: "runtime_session rt sid = Inr s" "live_session s" "\<not> reader_poisoned s" "bs \<noteq> []" "cs \<noteq> []"
  have v: "utf8_valid [0xE2, 0x82, 0xAC]"
    by (simp add: utf8_valid.simps(2) utf8_step_def Let_def is_ascii_byte_def leads_two_def leads_three_def
        second_of_three_def is_cont_def)
  have l: "utf8_lossy [0xE2, 0x82] = replacement_character" "utf8_lossy [0xAC] = replacement_character"
    by (simp_all add: utf8_lossy.simps(2) utf8_step_def Let_def is_ascii_byte_def leads_two_def
        leads_three_def leads_four_def second_of_three_def is_cont_def)
  have "length (utf8_lossy [0xE2, 0x82] @ utf8_lossy [0xAC]) \<noteq> length (utf8_lossy [0xE2, 0x82, 0xAC])"
    unfolding utf8_lossy_valid [OF v] l by (simp add: replacement_character_def)
  then have "utf8_lossy [0xE2, 0x82] @ utf8_lossy [0xAC] \<noteq> utf8_lossy [0xE2, 0x82, 0xAC]"
    by metis
  with s v show ?thesis
    by (simp add: runtime_read_output_def read_output_def is_closed_def live_session_def
        utf8_lossy_append utf8_lossy_valid)
qed

theorem output_is_decoded_read_by_read_witness:
  "fst (runtime_read_output \<lparr>atr_sessions = [(''s'', \<lparr>closed = False, child_held = True, child_poisoned = False,
        reader_poisoned = False, writer_poisoned = False, master_poisoned = False\<rparr>)]\<rparr> ''s'' (Inr [104, 105]))
     = Inr (Some (TerminalOutput ''s'' (utf8_lossy [104, 105])))"
  using output_is_decoded_read_by_read [of "\<lparr>atr_sessions = [(''s'', \<lparr>closed = False, child_held = True,
        child_poisoned = False, reader_poisoned = False, writer_poisoned = False, master_poisoned = False\<rparr>)]\<rparr>"
      "''s''" "\<lparr>closed = False, child_held = True, child_poisoned = False,
        reader_poisoned = False, writer_poisoned = False, master_poisoned = False\<rparr>" "[104, 105]" "[33]"]
  by (simp add: runtime_session_def hm_get_def live_session_def)

end
