(* ===== verification/Sb_App.thy ===== *)
theory Sb_App
  imports Sb_Transport Sb_Http Sb_Config Sb_Routing Sb_Sessions Sb_Rate_Limit
begin

text \<open>
  The state the control plane's handlers share (\<open>AppState\<close> in \<open>sunbolt-control/src/state.rs\<close>) and the
  effects a handler has on it: audit events, sessions inserted in and removed from the registry with
  the shells and command senders they own, commands queued for an agent, messages broadcast to the
  attached browsers, and the messages written to the handler's own web socket.

  Every \<open>Arc\<close> of the code is a value of \<open>app_state\<close>: the local shells are a list indexed by their
  handle, the broadcast channels a log of what was sent on each. \<open>app_pty_calls\<close> is the history of the
  calls made on the shells and \<open>app_events_taken\<close> the event receivers whose \<open>tokio::sync::Mutex\<close> is
  held. A handler runs over a \<open>wire\<close>: the shared state, the messages it has written to its browser, and
  the outcomes the environment has chosen for the next writes.
\<close>

section \<open>The shared state\<close>

record ('c, 'e) app_env =
  ae_transport :: "('c, 'e) transport_env"
  ae_token_hash :: "string \<Rightarrow> u64"
  ae_parse_client :: "string \<Rightarrow> string + terminal_client_message"

record ('c, 'e) app_state =
  app_runtime_mode :: runtime_mode
  app_production_state :: production_state
  app_sessions :: session_registry
  app_terminal_config :: terminal_session_config
  app_auth :: auth_service
  app_transport :: "('c, 'e) transport_state"
  app_router :: memory_router
  app_login_limiter :: rate_limiter
  app_mfa_limiter :: rate_limiter
  app_terminal_limiter :: rate_limiter
  app_enrollment_limiter :: rate_limiter
  app_allowed_origins :: "string list"
  app_next_session_id :: u64
  app_ptys :: "pty_session list"
  app_pty_calls :: "(pty_handle \<times> pty_call) list"
  app_broadcasts :: "(output_channel \<times> terminal_server_message) list"
  app_channels :: nat
  app_events_taken :: "nat list"

definition DEFAULT_LOGIN_RATE_WINDOW :: duration where
  "DEFAULT_LOGIN_RATE_WINDOW = secs (15 * 60)"

definition DEFAULT_LOGIN_RATE_MAX :: nat where
  "DEFAULT_LOGIN_RATE_MAX = 10"

definition DEFAULT_MFA_RATE_WINDOW :: duration where
  "DEFAULT_MFA_RATE_WINDOW = secs (5 * 60)"

definition DEFAULT_MFA_RATE_MAX :: nat where
  "DEFAULT_MFA_RATE_MAX = 5"

definition DEFAULT_TERMINAL_RATE_WINDOW :: duration where
  "DEFAULT_TERMINAL_RATE_WINDOW = secs 60"

definition DEFAULT_TERMINAL_RATE_MAX :: nat where
  "DEFAULT_TERMINAL_RATE_MAX = 5"

definition DEFAULT_ENROLLMENT_TOKEN_RATE_WINDOW :: duration where
  "DEFAULT_ENROLLMENT_TOKEN_RATE_WINDOW = secs (15 * 60)"

definition DEFAULT_ENROLLMENT_TOKEN_RATE_MAX :: nat where
  "DEFAULT_ENROLLMENT_TOKEN_RATE_MAX = 5"

definition DEFAULT_AGENT_AUTH_FAILURE_RATE_WINDOW :: duration where
  "DEFAULT_AGENT_AUTH_FAILURE_RATE_WINDOW = secs (5 * 60)"

definition DEFAULT_AGENT_AUTH_FAILURE_RATE_MAX :: nat where
  "DEFAULT_AGENT_AUTH_FAILURE_RATE_MAX = 10"

text \<open>\<open>AppState::new\<close>, from what start-up has read and connected.\<close>

definition app_state_new :: "hash_fun \<Rightarrow> startup_state \<Rightarrow> ('c, 'e) app_state" where
  "app_state_new sha ss =
     \<lparr>app_runtime_mode = ss_runtime_mode ss,
      app_production_state = ss_production_state ss,
      app_sessions = registry_default,
      app_terminal_config = ss_terminal_config ss,
      app_auth = auth_service_new sha (ss_auth_config ss),
      app_transport =
        \<lparr>ts_connections = [], ts_links = [], ts_nodes = node_registry_default,
         ts_audit = audit_log_new,
         ts_auth_failures = rate_limiter_new DEFAULT_AGENT_AUTH_FAILURE_RATE_WINDOW
                              DEFAULT_AGENT_AUTH_FAILURE_RATE_MAX\<rparr>,
      app_router = router_default,
      app_login_limiter = rate_limiter_new DEFAULT_LOGIN_RATE_WINDOW DEFAULT_LOGIN_RATE_MAX,
      app_mfa_limiter = rate_limiter_new DEFAULT_MFA_RATE_WINDOW DEFAULT_MFA_RATE_MAX,
      app_terminal_limiter =
        rate_limiter_new DEFAULT_TERMINAL_RATE_WINDOW DEFAULT_TERMINAL_RATE_MAX,
      app_enrollment_limiter =
        rate_limiter_new DEFAULT_ENROLLMENT_TOKEN_RATE_WINDOW DEFAULT_ENROLLMENT_TOKEN_RATE_MAX,
      app_allowed_origins = ss_allowed_origins ss,
      app_next_session_id = 1, app_ptys = [], app_pty_calls = [], app_broadcasts = [],
      app_channels = 0, app_events_taken = []\<rparr>"

record app_state_summary =
  sm_runtime_mode :: string
  sm_backends :: production_state_config
  sm_postgres_connected :: bool

definition state_summary :: "('c, 'e) app_state \<Rightarrow> app_state_summary" where
  "state_summary st =
     \<lparr>sm_runtime_mode = mode_as_str (app_runtime_mode st),
      sm_backends = ps_backends (app_production_state st),
      sm_postgres_connected = ps_storage_connected (app_production_state st)\<rparr>"

section \<open>Effects on the shared state\<close>

text \<open>
  What the environment chooses for one step of a handler: the clock, the outcome of each operating
  system call, the random bytes, and what the other tasks do while the handler waits.
\<close>

record ('c, 'e) io =
  io_now :: instant
  io_stamp :: u64
  io_system :: int
  io_random :: "u8 list"
  io_new_token :: string
  io_kill :: "string option"
  io_write :: "string option"
  io_flush :: "string option"
  io_resize :: "string option"
  io_spawn :: "string option \<times> string option \<times> string option \<times> string option"
  io_env :: "string \<Rightarrow> string option"
  io_sends :: "bool list"
  io_waiting :: "('c, 'e) app_state \<Rightarrow> ('c, 'e) app_state"

definition on_sessions ::
  "(session_registry \<Rightarrow> session_registry) \<Rightarrow> ('c, 'e) app_state \<Rightarrow> ('c, 'e) app_state" where
  "on_sessions f st = st\<lparr>app_sessions := f (app_sessions st)\<rparr>"

definition on_transport ::
  "(('c, 'e) transport_state \<Rightarrow> ('c, 'e) transport_state) \<Rightarrow> ('c, 'e) app_state \<Rightarrow> ('c, 'e) app_state" where
  "on_transport f st = st\<lparr>app_transport := f (app_transport st)\<rparr>"

definition on_audit ::
  "(audit_log \<Rightarrow> audit_log) \<Rightarrow> ('c, 'e) app_state \<Rightarrow> ('c, 'e) app_state" where
  "on_audit f = on_transport (\<lambda>t. t\<lparr>ts_audit := f (ts_audit t)\<rparr>)"

definition app_audit ::
  "('c, 'e) app_env \<Rightarrow> ('c, 'e) io \<Rightarrow> audit_event_kind \<Rightarrow> string option \<Rightarrow> string
   \<Rightarrow> ('c, 'e) app_state \<Rightarrow> ('c, 'e) app_state" where
  "app_audit env io kind actor message =
     on_audit (audit_record (te_sha (ae_transport env)) (io_stamp io)
                 \<lparr>ai_kind = kind, ai_actor_email = actor, ai_message = message\<rparr>)"

definition app_events :: "('c, 'e) app_state \<Rightarrow> audit_event list" where
  "app_events st = log_events (ts_audit (app_transport st))"

text \<open>A call on a shell, through its \<open>Arc\<close>; the calls it makes on the operating system are recorded.\<close>

definition on_pty ::
  "pty_handle \<Rightarrow> (pty_session \<Rightarrow> 'r \<times> pty_session \<times> pty_call list) \<Rightarrow> ('c, 'e) app_state
   \<Rightarrow> 'r \<times> ('c, 'e) app_state" where
  "on_pty h f st =
     (let (r, s, cs) = f (app_ptys st ! h)
      in (r, st\<lparr>app_ptys := (app_ptys st)[h := s],
                app_pty_calls := app_pty_calls st @ map (\<lambda>c. (h, c)) cs\<rparr>))"

definition close_pty ::
  "('c, 'e) io \<Rightarrow> pty_handle \<Rightarrow> ('c, 'e) app_state \<Rightarrow> ('c, 'e) app_state" where
  "close_pty io h st = snd (on_pty h (\<lambda>s. close s (io_kill io)) st)"

definition close_ptys ::
  "('c, 'e) io \<Rightarrow> pty_handle list \<Rightarrow> ('c, 'e) app_state \<Rightarrow> ('c, 'e) app_state" where
  "close_ptys io hs st = fold (close_pty io) hs st"

definition new_channel :: "('c, 'e) app_state \<Rightarrow> output_channel \<times> ('c, 'e) app_state" where
  "new_channel st = (app_channels st, st\<lparr>app_channels := app_channels st + 1\<rparr>)"

definition broadcast ::
  "output_channel \<Rightarrow> terminal_server_message \<Rightarrow> ('c, 'e) app_state \<Rightarrow> ('c, 'e) app_state" where
  "broadcast ch m st = st\<lparr>app_broadcasts := app_broadcasts st @ [(ch, m)]\<rparr>"

section \<open>Commands for an agent\<close>

text \<open>A handler that awaits is done with a result, or parked: what it waits for has not happened.\<close>

datatype 'a task = Done 'a | Parked

definition offer_command ::
  "('c, 'e) app_env \<Rightarrow> command_channel \<Rightarrow> agent_terminal_command \<Rightarrow> ('c, 'e) app_state
   \<Rightarrow> bool \<times> ('c, 'e) app_state" where
  "offer_command env h x st =
     (let l = ts_links (app_transport st) ! h;
          (ok, c) = mp_try_send (te_commands (ae_transport env)) x (lk_commands l)
      in (ok, on_transport (update_link h (\<lambda>l. l\<lparr>lk_commands := c\<rparr>)) st))"

definition command_channel_closed ::
  "('c, 'e) app_env \<Rightarrow> command_channel \<Rightarrow> ('c, 'e) app_state \<Rightarrow> bool" where
  "command_channel_closed env h st =
     mp_is_closed (te_commands (ae_transport env)) (lk_commands (ts_links (app_transport st) ! h))"

text \<open>
  \<open>command_tx.send(x).await\<close>: true when queued, false when the receiver is gone. On a full channel the
  handler waits while the others run.
\<close>

definition send_now ::
  "('c, 'e) app_env \<Rightarrow> command_channel \<Rightarrow> agent_terminal_command \<Rightarrow> ('c, 'e) app_state
   \<Rightarrow> bool task \<times> ('c, 'e) app_state" where
  "send_now env h x st =
     (if command_channel_closed env h st then (Done False, st)
      else let (ok, st') = offer_command env h x st
           in if ok then (Done True, st') else (Parked, st))"

definition send_command ::
  "('c, 'e) app_env \<Rightarrow> ('c, 'e) io \<Rightarrow> command_channel \<Rightarrow> agent_terminal_command
   \<Rightarrow> ('c, 'e) app_state \<Rightarrow> bool task \<times> ('c, 'e) app_state" where
  "send_command env io h x st =
     (case send_now env h x st of
        (Parked, st1) \<Rightarrow> send_now env h x (io_waiting io st1)
      | done \<Rightarrow> done)"

definition clone_command_sender ::
  "command_channel \<Rightarrow> ('c, 'e) app_state \<Rightarrow> ('c, 'e) app_state" where
  "clone_command_sender h = on_transport (update_link h clone_sender)"

definition drop_command_sender ::
  "('c, 'e) app_env \<Rightarrow> command_channel \<Rightarrow> ('c, 'e) app_state \<Rightarrow> ('c, 'e) app_state" where
  "drop_command_sender env h = on_transport (update_link h (drop_sender (ae_transport env)))"

definition drop_backend ::
  "('c, 'e) app_env \<Rightarrow> terminal_backend \<Rightarrow> ('c, 'e) app_state \<Rightarrow> ('c, 'e) app_state" where
  "drop_backend env b =
     (case b of Local _ \<Rightarrow> (\<lambda>st. st) | Remote h \<Rightarrow> drop_command_sender env h)"

section \<open>Sessions and what they own\<close>

definition backend_of :: "session_registry \<Rightarrow> terminal_session_id \<Rightarrow> terminal_backend option" where
  "backend_of reg sid = map_option ts_backend (lookup_session reg sid)"

text \<open>\<open>sessions.terminate\<close> hands the removed backend to the caller, \<open>sessions.remove\<close> drops it.\<close>

definition app_terminate ::
  "('c, 'e) io \<Rightarrow> terminal_session_id \<Rightarrow> ('c, 'e) app_state
   \<Rightarrow> terminal_backend option \<times> ('c, 'e) app_state" where
  "app_terminate io sid st =
     (let (b, reg, hs) = terminate_session (app_sessions st) sid
      in (b, close_ptys io hs (st\<lparr>app_sessions := reg\<rparr>)))"

definition app_remove ::
  "('c, 'e) app_env \<Rightarrow> ('c, 'e) io \<Rightarrow> terminal_session_id \<Rightarrow> ('c, 'e) app_state \<Rightarrow> ('c, 'e) app_state" where
  "app_remove env io sid st =
     (let (reg, hs) = remove_session (app_sessions st) sid;
          st' = close_ptys io hs (st\<lparr>app_sessions := reg\<rparr>)
      in case backend_of (app_sessions st) sid of None \<Rightarrow> st' | Some b \<Rightarrow> drop_backend env b st')"

definition app_state_of :: "('c, 'e) app_state \<Rightarrow> terminal_session_id \<Rightarrow> terminal_session_state option" where
  "app_state_of st = session_state (app_sessions st)"

section \<open>The browser's socket\<close>

record ('c, 'e) wire =
  w_app :: "('c, 'e) app_state"
  w_sent :: "terminal_server_message list"
  w_results :: "bool list"

text \<open>A write succeeds or fails as the environment says, and succeeds when it says nothing.\<close>

definition send_server_message ::
  "terminal_server_message \<Rightarrow> ('c, 'e) wire \<Rightarrow> bool \<times> ('c, 'e) wire" where
  "send_server_message m w =
     (case w_results w of
        False # rs \<Rightarrow> (False, w\<lparr>w_results := rs\<rparr>)
      | rs \<Rightarrow> (True, w\<lparr>w_results := tl rs, w_sent := w_sent w @ [m]\<rparr>))"

definition tell :: "terminal_server_message \<Rightarrow> ('c, 'e) wire \<Rightarrow> ('c, 'e) wire" where
  "tell m w = snd (send_server_message m w)"

definition on_app ::
  "(('c, 'e) app_state \<Rightarrow> ('c, 'e) app_state) \<Rightarrow> ('c, 'e) wire \<Rightarrow> ('c, 'e) wire" where
  "on_app f w = w\<lparr>w_app := f (w_app w)\<rparr>"

definition protocol_error_text :: "terminal_error_code \<Rightarrow> string \<Rightarrow> terminal_error" where
  "protocol_error_text code message = \<lparr>te_code = code, te_message = message\<rparr>"

definition tell_error ::
  "terminal_session_id option \<Rightarrow> terminal_error_code \<Rightarrow> string \<Rightarrow> ('c, 'e) wire \<Rightarrow> ('c, 'e) wire" where
  "tell_error sid code message = tell (ServerError sid (protocol_error_text code message))"

definition protocol_error :: "terminal_error_code \<Rightarrow> pty_error \<Rightarrow> terminal_error" where
  "protocol_error code e = protocol_error_text code (pty_error_text e)"

section \<open>Lemmas\<close>

lemma w_app_send [simp]: "w_app (snd (send_server_message m w)) = w_app w"
  by (simp add: send_server_message_def split: list.split bool.split)

lemma w_app_tell [simp]: "w_app (tell m w) = w_app w"
  by (simp add: tell_def)

lemma w_app_tell_error [simp]: "w_app (tell_error sid code message w) = w_app w"
  by (simp add: tell_error_def)

lemma on_app_simps [simp]:
  "w_app (on_app f w) = f (w_app w)" "w_sent (on_app f w) = w_sent w"
  "w_results (on_app f w) = w_results w"
  by (simp_all add: on_app_def)

lemma w_sent_send_ok:
  "fst (send_server_message m w) \<Longrightarrow> w_sent (snd (send_server_message m w)) = w_sent w @ [m]"
  by (auto simp: send_server_message_def split: list.splits bool.splits)

lemma w_sent_tell: "w_sent (tell m w) = w_sent w \<or> w_sent (tell m w) = w_sent w @ [m]"
  by (simp add: tell_def send_server_message_def split: list.split bool.split)

lemma w_sent_tell_ok [simp]: "w_results w = [] \<Longrightarrow> w_sent (tell m w) = w_sent w @ [m]"
  by (simp add: tell_def send_server_message_def)

lemma w_results_tell [simp]: "w_results w = [] \<Longrightarrow> w_results (tell m w) = []"
  by (simp add: tell_def send_server_message_def)

lemma w_sent_tell_error_ok [simp]:
  "w_results w = [] \<Longrightarrow>
     w_sent (tell_error sid code message w) =
       w_sent w @ [ServerError sid (protocol_error_text code message)]"
  by (simp add: tell_error_def)

lemma w_results_tell_error [simp]: "w_results w = [] \<Longrightarrow> w_results (tell_error sid c m w) = []"
  by (simp add: tell_error_def)

lemma app_audit_simps [simp]:
  "app_auth (app_audit env io kind actor message st) = app_auth st"
  "app_sessions (app_audit env io kind actor message st) = app_sessions st"
  "app_router (app_audit env io kind actor message st) = app_router st"
  "app_ptys (app_audit env io kind actor message st) = app_ptys st"
  "app_pty_calls (app_audit env io kind actor message st) = app_pty_calls st"
  "app_broadcasts (app_audit env io kind actor message st) = app_broadcasts st"
  "app_allowed_origins (app_audit env io kind actor message st) = app_allowed_origins st"
  "ts_nodes (app_transport (app_audit env io kind actor message st)) = ts_nodes (app_transport st)"
  "ts_links (app_transport (app_audit env io kind actor message st)) = ts_links (app_transport st)"
  "ts_connections (app_transport (app_audit env io kind actor message st)) =
     ts_connections (app_transport st)"
  by (simp_all add: app_audit_def on_audit_def on_transport_def)

text \<open>What an event keeps of its input; the log redacts the message.\<close>

definition event_of :: "audit_event \<Rightarrow> audit_event_kind \<times> string option" where
  "event_of e = (ae_kind e, ae_actor_email e)"

definition recorded :: "('c, 'e) app_state \<Rightarrow> (audit_event_kind \<times> string option) list" where
  "recorded st = map event_of (app_events st)"

lemma recorded_app_audit [simp]:
  "recorded (app_audit env io kind actor message st) = recorded st @ [(kind, actor)]"
  by (simp add: recorded_def app_events_def app_audit_def on_audit_def on_transport_def
      audit_record_def event_of_def Let_def)

lemma recorded_same [simp]:
  "recorded (st\<lparr>app_auth := sv\<rparr>) = recorded st"
  "recorded (st\<lparr>app_mfa_limiter := rl\<rparr>) = recorded st"
  "recorded (st\<lparr>app_login_limiter := rl\<rparr>) = recorded st"
  "recorded (st\<lparr>app_sessions := reg\<rparr>) = recorded st"
  by (simp_all add: recorded_def app_events_def)

text \<open>What the effects leave alone. \<open>kept\<close> is what no command, shell or broadcast touches.\<close>

definition kept :: "('c, 'e) app_state \<Rightarrow> session_registry \<times> auth_service \<times> memory_router
    \<times> (string, registered_agent_connection) hmap \<times> node_registry \<times> audit_log" where
  "kept st = (app_sessions st, app_auth st, app_router st, ts_connections (app_transport st),
              ts_nodes (app_transport st), ts_audit (app_transport st))"

lemma kept_on_pty [simp]: "kept (snd (on_pty h f st)) = kept st"
  by (simp add: kept_def on_pty_def split_beta Let_def)

lemma kept_close_ptys [simp]: "kept (close_ptys io hs st) = kept st"
  unfolding close_ptys_def by (induction hs arbitrary: st) (simp_all add: close_pty_def)

lemma kept_broadcast [simp]: "kept (broadcast ch m st) = kept st"
  by (simp add: kept_def broadcast_def)

lemma kept_update_link [simp]: "kept (on_transport (update_link h f) st) = kept st"
  by (simp add: kept_def on_transport_def update_link_def)

lemma kept_offer [simp]: "kept (snd (offer_command env h x st)) = kept st"
  by (simp add: offer_command_def split_beta Let_def)

lemma kept_send_now [simp]: "kept (snd (send_now env h x st)) = kept st"
  using kept_offer [of env h x st]
  by (cases "offer_command env h x st") (simp add: send_now_def Let_def)

lemma kept_senders [simp]:
  "kept (clone_command_sender h st) = kept st" "kept (drop_command_sender env h st) = kept st"
  by (simp_all add: clone_command_sender_def drop_command_sender_def)

lemma kept_drop_backend [simp]: "kept (drop_backend env b st) = kept st"
  by (cases b) (simp_all add: drop_backend_def)

lemma kept_D:
  assumes "kept st' = kept st"
  shows "app_sessions st' = app_sessions st" and "app_auth st' = app_auth st"
    and "app_router st' = app_router st"
    and "ts_connections (app_transport st') = ts_connections (app_transport st)"
    and "ts_nodes (app_transport st') = ts_nodes (app_transport st)"
    and "ts_audit (app_transport st') = ts_audit (app_transport st)"
    and "recorded st' = recorded st"
  using assms by (simp_all add: kept_def recorded_def app_events_def)

text \<open>When nobody else runs, a send that waits changes nothing.\<close>

lemma kept_send_alone:
  assumes "io_waiting io = (\<lambda>st. st)"
  shows "kept (snd (send_command env io h x st)) = kept st"
proof -
  obtain r st1 where s: "send_now env h x st = (r, st1)"
    by (metis surj_pair)
  then have "kept st1 = kept st"
    using kept_send_now [of env h x st] by simp
  then show ?thesis
    using kept_send_now [of env h x st1] by (cases r) (simp_all add: send_command_def s assms)
qed

end
