(* ===== verification/Sb_Handlers.thy ===== *)
theory Sb_Handlers
  imports Sb_App Sb_Utf8
begin

text \<open>
  The browser's terminal connections (\<open>sunbolt-control/src/terminal/mod.rs\<close>): the frames a browser
  sends, the handlers of a local and of a remote session from the first frame to the end of the
  connection, the task that reads a local shell, the clean-up worker, and the session routes.

  A connection is opened by a function of the shared state that says whether a loop follows; the
  loop is one step per event the \<open>select!\<close> takes, and \<open>_end\<close> is the code after the loop. Between two steps
  of a connection the shared state may change, so a whole connection is a list of events, each with
  what the other tasks did before it (\<open>local_loop\<close>, \<open>remote_loop\<close>, \<open>attached_loop\<close>).
\<close>

section \<open>Frames\<close>

datatype browser_frame = FrameText string | FrameBinary | FrameClose | FrameControl

definition parse_client_message ::
  "('c, 'e) app_env \<Rightarrow> browser_frame \<Rightarrow> terminal_error + terminal_client_message" where
  "parse_client_message env f =
     (case f of
        FrameText t \<Rightarrow>
          (case ae_parse_client env t of
             Inl e \<Rightarrow> Inl (protocol_error_text InvalidMessage (''invalid terminal message JSON: '' @ e))
           | Inr m \<Rightarrow> Inr m)
      | FrameBinary \<Rightarrow>
          Inl (protocol_error_text InvalidMessage ''binary terminal messages are not supported'')
      | FrameClose \<Rightarrow> Inl (protocol_error_text InvalidMessage ''terminal websocket closed'')
      | FrameControl \<Rightarrow>
          Inl (protocol_error_text InvalidMessage
                 ''websocket control frames are not terminal protocol messages''))"

definition control_size_from_protocol :: "terminal_size \<Rightarrow> pty_terminal_size" where
  "control_size_from_protocol sz =
     \<lparr>pty_cols = max (size_cols sz) 1, pty_rows = max (size_rows sz) 1\<rparr>"

definition exit_message :: "terminal_session_id \<Rightarrow> terminal_exit_status \<Rightarrow> terminal_server_message" where
  "exit_message sid e = ServerExited sid \<lparr>exit_status = exit_code e\<rparr>"

definition next_session_id :: "('c, 'e) app_state \<Rightarrow> terminal_session_id \<times> ('c, 'e) app_state" where
  "next_session_id st =
     (''local-'' @ show_nat (unat (app_next_session_id st)),
      st\<lparr>app_next_session_id := app_next_session_id st + 1\<rparr>)"

definition session_id_matches ::
  "terminal_session_id \<Rightarrow> terminal_session_id \<Rightarrow> ('c, 'e) wire \<Rightarrow> bool \<times> ('c, 'e) wire" where
  "session_id_matches received active w =
     (if received = active then (True, w)
      else (False, tell_error (Some active) SessionNotFound
                     ''terminal session id does not match this connection'' w))"

definition audit_terminal_detached ::
  "('c, 'e) app_env \<Rightarrow> ('c, 'e) io \<Rightarrow> string \<Rightarrow> terminal_session_id \<Rightarrow> string
   \<Rightarrow> ('c, 'e) app_state \<Rightarrow> ('c, 'e) app_state" where
  "audit_terminal_detached env io actor sid reason =
     app_audit env io TerminalDetached (Some actor)
       (''terminal session '' @ sid @ '' detached: '' @ reason)"

definition browser_gone ::
  "('c, 'e) app_env \<Rightarrow> ('c, 'e) io \<Rightarrow> string \<Rightarrow> terminal_session_id
   \<Rightarrow> ('c, 'e) wire \<Rightarrow> ('c, 'e) wire" where
  "browser_gone env io actor sid =
     on_app (\<lambda>st. audit_terminal_detached env io actor sid ''browser websocket disconnected''
                    (on_sessions (\<lambda>r. detach r sid) st))"

section \<open>A frame for a local session\<close>

definition detach_local_terminal ::
  "terminal_session_id \<Rightarrow> ('c, 'e) wire \<Rightarrow> bool \<times> ('c, 'e) wire" where
  "detach_local_terminal sid w =
     (False, tell (ServerDetached sid) (on_app (on_sessions (\<lambda>r. set_state r sid Detached)) w))"

definition reattach_local_terminal ::
  "terminal_session_id \<Rightarrow> ('c, 'e) wire \<Rightarrow> bool \<times> ('c, 'e) wire" where
  "reattach_local_terminal sid w =
     (let w1 = on_app (on_sessions (\<lambda>r. set_state (set_state r sid Reattaching) sid Active)) w;
          w2 = tell (ServerReattached sid None \<lparr>size_cols = 80, size_rows = 24\<rparr>
                       (reconnect_token (app_sessions (w_app w1)) sid) None) w1
      in (True, on_app (on_sessions (\<lambda>r. set_state r sid Active)) w2))"

definition pty_outcome ::
  "terminal_session_id \<Rightarrow> pty_handle \<Rightarrow> (pty_session \<Rightarrow> (pty_error + unit) \<times> pty_call list)
   \<Rightarrow> ('c, 'e) wire \<Rightarrow> bool \<times> ('c, 'e) wire" where
  "pty_outcome sid h f w =
     (let (r, st) = on_pty h (\<lambda>s. let (r, cs) = f s in (r, s, cs)) (w_app w);
          w' = on_app (\<lambda>_. st) w
      in (True, case r of
                  Inr _ \<Rightarrow> w'
                | Inl e \<Rightarrow> tell (ServerError (Some sid) (protocol_error TerminalUnavailable e)) w'))"

definition terminate_local ::
  "('c, 'e) app_env \<Rightarrow> ('c, 'e) io \<Rightarrow> string \<Rightarrow> pty_handle \<Rightarrow> terminal_session_id
   \<Rightarrow> ('c, 'e) wire \<Rightarrow> bool \<times> ('c, 'e) wire" where
  "terminate_local env io actor h sid w =
     (False,
      tell (ServerExited sid \<lparr>exit_status = None\<rparr>)
        (on_app (\<lambda>st. close_pty io h
                   (app_audit env io TerminalTerminated (Some actor)
                      (''terminal session '' @ sid @ '' explicitly terminated'')
                      (on_sessions (\<lambda>r. set_state r sid Terminating) st))) w))"

definition handle_client_message ::
  "('c, 'e) app_env \<Rightarrow> ('c, 'e) io \<Rightarrow> string \<Rightarrow> pty_handle \<Rightarrow> terminal_session_id
   \<Rightarrow> terminal_client_message \<Rightarrow> ('c, 'e) wire \<Rightarrow> bool \<times> ('c, 'e) wire" where
  "handle_client_message env io actor h sid m w =
     (let for_this = (\<lambda>received act. let (ok, w1) = session_id_matches received sid w
                                     in if ok then act w1 else (True, w1))
      in case m of
           ClientInput s dat \<Rightarrow>
             for_this s (pty_outcome sid h
               (\<lambda>p. write_input p (str_bytes dat) (io_write io) (io_flush io)))
         | ClientResize s sz \<Rightarrow>
             for_this s (\<lambda>w. pty_outcome sid h
               (\<lambda>p. resize p (control_size_from_protocol sz) (io_resize io))
               (on_app (on_sessions (\<lambda>r. set_size r sid sz)) w))
         | ClientClose s \<Rightarrow> for_this s (terminate_local env io actor h sid)
         | ClientTerminate s \<Rightarrow> for_this s (terminate_local env io actor h sid)
         | ClientDetach s \<Rightarrow>
             for_this s (\<lambda>w. detach_local_terminal sid
               (on_app (audit_terminal_detached env io actor sid
                          ''user detached terminal session'') w))
         | ClientReattach s _ \<Rightarrow> for_this s (reattach_local_terminal sid)
         | ClientPing nonce \<Rightarrow> (True, tell (ServerPong nonce) w)
         | ClientStart _ _ \<Rightarrow>
             (True, tell_error (Some sid) InvalidMessage ''terminal session is already started'' w))"

definition handle_client_frame ::
  "('c, 'e) app_env \<Rightarrow> ('c, 'e) io \<Rightarrow> string \<Rightarrow> pty_handle \<Rightarrow> terminal_session_id
   \<Rightarrow> browser_frame \<Rightarrow> ('c, 'e) wire \<Rightarrow> bool \<times> ('c, 'e) wire" where
  "handle_client_frame env io actor h sid f w =
     (case parse_client_message env f of
        Inl e \<Rightarrow> (True, tell (ServerError (Some sid) e) w)
      | Inr m \<Rightarrow> handle_client_message env io actor h sid m w)"

section \<open>The loop of a local session\<close>

datatype broadcast_recv = Heard terminal_server_message | Lagged | BroadcastClosed

datatype local_input =
  LocalOutput broadcast_recv | LocalFrame browser_frame | LocalGone | LocalIdleTick

definition hear_output ::
  "('c, 'e) app_env \<Rightarrow> ('c, 'e) io \<Rightarrow> string \<Rightarrow> terminal_session_id \<Rightarrow> bool
   \<Rightarrow> terminal_server_message \<Rightarrow> ('c, 'e) wire \<Rightarrow> (bool \<times> bool) \<times> ('c, 'e) wire" where
  "hear_output env io actor sid failed m w =
     (let w1 = on_app (on_sessions (\<lambda>r. touch r sid (io_now io))) w;
          is_exit = (case m of ServerExited _ _ \<Rightarrow> True | _ \<Rightarrow> False);
          w2 = (if is_exit then on_app (on_sessions (\<lambda>r. set_state r sid Terminated)) w1 else w1);
          (failed', w3) =
            (case m of
               ServerError _ e \<Rightarrow>
                 (True, on_app (app_audit env io TerminalFailed (Some actor)
                                  (''terminal stream error: '' @ te_message e)) w2)
             | _ \<Rightarrow> (failed, w2));
          (sent, w4) = send_server_message m w3
      in if \<not> sent then ((False, failed'), browser_gone env io actor sid w4)
         else ((\<not> is_exit, failed'), w4))"

definition end_on_policy ::
  "terminal_session_id \<Rightarrow> string \<Rightarrow> ('c, 'e) wire \<Rightarrow> ('c, 'e) wire" where
  "end_on_policy sid message w =
     tell_error (Some sid) TerminalUnavailable message
       (on_app (on_sessions (\<lambda>r. set_state r sid Terminating)) w)"

definition idle_tick ::
  "('c, 'e) io \<Rightarrow> terminal_session_id \<Rightarrow> ('c, 'e) wire \<Rightarrow> bool \<times> ('c, 'e) wire" where
  "idle_tick io sid w =
     (let reg = app_sessions (w_app w); cfg = app_terminal_config (w_app w)
      in if is_idle reg sid (idle_timeout cfg) (io_now io)
         then (False, end_on_policy sid ''terminal session idle timeout reached'' w)
         else if is_exceeded_max_duration reg sid (max_duration cfg) (io_now io)
         then (False, end_on_policy sid ''terminal session exceeded maximum allowed duration'' w)
         else (True, w))"

fun local_step ::
  "('c, 'e) app_env \<Rightarrow> ('c, 'e) io \<Rightarrow> string \<Rightarrow> pty_handle \<Rightarrow> terminal_session_id \<Rightarrow> bool
   \<Rightarrow> local_input \<Rightarrow> ('c, 'e) wire \<Rightarrow> (bool \<times> bool) \<times> ('c, 'e) wire" where
  "local_step env io actor h sid failed (LocalOutput (Heard m)) w =
     hear_output env io actor sid failed m w"
| "local_step env io actor h sid failed (LocalOutput Lagged) w = ((True, failed), w)"
| "local_step env io actor h sid failed (LocalOutput BroadcastClosed) w = ((False, failed), w)"
| "local_step env io actor h sid failed (LocalFrame f) w =
     (let (go, w') = handle_client_frame env io actor h sid f
                       (on_app (on_sessions (\<lambda>r. touch r sid (io_now io))) w)
      in ((go, failed), w'))"
| "local_step env io actor h sid failed LocalGone w =
     ((False, failed), browser_gone env io actor sid w)"
| "local_step env io actor h sid failed LocalIdleTick w =
     (let (go, w') = idle_tick io sid w in ((go, failed), w'))"

text \<open>After the loop: a detached session stays, any other is removed and its shell closed.\<close>

definition local_end ::
  "('c, 'e) app_env \<Rightarrow> ('c, 'e) io \<Rightarrow> string \<Rightarrow> terminal_session_id \<Rightarrow> bool
   \<Rightarrow> ('c, 'e) app_state \<Rightarrow> ('c, 'e) app_state" where
  "local_end env io actor sid failed st =
     (if app_state_of st sid = Some Detached then st
      else
        let st1 = app_remove env io sid (on_sessions (\<lambda>r. set_state r sid Terminating) st)
        in if failed then st1
           else app_audit env io TerminalClosed (Some actor)
                  (''terminal session '' @ sid @ '' closed'') st1)"

type_synonym ('c, 'e) others = "('c, 'e) app_state \<Rightarrow> ('c, 'e) app_state"

text \<open>True when the connection has ended, false when it waits for its next event.\<close>

fun local_loop ::
  "('c, 'e) app_env \<Rightarrow> string \<Rightarrow> pty_handle \<Rightarrow> terminal_session_id \<Rightarrow> bool
   \<Rightarrow> (('c, 'e) others \<times> ('c, 'e) io \<times> local_input) list \<Rightarrow> ('c, 'e) wire
   \<Rightarrow> bool \<times> ('c, 'e) wire" where
  "local_loop env actor h sid failed [] w = (False, w)"
| "local_loop env actor h sid failed ((others, io, inp) # rest) w =
     (let ((go, failed'), w') =
            local_step env io actor h sid failed inp ((on_app others w)\<lparr>w_results := io_sends io\<rparr>)
      in if go then local_loop env actor h sid failed' rest w'
         else (True, on_app (local_end env io actor sid failed') w'))"

text \<open>The handler of a reattached local session repeats the loop and its end line for line.\<close>

definition reattached_local_loop ::
  "('c, 'e) app_env \<Rightarrow> string \<Rightarrow> pty_handle \<Rightarrow> terminal_session_id
   \<Rightarrow> (('c, 'e) others \<times> ('c, 'e) io \<times> local_input) list \<Rightarrow> ('c, 'e) wire
   \<Rightarrow> bool \<times> ('c, 'e) wire" where
  "reattached_local_loop env actor h sid = local_loop env actor h sid False"

section \<open>The task that reads a local shell\<close>

text \<open>
  One round per read: the outcome of the read, and of the \<open>try_wait\<close> made when it fails. True when the
  task has ended, false when it is blocked in a read.
\<close>

definition reader_end ::
  "pty_handle \<Rightarrow> terminal_session_id \<Rightarrow> output_channel \<Rightarrow> string + u32
   \<Rightarrow> ('c, 'e) app_state \<Rightarrow> ('c, 'e) app_state" where
  "reader_end h sid ch wait st =
     (let (r, st') = on_pty h (\<lambda>s. wait_exit s wait) st
      in case r of Inr (Some e) \<Rightarrow> broadcast ch (exit_message sid e) st' | _ \<Rightarrow> st')"

definition relay_output ::
  "terminal_session_id \<Rightarrow> output_channel \<Rightarrow> string \<Rightarrow> ('c, 'e) app_state \<Rightarrow> ('c, 'e) app_state" where
  "relay_output sid ch dat st =
     (case record_output (app_sessions st) sid dat of
        (None, reg) \<Rightarrow> st\<lparr>app_sessions := reg\<rparr>
      | (Some m, reg) \<Rightarrow> broadcast ch m (st\<lparr>app_sessions := reg\<rparr>))"

definition read_failed ::
  "pty_handle \<Rightarrow> terminal_session_id \<Rightarrow> output_channel \<Rightarrow> pty_error \<Rightarrow> string + u32 option
   \<Rightarrow> ('c, 'e) app_state \<Rightarrow> ('c, 'e) app_state" where
  "read_failed h sid ch e wait st =
     (let (r, st') = on_pty h (\<lambda>s. try_wait_exit s wait) st
      in broadcast ch
           (case r of
              Inr (Some x) \<Rightarrow> exit_message sid x
            | _ \<Rightarrow> ServerError (Some sid) (protocol_error TerminalUnavailable e)) st')"

fun read_pty_output ::
  "pty_handle \<Rightarrow> terminal_session_id \<Rightarrow> output_channel \<Rightarrow> string + u32
   \<Rightarrow> (('c, 'e) others \<times> (string + u8 list) \<times> (string + u32 option)) list
   \<Rightarrow> ('c, 'e) app_state \<Rightarrow> bool \<times> ('c, 'e) app_state" where
  "read_pty_output h sid ch wait [] st =
     (if is_closed (app_ptys st ! h) then (True, reader_end h sid ch wait st) else (False, st))"
| "read_pty_output h sid ch wait ((others, rd, tw) # rest) st =
     (if is_closed (app_ptys st ! h) then (True, reader_end h sid ch wait st)
      else
        let (r, st1) = on_pty h (\<lambda>s. let (r, cs) = read_output s rd in (r, s, cs)) (others st)
        in case r of
             Inl PtyClosed \<Rightarrow> (True, reader_end h sid ch wait st1)
           | Inl e \<Rightarrow> (True, reader_end h sid ch wait (read_failed h sid ch e tw st1))
           | Inr [] \<Rightarrow> (True, reader_end h sid ch wait st1)
           | Inr bytes \<Rightarrow>
               read_pty_output h sid ch wait rest (relay_output sid ch (utf8_lossy bytes) st1))"

section \<open>Opening a local session\<close>

datatype handshake =
  HandshakeStart "node_id option" terminal_size
  | HandshakeReattach terminal_session_id terminal_reconnect_token

definition receive_start_message ::
  "('c, 'e) app_env \<Rightarrow> browser_frame option \<Rightarrow> ('c, 'e) wire \<Rightarrow> handshake option \<times> ('c, 'e) wire" where
  "receive_start_message env received w =
     (case received of
        None \<Rightarrow> (None, w)
      | Some f \<Rightarrow>
          (case parse_client_message env f of
             Inl e \<Rightarrow> (None, tell (ServerError None e) w)
           | Inr (ClientStart nid sz) \<Rightarrow> (Some (HandshakeStart nid sz), w)
           | Inr (ClientReattach sid token) \<Rightarrow> (Some (HandshakeReattach sid token), w)
           | Inr _ \<Rightarrow>
               (None, tell_error None InvalidMessage
                        ''first terminal message must be start or reattach'' w)))"

text \<open>The registry keeps the backend, with a sender of its own, once the session is in.\<close>

definition app_insert ::
  "('c, 'e) app_env \<Rightarrow> terminal_session_id \<Rightarrow> terminal_backend
   \<Rightarrow> (session_registry \<Rightarrow> output_channel \<Rightarrow> (session_limit_error + output_channel) \<times> session_registry)
   \<Rightarrow> ('c, 'e) app_state \<Rightarrow> (session_limit_error + output_channel) \<times> ('c, 'e) app_state" where
  "app_insert env sid backend ins st =
     (let (ch, st1) = new_channel st;
          (res, reg) = ins (app_sessions st1) ch;
          st2 = st1\<lparr>app_sessions := reg\<rparr>
      in case res of
           Inl e \<Rightarrow> (Inl e, st2)
         | Inr c \<Rightarrow>
             let st3 = (case backend of Local _ \<Rightarrow> st2 | Remote h \<Rightarrow> clone_command_sender h st2)
             in (Inr c, case backend_of (app_sessions st) sid of
                          None \<Rightarrow> st3 | Some b \<Rightarrow> drop_backend env b st3))"

definition app_insert_local ::
  "('c, 'e) app_env \<Rightarrow> ('c, 'e) io \<Rightarrow> terminal_session_id \<Rightarrow> pty_handle \<Rightarrow> terminal_size \<Rightarrow> string
   \<Rightarrow> ('c, 'e) app_state \<Rightarrow> (session_limit_error + output_channel) \<times> ('c, 'e) app_state" where
  "app_insert_local env io sid h sz actor st =
     app_insert env sid (Local h)
       (\<lambda>reg ch. insert_local reg sid h sz (app_terminal_config st) actor None ch
                   (io_new_token io) (io_now io)) st"

definition app_insert_remote ::
  "('c, 'e) app_env \<Rightarrow> ('c, 'e) io \<Rightarrow> terminal_session_id \<Rightarrow> registered_agent_connection \<Rightarrow> node_id
   \<Rightarrow> terminal_size \<Rightarrow> string \<Rightarrow> ('c, 'e) app_state
   \<Rightarrow> (session_limit_error + output_channel) \<times> ('c, 'e) app_state" where
  "app_insert_remote env io sid conn nid sz actor st =
     app_insert env sid (Remote (rac_link conn))
       (\<lambda>reg ch. insert_remote reg sid
                   \<lparr>rts_command_tx = rac_link conn, rts_node_id = nid,
                    rts_transport_status = terminal_transport_status_of conn\<rparr>
                   sz (app_terminal_config st) actor ch (io_new_token io) (io_now io)) st"

definition spawn_pty ::
  "('c, 'e) io \<Rightarrow> terminal_size \<Rightarrow> ('c, 'e) app_state
   \<Rightarrow> (pty_error + pty_handle) \<times> ('c, 'e) app_state" where
  "spawn_pty io sz st =
     (let (e1, e2, e3, e4) = io_spawn io;
          (r, cs) = spawn_default_shell (io_env io) (control_size_from_protocol sz) e1 e2 e3 e4
      in case r of
           Inl e \<Rightarrow> (Inl e, st)
         | Inr s \<Rightarrow>
             (Inr (length (app_ptys st)),
              st\<lparr>app_ptys := app_ptys st @ [s],
                 app_pty_calls := app_pty_calls st @ map (\<lambda>c. (length (app_ptys st), c)) cs\<rparr>))"

datatype attachment =
  NotAttached
  | AttachedLocal terminal_session_id pty_handle output_channel
  | AttachedRemote terminal_session_id node_id registered_agent_connection output_channel
  | ReattachedLocal terminal_session_id pty_handle output_channel
  | ReattachedRemote terminal_session_id command_channel output_channel

definition refuse ::
  "('c, 'e) app_env \<Rightarrow> ('c, 'e) io \<Rightarrow> string \<Rightarrow> string \<Rightarrow> terminal_session_id \<Rightarrow> terminal_error
   \<Rightarrow> ('c, 'e) wire \<Rightarrow> ('c, 'e) wire" where
  "refuse env io actor audit_message sid e w =
     tell (ServerError (Some sid) e) (on_app (app_audit env io TerminalFailed (Some actor) audit_message) w)"

definition start_local ::
  "('c, 'e) app_env \<Rightarrow> ('c, 'e) io \<Rightarrow> string \<Rightarrow> terminal_session_id \<Rightarrow> terminal_size \<Rightarrow> pty_handle
   \<Rightarrow> output_channel \<Rightarrow> ('c, 'e) wire \<Rightarrow> attachment \<times> ('c, 'e) wire" where
  "start_local env io actor sid sz h ch w =
     (let (sent, w1) =
            send_server_message
              (ServerStarted sid None sz (reconnect_token (app_sessions (w_app w)) sid) None) w
      in if \<not> sent
         then (NotAttached,
               on_app (\<lambda>st. close_pty io h
                 (app_audit env io TerminalFailed (Some actor)
                    ''failed to send terminal started message'' st)) w1)
         else (AttachedLocal sid h ch,
               on_app (\<lambda>st. on_sessions (\<lambda>r. set_state r sid Active)
                 (app_audit env io TerminalOpened (Some actor)
                    (''terminal session '' @ sid @ '' opened'') st)) w1))"

definition open_local_terminal ::
  "('c, 'e) app_env \<Rightarrow> ('c, 'e) io \<Rightarrow> string \<Rightarrow> terminal_session_id \<Rightarrow> terminal_size
   \<Rightarrow> ('c, 'e) wire \<Rightarrow> attachment \<times> ('c, 'e) wire" where
  "open_local_terminal env io actor sid sz w =
     (case spawn_pty io sz (w_app w) of
        (Inl e, st) \<Rightarrow>
          (NotAttached,
           refuse env io actor (''terminal spawn failed: '' @ pty_error_text e) sid
             (protocol_error TerminalUnavailable e) (on_app (\<lambda>_. st) w))
      | (Inr h, st) \<Rightarrow>
          (case app_insert_local env io sid h sz actor st of
             (Inl e, st') \<Rightarrow>
               (NotAttached,
                tell_error (Some sid) TerminalUnavailable (limit_message e)
                  (on_app (\<lambda>st. close_pty io h
                     (app_audit env io TerminalFailed (Some actor) (limit_message e) st))
                     (on_app (\<lambda>_. st') w)))
           | (Inr ch, st') \<Rightarrow> start_local env io actor sid sz h ch (on_app (\<lambda>_. st') w)))"

section \<open>Opening a remote session\<close>

definition has_permission ::
  "('c, 'e) app_state \<Rightarrow> user \<Rightarrow> string \<Rightarrow> permission \<Rightarrow> bool" where
  "has_permission st u nid perm =
     (case user_has_node_permission (app_auth st) u nid perm of Inl _ \<Rightarrow> False | Inr b \<Rightarrow> b)"

definition app_route_failed ::
  "('c, 'e) app_env \<Rightarrow> ('c, 'e) io \<Rightarrow> string \<Rightarrow> string \<Rightarrow> string \<Rightarrow> string option \<Rightarrow> string
   \<Rightarrow> ('c, 'e) app_state \<Rightarrow> ('c, 'e) app_state" where
  "app_route_failed env io actor nid sid rid reason =
     on_audit (\<lambda>log. record_route_failed (te_sha (ae_transport env)) (io_stamp io) log actor nid sid
                       rid reason)"

definition app_route_failure :: "node_route \<Rightarrow> ('c, 'e) app_state \<Rightarrow> ('c, 'e) app_state" where
  "app_route_failure route st = st\<lparr>app_router := record_failure (app_router st) route\<rparr>"

definition agent_connected :: "('c, 'e) app_state \<Rightarrow> string \<Rightarrow> bool" where
  "agent_connected st nid = (hm_get (ts_connections (app_transport st)) nid \<noteq> None)"

definition terminal_route_request :: "('c, 'e) app_state \<Rightarrow> node_id \<Rightarrow> route_request" where
  "terminal_route_request st nid =
     \<lparr>rq_target_node_id = nid, rq_direct_agent_connected = agent_connected st nid,
      rq_relay_candidates = connected_node_ids_except (app_transport st) nid\<rparr>"

definition release_connection ::
  "('c, 'e) app_env \<Rightarrow> registered_agent_connection \<Rightarrow> ('c, 'e) app_state \<Rightarrow> ('c, 'e) app_state" where
  "release_connection env conn = on_transport (drop_connection (ae_transport env) conn)"

text \<open>With the connection in hand: ask the agent for a shell, then put the session in the registry.\<close>

definition start_remote ::
  "('c, 'e) app_env \<Rightarrow> ('c, 'e) io \<Rightarrow> string \<Rightarrow> node_id \<Rightarrow> terminal_session_id \<Rightarrow> terminal_size
   \<Rightarrow> node_route \<Rightarrow> registered_agent_connection \<Rightarrow> ('c, 'e) wire \<Rightarrow> attachment task \<times> ('c, 'e) wire" where
  "start_remote env io actor nid sid sz route conn w =
     (case send_command env io (rac_link conn) (StartTerminal sid sz) (w_app w) of
        (Parked, st) \<Rightarrow> (Parked, on_app (\<lambda>_. st) w)
      | (Done False, st) \<Rightarrow>
          (Done NotAttached,
           on_app (release_connection env conn)
             (tell_error (Some sid) TerminalUnavailable ''agent connection dropped''
               (on_app (\<lambda>_. app_route_failed env io actor nid sid (Some (route_id route))
                         ''selected route dropped before terminal start''
                         (app_route_failure route
                           (on_transport (\<lambda>t. disconnect (ae_transport env) t nid) st))) w)))
      | (Done True, st) \<Rightarrow>
          (case app_insert_remote env io sid conn nid sz actor st of
             (Inl e, st1) \<Rightarrow>
               (case send_command env io (rac_link conn) (CloseTerminal sid) st1 of
                  (Parked, st2) \<Rightarrow> (Parked, on_app (\<lambda>_. st2) w)
                | (Done _, st2) \<Rightarrow>
                    (Done NotAttached,
                     on_app (release_connection env conn)
                       (refuse env io actor (limit_message e) sid
                         (protocol_error_text TerminalUnavailable (limit_message e))
                         (on_app (\<lambda>_. st2) w))))
           | (Inr ch, st1) \<Rightarrow>
               (Done (AttachedRemote sid nid conn ch),
                on_app (\<lambda>_. st1\<lparr>app_router := record_success (app_router st1) route\<rparr>) w)))"

definition open_remote_terminal ::
  "('c, 'e) app_env \<Rightarrow> ('c, 'e) io \<Rightarrow> user \<Rightarrow> node_id \<Rightarrow> terminal_session_id \<Rightarrow> terminal_size
   \<Rightarrow> ('c, 'e) wire \<Rightarrow> attachment task \<times> ('c, 'e) wire" where
  "open_remote_terminal env io u nid sid sz w =
     (let actor = user_email u; st = w_app w;
          unavailable = (\<lambda>message. protocol_error_text TerminalUnavailable message)
      in if \<not> has_permission st u nid TERMINAL_OPEN
         then (Done NotAttached,
               refuse env io actor (''terminal open is not permitted for node '' @ nid) sid
                 (protocol_error_text terminal_error_code.Forbidden ''terminal open is not permitted for this node'') w)
         else if \<not> node_is_online (ts_nodes (app_transport st)) nid (io_now io)
         then (Done NotAttached,
               refuse env io actor (''remote terminal requested for unavailable node '' @ nid) sid
                 (unavailable ''agent node is not online'') w)
         else (case select_route (app_router st) (terminal_route_request st nid) of
             Inl _ \<Rightarrow>
               (Done NotAttached,
                refuse env io actor (''remote terminal requested without healthy route '' @ nid) sid
                  (unavailable ''no healthy route is available for the agent node'')
                  (on_app (app_route_failed env io actor nid sid None
                             ''no healthy route is available'') w))
           | Inr route \<Rightarrow>
               let w1 = on_app (on_audit (\<lambda>log. record_route_selected (te_sha (ae_transport env))
                                 (io_stamp io) log actor nid sid (route_id route))) w
               in case route of
                    RelayNode _ _ \<Rightarrow>
                      (Done NotAttached,
                       refuse env io actor (''relay route selected for '' @ nid
                           @ '', but relay execution is not enabled'') sid
                         (unavailable ''relay routing is selected but not enabled for terminal streams'')
                         (on_app (\<lambda>st. app_route_failed env io actor nid sid (Some (route_id route))
                             ''selected relay route is not executable for terminal streams''
                             (app_route_failure route st)) w1))
                  | DirectAgent _ \<Rightarrow>
                      (case connection (app_transport (w_app w1)) nid of
                         (None, _) \<Rightarrow>
                           (Done NotAttached,
                            refuse env io actor
                              (''remote terminal requested without agent channel '' @ nid) sid
                              (unavailable ''agent connection is not active'')
                              (on_app (\<lambda>st. app_route_failed env io actor nid sid
                                  (Some (route_id route))
                                  ''selected route has no active agent connection''
                                  (app_route_failure route st)) w1))
                       | (Some conn, t) \<Rightarrow>
                           start_remote env io actor nid sid sz route conn
                             (on_app (on_transport (\<lambda>_. t)) w1))))"

section \<open>A frame for a remote session\<close>

definition authorize_session_terminate ::
  "('c, 'e) app_state \<Rightarrow> user \<Rightarrow> terminal_session_id \<Rightarrow> bool" where
  "authorize_session_terminate st u sid =
     (case session_node_id (app_sessions st) sid of
        None \<Rightarrow> True
      | Some nid \<Rightarrow> has_permission st u nid TERMINAL_TERMINATE)"

definition terminate_remote ::
  "('c, 'e) app_env \<Rightarrow> ('c, 'e) io \<Rightarrow> user \<Rightarrow> command_channel \<Rightarrow> terminal_session_id
   \<Rightarrow> ('c, 'e) wire \<Rightarrow> bool task \<times> ('c, 'e) wire" where
  "terminate_remote env io u h sid w =
     (if \<not> authorize_session_terminate (w_app w) u sid
      then (Done True, tell_error (Some sid) terminal_error_code.Forbidden
                         ''terminal terminate is not permitted for this session'' w)
      else
        let st = app_audit env io TerminalTerminated (Some (user_email u))
                   (''remote terminal session '' @ sid @ '' explicitly terminated'')
                   (on_sessions (\<lambda>r. set_state r sid Terminating) (w_app w))
        in case send_command env io h (CloseTerminal sid) st of
             (Parked, st') \<Rightarrow> (Parked, on_app (\<lambda>_. st') w)
           | (Done _, st') \<Rightarrow> (Done False, on_app (\<lambda>_. st') w))"

definition forward_command ::
  "('c, 'e) app_env \<Rightarrow> ('c, 'e) io \<Rightarrow> command_channel \<Rightarrow> terminal_session_id
   \<Rightarrow> agent_terminal_command \<Rightarrow> ('c, 'e) wire \<Rightarrow> bool task \<times> ('c, 'e) wire" where
  "forward_command env io h sid x w =
     (case send_command env io h x (w_app w) of
        (Parked, st) \<Rightarrow> (Parked, on_app (\<lambda>_. st) w)
      | (Done True, st) \<Rightarrow> (Done True, on_app (\<lambda>_. st) w)
      | (Done False, st) \<Rightarrow>
          (Done False, tell_error (Some sid) TerminalUnavailable ''agent connection dropped''
                         (on_app (\<lambda>_. st) w)))"

definition handle_remote_client_message ::
  "('c, 'e) app_env \<Rightarrow> ('c, 'e) io \<Rightarrow> user \<Rightarrow> command_channel \<Rightarrow> terminal_session_id
   \<Rightarrow> terminal_client_message \<Rightarrow> ('c, 'e) wire \<Rightarrow> bool task \<times> ('c, 'e) wire" where
  "handle_remote_client_message env io u h sid m w =
     (let for_this = (\<lambda>received act. let (ok, w1) = session_id_matches received sid w
                                     in if ok then act w1 else (Done True, w1))
      in case m of
           ClientInput s dat \<Rightarrow> for_this s (forward_command env io h sid (WriteInput s dat))
         | ClientResize s sz \<Rightarrow> for_this s (forward_command env io h sid (ResizeTerminal s sz))
         | ClientClose s \<Rightarrow> for_this s (terminate_remote env io u h sid)
         | ClientTerminate s \<Rightarrow> for_this s (terminate_remote env io u h sid)
         | ClientDetach s \<Rightarrow>
             for_this s (\<lambda>w. (Done False, tell (ServerDetached s)
               (on_app (\<lambda>st. audit_terminal_detached env io (user_email u) sid
                  ''user detached remote terminal session''
                  (on_sessions (\<lambda>r. detach r sid) st)) w)))
         | ClientReattach s _ \<Rightarrow>
             for_this s (\<lambda>w. (Done True, tell_error (Some s) InvalidMessage
                                ''remote terminal reattach is not available yet'' w))
         | ClientPing nonce \<Rightarrow> (Done True, tell (ServerPong nonce) w)
         | ClientStart _ _ \<Rightarrow>
             (Done True, tell_error (Some sid) InvalidMessage
                           ''terminal session is already started'' w))"

definition handle_remote_client_frame ::
  "('c, 'e) app_env \<Rightarrow> ('c, 'e) io \<Rightarrow> user \<Rightarrow> command_channel \<Rightarrow> terminal_session_id
   \<Rightarrow> browser_frame \<Rightarrow> ('c, 'e) wire \<Rightarrow> bool task \<times> ('c, 'e) wire" where
  "handle_remote_client_frame env io u h sid f w =
     (case parse_client_message env f of
        Inl e \<Rightarrow> (Done True, tell (ServerError (Some sid) e) w)
      | Inr m \<Rightarrow> handle_remote_client_message env io u h sid m w)"

section \<open>The loop of a remote session\<close>

text \<open>
  The loop starts once the handler holds the connection's event receiver, a \<open>tokio\<close> mutex that is
  released when the handler returns: another handler of the same connection waits until then.
\<close>

fun await_events ::
  "nat \<Rightarrow> ('c, 'e) others list \<Rightarrow> ('c, 'e) app_state \<Rightarrow> bool \<times> ('c, 'e) app_state" where
  "await_events h [] st = (False, st)"
| "await_events h (others # rest) st =
     (let st' = others st
      in if h \<in> set (app_events_taken st') then await_events h rest st'
         else (True, st'\<lparr>app_events_taken := h # app_events_taken st'\<rparr>))"

definition release_events :: "nat \<Rightarrow> ('c, 'e) app_state \<Rightarrow> ('c, 'e) app_state" where
  "release_events h st = st\<lparr>app_events_taken := remove1 h (app_events_taken st)\<rparr>"

definition agent_event_to_browser_message ::
  "agent_terminal_event \<Rightarrow> node_id \<Rightarrow> session_registry \<Rightarrow> terminal_transport_status option
   \<Rightarrow> terminal_server_message \<times> session_registry" where
  "agent_event_to_browser_message event nid reg status =
     (case event of
        TerminalStarted sid sz \<Rightarrow> (ServerStarted sid (Some nid) sz None status, reg)
      | TerminalOutput sid dat \<Rightarrow>
          (case record_output reg sid dat of
             (Some m, reg') \<Rightarrow> (m, reg')
           | (None, reg') \<Rightarrow> (ServerOutput sid 0 dat, reg'))
      | TerminalExited sid x \<Rightarrow> (ServerExited sid x, reg)
      | TerminalError sid e \<Rightarrow> (ServerError (Some sid) e, reg))"

record remote_flags =
  rf_opened :: bool
  rf_failed :: bool

datatype remote_input = RemoteEvent | RemoteFrame browser_frame | RemoteGone

definition take_event ::
  "('c, 'e) app_env \<Rightarrow> nat \<Rightarrow> ('c, 'e) app_state
   \<Rightarrow> agent_terminal_event recv \<times> ('c, 'e) app_state" where
  "take_event env h st =
     (let (r, e) = mp_recv (te_events (ae_transport env)) (lk_events (ts_links (app_transport st) ! h))
      in (r, on_transport (update_link h (\<lambda>l. l\<lparr>lk_events := e\<rparr>)) st))"

definition is_started :: "terminal_server_message \<Rightarrow> bool" where
  "is_started m = (case m of ServerStarted _ _ _ _ _ \<Rightarrow> True | _ \<Rightarrow> False)"

definition is_error :: "terminal_server_message \<Rightarrow> bool" where
  "is_error m = (case m of ServerError _ _ \<Rightarrow> True | _ \<Rightarrow> False)"

definition is_exited :: "terminal_server_message \<Rightarrow> bool" where
  "is_exited m = (case m of ServerExited _ _ \<Rightarrow> True | _ \<Rightarrow> False)"

definition note_message ::
  "('c, 'e) app_env \<Rightarrow> ('c, 'e) io \<Rightarrow> string \<Rightarrow> node_id \<Rightarrow> terminal_session_id \<Rightarrow> output_channel
   \<Rightarrow> terminal_server_message \<Rightarrow> ('c, 'e) app_state \<Rightarrow> ('c, 'e) app_state" where
  "note_message env io actor nid sid ch m st =
     (let st1 = (if is_started m
                 then app_audit env io TerminalOpened (Some actor)
                        (''remote terminal session '' @ sid @ '' opened on '' @ nid)
                        (on_sessions (\<lambda>r. set_state r sid Active) st)
                 else st);
          st2 = (if is_output m then st1 else on_sessions (\<lambda>r. remember_server_message r m) st1)
      in broadcast ch m st2)"

definition hear_agent ::
  "('c, 'e) app_env \<Rightarrow> ('c, 'e) io \<Rightarrow> string \<Rightarrow> node_id \<Rightarrow> terminal_session_id
   \<Rightarrow> registered_agent_connection \<Rightarrow> output_channel \<Rightarrow> remote_flags \<Rightarrow> agent_terminal_event
   \<Rightarrow> ('c, 'e) wire \<Rightarrow> (bool \<times> remote_flags) \<times> ('c, 'e) wire" where
  "hear_agent env io actor nid sid conn ch fl event w =
     (let (m, reg) = agent_event_to_browser_message event nid (app_sessions (w_app w))
                       (Some (terminal_transport_status_of conn));
          fl' = fl\<lparr>rf_opened := rf_opened fl \<or> is_started m, rf_failed := rf_failed fl \<or> is_error m\<rparr>;
          w1 = on_app (\<lambda>st. note_message env io actor nid sid ch m (st\<lparr>app_sessions := reg\<rparr>)) w;
          (sent, w2) = send_server_message m w1
      in if \<not> sent then ((False, fl'), browser_gone env io actor sid w2)
         else if is_exited m then ((False, fl'), on_app (app_remove env io sid) w2)
         else ((True, fl'), w2))"

fun remote_step ::
  "('c, 'e) app_env \<Rightarrow> ('c, 'e) io \<Rightarrow> user \<Rightarrow> node_id \<Rightarrow> terminal_session_id
   \<Rightarrow> registered_agent_connection \<Rightarrow> output_channel \<Rightarrow> remote_flags \<Rightarrow> remote_input
   \<Rightarrow> ('c, 'e) wire \<Rightarrow> (bool task \<times> remote_flags) \<times> ('c, 'e) wire" where
  "remote_step env io u nid sid conn ch fl RemoteEvent w =
     (case take_event env (rac_link conn) (w_app w) of
        (Pending, _) \<Rightarrow> ((Done True, fl), w)
      | (Ended, st) \<Rightarrow>
          ((Done False, fl\<lparr>rf_failed := True\<rparr>),
           tell_error (Some sid) TerminalUnavailable ''agent disconnected during terminal session''
             (on_app (\<lambda>_. st) w))
      | (Received event, st) \<Rightarrow>
          (let ((go, fl'), w') = hear_agent env io (user_email u) nid sid conn ch fl event
                                   (on_app (\<lambda>_. st) w)
           in ((Done go, fl'), w')))"
| "remote_step env io u nid sid conn ch fl (RemoteFrame f) w =
     (let (r, w') = handle_remote_client_frame env io u (rac_link conn) sid f w in ((r, fl), w'))"
| "remote_step env io u nid sid conn ch fl RemoteGone w =
     ((Done False, fl), browser_gone env io (user_email u) sid w)"

text \<open>
  After the loop: a detached session stays; otherwise the session leaves the registry and the agent
  is told to close its shell. Either way the receiver and the connection are released.
\<close>

definition remote_end ::
  "('c, 'e) app_env \<Rightarrow> ('c, 'e) io \<Rightarrow> string \<Rightarrow> terminal_session_id \<Rightarrow> registered_agent_connection
   \<Rightarrow> remote_flags \<Rightarrow> ('c, 'e) app_state \<Rightarrow> bool task \<times> ('c, 'e) app_state" where
  "remote_end env io actor sid conn fl st =
     (let release = (\<lambda>st. release_connection env conn (release_events (rac_link conn) st))
      in if app_state_of st sid = Some Detached then (Done True, release st)
         else
           let (b, st1) = app_terminate io sid st;
               st2 = (case b of None \<Rightarrow> st1 | Some b \<Rightarrow> drop_backend env b st1)
           in case send_command env io (rac_link conn) (CloseTerminal sid) st2 of
                (Parked, st3) \<Rightarrow> (Parked, st3)
              | (Done _, st3) \<Rightarrow>
                  (Done True,
                   release
                     (if rf_failed fl
                      then app_audit env io TerminalFailed (Some actor)
                             (''remote terminal session '' @ sid @ '' failed'') st3
                      else if rf_opened fl
                      then app_audit env io TerminalClosed (Some actor)
                             (''remote terminal session '' @ sid @ '' closed'') st3
                      else st3)))"

text \<open>Done True: the connection has ended; Done False: it waits for an event.\<close>

fun remote_loop ::
  "('c, 'e) app_env \<Rightarrow> user \<Rightarrow> node_id \<Rightarrow> terminal_session_id \<Rightarrow> registered_agent_connection
   \<Rightarrow> output_channel \<Rightarrow> remote_flags \<Rightarrow> (('c, 'e) others \<times> ('c, 'e) io \<times> remote_input) list
   \<Rightarrow> ('c, 'e) wire \<Rightarrow> bool task \<times> ('c, 'e) wire" where
  "remote_loop env u nid sid conn ch fl [] w = (Done False, w)"
| "remote_loop env u nid sid conn ch fl ((others, io, inp) # rest) w =
     (let ((r, fl'), w') = remote_step env io u nid sid conn ch fl inp
                             ((on_app others w)\<lparr>w_results := io_sends io\<rparr>)
      in case r of
           Parked \<Rightarrow> (Parked, w')
         | Done True \<Rightarrow> remote_loop env u nid sid conn ch fl' rest w'
         | Done False \<Rightarrow>
             let (e, st) = remote_end env io (user_email u) sid conn fl' (w_app w')
             in (e, on_app (\<lambda>_. st) w'))"

definition run_remote ::
  "('c, 'e) app_env \<Rightarrow> user \<Rightarrow> node_id \<Rightarrow> terminal_session_id \<Rightarrow> registered_agent_connection
   \<Rightarrow> output_channel \<Rightarrow> ('c, 'e) others list
   \<Rightarrow> (('c, 'e) others \<times> ('c, 'e) io \<times> remote_input) list \<Rightarrow> ('c, 'e) wire
   \<Rightarrow> bool task \<times> ('c, 'e) wire" where
  "run_remote env u nid sid conn ch waits inps w =
     (let (taken, st) = await_events (rac_link conn) waits (w_app w)
      in if taken
         then remote_loop env u nid sid conn ch \<lparr>rf_opened = False, rf_failed = False\<rparr> inps
                (on_app (\<lambda>_. st) w)
         else (Done False, on_app (\<lambda>_. st) w))"

section \<open>Reattaching\<close>

definition authorize_session_reattach ::
  "('c, 'e) app_state \<Rightarrow> user \<Rightarrow> terminal_session_id \<Rightarrow> instant \<Rightarrow> bool" where
  "authorize_session_reattach st u sid now =
     (if \<not> owner_matches (app_sessions st) sid (user_email u) then False
      else (case session_node_id (app_sessions st) sid of
              None \<Rightarrow> True
            | Some nid \<Rightarrow>
                (case node_details (ts_nodes (app_transport st)) nid now of
                   Some node \<Rightarrow>
                     nv_status node \<noteq> node_status.NodeRevoked
                     \<and> has_permission st u nid TERMINAL_REATTACH
                 | None \<Rightarrow> has_permission st u nid TERMINAL_REATTACH)))"

definition terminal_missing_or_expired_code ::
  "('c, 'e) app_state \<Rightarrow> terminal_session_id \<Rightarrow> terminal_error_code" where
  "terminal_missing_or_expired_code st sid =
     (if app_state_of st sid = Some Expired \<or> app_state_of st sid = Some Terminated
      then SessionExpired else SessionNotFound)"

definition app_reattach ::
  "('c, 'e) io \<Rightarrow> terminal_session_id \<Rightarrow> terminal_reconnect_token \<Rightarrow> string \<Rightarrow> ('c, 'e) app_state
   \<Rightarrow> terminal_reattach_target option \<times> ('c, 'e) app_state" where
  "app_reattach io sid token actor st =
     (let (r, reg) = reattach (app_sessions st) sid token actor (io_new_token io) (io_now io);
          st' = st\<lparr>app_sessions := reg\<rparr>
      in (r, case r of
               None \<Rightarrow> st'
             | Some t \<Rightarrow> (case rt_backend t of Local _ \<Rightarrow> st' | Remote h \<Rightarrow> clone_command_sender h st')))"

fun replay_all :: "terminal_server_message list \<Rightarrow> ('c, 'e) wire \<Rightarrow> ('c, 'e) wire" where
  "replay_all [] w = w"
| "replay_all (m # ms) w = replay_all ms (tell m w)"

definition open_reattach ::
  "('c, 'e) app_env \<Rightarrow> ('c, 'e) io \<Rightarrow> user \<Rightarrow> terminal_session_id \<Rightarrow> terminal_reconnect_token
   \<Rightarrow> ('c, 'e) wire \<Rightarrow> attachment \<times> ('c, 'e) wire" where
  "open_reattach env io u sid token w =
     (let actor = user_email u
      in if \<not> authorize_session_reattach (w_app w) u sid (io_now io)
         then (NotAttached, tell_error (Some sid) terminal_error_code.Forbidden
                              ''terminal reattach is not permitted for this session'' w)
         else (case app_reattach io sid token actor (w_app w) of
             (None, st) \<Rightarrow>
               (NotAttached,
                tell_error (Some sid) (terminal_missing_or_expired_code st sid)
                  ''terminal session was not found or is no longer reattachable''
                  (on_app (\<lambda>_. st) w))
           | (Some t, st) \<Rightarrow>
               let w1 = tell (ServerReattached sid (rt_node_id t) (rt_size t)
                                (Some (rt_reconnect_token t)) (rt_transport_status t))
                          (on_app (\<lambda>_. st) w);
                   w2 = on_app (\<lambda>st. app_audit env io TerminalReattached (Some actor)
                                  (''terminal session '' @ sid @ '' reattached'')
                                  (on_sessions (\<lambda>r. set_state r sid Active) st))
                          (replay_all (rt_replay t) w1)
               in (case rt_backend t of
                     Local h \<Rightarrow> ReattachedLocal sid h (rt_output_rx t)
                   | Remote h \<Rightarrow> ReattachedRemote sid h (rt_output_rx t), w2)))"

section \<open>The loop of a reattached remote session\<close>

datatype attached_input =
  AttachedOutput broadcast_recv | AttachedFrame browser_frame | AttachedGone

definition attached_output ::
  "('c, 'e) app_env \<Rightarrow> ('c, 'e) io \<Rightarrow> string \<Rightarrow> terminal_session_id \<Rightarrow> terminal_server_message
   \<Rightarrow> ('c, 'e) wire \<Rightarrow> bool \<times> ('c, 'e) wire" where
  "attached_output env io actor sid m w =
     (let (sent, w1) = send_server_message m
                         (on_app (on_sessions (\<lambda>r. touch r sid (io_now io))) w)
      in if \<not> sent then (False, browser_gone env io actor sid w1)
         else if is_exited m then (False, on_app (app_remove env io sid) w1)
         else (True, w1))"

fun attached_step ::
  "('c, 'e) app_env \<Rightarrow> ('c, 'e) io \<Rightarrow> user \<Rightarrow> command_channel \<Rightarrow> terminal_session_id
   \<Rightarrow> attached_input \<Rightarrow> ('c, 'e) wire \<Rightarrow> bool task \<times> ('c, 'e) wire" where
  "attached_step env io u h sid (AttachedOutput (Heard m)) w =
     (let (go, w') = attached_output env io (user_email u) sid m w in (Done go, w'))"
| "attached_step env io u h sid (AttachedOutput Lagged) w = (Done True, w)"
| "attached_step env io u h sid (AttachedOutput BroadcastClosed) w = (Done False, w)"
| "attached_step env io u h sid (AttachedFrame f) w =
     handle_remote_client_frame env io u h sid f
       (on_app (on_sessions (\<lambda>r. touch r sid (io_now io))) w)"
| "attached_step env io u h sid AttachedGone w =
     (Done False, browser_gone env io (user_email u) sid w)"

fun attached_loop ::
  "('c, 'e) app_env \<Rightarrow> user \<Rightarrow> command_channel \<Rightarrow> terminal_session_id
   \<Rightarrow> (('c, 'e) others \<times> ('c, 'e) io \<times> attached_input) list \<Rightarrow> ('c, 'e) wire
   \<Rightarrow> bool task \<times> ('c, 'e) wire" where
  "attached_loop env u h sid [] w = (Done False, w)"
| "attached_loop env u h sid ((others, io, inp) # rest) w =
     (let (r, w') = attached_step env io u h sid inp
                      ((on_app others w)\<lparr>w_results := io_sends io\<rparr>)
      in case r of
           Parked \<Rightarrow> (Parked, w')
         | Done True \<Rightarrow> attached_loop env u h sid rest w'
         | Done False \<Rightarrow> (Done True, on_app (drop_command_sender env h) w'))"

section \<open>A whole connection\<close>

definition lift_attachment ::
  "attachment \<times> ('c, 'e) wire \<Rightarrow> attachment task \<times> ('c, 'e) wire" where
  "lift_attachment r = (Done (fst r), snd r)"

text \<open>From the first frame to the loop, if there is one.\<close>

definition open_terminal ::
  "('c, 'e) app_env \<Rightarrow> ('c, 'e) io \<Rightarrow> user \<Rightarrow> browser_frame option \<Rightarrow> ('c, 'e) wire
   \<Rightarrow> attachment task \<times> ('c, 'e) wire" where
  "open_terminal env io u received w =
     (case receive_start_message env received w of
        (None, w1) \<Rightarrow> (Done NotAttached, w1)
      | (Some (HandshakeReattach sid token), w1) \<Rightarrow>
          lift_attachment (open_reattach env io u sid token w1)
      | (Some (HandshakeStart nid sz), w1) \<Rightarrow>
          let (sid, st) = next_session_id (w_app w1); w2 = on_app (\<lambda>_. st) w1
          in case nid of
               Some n \<Rightarrow> open_remote_terminal env io u n sid sz w2
             | None \<Rightarrow> lift_attachment (open_local_terminal env io (user_email u) sid sz w2))"

datatype ('c, 'e) connection_events =
  LocalEvents "(('c, 'e) others \<times> ('c, 'e) io \<times> local_input) list"
  | RemoteEvents "('c, 'e) others list" "(('c, 'e) others \<times> ('c, 'e) io \<times> remote_input) list"
  | AttachedEvents "(('c, 'e) others \<times> ('c, 'e) io \<times> attached_input) list"

definition handle_terminal_socket ::
  "('c, 'e) app_env \<Rightarrow> ('c, 'e) io \<Rightarrow> user \<Rightarrow> browser_frame option \<Rightarrow> ('c, 'e) connection_events
   \<Rightarrow> ('c, 'e) wire \<Rightarrow> bool task \<times> ('c, 'e) wire" where
  "handle_terminal_socket env io u received events w =
     (case open_terminal env io u received w of
        (Parked, w1) \<Rightarrow> (Parked, w1)
      | (Done NotAttached, w1) \<Rightarrow> (Done True, w1)
      | (Done (AttachedLocal sid h ch), w1) \<Rightarrow>
          (case events of
             LocalEvents inps \<Rightarrow>
               (let (e, w2) = local_loop env (user_email u) h sid False inps w1 in (Done e, w2))
           | _ \<Rightarrow> (Done False, w1))
      | (Done (ReattachedLocal sid h ch), w1) \<Rightarrow>
          (case events of
             LocalEvents inps \<Rightarrow>
               (let (e, w2) = reattached_local_loop env (user_email u) h sid inps w1 in (Done e, w2))
           | _ \<Rightarrow> (Done False, w1))
      | (Done (AttachedRemote sid nid conn ch), w1) \<Rightarrow>
          (case events of
             RemoteEvents waits inps \<Rightarrow> run_remote env u nid sid conn ch waits inps w1
           | _ \<Rightarrow> (Done False, w1))
      | (Done (ReattachedRemote sid h ch), w1) \<Rightarrow>
          (case events of
             AttachedEvents inps \<Rightarrow> attached_loop env u h sid inps w1
           | _ \<Rightarrow> (Done False, w1)))"

section \<open>The clean-up worker\<close>

text \<open>
  The two places that close many sessions at once share their body: tell the browsers, tell the agent,
  record the end. \<open>drain_expired\<close> and \<open>close_sessions_for_node\<close> have already closed the local shells.
\<close>

fun close_each ::
  "('c, 'e) app_env \<Rightarrow> ('c, 'e) io \<Rightarrow> terminal_error
   \<Rightarrow> (terminal_session_id \<Rightarrow> string \<Rightarrow> ('c, 'e) app_state \<Rightarrow> ('c, 'e) app_state)
   \<Rightarrow> closed_session list \<Rightarrow> ('c, 'e) app_state \<Rightarrow> bool \<times> ('c, 'e) app_state" where
  "close_each env io e record_end [] st = (True, st)"
| "close_each env io e record_end ((sid, actor, ch, b) # rest) st =
     (let st1 = broadcast ch (ServerError (Some sid) e) st
      in case b of
           Local _ \<Rightarrow> close_each env io e record_end rest (record_end sid actor st1)
         | Remote h \<Rightarrow>
             (case send_command env io h (CloseTerminal sid) st1 of
                (Parked, st2) \<Rightarrow> (False, st2)
              | (Done _, st2) \<Rightarrow>
                  close_each env io e record_end rest
                    (record_end sid actor (drop_command_sender env h st2))))"

text \<open>One tick of the worker; false when it is parked on an agent's command channel.\<close>

definition cleanup_tick ::
  "('c, 'e) app_env \<Rightarrow> ('c, 'e) io \<Rightarrow> ('c, 'e) app_state \<Rightarrow> bool \<times> ('c, 'e) app_state" where
  "cleanup_tick env io st =
     (let cfg = app_terminal_config st;
          (closed, reg, hs) = drain_expired (app_sessions st) (max_duration cfg) (idle_timeout cfg)
                                (io_now io)
      in close_each env io (protocol_error_text SessionExpired ''terminal session expired'')
           (\<lambda>sid actor. app_audit env io TerminalClosed (Some actor)
                           (''terminal session '' @ sid @ '' expired''))
           closed (close_ptys io hs (st\<lparr>app_sessions := reg\<rparr>)))"

section \<open>The session routes\<close>

datatype reply_body =
    BodyNone
  | BodySessions "terminal_session_summary list"
  | BodyTerminated terminal_session_id
  | BodyUser user
  | BodyAccepted
  | BodyStepUp factor_type
  | BodyNodes "node_view list"
  | BodyNode node_view
  | BodyRotation node_credential_rotation_response
  | BodyToken enrollment_token_response
  | BodyEnrolled agent_enrollment_response
  | BodyHeartbeat node_view
  | BodyAudit "audit_event list"
  | BodyHealth app_state_summary
  | BodyPoll agent_transport_long_poll_response

type_synonym reply = "http_response \<times> reply_body"

definition json_reply :: "nat \<Rightarrow> reply_body \<Rightarrow> reply" where
  "json_reply status b = (\<lparr>rsp_status = status, rsp_error = None, rsp_headers = []\<rparr>, b)"

definition error_reply :: "nat \<Rightarrow> string \<Rightarrow> reply" where
  "error_reply status message = (error_response status message, BodyNone)"

definition list_active_terminal_sessions :: "instant \<Rightarrow> user \<Rightarrow> ('c, 'e) app_state \<Rightarrow> reply" where
  "list_active_terminal_sessions now u st =
     json_reply 200 (BodySessions
       (list_sessions_for_actor (app_sessions st) (user_email u) [Active, Reattaching] now))"

definition list_detached_terminal_sessions :: "instant \<Rightarrow> user \<Rightarrow> ('c, 'e) app_state \<Rightarrow> reply" where
  "list_detached_terminal_sessions now u st =
     json_reply 200 (BodySessions
       (list_sessions_for_actor (app_sessions st) (user_email u) [Detached] now))"

definition terminate_terminal_session ::
  "('c, 'e) app_env \<Rightarrow> ('c, 'e) io \<Rightarrow> user \<Rightarrow> terminal_session_id \<Rightarrow> ('c, 'e) app_state
   \<Rightarrow> reply task \<times> ('c, 'e) app_state" where
  "terminate_terminal_session env io u sid st =
     (let done = (\<lambda>st. (Done (json_reply 200 (BodyTerminated sid)),
                         app_audit env io TerminalTerminated (Some (user_email u))
                           (''terminal session '' @ sid @ '' explicitly terminated'') st))
      in if \<not> owner_matches (app_sessions st) sid (user_email u)
         then (Done (error_reply 404 ''terminal session was not found''), st)
         else if \<not> authorize_session_terminate st u sid
         then (Done (error_reply 403 ''terminal terminate is not permitted for this session''), st)
         else (case app_terminate io sid st of
             (None, st1) \<Rightarrow> (Done (error_reply 404 ''terminal session was not found''), st1)
           | (Some (Local _), st1) \<Rightarrow> done st1
           | (Some (Remote h), st1) \<Rightarrow>
               (case send_command env io h (CloseTerminal sid) st1 of
                  (Parked, st2) \<Rightarrow> (Parked, st2)
                | (Done _, st2) \<Rightarrow> done (drop_command_sender env h st2))))"

definition terminal_creation_allowed ::
  "instant \<Rightarrow> string \<Rightarrow> ('c, 'e) app_state \<Rightarrow> bool \<times> ('c, 'e) app_state" where
  "terminal_creation_allowed now actor st =
     (let (ok, rl) = check_and_record (app_terminal_limiter st) actor now
      in (ok, st\<lparr>app_terminal_limiter := rl\<rparr>))"

text \<open>The upgrade request: a refusal, or the user the connection then runs for.\<close>

definition terminal_websocket ::
  "('c, 'e) app_env \<Rightarrow> ('c, 'e) io \<Rightarrow> header_map \<Rightarrow> ('c, 'e) app_state
   \<Rightarrow> (reply + user) \<times> ('c, 'e) app_state" where
  "terminal_websocket env io headers st =
     (if \<not> is_allowed_origin headers (app_allowed_origins st)
      then (Inl (error_reply 403 ''cross-origin websocket request rejected''), st)
      else (case authorize_terminal_request (app_auth st) headers (io_now io) of
          (Inl e, sv) \<Rightarrow>
            (Inl (error_reply (authorization_status e) (authorization_message e)),
             app_audit env io
               (if e = StepUpMfaRequired then UserMfaChallenge else TerminalFailed) None
               (authorization_message e) (st\<lparr>app_auth := sv\<rparr>))
        | (Inr u, sv) \<Rightarrow>
            (let (ok, st1) = terminal_creation_allowed (io_now io) (user_email u)
                               (st\<lparr>app_auth := sv\<rparr>)
             in if \<not> ok
                then (Inl (error_reply 429 ''terminal creation rate limit exceeded''),
                      app_audit env io TerminalFailed (Some (user_email u))
                        ''terminal creation rate limit exceeded'' st1)
                else (Inr u, st1))))"

section \<open>Lemmas\<close>

lemma kept_recorded_failed [simp]:
  "recorded (on_audit (\<lambda>log. record_route_failed sha stamp log actor nid sid rid reason) st) =
     recorded st @ [(RouteFailed, Some actor)]"
  "recorded (on_audit (\<lambda>log. record_route_selected sha stamp log actor nid sid rid') st) =
     recorded st @ [(RouteSelected, Some actor)]"
  by (simp_all add: on_audit_def on_transport_def recorded_def app_events_def record_route_failed_def
      record_route_selected_def record_event_def audit_record_def event_of_def Let_def)

text \<open>What a refused connection leaves alone: everything but the log and the router's health.\<close>

definition untouched :: "('c, 'e) app_state \<Rightarrow> ('c, 'e) app_state" where
  "untouched st = (on_audit (\<lambda>_. audit_log_new) st)\<lparr>app_router := router_default\<rparr>"

lemma untouched_simps [simp]:
  "untouched (on_audit f st) = untouched st"
  "untouched (app_audit env io kind actor message st) = untouched st"
  "untouched (app_route_failed env io email nid sid rid reason st) = untouched st"
  "untouched (app_route_failure route st) = untouched st"
  "untouched (st\<lparr>app_router := r\<rparr>) = untouched st"
  by (simp_all add: untouched_def on_audit_def on_transport_def app_audit_def app_route_failed_def
      app_route_failure_def)

lemma refuse_app [simp]:
  "w_app (refuse env io actor message sid e w) =
     app_audit env io TerminalFailed (Some actor) message (w_app w)"
  by (simp add: refuse_def)

lemma direct_route:
  assumes "select_route (app_router st) (terminal_route_request st nid) = Inr (DirectAgent x)"
  shows "agent_connected st nid" and "route_health_of (app_router st) (DirectEndpoint nid) \<noteq> Unhealthy"
  using assms
  by (auto simp: select_route_def terminal_route_request_def Let_def split: if_splits option.splits)

definition may_open :: "('c, 'e) app_state \<Rightarrow> user \<Rightarrow> node_id \<Rightarrow> instant \<Rightarrow> bool" where
  "may_open st u nid now =
     (has_permission st u nid TERMINAL_OPEN \<and> node_is_online (ts_nodes (app_transport st)) nid now
      \<and> agent_connected st nid \<and> route_health_of (app_router st) (DirectEndpoint nid) \<noteq> Unhealthy)"

lemma open_remote_refused:
  assumes "\<not> may_open (w_app w) u nid (io_now io)" and "open_remote_terminal env io u nid sid sz w = (r, w')"
  shows "r = Done NotAttached \<and> untouched (w_app w') = untouched (w_app w)
    \<and> (TerminalFailed, Some (user_email u)) \<in> set (recorded (w_app w'))"
proof (cases "has_permission (w_app w) u nid TERMINAL_OPEN
    \<and> node_is_online (ts_nodes (app_transport (w_app w))) nid (io_now io)")
  case False
  then show ?thesis
    using assms(2) by (auto simp: open_remote_terminal_def Let_def split: if_splits)
next
  case True
  show ?thesis
  proof (cases "select_route (app_router (w_app w)) (terminal_route_request (w_app w) nid)")
    case (Inl e)
    then show ?thesis
      using assms(2) True by (auto simp: open_remote_terminal_def app_route_failed_def Let_def)
  next
    case (Inr route)
    show ?thesis
    proof (cases route)
      case (DirectAgent x)
      then show ?thesis
        using direct_route [OF Inr [unfolded DirectAgent]] assms(1) True by (simp add: may_open_def)
    next
      case (RelayNode x y)
      then show ?thesis
        using assms(2) True Inr by (auto simp: open_remote_terminal_def app_route_failed_def Let_def)
    qed
  qed
qed

lemma insert_remote_session:
  assumes "insert_remote reg sid remote sz c actor ch tok now = (Inr ch', reg')"
  shows "ch' = ch" and "\<exists>s. lookup_session reg' sid = Some s \<and> ts_actor_email s = actor
      \<and> ts_node_id s = Some (rts_node_id remote) \<and> ts_backend s = Remote (rts_command_tx remote)
      \<and> ts_state s = Starting \<and> ts_output_tx s = ch"
  using assms
  by (auto simp: insert_remote_def insert_backend_def new_tracked_def lookup_session_def Let_def
      split: if_splits)

lemma app_insert_remote_session:
  assumes "app_insert_remote env io sid conn nid sz actor st = (Inr ch, st')"
  shows "\<exists>s. lookup_session (app_sessions st') sid = Some s \<and> ts_actor_email s = actor
      \<and> ts_node_id s = Some nid \<and> ts_backend s = Remote (rac_link conn) \<and> ts_state s = Starting
      \<and> ts_output_tx s = ch"
proof -
  obtain c st1 where ch: "new_channel st = (c, st1)"
    by (metis surj_pair)
  obtain res reg where ins: "insert_remote (app_sessions st1) sid
      \<lparr>rts_command_tx = rac_link conn, rts_node_id = nid,
       rts_transport_status = terminal_transport_status_of conn\<rparr>
      sz (app_terminal_config st) actor c (io_new_token io) (io_now io) = (res, reg)"
    by (metis surj_pair)
  have res: "res = Inr ch"
    using assms ch ins by (cases res) (auto simp: app_insert_remote_def app_insert_def Let_def)
  have "kept st' = kept (st1\<lparr>app_sessions := reg\<rparr>)"
    using assms ch ins res by (auto simp: app_insert_remote_def app_insert_def Let_def split: option.splits)
  then show ?thesis
    using insert_remote_session [OF ins [unfolded res]] by (auto dest: kept_D(1))
qed

lemma open_remote_attached:
  assumes "open_remote_terminal env io u nid sid sz w = (Done (AttachedRemote sid' nid' conn ch), w')"
  shows "sid' = sid \<and> nid' = nid
    \<and> hm_get (ts_connections (app_transport (w_app w))) nid = Some conn
    \<and> (\<exists>s. lookup_session (app_sessions (w_app w')) sid = Some s \<and> ts_actor_email s = user_email u
         \<and> ts_node_id s = Some nid \<and> ts_backend s = Remote (rac_link conn) \<and> ts_state s = Starting
         \<and> ts_output_tx s = ch)"
proof -
  have may: "may_open (w_app w) u nid (io_now io)"
    using open_remote_refused [OF _ assms] by blast
  then have route: "select_route (app_router (w_app w)) (terminal_route_request (w_app w) nid) =
      Inr (DirectAgent nid)"
    by (simp add: may_open_def select_route_def terminal_route_request_def)
  obtain c where c: "hm_get (ts_connections (app_transport (w_app w))) nid = Some c"
    using may by (auto simp: may_open_def agent_connected_def)
  define w2 where "w2 = on_app (on_transport (\<lambda>_. snd (connection (app_transport (w_app (on_app
      (on_audit (\<lambda>log. record_route_selected (te_sha (ae_transport env)) (io_stamp io) log
         (user_email u) nid sid (route_id (DirectAgent nid)))) w))) nid)))
      (on_app (on_audit (\<lambda>log. record_route_selected (te_sha (ae_transport env)) (io_stamp io) log
         (user_email u) nid sid (route_id (DirectAgent nid)))) w)"
  have st: "start_remote env io (user_email u) nid sid sz (DirectAgent nid) c w2 =
      (Done (AttachedRemote sid' nid' conn ch), w')"
    using assms may route c
    by (simp add: open_remote_terminal_def may_open_def connection_def on_audit_def on_transport_def
        w2_def Let_def)
  obtain r1 st1 where s1: "send_command env io (rac_link c) (StartTerminal sid sz) (w_app w2) = (r1, st1)"
    by (metis surj_pair)
  then have r1: "r1 = Done True"
    using st by (cases r1) (auto simp: start_remote_def split: bool.splits)
  obtain r2 st2 where s2: "app_insert_remote env io sid c nid sz (user_email u) st1 = (r2, st2)"
    by (metis surj_pair)
  obtain ch2 where r2: "r2 = Inr ch2"
    using st s1 r1 s2 by (cases r2) (auto simp: start_remote_def split: prod.splits task.splits)
  then show ?thesis
    using st s1 r1 s2 app_insert_remote_session [OF s2 [unfolded r2]] c by (auto simp: start_remote_def)
qed

text \<open>The session a message is addressed to, and the one a command is for.\<close>

fun addressed :: "terminal_client_message \<Rightarrow> terminal_session_id option" where
  "addressed (ClientStart _ _) = None"
| "addressed (ClientInput s _) = Some s"
| "addressed (ClientResize s _) = Some s"
| "addressed (ClientClose s) = Some s"
| "addressed (ClientTerminate s) = Some s"
| "addressed (ClientDetach s) = Some s"
| "addressed (ClientReattach s _) = Some s"
| "addressed (ClientPing _) = None"

fun command_session :: "agent_terminal_command \<Rightarrow> terminal_session_id" where
  "command_session (StartTerminal s _) = s"
| "command_session (WriteInput s _) = s"
| "command_session (ResizeTerminal s _) = s"
| "command_session (CloseTerminal s) = s"

lemma lookup_other [simp]:
  "s \<noteq> sid \<Longrightarrow> lookup_session (update_session reg sid g) s = lookup_session reg s"
  by (simp add: lookup_session_def update_session_def split: option.split)

lemma lookup_other_simps [simp]:
  "s \<noteq> sid \<Longrightarrow> lookup_session (set_state reg sid x) s = lookup_session reg s"
  "s \<noteq> sid \<Longrightarrow> lookup_session (set_size reg sid sz) s = lookup_session reg s"
  "s \<noteq> sid \<Longrightarrow> lookup_session (touch reg sid now) s = lookup_session reg s"
  "s \<noteq> sid \<Longrightarrow> lookup_session (detach reg sid) s = lookup_session reg s"
  by (simp_all add: set_state_def set_size_def touch_def detach_def)

lemma session_id_matches_simps [simp]:
  "session_id_matches sid sid w = (True, w)"
  "received \<noteq> sid \<Longrightarrow> session_id_matches received sid w =
     (False, tell_error (Some sid) SessionNotFound
               ''terminal session id does not match this connection'' w)"
  by (simp_all add: session_id_matches_def)

lemma foreign_message:
  assumes "addressed m \<noteq> Some sid"
  shows "fst (handle_client_message env io actor h sid m w) = True"
    and "w_app (snd (handle_client_message env io actor h sid m w)) = w_app w"
    and "fst (handle_remote_client_message env io u h sid m w) = Done True"
    and "w_app (snd (handle_remote_client_message env io u h sid m w)) = w_app w"
  using assms
  by (cases m; simp add: handle_client_message_def handle_remote_client_message_def Let_def)+

text \<open>What a connection may do to the shared state: calls on its own shell, its own session, the log.\<close>

definition confined :: "pty_handle \<Rightarrow> terminal_session_id \<Rightarrow> ('c, 'e) app_state \<Rightarrow> ('c, 'e) app_state \<Rightarrow> bool" where
  "confined h sid st st' =
     ((\<exists>cs. app_pty_calls st' = app_pty_calls st @ map (Pair h) cs)
      \<and> (\<forall>h'. h' \<noteq> h \<longrightarrow> app_ptys st' ! h' = app_ptys st ! h')
      \<and> (\<forall>s. s \<noteq> sid \<longrightarrow> lookup_session (app_sessions st') s = lookup_session (app_sessions st) s)
      \<and> ts_links (app_transport st') = ts_links (app_transport st)
      \<and> ts_connections (app_transport st') = ts_connections (app_transport st)
      \<and> ts_nodes (app_transport st') = ts_nodes (app_transport st)
      \<and> app_auth st' = app_auth st \<and> app_router st' = app_router st)"

lemma confined_refl [simp]: "confined h sid st st"
  by (simp add: confined_def)

lemma confined_trans:
  assumes "confined h sid st st1" and "confined h sid st1 st2"
  shows "confined h sid st st2"
proof -
  obtain cs ds where cs: "app_pty_calls st1 = app_pty_calls st @ map (Pair h) cs"
    and ds: "app_pty_calls st2 = app_pty_calls st1 @ map (Pair h) ds"
    using assms unfolding confined_def by blast
  have "app_pty_calls st2 = app_pty_calls st @ map (Pair h) (cs @ ds)"
    by (simp add: cs ds)
  then show ?thesis
    using assms unfolding confined_def by (intro conjI exI [of _ "cs @ ds"]) simp_all
qed

lemma confined_audit: "confined h sid st (app_audit env io kind actor message st)"
  by (simp add: confined_def)

lemma confined_sessions:
  assumes "\<And>s reg. s \<noteq> sid \<Longrightarrow> lookup_session (f reg) s = lookup_session reg s"
  shows "confined h sid st (on_sessions f st)"
  using assms by (simp add: confined_def on_sessions_def)

lemma confined_pty: "confined h sid st (snd (on_pty h f st))"
proof -
  have "app_pty_calls (snd (on_pty h f st))
      = app_pty_calls st @ map (Pair h) (snd (snd (f (app_ptys st ! h))))"
    by (simp add: on_pty_def split_beta Let_def)
  then have "\<exists>cs. app_pty_calls (snd (on_pty h f st)) = app_pty_calls st @ map (Pair h) cs" by (rule exI)
  then show ?thesis by (simp add: confined_def on_pty_def split_beta Let_def)
qed

lemma confined_close: "confined h sid st (close_pty io h st)"
  by (simp add: close_pty_def confined_pty)

lemma confined_outcome: "confined h sid (w_app w) (w_app (snd (pty_outcome sid h f w)))"
proof -
  obtain r st where p: "on_pty h (\<lambda>s. let (r, cs) = f s in (r, s, cs)) (w_app w) = (r, st)"
    by (rule prod.exhaust)
  have "confined h sid (w_app w) st"
    using confined_pty [of h sid "w_app w" "\<lambda>s. let (r, cs) = f s in (r, s, cs)"]
    unfolding p snd_conv .
  moreover have "w_app (snd (pty_outcome sid h f w)) = st"
    unfolding pty_outcome_def p by (cases r) (simp_all del: split_paired_All)
  ultimately show ?thesis
    by (simp only:)
qed

lemma confined_detached:
  "confined h sid st (audit_terminal_detached env io actor sid reason st)"
  by (simp add: audit_terminal_detached_def confined_audit)

lemma confined_terminate:
  "confined h sid (w_app w) (w_app (snd (terminate_local env io actor h sid w)))"
  unfolding terminate_local_def snd_conv w_app_tell on_app_simps
  by (intro confined_trans [OF confined_sessions confined_trans [OF confined_audit confined_close]]) simp

lemma confined_detach:
  "confined h sid (w_app w) (w_app (snd (detach_local_terminal sid w)))"
  unfolding detach_local_terminal_def snd_conv w_app_tell on_app_simps
  by (rule confined_sessions) simp

lemma confined_reattach:
  "confined h sid (w_app w) (w_app (snd (reattach_local_terminal sid w)))"
  unfolding reattach_local_terminal_def Let_def snd_conv w_app_tell on_app_simps
  by (intro confined_trans [OF confined_sessions confined_sessions]) simp_all

lemma confined_message:
  "confined h sid (w_app w) (w_app (snd (handle_client_message env io actor h sid m w)))"
proof (cases "addressed m = Some sid")
  case False
  then show ?thesis
    by (simp add: foreign_message)
next
  case True
  show ?thesis
  proof (cases m)
    case (ClientResize s sz)
    have "confined h sid (w_app w) (w_app (on_app (on_sessions (\<lambda>r. set_size r sid sz)) w))"
      by (simp add: confined_sessions)
    from confined_trans [OF this confined_outcome] show ?thesis
      using ClientResize True by (simp add: handle_client_message_def)
  next
    case (ClientDetach s)
    have "confined h sid (w_app w) (w_app (on_app (audit_terminal_detached env io actor sid
        ''user detached terminal session'') w))"
      by (simp add: confined_detached)
    from confined_trans [OF this confined_detach] show ?thesis
      using ClientDetach True by (simp add: handle_client_message_def)
  qed (use True in \<open>simp_all add: handle_client_message_def confined_outcome confined_terminate
      confined_reattach\<close>)
qed

lemma send_alone:
  assumes "io_waiting io = (\<lambda>st. st)"
  shows "send_command env io h x st = send_now env h x st"
proof -
  obtain r st1 where s: "send_now env h x st = (r, st1)"
    by (rule prod.exhaust)
  show ?thesis
  proof (cases r)
    case Parked
    then have "st1 = st"
      using s by (auto simp: send_now_def Let_def split: if_splits prod.splits)
    then show ?thesis
      using Parked by (simp add: send_command_def s assms)
  qed (simp add: send_command_def s)
qed

text \<open>What a remote connection may do on a frame: at most one command, for its own session, on its
  agent's channel; its own session's state; the log.\<close>

definition confined_remote ::
  "('c, 'e) app_env \<Rightarrow> command_channel \<Rightarrow> terminal_session_id
   \<Rightarrow> ('c, 'e) app_state \<Rightarrow> ('c, 'e) app_state \<Rightarrow> bool" where
  "confined_remote env h sid st st' =
     ((ts_links (app_transport st') = ts_links (app_transport st)
       \<or> (\<exists>x. command_session x = sid
            \<and> ts_links (app_transport st') = ts_links (app_transport (snd (offer_command env h x st)))))
      \<and> (\<forall>s. s \<noteq> sid \<longrightarrow> lookup_session (app_sessions st') s = lookup_session (app_sessions st) s)
      \<and> app_ptys st' = app_ptys st \<and> app_pty_calls st' = app_pty_calls st
      \<and> ts_connections (app_transport st') = ts_connections (app_transport st)
      \<and> ts_nodes (app_transport st') = ts_nodes (app_transport st)
      \<and> app_auth st' = app_auth st \<and> app_router st' = app_router st)"

lemma offer_links:
  "ts_links (app_transport (snd (offer_command env h x st))) =
     (ts_links (app_transport st))[h := (ts_links (app_transport st) ! h)
        \<lparr>lk_commands := snd (mp_try_send (te_commands (ae_transport env)) x
            (lk_commands (ts_links (app_transport st) ! h)))\<rparr>]"
  by (simp add: offer_command_def on_transport_def update_link_def split_beta Let_def)

lemma offer_same_links:
  "ts_links (app_transport st1) = ts_links (app_transport st) \<Longrightarrow>
     ts_links (app_transport (snd (offer_command env h x st1))) =
       ts_links (app_transport (snd (offer_command env h x st)))"
  by (simp add: offer_links)

lemma send_now_links:
  "ts_links (app_transport (snd (send_now env h x st))) \<in>
     {ts_links (app_transport st), ts_links (app_transport (snd (offer_command env h x st)))}"
  by (simp add: send_now_def split_beta Let_def)

lemma send_now_ptys:
  "app_ptys (snd (send_now env h x st)) = app_ptys st"
  "app_pty_calls (snd (send_now env h x st)) = app_pty_calls st"
  by (simp_all add: send_now_def offer_command_def on_transport_def split_beta Let_def)

lemma confined_remote_refl [simp]: "confined_remote env h sid st st"
  by (simp add: confined_remote_def)

lemma confined_remote_quiet:
  assumes "ts_links (app_transport st') = ts_links (app_transport st)"
    and "\<forall>s. s \<noteq> sid \<longrightarrow> lookup_session (app_sessions st') s = lookup_session (app_sessions st) s"
    and "app_ptys st' = app_ptys st" "app_pty_calls st' = app_pty_calls st"
    and "ts_connections (app_transport st') = ts_connections (app_transport st)"
    and "ts_nodes (app_transport st') = ts_nodes (app_transport st)"
    and "app_auth st' = app_auth st" "app_router st' = app_router st"
  shows "confined_remote env h sid st st'"
  using assms by (simp add: confined_remote_def)

text \<open>Quiet changes of the own session, then a send.\<close>

lemma confined_remote_send:
  assumes q: "confined_remote env h sid st st1"
    and l: "ts_links (app_transport st1) = ts_links (app_transport st)"
    and x: "command_session x = sid"
  shows "confined_remote env h sid st (snd (send_now env h x st1))"
proof -
  let ?st2 = "snd (send_now env h x st1)"
  have k: "kept ?st2 = kept st1"
    by (rule kept_send_now)
  have "ts_links (app_transport ?st2) = ts_links (app_transport st)
      \<or> ts_links (app_transport ?st2) = ts_links (app_transport (snd (offer_command env h x st)))"
    using send_now_links [of env h x st1] l offer_same_links [OF l, of env h x] by auto
  then show ?thesis
    using q x unfolding confined_remote_def
    by (auto simp only: kept_D [OF k] send_now_ptys)
qed

lemma terminate_remote_alone:
  assumes alone: "io_waiting io = (\<lambda>st. st)"
  shows "confined_remote env h sid (w_app w) (w_app (snd (terminate_remote env io u h sid w)))"
proof (cases "authorize_session_terminate (w_app w) u sid")
  case False
  then show ?thesis
    by (simp add: terminate_remote_def)
next
  case True
  let ?st1 = "app_audit env io TerminalTerminated (Some (user_email u))
      (''remote terminal session '' @ sid @ '' explicitly terminated'')
      (on_sessions (\<lambda>r. set_state r sid Terminating) (w_app w))"
  have q: "confined_remote env h sid (w_app w) ?st1"
    by (rule confined_remote_quiet) (simp_all add: on_sessions_def)
  obtain r st2 where s: "send_now env h (CloseTerminal sid) ?st1 = (r, st2)"
    by (rule prod.exhaust)
  have "w_app (snd (terminate_remote env io u h sid w)) = st2"
    using True s by (cases r) (simp_all add: terminate_remote_def send_alone [OF alone])
  then show ?thesis
    using confined_remote_send [OF q, of "CloseTerminal sid"] s by (simp add: on_sessions_def)
qed

lemma forward_command_alone:
  assumes alone: "io_waiting io = (\<lambda>st. st)" and x: "command_session x = sid"
  shows "confined_remote env h sid (w_app w) (w_app (snd (forward_command env io h sid x w)))"
proof -
  obtain r st2 where s: "send_now env h x (w_app w) = (r, st2)"
    by (rule prod.exhaust)
  have "w_app (snd (forward_command env io h sid x w)) = st2"
    using s by (cases r) (auto simp: forward_command_def send_alone [OF alone] split: bool.split)
  then show ?thesis
    using confined_remote_send [OF confined_remote_refl refl x, of env h "w_app w"] s by simp
qed

lemma confined_remote_message:
  assumes alone: "io_waiting io = (\<lambda>st. st)"
  shows "confined_remote env h sid (w_app w) (w_app (snd (handle_remote_client_message env io u h sid m w)))"
proof (cases "addressed m = Some sid")
  case False
  then show ?thesis
    by (simp add: foreign_message)
next
  case True
  show ?thesis
  proof (cases m)
    case (ClientDetach s)
    have "confined_remote env h sid (w_app w) (audit_terminal_detached env io (user_email u) sid
        ''user detached remote terminal session'' (on_sessions (\<lambda>r. detach r sid) (w_app w)))"
      by (rule confined_remote_quiet) (simp_all add: audit_terminal_detached_def on_sessions_def)
    then show ?thesis
      using ClientDetach True by (simp add: handle_remote_client_message_def)
  qed (use True in \<open>simp_all add: handle_remote_client_message_def terminate_remote_alone [OF alone]
      forward_command_alone [OF alone]\<close>)
qed

section \<open>A shell and its session\<close>

text \<open>As long as a shell runs, its session is in the registry: what every step of the connection keeps.\<close>

definition shell_owned :: "pty_handle \<Rightarrow> terminal_session_id \<Rightarrow> ('c, 'e) app_state \<Rightarrow> bool" where
  "shell_owned h sid st =
     (h < length (app_ptys st)
      \<and> (is_closed (app_ptys st ! h) \<or> backend_of (app_sessions st) sid = Some (Local h)))"

lemma backend_of_update:
  assumes "\<And>s. ts_backend (g s) = ts_backend s"
  shows "backend_of (update_session reg sid' g) sid = backend_of reg sid"
  using assms by (simp add: backend_of_def lookup_session_def update_session_def split: option.split)

lemma backend_of_simps [simp]:
  "backend_of (set_state reg sid' x) sid = backend_of reg sid"
  "backend_of (set_size reg sid' sz) sid = backend_of reg sid"
  "backend_of (touch reg sid' now) sid = backend_of reg sid"
  "backend_of (detach reg sid') sid = backend_of reg sid"
  by (simp_all add: set_state_def set_size_def touch_def detach_def backend_of_update)

lemma shell_owned_sessions [simp]:
  "(\<And>reg. backend_of (f reg) sid = backend_of reg sid) \<Longrightarrow>
     shell_owned h sid (on_sessions f st) = shell_owned h sid st"
  by (simp add: shell_owned_def on_sessions_def)

lemma shell_owned_audit [simp]:
  "shell_owned h sid (app_audit env io kind actor message st) = shell_owned h sid st"
  "shell_owned h sid (audit_terminal_detached env io email sid' reason st) = shell_owned h sid st"
  by (simp_all add: shell_owned_def audit_terminal_detached_def)

lemma shell_owned_pty:
  assumes "shell_owned h sid st" and "\<And>s. is_closed s \<Longrightarrow> is_closed (fst (snd (f s)))"
  shows "shell_owned h sid (snd (on_pty h' f st))"
proof -
  obtain r s cs where f: "f (app_ptys st ! h') = (r, s, cs)"
    using prod_cases3 by blast
  have "is_closed (app_ptys st ! h) \<Longrightarrow> h < length (app_ptys st) \<Longrightarrow>
      is_closed ((app_ptys st)[h' := s] ! h)"
    using assms(2) [of "app_ptys st ! h'"] f by (cases "h' = h") simp_all
  then show ?thesis
    using assms(1) by (auto simp: shell_owned_def on_pty_def f)
qed

lemma close_stays [simp]: "is_closed s \<Longrightarrow> is_closed (fst (snd (close s k)))"
  by (simp add: close_def is_closed_def)

lemma close_closes [simp]: "is_closed (fst (snd (close s k)))"
  by (simp add: close_def is_closed_def Let_def split: option.split)

lemma shell_owned_close: "shell_owned h sid st \<Longrightarrow> shell_owned h sid (close_pty io h' st)"
  by (simp add: close_pty_def shell_owned_pty)

lemma shell_owned_outcome:
  assumes "shell_owned h sid (w_app w)"
  shows "shell_owned h sid (w_app (snd (pty_outcome sid' h' f w)))"
proof -
  obtain r st where p: "on_pty h' (\<lambda>s. let (r, cs) = f s in (r, s, cs)) (w_app w) = (r, st)"
    by (rule prod.exhaust)
  have "shell_owned h sid st"
    using shell_owned_pty [OF assms, of "\<lambda>s. let (r, cs) = f s in (r, s, cs)" h'] unfolding p
    by (simp add: split_beta)
  moreover have "w_app (snd (pty_outcome sid' h' f w)) = st"
    unfolding pty_outcome_def p by (cases r) simp_all
  ultimately show ?thesis
    by (simp only:)
qed

lemma shell_owned_message:
  assumes "shell_owned h sid (w_app w)"
  shows "shell_owned h sid (w_app (snd (handle_client_message env io actor h sid m w)))"
proof (cases "addressed m = Some sid")
  case False
  then show ?thesis
    using assms by (simp add: foreign_message)
next
  case True
  show ?thesis
    using True assms
    by (cases m) (simp_all add: handle_client_message_def shell_owned_outcome terminate_local_def
        shell_owned_close detach_local_terminal_def reattach_local_terminal_def Let_def)
qed

lemma shell_owned_gone [simp]:
  "shell_owned h sid (w_app (browser_gone env io actor sid' w)) = shell_owned h sid (w_app w)"
  by (simp add: browser_gone_def)

lemma shell_owned_hear:
  assumes "shell_owned h sid (w_app w)"
  shows "shell_owned h sid (w_app (snd (hear_output env io actor sid failed m w)))"
proof -
  obtain sent w4 where s: "\<And>w3. send_server_message m w3 = (fst (send_server_message m w3), snd (send_server_message m w3))"
    by simp
  show ?thesis
    using assms by (cases m) (simp_all add: hear_output_def Let_def split_beta)
qed

lemma shell_owned_step:
  assumes "shell_owned h sid (w_app w)"
  shows "shell_owned h sid (w_app (snd (local_step env io actor h sid failed inp w)))"
proof (cases "(env, io, actor, h, sid, failed, inp, w)" rule: local_step.cases)
  case (4 _ _ _ _ _ _ f)
  then show ?thesis
    using assms by (cases "parse_client_message env f")
      (simp_all add: handle_client_frame_def split_beta Let_def shell_owned_message)
next
  case 6
  then show ?thesis
    using assms by (simp add: idle_tick_def end_on_policy_def split_beta Let_def)
qed (use assms in \<open>simp_all add: shell_owned_hear\<close>)

lemma app_remove_closes:
  assumes "shell_owned h sid st" and np: "\<not> tr_poisoned (app_sessions st)"
  shows "is_closed (app_ptys (app_remove env io sid st) ! h)
    \<and> lookup_session (app_sessions (app_remove env io sid st)) sid = None"
proof -
  let ?reg = "(app_sessions st)\<lparr>tr_sessions := hm_rem sid (tr_sessions (app_sessions st))\<rparr>"
  have gone: "lookup_session ?reg sid = None"
    by (simp add: lookup_session_def)
  show ?thesis
  proof (cases "hm_get (tr_sessions (app_sessions st)) sid")
    case None
    then have "backend_of (app_sessions st) sid = None"
      by (simp add: backend_of_def lookup_session_def)
    then show ?thesis
      using assms None
      by (simp add: app_remove_def remove_session_def remove_tracked_def close_ptys_def shell_owned_def
          lookup_session_def Let_def)
  next
    case (Some s)
    then have b: "backend_of (app_sessions st) sid = Some (ts_backend s)"
      using np by (simp add: backend_of_def lookup_session_def)
    show ?thesis
    proof (cases "ts_backend s")
      case (Local h')
      have rem: "app_remove env io sid st = close_pty io h' (st\<lparr>app_sessions := ?reg\<rparr>)"
        using b Local Some np by (simp add: app_remove_def remove_session_def remove_tracked_def
            close_ptys_def close_backend_def drop_backend_def Let_def)
      have "is_closed (app_ptys (close_pty io h' (st\<lparr>app_sessions := ?reg\<rparr>)) ! h)"
        using assms(1) b Local
        by (cases "h' = h") (auto simp: shell_owned_def close_pty_def on_pty_def split_beta Let_def)
      then show ?thesis
        using gone by (simp add: rem close_pty_def on_pty_def split_beta Let_def)
    next
      case (Remote c)
      then have "is_closed (app_ptys st ! h)"
        using assms(1) b by (simp add: shell_owned_def)
      then show ?thesis
        using gone b Remote Some np
        by (simp add: app_remove_def remove_session_def remove_tracked_def close_ptys_def close_backend_def
            drop_backend_def drop_command_sender_def on_transport_def Let_def)
    qed
  qed
qed

text \<open>What is left when the handler returns.\<close>

definition left_behind :: "pty_handle \<Rightarrow> terminal_session_id \<Rightarrow> ('c, 'e) app_state \<Rightarrow> bool" where
  "left_behind h sid st =
     (tr_poisoned (app_sessions st)
      \<or> app_state_of st sid = Some Detached \<and> shell_owned h sid st
      \<or> lookup_session (app_sessions st) sid = None \<and> is_closed (app_ptys st ! h))"

lemma local_end_leaves:
  assumes "shell_owned h sid st"
  shows "left_behind h sid (local_end env io actor sid failed st)"
proof (cases "app_state_of st sid = Some Detached \<or> tr_poisoned (app_sessions st)")
  case True
  have "tr_poisoned (app_sessions (app_remove env io sid (on_sessions (\<lambda>r. set_state r sid x) st)))"
    if "tr_poisoned (app_sessions st)" for x
    using that kept_D(1) [OF kept_drop_backend] kept_D(1) [OF kept_close_ptys]
    by (simp add: app_remove_def on_sessions_def set_state_def update_session_def remove_session_def
        backend_of_def lookup_session_def close_ptys_def)
  with True show ?thesis
    using assms by (auto simp: left_behind_def local_end_def Let_def)
next
  case False
  let ?st1 = "on_sessions (\<lambda>r. set_state r sid Terminating) st"
  have o: "shell_owned h sid ?st1"
    using assms by simp
  have np: "\<not> tr_poisoned (app_sessions ?st1)"
    using False by (simp add: on_sessions_def set_state_def update_session_def split: option.split)
  from app_remove_closes [OF o np, of env io] show ?thesis
    using False by (simp add: left_behind_def local_end_def Let_def)
qed

section \<open>A control plane for the witnesses\<close>

definition example_env :: "(agent_terminal_command mailbox, agent_terminal_event mailbox) app_env" where
  "example_env =
     \<lparr>ae_transport = mail_env, ae_token_hash = (\<lambda>_. 0),
      ae_parse_client = (\<lambda>t. if t = ''in'' then Inr (ClientInput ''s'' ''hi'')
                             else if t = ''other'' then Inr (ClientInput ''t'' ''hi'')
                             else if t = ''end'' then Inr (ClientTerminate ''s'')
                             else Inl ''eof'')\<rparr>"

definition example_io :: "(agent_terminal_command mailbox, agent_terminal_event mailbox) io" where
  "example_io =
     \<lparr>io_now = 7, io_stamp = 0, io_system = 0, io_random = [], io_new_token = ''new'', io_kill = None,
      io_write = None, io_flush = None, io_resize = None, io_spawn = (None, None, None, None),
      io_env = (\<lambda>_. None), io_sends = [], io_waiting = (\<lambda>st. st)\<rparr>"

definition example_link :: "(agent_terminal_command mailbox, agent_terminal_event mailbox) link" where
  "example_link = \<lparr>lk_commands = mailbox_new 2, lk_events = mailbox_new 2, lk_next_message_id = 2,
                   lk_long_poll = False, lk_clones = 1, lk_senders = 1\<rparr>"

definition example_pty :: pty_session where
  "example_pty = \<lparr>closed = False, child_held = True, child_poisoned = False, reader_poisoned = False,
                  writer_poisoned = False, master_poisoned = False\<rparr>"

definition example_session :: tracked_session where
  "example_session =
     \<lparr>ts_backend = Local 0, ts_output_tx = 0, ts_replay = [], ts_next_output_sequence = 1,
      ts_reconnect_token = ''old'', ts_state = Active, ts_last_activity = 0, ts_created_at = 0,
      ts_size = \<lparr>size_cols = 80, size_rows = 24\<rparr>, ts_actor_email = ''a'', ts_node_id = None,
      ts_transport_status = None\<rparr>"

definition example_connection :: registered_agent_connection where
  "example_connection = \<lparr>rac_link = 0, rac_transport_id = ''t'', rac_transport_kind = WebSocketTlsTcp443,
     rac_degraded_reason = None, rac_long_poll = False\<rparr>"

definition example_nodes :: node_registry where
  "example_nodes = toy_enrolled
     \<lparr>ne_nodes := map (\<lambda>n. n\<lparr>nr_status := NodeOnline\<rparr>) (ne_nodes toy_enrolled),
      ne_heartbeats := [\<lparr>nhr_node_id = 1, nhr_status = NodeOnline, nhr_received_at = 6\<rparr>]\<rparr>"

text \<open>One user is logged in, one shell runs for the session \<open>s\<close>, and one agent is connected.\<close>

definition example_app ::
  "(agent_terminal_command mailbox, agent_terminal_event mailbox) app_state" where
  "example_app =
     (app_state_new toy_sha
        \<lparr>ss_runtime_mode = Development, ss_production_state = production_state_development,
         ss_auth_config = toy_config, ss_allowed_origins = [],
         ss_terminal_config = example_config\<rparr>)
       \<lparr>app_auth := toy_login,
        app_sessions := \<lparr>tr_poisoned = False, tr_sessions = [(''s'', example_session)]\<rparr>,
        app_transport := toy_transport\<lparr>ts_links := [example_link], ts_nodes := example_nodes,
                          ts_connections := [(''node-1'', example_connection)]\<rparr>,
        app_ptys := [example_pty]\<rparr>"

definition example_wire :: "(agent_terminal_command mailbox, agent_terminal_event mailbox) wire" where
  "example_wire = \<lparr>w_app = example_app, w_sent = [], w_results = []\<rparr>"

lemma example_simps [simp]:
  "w_app example_wire = example_app" "app_ptys example_app = [example_pty]"
  "app_pty_calls example_app = []" "app_auth example_app = toy_login" "app_router example_app = router_default"
  "ts_connections (app_transport example_app) = [(''node-1'', example_connection)]"
  "ts_nodes (app_transport example_app) = example_nodes" "app_terminal_config example_app = example_config"
  "app_sessions example_app = \<lparr>tr_poisoned = False, tr_sessions = [(''s'', example_session)]\<rparr>"
  "ts_links (app_transport example_app) = [example_link]" "io_waiting example_io = (\<lambda>st. st)"
  "ae_transport example_env = mail_env"
  by (simp_all add: example_wire_def example_app_def example_io_def example_env_def app_state_new_def)

lemma example_parse [simp]:
  "parse_client_message example_env (FrameText ''in'') = Inr (ClientInput ''s'' ''hi'')"
  "parse_client_message example_env (FrameText ''other'') = Inr (ClientInput ''t'' ''hi'')"
  "parse_client_message example_env (FrameText ''end'') = Inr (ClientTerminate ''s'')"
  by (simp_all add: parse_client_message_def example_env_def)

lemma example_online: "node_is_online example_nodes ''node-1'' 7" "\<not> node_is_online example_nodes ''other'' 7"
  by (simp_all add: node_is_online_def node_details_def example_nodes_def toy_enrolled_fields view_now_def
      node_view_of_def latest_heartbeat_at_def NODE_OFFLINE_AFTER_def elapsed_def secs_def)

section \<open>Properties\<close>





text \<open>C4: A terminal on a node is opened only for a user with the permission, on a node that is online,
  connected and reachable by its direct route; the session is then registered for that user, on that
  node, over the connection the agent has registered, and waits for the agent. Every other request
  is refused and recorded as failed, and touches nothing but the log and the health of the route.\<close>

theorem remote_terminal_opens_only_for_entitled_users:
  assumes "open_remote_terminal env io u nid sid sz w = (r, w')"
  shows "(\<not> may_open (w_app w) u nid (io_now io) \<longrightarrow>
        r = Done NotAttached \<and> untouched (w_app w') = untouched (w_app w)
        \<and> (TerminalFailed, Some (user_email u)) \<in> set (recorded (w_app w')))
    \<and> (\<forall>sid' nid' conn ch. r = Done (AttachedRemote sid' nid' conn ch) \<longrightarrow>
        may_open (w_app w) u nid (io_now io) \<and> sid' = sid \<and> nid' = nid
        \<and> hm_get (ts_connections (app_transport (w_app w))) nid = Some conn
        \<and> (\<exists>s. lookup_session (app_sessions (w_app w')) sid = Some s \<and> ts_actor_email s = user_email u
             \<and> ts_node_id s = Some nid \<and> ts_backend s = Remote (rac_link conn) \<and> ts_state s = Starting
             \<and> ts_output_tx s = ch))"
proof -
  have refused: "r = Done NotAttached \<and> untouched (w_app w') = untouched (w_app w)
      \<and> (TerminalFailed, Some (user_email u)) \<in> set (recorded (w_app w'))"
    if "\<not> may_open (w_app w) u nid (io_now io)"
    by (rule open_remote_refused [OF that assms])
  have attached: "may_open (w_app w) u nid (io_now io) \<and> sid' = sid \<and> nid' = nid
      \<and> hm_get (ts_connections (app_transport (w_app w))) nid = Some conn
      \<and> (\<exists>s. lookup_session (app_sessions (w_app w')) sid = Some s \<and> ts_actor_email s = user_email u
           \<and> ts_node_id s = Some nid \<and> ts_backend s = Remote (rac_link conn) \<and> ts_state s = Starting
           \<and> ts_output_tx s = ch)"
    if r: "r = Done (AttachedRemote sid' nid' conn ch)" for sid' nid' conn ch
  proof -
    have "may_open (w_app w) u nid (io_now io)"
      using refused r by blast
    then show ?thesis
      using open_remote_attached [OF assms [unfolded r]] by simp
  qed
  show ?thesis
    by (rule conjI) (rule impI, erule refused, (rule allI)+, rule impI, erule attached)
qed

theorem remote_terminal_opens_only_for_entitled_users_witness:
  "fst (open_remote_terminal example_env example_io toy_user ''other'' ''u''
      \<lparr>size_cols = 80, size_rows = 24\<rparr> example_wire) = Done NotAttached
   \<and> may_open example_app toy_user ''node-1'' 7"
proof -
  have no: "\<not> may_open example_app toy_user ''other'' 7" and yes: "may_open example_app toy_user ''node-1'' 7"
    by (simp_all add: may_open_def agent_connected_def example_online has_permission_def
        user_has_node_permission_def toy_user_def route_health_of_def router_default_def hm_get_def)
  show ?thesis
    using remote_terminal_opens_only_for_entitled_users [of example_env example_io toy_user "''other''" "''u''"
        "\<lparr>size_cols = 80, size_rows = 24\<rparr>" example_wire, OF prod.collapse [symmetric]] no yes
    by (simp add: example_io_def)
qed



end
