(* ===== verification/Sb_Routes.thy ===== *)
theory Sb_Routes
  imports Sb_Handlers Sb_Redaction
begin

text \<open>
  The HTTP API of the control plane: the handlers under \<open>sunbolt-control/src/routes/\<close> and the router that
  puts them behind the middlewares (\<open>build_router\<close>). A handler takes the authenticated user and the
  decoded body and answers with a response and a body; one that waits on an agent's command channel
  may be parked. \<open>serve\<close> is the whole service on one request.
\<close>

section \<open>Login sessions\<close>

definition auth_rate_limit_key :: "string \<Rightarrow> string" where
  "auth_rate_limit_key email = to_ascii_lowercase (trim email)"

definition with_cookie :: "string \<Rightarrow> reply \<Rightarrow> reply" where
  "with_cookie cookie r = (header_append ''set-cookie'' cookie (fst r), snd r)"

text \<open>\<open>HeaderValue::from_str\<close> on the cookie text, which is visible ASCII by construction.\<close>

definition auth_login ::
  "('c, 'e) app_env \<Rightarrow> ('c, 'e) io \<Rightarrow> string \<Rightarrow> string \<Rightarrow> ('c, 'e) app_state \<Rightarrow> reply \<times> ('c, 'e) app_state" where
  "auth_login env io email password st =
     (let key = auth_rate_limit_key email;
          (allowed, rl) = check_and_record (app_login_limiter st) key (io_now io);
          st1 = st\<lparr>app_login_limiter := rl\<rparr>
      in if \<not> allowed
         then (error_reply 429 ''too many login attempts'',
               app_audit env io UserLoginFailed (Some key) ''login rate limit exceeded'' st1)
         else (case login (te_sha (ae_transport env)) (app_auth st1) email password (io_now io)
                      (io_new_token io) of
             (Inr (u, token), sv) \<Rightarrow>
               (with_cookie (session_cookie_header sv token) (json_reply 200 (BodyUser u)),
                app_audit env io UserLoginSuccess (Some (user_email u)) ''user authenticated''
                  (st1\<lparr>app_auth := sv\<rparr>))
           | (Inl InvalidCredentials, sv) \<Rightarrow>
               (error_reply 401 ''invalid credentials'',
                app_audit env io UserLoginFailed (Some key) ''login rejected'' (st1\<lparr>app_auth := sv\<rparr>))
           | (Inl _, sv) \<Rightarrow>
               (error_reply 500 ''auth service unavailable'', st1\<lparr>app_auth := sv\<rparr>)))"

definition auth_logout ::
  "('c, 'e) app_env \<Rightarrow> ('c, 'e) io \<Rightarrow> user \<Rightarrow> header_map \<Rightarrow> ('c, 'e) app_state
   \<Rightarrow> reply \<times> ('c, 'e) app_state" where
  "auth_logout env io u headers st =
     (let st1 = (case session_token_from_headers headers of
                   None \<Rightarrow> st
                 | Some token \<Rightarrow> st\<lparr>app_auth := snd (logout (app_auth st) token)\<rparr>)
      in (with_cookie (clear_session_cookie_header (app_auth st1)) (json_reply 200 (BodyUser u)),
          app_audit env io UserLogout (Some (user_email u)) ''user logged out'' st1))"

definition auth_me :: "user \<Rightarrow> reply" where
  "auth_me u = json_reply 200 (BodyUser u)"

definition auth_terminal_access ::
  "('c, 'e) io \<Rightarrow> header_map \<Rightarrow> ('c, 'e) app_state \<Rightarrow> reply \<times> ('c, 'e) app_state" where
  "auth_terminal_access io headers st =
     (case authorize_terminal_request (app_auth st) headers (io_now io) of
        (Inr _, sv) \<Rightarrow> (json_reply 200 BodyAccepted, st\<lparr>app_auth := sv\<rparr>)
      | (Inl e, sv) \<Rightarrow>
          (error_reply (authorization_status e) (authorization_message e), st\<lparr>app_auth := sv\<rparr>))"

fun factor_debug :: "factor_type \<Rightarrow> string" where
  "factor_debug FactorPassword = ''Password''"
| "factor_debug FactorTotp = ''Totp''"
| "factor_debug FactorRecoveryCode = ''RecoveryCode''"
| "factor_debug FactorWebAuthn = ''WebAuthn''"
| "factor_debug FactorEmailOtp = ''EmailOtp''"
| "factor_debug FactorHardwareKey = ''HardwareKey''"
| "factor_debug FactorAdminApproval = ''AdminApproval''"
| "factor_debug FactorSshKeySignature = ''SshKeySignature''"

definition auth_mfa_step_up ::
  "('c, 'e) app_env \<Rightarrow> ('c, 'e) io \<Rightarrow> user \<Rightarrow> header_map \<Rightarrow> factor_type \<Rightarrow> ('c, 'e) app_state
   \<Rightarrow> reply \<times> ('c, 'e) app_state" where
  "auth_mfa_step_up env io u headers factor st =
     (let actor = Some (user_email u);
          (allowed, rl) = check_and_record (app_mfa_limiter st) (user_email u) (io_now io);
          st1 = st\<lparr>app_mfa_limiter := rl\<rparr>
      in if \<not> allowed
         then (error_reply 429 ''too many step-up MFA attempts'',
               app_audit env io UserMfaChallenge actor
                 ''step-up MFA challenge rate limit exceeded'' st1)
         else
           let st2 = app_audit env io UserMfaChallenge actor
                       (''step-up MFA challenge requested using '' @ factor_debug factor) st1
           in case session_token_from_headers headers of
                None \<Rightarrow> (error_reply 401 ''missing auth session'', st2)
              | Some token \<Rightarrow>
                  (case record_mfa_success (app_auth st2) token (io_now io) of
                     (Inr _, sv) \<Rightarrow>
                       (json_reply 200 (BodyStepUp factor),
                        app_audit env io UserMfaSuccess actor
                          (''step-up MFA completed using '' @ factor_debug factor)
                          (st2\<lparr>app_auth := sv\<rparr>))
                   | (Inl InvalidSession, sv) \<Rightarrow>
                       (error_reply 401 ''invalid auth session'', st2\<lparr>app_auth := sv\<rparr>)
                   | (Inl _, sv) \<Rightarrow>
                       (error_reply 500 ''auth service unavailable'', st2\<lparr>app_auth := sv\<rparr>)))"

section \<open>Nodes\<close>

definition on_nodes ::
  "(node_registry \<Rightarrow> 'r \<times> node_registry) \<Rightarrow> ('c, 'e) app_state \<Rightarrow> 'r \<times> ('c, 'e) app_state" where
  "on_nodes f st =
     (let (r, reg) = f (ts_nodes (app_transport st))
      in (r, on_transport (\<lambda>t. t\<lparr>ts_nodes := reg\<rparr>) st))"

definition enrollment_ttl :: "u64 option \<Rightarrow> duration" where
  "enrollment_ttl expires_in_secs =
     secs (unat (max (case expires_in_secs of None \<Rightarrow> 15 * 60 | Some s \<Rightarrow> s) 60))"

definition create_enrollment_token ::
  "('c, 'e) app_env \<Rightarrow> ('c, 'e) io \<Rightarrow> user \<Rightarrow> u64 option \<Rightarrow> ('c, 'e) app_state
   \<Rightarrow> reply \<times> ('c, 'e) app_state" where
  "create_enrollment_token env io u expires_in_secs st =
     (if \<not> user_has_control_plane_permission u NODE_REGISTER
      then (error_reply 403 ''node enrollment token creation is not permitted'', st)
      else
        let (allowed, rl) = check_and_record (app_enrollment_limiter st) (user_email u) (io_now io);
            st1 = st\<lparr>app_enrollment_limiter := rl\<rparr>
        in if \<not> allowed then (error_reply 429 ''too many enrollment token requests'', st1)
           else
             let (r, st2) = on_nodes (\<lambda>reg. create_token (ae_token_hash env) reg u
                              (enrollment_ttl expires_in_secs) (io_now io) (io_random io)) st1
             in (json_reply 200 (BodyToken r), st2))"

definition list_nodes_route :: "('c, 'e) io \<Rightarrow> user \<Rightarrow> ('c, 'e) app_state \<Rightarrow> reply" where
  "list_nodes_route io u st =
     json_reply 200 (BodyNodes
       (filter (\<lambda>n. has_permission st u (nv_node_id n) NODE_VIEW)
          (list_nodes (ts_nodes (app_transport st)) (io_now io))))"

definition node_details_route :: "('c, 'e) io \<Rightarrow> user \<Rightarrow> string \<Rightarrow> ('c, 'e) app_state \<Rightarrow> reply" where
  "node_details_route io u nid st =
     (case node_details (ts_nodes (app_transport st)) nid (io_now io) of
        None \<Rightarrow> error_reply 404 ''node not found''
      | Some node \<Rightarrow>
          (case user_has_node_permission (app_auth st) u nid NODE_VIEW of
             Inr True \<Rightarrow> json_reply 200 (BodyNode node)
           | Inr False \<Rightarrow> error_reply 403 ''node view is not permitted''
           | Inl _ \<Rightarrow> error_reply 500 ''auth service unavailable''))"

definition rotate_node_credential ::
  "('c, 'e) app_env \<Rightarrow> ('c, 'e) io \<Rightarrow> user \<Rightarrow> string \<Rightarrow> ('c, 'e) app_state
   \<Rightarrow> reply \<times> ('c, 'e) app_state" where
  "rotate_node_credential env io u nid st =
     (case user_has_node_permission (app_auth st) u nid NODE_CREDENTIAL_ROTATE of
        Inr False \<Rightarrow> (error_reply 403 ''node credential rotation is not permitted'', st)
      | Inl _ \<Rightarrow> (error_reply 500 ''auth service unavailable'', st)
      | Inr True \<Rightarrow>
          (case on_nodes (\<lambda>reg. rotate_credential (te_sha (ae_transport env)) reg nid (io_now io)
                                  (io_system io) (io_random io)) st of
             (Inr rotation, st1) \<Rightarrow>
               (json_reply 200 (BodyRotation rotation),
                app_audit env io NodeCredentialRotated (Some (user_email u))
                  (''node '' @ nid @ '' credential rotated to ''
                     @ rnc_fingerprint (ncrr_credential rotation)) st1)
           | (Inl UnknownNode, st1) \<Rightarrow> (error_reply 404 ''node not found'', st1)
           | (Inl NodeRevokedError, st1) \<Rightarrow> (error_reply 403 ''node revoked'', st1)
           | (Inl _, st1) \<Rightarrow> (error_reply 403 ''node credential cannot be rotated'', st1)))"

definition record_node_session_closed ::
  "('c, 'e) app_env \<Rightarrow> ('c, 'e) io \<Rightarrow> string \<Rightarrow> terminal_session_id \<Rightarrow> string
   \<Rightarrow> ('c, 'e) app_state \<Rightarrow> ('c, 'e) app_state" where
  "record_node_session_closed env io nid sid actor =
     on_audit (\<lambda>log. record_terminal_closed (te_sha (ae_transport env)) (io_stamp io) log actor
       (redact_sensitive (''terminal session '' @ sid @ '' closed: node '' @ nid @ '' revoked'')))"

text \<open>The node's sessions are closed, then its agent is disconnected, then the event is recorded.\<close>

definition revoke_node_route ::
  "('c, 'e) app_env \<Rightarrow> ('c, 'e) io \<Rightarrow> user \<Rightarrow> string \<Rightarrow> ('c, 'e) app_state
   \<Rightarrow> reply task \<times> ('c, 'e) app_state" where
  "revoke_node_route env io u nid st =
     (case user_has_node_permission (app_auth st) u nid NODE_REVOKE of
        Inr False \<Rightarrow> (Done (error_reply 403 ''node revocation is not permitted''), st)
      | Inl _ \<Rightarrow> (Done (error_reply 500 ''auth service unavailable''), st)
      | Inr True \<Rightarrow>
          (case on_nodes (\<lambda>reg. revoke_node reg nid (io_now io)) st of
             (Inl UnknownNode, st1) \<Rightarrow> (Done (error_reply 404 ''node not found''), st1)
           | (Inl _, st1) \<Rightarrow> (Done (error_reply 403 ''node is not allowed''), st1)
           | (Inr node, st1) \<Rightarrow>
               let (closed, reg, hs) = close_sessions_for_node (app_sessions st1) nid;
                   (finished, st2) =
                     close_each env io (protocol_error_text TerminalUnavailable ''node revoked'')
                       (record_node_session_closed env io nid) closed
                       (close_ptys io hs (st1\<lparr>app_sessions := reg\<rparr>))
               in if \<not> finished then (Parked, st2)
                  else (Done (json_reply 200 (BodyNode node)),
                        app_audit env io audit_event_kind.NodeRevoked (Some (user_email u))
                          (''node '' @ nid @ '' revoked'')
                          (on_transport (\<lambda>t. disconnect (ae_transport env) t nid) st2))))"

section \<open>Agents\<close>

definition agent_enroll_route ::
  "('c, 'e) app_env \<Rightarrow> ('c, 'e) io \<Rightarrow> agent_enrollment_request \<Rightarrow> ('c, 'e) app_state
   \<Rightarrow> reply \<times> ('c, 'e) app_state" where
  "agent_enroll_route env io request st =
     (case on_nodes (\<lambda>reg. enroll (te_sha (ae_transport env)) (ae_token_hash env) reg request
                             (io_now io) (io_system io) (io_random io)) st of
        (Inr r, st1) \<Rightarrow>
          (json_reply 201 (BodyEnrolled r),
           app_audit env io audit_event_kind.NodeEnrolled None
             (''node '' @ aep_node_id r @ '' enrolled'') st1)
      | (Inl _, st1) \<Rightarrow> (error_reply 401 ''invalid enrollment token'', st1))"

fun node_connection_error_reason :: "node_connection_error \<Rightarrow> string" where
  "node_connection_error_reason UnknownNode = ''unknown node''"
| "node_connection_error_reason InvalidCredential = ''invalid credential''"
| "node_connection_error_reason CredentialExpired = ''credential expired''"
| "node_connection_error_reason NodeRevokedError = ''node revoked''"

definition record_agent_authentication_failed ::
  "('c, 'e) app_env \<Rightarrow> ('c, 'e) io \<Rightarrow> string \<Rightarrow> node_connection_error \<Rightarrow> ('c, 'e) app_state
   \<Rightarrow> bool \<times> ('c, 'e) app_state" where
  "record_agent_authentication_failed env io nid e st =
     (let (allowed, rl) = check_and_record (ts_auth_failures (app_transport st)) nid (io_now io)
      in (\<not> allowed,
          app_audit env io AgentAuthenticationFailed None
            (if allowed
             then ''agent authentication failed for node '' @ nid @ '': ''
                    @ node_connection_error_reason e
             else ''agent authentication rate limit exceeded for node '' @ nid)
            (on_transport (\<lambda>t. t\<lparr>ts_auth_failures := rl\<rparr>) st)))"

definition agent_heartbeat_route ::
  "('c, 'e) app_env \<Rightarrow> ('c, 'e) io \<Rightarrow> agent_heartbeat_request \<Rightarrow> ('c, 'e) app_state
   \<Rightarrow> reply \<times> ('c, 'e) app_state" where
  "agent_heartbeat_route env io request st =
     (case on_nodes (\<lambda>reg. heartbeat reg request (io_now io)) st of
        (Inr node, st1) \<Rightarrow> (json_reply 200 (BodyHeartbeat node), st1)
      | (Inl e, st1) \<Rightarrow>
          (let (limited, st2) = record_agent_authentication_failed env io (ahr_node_id request) e st1
           in (if limited then error_reply 429 ''too many agent authentication failures''
               else if e = NodeRevokedError then error_reply 403 ''node revoked''
               else error_reply 401 ''invalid node credential'', st2)))"

definition agent_long_poll_route ::
  "('c, 'e) app_env \<Rightarrow> ('c, 'e) io \<Rightarrow> agent_transport_long_poll_request
   \<Rightarrow> (('c, 'e) transport_state \<Rightarrow> ('c, 'e) transport_state)
   \<Rightarrow> ('c, 'e) app_state \<Rightarrow> reply \<times> ('c, 'e) app_state" where
  "agent_long_poll_route env io request meanwhile st =
     (let ((status, r), t) = agent_transport_long_poll (ae_transport env) (app_transport st) request
                               meanwhile (io_now io) (io_stamp io)
      in (json_reply status (BodyPoll r), st\<lparr>app_transport := t\<rparr>))"

section \<open>Audit\<close>

definition access_history_route :: "user \<Rightarrow> ('c, 'e) app_state \<Rightarrow> reply" where
  "access_history_route u st =
     (if \<not> user_has_control_plane_permission u AUDIT_VIEW
      then error_reply 403 ''audit log access is not permitted''
      else json_reply 200 (BodyAudit (access_history (ts_audit (app_transport st)))))"

definition audit_logs_route :: "user \<Rightarrow> ('c, 'e) app_state \<Rightarrow> reply" where
  "audit_logs_route u st =
     (if \<not> user_has_control_plane_permission u AUDIT_VIEW
      then error_reply 403 ''audit log access is not permitted''
      else json_reply 200 (BodyAudit (app_events st)))"

definition health :: "('c, 'e) app_state \<Rightarrow> reply" where
  "health st = json_reply 200 (BodyHealth (state_summary st))"

section \<open>The router\<close>

text \<open>
  A request's path is its list of segments and its body what the JSON extractor makes of it:
  a value, or a refusal with a status of the extractor's choice.
\<close>

datatype request_body =
    BodyRejected nat
  | LoginRequest string string
  | StepUpMfaRequest factor_type
  | EnrollmentTokenRequest "u64 option"
  | AgentEnrollmentRequest agent_enrollment_request
  | AgentHeartbeatRequest agent_heartbeat_request
  | AgentLongPollRequest agent_transport_long_poll_request

datatype route =
    RouteHealth | RouteTerminalWs | RouteSessionsActive | RouteSessionsDetached
  | RouteSessionTerminate terminal_session_id | RouteLogin | RouteStepUp | RouteLogout | RouteMe
  | RouteTerminalAccess | RouteAccessHistory | RouteAuditLogs | RouteNodes | RouteNode string
  | RouteRotate string | RouteRevoke string | RouteEnrollmentTokens | RouteAgentEnroll
  | RouteAgentHeartbeat | RouteAgentWs | RouteAgentLongPoll

text \<open>A fixed segment wins over a parameter.\<close>

definition route_of_path :: "string list \<Rightarrow> route option" where
  "route_of_path path =
     (if path = [''health''] then Some RouteHealth
      else if path = [''terminal'', ''ws''] then Some RouteTerminalWs
      else if path = [''terminal'', ''sessions'', ''active''] then Some RouteSessionsActive
      else if path = [''terminal'', ''sessions'', ''detached''] then Some RouteSessionsDetached
      else if path = [''auth'', ''login''] then Some RouteLogin
      else if path = [''auth'', ''mfa'', ''step-up''] then Some RouteStepUp
      else if path = [''auth'', ''logout''] then Some RouteLogout
      else if path = [''auth'', ''me''] then Some RouteMe
      else if path = [''auth'', ''terminal-access''] then Some RouteTerminalAccess
      else if path = [''access'', ''history''] then Some RouteAccessHistory
      else if path = [''audit'', ''logs''] then Some RouteAuditLogs
      else if path = [''nodes''] then Some RouteNodes
      else if path = [''nodes'', ''enrollment-tokens''] then Some RouteEnrollmentTokens
      else if path = [''agent'', ''enroll''] then Some RouteAgentEnroll
      else if path = [''agent'', ''heartbeat''] then Some RouteAgentHeartbeat
      else if path = [''agent'', ''transport'', ''ws''] then Some RouteAgentWs
      else if path = [''agent'', ''transport'', ''long-poll''] then Some RouteAgentLongPoll
      else (case path of
              [a, x] \<Rightarrow> if a = ''nodes'' then Some (RouteNode x) else None
            | [a, x, b] \<Rightarrow>
                if a = ''nodes'' \<and> b = ''revoke'' then Some (RouteRevoke x) else None
            | [a, x, b, c] \<Rightarrow>
                if a = ''terminal'' \<and> x = ''sessions'' \<and> c = ''terminate''
                then Some (RouteSessionTerminate b)
                else if a = ''nodes'' \<and> b = ''credentials'' \<and> c = ''rotate''
                then Some (RouteRotate x) else None
            | _ \<Rightarrow> None))"

fun route_method :: "route \<Rightarrow> string" where
  "route_method (RouteSessionTerminate _) = ''POST''"
| "route_method RouteLogin = ''POST''"
| "route_method RouteStepUp = ''POST''"
| "route_method RouteLogout = ''POST''"
| "route_method (RouteRotate _) = ''POST''"
| "route_method (RouteRevoke _) = ''POST''"
| "route_method RouteEnrollmentTokens = ''POST''"
| "route_method RouteAgentEnroll = ''POST''"
| "route_method RouteAgentHeartbeat = ''POST''"
| "route_method RouteAgentLongPoll = ''POST''"
| "route_method _ = ''GET''"

text \<open>The layers of a route: \<open>auth_layer\<close> around \<open>csrf_layer\<close>.\<close>

fun needs_auth :: "route \<Rightarrow> bool" where
  "needs_auth RouteHealth = False"
| "needs_auth RouteTerminalWs = False"
| "needs_auth RouteLogin = False"
| "needs_auth RouteAgentEnroll = False"
| "needs_auth RouteAgentHeartbeat = False"
| "needs_auth RouteAgentWs = False"
| "needs_auth RouteAgentLongPoll = False"
| "needs_auth _ = True"

fun needs_csrf :: "route \<Rightarrow> bool" where
  "needs_csrf RouteLogin = True"
| "needs_csrf (RouteSessionTerminate _) = True"
| "needs_csrf RouteStepUp = True"
| "needs_csrf RouteLogout = True"
| "needs_csrf (RouteRotate _) = True"
| "needs_csrf (RouteRevoke _) = True"
| "needs_csrf RouteEnrollmentTokens = True"
| "needs_csrf _ = False"

definition done_reply :: "reply \<times> ('c, 'e) app_state \<Rightarrow> reply task \<times> ('c, 'e) app_state" where
  "done_reply r = (Done (fst r), snd r)"

definition rejected_body :: "request_body \<Rightarrow> reply" where
  "rejected_body b =
     (case b of BodyRejected status \<Rightarrow> error_reply status ''rejected request body''
      | _ \<Rightarrow> error_reply 422 ''rejected request body'')"

text \<open>The handlers behind \<open>auth_layer\<close>, with the user that layer has put in the request.\<close>

definition user_handler ::
  "('c, 'e) app_env \<Rightarrow> ('c, 'e) io \<Rightarrow> route \<Rightarrow> header_map \<Rightarrow> request_body \<Rightarrow> user
   \<Rightarrow> ('c, 'e) app_state \<Rightarrow> reply task \<times> ('c, 'e) app_state" where
  "user_handler env io route headers body u st =
     (case route of
        RouteSessionsActive \<Rightarrow> (Done (list_active_terminal_sessions (io_now io) u st), st)
      | RouteSessionsDetached \<Rightarrow> (Done (list_detached_terminal_sessions (io_now io) u st), st)
      | RouteSessionTerminate sid \<Rightarrow> terminate_terminal_session env io u sid st
      | RouteStepUp \<Rightarrow>
          (case body of
             StepUpMfaRequest f \<Rightarrow> done_reply (auth_mfa_step_up env io u headers f st)
           | b \<Rightarrow> (Done (rejected_body b), st))
      | RouteLogout \<Rightarrow> done_reply (auth_logout env io u headers st)
      | RouteMe \<Rightarrow> (Done (auth_me u), st)
      | RouteTerminalAccess \<Rightarrow> done_reply (auth_terminal_access io headers st)
      | RouteAccessHistory \<Rightarrow> (Done (access_history_route u st), st)
      | RouteAuditLogs \<Rightarrow> (Done (audit_logs_route u st), st)
      | RouteNodes \<Rightarrow> (Done (list_nodes_route io u st), st)
      | RouteNode nid \<Rightarrow> (Done (node_details_route io u nid st), st)
      | RouteRotate nid \<Rightarrow> done_reply (rotate_node_credential env io u nid st)
      | RouteRevoke nid \<Rightarrow> revoke_node_route env io u nid st
      | RouteEnrollmentTokens \<Rightarrow>
          (case body of
             EnrollmentTokenRequest ttl \<Rightarrow> done_reply (create_enrollment_token env io u ttl st)
           | b \<Rightarrow> (Done (rejected_body b), st))
      | _ \<Rightarrow> (Done (error_reply 404 ''not found''), st))"

text \<open>The handlers without it. An upgrade answers 101 and the connection follows.\<close>

definition open_handler ::
  "('c, 'e) app_env \<Rightarrow> ('c, 'e) io \<Rightarrow> route \<Rightarrow> header_map \<Rightarrow> request_body
   \<Rightarrow> ('c, 'e) app_state \<Rightarrow> reply task \<times> ('c, 'e) app_state" where
  "open_handler env io route headers body st =
     (case route of
        RouteHealth \<Rightarrow> (Done (health st), st)
      | RouteTerminalWs \<Rightarrow>
          (case terminal_websocket env io headers st of
             (Inl r, st') \<Rightarrow> (Done r, st')
           | (Inr _, st') \<Rightarrow> (Done (json_reply 101 BodyNone), st'))
      | RouteLogin \<Rightarrow>
          (case body of
             LoginRequest email password \<Rightarrow> done_reply (auth_login env io email password st)
           | b \<Rightarrow> (Done (rejected_body b), st))
      | RouteAgentEnroll \<Rightarrow>
          (case body of
             AgentEnrollmentRequest r \<Rightarrow> done_reply (agent_enroll_route env io r st)
           | b \<Rightarrow> (Done (rejected_body b), st))
      | RouteAgentHeartbeat \<Rightarrow>
          (case body of
             AgentHeartbeatRequest r \<Rightarrow> done_reply (agent_heartbeat_route env io r st)
           | b \<Rightarrow> (Done (rejected_body b), st))
      | RouteAgentWs \<Rightarrow> (Done (json_reply 101 BodyNone), st)
      | RouteAgentLongPoll \<Rightarrow>
          (case body of
             AgentLongPollRequest r \<Rightarrow>
               done_reply (agent_long_poll_route env io r
                 (\<lambda>t. app_transport (io_waiting io (st\<lparr>app_transport := t\<rparr>))) st)
           | b \<Rightarrow> (Done (rejected_body b), st))
      | _ \<Rightarrow> (Done (error_reply 404 ''not found''), st))"

record ('c, 'e) served =
  sd_app :: "('c, 'e) app_state"
  sd_body :: reply_body
  sd_parked :: bool

definition as_handler ::
  "(http_request \<Rightarrow> ('c, 'e) app_state \<Rightarrow> reply task \<times> ('c, 'e) app_state)
   \<Rightarrow> ('c, 'e) served handler" where
  "as_handler f req s =
     (let (r, st) = f req ((sd_app (snd s))\<lparr>app_auth := fst s\<rparr>)
      in case r of
           Done (rsp, body) \<Rightarrow> (rsp, app_auth st, (snd s)\<lparr>sd_app := st, sd_body := body\<rparr>)
         | Parked \<Rightarrow> (error_response 0 [], app_auth st, (snd s)\<lparr>sd_app := st, sd_parked := True\<rparr>))"

text \<open>A layer of a route also wraps its answer to a wrong method; \<open>get\<close> serves HEAD too.\<close>

definition method_allowed :: "route \<Rightarrow> string \<Rightarrow> bool" where
  "method_allowed route m =
     (m = route_method route \<or> m = ''HEAD'' \<and> route_method route = ''GET'')"

definition route_handler ::
  "('c, 'e) app_env \<Rightarrow> ('c, 'e) io \<Rightarrow> route \<Rightarrow> request_body \<Rightarrow> ('c, 'e) served handler" where
  "route_handler env io route body =
     (if needs_auth route
      then require_auth_middleware (io_now io)
             ((if needs_csrf route then browser_csrf_middleware else (\<lambda>h. h))
               (as_handler (\<lambda>req st.
                  if \<not> method_allowed route (req_method req)
                  then (Done (error_reply 405 ''method not allowed''), st)
                  else (case req_user req of
                          None \<Rightarrow> (Done (error_reply 500 ''missing request extension''), st)
                        | Some u \<Rightarrow> user_handler env io route (req_headers req) body u st))))
      else (if needs_csrf route then browser_csrf_middleware else (\<lambda>h. h))
             (as_handler (\<lambda>req st.
                if \<not> method_allowed route (req_method req)
                then (Done (error_reply 405 ''method not allowed''), st)
                else open_handler env io route (req_headers req) body st)))"

definition dispatch ::
  "('c, 'e) app_env \<Rightarrow> ('c, 'e) io \<Rightarrow> string list \<Rightarrow> request_body \<Rightarrow> ('c, 'e) served handler" where
  "dispatch env io path body =
     (case route_of_path path of
        None \<Rightarrow> as_handler (\<lambda>_ st. (Done (error_reply 404 ''not found''), st))
      | Some route \<Rightarrow> route_handler env io route body)"

definition browser_layers ::
  "('c, 'e) app_env \<Rightarrow> ('c, 'e) io \<Rightarrow> string list \<Rightarrow> string list \<Rightarrow> request_body
   \<Rightarrow> ('c, 'e) served handler" where
  "browser_layers env io origins path body =
     security_headers_middleware origins (browser_origin_middleware origins (dispatch env io path body))"

definition serve ::
  "('c, 'e) app_env \<Rightarrow> ('c, 'e) io \<Rightarrow> string list \<Rightarrow> request_body \<Rightarrow> http_request
   \<Rightarrow> ('c, 'e) app_state \<Rightarrow> reply task \<times> ('c, 'e) app_state" where
  "serve env io path body req st =
     (let (rsp, sv, s) = browser_layers env io (app_allowed_origins st) path body req
                           (app_auth st, \<lparr>sd_app = st, sd_body = BodyNone, sd_parked = False\<rparr>)
      in (if sd_parked s then Parked else Done (rsp, sd_body s), (sd_app s)\<lparr>app_auth := sv\<rparr>))"

text \<open>The whole router: the request identifier and the span around the service. The counter of
  identifiers is a static of the program; the path that matched is the one of the route.\<close>

definition build_router ::
  "u64 \<Rightarrow> string option \<Rightarrow> string \<Rightarrow> ('c, 'e) app_env \<Rightarrow> ('c, 'e) io \<Rightarrow> string list \<Rightarrow> request_body
   \<Rightarrow> http_request \<Rightarrow> ('c, 'e) app_state
   \<Rightarrow> reply task \<times> ('c, 'e) app_state \<times> request_span option \<times> u64" where
  "build_router next_id matched_path uri_path env io path body req st =
     (let ((rsp, sv, s, span), next_id') =
            request_id_middleware next_id
              (trace_layer matched_path uri_path
                 (browser_layers env io (app_allowed_origins st) path body))
              req (app_auth st, \<lparr>sd_app = st, sd_body = BodyNone, sd_parked = False\<rparr>, None)
      in (if sd_parked s then Parked else Done (rsp, sd_body s), (sd_app s)\<lparr>app_auth := sv\<rparr>, span, next_id'))"

section \<open>Lemmas\<close>

lemma current_user_valid:
  assumes "fst (current_user sv token now) = Inr (Some u)"
  obtains s su where "\<not> sv_poisoned sv" "sessions_by_token (sv_store sv) token = Some s"
    "now < sr_expires_at s" "users_by_id (sv_store sv) (sr_user_id s) = Some su" "su_user su = u"
proof -
  have np: "\<not> sv_poisoned sv"
    using assms by (auto simp: current_user_def)
  show ?thesis
    using assms that np unfolding current_user_eq [OF np] by (auto split: option.splits if_splits)
qed

text \<open>The whole router is the service, asked with the identifier of the request and its answer marked
  with it; the span the request is logged under has the same identifier.\<close>

lemma router_answers_with_the_identifier:
  assumes "build_router n matched uri env io path body req st = (task, st', span, n')"
  obtains i where "valid_request_id (HeaderText i) = Some i"
    "Option.bind (req_headers req ''x-request-id'') valid_request_id = Some i \<and> n' = n
     \<or> Option.bind (req_headers req ''x-request-id'') valid_request_id = None
        \<and> i = fst (generate_request_id n) \<and> n' = n + 1"
    "span = Some (make_request_span matched uri (req\<lparr>req_request_id := Some i\<rparr>))"
    "st' = snd (serve env io path body (req\<lparr>req_request_id := Some i\<rparr>) st)"
    "task = (case fst (serve env io path body (req\<lparr>req_request_id := Some i\<rparr>) st) of
       Parked \<Rightarrow> Parked | Done (rsp, b) \<Rightarrow> Done (header_insert ''x-request-id'' i rsp, b))"
proof -
  let ?s0 = "(app_auth st, \<lparr>sd_app = st, sd_body = BodyNone, sd_parked = False\<rparr>)"
  let ?layers = "browser_layers env io (app_allowed_origins st) path body"
  obtain r sv s sp n1 where m: "request_id_middleware n (trace_layer matched uri ?layers) req
      (fst ?s0, snd ?s0, None) = ((r, sv, s, sp), n1)"
    by (metis surj_pair)
  obtain i r' where i: "trace_layer matched uri ?layers (req\<lparr>req_request_id := Some i\<rparr>)
      (fst ?s0, snd ?s0, None) = (r', sv, s, sp)"
    "r = header_insert ''x-request-id'' i r'" "valid_request_id (HeaderText i) = Some i"
    "(Option.bind (req_headers req ''x-request-id'') valid_request_id = Some i \<and> n1 = n)
     \<or> (Option.bind (req_headers req ''x-request-id'') valid_request_id = None
        \<and> i = fst (generate_request_id n) \<and> n1 = n + 1)"
    by (rule request_id_middleware_answers [OF m])
  have layers: "?layers (req\<lparr>req_request_id := Some i\<rparr>) ?s0 = (r', sv, s)"
    and sp: "sp = Some (make_request_span matched uri (req\<lparr>req_request_id := Some i\<rparr>))"
    using i(1) by (auto simp: trace_layer_def split: prod.splits)
  have out: "task = (if sd_parked s then Parked else Done (r, sd_body s))"
    "st' = (sd_app s)\<lparr>app_auth := sv\<rparr>" "span = sp" "n' = n1"
    using assms m by (simp_all add: build_router_def)
  have served: "serve env io path body (req\<lparr>req_request_id := Some i\<rparr>) st =
      (if sd_parked s then Parked else Done (r', sd_body s), (sd_app s)\<lparr>app_auth := sv\<rparr>)"
    using layers by (simp add: serve_def)
  show ?thesis
    by (rule that [of i]) (use i out sp served in simp_all)
qed

text \<open>A success recorded now opens the terminal now.\<close>

lemma step_up_opens:
  assumes u: "fst (current_user sv token now) = Inr (Some u)" and role: "can_open_terminal u"
    and tok: "session_token_from_headers headers = Some token"
  shows "fst (record_mfa_success sv token now) = Inr ()"
    and "fst (authorize_terminal_request (snd (record_mfa_success sv token now)) headers now) = Inr u"
proof -
  obtain s su where np: "\<not> sv_poisoned sv" and s: "sessions_by_token (sv_store sv) token = Some s"
    and live: "now < sr_expires_at s" and su: "users_by_id (sv_store sv) (sr_user_id s) = Some su"
    and u': "su_user su = u"
    using current_user_valid [OF u] by blast
  let ?s = "s\<lparr>sr_recent_mfa_at := Some now\<rparr>"
  have rec: "record_mfa_success sv token now =
      (Inr (), sv\<lparr>sv_store := (purge_expired_sessions (sv_store sv) now)
         \<lparr>sessions_by_token := (sessions_by_token (purge_expired_sessions (sv_store sv) now))
            (token \<mapsto> ?s)\<rparr>\<rparr>)"
    using np s live by (simp add: record_mfa_success_def purge_expired_sessions_def map_retain_def)
  then show "fst (record_mfa_success sv token now) = Inr ()"
    by simp
  define sv1 where "sv1 = snd (record_mfa_success sv token now)"
  have sv1: "\<not> sv_poisoned sv1" "sessions_by_token (sv_store sv1) token = Some ?s"
    "users_by_id (sv_store sv1) = users_by_id (sv_store sv)"
    using np by (simp_all add: sv1_def rec purge_expired_sessions_def)
  obtain r sv2 where cu: "current_user sv1 token now = (r, sv2)"
    by (metis surj_pair)
  have r: "r = Inr (Some u)"
    using current_user_eq [OF sv1(1), of token now] sv1 live su u' cu by simp
  have sv2: "sv2 = sv1\<lparr>sv_store := purge_expired_sessions (sv_store sv1) now\<rparr>"
    using cu sv1 live by (simp add: current_user_def Let_def purge_expired_sessions_def map_retain_def)
  have np2: "\<not> sv_poisoned sv2"
    using sv1 by (simp add: sv2)
  have s2: "sessions_by_token (sv_store sv2) token = Some ?s"
    using sv1 live by (simp add: sv2 purge_expired_sessions_def map_retain_def)
  have "fst (has_recent_mfa sv2 token now) = Inr True"
    unfolding has_recent_mfa_eq [OF np2] using s2 live by (simp add: elapsed_def)
  then obtain sv3 where "has_recent_mfa sv2 token now = (Inr True, sv3)"
    by (metis fst_conv surj_pair)
  then have "\<exists>sv4. can_open_terminal_with_session sv2 u token now = (Inr True, sv4)"
    using role by (simp add: can_open_terminal_with_session_def)
  then show "fst (authorize_terminal_request (snd (record_mfa_success sv token now)) headers now) = Inr u"
    using tok cu r role unfolding sv1_def [symmetric]
    by (auto simp: authorize_terminal_request_def)
qed

lemma as_handler_body:
  "as_handler f req (sv, x) =
     (let (r, st) = f req ((sd_app x)\<lparr>app_auth := sv\<rparr>)
      in case r of
           Done (rsp, body) \<Rightarrow> (rsp, app_auth st, x\<lparr>sd_app := st, sd_body := body\<rparr>)
         | Parked \<Rightarrow> (error_response 0 [], app_auth st, x\<lparr>sd_app := st, sd_parked := True\<rparr>))"
  by (simp add: as_handler_def split_beta Let_def cong: if_cong split: task.split prod.split)

text \<open>The outcome of a request, once the two outer layers have let it through.\<close>

definition answered :: "('c, 'e) served \<Rightarrow> auth_service \<Rightarrow> ('c, 'e) app_state" where
  "answered s sv = (sd_app s)\<lparr>app_auth := sv\<rparr>"

lemma serve_passes:
  assumes "is_allowed_origin (req_headers req) (app_allowed_origins st)"
    and "\<not> is_cors_preflight (req_method req) (req_headers req)"
    and d: "dispatch env io path body req
             (app_auth st, \<lparr>sd_app = st, sd_body = BodyNone, sd_parked = False\<rparr>) = (rsp, sv, s)"
  shows "\<exists>rsp'. rsp_status rsp' = rsp_status rsp \<and>
    serve env io path body req st = (if sd_parked s then Parked else Done (rsp', sd_body s), answered s sv)"
  using assms
  by (auto simp: serve_def browser_layers_def security_headers_middleware_def browser_origin_middleware_def answered_def
      header_insert_def Let_def split: option.split)

lemma serve_stops:
  assumes "\<not> is_allowed_origin (req_headers req) (app_allowed_origins st)
    \<or> is_cors_preflight (req_method req) (req_headers req)"
  shows "\<exists>rsp. serve env io path body req st = (Done (rsp, BodyNone), st) \<and> rsp_status rsp \<in> {204, 403}"
  using assms
  by (auto simp: serve_def browser_layers_def security_headers_middleware_def browser_origin_middleware_def
      header_insert_def error_response_def Let_def split: option.split)

text \<open>A layer has answered: nothing has changed but perhaps the authentication service.\<close>

definition stopped :: "('c, 'e) app_state \<Rightarrow> instant \<Rightarrow> http_response \<times> auth_service \<times> ('c, 'e) served \<Rightarrow> bool" where
  "stopped st now r =
     (rsp_status (fst r) \<in> {401, 403, 405, 500}
      \<and> fst (snd r) \<in> {app_auth st} \<union> {snd (current_user (app_auth st) token now) |token. True}
      \<and> sd_app (snd (snd r)) \<in> {st, st\<lparr>app_auth := fst (snd r)\<rparr>}
      \<and> \<not> sd_parked (snd (snd r)) \<and> sd_body (snd (snd r)) = BodyNone)"

lemma route_stops:
  assumes "needs_auth route"
    and "\<nexists>u token. session_token_from_headers (req_headers req) = Some token
        \<and> fst (current_user (app_auth st) token (io_now io)) = Inr (Some u)
        \<and> (needs_csrf route \<longrightarrow> has_valid_csrf_header (req_headers req))
        \<and> method_allowed route (req_method req)"
  shows "stopped st (io_now io)
    (route_handler env io route body req
       (app_auth st, \<lparr>sd_app = st, sd_body = BodyNone, sd_parked = False\<rparr>))"
proof (cases "session_token_from_headers (req_headers req)")
  case None
  then show ?thesis
    using assms(1) by (simp add: stopped_def route_handler_def require_auth_middleware_def error_response_def)
next
  case tok: (Some token)
  obtain r sv where cu: "current_user (app_auth st) token (io_now io) = (r, sv)"
    by (metis surj_pair)
  then have sv: "\<exists>t. sv = snd (current_user (app_auth st) t (io_now io))"
    by (metis snd_conv)
  show ?thesis
  proof (cases "\<exists>u. r = Inr (Some u)")
    case False
    then show ?thesis
      using assms(1) tok cu sv
      by (auto simp: stopped_def route_handler_def require_auth_middleware_def error_response_def
          split: sum.split option.split)
  next
    case True
    then have "\<not> (needs_csrf route \<longrightarrow> has_valid_csrf_header (req_headers req))
        \<or> \<not> method_allowed route (req_method req)"
      using assms(2) tok cu by auto
    then show ?thesis
      using assms(1) tok cu True sv
      by (cases "has_valid_csrf_header (req_headers req)"; cases "needs_csrf route")
        (auto simp: stopped_def route_handler_def require_auth_middleware_def error_response_def
          browser_csrf_middleware_def as_handler_body error_reply_def)
  qed
qed

lemma app_auth_same [simp]: "st\<lparr>app_auth := app_auth st\<rparr> = st"
  by simp

lemma rsp_status_simps [simp]:
  "rsp_status (fst (error_reply n m)) = n" "rsp_status (fst (json_reply n b)) = n"
  "rsp_status (fst (with_cookie c r)) = rsp_status (fst r)"
  "snd (error_reply n m) = BodyNone" "snd (json_reply n b) = b" "snd (with_cookie c r) = snd r"
  by (simp_all add: error_reply_def json_reply_def error_response_def with_cookie_def header_append_def)

lemma login_limiter_audit [simp]:
  "app_login_limiter (app_audit env io kind actor message st) = app_login_limiter st"
  by (simp add: app_audit_def on_audit_def on_transport_def)

text \<open>Login attempts, each with what the other tasks did before it; the statuses answered.\<close>

type_synonym ('c, 'e) login_attempt = "('c, 'e) others \<times> ('c, 'e) io \<times> string \<times> string"

fun login_run ::
  "('c, 'e) app_env \<Rightarrow> ('c, 'e) app_state \<Rightarrow> ('c, 'e) login_attempt list \<Rightarrow> nat list" where
  "login_run env st [] = []"
| "login_run env st ((others, io, email, password) # rest) =
     (let (r, st') = auth_login env io email password (others st)
      in rsp_status (fst r) # login_run env st' rest)"

fun attempt_key :: "('c, 'e) login_attempt \<Rightarrow> string \<times> instant" where
  "attempt_key (others, io, email, password) = (auth_rate_limit_key email, io_now io)"

lemma auth_login_limits:
  "(rsp_status (fst (fst (auth_login env io email password st))) \<noteq> 429) =
     fst (check_and_record (app_login_limiter st) (auth_rate_limit_key email) (io_now io))"
  "app_login_limiter (snd (auth_login env io email password st)) =
     snd (check_and_record (app_login_limiter st) (auth_rate_limit_key email) (io_now io))"
  by (auto simp: auth_login_def Let_def split: prod.splits sum.splits auth_error.splits)

lemma login_run_limits:
  assumes "list_all (\<lambda>(others, _). \<forall>x. app_login_limiter (others x) = app_login_limiter x) as"
  shows "map (\<lambda>s. s \<noteq> 429) (login_run env st as) = rl_run (app_login_limiter st) (map attempt_key as)"
  using assms
proof (induction as arbitrary: st)
  case (Cons a as)
  obtain others io email password where a: "a = (others, io, email, password)"
    by (metis surj_pair)
  obtain r st' where l: "auth_login env io email password (others st) = (r, st')"
    by (metis surj_pair)
  show ?case
    using Cons.IH [of st'] Cons.prems auth_login_limits [of env io email password "others st"]
    by (simp add: a l split_beta Let_def)
qed simp

lemma filter_zip_admitted:
  "length (filter (\<lambda>(s, a). s \<noteq> (429 :: nat) \<and> P (attempt_key a)) (zip ss as)) =
   length (filter P (admitted (map (\<lambda>s. s \<noteq> 429) ss) (map attempt_key as)))"
proof (induction ss arbitrary: as)
  case (Cons s ss)
  then show ?case
    by (cases as) simp_all
qed simp

lemma login_then_current:
  assumes l: "login sha sv email password now token = (Inr (u, token'), sv')"
    and ok: "service_ok sv" and ttl: "0 < session_ttl (sv_config sv)"
  shows "token' = token" and "fst (current_user sv' token now) = Inr (Some u)"
    and "user_email u = normalize_email email"
proof -
  have "fst (login sha sv email password now token) = Inr (u, token')"
    by (simp add: l)
  then obtain su where "token' = token" and u: "su_user su = u" and np: "\<not> sv_poisoned sv"
    and e: "user_ids_by_email (sv_store sv) (normalize_email email) \<noteq> None"
    and su: "users_by_id (sv_store sv) (the (user_ids_by_email (sv_store sv) (normalize_email email))) = Some su"
    and sv': "snd (login sha sv email password now token) =
       sv\<lparr>sv_store := (sv_store sv)\<lparr>sessions_by_token := (sessions_by_token (sv_store sv))
         (token \<mapsto> \<lparr>sr_user_id = user_id u, sr_expires_at = now + session_ttl (sv_config sv),
                     sr_recent_mfa_at = None\<rparr>)\<rparr>\<rparr>"
    by (rule login_success)
  then show "token' = token"
    by simp
  have uo: "users_ok (sv_store sv) (next_user_id sv)"
    using ok by (simp add: service_ok_def)
  show "user_email u = normalize_email email"
    using uo e su u unfolding users_ok_def by force
  have user: "users_by_id (sv_store sv) (user_id u) = Some su"
    using uo su u unfolding users_ok_def by metis
  have np': "\<not> sv_poisoned sv'"
    using sv' np l by simp
  show "fst (current_user sv' token now) = Inr (Some u)"
    unfolding current_user_eq [OF np'] using sv' l user u ttl by simp
qed

lemma login_refused:
  assumes "login sha sv email password now token = (Inl e, sv')" and "\<not> sv_poisoned sv"
  shows "e = InvalidCredentials" and "sv' = sv"
  using assms by (auto simp: login_def Let_def split: option.splits if_splits)

lemma session_cookie_config:
  "sv_config sv = sv_config sv' \<Longrightarrow> session_cookie_header sv t = session_cookie_header sv' t"
  by (simp add: session_cookie_header_def)

lemma app_sessions_login_limiter [simp]:
  "app_sessions (st\<lparr>app_login_limiter := rl\<rparr>) = app_sessions st" by simp

text \<open>Closing many sessions, undisturbed: only the log and the channels change.\<close>

definition kept_but_log where
  "kept_but_log st = (app_sessions st, app_auth st, ts_connections (app_transport st),
                      ts_nodes (app_transport st))"

lemma kept_but_log_kept:
  assumes "kept st' = kept st"
  shows "kept_but_log st' = kept_but_log st"
  by (simp add: kept_but_log_def kept_D [OF assms])

definition session_ended :: "closed_session \<Rightarrow> audit_event_kind \<times> string option" where
  "session_ended c = (TerminalClosed, Some (fst (snd c)))"

lemma close_each_alone:
  assumes alone: "io_waiting io = (\<lambda>st. st)"
    and rec: "\<And>sid actor st. recorded (record_end sid actor st) = recorded st @ [(TerminalClosed, Some actor)]"
    and keep: "\<And>sid actor st. kept_but_log (record_end sid actor st) = kept_but_log st"
  shows "close_each env io e record_end cs st = (fin, st') \<Longrightarrow>
    kept_but_log st' = kept_but_log st
    \<and> (\<exists>n \<le> length cs. recorded st' = recorded st @ map session_ended (take n cs) \<and> (fin \<longrightarrow> n = length cs))"
proof (induction cs arbitrary: st)
  case Nil
  then show ?case by simp
next
  case (Cons c cs)
  obtain sid actor ch b where c: "c = (sid, actor, ch, b)"
    by (metis surj_pair)
  let ?st1 = "broadcast ch (ServerError (Some sid) e) st"
  have st1: "kept ?st1 = kept st"
    by simp
  have step: ?case if go: "close_each env io e record_end cs (record_end sid actor st2) = (fin, st')"
    and k: "kept st2 = kept st" for st2
  proof -
    have ih: "kept_but_log st' = kept_but_log (record_end sid actor st2)"
      "\<exists>n \<le> length cs. recorded st' = recorded (record_end sid actor st2) @ map session_ended (take n cs)
          \<and> (fin \<longrightarrow> n = length cs)"
      using Cons.IH [OF go] by auto
    then obtain n where n: "n \<le> length cs" "fin \<longrightarrow> n = length cs"
      "recorded st' = recorded st @ map session_ended (take (Suc n) (c # cs))"
      by (auto simp: rec kept_D [OF k] session_ended_def c)
    then show ?thesis
      using ih(1) keep kept_but_log_kept [OF k] by (intro conjI exI [of _ "Suc n"]) auto
  qed
  show ?case
  proof (cases b)
    case (Local h)
    then show ?thesis
      using Cons.prems by (intro step [of ?st1]) (simp_all add: c)
  next
    case (Remote h)
    obtain r st2 where s: "send_command env io h (CloseTerminal sid) ?st1 = (r, st2)"
      by (metis surj_pair)
    have k2: "kept st2 = kept st"
      using kept_send_alone [OF alone, of env h "CloseTerminal sid" ?st1] st1 by (simp add: s)
    show ?thesis
    proof (cases r)
      case (Done ok)
      then show ?thesis
        using Cons.prems k2 by (intro step [of "drop_command_sender env h st2"]) (simp_all add: c Remote s)
    next
      case Parked
      then have "fin = False" "st' = st2"
        using Cons.prems by (simp_all add: c Remote s)
      then show ?thesis
        using kept_but_log_kept [OF k2] kept_D(7) [OF k2] by (intro conjI exI [of _ 0]) simp_all
    qed
  qed
qed

definition example_headers :: header_map where
  "example_headers = [''cookie'' \<mapsto> HeaderText ''sunbolt_session=tok'']"

lemma example_token [simp]: "session_token_from_headers example_headers = Some ''tok''"
  by code_simp

lemma example_user:
  "fst (current_user (app_auth example_app) ''tok'' (io_now example_io)) = Inr (Some toy_user)"
  "can_open_terminal toy_user"
  by (simp_all add: current_user_eq toy_login_fields example_io_def secs_def toy_login_def login_def
      toy_service_eq toy_strings auth_store_default_def toy_user_def toy_config_def can_open_terminal_def Let_def)

section \<open>Properties\<close>

text \<open>The step-up endpoint verifies nothing. Whatever factor the request names, enrolled or not, a
  user with a live login session, a role that may open terminals and room in the limiter gets the
  answer that the challenge was passed, the log records the success of that factor, and the very
  next terminal request is authorised: the password alone opens a terminal although step-up MFA is
  required for it.\<close>

theorem step_up_accepts_any_factor:
  assumes "session_token_from_headers headers = Some token"
    and "fst (current_user (app_auth st) token (io_now io)) = Inr (Some u)"
    and "can_open_terminal u"
    and "fst (check_and_record (app_mfa_limiter st) (user_email u) (io_now io))"
  shows "fst (auth_mfa_step_up env io u headers factor st) = json_reply 200 (BodyStepUp factor)
    \<and> recorded (snd (auth_mfa_step_up env io u headers factor st)) =
        recorded st @ [(UserMfaChallenge, Some (user_email u)), (UserMfaSuccess, Some (user_email u))]
    \<and> fst (authorize_terminal_request (app_auth (snd (auth_mfa_step_up env io u headers factor st)))
             headers (io_now io)) = Inr u"
proof -
  obtain rl where rl: "check_and_record (app_mfa_limiter st) (user_email u) (io_now io) = (True, rl)"
    using assms(4) by (metis (full_types) prod.collapse)
  note open' = step_up_opens [OF assms(2,3,1)]
  obtain sv where sv: "record_mfa_success (app_auth st) token (io_now io) = (Inr (), sv)"
    using open'(1) by (metis prod.collapse)
  show ?thesis
    using open'(2) by (simp add: auth_mfa_step_up_def rl sv assms(1) Let_def)
qed

theorem step_up_accepts_any_factor_witness:
  "fst (auth_mfa_step_up example_env example_io toy_user example_headers FactorWebAuthn example_app) =
     json_reply 200 (BodyStepUp FactorWebAuthn)"
proof -
  have "fst (check_and_record (app_mfa_limiter example_app) (user_email toy_user) (io_now example_io))"
    by (simp add: example_app_def app_state_new_def check_and_record_def rate_limiter_new_def
        DEFAULT_MFA_RATE_MAX_def hm_get_def Let_def)
  from step_up_accepts_any_factor [OF example_token example_user this, of example_env FactorWebAuthn]
  show ?thesis ..
qed

text \<open>A request that passes every layer runs the handler of its route, for the user of its session.\<close>

lemma authorised_request_runs:
  assumes "route_of_path path = Some route" and "needs_auth route"
    and "is_allowed_origin (req_headers req) (app_allowed_origins st)"
    and "\<not> is_cors_preflight (req_method req) (req_headers req)"
    and "session_token_from_headers (req_headers req) = Some token"
    and "current_user (app_auth st) token (io_now io) = (Inr (Some u), sv)"
    and "needs_csrf route \<longrightarrow> has_valid_csrf_header (req_headers req)"
    and "method_allowed route (req_method req)"
  shows "snd (serve env io path body req st) =
    snd (user_handler env io route (req_headers req) body u (st\<lparr>app_auth := sv\<rparr>))"
proof -
  let ?s0 = "\<lparr>sd_app = st, sd_body = BodyNone, sd_parked = False\<rparr>"
  obtain r st' where h: "user_handler env io route (req_headers req) body u (st\<lparr>app_auth := sv\<rparr>) = (r, st')"
    by (metis surj_pair)
  have disp: "dispatch env io path body = route_handler env io route body"
    by (simp add: dispatch_def assms(1))
  have "\<exists>rsp b p. dispatch env io path body req (app_auth st, ?s0) =
      (rsp, app_auth st', \<lparr>sd_app = st', sd_body = b, sd_parked = p\<rparr>)"
    using assms(2,5-) h unfolding disp
    by (cases r) (auto simp: route_handler_def require_auth_middleware_def
        browser_csrf_middleware_def as_handler_body)
  then obtain rsp b p where d: "dispatch env io path body req (app_auth st, ?s0) =
      (rsp, app_auth st', \<lparr>sd_app = st', sd_body = b, sd_parked = p\<rparr>)"
    by blast
  show ?thesis
    using serve_passes [OF assms(3,4) d] h by (auto simp: answered_def)
qed

text \<open>C3: A handler behind the authentication layer runs only for a request that carries the token of a
  live login session, comes from an allowed origin, uses the route's method and, where the route
  changes state, has the CSRF header; it runs for the user of that session and the service's state
  afterwards is the one the handler leaves. Every other request is answered by a layer, and then
  nothing but the purge of expired login sessions has happened.\<close>

theorem protected_handlers_need_a_live_session:
  assumes "route_of_path path = Some route" and "needs_auth route"
  shows "(\<exists>u token.
      session_token_from_headers (req_headers req) = Some token
      \<and> fst (current_user (app_auth st) token (io_now io)) = Inr (Some u)
      \<and> is_allowed_origin (req_headers req) (app_allowed_origins st)
      \<and> (needs_csrf route \<longrightarrow> has_valid_csrf_header (req_headers req))
      \<and> method_allowed route (req_method req)
      \<and> snd (serve env io path body req st) =
          snd (user_handler env io route (req_headers req) body u
                 (st\<lparr>app_auth := snd (current_user (app_auth st) token (io_now io))\<rparr>)))
    \<or> (\<exists>rsp sv. serve env io path body req st = (Done (rsp, BodyNone), st\<lparr>app_auth := sv\<rparr>)
        \<and> rsp_status rsp \<in> {204, 401, 403, 405, 500}
        \<and> (\<exists>token. sv \<in> {app_auth st, snd (current_user (app_auth st) token (io_now io))}))"
proof -
  let ?hs = "req_headers req" and ?s0 = "\<lparr>sd_app = st, sd_body = BodyNone, sd_parked = False\<rparr>"
  show ?thesis
  proof (cases "is_allowed_origin ?hs (app_allowed_origins st) \<and> \<not> is_cors_preflight (req_method req) ?hs")
    case False
    then obtain rsp where "serve env io path body req st = (Done (rsp, BodyNone), st)"
      "rsp_status rsp \<in> {204, 403}"
      using serve_stops [of req st env io path body] by blast
    then show ?thesis
      by (intro disjI2 exI [of _ rsp] exI [of _ "app_auth st"]) auto
  next
    case True
    note pass = serve_passes [OF conjunct1 [OF True] conjunct2 [OF True]]
    have disp: "dispatch env io path body = route_handler env io route body"
      by (simp add: dispatch_def assms(1))
    show ?thesis
    proof (cases "\<exists>u token. session_token_from_headers ?hs = Some token
        \<and> fst (current_user (app_auth st) token (io_now io)) = Inr (Some u)
        \<and> (needs_csrf route \<longrightarrow> has_valid_csrf_header ?hs) \<and> method_allowed route (req_method req)")
      case True': True
      then obtain u token sv1 where tok: "session_token_from_headers ?hs = Some token"
        and cu: "current_user (app_auth st) token (io_now io) = (Inr (Some u), sv1)"
        and csrf: "needs_csrf route \<longrightarrow> has_valid_csrf_header ?hs"
        and meth: "method_allowed route (req_method req)"
        by (metis prod.collapse)
      then have "snd (serve env io path body req st) =
          snd (user_handler env io route ?hs body u (st\<lparr>app_auth := sv1\<rparr>))"
        using authorised_request_runs [OF assms _ _ tok cu] True by blast
      then show ?thesis
        using tok cu csrf meth True by (intro disjI1 exI [of _ u] exI [of _ token]) simp
    next
      case False
      then have "stopped st (io_now io) (dispatch env io path body req (app_auth st, ?s0))"
        unfolding disp by (intro route_stops [OF assms(2)])
      then obtain rsp sv s where d: "dispatch env io path body req (app_auth st, ?s0) = (rsp, sv, s)"
        and s: "answered s sv = st\<lparr>app_auth := sv\<rparr>" "sd_parked s = False" "sd_body s = BodyNone"
        and rsp: "rsp_status rsp \<in> {204, 401, 403, 405, 500}"
        and sv: "\<exists>token. sv \<in> {app_auth st, snd (current_user (app_auth st) token (io_now io))}"
        by (cases "dispatch env io path body req (app_auth st, ?s0)") (auto simp: stopped_def answered_def)
      obtain rsp' where "rsp_status rsp' = rsp_status rsp"
        "serve env io path body req st = (Done (rsp', BodyNone), st\<lparr>app_auth := sv\<rparr>)"
        using pass [OF d] s by auto
      then show ?thesis
        using rsp sv by (intro disjI2 exI [of _ rsp'] exI [of _ sv]) simp
    qed
  qed
qed

theorem protected_handlers_need_a_live_session_witness:
  "\<exists>rsp sv. serve example_env example_io [''auth'', ''me''] (BodyRejected 400)
      \<lparr>req_method = ''GET'', req_headers = Map.empty, req_request_id = None, req_user = None\<rparr> example_app =
      (Done (rsp, BodyNone), example_app\<lparr>app_auth := sv\<rparr>)
    \<and> rsp_status rsp \<in> {204, 401, 403, 405, 500}"
proof -
  have "route_of_path [''auth'', ''me''] = Some RouteMe" and "needs_auth RouteMe"
    by (simp_all add: route_of_path_def)
  moreover have "session_token_from_headers Map.empty = None"
    by (simp add: session_token_from_headers_def header_str_def)
  ultimately show ?thesis
    using protected_handlers_need_a_live_session [of "[''auth'', ''me'']" RouteMe
      "\<lparr>req_method = ''GET'', req_headers = Map.empty, req_request_id = None, req_user = None\<rparr>"
      example_app example_io example_env "BodyRejected 400"] by auto
qed

text \<open>A login attempt leaves exactly one trace. Refused by the limiter, which counts attempts by the
  trimmed, lower-cased e-mail address, it is answered 429 without a look at the password and
  recorded as failed; with the right password it opens a session for the user of that address, whose
  token is in the cookie of the answer and at once authenticates that user; with a wrong password it
  is answered 401, recorded as failed, and changes nothing else.\<close>

theorem login_is_limited_and_recorded:
  assumes "auth_login env io email password st = (r, st')"
    and "service_ok (app_auth st)" and "0 < session_ttl (sv_config (app_auth st))"
    and "\<not> sv_poisoned (app_auth st)"
  shows "(let key = auth_rate_limit_key email;
              lim = check_and_record (app_login_limiter st) key (io_now io)
    in app_login_limiter st' = snd lim \<and> app_sessions st' = app_sessions st \<and>
       (if \<not> fst lim
        then rsp_status (fst r) = 429 \<and> app_auth st' = app_auth st
          \<and> recorded st' = recorded st @ [(UserLoginFailed, Some key)]
        else
          case fst (login (te_sha (ae_transport env)) (app_auth st) email password (io_now io)
                      (io_new_token io)) of
            Inr (u, token) \<Rightarrow>
              rsp_status (fst r) = 200 \<and> snd r = BodyUser u
              \<and> header_values ''set-cookie'' (fst r) = [session_cookie_header (app_auth st') token]
              \<and> fst (current_user (app_auth st') token (io_now io)) = Inr (Some u)
              \<and> recorded st' = recorded st @ [(UserLoginSuccess, Some (user_email u))]
          | Inl e \<Rightarrow>
              e = InvalidCredentials \<and> rsp_status (fst r) = 401 \<and> app_auth st' = app_auth st
              \<and> recorded st' = recorded st @ [(UserLoginFailed, Some key)]))"
proof -
  obtain ok rl where lim: "check_and_record (app_login_limiter st) (auth_rate_limit_key email) (io_now io) = (ok, rl)"
    by (metis surj_pair)
  obtain x sv where l: "login (te_sha (ae_transport env)) (app_auth st) email password (io_now io)
      (io_new_token io) = (x, sv)"
    by (metis surj_pair)
  consider (limited) "\<not> ok" | (refused) e where "ok" "x = Inl e"
    | (accepted) u token where "ok" "x = Inr (u, token)"
    by (cases x) auto
  then show ?thesis
  proof cases
    case limited
    then show ?thesis
      using assms(1) lim by (auto simp: auth_login_def Let_def)
  next
    case refused
    then have "e = InvalidCredentials" "sv = app_auth st"
      using login_refused [OF l [unfolded refused(2)] assms(4)] by simp_all
    then show ?thesis
      using assms(1) lim l refused by (auto simp: auth_login_def Let_def)
  next
    case accepted
    note x = accepted(2)
    note cur = login_then_current [OF l [unfolded x] assms(2,3)]
    have r: "r = with_cookie (session_cookie_header sv token) (json_reply 200 (BodyUser u))"
      and st': "st' = app_audit env io UserLoginSuccess (Some (user_email u)) ''user authenticated''
                  (st\<lparr>app_login_limiter := rl, app_auth := sv\<rparr>)"
      using assms(1) lim l accepted by (auto simp: auth_login_def Let_def)
    have "header_values ''set-cookie'' (fst r) = [session_cookie_header sv token]"
      by (simp add: r with_cookie_def json_reply_def header_values_def header_append_def)
    then show ?thesis
      using accepted cur by (simp add: lim l r st' Let_def)
  qed
qed

theorem login_is_limited_and_recorded_witness:
  "rsp_status (fst (fst (auth_login example_env example_io ''a'' ''wrong'' (example_app\<lparr>app_auth := toy_service\<rparr>)))) = 401"
proof -
  let ?st = "example_app\<lparr>app_auth := toy_service\<rparr>"
  have ok: "service_ok (app_auth ?st)" "0 < session_ttl (sv_config (app_auth ?st))" "\<not> sv_poisoned (app_auth ?st)"
    using auth_reachable_ok [OF toy_reachable] by (simp_all add: toy_service_eq toy_config_def secs_def)
  have lim: "fst (check_and_record (app_login_limiter ?st) (auth_rate_limit_key ''a'') (io_now example_io))"
    by (simp add: example_app_def app_state_new_def check_and_record_def rate_limiter_new_def
        DEFAULT_LOGIN_RATE_MAX_def hm_get_def Let_def)
  have "password_hash toy_sha ''p'' \<noteq> password_hash (\<lambda>_. []) ''wrong''"
    by code_simp
  then have wrong: "fst (login (te_sha mail_env) toy_service ''a'' ''wrong'' (io_now example_io)
      (io_new_token example_io)) = Inl InvalidCredentials"
    by (simp add: login_def toy_service_eq toy_strings auth_store_default_def Let_def mail_env_def)
  show ?thesis
    using login_is_limited_and_recorded [of example_env example_io "''a''" "''wrong''" ?st,
        OF prod.collapse [symmetric] ok]
      lim wrong
    by (simp add: Let_def)
qed



text \<open>A revocation that is refused, by the permission check or by the registry, changes nothing.\<close>

lemma refused_revocation:
  assumes "revoke_node_route env io u nid st = (r, st')"
    and "revoke_node (ts_nodes (app_transport st)) nid (io_now io) = (x, reg)"
    and "\<not> (user_has_node_permission (app_auth st) u nid NODE_REVOKE = Inr True \<and> (\<exists>v. x = Inr v))"
  shows "\<exists>rsp. r = Done (rsp, BodyNone) \<and> st' = st"
proof -
  define st1 where "st1 = on_transport (\<lambda>t. t\<lparr>ts_nodes := reg\<rparr>) st"
  have st1: "on_nodes (\<lambda>reg. revoke_node reg nid (io_now io)) st = (x, st1)"
    by (simp add: on_nodes_def assms(2) st1_def)
  have "reg = ts_nodes (app_transport st)" if "x = Inl e" for e
    using assms(2) that by (auto simp: revoke_node_def Let_def split: option.splits)
  then have same: "st1 = st" if "x = Inl e" for e
    using that by (simp add: st1_def on_transport_def)
  show ?thesis
  proof (cases "user_has_node_permission (app_auth st) u nid NODE_REVOKE")
    case (Inr b)
    then show ?thesis
      using assms(1,3) st1 same
      by (cases b; cases x) (auto simp: revoke_node_route_def error_reply_def split: node_connection_error.splits)
  qed (use assms(1) in \<open>auto simp: revoke_node_route_def error_reply_def\<close>)
qed

text \<open>The sessions of the node are gone before the first of them is told; each one told is recorded.\<close>

lemma sessions_of_node_closed:
  assumes "close_sessions_for_node (app_sessions st) nid = (cs, reg, hs)"
    and "hm_ok (tr_sessions (app_sessions st))" and "\<not> tr_poisoned (app_sessions st)"
    and "io_waiting io = (\<lambda>st. st)"
    and "close_each env io m (record_node_session_closed env io nid) cs
           (close_ptys io hs (st\<lparr>app_sessions := reg\<rparr>)) = (fin, st')"
  shows "count_sessions (live_of_node (Some nid)) (tr_sessions (app_sessions st')) = 0
    \<and> ts_nodes (app_transport st') = ts_nodes (app_transport st)
    \<and> ts_connections (app_transport st') = ts_connections (app_transport st)
    \<and> (\<exists>n. recorded st' = recorded st @ map session_ended (take n cs) \<and> (fin \<longrightarrow> n = length cs))"
proof -
  have reg: "reg = (app_sessions st)\<lparr>tr_sessions :=
      filter (\<lambda>e. \<not> live_of_node (Some nid) (snd e)) (tr_sessions (app_sessions st))\<rparr>"
    using close_sessions_for_node_eq [OF assms(2,3), of nid] assms(1) by (simp add: Let_def)
  define st2 where "st2 = close_ptys io hs (st\<lparr>app_sessions := reg\<rparr>)"
  have "kept st2 = kept (st\<lparr>app_sessions := reg\<rparr>)"
    by (simp add: st2_def)
  note k = kept_D [OF this]
  have k2: "app_sessions st2 = reg" "ts_nodes (app_transport st2) = ts_nodes (app_transport st)"
    "ts_connections (app_transport st2) = ts_connections (app_transport st)" "recorded st2 = recorded st"
    by (simp_all add: k recorded_def app_events_def)
  have rec: "recorded (record_node_session_closed env io nid sid actor s) =
      recorded s @ [(TerminalClosed, Some actor)]" for sid actor and s :: "('a, 'b) app_state"
    by (simp add: record_node_session_closed_def record_terminal_closed_def record_event_def
        on_audit_def on_transport_def recorded_def app_events_def audit_record_def event_of_def Let_def)
  have keep: "kept_but_log (record_node_session_closed env io nid sid actor s) = kept_but_log s"
    for sid actor and s :: "('a, 'b) app_state"
    by (simp add: record_node_session_closed_def on_audit_def on_transport_def kept_but_log_def)
  obtain n where n: "kept_but_log st' = kept_but_log st2"
    "recorded st' = recorded st @ map session_ended (take n cs)" "fin \<longrightarrow> n = length cs"
    using close_each_alone [OF assms(4) rec keep assms(5) [folded st2_def]] k2(4) by auto
  have "count_sessions (live_of_node (Some nid)) (tr_sessions reg) = 0"
    by (simp add: reg count_sessions_def)
  then show ?thesis
    using n k2 by (auto simp: kept_but_log_def)
qed



end
