(* ===== verification/Sb_Browser.thy ===== *)
theory Sb_Browser
  imports Sb_Sessions
begin

text \<open>
  The terminal client that runs in the user's browser: the script that \<open>terminal_bridge_script\<close>
  (\<open>sunbolt-ui/src/browser_bridge.rs\<close>) writes into the page, and the settings it reads
  (\<open>api_client.rs\<close>, \<open>terminal_workspace.rs\<close>). The script's variables are the fields of \<open>browser\<close>; its
  calls on the browser (sockets, requests) are recorded in \<open>br_calls\<close>. \<open>browser_step\<close> is one turn of
  the browser's event loop: a click, a key, an event of a socket, or the answer to a request, after
  which the function that awaits it continues (\<open>pending\<close>). The body of an answer is read with the
  answer. The page has every element the script looks up, as \<open>pages.rs\<close> renders them, so the null
  checks are not modelled; nor are focus, scrolling and the highlighting of elements.
\<close>

section \<open>JavaScript\<close>

text \<open>\<open>null\<close>, \<open>undefined\<close> and the empty string are falsy.\<close>

definition truthy :: "string option \<Rightarrow> bool" where
  "truthy x = (x \<noteq> None \<and> x \<noteq> Some [])"

definition or_else :: "string option \<Rightarrow> string option \<Rightarrow> string option" where
  "or_else x y = (if truthy x then x else y)"

text \<open>\<open>String.prototype.trim\<close>: white space and line terminators, on UTF-8.\<close>

definition js_space :: "string \<Rightarrow> bool" where
  "js_space ch =
     (map byte_of ch \<in> set [[9], [10], [11], [12], [13], [32], [194, 160], [225, 154, 128],
        [226, 128, 128], [226, 128, 129], [226, 128, 130], [226, 128, 131], [226, 128, 132],
        [226, 128, 133], [226, 128, 134], [226, 128, 135], [226, 128, 136], [226, 128, 137],
        [226, 128, 138], [226, 128, 168], [226, 128, 169], [226, 128, 175], [226, 129, 159],
        [227, 128, 128], [239, 187, 191]])"

definition js_trim :: "string \<Rightarrow> string" where
  "js_trim s = concat (rev (dropWhile js_space (rev (dropWhile js_space (utf8_chars s)))))"

definition js_letter :: "char \<Rightarrow> bool" where
  "js_letter c = (is_ascii_upper c \<or> is_ascii_lower c)"

section \<open>Terminal data\<close>

definition terminal_data :: "string \<Rightarrow> string" where
  "terminal_data s = filter (\<lambda>c. byte_of c \<noteq> 0) s"

definition ESC :: char where
  "ESC = CHR 0x1B"

definition BEL :: char where
  "BEL = CHR 0x07"

text \<open>The rest of the text after the last \<open>ESC \\<close> of it.\<close>

fun after_last_st :: "string \<Rightarrow> string option" where
  "after_last_st [] = None"
| "after_last_st (c # cs) =
     (case after_last_st cs of
        Some r \<Rightarrow> Some r
      | None \<Rightarrow> (if c = ESC \<and> cs \<noteq> [] \<and> hd cs = CHR 0x5C then Some (tl cs) else None))"

text \<open>
  \<open>/\x1B\][^\x07]*(?:\x07|\x1B\\)/\<close> at the text after \<open>ESC ]\<close>: the class takes all the text up to the first
  \<open>BEL\<close>, which ends the match; only without one does the expression step back, to the last \<open>ESC \\<close>.
\<close>

definition after_osc :: "string \<Rightarrow> string option" where
  "after_osc r =
     (case dropWhile (\<lambda>c. c \<noteq> BEL) r of b # rest \<Rightarrow> Some rest | [] \<Rightarrow> after_last_st r)"

text \<open>\<open>/\x1B\[[0-?]*[ -/]*[@-~]/\<close> at the text after \<open>ESC [\<close>.\<close>

definition after_csi :: "string \<Rightarrow> string option" where
  "after_csi r =
     (let params = (\<lambda>c. 48 \<le> byte_of c \<and> byte_of c \<le> 63);
          inter = (\<lambda>c. 32 \<le> byte_of c \<and> byte_of c \<le> 47)
      in case dropWhile inter (dropWhile params r) of
           [] \<Rightarrow> None
         | c # rest \<Rightarrow> (if 64 \<le> byte_of c \<and> byte_of c \<le> 126 then Some rest else None))"

lemma after_last_st_length: "after_last_st s = Some r \<Longrightarrow> length r < length s"
  by (induction s arbitrary: r) (auto split: option.splits if_splits)

lemma after_osc_length: "after_osc r = Some rest \<Longrightarrow> length rest < Suc (length r)"
proof -
  assume a: "after_osc r = Some rest"
  have "length (dropWhile (\<lambda>c. c \<noteq> BEL) r) \<le> length r"
    by (rule length_dropWhile_le)
  then show ?thesis
    using a after_last_st_length [of r rest] by (auto simp: after_osc_def split: list.splits)
qed

lemma after_csi_length: "after_csi r = Some rest \<Longrightarrow> length rest < Suc (length r)"
proof -
  assume a: "after_csi r = Some rest"
  let ?d = "dropWhile (\<lambda>c. 32 \<le> byte_of c \<and> byte_of c \<le> 47)
      (dropWhile (\<lambda>c. 48 \<le> byte_of c \<and> byte_of c \<le> 63) r)"
  have "length ?d \<le> length r"
    by (meson length_dropWhile_le order_trans)
  then show ?thesis
    using a by (auto simp: after_csi_def Let_def split: list.splits if_splits)
qed

text \<open>The three replacements, one pass each.\<close>

function strip_osc :: "string \<Rightarrow> string" where
  "strip_osc [] = []"
| "strip_osc (c # cs) =
     (if c = ESC \<and> cs \<noteq> [] \<and> hd cs = CHR 0x5D
      then (case after_osc (tl cs) of Some rest \<Rightarrow> strip_osc rest | None \<Rightarrow> c # strip_osc cs)
      else c # strip_osc cs)"
  by pat_completeness auto
termination
proof (relation "measure length")
  fix c cs rest
  assume "c = ESC \<and> cs \<noteq> [] \<and> hd cs = CHR 0x5D" and "after_osc (tl cs) = Some rest"
  then show "(rest, c # cs) \<in> measure length"
    using after_osc_length [of "tl cs" rest] by (cases cs) auto
qed simp_all

function strip_csi :: "string \<Rightarrow> string" where
  "strip_csi [] = []"
| "strip_csi (c # cs) =
     (if c = ESC \<and> cs \<noteq> [] \<and> hd cs = CHR 0x5B
      then (case after_csi (tl cs) of Some rest \<Rightarrow> strip_csi rest | None \<Rightarrow> c # strip_csi cs)
      else c # strip_csi cs)"
  by pat_completeness auto
termination
proof (relation "measure length")
  fix c cs rest
  assume "c = ESC \<and> cs \<noteq> [] \<and> hd cs = CHR 0x5B" and "after_csi (tl cs) = Some rest"
  then show "(rest, c # cs) \<in> measure length"
    using after_csi_length [of "tl cs" rest] by (cases cs) auto
qed simp_all

fun strip_keypad :: "string \<Rightarrow> string" where
  "strip_keypad (c # d # cs) =
     (if c = ESC \<and> (d = CHR ''='' \<or> d = CHR ''>'') then strip_keypad cs else c # strip_keypad (d # cs))"
| "strip_keypad s = s"

definition strip_terminal_controls :: "string \<Rightarrow> string" where
  "strip_terminal_controls s = strip_keypad (strip_csi (strip_osc (terminal_data s)))"

section \<open>Addresses\<close>

definition TERMINAL_WS_ENDPOINT :: string where
  "TERMINAL_WS_ENDPOINT = ''/terminal/ws''"

definition TERMINAL_ACTIVE_SESSIONS_ENDPOINT :: string where
  "TERMINAL_ACTIVE_SESSIONS_ENDPOINT = ''/terminal/sessions/active''"

definition TERMINAL_DETACHED_SESSIONS_ENDPOINT :: string where
  "TERMINAL_DETACHED_SESSIONS_ENDPOINT = ''/terminal/sessions/detached''"

definition TERMINAL_SESSION_TERMINATE_PREFIX :: string where
  "TERMINAL_SESSION_TERMINATE_PREFIX = ''/terminal/sessions''"

definition AUTH_LOGIN_ENDPOINT :: string where
  "AUTH_LOGIN_ENDPOINT = ''/auth/login''"

definition AUTH_ME_ENDPOINT :: string where
  "AUTH_ME_ENDPOINT = ''/auth/me''"

definition AUTH_TERMINAL_ACCESS_ENDPOINT :: string where
  "AUTH_TERMINAL_ACCESS_ENDPOINT = ''/auth/terminal-access''"

definition STEP_UP_MFA_ENDPOINT :: string where
  "STEP_UP_MFA_ENDPOINT = ''/auth/mfa/step-up''"

text \<open>What the script reads of the page: two globals, the location, and the element's data set.\<close>

record page =
  pg_control_plane :: "string option"
  pg_ws_url :: "string option"
  pg_protocol :: string
  pg_hostname :: string
  pg_port :: string
  pg_host :: string
  pg_origin :: string
  pg_ws_endpoint :: "string option"

definition normalize_base_url :: "string \<Rightarrow> string" where
  "normalize_base_url v = rev (dropWhile (\<lambda>c. c = CHR ''/'') (rev (js_trim v)))"

definition control_plane_base_url :: "page \<Rightarrow> string" where
  "control_plane_base_url pg =
     (if truthy (pg_control_plane pg) then normalize_base_url (the (pg_control_plane pg))
      else if (pg_hostname pg = ''127.0.0.1'' \<or> pg_hostname pg = ''localhost'')
              \<and> pg_port pg \<noteq> ''3000''
      then pg_protocol pg @ ''//'' @ pg_hostname pg @ '':3000''
      else normalize_base_url (pg_origin pg))"

definition http_endpoint_url :: "page \<Rightarrow> string \<Rightarrow> string" where
  "http_endpoint_url pg path =
     (if prefix ''http://'' path \<or> prefix ''https://'' path then path
      else control_plane_base_url pg @ path)"

text \<open>\<open>http\<close> becomes \<open>ws\<close> and \<open>https\<close> becomes \<open>wss\<close>.\<close>

definition as_websocket :: "string \<Rightarrow> string option" where
  "as_websocket url =
     (case strip_prefix ''http://'' url of
        Some r \<Rightarrow> Some (''ws://'' @ r)
      | None \<Rightarrow> (case strip_prefix ''https://'' url of Some r \<Rightarrow> Some (''wss://'' @ r) | None \<Rightarrow> None))"

definition terminal_web_socket_url :: "page \<Rightarrow> string" where
  "terminal_web_socket_url pg =
     (if truthy (pg_ws_url pg) then the (pg_ws_url pg)
      else
        let configured = the (or_else (pg_ws_endpoint pg) (Some TERMINAL_WS_ENDPOINT))
        in if prefix ''ws://'' configured \<or> prefix ''wss://'' configured then configured
           else (case as_websocket configured of
               Some url \<Rightarrow> url
             | None \<Rightarrow>
                 (case as_websocket (control_plane_base_url pg) of
                    Some url \<Rightarrow> url @ configured
                  | None \<Rightarrow>
                      (if pg_protocol pg = ''https:'' then ''wss:'' else ''ws:'')
                        @ ''//'' @ pg_host pg @ configured)))"

section \<open>State\<close>

datatype ui_state =
  UiIdle | UiConnecting | UiConnected | UiDegraded | UiFailed | UiDisconnected | UiClosed

text \<open>A session the script remembers, as it keeps it in \<open>activeSessions\<close> and in the tab's storage.\<close>

record stored_session =
  ses_session_id :: string
  ses_node_id :: "string option"
  ses_reconnect_token :: "string option"
  ses_state :: "string option"
  ses_transport :: "terminal_transport_status option"

datatype bridge_message =
    BridgeStart "string option" nat nat
  | BridgeReattach string string
  | BridgeResize string nat nat
  | BridgeInput string string
  | BridgeDetach string
  | BridgeTerminate string

datatype browser_call =
  OpenSocket nat string | SendText nat bridge_message | CloseSocket nat | Request string string

datatype ready_state = SocketConnecting | SocketOpen | SocketClosing | SocketClosed

text \<open>A socket, with the argument of the call of \<open>connect\<close> that opened it.\<close>

record browser_socket =
  bs_ready :: ready_state
  bs_reattach :: bool

text \<open>Where \<open>ensureAuthenticatedSession\<close> returns to, and what an answer is awaited for.\<close>

datatype after_auth = ThenConnect bool | ThenFinishLogin | ThenStepUp

datatype pending =
  AwaitMe after_auth | AwaitAccess bool | AwaitLogin | AwaitStepUp | AwaitLists | AwaitNothing

text \<open>Which buttons are disabled.\<close>

record controls =
  dis_mfa :: bool
  dis_close :: bool
  dis_detach :: bool
  dis_new :: bool
  dis_reconnect :: bool
  dis_retry :: bool
  dis_node :: bool

record browser =
  br_session :: "string option"
  br_token :: "string option"
  br_cols :: nat
  br_rows :: nat
  br_width :: nat
  br_height :: nat
  br_socket :: "nat option"
  br_sockets :: "browser_socket list"
  br_xterm :: bool
  br_screen :: string
  br_fallback :: string
  br_cleaned_up :: bool
  br_authenticated :: bool
  br_login_busy :: bool
  br_email :: string
  br_password :: string
  br_node :: string
  br_label :: string
  br_status :: ui_state
  br_error :: string
  br_auth_visible :: bool
  br_ctrl :: bool
  br_sessions :: "(string, stored_session) hmap"
  br_tabs :: "stored_session list"
  br_detached :: "terminal_session_summary list"
  br_storage :: "(string option \<times> stored_session list) option"
  br_controls :: controls
  br_pending :: "pending list"
  br_calls :: "browser_call list"

section \<open>Status, errors and buttons\<close>

definition call :: "browser_call \<Rightarrow> browser \<Rightarrow> browser" where
  "call c b = b\<lparr>br_calls := br_calls b @ [c]\<rparr>"

definition await :: "pending \<Rightarrow> browser \<Rightarrow> browser" where
  "await p b = b\<lparr>br_pending := br_pending b @ [p]\<rparr>"

definition set_error :: "string \<Rightarrow> browser \<Rightarrow> browser" where
  "set_error m b = b\<lparr>br_error := m\<rparr>"

definition controls_of :: "browser \<Rightarrow> controls" where
  "controls_of b =
     \<lparr>dis_mfa = \<not> br_authenticated b \<or> br_login_busy b \<or> br_status b = UiConnecting,
      dis_close = \<not> br_authenticated b \<or> br_status b \<in> {UiIdle, UiClosed, UiDisconnected},
      dis_detach = \<not> br_authenticated b \<or> \<not> truthy (br_session b) \<or> br_status b = UiIdle,
      dis_new = \<not> br_authenticated b \<or> br_login_busy b \<or> br_status b = UiConnecting,
      dis_reconnect =
        \<not> (br_status b = UiDisconnected \<and> truthy (br_session b) \<and> truthy (br_token b)),
      dis_retry = br_login_busy b \<or> br_status b \<in> {UiConnecting, UiConnected, UiDegraded},
      dis_node = \<not> br_authenticated b \<or> br_login_busy b \<or> br_status b = UiConnecting\<rparr>"

definition sync_controls :: "browser \<Rightarrow> browser" where
  "sync_controls b = b\<lparr>br_controls := controls_of b\<rparr>"

definition set_status :: "string \<Rightarrow> ui_state \<Rightarrow> browser \<Rightarrow> browser" where
  "set_status label st b = sync_controls (b\<lparr>br_status := st, br_label := label\<rparr>)"

definition transport_status_label :: "terminal_transport_status option \<Rightarrow> string option" where
  "transport_status_label ts =
     (case ts of
        None \<Rightarrow> None
      | Some t \<Rightarrow>
          (if \<not> tts_degraded t then None
           else if tts_kind t = LongPollHttps then Some ''Degraded: Long Poll''
           else Some ''Degraded Transport''))"

definition report_transport_status ::
  "terminal_transport_status option \<Rightarrow> browser \<Rightarrow> bool \<times> browser" where
  "report_transport_status ts b =
     (case transport_status_label ts of
        None \<Rightarrow> (False, b)
      | Some label \<Rightarrow>
          (let b1 = set_status label UiDegraded b; m = tts_message (the ts)
           in (True, if truthy m then set_error (the m) b1 else b1)))"

definition set_auth_visible :: "bool \<Rightarrow> browser \<Rightarrow> browser" where
  "set_auth_visible v b = b\<lparr>br_auth_visible := v\<rparr>"

definition set_login_busy :: "bool \<Rightarrow> browser \<Rightarrow> browser" where
  "set_login_busy busy b = sync_controls (b\<lparr>br_login_busy := busy\<rparr>)"

definition write_output :: "string \<Rightarrow> browser \<Rightarrow> browser" where
  "write_output s b =
     (let safe = terminal_data s
      in b\<lparr>br_screen := br_screen b @ (if br_xterm b then safe else strip_terminal_controls safe)\<rparr>)"

section \<open>Remembered sessions\<close>

text \<open>\<open>slice(-6)\<close>, on ASCII session identifiers.\<close>

definition terminal_label :: "stored_session \<Rightarrow> string" where
  "terminal_label r =
     the (or_else (ses_node_id r) (Some ''local'')) @ '':''
       @ drop (length (ses_session_id r) - 6) (ses_session_id r)"

definition persist_workspace :: "browser \<Rightarrow> browser" where
  "persist_workspace b = b\<lparr>br_storage := Some (br_session b, map snd (br_sessions b))\<rparr>"

definition render_tabs :: "browser \<Rightarrow> browser" where
  "render_tabs b = b\<lparr>br_tabs := map snd (br_sessions b)\<rparr>"

definition render_detached_sessions :: "terminal_session_summary list \<Rightarrow> browser \<Rightarrow> browser" where
  "render_detached_sessions rs b = b\<lparr>br_detached := rs\<rparr>"

definition load_workspace :: "browser \<Rightarrow> string option \<times> browser" where
  "load_workspace b =
     (case br_storage b of
        None \<Rightarrow> (None, b)
      | Some (active, rs) \<Rightarrow>
          (if truthy active then active else None,
           b\<lparr>br_sessions := fold (\<lambda>r m. if ses_session_id r = [] then m
                                         else hm_put (ses_session_id r) r m) rs (br_sessions b)\<rparr>))"

definition remember_session ::
  "string \<Rightarrow> string option \<Rightarrow> string option \<Rightarrow> terminal_transport_status option
   \<Rightarrow> browser \<Rightarrow> browser" where
  "remember_session sid nid token ts b =
     (if sid = [] then b
      else render_tabs (persist_workspace
             (b\<lparr>br_sessions := hm_put sid
                 \<lparr>ses_session_id = sid, ses_node_id = (if truthy nid then nid else None),
                  ses_reconnect_token = or_else token (br_token b), ses_state = Some ''active'',
                  ses_transport = ts\<rparr> (br_sessions b)\<rparr>)))"

definition forget_session :: "string option \<Rightarrow> browser \<Rightarrow> browser" where
  "forget_session sid b =
     (if \<not> truthy sid then b
      else
        let b1 = b\<lparr>br_sessions := hm_rem (the sid) (br_sessions b)\<rparr>;
            b2 = (if br_session b1 = sid then b1\<lparr>br_session := None, br_token := None\<rparr> else b1)
        in render_tabs (persist_workspace b2))"

text \<open>\<open>{ ...stored, state: "detached", reconnect_token: reconnectToken }\<close>.\<close>

definition mark_detached :: "string \<Rightarrow> browser \<Rightarrow> browser" where
  "mark_detached sid b =
     (let stored = (case hm_get (br_sessions b) sid of
                      Some r \<Rightarrow> r
                    | None \<Rightarrow> \<lparr>ses_session_id = sid, ses_node_id = None, ses_reconnect_token = None,
                               ses_state = None, ses_transport = None\<rparr>)
      in render_tabs (persist_workspace
           (b\<lparr>br_sessions := hm_put sid (stored\<lparr>ses_state := Some ''detached'',
                 ses_reconnect_token := br_token b\<rparr>) (br_sessions b)\<rparr>)))"

text \<open>\<open>{ ...existing, ...record }\<close>: a summary of the server carries no reconnect token.\<close>

definition merge_summary ::
  "terminal_session_summary \<Rightarrow> (string, stored_session) hmap \<Rightarrow> (string, stored_session) hmap" where
  "merge_summary r m =
     hm_put (sum_session_id r)
       \<lparr>ses_session_id = sum_session_id r, ses_node_id = sum_node_id r,
        ses_reconnect_token =
          (case hm_get m (sum_session_id r) of None \<Rightarrow> None | Some e \<Rightarrow> ses_reconnect_token e),
        ses_state = Some (sum_state r), ses_transport = sum_transport_status r\<rparr> m"

section \<open>The socket\<close>

definition socket_ready :: "browser \<Rightarrow> nat \<Rightarrow> ready_state" where
  "socket_ready b n = bs_ready (br_sockets b ! n)"

definition set_ready :: "nat \<Rightarrow> ready_state \<Rightarrow> browser \<Rightarrow> browser" where
  "set_ready n r b = b\<lparr>br_sockets := (br_sockets b)[n := (br_sockets b ! n)\<lparr>bs_ready := r\<rparr>]\<rparr>"

definition bridge_send :: "bridge_message \<Rightarrow> browser \<Rightarrow> browser" where
  "bridge_send m b =
     (case br_socket b of
        None \<Rightarrow> b
      | Some n \<Rightarrow> (if socket_ready b n = SocketOpen then call (SendText n m) b else b))"

text \<open>\<open>socket.close()\<close>: no effect on a socket that is closing or closed.\<close>

definition close_socket :: "browser \<Rightarrow> browser" where
  "close_socket b =
     (case br_socket b of
        None \<Rightarrow> b
      | Some n \<Rightarrow>
          (if socket_ready b n \<in> {SocketConnecting, SocketOpen}
           then call (CloseSocket n) (set_ready n SocketClosing b) else b))"

text \<open>\<open>rect.width\<close> and \<open>rect.height\<close> enter rounded down, which the division rounds down anyway.\<close>

definition ui_resize :: "browser \<Rightarrow> browser" where
  "ui_resize b =
     (let b1 = b\<lparr>br_cols := max 20 (br_width b div 9), br_rows := max 6 (br_height b div 18)\<rparr>
      in if truthy (br_session b1)
         then bridge_send (BridgeResize (the (br_session b1)) (br_cols b1) (br_rows b1)) b1
         else b1)"

definition open_socket :: "page \<Rightarrow> bool \<Rightarrow> browser \<Rightarrow> browser" where
  "open_socket pg re b =
     (let b1 = close_socket (set_error '''' (set_status ''Connecting'' UiConnecting b));
          n = length (br_sockets b1)
      in call (OpenSocket n (terminal_web_socket_url pg))
           (b1\<lparr>br_sockets := br_sockets b1 @ [\<lparr>bs_ready = SocketConnecting, bs_reattach = re\<rparr>],
               br_socket := Some n\<rparr>))"

text \<open>The listeners of a socket.\<close>

definition on_open :: "nat \<Rightarrow> browser \<Rightarrow> browser" where
  "on_open n b =
     (let b1 = ui_resize (set_status ''Connected'' UiConnected (set_ready n SocketOpen b));
          nid = js_trim (br_node b1)
      in if bs_reattach (br_sockets b1 ! n) \<and> truthy (br_session b1) \<and> truthy (br_token b1)
         then bridge_send (BridgeReattach (the (br_session b1)) (the (br_token b1))) b1
         else bridge_send (BridgeStart (if nid = [] then None else Some nid) (br_cols b1) (br_rows b1)) b1)"

definition session_began ::
  "string \<Rightarrow> string option \<Rightarrow> string option \<Rightarrow> terminal_transport_status option
   \<Rightarrow> browser \<Rightarrow> browser" where
  "session_began sid nid token ts b =
     (let (shown, b1) = report_transport_status ts (remember_session sid nid token ts b)
      in if shown then b1 else set_status ''Active'' UiConnected b1)"

definition refresh_session_lists :: "page \<Rightarrow> browser \<Rightarrow> browser" where
  "refresh_session_lists pg b =
     (if \<not> br_authenticated b then b
      else await AwaitLists
             (call (Request ''GET'' (http_endpoint_url pg TERMINAL_DETACHED_SESSIONS_ENDPOINT))
               (call (Request ''GET'' (http_endpoint_url pg TERMINAL_ACTIVE_SESSIONS_ENDPOINT)) b)))"

fun on_message :: "page \<Rightarrow> terminal_server_message option \<Rightarrow> browser \<Rightarrow> browser" where
  "on_message pg None b =
     set_error ''Terminal server sent an invalid message.'' (set_status ''Error'' UiFailed b)"
| "on_message pg (Some (ServerStarted sid nid sz token ts)) b =
     session_began sid nid token ts
       (b\<lparr>br_session := Some sid, br_token := (if truthy token then token else None)\<rparr>)"
| "on_message pg (Some (ServerReattached sid nid sz token ts)) b =
     session_began sid nid token ts
       (b\<lparr>br_session := Some sid, br_token := or_else token (br_token b)\<rparr>)"
| "on_message pg (Some (ServerDetached sid)) b =
     set_status ''Detached'' UiDisconnected (refresh_session_lists pg (mark_detached sid b))"
| "on_message pg (Some (ServerOutput sid seq s)) b = write_output s b"
| "on_message pg (Some (ServerError sid e)) b =
     (let m = (if te_message e = [] then ''Terminal connection failed.'' else te_message e);
          eol = [CHR 0x0D, CHR 0x0A]
      in write_output (eol @ m @ eol) (set_error m (set_status ''Error'' UiFailed b)))"
| "on_message pg (Some (ServerExited sid x)) b =
     set_status ''Closed'' UiClosed (forget_session (Some sid) b)"
| "on_message pg (Some (ServerPong nonce)) b = b"

section \<open>Requests\<close>

datatype answer =
  Rejected
  | Answered nat "string option"
  | AnsweredLists "terminal_session_summary list option" "terminal_session_summary list option"

definition answer_ok :: "nat \<Rightarrow> bool" where
  "answer_ok status = (200 \<le> status \<and> status \<le> 299)"

text \<open>The error text of an answer: the second component, when its body has one that is not empty.\<close>

definition read_error_message :: "string option \<Rightarrow> string \<Rightarrow> string" where
  "read_error_message body fallback = the (or_else body (Some fallback))"

definition get_request :: "page \<Rightarrow> string \<Rightarrow> pending \<Rightarrow> browser \<Rightarrow> browser" where
  "get_request pg path p b = await p (call (Request ''GET'' (http_endpoint_url pg path)) b)"

definition post_request :: "page \<Rightarrow> string \<Rightarrow> pending \<Rightarrow> browser \<Rightarrow> browser" where
  "post_request pg path p b = await p (call (Request ''POST'' (http_endpoint_url pg path)) b)"

text \<open>The caller of \<open>ensureAuthenticatedSession\<close> goes on with its result.\<close>

definition connect_authenticated :: "page \<Rightarrow> bool \<Rightarrow> browser \<Rightarrow> browser" where
  "connect_authenticated pg re = get_request pg AUTH_TERMINAL_ACCESS_ENDPOINT (AwaitAccess re)"

fun after_session_check :: "page \<Rightarrow> after_auth \<Rightarrow> bool \<Rightarrow> browser \<Rightarrow> browser" where
  "after_session_check pg (ThenConnect re) ok b =
     (if ok then connect_authenticated pg re b else b)"
| "after_session_check pg ThenFinishLogin ok b =
     set_login_busy False (if ok then connect_authenticated pg False b else b)"
| "after_session_check pg ThenStepUp ok b =
     (if ok
      then post_request pg STEP_UP_MFA_ENDPOINT AwaitStepUp
             (set_error '''' (set_status ''MFA'' UiConnecting b))
      else b)"

definition ensure_authenticated_session :: "page \<Rightarrow> after_auth \<Rightarrow> browser \<Rightarrow> browser" where
  "ensure_authenticated_session pg k b =
     (if br_authenticated b then after_session_check pg k True b
      else get_request pg AUTH_ME_ENDPOINT (AwaitMe k)
             (set_error '''' (set_status ''Checking Session'' UiConnecting b)))"

definition connect_terminal :: "page \<Rightarrow> bool \<Rightarrow> browser \<Rightarrow> browser" where
  "connect_terminal pg re = ensure_authenticated_session pg (ThenConnect re)"

text \<open>The requests that can be refused: no longer signed in, and told so.\<close>

definition signed_out :: "string \<Rightarrow> ui_state \<Rightarrow> string \<Rightarrow> browser \<Rightarrow> browser" where
  "signed_out label st message b =
     set_error message (set_status label st (set_auth_visible True (b\<lparr>br_authenticated := False\<rparr>)))"

fun on_me :: "page \<Rightarrow> after_auth \<Rightarrow> answer \<Rightarrow> browser \<Rightarrow> browser" where
  "on_me pg k (Answered status body) b =
     (if answer_ok status
      then after_session_check pg k True
             (refresh_session_lists pg
               (set_status ''Idle'' UiIdle (set_auth_visible False (b\<lparr>br_authenticated := True\<rparr>))))
      else if status = 401
      then after_session_check pg k False
             (signed_out ''Login Required'' UiIdle ''Sign in before opening a terminal.'' b)
      else after_session_check pg k False
             (signed_out ''Error'' UiFailed
                (read_error_message body ''Unable to verify the current session.'') b))"
| "on_me pg k _ b =
     after_session_check pg k False
       (signed_out ''Error'' UiFailed ''Unable to reach the control plane.'' b)"

text \<open>A request that is rejected makes \<open>ensureTerminalAccess\<close> throw: the call of \<open>connect\<close> ends.\<close>

fun on_access :: "page \<Rightarrow> bool \<Rightarrow> answer \<Rightarrow> browser \<Rightarrow> browser" where
  "on_access pg re (Answered status body) b =
     (if answer_ok status then open_socket pg re b
      else
        let b1 = b\<lparr>br_authenticated := status \<noteq> 401\<rparr>;
            b2 = (if status = 401 then set_status ''Login Required'' UiIdle (set_auth_visible True b1)
                  else if status = 403 then set_status ''MFA Required'' UiFailed b1
                  else set_status ''Error'' UiFailed b1)
        in set_error (read_error_message body ''Unable to verify terminal access.'') b2)"
| "on_access pg re _ b = b"

fun on_login :: "page \<Rightarrow> answer \<Rightarrow> browser \<Rightarrow> browser" where
  "on_login pg (Answered status body) b =
     (if answer_ok status
      then ensure_authenticated_session pg ThenFinishLogin
             (b\<lparr>br_password := [], br_authenticated := False\<rparr>)
      else set_login_busy False
             (signed_out ''Login Required'' UiFailed (read_error_message body ''Login failed.'') b))"
| "on_login pg _ b =
     set_login_busy False
       (signed_out ''Error'' UiFailed ''Unable to sign in to the control plane.'' b)"

fun on_step_up :: "page \<Rightarrow> answer \<Rightarrow> browser \<Rightarrow> browser" where
  "on_step_up pg (Answered status body) b =
     (if answer_ok status then connect_terminal pg False b
      else
        let b1 = (if status = 401 then set_auth_visible True (b\<lparr>br_authenticated := False\<rparr>) else b)
        in set_error (read_error_message body ''Step-up MFA request failed.'')
             (set_status ''MFA Required'' UiFailed b1))"
| "on_step_up pg _ b =
     set_error ''Unable to complete step-up MFA.'' (set_status ''Error'' UiFailed b)"

fun on_lists :: "answer \<Rightarrow> browser \<Rightarrow> browser" where
  "on_lists (AnsweredLists act det) b =
     (let b1 = (case act of
                  None \<Rightarrow> b
                | Some rs \<Rightarrow> b\<lparr>br_sessions := fold merge_summary rs (br_sessions b)\<rparr>);
          b2 = (case det of None \<Rightarrow> b1 | Some rs \<Rightarrow> render_detached_sessions rs b1)
      in render_tabs (persist_workspace b2))"
| "on_lists _ b = b"

fun on_answer :: "page \<Rightarrow> pending \<Rightarrow> answer \<Rightarrow> browser \<Rightarrow> browser" where
  "on_answer pg (AwaitMe k) a b = on_me pg k a b"
| "on_answer pg (AwaitAccess re) a b = on_access pg re a b"
| "on_answer pg AwaitLogin a b = on_login pg a b"
| "on_answer pg AwaitStepUp a b = on_step_up pg a b"
| "on_answer pg AwaitLists a b = on_lists a b"
| "on_answer pg AwaitNothing a b = b"

section \<open>What the user does\<close>

definition ui_login :: "page \<Rightarrow> browser \<Rightarrow> browser" where
  "ui_login pg b =
     (if js_trim (br_email b) = [] \<or> br_password b = []
      then set_error ''Email and password are required.'' (set_status ''Login Required'' UiFailed b)
      else post_request pg AUTH_LOGIN_ENDPOINT AwaitLogin
             (set_error '''' (set_status ''Signing In'' UiConnecting (set_login_busy True b))))"

definition set_mobile_ctrl :: "bool \<Rightarrow> browser \<Rightarrow> browser" where
  "set_mobile_ctrl active b = b\<lparr>br_ctrl := active\<rparr>"

text \<open>\<open>String.fromCharCode(c.toUpperCase().charCodeAt(0) - 64)\<close>.\<close>

definition control_char :: "char \<Rightarrow> char" where
  "control_char c = char_of ((if is_ascii_lower c then byte_of c - 32 else byte_of c) - 64)"

definition send_input :: "string \<Rightarrow> browser \<Rightarrow> browser" where
  "send_input s b =
     (if \<not> truthy (br_session b) then b
      else
        let sid = the (br_session b); safe = terminal_data s
        in if br_ctrl b \<and> length safe = 1 \<and> js_letter (hd safe)
           then bridge_send (BridgeInput sid [control_char (hd safe)]) (set_mobile_ctrl False b)
           else bridge_send (BridgeInput sid safe) b)"

definition send_mobile_key :: "string \<Rightarrow> browser \<Rightarrow> browser" where
  "send_mobile_key s b = set_mobile_ctrl False (send_input s b)"

text \<open>The clipboard: not available, not readable, or its text.\<close>

datatype clipboard = NoClipboard | Unreadable | Clipboard string

fun send_mobile_paste :: "clipboard \<Rightarrow> browser \<Rightarrow> browser" where
  "send_mobile_paste NoClipboard b =
     set_error ''Clipboard paste is not available in this browser context.'' b"
| "send_mobile_paste Unreadable b = set_error ''Unable to read from the clipboard.'' b"
| "send_mobile_paste (Clipboard s) b = (if s = [] then b else send_mobile_key s b)"

record key_event =
  ke_key :: string
  ke_ctrl :: bool
  ke_shift :: bool

definition key_sequence :: "string \<Rightarrow> string option" where
  "key_sequence k =
     map_option (\<lambda>s. ESC # s)
       (map_of [(''ArrowUp'', ''[A''), (''ArrowDown'', ''[B''), (''ArrowRight'', ''[C''),
          (''ArrowLeft'', ''[D''), (''Home'', ''[H''), (''End'', ''[F''), (''Delete'', ''[3~''),
          (''PageUp'', ''[5~''), (''PageDown'', ''[6~'')] k)"

definition fallback_key :: "key_event \<Rightarrow> browser \<Rightarrow> browser" where
  "fallback_key e b =
     (if ke_ctrl e \<and> (ke_key e = ''c'' \<or> ke_key e = ''C'') then send_input [CHR 0x03] b
      else if ke_key e = ''Tab'' then send_input [CHR 0x09] b
      else (case key_sequence (ke_key e) of
              Some s \<Rightarrow> send_input s b
            | None \<Rightarrow>
                (if ke_key e = ''Enter'' \<and> \<not> ke_shift e
                 then (send_input (br_fallback b @ [CHR 0x0D]) b)\<lparr>br_fallback := []\<rparr>
                 else b)))"

definition close_terminal :: "page \<Rightarrow> browser \<Rightarrow> browser" where
  "close_terminal pg b =
     (let b1 = (if truthy (br_session b)
                then post_request pg
                       (TERMINAL_SESSION_TERMINATE_PREFIX @ ''/'' @ the (br_session b) @ ''/terminate'')
                       AwaitNothing (bridge_send (BridgeTerminate (the (br_session b))) b)
                else b)
      in set_status ''Closed'' UiClosed
           (close_socket ((forget_session (br_session b1) b1)\<lparr>br_token := None\<rparr>)))"

definition detach_terminal :: "browser \<Rightarrow> browser" where
  "detach_terminal b =
     (if \<not> truthy (br_session b) then b
      else
        let sid = the (br_session b)
        in set_status ''Detached'' UiDisconnected
             (close_socket (mark_detached sid (bridge_send (BridgeDetach sid) b))))"

definition close_ui_tab :: "browser \<Rightarrow> browser" where
  "close_ui_tab b = forget_session (br_session b) (detach_terminal b)"

text \<open>\<open>terminal.clear()\<close> keeps the prompt line; the screen is what was written since.\<close>

definition open_new_terminal :: "page \<Rightarrow> browser \<Rightarrow> browser" where
  "open_new_terminal pg b =
     (let b1 = (close_socket b)\<lparr>br_session := None, br_token := None\<rparr>;
          b2 = (if br_xterm b1 then b1\<lparr>br_screen := []\<rparr> else b1)
      in connect_terminal pg False b2)"

definition cleanup_terminal :: "browser \<Rightarrow> browser" where
  "cleanup_terminal b =
     (if br_cleaned_up b then b
      else
        let b1 = b\<lparr>br_cleaned_up := True\<rparr>
        in close_socket
             (if truthy (br_session b1) then bridge_send (BridgeDetach (the (br_session b1))) b1
              else b1))"

definition complete_step_up_mfa :: "page \<Rightarrow> browser \<Rightarrow> browser" where
  "complete_step_up_mfa pg = ensure_authenticated_session pg ThenStepUp"

definition click_reconnect :: "page \<Rightarrow> browser \<Rightarrow> browser" where
  "click_reconnect pg b =
     (if \<not> truthy (br_session b) \<or> \<not> truthy (br_token b) then b
      else connect_terminal pg True (set_status ''Reconnecting'' UiConnecting b))"

definition click_tab :: "page \<Rightarrow> stored_session \<Rightarrow> browser \<Rightarrow> browser" where
  "click_tab pg r b =
     connect_terminal pg True
       (set_status ''Reconnecting'' UiConnecting
         (b\<lparr>br_session := Some (ses_session_id r),
            br_token := or_else (ses_reconnect_token r) None\<rparr>))"

definition click_detached :: "page \<Rightarrow> terminal_session_summary \<Rightarrow> browser \<Rightarrow> browser" where
  "click_detached pg r b =
     (let stored = (case hm_get (br_sessions b) (sum_session_id r) of
                      None \<Rightarrow> None | Some e \<Rightarrow> ses_reconnect_token e);
          b1 = b\<lparr>br_session := Some (sum_session_id r), br_token := or_else stored (br_token b)\<rparr>
      in if \<not> truthy (br_token b1)
         then set_error ''This detached session requires a reconnect token from the active browser workspace.'' b1
         else connect_terminal pg True b1)"

section \<open>The event loop\<close>

datatype browser_event =
    UiLogin | UiNew | UiDetach | UiCloseTab | UiTerminate | UiStepUp | UiReconnect | UiRetry
  | UiTab nat | UiDetachedRow nat | UiTyped string | UiFallbackKey key_event | UiMobileKey string
  | UiMobileCtrl | UiPaste clipboard | UiMeasured nat nat | UiLeave
  | UiEdit string string string string
  | SocketOpened nat | SocketSaid nat "terminal_server_message option" | SocketEnded nat | SocketBroke nat
  | AnswerArrived nat answer

text \<open>
  A socket opens, speaks and ends only while its ready state allows it, as the WebSocket interface
  promises; the text fields change under the script by the user's editing. A button that is disabled is
  clicked here all the same: what holds of every sequence of events holds of the possible ones.
\<close>

fun browser_step :: "page \<Rightarrow> browser \<Rightarrow> browser_event \<Rightarrow> browser" where
  "browser_step pg b UiLogin = ui_login pg b"
| "browser_step pg b UiNew = open_new_terminal pg b"
| "browser_step pg b UiDetach = detach_terminal b"
| "browser_step pg b UiCloseTab = close_ui_tab b"
| "browser_step pg b UiTerminate = close_terminal pg b"
| "browser_step pg b UiStepUp = complete_step_up_mfa pg b"
| "browser_step pg b UiReconnect = click_reconnect pg b"
| "browser_step pg b UiRetry = connect_terminal pg False b"
| "browser_step pg b (UiTab i) = (if i < length (br_tabs b) then click_tab pg (br_tabs b ! i) b else b)"
| "browser_step pg b (UiDetachedRow i) =
     (if i < length (br_detached b) then click_detached pg (br_detached b ! i) b else b)"
| "browser_step pg b (UiTyped s) = (if br_xterm b then send_input s b else b)"
| "browser_step pg b (UiFallbackKey e) = (if br_xterm b then b else fallback_key e b)"
| "browser_step pg b (UiMobileKey s) = send_mobile_key s b"
| "browser_step pg b UiMobileCtrl = set_mobile_ctrl (\<not> br_ctrl b) b"
| "browser_step pg b (UiPaste c) = send_mobile_paste c b"
| "browser_step pg b (UiMeasured w h) =
     (if br_cleaned_up b then b\<lparr>br_width := w, br_height := h\<rparr>
      else ui_resize (b\<lparr>br_width := w, br_height := h\<rparr>))"
| "browser_step pg b UiLeave = cleanup_terminal b"
| "browser_step pg b (UiEdit email password nid typed) =
     b\<lparr>br_email := email, br_password := password, br_node := nid, br_fallback := typed\<rparr>"
| "browser_step pg b (SocketOpened n) =
     (if n < length (br_sockets b) \<and> socket_ready b n = SocketConnecting then on_open n b else b)"
| "browser_step pg b (SocketSaid n m) =
     (if n < length (br_sockets b) \<and> socket_ready b n = SocketOpen
      then on_message pg m b else b)"
| "browser_step pg b (SocketEnded n) =
     (if n < length (br_sockets b) \<and> socket_ready b n \<noteq> SocketClosed
      then set_status ''Disconnected'' UiDisconnected (set_ready n SocketClosed b) else b)"
| "browser_step pg b (SocketBroke n) =
     (if n < length (br_sockets b) \<and> socket_ready b n \<noteq> SocketClosed
      then set_error ''Unable to connect to the terminal WebSocket.'' (set_status ''Error'' UiFailed b)
      else b)"
| "browser_step pg b (AnswerArrived i a) =
     (if i < length (br_pending b)
      then on_answer pg (br_pending b ! i) a
             (b\<lparr>br_pending := take i (br_pending b) @ drop (Suc i) (br_pending b)\<rparr>)
      else b)"

text \<open>The script's start, once it knows whether xterm could be loaded.\<close>

definition browser_start ::
  "bool \<Rightarrow> nat \<Rightarrow> nat \<Rightarrow> (string option \<times> stored_session list) option \<Rightarrow> browser" where
  "browser_start xterm w h storage =
     \<lparr>br_session = None, br_token = None, br_cols = 80, br_rows = 24, br_width = w, br_height = h,
      br_socket = None, br_sockets = [], br_xterm = xterm, br_screen = [], br_fallback = [],
      br_cleaned_up = False, br_authenticated = False, br_login_busy = False, br_email = [],
      br_password = [], br_node = [], br_label = [], br_status = UiIdle, br_error = [],
      br_auth_visible = False, br_ctrl = False, br_sessions = [], br_tabs = [], br_detached = [],
      br_storage = storage,
      br_controls = \<lparr>dis_mfa = False, dis_close = False, dis_detach = False, dis_new = False,
                     dis_reconnect = False, dis_retry = False, dis_node = False\<rparr>,
      br_pending = [], br_calls = []\<rparr>"

definition run_bridge ::
  "page \<Rightarrow> bool \<Rightarrow> nat \<Rightarrow> nat \<Rightarrow> (string option \<times> stored_session list) option \<Rightarrow> browser" where
  "run_bridge pg xterm w h storage =
     (let (active, b) = load_workspace
            (set_auth_visible False (set_status ''Idle'' UiIdle (browser_start xterm w h storage)));
          b1 = render_tabs b
      in case active of
           None \<Rightarrow> connect_terminal pg False b1
         | Some sid \<Rightarrow>
             (case hm_get (br_sessions b1) sid of
                None \<Rightarrow> connect_terminal pg False b1
              | Some r \<Rightarrow>
                  let token = or_else (ses_reconnect_token r) None
                  in connect_terminal pg (truthy token)
                       (b1\<lparr>br_session := Some (ses_session_id r), br_token := token\<rparr>)))"

definition browser_run :: "page \<Rightarrow> browser \<Rightarrow> browser_event list \<Rightarrow> browser" where
  "browser_run pg b es = foldl (browser_step pg) b es"

section \<open>What every state has in common\<close>

text \<open>The part of the state that connections and frames depend on.\<close>

definition core where
  "core b = (br_session b, br_token b, br_socket b, br_sockets b, br_sessions b, br_cols b, br_rows b,
             filter (\<lambda>c. case c of SendText _ _ \<Rightarrow> True | _ \<Rightarrow> False) (br_calls b))"

lemma core_quiet [simp]:
  "core (set_error m b) = core b" "core (sync_controls b) = core b" "core (set_status l st b) = core b"
  "core (set_auth_visible v b) = core b" "core (set_login_busy v b) = core b"
  "core (write_output s b) = core b" "core (persist_workspace b) = core b" "core (render_tabs b) = core b"
  "core (render_detached_sessions rs b) = core b" "core (await p b) = core b"
  "core (call (Request x y) b) = core b" "core (call (CloseSocket n) b) = core b"
  "core (call (OpenSocket n x) b) = core b" "core (set_mobile_ctrl v b) = core b"
  "core (signed_out l st m b) = core b" "core (get_request pg x p b) = core b"
  "core (post_request pg x p b) = core b" "core (refresh_session_lists pg b) = core b"
  "core (connect_authenticated pg re b) = core b"
  by (simp_all add: core_def set_error_def sync_controls_def set_status_def set_auth_visible_def
      set_login_busy_def write_output_def persist_workspace_def render_tabs_def
      render_detached_sessions_def await_def call_def set_mobile_ctrl_def signed_out_def
      get_request_def post_request_def refresh_session_lists_def connect_authenticated_def Let_def)

lemma core_checks [simp]:
  "core (after_session_check pg k ok b) = core b"
  "core (ensure_authenticated_session pg k b) = core b" "core (connect_terminal pg re b) = core b"
proof -
  show a: "core (after_session_check pg k ok b) = core b" for ok b
    by (cases k) simp_all
  show e: "core (ensure_authenticated_session pg k b) = core b" for k b
    using a by (cases k) (simp_all add: ensure_authenticated_session_def)
  show "core (connect_terminal pg re b) = core b"
    by (simp add: connect_terminal_def e)
qed

lemma core_D:
  assumes "core b' = core b"
  shows "br_session b' = br_session b" "br_token b' = br_token b" "br_socket b' = br_socket b"
    "br_sockets b' = br_sockets b" "br_sessions b' = br_sessions b"
    "br_cols b' = br_cols b" "br_rows b' = br_rows b"
    "SendText n m \<in> set (br_calls b') \<longleftrightarrow> SendText n m \<in> set (br_calls b)"
proof -
  have "filter (\<lambda>c. case c of SendText _ _ \<Rightarrow> True | _ \<Rightarrow> False) (br_calls b') =
      filter (\<lambda>c. case c of SendText _ _ \<Rightarrow> True | _ \<Rightarrow> False) (br_calls b)"
    using assms by (simp add: core_def)
  from arg_cong [OF this, of "\<lambda>cs. SendText n m \<in> set cs"]
  show "SendText n m \<in> set (br_calls b') \<longleftrightarrow> SendText n m \<in> set (br_calls b)"
    by simp
qed (use assms in \<open>simp_all add: core_def\<close>)

text \<open>A frame is well formed: it names a session, its text has no NUL, its size is a usable one.\<close>

fun frame_ok :: "bridge_message \<Rightarrow> bool" where
  "frame_ok (BridgeStart nid c r) = (20 \<le> c \<and> 6 \<le> r \<and> nid \<noteq> Some [])"
| "frame_ok (BridgeReattach sid token) = (sid \<noteq> [] \<and> token \<noteq> [])"
| "frame_ok (BridgeResize sid c r) = (sid \<noteq> [] \<and> 20 \<le> c \<and> 6 \<le> r)"
| "frame_ok (BridgeInput sid s) = (sid \<noteq> [] \<and> terminal_data s = s)"
| "frame_ok (BridgeDetach sid) = (sid \<noteq> [])"
| "frame_ok (BridgeTerminate sid) = (sid \<noteq> [])"

text \<open>The remembered sessions are kept under their own identifiers.\<close>

definition stored_ok :: "(string, stored_session) hmap \<Rightarrow> bool" where
  "stored_ok m = (hm_ok m \<and> (\<forall>e \<in> set m. ses_session_id (snd e) = fst e))"

text \<open>Only the current socket is alive, and it is the last one opened.\<close>

fun sockets_ok :: "nat option \<Rightarrow> browser_socket list \<Rightarrow> bool" where
  "sockets_ok None ss = (ss = [])"
| "sockets_ok (Some n) ss =
     (Suc n = length ss \<and> (\<forall>i < n. bs_ready (ss ! i) \<in> {SocketClosing, SocketClosed}))"

definition browser_ok :: "browser \<Rightarrow> bool" where
  "browser_ok b =
     (20 \<le> br_cols b \<and> 6 \<le> br_rows b
      \<and> stored_ok (br_sessions b)
      \<and> sockets_ok (br_socket b) (br_sockets b)
      \<and> (\<forall>n m. SendText n m \<in> set (br_calls b) \<longrightarrow> n < length (br_sockets b) \<and> frame_ok m))"

lemma browser_ok_core: "core b' = core b \<Longrightarrow> browser_ok b' = browser_ok b"
  using core_D [of b' b] by (simp add: browser_ok_def)

lemma browser_ok_sessions: "browser_ok b \<Longrightarrow> stored_ok m \<Longrightarrow> browser_ok (b\<lparr>br_sessions := m\<rparr>)"
  by (simp add: browser_ok_def)

lemma stored_get:
  assumes "stored_ok m" and "hm_get m k = Some r"
  shows "ses_session_id r = k"
  using assms hm.entries_get [of m k r] by (fastforce simp: stored_ok_def)

lemma stored_iff: "stored_ok m \<longleftrightarrow> hm_ok m \<and> (\<forall>k r. hm_get m k = Some r \<longrightarrow> ses_session_id r = k)"
  using hm.entries_get [of m] by (fastforce simp: stored_ok_def)

lemma stored_put: "stored_ok m \<Longrightarrow> ses_session_id r = k \<Longrightarrow> stored_ok (hm_put k r m)"
  by (simp add: stored_iff hm.ok_put)

lemma stored_rem: "stored_ok m \<Longrightarrow> stored_ok (hm_rem k m)"
  by (simp add: stored_iff hm.ok_rem)

lemma browser_ok_stored: "browser_ok b \<Longrightarrow> stored_ok (br_sessions b)"
  by (simp add: browser_ok_def)

lemma browser_ok_fields [simp]:
  "browser_ok (b\<lparr>br_session := x\<rparr>) = browser_ok b" "browser_ok (b\<lparr>br_token := x\<rparr>) = browser_ok b"
  "browser_ok (b\<lparr>br_authenticated := v\<rparr>) = browser_ok b" "browser_ok (b\<lparr>br_password := y\<rparr>) = browser_ok b"
  "browser_ok (b\<lparr>br_pending := ps\<rparr>) = browser_ok b" "browser_ok (b\<lparr>br_cleaned_up := v\<rparr>) = browser_ok b"
  "browser_ok (b\<lparr>br_fallback := y\<rparr>) = browser_ok b" "browser_ok (b\<lparr>br_screen := y\<rparr>) = browser_ok b"
  "browser_ok (b\<lparr>br_width := i, br_height := j\<rparr>) = browser_ok b"
  "browser_ok (b\<lparr>br_email := y\<rparr>) = browser_ok b" "browser_ok (b\<lparr>br_node := y\<rparr>) = browser_ok b"
  by (simp_all add: browser_ok_def)

lemma browser_ok_quiet [simp]:
  "browser_ok (set_error m b) = browser_ok b" "browser_ok (sync_controls b) = browser_ok b"
  "browser_ok (set_status l st b) = browser_ok b" "browser_ok (set_auth_visible v b) = browser_ok b"
  "browser_ok (set_login_busy v b) = browser_ok b" "browser_ok (write_output s b) = browser_ok b"
  "browser_ok (persist_workspace b) = browser_ok b" "browser_ok (render_tabs b) = browser_ok b"
  "browser_ok (render_detached_sessions rs b) = browser_ok b" "browser_ok (set_mobile_ctrl v b) = browser_ok b"
  "browser_ok (signed_out l st m b) = browser_ok b" "browser_ok (get_request pg x p b) = browser_ok b"
  "browser_ok (post_request pg x p b) = browser_ok b"
  "browser_ok (refresh_session_lists pg b) = browser_ok b"
  "browser_ok (connect_authenticated pg re b) = browser_ok b"
  "browser_ok (after_session_check pg k ok b) = browser_ok b"
  "browser_ok (ensure_authenticated_session pg k b) = browser_ok b"
  "browser_ok (connect_terminal pg re b) = browser_ok b"
  by (rule browser_ok_core, simp)+

lemma browser_ok_send: "browser_ok b \<Longrightarrow> frame_ok m \<Longrightarrow> browser_ok (bridge_send m b)"
  by (cases "br_socket b") (auto simp: browser_ok_def bridge_send_def call_def)

lemma sockets_ok_ready:
  assumes "sockets_ok cur ss" and "n < length ss"
    and "r \<in> {SocketClosing, SocketClosed} \<or> bs_ready (ss ! n) \<in> {SocketConnecting, SocketOpen}"
  shows "sockets_ok cur (ss[n := (ss ! n)\<lparr>bs_ready := r\<rparr>])"
proof (cases cur)
  case (Some k)
  have "bs_ready (ss[n := (ss ! n)\<lparr>bs_ready := r\<rparr>] ! i) \<in> {SocketClosing, SocketClosed}" if "i < k" for i
    using assms Some that by (cases "i = n") auto
  then show ?thesis
    using assms(1) Some by simp
qed (use assms in auto)

lemma browser_ok_ready:
  assumes "browser_ok b" and "n < length (br_sockets b)"
    and "r \<in> {SocketClosing, SocketClosed} \<or> socket_ready b n \<in> {SocketConnecting, SocketOpen}"
  shows "browser_ok (set_ready n r b)"
  using assms sockets_ok_ready [of "br_socket b" "br_sockets b" n r]
  by (simp add: browser_ok_def set_ready_def socket_ready_def)

lemma current_socket_length: "browser_ok b \<Longrightarrow> br_socket b = Some n \<Longrightarrow> n < length (br_sockets b)"
  by (simp add: browser_ok_def)

lemma browser_ok_close: "browser_ok b \<Longrightarrow> browser_ok (close_socket b)"
proof (cases "br_socket b")
  case (Some n)
  assume ok: "browser_ok b"
  have "browser_ok (set_ready n SocketClosing b)"
    using browser_ok_ready [OF ok current_socket_length [OF ok Some]] by simp
  then have "browser_ok (call (CloseSocket n) (set_ready n SocketClosing b))"
    by (subst browser_ok_core [of _ "set_ready n SocketClosing b"]) simp_all
  then show ?thesis
    using ok Some by (simp add: close_socket_def)
qed (simp add: close_socket_def)

text \<open>Once closed, no socket is alive, and another may be opened.\<close>

lemma close_leaves_none:
  assumes "browser_ok b" and "i < length (br_sockets b)"
  shows "bs_ready (br_sockets (close_socket b) ! i) \<in> {SocketClosing, SocketClosed}"
proof -
  obtain n where n: "br_socket b = Some n" "Suc n = length (br_sockets b)"
    "\<forall>i < n. bs_ready (br_sockets b ! i) \<in> {SocketClosing, SocketClosed}"
    using assms by (cases "br_socket b") (auto simp: browser_ok_def)
  then have "i < n \<or> i = n"
    using assms(2) by auto
  then show ?thesis
    using n by (cases "bs_ready (br_sockets b ! n)")
      (auto simp: close_socket_def socket_ready_def set_ready_def call_def nth_list_update)
qed

lemma close_socket_keeps [simp]:
  "length (br_sockets (close_socket b)) = length (br_sockets b)"
  "br_session (close_socket b) = br_session b" "br_token (close_socket b) = br_token b"
  "br_sessions (close_socket b) = br_sessions b"
  by (simp_all add: close_socket_def set_ready_def call_def split: option.split)

lemma browser_ok_open_socket:
  assumes "browser_ok b"
  shows "browser_ok (open_socket pg re b)"
proof -
  let ?b1 = "close_socket (set_error '''' (set_status ''Connecting'' UiConnecting b))"
  let ?b2 = "?b1\<lparr>br_sockets := br_sockets ?b1 @ [\<lparr>bs_ready = SocketConnecting, bs_reattach = re\<rparr>],
               br_socket := Some (length (br_sockets ?b1))\<rparr>"
  have b: "browser_ok (set_error '''' (set_status ''Connecting'' UiConnecting b))"
    using assms by simp
  have "browser_ok ?b2"
    using browser_ok_close [OF b] close_leaves_none [OF b]
    by (auto simp: browser_ok_def nth_append less_Suc_eq)
  then show ?thesis
    unfolding open_socket_def Let_def
    by (subst browser_ok_core [of _ ?b2]) simp_all
qed

lemma truthy_the: "truthy x \<Longrightarrow> the x \<noteq> []"
  by (auto simp: truthy_def)

lemma browser_ok_resize: "browser_ok b \<Longrightarrow> browser_ok (ui_resize b)"
proof -
  assume "browser_ok b"
  then have "browser_ok (b\<lparr>br_cols := max 20 (br_width b div 9), br_rows := max 6 (br_height b div 18)\<rparr>)"
    by (simp add: browser_ok_def)
  then show ?thesis
    by (simp add: ui_resize_def Let_def truthy_the browser_ok_send)
qed

lemma resize_sizes: "20 \<le> br_cols (ui_resize b)" "6 \<le> br_rows (ui_resize b)"
  by (simp_all add: ui_resize_def bridge_send_def call_def Let_def split: option.split)

lemma browser_ok_on_open:
  assumes "browser_ok b" and "n < length (br_sockets b)" and "socket_ready b n = SocketConnecting"
  shows "browser_ok (on_open n b)"
proof -
  have "browser_ok (ui_resize (set_status ''Connected'' UiConnected (set_ready n SocketOpen b)))"
    using assms by (simp add: browser_ok_resize browser_ok_ready)
  then show ?thesis
    by (simp add: on_open_def Let_def truthy_the browser_ok_send resize_sizes)
qed

lemma browser_ok_remember: "browser_ok b \<Longrightarrow> browser_ok (remember_session sid nid token ts b)"
  by (auto simp: remember_session_def intro!: browser_ok_sessions stored_put browser_ok_stored)

lemma browser_ok_forget: "browser_ok b \<Longrightarrow> browser_ok (forget_session sid b)"
  by (auto simp: forget_session_def Let_def intro!: browser_ok_sessions stored_rem browser_ok_stored)

lemma browser_ok_mark_detached:
  assumes "browser_ok b"
  shows "browser_ok (mark_detached sid b)"
proof -
  let ?r = "case hm_get (br_sessions b) sid of Some r \<Rightarrow> r
      | None \<Rightarrow> \<lparr>ses_session_id = sid, ses_node_id = None, ses_reconnect_token = None,
                 ses_state = None, ses_transport = None\<rparr>"
  have "ses_session_id ?r = sid"
    using stored_get [OF browser_ok_stored [OF assms]] by (simp split: option.split)
  then have "stored_ok (hm_put sid (?r\<lparr>ses_state := Some ''detached'', ses_reconnect_token := br_token b\<rparr>)
      (br_sessions b))"
    using browser_ok_stored [OF assms] by (intro stored_put) simp_all
  from browser_ok_sessions [OF assms this] show ?thesis
    by (simp add: mark_detached_def Let_def)
qed

lemma stored_merge: "stored_ok m \<Longrightarrow> stored_ok (fold merge_summary rs m)"
  by (induction rs arbitrary: m) (simp_all add: merge_summary_def stored_put)

lemma browser_ok_lists:
  assumes "browser_ok b"
  shows "browser_ok (on_lists a b)"
proof (cases a)
  case (AnsweredLists act det)
  have "browser_ok (b\<lparr>br_sessions := fold merge_summary rs (br_sessions b)\<rparr>)" for rs
    by (rule browser_ok_sessions [OF assms stored_merge [OF browser_ok_stored [OF assms]]])
  with assms AnsweredLists show ?thesis
    by (cases act; cases det) simp_all
qed (use assms in simp_all)

lemma browser_ok_began: "browser_ok b \<Longrightarrow> browser_ok (session_began sid nid token ts b)"
  by (simp add: session_began_def report_transport_status_def browser_ok_remember Let_def split: option.split)

lemma browser_ok_message: "browser_ok b \<Longrightarrow> browser_ok (on_message pg m b)"
  by (cases "(pg, m, b)" rule: on_message.cases)
    (simp_all add: browser_ok_began browser_ok_mark_detached browser_ok_forget Let_def)

lemma browser_ok_answer: "browser_ok b \<Longrightarrow> browser_ok (on_answer pg p a b)"
  by (cases p; cases a) (auto simp: browser_ok_open_socket browser_ok_lists Let_def simp del: on_lists.simps)

lemma terminal_data_idem [simp]: "terminal_data (terminal_data s) = terminal_data s"
  by (simp add: terminal_data_def)

lemma control_char_clean: "js_letter c \<Longrightarrow> terminal_data [control_char c] = [control_char c]"
  by (auto simp: terminal_data_def js_letter_def control_char_def is_ascii_upper_def is_ascii_lower_def byte_of_def)

lemma browser_ok_input: "browser_ok b \<Longrightarrow> browser_ok (send_input s b)"
  by (auto simp: send_input_def Let_def truthy_the control_char_clean
      intro!: browser_ok_send)

lemma browser_ok_detach: "browser_ok b \<Longrightarrow> browser_ok (detach_terminal b)"
  by (simp add: detach_terminal_def Let_def browser_ok_close browser_ok_mark_detached browser_ok_send truthy_the)

lemma browser_ok_step:
  assumes "browser_ok b"
  shows "browser_ok (browser_step pg b e)"
proof (cases e)
  case (UiPaste c)
  then show ?thesis
    using assms by (cases c) (simp_all add: send_mobile_key_def browser_ok_input)
qed (use assms in \<open>simp_all add: ui_login_def open_new_terminal_def browser_ok_close browser_ok_detach
    close_ui_tab_def browser_ok_forget close_terminal_def browser_ok_send truthy_the complete_step_up_mfa_def
    click_reconnect_def click_tab_def click_detached_def browser_ok_input fallback_key_def send_mobile_key_def
    browser_ok_resize cleanup_terminal_def browser_ok_on_open browser_ok_message browser_ok_ready
    browser_ok_answer Let_def split: option.split\<close>)

lemma browser_ok_load: "browser_ok b \<Longrightarrow> browser_ok (snd (load_workspace b))"
proof -
  have "stored_ok m \<Longrightarrow>
      stored_ok (fold (\<lambda>r m. if ses_session_id r = [] then m else hm_put (ses_session_id r) r m) rs m)"
    for rs m
    by (induction rs arbitrary: m) (simp_all add: stored_put)
  then show "browser_ok b \<Longrightarrow> browser_ok (snd (load_workspace b))"
    by (auto simp: load_workspace_def browser_ok_sessions browser_ok_stored split: option.split)
qed

lemma browser_ok_run_bridge: "browser_ok (run_bridge pg xterm w h storage)"
proof -
  let ?b0 = "set_auth_visible False (set_status ''Idle'' UiIdle (browser_start xterm w h storage))"
  have "browser_ok (browser_start xterm w h storage)"
    by (simp add: browser_start_def browser_ok_def stored_ok_def)
  then have "browser_ok ?b0"
    by simp
  from browser_ok_load [OF this] show ?thesis
    by (cases "load_workspace ?b0") (simp add: run_bridge_def Let_def split: option.split)
qed

lemma browser_ok_run: "browser_ok b \<Longrightarrow> browser_ok (browser_run pg b es)"
  by (induction es arbitrary: b) (simp_all add: browser_run_def browser_ok_step)

text \<open>Storing distinct records under their own identifiers, in order, gives the map back.\<close>

lemma hm_put_new: "hm_get m k = None \<Longrightarrow> hm_put k v m = m @ [(k, v)]"
  by (induction m) (auto simp: hm_get_def hm_put_def split: if_splits)

lemma store_all:
  assumes "stored_ok (m @ rest)" and "[] \<notin> fst ` set rest"
  shows "fold (\<lambda>r m. if ses_session_id r = [] then m else hm_put (ses_session_id r) r m) (map snd rest) m
    = m @ rest"
  using assms
proof (induction rest arbitrary: m)
  case (Cons e rest)
  have e: "ses_session_id (snd e) = fst e" "fst e \<noteq> []" "hm_get m (fst e) = None"
    using Cons.prems by (auto simp: stored_ok_def hm_ok_def hm_get_def map_of_eq_None_iff)
  have "hm_put (fst e) (snd e) m = m @ [e]"
    using hm_put_new [OF e(3), of "snd e"] by simp
  then show ?case
    using Cons.IH [of "m @ [e]"] Cons.prems e by simp
qed simp

text \<open>The frames a socket has carried.\<close>

fun frames_on :: "nat \<Rightarrow> browser_call list \<Rightarrow> bridge_message list" where
  "frames_on n [] = []"
| "frames_on n (SendText k m # cs) = (if k = n then [m] else []) @ frames_on n cs"
| "frames_on n (_ # cs) = frames_on n cs"

lemma frames_on_append [simp]: "frames_on n (cs @ ds) = frames_on n cs @ frames_on n ds"
  by (induction n cs rule: frames_on.induct) simp_all

lemma bridge_send_open:
  assumes "br_socket b = Some n" and "socket_ready b n = SocketOpen"
  shows "bridge_send m b = call (SendText n m) b"
  using assms by (simp add: bridge_send_def)

lemma set_status_fields [simp]:
  "br_session (set_status l st b) = br_session b" "br_token (set_status l st b) = br_token b"
  "br_socket (set_status l st b) = br_socket b" "br_sockets (set_status l st b) = br_sockets b"
  "br_calls (set_status l st b) = br_calls b" "br_node (set_status l st b) = br_node b"
  "br_sessions (set_status l st b) = br_sessions b" "br_screen (set_status l st b) = br_screen b"
  "br_ctrl (set_status l st b) = br_ctrl b" "br_xterm (set_status l st b) = br_xterm b"
  by (simp_all add: set_status_def sync_controls_def)

lemma call_fields [simp]:
  "br_session (call c b) = br_session b" "br_token (call c b) = br_token b"
  "br_socket (call c b) = br_socket b" "br_sockets (call c b) = br_sockets b"
  "br_node (call c b) = br_node b" "br_calls (call c b) = br_calls b @ [c]"
  "br_cols (call c b) = br_cols b" "br_rows (call c b) = br_rows b"
  by (simp_all add: call_def)

text \<open>What a socket carries when it opens: a tab that holds a session sends its size first.\<close>

lemma on_open_frames:
  assumes "br_socket b = Some n" and "n < length (br_sockets b)"
  shows "\<not> truthy (br_session b) \<Longrightarrow>
      \<exists>nid c r. frames_on n (br_calls (on_open n b)) = frames_on n (br_calls b) @ [BridgeStart nid c r]"
    and "truthy (br_session b) \<Longrightarrow>
      \<exists>c r m. frames_on n (br_calls (on_open n b)) =
        frames_on n (br_calls b) @ [BridgeResize (the (br_session b)) c r, m]"
  using assms
  by (auto simp: on_open_def ui_resize_def bridge_send_def set_ready_def socket_ready_def Let_def)

text \<open>Two titles ended by \<open>ESC \\<close>, as most programs end them, and all the text between them is gone.\<close>

definition osc :: "string \<Rightarrow> string" where
  "osc s = [ESC, CHR 0x5D] @ s @ [ESC, CHR 0x5C]"

lemma last_st_found: "after_last_st (s @ [ESC, CHR 0x5C]) = Some []"
  by (induction s) (auto simp: ESC_def)

lemma osc_swallows_text:
  assumes "BEL \<notin> set (s @ t @ s')"
  shows "strip_osc (osc s @ t @ osc s') = []"
proof -
  have "dropWhile (\<lambda>c. c \<noteq> BEL) (s @ [ESC, CHR 0x5C] @ t @ osc s') = []"
    using assms by (auto simp: osc_def ESC_def BEL_def)
  moreover have "after_last_st (s @ [ESC, CHR 0x5C] @ t @ osc s') = Some []"
    using last_st_found [of "s @ [ESC, CHR 0x5C] @ t @ [ESC, CHR 0x5D] @ s'"] by (simp add: osc_def)
  ultimately have "after_osc (s @ [ESC, CHR 0x5C] @ t @ osc s') = Some []"
    unfolding after_osc_def by (simp only: list.case)
  then show ?thesis
    by (subst osc_def) simp
qed

section \<open>Properties\<close>



definition example_page :: page where
  "example_page = \<lparr>pg_control_plane = None, pg_ws_url = None, pg_protocol = ''https:'', pg_hostname = ''h'',
     pg_port = '''', pg_host = ''h'', pg_origin = ''https://h'', pg_ws_endpoint = None\<rparr>"

definition example_stored :: stored_session where
  "example_stored = \<lparr>ses_session_id = ''s'', ses_node_id = None, ses_reconnect_token = Some ''t'',
     ses_state = Some ''active'', ses_transport = None\<rparr>"

definition example_browser :: browser where
  "example_browser = (browser_start True 900 432 None)
     \<lparr>br_session := Some ''s'', br_token := Some ''t'', br_socket := Some 0, br_authenticated := True,
      br_sockets := [\<lparr>bs_ready = SocketConnecting, bs_reattach = True\<rparr>],
      br_sessions := [(''s'', example_stored)]\<rparr>"

lemma example_browser_ok: "browser_ok example_browser"
  by (simp add: example_browser_def browser_start_def browser_ok_def stored_ok_def example_stored_def hm_ok_def)


text \<open>Closing a tab leaves its session running without a way back to it. The script detaches the
  session and then forgets it together with its token; a later click on the session in the list of
  detached ones either asks for nothing and shows an error, or, when another session has been
  opened in the meantime, asks for the old session with the other session's token.\<close>

theorem closed_tab_loses_its_token:
  assumes "br_session b = Some sid" and "sid \<noteq> []" and "sum_session_id r = sid"
  shows "(let b' = close_ui_tab b in
     hm_get (br_sessions b') sid = None \<and> br_session b' = None \<and> br_token b' = None
     \<and> br_pending (click_detached pg r b') = br_pending b' \<and> br_calls (click_detached pg r b') = br_calls b'
     \<and> br_session (click_detached pg r (b'\<lparr>br_session := Some other, br_token := Some token\<rparr>)) = Some sid
     \<and> br_token (click_detached pg r (b'\<lparr>br_session := Some other, br_token := Some token\<rparr>)) = Some token)"
proof -
  have s: "br_session (detach_terminal b) = Some sid"
    using assms(1) by (simp add: detach_terminal_def mark_detached_def render_tabs_def persist_workspace_def
        bridge_send_def call_def Let_def split: option.split)
  have gone: "hm_get (br_sessions (close_ui_tab b)) sid = None" "br_session (close_ui_tab b) = None"
    "br_token (close_ui_tab b) = None"
    using assms(1,2) s by (simp_all add: close_ui_tab_def forget_session_def truthy_def render_tabs_def
        persist_workspace_def Let_def)
  have con: "br_session (connect_terminal pg re x) = br_session x" "br_token (connect_terminal pg re x) = br_token x"
    for re x
    using core_D [OF core_checks(3)] by simp_all
  show ?thesis
    using gone assms(3)
    by (simp add: click_detached_def or_else_def truthy_def set_error_def con Let_def)
qed

theorem closed_tab_loses_its_token_witness:
  "br_session (close_ui_tab example_browser) = None
   \<and> br_token (click_detached example_page \<lparr>sum_session_id = ''s'', sum_node_id = None, sum_state = ''detached'',
        sum_cols = 80, sum_rows = 24, sum_age_secs = 1, sum_idle_secs = 1, sum_transport_status = None\<rparr>
       ((close_ui_tab example_browser)\<lparr>br_session := Some ''x'', br_token := Some ''other''\<rparr>)) = Some ''other''"
proof -
  have s: "br_session example_browser = Some ''s''"
    by (simp add: example_browser_def)
  from closed_tab_loses_its_token [OF s, of "\<lparr>sum_session_id = ''s'', sum_node_id = None, sum_state = ''detached'',
        sum_cols = 80, sum_rows = 24, sum_age_secs = 1, sum_idle_secs = 1, sum_transport_status = None\<rparr>"
      example_page "''other''" "''x''"]
  show ?thesis by (simp add: Let_def)
qed

end
