(* ===== verification/Sb_System.thy ===== *)
theory Sb_System
  imports Sb_Browser Sb_Routes
begin

text \<open>
  The parts together: the script in the browser (\<open>Sb_Browser\<close>) on one end of a terminal's websocket, the
  control plane's handlers (\<open>Sb_Handlers\<close>) on the other. A frame is the JSON text of a message; the text
  is written by \<open>JSON.stringify\<close> and read by \<open>serde_json\<close>, so it enters as a parameter, with what
  \<open>serde\<close>'s derived reader accepts of the script's messages as the hypothesis \<open>reads_frames\<close>.
\<close>

section \<open>Frames\<close>

definition as_size :: "nat \<Rightarrow> nat \<Rightarrow> terminal_size option" where
  "as_size c r =
     (if c < 2 ^ 16 \<and> r < 2 ^ 16 then Some \<lparr>size_cols = of_nat c, size_rows = of_nat r\<rparr> else None)"

text \<open>\<open>TerminalClientMessage\<close>, from the script's object: a column or row that is no \<open>u16\<close> is refused.\<close>

fun as_client :: "bridge_message \<Rightarrow> terminal_client_message option" where
  "as_client (BridgeStart nid c r) = map_option (ClientStart nid) (as_size c r)"
| "as_client (BridgeReattach sid token) = Some (ClientReattach sid token)"
| "as_client (BridgeResize sid c r) = map_option (ClientResize sid) (as_size c r)"
| "as_client (BridgeInput sid s) = Some (ClientInput sid s)"
| "as_client (BridgeDetach sid) = Some (ClientDetach sid)"
| "as_client (BridgeTerminate sid) = Some (ClientTerminate sid)"

definition reads_frames :: "('c, 'e) app_env \<Rightarrow> (bridge_message \<Rightarrow> string) \<Rightarrow> bool" where
  "reads_frames env json =
     (\<forall>m. case as_client m of
            Some x \<Rightarrow> ae_parse_client env (json m) = Inr x
          | None \<Rightarrow> \<exists>e. ae_parse_client env (json m) = Inl e)"

lemma reads_parse:
  assumes "reads_frames env json" and "as_client m = Some x"
  shows "parse_client_message env (FrameText (json m)) = Inr x"
proof -
  have "ae_parse_client env (json m) = Inr x"
    using assms(1) [unfolded reads_frames_def, THEN spec, of m] assms(2) by simp
  then show ?thesis
    by (simp add: parse_client_message_def)
qed

lemma reads_resize:
  assumes "reads_frames env json"
  shows "(\<exists>e. parse_client_message env (FrameText (json (BridgeResize sid c r))) = Inl e)
    \<or> (\<exists>sz. parse_client_message env (FrameText (json (BridgeResize sid c r))) = Inr (ClientResize sid sz))"
proof (cases "as_size c r")
  case None
  then obtain e where "ae_parse_client env (json (BridgeResize sid c r)) = Inl e"
    using assms [unfolded reads_frames_def, THEN spec, of "BridgeResize sid c r"] by auto
  then show ?thesis
    by (simp add: parse_client_message_def)
next
  case (Some sz)
  then show ?thesis
    using reads_parse [OF assms, of "BridgeResize sid c r" "ClientResize sid sz"] by simp
qed

section \<open>Lemmas\<close>

text \<open>A connection whose first frame is a change of size is refused.\<close>

lemma resize_first_is_refused:
  assumes "reads_frames env json"
  shows "fst (open_terminal env io u (Some (FrameText (json (BridgeResize sid c r)))) w) = Done NotAttached"
    and "w_app (snd (open_terminal env io u (Some (FrameText (json (BridgeResize sid c r)))) w)) = w_app w"
  using reads_resize [OF assms, of sid c r]
  by (auto simp: open_terminal_def receive_start_message_def)

text \<open>Text typed into a tab that holds a session, on an open socket, is one frame.\<close>

lemma typed_frame:
  assumes "br_session b = Some sid" and "sid \<noteq> []" and "br_socket b = Some n"
    and "socket_ready b n = SocketOpen" and "\<not> br_ctrl b"
  shows "browser_step pg (b\<lparr>br_xterm := True\<rparr>) (UiTyped s) =
      call (SendText n (BridgeInput sid (terminal_data s))) (b\<lparr>br_xterm := True\<rparr>)"
  using assms by (simp add: send_input_def truthy_def bridge_send_def socket_ready_def)

section \<open>A wire format for the witnesses\<close>

text \<open>A text format that is read back as it was written, to show that \<open>reads_frames\<close> can hold.\<close>

definition enc_text :: "string \<Rightarrow> string" where
  "enc_text s = concat (map (\<lambda>c. [CHR ''c'', c]) s) @ ''.''"

fun take_text :: "string \<Rightarrow> string \<times> string" where
  "take_text (k # c # r) =
     (if k = CHR ''c'' then let (s, r') = take_text r in (c # s, r') else ([], c # r))"
| "take_text _ = ([], [])"

lemma take_text_enc [simp]: "take_text (enc_text s @ r) = (s, r)"
  by (induction s) (cases r, simp_all add: enc_text_def)

lemma take_text_last [simp]: "take_text (enc_text s) = (s, [])"
  using take_text_enc [of s "[]"] by simp

definition enc_nat :: "nat \<Rightarrow> string" where
  "enc_nat n = enc_text (replicate n CHR ''1'')"

fun encode_frame :: "bridge_message \<Rightarrow> string" where
  "encode_frame (BridgeStart None c r) = ''N'' @ enc_nat c @ enc_nat r"
| "encode_frame (BridgeStart (Some nid) c r) = ''S'' @ enc_nat c @ enc_nat r @ enc_text nid"
| "encode_frame (BridgeReattach sid token) = ''R'' @ enc_text sid @ enc_text token"
| "encode_frame (BridgeResize sid c r) = ''Z'' @ enc_nat c @ enc_nat r @ enc_text sid"
| "encode_frame (BridgeInput sid s) = ''I'' @ enc_text sid @ enc_text s"
| "encode_frame (BridgeDetach sid) = ''D'' @ enc_text sid"
| "encode_frame (BridgeTerminate sid) = ''T'' @ enc_text sid"

definition decode_frame :: "string \<Rightarrow> bridge_message option" where
  "decode_frame t =
     (case t of
        [] \<Rightarrow> None
      | k # rest \<Rightarrow>
          (let (a, r1) = take_text rest; (b, r2) = take_text r1; (c, r3) = take_text r2
           in if k = CHR ''N'' then Some (BridgeStart None (length a) (length b))
              else if k = CHR ''S'' then Some (BridgeStart (Some c) (length a) (length b))
              else if k = CHR ''R'' then Some (BridgeReattach a b)
              else if k = CHR ''Z'' then Some (BridgeResize c (length a) (length b))
              else if k = CHR ''I'' then Some (BridgeInput a b)
              else if k = CHR ''D'' then Some (BridgeDetach a)
              else if k = CHR ''T'' then Some (BridgeTerminate a) else None))"

lemma decode_encode: "decode_frame (encode_frame m) = Some m"
  by (cases m rule: encode_frame.cases) (simp_all add: decode_frame_def enc_nat_def)

definition wire_env :: "(agent_terminal_command mailbox, agent_terminal_event mailbox) app_env" where
  "wire_env = example_env
     \<lparr>ae_parse_client := (\<lambda>t. case decode_frame t of
                               None \<Rightarrow> Inl ''unknown variant''
                             | Some m \<Rightarrow> (case as_client m of None \<Rightarrow> Inl ''invalid size'' | Some x \<Rightarrow> Inr x))\<rparr>"

lemma wire_reads: "reads_frames wire_env encode_frame"
  by (simp add: reads_frames_def wire_env_def decode_encode split: option.split)

lemma wire_env_transport [simp]: "ae_transport wire_env = mail_env"
  by (simp add: wire_env_def example_env_def)

text \<open>The tab of \<open>example_browser\<close> with its socket open.\<close>

definition open_tab :: browser where
  "open_tab = set_ready 0 SocketOpen example_browser"

lemma example_tab [simp]:
  "br_socket example_browser = Some 0" "length (br_sockets example_browser) = 1"
  "socket_ready example_browser 0 = SocketConnecting" "br_calls example_browser = []"
  "br_session example_browser = Some ''s''" "br_socket open_tab = Some 0" "length (br_sockets open_tab) = 1"
  "socket_ready open_tab 0 = SocketOpen" "br_calls open_tab = []" "br_session open_tab = Some ''s''"
  "br_xterm open_tab" "\<not> br_ctrl open_tab" "br_screen open_tab = []"
  by (simp_all add: example_browser_def browser_start_def open_tab_def set_ready_def socket_ready_def)

text \<open>The events of the connected agent, one of them waiting.\<close>

definition heard_app ::
  "agent_terminal_event \<Rightarrow> (agent_terminal_command mailbox, agent_terminal_event mailbox) app_state" where
  "heard_app event = on_transport (update_link 0 (\<lambda>l. l\<lparr>lk_events := (mailbox_new 2)\<lparr>mb_queue := [event]\<rparr>\<rparr>)) example_app"

lemma heard_event:
  "\<exists>st1. take_event wire_env (rac_link example_connection) (w_app (example_wire\<lparr>w_app := heard_app event\<rparr>)) =
     (Received event, st1)"
  by (simp add: take_event_def heard_app_def on_transport_def update_link_def example_connection_def
      mailbox_recv_def)

section \<open>Properties\<close>

text \<open>C10: A tab that holds a session cannot reach the control plane again. When its socket opens, the
  script reports the terminal's size before it asks to reattach, and the handler refuses a
  connection whose first frame is neither a start nor a reattach: nothing happens to the session, and
  the connection is over. Only a tab without a session sends a start first.\<close>

theorem tab_with_a_session_cannot_reconnect:
  assumes "reads_frames env json" and "br_socket b = Some n" and "n < length (br_sockets b)"
    and "socket_ready b n = SocketConnecting" and "frames_on n (br_calls b) = []"
  shows "(let sent = frames_on n (br_calls (browser_step pg b (SocketOpened n)));
              opened = open_terminal env io u (Some (FrameText (json (hd sent)))) w
    in sent \<noteq> []
       \<and> (truthy (br_session b) \<longrightarrow> fst opened = Done NotAttached \<and> w_app (snd opened) = w_app w)
       \<and> (\<not> truthy (br_session b) \<longrightarrow> (\<exists>nid c r. sent = [BridgeStart nid c r])))"
proof (cases "truthy (br_session b)")
  case True
  obtain c r m where "frames_on n (br_calls (on_open n b)) = [BridgeResize (the (br_session b)) c r, m]"
    using on_open_frames(2) [OF assms(2,3) True] assms(5) by auto
  then show ?thesis
    using True assms(3,4) resize_first_is_refused [OF assms(1)] by (simp add: Let_def)
next
  case False
  obtain nid c r where "frames_on n (br_calls (on_open n b)) = [BridgeStart nid c r]"
    using on_open_frames(1) [OF assms(2,3) False] assms(5) by auto
  then show ?thesis
    using False assms(3,4) by (simp add: Let_def)
qed

theorem tab_with_a_session_cannot_reconnect_witness:
  "fst (open_terminal wire_env example_io toy_user (Some (FrameText (encode_frame
      (hd (frames_on 0 (br_calls (browser_step example_page example_browser (SocketOpened 0)))))))) example_wire)
   = Done NotAttached"
  using tab_with_a_session_cannot_reconnect [OF wire_reads, of example_browser 0 example_page example_io
      toy_user example_wire]
  by (simp add: truthy_def Let_def)

text \<open>What the user types reaches the shell. In a tab that holds a local session over an open socket,
  text typed becomes one frame, and the handler of that connection writes exactly the bytes of the
  text, without its NUL characters, to the session's shell, and to no other.\<close>

theorem typed_text_reaches_the_shell:
  assumes "reads_frames env json" and "br_session b = Some sid" and "sid \<noteq> []"
    and "br_socket b = Some n" and "socket_ready b n = SocketOpen" and "br_xterm b" and "\<not> br_ctrl b"
    and "frames_on n (br_calls b) = frames"
    and "\<not> is_closed (app_ptys (w_app w) ! h)" and "\<not> writer_poisoned (app_ptys (w_app w) ! h)"
    and "io_write io = None" and "io_flush io = None"
  shows "\<exists>m. frames_on n (br_calls (browser_step pg b (UiTyped s))) = frames @ [m]
    \<and> app_pty_calls (w_app (snd (handle_client_frame env io actor h sid (FrameText (json m)) w))) =
        app_pty_calls (w_app w)
          @ [(h, CallWriteAll (str_bytes (terminal_data s))), (h, CallFlush)]
    \<and> fst (handle_client_frame env io actor h sid (FrameText (json m)) w)"
proof -
  let ?m = "BridgeInput sid (terminal_data s)"
  have p: "parse_client_message env (FrameText (json ?m)) = Inr (ClientInput sid (terminal_data s))"
    by (rule reads_parse [OF assms(1)]) simp
  have "frames_on n (br_calls (browser_step pg b (UiTyped s))) = frames @ [?m]"
    using assms(2-8) by (simp add: send_input_def truthy_def bridge_send_def)
  moreover have "write_input (app_ptys (w_app w) ! h) (str_bytes (terminal_data s)) (io_write io) (io_flush io) =
      (Inr (), [CallWriteAll (str_bytes (terminal_data s)), CallFlush])"
    using assms(9-12) by (simp add: write_input_def)
  ultimately show ?thesis
    by (intro exI [of _ ?m])
      (simp add: handle_client_frame_def p handle_client_message_def pty_outcome_def on_pty_def Let_def)
qed

theorem typed_text_reaches_the_shell_witness:
  "\<exists>m. app_pty_calls (w_app (snd (handle_client_frame wire_env example_io ''a'' 0 ''s''
        (FrameText (encode_frame m)) example_wire))) =
      [(0, CallWriteAll (str_bytes (terminal_data ''ls''))), (0, CallFlush)]"
proof -
  have open_pty: "\<not> is_closed (app_ptys (w_app example_wire) ! 0)" "\<not> writer_poisoned (app_ptys (w_app example_wire) ! 0)"
    "io_write example_io = None" "io_flush example_io = None"
    by (simp_all add: example_pty_def is_closed_def example_io_def)
  have tab: "br_session open_tab = Some ''s''" "''s'' \<noteq> []" "br_socket open_tab = Some 0"
    "socket_ready open_tab 0 = SocketOpen" "br_xterm open_tab" "\<not> br_ctrl open_tab" "frames_on 0 (br_calls open_tab) = []"
    by simp_all
  show ?thesis
    using typed_text_reaches_the_shell [OF wire_reads tab open_pty, of example_page "''ls''" "''a''"] by auto
qed





text \<open>C18: Nor does it keep the terminals of a node apart. Whatever shell of the node the agent reports
  output of, another user's included, the handler that holds the node's queue sends it to its own
  browser, and the script writes it on the screen; only the record for the replay is made under
  the session it belongs to.\<close>

theorem output_of_other_sessions_is_shown:
  assumes "take_event env (rac_link conn) (w_app w) = (Received (TerminalOutput other dat), st1)"
    and "w_results w = []" and "n < length (br_sockets b)" and "socket_ready b n = SocketOpen" and "br_xterm b"
  shows "\<exists>m. w_sent (snd (remote_step env io u nid sid conn ch fl RemoteEvent w)) = w_sent w @ [m]
    \<and> br_screen (browser_step pg b (SocketSaid n (Some m))) = br_screen b @ terminal_data dat
    \<and> app_sessions (w_app (snd (remote_step env io u nid sid conn ch fl RemoteEvent w))) =
        snd (record_output (app_sessions st1) other dat)"
proof -
  obtain m reg where rec: "record_output (app_sessions st1) other dat = (m, reg)"
    by (rule prod.exhaust)
  have m: "m = None \<and> reg = app_sessions st1 \<or> (\<exists>k. m = Some (ServerOutput other k dat))"
    using rec by (auto simp: record_output_def Let_def split: option.splits)
  let ?m = "case m of Some x \<Rightarrow> x | None \<Rightarrow> ServerOutput other 0 dat"
  have out: "\<exists>k. ?m = ServerOutput other k dat"
    using m by auto
  then have flags: "\<not> is_started ?m" "\<not> is_error ?m" "\<not> is_exited ?m" "is_output ?m"
    by (auto simp: is_error_def is_exited_def Sb_Handlers.is_started_def)
  have "agent_event_to_browser_message (TerminalOutput other dat) nid (app_sessions st1) ts = (?m, reg)" for ts
    using m by (auto simp: agent_event_to_browser_message_def rec)
  then have "w_sent (snd (remote_step env io u nid sid conn ch fl RemoteEvent w)) = w_sent w @ [?m]
      \<and> app_sessions (w_app (snd (remote_step env io u nid sid conn ch fl RemoteEvent w))) = reg"
    using assms(1,2) flags
    by (simp add: hear_agent_def send_server_message_def note_message_def broadcast_def Let_def)
  moreover have "br_screen (browser_step pg b (SocketSaid n (Some ?m))) = br_screen b @ terminal_data dat"
    using out assms(3-5) by (auto simp: write_output_def Let_def)
  ultimately show ?thesis
    by (intro exI [of _ ?m]) (simp add: rec)
qed

theorem output_of_other_sessions_is_shown_witness:
  "\<exists>m. br_screen (browser_step example_page open_tab (SocketSaid 0 (Some m))) = terminal_data ''secret''"
proof -
  let ?w = "example_wire\<lparr>w_app := heard_app (TerminalOutput ''other'' ''secret'')\<rparr>"
  obtain st1 where ev: "take_event wire_env (rac_link example_connection) (w_app ?w) =
      (Received (TerminalOutput ''other'' ''secret''), st1)"
    using heard_event by blast
  have "w_results ?w = []"
    by (simp add: example_wire_def)
  moreover have "0 < length (br_sockets open_tab)" "socket_ready open_tab 0 = SocketOpen" "br_xterm open_tab"
    by simp_all
  ultimately have "\<exists>m. br_screen (browser_step example_page open_tab (SocketSaid 0 (Some m))) =
      br_screen open_tab @ terminal_data ''secret''"
    using output_of_other_sessions_is_shown [OF ev, where n = 0 and b = open_tab and pg = example_page]
    by blast
  then obtain m where "br_screen (browser_step example_page open_tab (SocketSaid 0 (Some m))) =
      br_screen open_tab @ terminal_data ''secret''"
    by blast
  then show ?thesis
    by (intro exI [of _ m]) (simp only: example_tab append_Nil)
qed

end
