(* ===== verification/Sb_Remote.thy ===== *)
theory Sb_Remote
  imports Sb_System Sb_Agent
begin

text \<open>
  A terminal on a node, from the keyboard to the shell and back. The pieces are those of the other
  theories: the script in the browser (\<open>Sb_Browser\<close>), the handler of its connection (\<open>Sb_Handlers\<close>), the
  agent's connection on the control plane (\<open>Sb_Transport\<close>) and the runtime of the agent (\<open>Sb_Agent\<close>). What lies
  between them is a FIFO: the web socket of the browser, the command channel of the agent's connection,
  the web socket of the agent, its event channel. Each piece takes its turn when it likes, and in
  between the rest of the control plane does what it likes to the shared state, as long as it leaves
  this channel alone. The abstract specification is one line each way: what was typed arrives at the
  shell in order and once, what the shell wrote and the channel took arrives on the screen in order and once.
\<close>

section \<open>A remote terminal\<close>

record ('c, 'e) remote_setup =
  su_env :: "('c, 'e) app_env"
  su_json :: "bridge_message \<Rightarrow> string"
  su_envelope :: "agent_transport_envelope \<Rightarrow> string"
  su_user :: user
  su_node :: node_id
  su_connection :: registered_agent_connection
  su_session :: terminal_session_id
  su_channel :: output_channel
  su_page :: page
  su_socket :: nat
  su_shell_env :: "string \<Rightarrow> string option"

abbreviation su_link :: "('c, 'e) remote_setup \<Rightarrow> nat" where
  "su_link su \<equiv> rac_link (su_connection su)"

text \<open>
  \<open>rm_handled\<close> frames of the browser have been read off its web socket by the handler, and
  \<open>rm_painted\<close> messages of the handler by the browser. \<open>rm_printed\<close> is a history: the texts the agent
  sent, each with the answer of the event channel.
\<close>

record ('c, 'e) remote_terminal =
  rm_browser :: browser
  rm_wire :: "('c, 'e) wire"
  rm_flags :: remote_flags
  rm_handled :: nat
  rm_painted :: nat
  rm_socket :: socket_connection
  rm_agent :: agent_terminal_runtime
  rm_calls :: "pty_call list"
  rm_printed :: "(string \<times> bool) list"

definition the_link :: "('c, 'e) remote_setup \<Rightarrow> ('c, 'e) remote_terminal \<Rightarrow> ('c, 'e) link" where
  "the_link su r = ts_links (app_transport (w_app (rm_wire r))) ! su_link su"

definition sent_frames :: "('c, 'e) remote_setup \<Rightarrow> ('c, 'e) remote_terminal \<Rightarrow> bridge_message list" where
  "sent_frames su r = frames_on (su_socket su) (br_calls (rm_browser r))"

text \<open>The user types a text.\<close>

definition type_text ::
  "('c, 'e) remote_setup \<Rightarrow> string \<Rightarrow> ('c, 'e) remote_terminal \<Rightarrow> ('c, 'e) remote_terminal" where
  "type_text su s r = r\<lparr>rm_browser := browser_step (su_page su) (rm_browser r) (UiTyped s)\<rparr>"

text \<open>The handler reads the next frame; while the command channel is full it waits with that frame.\<close>

definition take_frame ::
  "('c, 'e) remote_setup \<Rightarrow> ('c, 'e) io \<Rightarrow> ('c, 'e) remote_terminal \<Rightarrow> ('c, 'e) remote_terminal" where
  "take_frame su io r =
     (case drop (rm_handled r) (sent_frames su r) of
        [] \<Rightarrow> r
      | m # _ \<Rightarrow>
          (case handle_remote_client_frame (su_env su) io (su_user su) (su_link su) (su_session su)
                  (FrameText (su_json su m)) (rm_wire r) of
             (Parked, w) \<Rightarrow> r\<lparr>rm_wire := w\<rparr>
           | (Done _, w) \<Rightarrow> r\<lparr>rm_wire := w, rm_handled := rm_handled r + 1\<rparr>))"

text \<open>The agent obeys the commands of the envelopes it receives, one after the other.\<close>

fun obey ::
  "(string \<Rightarrow> string option) \<Rightarrow> pty_results \<Rightarrow> agent_terminal_command list
   \<Rightarrow> agent_terminal_runtime \<times> pty_call list \<Rightarrow> agent_terminal_runtime \<times> pty_call list" where
  "obey senv res [] s = s"
| "obey senv res (x # xs) s =
     (let (_, rt, calls) = handle_command senv res (fst s) x in obey senv res xs (rt, snd s @ calls))"

definition put_link ::
  "('c, 'e) remote_setup \<Rightarrow> ('c, 'e) link \<Rightarrow> ('c, 'e) wire \<Rightarrow> ('c, 'e) wire" where
  "put_link su l = on_app (on_transport (update_link (su_link su) (\<lambda>_. l)))"

text \<open>The agent's web socket takes the next command off the channel, and the agent obeys it.\<close>

definition ship_command ::
  "('c, 'e) remote_setup \<Rightarrow> pty_results \<Rightarrow> ('c, 'e) remote_terminal \<Rightarrow> ('c, 'e) remote_terminal" where
  "ship_command su res r =
     (case socket_step (ae_transport (su_env su)) (rm_socket r) (the_link su r) (SocketCommand True) of
        ((es, _, sc), l) \<Rightarrow>
          let (rt, calls) = obey (su_shell_env su) res (commands_in es) (rm_agent r, rm_calls r)
          in r\<lparr>rm_wire := put_link su l (rm_wire r), rm_socket := sc, rm_agent := rt, rm_calls := calls\<rparr>)"

text \<open>The agent reads its shell and sends what it read, under its own names, with a message
  identifier and an output sequence of its choice; the control plane reads the envelope.\<close>

definition print_output ::
  "('c, 'e) remote_setup \<Rightarrow> u8 list \<Rightarrow> agent_transport_message_id \<Rightarrow> terminal_output_sequence \<Rightarrow> instant
   \<Rightarrow> ('c, 'e) remote_terminal \<Rightarrow> ('c, 'e) remote_terminal" where
  "print_output su bs mid q now r =
     (case runtime_read_output (rm_agent r) (su_session su) (Inr bs) of
        (Inr (Some event), calls) \<Rightarrow>
          let hs = so_handshake (rm_socket r);
              e = envelope_current mid (hs_node_id hs) (hs_transport_id hs) (PayloadTerminalEvent (Some q) event);
              env = ae_transport (su_env su); l = the_link su r
          in (case socket_step env (rm_socket r) l (SocketMessage (WsText (su_envelope su e)) True now) of
                ((_, _, sc), l') \<Rightarrow>
                  r\<lparr>rm_wire := put_link su l' (rm_wire r), rm_socket := sc, rm_calls := rm_calls r @ calls,
                    rm_printed := rm_printed r
                      @ [(utf8_lossy bs,
                          fst (handle_agent_transport_envelope (te_events env) hs e (lk_events l))
                            = Inr TerminalEventReceived)]\<rparr>)
      | (_, calls) \<Rightarrow> r\<lparr>rm_calls := rm_calls r @ calls\<rparr>)"

text \<open>The handler takes an event off the channel and sends it to its browser, which reads it later.\<close>

definition relay_event ::
  "('c, 'e) remote_setup \<Rightarrow> ('c, 'e) io \<Rightarrow> ('c, 'e) remote_terminal \<Rightarrow> ('c, 'e) remote_terminal" where
  "relay_event su io r =
     (case remote_step (su_env su) io (su_user su) (su_node su) (su_session su) (su_connection su)
             (su_channel su) (rm_flags r) RemoteEvent ((rm_wire r)\<lparr>w_results := []\<rparr>) of
        ((_, fl), w) \<Rightarrow> r\<lparr>rm_wire := w, rm_flags := fl\<rparr>)"

definition paint ::
  "('c, 'e) remote_setup \<Rightarrow> ('c, 'e) remote_terminal \<Rightarrow> ('c, 'e) remote_terminal" where
  "paint su r =
     (if rm_painted r < length (w_sent (rm_wire r))
      then r\<lparr>rm_browser := browser_step (su_page su) (rm_browser r)
               (SocketSaid (su_socket su) (Some (w_sent (rm_wire r) ! rm_painted r))),
             rm_painted := rm_painted r + 1\<rparr>
      else r)"

datatype ('c, 'e) remote_event =
  Typed string
  | Handled "('c, 'e) io"
  | Shipped pty_results
  | Printed "u8 list" agent_transport_message_id terminal_output_sequence instant
  | Relayed "('c, 'e) io"
  | Painted
  | Meanwhile "('c, 'e) app_state \<Rightarrow> ('c, 'e) app_state"

fun remote_event_step ::
  "('c, 'e) remote_setup \<Rightarrow> ('c, 'e) remote_terminal \<Rightarrow> ('c, 'e) remote_event \<Rightarrow> ('c, 'e) remote_terminal" where
  "remote_event_step su r (Typed s) = type_text su s r"
| "remote_event_step su r (Handled io) = take_frame su io r"
| "remote_event_step su r (Shipped res) = ship_command su res r"
| "remote_event_step su r (Printed bs mid q now) = print_output su bs mid q now r"
| "remote_event_step su r (Relayed io) = relay_event su io r"
| "remote_event_step su r Painted = paint su r"
| "remote_event_step su r (Meanwhile f) = r\<lparr>rm_wire := on_app f (rm_wire r)\<rparr>"

definition remote_run ::
  "('c, 'e) remote_setup \<Rightarrow> ('c, 'e) remote_terminal \<Rightarrow> ('c, 'e) remote_event list \<Rightarrow> ('c, 'e) remote_terminal" where
  "remote_run su r es = foldl (remote_event_step su) r es"

section \<open>What is assumed of the surroundings\<close>

text \<open>An envelope that carries what a shell wrote is read as it was written.\<close>

definition reads_envelopes :: "('c, 'e) transport_env \<Rightarrow> (agent_transport_envelope \<Rightarrow> string) \<Rightarrow> bool" where
  "reads_envelopes env enc =
     (\<forall>mid nid tid q sid t.
        let e = envelope_current mid nid tid (PayloadTerminalEvent (Some q) (TerminalOutput sid t))
        in te_parse env (enc e) = Some e)"

text \<open>The rest of the control plane leaves the two channels of this connection alone, a write to the
  shell succeeds, a message identifier is not zero, and a handler that waits has nothing run for it.\<close>

definition keeps_link :: "nat \<Rightarrow> (('c, 'e) app_state \<Rightarrow> ('c, 'e) app_state) \<Rightarrow> bool" where
  "keeps_link h f =
     (\<forall>st. h < length (ts_links (app_transport st)) \<longrightarrow>
        h < length (ts_links (app_transport (f st)))
        \<and> lk_commands (ts_links (app_transport (f st)) ! h) = lk_commands (ts_links (app_transport st) ! h)
        \<and> lk_events (ts_links (app_transport (f st)) ! h) = lk_events (ts_links (app_transport st) ! h))"

fun event_allowed :: "('c, 'e) remote_setup \<Rightarrow> ('c, 'e) remote_event \<Rightarrow> bool" where
  "event_allowed su (Handled io) = (io_waiting io = (\<lambda>st. st))"
| "event_allowed su (Shipped res) = (pr_write res = None \<and> pr_flush res = None)"
| "event_allowed su (Printed bs mid q now) = (mid \<noteq> 0)"
| "event_allowed su (Meanwhile f) = keeps_link (su_link su) f"
| "event_allowed su _ = True"

text \<open>The terminal is running: the tab holds the session over an open socket, the agent has a live
  shell under it, both channels are open.\<close>

definition tab_ready :: "('c, 'e) remote_setup \<Rightarrow> browser \<Rightarrow> bool" where
  "tab_ready su b =
     (br_session b = Some (su_session su) \<and> su_session su \<noteq> []
      \<and> br_socket b = Some (su_socket su) \<and> su_socket su < length (br_sockets b)
      \<and> socket_ready b (su_socket su) = SocketOpen \<and> br_xterm b \<and> \<not> br_ctrl b)"

definition shell_ready :: "('c, 'e) remote_setup \<Rightarrow> agent_terminal_runtime \<Rightarrow> bool" where
  "shell_ready su rt =
     (case hm_get (atr_sessions rt) (su_session su) of
        None \<Rightarrow> False
      | Some s \<Rightarrow> \<not> is_closed s \<and> \<not> writer_poisoned s \<and> \<not> reader_poisoned s)"

definition channel_open :: "'a mailbox \<Rightarrow> bool" where
  "channel_open m = (\<not> mb_receiver_gone m \<and> \<not> mb_senders_gone m \<and> 0 < mb_capacity m)"

definition remote_ready ::
  "('c \<Rightarrow> agent_terminal_command mailbox) \<Rightarrow> ('e \<Rightarrow> agent_terminal_event mailbox)
   \<Rightarrow> ('c, 'e) remote_setup \<Rightarrow> ('c, 'e) remote_terminal \<Rightarrow> bool" where
  "remote_ready cview eview su r =
     (tab_ready su (rm_browser r) \<and> shell_ready su (rm_agent r)
      \<and> su_link su < length (ts_links (app_transport (w_app (rm_wire r))))
      \<and> channel_open (cview (lk_commands (the_link su r)))
      \<and> channel_open (eview (lk_events (the_link su r))))"

definition surroundings ::
  "('c \<Rightarrow> agent_terminal_command mailbox) \<Rightarrow> ('e \<Rightarrow> agent_terminal_event mailbox)
   \<Rightarrow> ('c, 'e) remote_setup \<Rightarrow> bool" where
  "surroundings cview eview su =
     (transport_channels (ae_transport (su_env su)) cview eview
      \<and> reads_frames (su_env su) (su_json su) \<and> reads_envelopes (ae_transport (su_env su)) (su_envelope su))"
section \<open>What each step does\<close>

definition shell_writes :: "string \<Rightarrow> pty_call list" where
  "shell_writes t = [CallWriteAll (str_bytes t), CallFlush]"

lemma on_app_same [simp]: "on_app (\<lambda>_. w_app w) w = w"
  by (simp add: on_app_def)

lemma put_link_simps [simp]:
  "w_sent (put_link su l w) = w_sent w" "w_results (put_link su l w) = w_results w"
  "length (ts_links (app_transport (w_app (put_link su l w)))) = length (ts_links (app_transport (w_app w)))"
  by (simp_all add: put_link_def on_transport_def update_link_def)

lemma the_link_put [simp]:
  "su_link su < length (ts_links (app_transport (w_app w))) \<Longrightarrow>
   ts_links (app_transport (w_app (put_link su l w))) ! su_link su = l"
  by (simp add: put_link_def on_transport_def update_link_def)

lemma type_text_effect:
  assumes "tab_ready su (rm_browser r)"
  shows "type_text su s r =
    r\<lparr>rm_browser := call (SendText (su_socket su) (BridgeInput (su_session su) (terminal_data s))) (rm_browser r)\<rparr>"
  using assms by (simp add: type_text_def tab_ready_def send_input_def truthy_def bridge_send_def)

text \<open>The channels behave as their view says.\<close>

lemma surroundings_channels:
  assumes "surroundings cview eview su"
  shows "mpsc_contract (te_commands (ae_transport (su_env su))) cview"
    and "mpsc_contract (te_events (ae_transport (su_env su))) eview"
  using assms by (simp_all add: surroundings_def transport_channels_def)

lemma send_command_effect:
  assumes mp: "mpsc_contract (te_commands (ae_transport env)) cview" and "io_waiting io = (\<lambda>st. st)"
    and l: "l = ts_links (app_transport st) ! h" and "channel_open (cview (lk_commands l))"
  shows "(if mailbox_accepts (cview (lk_commands l))
     then \<exists>c. cview c = (cview (lk_commands l))\<lparr>mb_queue := mb_queue (cview (lk_commands l)) @ [x]\<rparr>
        \<and> send_command env io h x st =
            (Done True, on_transport (update_link h (\<lambda>_. l\<lparr>lk_commands := c\<rparr>)) st)
     else send_command env io h x st = (Parked, st))"
proof -
  obtain ok c where s: "mp_try_send (te_commands (ae_transport env)) x (lk_commands l) = (ok, c)"
    by (rule prod.exhaust)
  have ok: "ok = mailbox_accepts (cview (lk_commands l))"
    using mpsc_contract.fst_try_send [OF mp, of x "lk_commands l"] s by simp
  have c: "cview c = snd (mailbox_send x (cview (lk_commands l)))"
    using mpsc_contract.view_snd_try_send [OF mp, of x "lk_commands l"] s by simp
  have open_channel: "\<not> command_channel_closed env h st"
    using assms(4) mpsc_contract.is_closed_view [OF mp] by (simp add: command_channel_closed_def l channel_open_def)
  have now: "send_now env h x st =
      (if ok then (Done True, on_transport (update_link h (\<lambda>_. l\<lparr>lk_commands := c\<rparr>)) st) else (Parked, st))"
    using open_channel s by (simp add: send_now_def offer_command_def l update_link_def on_transport_def)
  show ?thesis
  proof (cases ok)
    case True
    then show ?thesis
      using now ok c by (intro iffD2 [OF if_P] exI [of _ c]) (simp_all add: send_command_def mailbox_send_def)
  next
    case False
    then show ?thesis
      using now ok assms(2) by (simp add: send_command_def)
  qed
qed

lemma take_frame_effect:
  assumes "surroundings cview eview su" and "remote_ready cview eview su r" and "io_waiting io = (\<lambda>st. st)"
    and "drop (rm_handled r) (sent_frames su r) = BridgeInput (su_session su) t # rest"
  shows "(if mailbox_accepts (cview (lk_commands (the_link su r)))
     then \<exists>c. cview c = (cview (lk_commands (the_link su r)))
              \<lparr>mb_queue := mb_queue (cview (lk_commands (the_link su r))) @ [WriteInput (su_session su) t]\<rparr>
        \<and> take_frame su io r = r\<lparr>rm_wire := put_link su ((the_link su r)\<lparr>lk_commands := c\<rparr>) (rm_wire r),
              rm_handled := rm_handled r + 1\<rparr>
     else take_frame su io r = r)"
proof -
  let ?l = "the_link su r" and ?x = "WriteInput (su_session su) t"
  have "reads_frames (su_env su) (su_json su)"
    using assms(1) by (simp add: surroundings_def)
  then have p: "parse_client_message (su_env su) (FrameText (su_json su (BridgeInput (su_session su) t))) =
      Inr (ClientInput (su_session su) t)"
    by (rule reads_parse) simp
  have open_channel: "channel_open (cview (lk_commands ?l))"
    using assms(2) by (simp add: remote_ready_def)
  have l: "?l = ts_links (app_transport (w_app (rm_wire r))) ! su_link su"
    by (simp add: the_link_def)
  note send = send_command_effect [OF surroundings_channels(1) [OF assms(1)] assms(3) l open_channel, of ?x]
  have frame: "handle_remote_client_frame (su_env su) io (su_user su) (su_link su) (su_session su)
      (FrameText (su_json su (BridgeInput (su_session su) t))) (rm_wire r) =
    forward_command (su_env su) io (su_link su) (su_session su) ?x (rm_wire r)"
    by (simp add: handle_remote_client_frame_def p handle_remote_client_message_def)
  show ?thesis
  proof (cases "mailbox_accepts (cview (lk_commands ?l))")
    case True
    then obtain c where c: "cview c = (cview (lk_commands ?l))
        \<lparr>mb_queue := mb_queue (cview (lk_commands ?l)) @ [?x]\<rparr>"
      "send_command (su_env su) io (su_link su) ?x (w_app (rm_wire r)) =
        (Done True, on_transport (update_link (su_link su) (\<lambda>_. ?l\<lparr>lk_commands := c\<rparr>)) (w_app (rm_wire r)))"
      using send by auto
    then have "take_frame su io r = r\<lparr>rm_wire := put_link su (?l\<lparr>lk_commands := c\<rparr>) (rm_wire r),
        rm_handled := rm_handled r + 1\<rparr>"
      using assms(4) by (simp add: take_frame_def frame forward_command_def put_link_def on_app_def)
    then show ?thesis
      using True c(1) by auto
  next
    case False
    then have "send_command (su_env su) io (su_link su) ?x (w_app (rm_wire r)) = (Parked, w_app (rm_wire r))"
      using send by simp
    then show ?thesis
      using False assms(4) by (simp add: take_frame_def frame forward_command_def)
  qed
qed

text \<open>The agent's write of a text.\<close>

lemma obey_write:
  assumes "shell_ready su rt" and "pr_write res = None" and "pr_flush res = None"
  shows "obey senv res [WriteInput (su_session su) t] (rt, calls) = (rt, calls @ shell_writes t)"
  using assms by (auto simp: shell_ready_def runtime_session_def write_input_def shell_writes_def split: option.splits)

lemma ship_command_effect:
  assumes "surroundings cview eview su" and "remote_ready cview eview su r"
    and "pr_write res = None" and "pr_flush res = None"
    and "mb_queue (cview (lk_commands (the_link su r))) = map (WriteInput (su_session su)) q"
  shows "\<exists>c sc. so_handshake sc = so_handshake (rm_socket r)
     \<and> cview c = (cview (lk_commands (the_link su r)))\<lparr>mb_queue := map (WriteInput (su_session su)) (tl q)\<rparr>
     \<and> ship_command su res r = r\<lparr>rm_wire := put_link su ((the_link su r)\<lparr>lk_commands := c\<rparr>) (rm_wire r),
          rm_socket := sc, rm_calls := rm_calls r @ (case q of [] \<Rightarrow> [] | t # _ \<Rightarrow> shell_writes t)\<rparr>"
proof -
  let ?l = "the_link su r" and ?mp = "te_commands (ae_transport (su_env su))"
  note mp = surroundings_channels(1) [OF assms(1)]
  obtain x c where recv: "mp_recv ?mp (lk_commands ?l) = (x, c)"
    by (rule prod.exhaust)
  have x: "x = fst (mailbox_recv (cview (lk_commands ?l)))" and c: "cview c = snd (mailbox_recv (cview (lk_commands ?l)))"
    using mpsc_contract.fst_recv [OF mp, of "lk_commands ?l"] mpsc_contract.view_snd_recv [OF mp, of "lk_commands ?l"] recv
    by simp_all
  have ready: "shell_ready su (rm_agent r)" "channel_open (cview (lk_commands ?l))"
    using assms(2) by (simp_all add: remote_ready_def)
  show ?thesis
  proof (cases q)
    case Nil
    then have "x = Pending" "cview c = cview (lk_commands ?l)"
      using x c ready(2) assms(5) by (simp_all add: mailbox_recv_def channel_open_def)
    then show ?thesis
      using Nil assms(5) recv by (intro exI [of _ c] exI [of _ "rm_socket r"]) (simp add: ship_command_def)
  next
    case (Cons t q')
    then have "x = Received (WriteInput (su_session su) t)"
      and "cview c = (cview (lk_commands ?l))\<lparr>mb_queue := map (WriteInput (su_session su)) q'\<rparr>"
      using x c assms(5) by (simp_all add: mailbox_recv_def)
    moreover obtain sc where "sc = (rm_socket r)\<lparr>so_next_message_id := message_id_next (so_next_message_id (rm_socket r))\<rparr>"
      by blast
    ultimately show ?thesis
      using Cons recv obey_write [OF ready(1) assms(3,4)]
      by (intro exI [of _ c] exI [of _ sc]) (simp add: ship_command_def send_numbered_def del: obey.simps)
  qed
qed
lemma output_envelope:
  assumes "mid \<noteq> 0"
  shows "event_for hs (envelope_current mid (hs_node_id hs) (hs_transport_id hs)
      (PayloadTerminalEvent (Some q) (TerminalOutput sid t))) = Some (TerminalOutput sid t)"
  using assms by (simp add: event_for_def envelope_validate_def envelope_current_def message_id_is_valid_def)

lemma print_output_effect:
  assumes "surroundings cview eview su" and "remote_ready cview eview su r" and "mid \<noteq> 0" and "bs \<noteq> []"
  shows "\<exists>c sc. so_handshake sc = so_handshake (rm_socket r)
     \<and> eview c = snd (mailbox_send (TerminalOutput (su_session su) (utf8_lossy bs)) (eview (lk_events (the_link su r))))
     \<and> print_output su bs mid q now r = r\<lparr>rm_wire := put_link su ((the_link su r)\<lparr>lk_events := c\<rparr>) (rm_wire r),
          rm_socket := sc, rm_calls := rm_calls r @ [CallRead],
          rm_printed := rm_printed r @ [(utf8_lossy bs, mailbox_accepts (eview (lk_events (the_link su r))))]\<rparr>"
proof -
  let ?l = "the_link su r" and ?env = "ae_transport (su_env su)" and ?hs = "so_handshake (rm_socket r)"
  let ?ev = "TerminalOutput (su_session su) (utf8_lossy bs)"
  let ?e = "envelope_current mid (hs_node_id ?hs) (hs_transport_id ?hs) (PayloadTerminalEvent (Some q) ?ev)"
  have channels: "transport_channels ?env cview eview" and parse: "te_parse ?env (su_envelope su ?e) = Some ?e"
    using assms(1) by (simp_all add: surroundings_def reads_envelopes_def Let_def)
  have "shell_ready su (rm_agent r)"
    using assms(2) by (simp add: remote_ready_def)
  then have read: "runtime_read_output (rm_agent r) (su_session su) (Inr bs) = (Inr (Some ?ev), [CallRead])"
    using assms(4) by (auto simp: runtime_read_output_def runtime_session_def shell_ready_def read_output_def
        split: option.splits)
  obtain out c where h: "handle_agent_transport_envelope (te_events ?env) ?hs ?e (lk_events ?l) = (out, c)"
    by (rule prod.exhaust)
  have for_it: "event_for ?hs ?e = Some ?ev"
    by (rule output_envelope [OF assms(3)])
  have c: "eview c = snd (mailbox_send ?ev (eview (lk_events ?l)))"
    using transport_channels.view_handle_envelope [OF channels, of ?hs ?e "lk_events ?l"] h for_it by simp
  have out: "out = (if mailbox_accepts (eview (lk_events ?l)) then Inr TerminalEventReceived
      else Inl (transport_error CodeBackpressureLimitExceeded ''terminal event channel is full''))"
    using transport_channels.handle_envelope_full [OF channels for_it, of "lk_events ?l"] h
    by (simp add: mailbox_accepts_room)
  obtain es why sc l' where step: "socket_step ?env (rm_socket r) ?l
      (SocketMessage (WsText (su_envelope su ?e)) True now) = ((es, why, sc), l')"
    by (metis surj_pair)
  have l': "l' = ?l\<lparr>lk_events := c\<rparr>" and sc: "so_handshake sc = ?hs"
    using step h parse out by (auto simp: parse_transport_envelope_def send_numbered_def Let_def split: if_splits)
  have "print_output su bs mid q now r = r\<lparr>rm_wire := put_link su (?l\<lparr>lk_events := c\<rparr>) (rm_wire r),
      rm_socket := sc, rm_calls := rm_calls r @ [CallRead],
      rm_printed := rm_printed r @ [(utf8_lossy bs, out = Inr TerminalEventReceived)]\<rparr>"
    using read step h by (simp add: print_output_def l' Let_def del: socket_step.simps)
  then show ?thesis
    using c sc out by (intro exI [of _ c] exI [of _ sc]) auto
qed

lemma print_nothing:
  assumes "remote_ready cview eview su r"
  shows "print_output su [] mid q now r = r\<lparr>rm_calls := rm_calls r @ [CallRead]\<rparr>"
proof -
  have "shell_ready su (rm_agent r)"
    using assms by (simp add: remote_ready_def)
  then have "runtime_read_output (rm_agent r) (su_session su) (Inr []) = (Inr None, [CallRead])"
    by (auto simp: runtime_read_output_def runtime_session_def shell_ready_def read_output_def split: option.splits)
  then show ?thesis
    by (simp add: print_output_def)
qed

lemma output_message:
  "\<exists>seq. fst (agent_event_to_browser_message (TerminalOutput sid t) nid reg status) = ServerOutput sid seq t"
  by (auto simp: agent_event_to_browser_message_def record_output_def push_replay_def Let_def split: option.split)

lemma note_message_links [simp]:
  "app_transport (note_message env io actor nid sid ch (ServerOutput s seq t) st) = app_transport st"
  by (simp add: note_message_def Sb_Handlers.is_started_def on_sessions_def broadcast_def Let_def)

lemma relay_event_effect:
  assumes "surroundings cview eview su" and "remote_ready cview eview su r"
    and "mb_queue (eview (lk_events (the_link su r))) = map (TerminalOutput (su_session su)) (t # rest)"
  shows "\<exists>w fl seq c. relay_event su io r = r\<lparr>rm_wire := w, rm_flags := fl\<rparr>
     \<and> w_sent w = w_sent (rm_wire r) @ [ServerOutput (su_session su) seq t]
     \<and> eview c = (eview (lk_events (the_link su r)))\<lparr>mb_queue := map (TerminalOutput (su_session su)) rest\<rparr>
     \<and> ts_links (app_transport (w_app w)) =
         (ts_links (app_transport (w_app (rm_wire r))))[su_link su := (the_link su r)\<lparr>lk_events := c\<rparr>]"
proof -
  let ?l = "the_link su r" and ?mp = "te_events (ae_transport (su_env su))" and ?sid = "su_session su"
  note mp = surroundings_channels(2) [OF assms(1)]
  obtain x c where recv: "mp_recv ?mp (lk_events ?l) = (x, c)"
    by (rule prod.exhaust)
  have x: "x = Received (TerminalOutput ?sid t)"
    and c: "eview c = (eview (lk_events ?l))\<lparr>mb_queue := map (TerminalOutput ?sid) rest\<rparr>"
    using mpsc_contract.fst_recv [OF mp, of "lk_events ?l"] mpsc_contract.view_snd_recv [OF mp, of "lk_events ?l"]
      recv assms(3) by (simp_all add: mailbox_recv_def)
  let ?w = "(rm_wire r)\<lparr>w_results := []\<rparr>"
  let ?st = "on_transport (update_link (su_link su) (\<lambda>l. l\<lparr>lk_events := c\<rparr>)) (w_app (rm_wire r))"
  have taken: "take_event (su_env su) (su_link su) (w_app ?w) = (Received (TerminalOutput ?sid t), ?st)"
    using recv x by (simp add: take_event_def the_link_def)
  let ?msg = "agent_event_to_browser_message (TerminalOutput ?sid t) (su_node su) (app_sessions ?st)
      (Some (terminal_transport_status_of (su_connection su)))"
  obtain seq reg where msg: "?msg = (ServerOutput ?sid seq t, reg)"
    using output_message [of ?sid t "su_node su" "app_sessions ?st" "Some (terminal_transport_status_of (su_connection su))"]
    by (cases ?msg) auto
  let ?m = "ServerOutput ?sid seq t"
  let ?st2 = "note_message (su_env su) io (user_email (su_user su)) (su_node su) ?sid (su_channel su) ?m
      (?st\<lparr>app_sessions := reg\<rparr>)"
  have "hear_agent (su_env su) io (user_email (su_user su)) (su_node su) ?sid (su_connection su) (su_channel su)
      (rm_flags r) (TerminalOutput ?sid t) (on_app (\<lambda>_. ?st) ?w) =
    ((True, rm_flags r), (on_app (\<lambda>_. ?st2) ?w)\<lparr>w_sent := w_sent (rm_wire r) @ [?m]\<rparr>)"
    using msg by (simp add: hear_agent_def send_server_message_def on_app_def is_exited_def is_error_def
        Sb_Handlers.is_started_def Let_def)
  then have "relay_event su io r =
      r\<lparr>rm_wire := (on_app (\<lambda>_. ?st2) ?w)\<lparr>w_sent := w_sent (rm_wire r) @ [?m]\<rparr>, rm_flags := rm_flags r\<rparr>"
    using taken by (simp add: relay_event_def del: wire.update_convs)
  moreover have "ts_links (app_transport ?st2) =
      (ts_links (app_transport (w_app (rm_wire r))))[su_link su := ?l\<lparr>lk_events := c\<rparr>]"
    by (simp add: on_transport_def update_link_def the_link_def)
  ultimately show ?thesis
    using c by (intro exI [of _ "(on_app (\<lambda>_. ?st2) ?w)\<lparr>w_sent := w_sent (rm_wire r) @ [?m]\<rparr>"]
        exI [of _ "rm_flags r"] exI [of _ seq] exI [of _ c]) (simp add: on_app_def)
qed

lemma relay_nothing:
  assumes "surroundings cview eview su" and "remote_ready cview eview su r"
    and "mb_queue (eview (lk_events (the_link su r))) = []"
  shows "relay_event su io r = r\<lparr>rm_wire := (rm_wire r)\<lparr>w_results := []\<rparr>\<rparr>"
proof -
  let ?l = "the_link su r" and ?mp = "te_events (ae_transport (su_env su))"
  note mp = surroundings_channels(2) [OF assms(1)]
  have "channel_open (eview (lk_events ?l))"
    using assms(2) by (simp add: remote_ready_def)
  then have "fst (mp_recv ?mp (lk_events ?l)) = Pending"
    using mpsc_contract.fst_recv [OF mp, of "lk_events ?l"] assms(3) by (simp add: mailbox_recv_def channel_open_def)
  then have "fst (take_event (su_env su) (su_link su) (w_app ((rm_wire r)\<lparr>w_results := []\<rparr>))) = Pending"
    by (simp add: take_event_def the_link_def split_beta)
  then show ?thesis
    by (cases "take_event (su_env su) (su_link su) (w_app ((rm_wire r)\<lparr>w_results := []\<rparr>))")
      (simp add: relay_event_def)
qed

lemma paint_effect:
  assumes "tab_ready su (rm_browser r)" and "rm_painted r < length (w_sent (rm_wire r))"
    and "w_sent (rm_wire r) ! rm_painted r = ServerOutput s seq t"
  shows "paint su r = r\<lparr>rm_browser := (rm_browser r)\<lparr>br_screen := br_screen (rm_browser r) @ terminal_data t\<rparr>,
    rm_painted := rm_painted r + 1\<rparr>"
  using assms by (simp add: paint_def tab_ready_def write_output_def Let_def)
section \<open>Both directions as queues\<close>

text \<open>Of the texts, d have been written to the shell and the texts q are in the command channel.\<close>

definition inbound ::
  "('c \<Rightarrow> agent_terminal_command mailbox) \<Rightarrow> ('c, 'e) remote_setup \<Rightarrow> ('c, 'e) remote_terminal
   \<Rightarrow> string list \<Rightarrow> nat \<Rightarrow> string list \<Rightarrow> ('c, 'e) remote_terminal \<Rightarrow> bool" where
  "inbound cview su r0 texts d q r =
     (sent_frames su r = sent_frames su r0 @ map (BridgeInput (su_session su)) texts
      \<and> rm_handled r = length (sent_frames su r0) + d + length q
      \<and> d + length q \<le> length texts \<and> take (d + length q) texts = take d texts @ q
      \<and> mb_queue (cview (lk_commands (the_link su r))) = map (WriteInput (su_session su)) q
      \<and> filter (\<lambda>c. c \<noteq> CallRead) (rm_calls r) =
          filter (\<lambda>c. c \<noteq> CallRead) (rm_calls r0) @ concat (map shell_writes (take d texts)))"

definition accepted :: "(string \<times> bool) list \<Rightarrow> string list" where
  "accepted ps = map fst (filter snd ps)"

text \<open>Of the texts the event channel took, the handler has sent those heard, the browser has shown k of
  them, and those pending are in the channel.\<close>

definition outbound ::
  "('e \<Rightarrow> agent_terminal_event mailbox) \<Rightarrow> ('c, 'e) remote_setup \<Rightarrow> ('c, 'e) remote_terminal
   \<Rightarrow> string list \<Rightarrow> string list \<Rightarrow> nat \<Rightarrow> ('c, 'e) remote_terminal \<Rightarrow> bool" where
  "outbound eview su r0 heard pending k r =
     (accepted (rm_printed r) = accepted (rm_printed r0) @ heard @ pending
      \<and> mb_queue (eview (lk_events (the_link su r))) = map (TerminalOutput (su_session su)) pending
      \<and> (\<exists>ms. w_sent (rm_wire r) = w_sent (rm_wire r0) @ ms
           \<and> list_all2 (\<lambda>m t. \<exists>seq. m = ServerOutput (su_session su) seq t) ms heard)
      \<and> rm_painted r = length (w_sent (rm_wire r0)) + k \<and> k \<le> length heard
      \<and> br_screen (rm_browser r) = br_screen (rm_browser r0) @ concat (map terminal_data (take k heard))
      \<and> mb_capacity (eview (lk_events (the_link su r))) = mb_capacity (eview (lk_events (the_link su r0)))
      \<and> (length (rm_printed r) \<le> mb_capacity (eview (lk_events (the_link su r0))) \<longrightarrow> list_all snd (rm_printed r)))"

fun typed_by :: "('c, 'e) remote_event \<Rightarrow> string list" where
  "typed_by (Typed s) = [terminal_data s]"
| "typed_by _ = []"

lemma call_keeps [simp]:
  "tab_ready su (call c b) = tab_ready su b" "br_screen (call c b) = br_screen b"
  by (simp_all add: tab_ready_def call_def socket_ready_def)

lemma take_snoc_le: "n \<le> length xs \<Longrightarrow> take n (xs @ ys) = take n xs"
  by simp

lemma typed_step:
  assumes "remote_ready cview eview su r"
  shows "remote_ready cview eview su (type_text su s r)"
    and "inbound cview su r0 texts d q r \<Longrightarrow>
           inbound cview su r0 (texts @ [terminal_data s]) d q (type_text su s r)"
    and "outbound eview su r0 heard pending k r \<Longrightarrow> outbound eview su r0 heard pending k (type_text su s r)"
proof -
  have "tab_ready su (rm_browser r)"
    using assms by (simp add: remote_ready_def)
  note eff = type_text_effect [OF this, of s]
  show "remote_ready cview eview su (type_text su s r)"
    using assms by (simp add: eff remote_ready_def the_link_def)
  show "inbound cview su r0 texts d q r \<Longrightarrow>
      inbound cview su r0 (texts @ [terminal_data s]) d q (type_text su s r)"
    by (simp add: eff inbound_def sent_frames_def the_link_def call_def)
  show "outbound eview su r0 heard pending k r \<Longrightarrow> outbound eview su r0 heard pending k (type_text su s r)"
    by (simp add: eff outbound_def the_link_def)
qed

lemma painted_step:
  assumes "remote_ready cview eview su r" and "outbound eview su r0 heard pending k r"
  shows "remote_ready cview eview su (paint su r)"
    and "outbound eview su r0 heard pending (if k < length heard then k + 1 else k) (paint su r)"
    and "inbound cview su r0 texts d q r \<Longrightarrow> inbound cview su r0 texts d q (paint su r)"
proof -
  obtain ms where ms: "w_sent (rm_wire r) = w_sent (rm_wire r0) @ ms"
    "list_all2 (\<lambda>m t. \<exists>seq. m = ServerOutput (su_session su) seq t) ms heard"
    and k: "rm_painted r = length (w_sent (rm_wire r0)) + k" "k \<le> length heard"
    using assms(2) by (auto simp: outbound_def)
  note len = list_all2_lengthD [OF ms(2)]
  have tab: "tab_ready su (rm_browser r)"
    using assms(1) by (simp add: remote_ready_def)
  have idle: "paint su r = r" if "\<not> k < length heard"
    using that ms(1) k len by (simp add: paint_def)
  have eff: "paint su r = r\<lparr>rm_browser := (rm_browser r)\<lparr>br_screen := br_screen (rm_browser r) @ terminal_data (heard ! k)\<rparr>,
      rm_painted := rm_painted r + 1\<rparr>" if less: "k < length heard"
  proof -
    obtain seq where "ms ! k = ServerOutput (su_session su) seq (heard ! k)"
      using list_all2_nthD [OF ms(2), of k] less len by auto
    then show ?thesis
      using paint_effect [OF tab, of "su_session su" seq "heard ! k"] ms(1) k(1) less len
      by (simp add: nth_append)
  qed
  show "remote_ready cview eview su (paint su r)"
    using assms(1) idle eff by (cases "k < length heard") (simp_all add: remote_ready_def the_link_def tab_ready_def socket_ready_def)
  show "outbound eview su r0 heard pending (if k < length heard then k + 1 else k) (paint su r)"
    using assms(2) idle eff
    by (cases "k < length heard") (simp_all add: outbound_def the_link_def take_Suc_conv_app_nth)
  show "inbound cview su r0 texts d q r \<Longrightarrow> inbound cview su r0 texts d q (paint su r)"
    using idle eff by (cases "k < length heard") (simp_all add: inbound_def the_link_def sent_frames_def)
qed

lemma meanwhile_step:
  assumes "remote_ready cview eview su r" and "keeps_link (su_link su) f"
  shows "remote_ready cview eview su (r\<lparr>rm_wire := on_app f (rm_wire r)\<rparr>)"
    and "inbound cview su r0 texts d q r \<Longrightarrow> inbound cview su r0 texts d q (r\<lparr>rm_wire := on_app f (rm_wire r)\<rparr>)"
    and "outbound eview su r0 heard pending k r \<Longrightarrow>
           outbound eview su r0 heard pending k (r\<lparr>rm_wire := on_app f (rm_wire r)\<rparr>)"
proof -
  let ?r = "r\<lparr>rm_wire := on_app f (rm_wire r)\<rparr>"
  have l: "su_link su < length (ts_links (app_transport (w_app (rm_wire ?r))))"
    "lk_commands (the_link su ?r) = lk_commands (the_link su r)" "lk_events (the_link su ?r) = lk_events (the_link su r)"
    using assms by (simp_all add: keeps_link_def remote_ready_def the_link_def)
  show "remote_ready cview eview su ?r"
    using assms(1) l by (simp add: remote_ready_def)
  show "inbound cview su r0 texts d q r \<Longrightarrow> inbound cview su r0 texts d q ?r"
    using l by (simp add: inbound_def sent_frames_def)
  show "outbound eview su r0 heard pending k r \<Longrightarrow> outbound eview su r0 heard pending k ?r"
    using l by (simp add: outbound_def)
qed
text \<open>A change of one of the connection's channels, as the other steps make it.\<close>

lemma put_link_step:
  assumes "remote_ready cview eview su r" and "rm_wire r' = put_link su l (rm_wire r)"
  shows "the_link su r' = l"
    and "su_link su < length (ts_links (app_transport (w_app (rm_wire r'))))"
    and "w_sent (rm_wire r') = w_sent (rm_wire r)"
  using assms by (simp_all add: remote_ready_def the_link_def)

lemma channel_open_queue [simp]: "channel_open (m\<lparr>mb_queue := q\<rparr>) = channel_open m"
  by (simp add: channel_open_def)

lemma drop_next:
  assumes "take (d + length q) texts = take d texts @ q" and "d + length q < length texts"
  shows "take (d + length q + 1) texts = take d texts @ q @ [texts ! (d + length q)]"
  using assms by (simp add: take_Suc_conv_app_nth)

lemma handled_step:
  assumes "surroundings cview eview su" and "remote_ready cview eview su r" and "io_waiting io = (\<lambda>st. st)"
    and "inbound cview su r0 texts d q r"
  shows "remote_ready cview eview su (take_frame su io r)"
    and "\<exists>q'. inbound cview su r0 texts d q' (take_frame su io r) \<and> (q \<noteq> [] \<or> d < length texts \<longrightarrow> q' \<noteq> [])"
    and "outbound eview su r0 heard pending k r \<Longrightarrow> outbound eview su r0 heard pending k (take_frame su io r)"
proof -
  let ?n = "d + length q" and ?m = "cview (lk_commands (the_link su r))"
  have inb: "sent_frames su r = sent_frames su r0 @ map (BridgeInput (su_session su)) texts"
    "rm_handled r = length (sent_frames su r0) + ?n" "?n \<le> length texts" "take ?n texts = take d texts @ q"
    "mb_queue ?m = map (WriteInput (su_session su)) q"
    using assms(4) by (simp_all add: inbound_def)
  have open_m: "channel_open ?m"
    using assms(2) by (simp add: remote_ready_def)
  have next_frame: "drop (rm_handled r) (sent_frames su r) = map (BridgeInput (su_session su)) (drop ?n texts)"
    using inb(1,2) by (simp add: drop_map)
  have "(take_frame su io r = r \<and> (q \<noteq> [] \<or> ?n = length texts)) \<or>
    (?n < length texts \<and> (\<exists>c. cview c = ?m\<lparr>mb_queue := map (WriteInput (su_session su)) (q @ [texts ! ?n])\<rparr>
      \<and> take_frame su io r = r\<lparr>rm_wire := put_link su ((the_link su r)\<lparr>lk_commands := c\<rparr>) (rm_wire r),
            rm_handled := rm_handled r + 1\<rparr>))"
  proof (cases "?n < length texts")
    case False
    then show ?thesis
      using next_frame inb(3) by (simp add: take_frame_def)
  next
    case True
    then have "drop (rm_handled r) (sent_frames su r) =
        BridgeInput (su_session su) (texts ! ?n) # map (BridgeInput (su_session su)) (drop (Suc ?n) texts)"
      using next_frame by (simp add: Cons_nth_drop_Suc [symmetric])
    note eff = take_frame_effect [OF assms(1-3) this]
    show ?thesis
    proof (cases "mailbox_accepts ?m")
      case False
      then have "q \<noteq> []"
        using open_m inb(5) by (auto simp: mailbox_accepts_def channel_open_def)
      then show ?thesis
        using eff False by simp
    qed (use eff True inb(5) in auto)
  qed
  then consider (same) "take_frame su io r = r" "q \<noteq> [] \<or> ?n = length texts"
    | (queued) c where "?n < length texts"
        "cview c = ?m\<lparr>mb_queue := map (WriteInput (su_session su)) (q @ [texts ! ?n])\<rparr>"
        "take_frame su io r = r\<lparr>rm_wire := put_link su ((the_link su r)\<lparr>lk_commands := c\<rparr>) (rm_wire r),
            rm_handled := rm_handled r + 1\<rparr>"
    by blast
  then have "remote_ready cview eview su (take_frame su io r)
    \<and> (\<exists>q'. inbound cview su r0 texts d q' (take_frame su io r) \<and> (q \<noteq> [] \<or> d < length texts \<longrightarrow> q' \<noteq> []))
    \<and> (outbound eview su r0 heard pending k r \<longrightarrow> outbound eview su r0 heard pending k (take_frame su io r))"
  proof cases
    case same
    then show ?thesis
      using assms(2,4) by (intro conjI exI [of _ q]) auto
  next
    case queued
    have w: "rm_wire (take_frame su io r) = put_link su ((the_link su r)\<lparr>lk_commands := c\<rparr>) (rm_wire r)"
      by (simp add: queued(3))
    note link = put_link_step [OF assms(2) w]
    have "inbound cview su r0 texts d (q @ [texts ! ?n]) (take_frame su io r)"
      using assms(4) drop_next [OF inb(4) queued(1)] queued(1,2) inb(2)
      by (simp add: inbound_def link(1)) (simp add: queued(3) sent_frames_def)
    moreover have "remote_ready cview eview su (take_frame su io r)"
      using assms(2) link(2) queued(2) open_m by (simp add: remote_ready_def link(1)) (simp add: queued(3))
    moreover have "outbound eview su r0 heard pending k (take_frame su io r)" if "outbound eview su r0 heard pending k r"
      using that by (simp add: outbound_def link) (simp add: queued(3))
    ultimately show ?thesis
      by (intro conjI exI [of _ "q @ [texts ! ?n]"]) auto
  qed
  then show "remote_ready cview eview su (take_frame su io r)"
    and "\<exists>q'. inbound cview su r0 texts d q' (take_frame su io r) \<and> (q \<noteq> [] \<or> d < length texts \<longrightarrow> q' \<noteq> [])"
    and "outbound eview su r0 heard pending k r \<Longrightarrow> outbound eview su r0 heard pending k (take_frame su io r)"
    by blast+
qed
lemma take_first:
  assumes "take (d + length (t # q)) texts = take d texts @ t # q" and "d + length (t # q) \<le> length texts"
  shows "take (Suc d) texts = take d texts @ [t]"
proof -
  have "take (Suc d) texts = take (Suc d) (take (d + length (t # q)) texts)"
    by (simp add: min_def)
  also have "\<dots> = take d texts @ [t]"
    using assms by simp
  finally show ?thesis .
qed

lemma shipped_step:
  assumes "surroundings cview eview su" and "remote_ready cview eview su r"
    and "pr_write res = None" and "pr_flush res = None" and "inbound cview su r0 texts d q r"
  shows "remote_ready cview eview su (ship_command su res r)"
    and "inbound cview su r0 texts (if q = [] then d else d + 1) (tl q) (ship_command su res r)"
    and "outbound eview su r0 heard pending k r \<Longrightarrow> outbound eview su r0 heard pending k (ship_command su res r)"
proof -
  have queue: "mb_queue (cview (lk_commands (the_link su r))) = map (WriteInput (su_session su)) q"
    using assms(5) by (simp add: inbound_def)
  obtain c sc where c: "cview c = (cview (lk_commands (the_link su r)))\<lparr>mb_queue := map (WriteInput (su_session su)) (tl q)\<rparr>"
    and eff: "ship_command su res r = r\<lparr>rm_wire := put_link su ((the_link su r)\<lparr>lk_commands := c\<rparr>) (rm_wire r),
          rm_socket := sc, rm_calls := rm_calls r @ (case q of [] \<Rightarrow> [] | t # _ \<Rightarrow> shell_writes t)\<rparr>"
    using ship_command_effect [OF assms(1-4) queue] by blast
  have w: "rm_wire (ship_command su res r) = put_link su ((the_link su r)\<lparr>lk_commands := c\<rparr>) (rm_wire r)"
    by (simp add: eff)
  note link = put_link_step [OF assms(2) w]
  show "remote_ready cview eview su (ship_command su res r)"
    using assms(2) link(2) c by (simp add: remote_ready_def link(1)) (simp add: eff)
  show "outbound eview su r0 heard pending k r \<Longrightarrow> outbound eview su r0 heard pending k (ship_command su res r)"
    by (simp add: outbound_def link) (simp add: eff)
  show "inbound cview su r0 texts (if q = [] then d else d + 1) (tl q) (ship_command su res r)"
  proof (cases q)
    case Nil
    then show ?thesis
      using assms(5) c by (simp add: inbound_def link(1)) (simp add: eff sent_frames_def)
  next
    case (Cons t q')
    have split: "take (d + length (t # q')) texts = take d texts @ t # q'" "d + length (t # q') \<le> length texts"
      using assms(5) Cons by (simp_all add: inbound_def)
    show ?thesis
      using assms(5) c take_first [OF split] Cons
      by (simp add: inbound_def link(1)) (simp add: eff sent_frames_def shell_writes_def)
  qed
qed

lemma accepted_snoc [simp]: "accepted (ps @ [(t, b)]) = accepted ps @ (if b then [t] else [])"
  by (simp add: accepted_def)

lemma printed_step:
  assumes "surroundings cview eview su" and "remote_ready cview eview su r" and "mid \<noteq> 0"
    and "outbound eview su r0 heard pending k r"
  shows "remote_ready cview eview su (print_output su bs mid q now r)"
    and "inbound cview su r0 texts d qs r \<Longrightarrow> inbound cview su r0 texts d qs (print_output su bs mid q now r)"
    and "\<exists>pending'. outbound eview su r0 heard pending' k (print_output su bs mid q now r)"
proof -
  let ?m = "eview (lk_events (the_link su r))" and ?r = "print_output su bs mid q now r"
  have "remote_ready cview eview su ?r
    \<and> (inbound cview su r0 texts d qs r \<longrightarrow> inbound cview su r0 texts d qs ?r)
    \<and> (\<exists>pending'. outbound eview su r0 heard pending' k ?r)"
  proof (cases "bs = []")
    case True
    then have eff: "?r = r\<lparr>rm_calls := rm_calls r @ [CallRead]\<rparr>"
      using print_nothing [OF assms(2)] by simp
    have "outbound eview su r0 heard pending k ?r"
      using assms(4) by (simp add: eff outbound_def the_link_def)
    then show ?thesis
      using assms(2) by (auto simp: eff remote_ready_def inbound_def the_link_def sent_frames_def)
  next
    case False
    obtain c sc where c: "eview c = snd (mailbox_send (TerminalOutput (su_session su) (utf8_lossy bs)) ?m)"
      and eff: "?r = r\<lparr>rm_wire := put_link su ((the_link su r)\<lparr>lk_events := c\<rparr>) (rm_wire r),
          rm_socket := sc, rm_calls := rm_calls r @ [CallRead],
          rm_printed := rm_printed r @ [(utf8_lossy bs, mailbox_accepts ?m)]\<rparr>"
      using print_output_effect [OF assms(1-3) False] by blast
    have w: "rm_wire ?r = put_link su ((the_link su r)\<lparr>lk_events := c\<rparr>) (rm_wire r)"
      by (simp add: eff)
    note link = put_link_step [OF assms(2) w]
    have room: "mailbox_accepts ?m" if "length (rm_printed r) < mb_capacity ?m"
    proof -
      have "length (mb_queue ?m) \<le> length (accepted (rm_printed r))"
        using assms(4) by (simp add: outbound_def)
      also have "\<dots> \<le> length (rm_printed r)"
        by (simp add: accepted_def)
      finally show ?thesis
        using that assms(2) by (simp add: mailbox_accepts_def remote_ready_def channel_open_def)
    qed
    have "mb_capacity (eview c) = mb_capacity ?m"
      by (simp add: c)
    then have "outbound eview su r0 heard (pending @ (if mailbox_accepts ?m then [utf8_lossy bs] else [])) k ?r"
      using assms(4) c room by (simp add: outbound_def link) (auto simp: eff Suc_le_eq)
    moreover have "channel_open (eview c)"
      using assms(2) c by (simp add: remote_ready_def channel_open_def)
    then have "remote_ready cview eview su ?r"
      using assms(2) link(2) by (simp add: remote_ready_def link(1)) (simp add: eff)
    moreover have "inbound cview su r0 texts d qs ?r" if "inbound cview su r0 texts d qs r"
      using that by (simp add: inbound_def link(1)) (simp add: eff sent_frames_def)
    ultimately show ?thesis
      by blast
  qed
  then show "remote_ready cview eview su ?r"
    and "inbound cview su r0 texts d qs r \<Longrightarrow> inbound cview su r0 texts d qs ?r"
    and "\<exists>pending'. outbound eview su r0 heard pending' k ?r"
    by blast+
qed

lemma relayed_step:
  assumes "surroundings cview eview su" and "remote_ready cview eview su r"
    and "outbound eview su r0 heard pending k r"
  shows "remote_ready cview eview su (relay_event su io r)"
    and "inbound cview su r0 texts d qs r \<Longrightarrow> inbound cview su r0 texts d qs (relay_event su io r)"
    and "outbound eview su r0 (heard @ take 1 pending) (tl pending) k (relay_event su io r)"
proof -
  let ?m = "eview (lk_events (the_link su r))" and ?r = "relay_event su io r"
  have queue: "mb_queue ?m = map (TerminalOutput (su_session su)) pending"
    using assms(3) by (simp add: outbound_def)
  have "remote_ready cview eview su ?r
    \<and> (inbound cview su r0 texts d qs r \<longrightarrow> inbound cview su r0 texts d qs ?r)
    \<and> outbound eview su r0 (heard @ take 1 pending) (tl pending) k ?r"
  proof (cases pending)
    case Nil
    then have eff: "?r = r\<lparr>rm_wire := (rm_wire r)\<lparr>w_results := []\<rparr>\<rparr>"
      using relay_nothing [OF assms(1,2)] queue by simp
    show ?thesis
      using assms(2,3) Nil by (simp add: eff remote_ready_def inbound_def outbound_def the_link_def sent_frames_def)
  next
    case (Cons t rest)
    then have "mb_queue ?m = map (TerminalOutput (su_session su)) (t # rest)"
      using queue by simp
    from relay_event_effect [OF assms(1,2) this, of io]
    obtain w fl seq c where eff: "?r = r\<lparr>rm_wire := w, rm_flags := fl\<rparr>"
      and w: "w_sent w = w_sent (rm_wire r) @ [ServerOutput (su_session su) seq t]"
      and c: "eview c = ?m\<lparr>mb_queue := map (TerminalOutput (su_session su)) rest\<rparr>"
      and links: "ts_links (app_transport (w_app w)) =
         (ts_links (app_transport (w_app (rm_wire r))))[su_link su := (the_link su r)\<lparr>lk_events := c\<rparr>]"
      by blast
    have len: "su_link su < length (ts_links (app_transport (w_app (rm_wire r))))"
      using assms(2) by (simp add: remote_ready_def)
    have link: "the_link su ?r = (the_link su r)\<lparr>lk_events := c\<rparr>"
      using len links by (simp add: eff the_link_def)
    have "remote_ready cview eview su ?r"
      using assms(2) len links c by (simp add: remote_ready_def link) (simp add: eff)
    moreover have "inbound cview su r0 texts d qs ?r" if "inbound cview su r0 texts d qs r"
      using that by (simp add: inbound_def link) (simp add: eff sent_frames_def)
    moreover have "outbound eview su r0 (heard @ [t]) rest k ?r"
    proof -
      obtain ms where "w_sent (rm_wire r) = w_sent (rm_wire r0) @ ms"
        "list_all2 (\<lambda>m t. \<exists>seq. m = ServerOutput (su_session su) seq t) ms heard"
        using assms(3) by (auto simp: outbound_def)
      then have "\<exists>ms'. w_sent w = w_sent (rm_wire r0) @ ms'
          \<and> list_all2 (\<lambda>m t. \<exists>seq. m = ServerOutput (su_session su) seq t) ms' (heard @ [t])"
        using w by (intro exI [of _ "ms @ [ServerOutput (su_session su) seq t]"]) (simp add: list_all2_appendI)
      then show ?thesis
        using assms(3) c Cons by (simp add: outbound_def link) (simp add: eff)
    qed
    ultimately show ?thesis
      using Cons by simp
  qed
  then show "remote_ready cview eview su ?r"
    and "inbound cview su r0 texts d qs r \<Longrightarrow> inbound cview su r0 texts d qs ?r"
    and "outbound eview su r0 (heard @ take 1 pending) (tl pending) k ?r"
    by blast+
qed
section \<open>Whole runs\<close>

text \<open>A terminal at rest: what was typed has arrived, and what was printed is on the screen.\<close>

definition at_rest ::
  "('c \<Rightarrow> agent_terminal_command mailbox) \<Rightarrow> ('e \<Rightarrow> agent_terminal_event mailbox)
   \<Rightarrow> ('c, 'e) remote_setup \<Rightarrow> ('c, 'e) remote_terminal \<Rightarrow> bool" where
  "at_rest cview eview su r =
     (remote_ready cview eview su r \<and> rm_handled r = length (sent_frames su r)
      \<and> mb_queue (cview (lk_commands (the_link su r))) = [] \<and> mb_queue (eview (lk_events (the_link su r))) = []
      \<and> rm_painted r = length (w_sent (rm_wire r)) \<and> rm_printed r = [])"

fun printed_by :: "('c, 'e) remote_event \<Rightarrow> string list" where
  "printed_by (Printed bs mid q now) = (if bs = [] then [] else [utf8_lossy bs])"
| "printed_by _ = []"

definition terminal_invariant ::
  "('c \<Rightarrow> agent_terminal_command mailbox) \<Rightarrow> ('e \<Rightarrow> agent_terminal_event mailbox)
   \<Rightarrow> ('c, 'e) remote_setup \<Rightarrow> ('c, 'e) remote_terminal \<Rightarrow> string list \<Rightarrow> ('c, 'e) remote_terminal \<Rightarrow> bool" where
  "terminal_invariant cview eview su r0 texts r =
     (remote_ready cview eview su r \<and> (\<exists>d q. inbound cview su r0 texts d q r)
      \<and> (\<exists>heard pending k. outbound eview su r0 heard pending k r))"

lemma terminal_invariant_start:
  "at_rest cview eview su r \<Longrightarrow> terminal_invariant cview eview su r [] r"
  by (auto simp: terminal_invariant_def at_rest_def inbound_def outbound_def
      intro!: exI [of _ 0] exI [of _ "[]"])

lemma terminal_invariant_step:
  assumes "surroundings cview eview su" and "terminal_invariant cview eview su r0 texts r" and "event_allowed su e"
  shows "terminal_invariant cview eview su r0 (texts @ typed_by e) (remote_event_step su r e)"
proof -
  have ready: "remote_ready cview eview su r"
    using assms(2) by (simp add: terminal_invariant_def)
  obtain d q where inb: "inbound cview su r0 texts d q r"
    using assms(2) by (auto simp: terminal_invariant_def)
  obtain heard pending k where outb: "outbound eview su r0 heard pending k r"
    using assms(2) by (auto simp: terminal_invariant_def)
  show ?thesis
  proof (cases e)
    case (Typed s)
    then show ?thesis
      using typed_step [OF ready] inb outb by (simp add: terminal_invariant_def) blast
  next
    case (Handled io)
    then have "io_waiting io = (\<lambda>st. st)"
      using assms(3) by simp
    from handled_step [OF assms(1) ready this inb] Handled outb show ?thesis
      by (simp add: terminal_invariant_def) blast
  next
    case (Shipped res)
    then have "pr_write res = None" "pr_flush res = None"
      using assms(3) by simp_all
    from shipped_step [OF assms(1) ready this inb] Shipped outb show ?thesis
      by (simp add: terminal_invariant_def) blast
  next
    case (Printed bs mid sequ now)
    then have "mid \<noteq> 0"
      using assms(3) by simp
    from printed_step [OF assms(1) ready this outb] Printed inb show ?thesis
      by (simp add: terminal_invariant_def) blast
  next
    case (Relayed io)
    then show ?thesis
      using relayed_step [OF assms(1) ready outb] inb by (simp add: terminal_invariant_def) blast
  next
    case Painted
    then show ?thesis
      using painted_step [OF ready outb] inb by (simp add: terminal_invariant_def) blast
  next
    case (Meanwhile f)
    then have "keeps_link (su_link su) f"
      using assms(3) by simp
    from meanwhile_step [OF ready this] Meanwhile inb outb show ?thesis
      by (simp add: terminal_invariant_def) blast
  qed
qed

lemma terminal_invariant_run:
  assumes "surroundings cview eview su" and "terminal_invariant cview eview su r0 texts r"
    and "list_all (event_allowed su) es"
  shows "terminal_invariant cview eview su r0 (texts @ concat (map typed_by es)) (remote_run su r es)"
  using assms(2,3)
proof (induction es arbitrary: r texts)
  case (Cons e es)
  then show ?case
    using Cons.IH [OF terminal_invariant_step [OF assms(1) Cons.prems(1), of e]] by (simp add: remote_run_def)
qed (simp add: remote_run_def)

text \<open>One turn of the handler and one of the agent's connection bring a text to the shell.\<close>

lemma one_more_text:
  assumes "surroundings cview eview su" and "remote_ready cview eview su r" and "inbound cview su r0 texts d q r"
    and "io_waiting io = (\<lambda>st. st)" and "pr_write res = None" and "pr_flush res = None"
  defines "r' \<equiv> remote_run su r [Handled io, Shipped res]"
  shows "remote_ready cview eview su r' \<and> (\<exists>q'. inbound cview su r0 texts (min (length texts) (d + 1)) q' r')"
proof -
  let ?r1 = "take_frame su io r"
  note h = handled_step [OF assms(1,2,4,3)]
  obtain q1 where q1: "inbound cview su r0 texts d q1 ?r1" "q \<noteq> [] \<or> d < length texts \<longrightarrow> q1 \<noteq> []"
    using h(2) by blast
  note s = shipped_step [OF assms(1) h(1) assms(5,6) q1(1)]
  have "(if q1 = [] then d else d + 1) = min (length texts) (d + 1)"
    using q1 by (cases q1) (auto simp: inbound_def)
  then show ?thesis
    using s(1,2) by (auto simp: r'_def remote_run_def)
qed

definition pump :: "('c, 'e) io \<Rightarrow> pty_results \<Rightarrow> nat \<Rightarrow> ('c, 'e) remote_event list" where
  "pump io res n = concat (replicate n [Handled io, Shipped res])"

lemma remote_run_append: "remote_run su r (es @ fs) = remote_run su (remote_run su r es) fs"
  by (simp add: remote_run_def)

lemma pumped:
  assumes "surroundings cview eview su" and "io_waiting io = (\<lambda>st. st)" and "pr_write res = None" and "pr_flush res = None"
  shows "remote_ready cview eview su r \<Longrightarrow> inbound cview su r0 texts d q r \<Longrightarrow>
    \<exists>q'. inbound cview su r0 texts (min (length texts) (d + n)) q' (remote_run su r (pump io res n))"
proof (induction n arbitrary: r d q)
  case 0
  then show ?case
    by (auto simp: pump_def remote_run_def inbound_def)
next
  case (Suc n)
  obtain q' where "remote_ready cview eview su (remote_run su r [Handled io, Shipped res])"
    "inbound cview su r0 texts (min (length texts) (d + 1)) q' (remote_run su r [Handled io, Shipped res])"
    using one_more_text [OF assms(1) Suc.prems assms(2-4)] by blast
  from Suc.IH [OF this] obtain q2 where
    q2: "inbound cview su r0 texts (min (length texts) (min (length texts) (d + 1) + n)) q2
      (remote_run su (remote_run su r [Handled io, Shipped res]) (pump io res n))"
    by blast
  have "min (length texts) (min (length texts) (d + 1) + n) = min (length texts) (d + Suc n)"
    by simp
  moreover have "pump io res (Suc n) = [Handled io, Shipped res] @ pump io res n"
    by (simp add: pump_def)
  ultimately show ?case
    using q2 by (metis remote_run_append)
qed

text \<open>And one turn of the handler and one of the browser bring a text to the screen.\<close>

definition show_all :: "('c, 'e) io \<Rightarrow> nat \<Rightarrow> ('c, 'e) remote_event list" where
  "show_all io n = replicate n (Relayed io) @ replicate n Painted"

lemma relay_many:
  assumes "surroundings cview eview su"
  shows "remote_ready cview eview su r \<Longrightarrow> outbound eview su r0 heard pending k r \<Longrightarrow>
    remote_ready cview eview su (remote_run su r (replicate n (Relayed io)))
    \<and> outbound eview su r0 (heard @ take n pending) (drop n pending) k (remote_run su r (replicate n (Relayed io)))"
proof (induction n arbitrary: r heard pending)
  case (Suc n)
  note s = relayed_step [OF assms Suc.prems]
  have "take 1 pending @ take n (tl pending) = take (Suc n) pending" "drop n (tl pending) = drop (Suc n) pending"
    by (cases pending; simp add: drop_Suc)+
  then show ?case
    using Suc.IH [OF s(1,3), of io] by (simp add: remote_run_def)
qed (simp add: remote_run_def)

lemma paint_many:
  shows "remote_ready cview eview su r \<Longrightarrow> outbound eview su r0 heard pending k r \<Longrightarrow>
    outbound eview su r0 heard pending (min (length heard) (k + n)) (remote_run su r (replicate n Painted))"
proof (induction n arbitrary: r k)
  case 0
  then show ?case
    by (simp add: remote_run_def outbound_def min_def)
next
  case (Suc n)
  note s = painted_step [OF Suc.prems]
  have "min (length heard) ((if k < length heard then k + 1 else k) + n) = min (length heard) (k + Suc n)"
    by auto
  then show ?case
    using Suc.IH [OF s(1,2)] by (simp add: remote_run_def)
qed

text \<open>The history of what was printed.\<close>

lemma printed_take_frame [simp]: "rm_printed (take_frame su io r) = rm_printed r"
  by (auto simp: take_frame_def split: list.splits task.splits prod.splits)

lemma printed_ship [simp]: "rm_printed (ship_command su res r) = rm_printed r"
  by (simp add: ship_command_def Let_def split: prod.splits)

lemma printed_relay [simp]: "rm_printed (relay_event su io r) = rm_printed r"
  by (simp add: relay_event_def split: prod.splits)

lemma printed_paint [simp]: "rm_printed (paint su r) = rm_printed r"
  by (simp add: paint_def)

lemma printed_print:
  assumes "surroundings cview eview su" and "remote_ready cview eview su r" and "mid \<noteq> 0"
  shows "map fst (rm_printed (print_output su bs mid sequ now r)) =
    map fst (rm_printed r) @ printed_by (Printed bs mid sequ now)"
proof (cases "bs = []")
  case True
  then show ?thesis
    using print_nothing [OF assms(2)] by simp
next
  case False
  from print_output_effect [OF assms False, of sequ now] obtain c sc where
    "print_output su bs mid sequ now r = r\<lparr>rm_wire := put_link su ((the_link su r)\<lparr>lk_events := c\<rparr>) (rm_wire r),
      rm_socket := sc, rm_calls := rm_calls r @ [CallRead],
      rm_printed := rm_printed r @ [(utf8_lossy bs, mailbox_accepts (eview (lk_events (the_link su r))))]\<rparr>"
    by blast
  then show ?thesis
    using False by simp
qed

lemma printed_step_history:
  assumes "surroundings cview eview su" and "remote_ready cview eview su r" and "event_allowed su e"
  shows "map fst (rm_printed (remote_event_step su r e)) = map fst (rm_printed r) @ printed_by e"
proof (cases e)
  case (Printed bs mid sequ now)
  then show ?thesis
    using printed_print [OF assms(1,2)] assms(3) by simp
qed (simp_all add: type_text_def)

lemma printed_run:
  assumes "surroundings cview eview su" and "terminal_invariant cview eview su r0 texts r"
    and "list_all (event_allowed su) es"
  shows "map fst (rm_printed (remote_run su r es)) = map fst (rm_printed r) @ concat (map printed_by es)"
  using assms(2,3)
proof (induction es arbitrary: r texts)
  case (Cons e es)
  have "map fst (rm_printed (remote_event_step su r e)) = map fst (rm_printed r) @ printed_by e"
    using printed_step_history [OF assms(1)] Cons.prems by (simp add: terminal_invariant_def)
  then show ?case
    using Cons.IH [OF terminal_invariant_step [OF assms(1) Cons.prems(1), of e]] Cons.prems(2)
    by (simp add: remote_run_def)
qed (simp add: remote_run_def)

text \<open>What a run leaves: the texts on their way in, and those on their way out.\<close>

definition shell_input :: "('c, 'e) remote_terminal \<Rightarrow> pty_call list" where
  "shell_input r = filter (\<lambda>c. c \<noteq> CallRead) (rm_calls r)"

lemma after_run:
  assumes "surroundings cview eview su" and "at_rest cview eview su r0" and "list_all (event_allowed su) es"
  obtains d q heard pending k where "remote_ready cview eview su (remote_run su r0 es)"
    and "inbound cview su r0 (concat (map typed_by es)) d q (remote_run su r0 es)"
    and "outbound eview su r0 heard pending k (remote_run su r0 es)"
  using terminal_invariant_run [OF assms(1) terminal_invariant_start [OF assms(2)] assms(3)]
  by (auto simp: terminal_invariant_def)

lemma inbound_input:
  assumes "inbound cview su r0 texts d q r"
  shows "shell_input r = shell_input r0 @ concat (map shell_writes (take d texts))" and "d \<le> length texts"
  using assms by (simp_all add: inbound_def shell_input_def)

lemma outbound_screen:
  assumes "outbound eview su r0 heard pending k r" and "rm_printed r0 = []"
  shows "br_screen (rm_browser r) =
      br_screen (rm_browser r0) @ concat (map terminal_data (take k (accepted (rm_printed r))))"
    and "accepted (rm_printed r) = heard @ pending" and "k \<le> length heard"
  using assms by (simp_all add: outbound_def accepted_def)

lemma accepted_length: "length (accepted ps) \<le> length ps"
  by (simp add: accepted_def)

lemma accepted_all: "list_all snd ps \<Longrightarrow> accepted ps = map fst ps"
  by (simp add: accepted_def list_all_iff)

lemma shown_in_full:
  assumes "surroundings cview eview su" and "remote_ready cview eview su r" and "rm_printed r0 = []"
    and "outbound eview su r0 heard pending k r" and "length (rm_printed r) \<le> n"
  shows "br_screen (rm_browser (remote_run su r (show_all io n))) =
    br_screen (rm_browser r0) @ concat (map terminal_data (accepted (rm_printed r)))"
proof -
  have len: "length (heard @ pending) \<le> n"
    using outbound_screen(2) [OF assms(4,3)] accepted_length [of "rm_printed r"] assms(5) by simp
  let ?r1 = "remote_run su r (replicate n (Relayed io))"
  have r1: "remote_ready cview eview su ?r1" "outbound eview su r0 (heard @ pending) [] k ?r1"
    using relay_many [OF assms(1,2,4), of n io] len by simp_all
  have "outbound eview su r0 (heard @ pending) [] (length (heard @ pending)) (remote_run su r (show_all io n))"
    using paint_many [OF r1, of n] len by (simp add: show_all_def remote_run_append min_def)
  then show ?thesis
    using outbound_screen(2) [OF assms(4,3)] by (simp add: outbound_def)
qed

section \<open>A running terminal\<close>

text \<open>An agent whose envelopes are read back, the tab, shell and session \<open>s\<close> of the other examples.\<close>

definition encode_output :: "agent_transport_envelope \<Rightarrow> string" where
  "encode_output e =
     (case env_payload e of
        PayloadTerminalEvent (Some q) (TerminalOutput sid t) \<Rightarrow>
          enc_nat (unat (env_message_id e)) @ enc_nat (unat q) @ enc_text (env_node_id e)
          @ enc_text (env_transport_id e) @ enc_text sid @ enc_text t
      | _ \<Rightarrow> [])"

definition decode_output :: "string \<Rightarrow> agent_transport_envelope option" where
  "decode_output s =
     (let (mid, r1) = take_text s; (q, r2) = take_text r1; (nid, r3) = take_text r2;
          (tid, r4) = take_text r3; (sid, r5) = take_text r4; (t, r6) = take_text r5
      in Some (envelope_current (word_of_nat (length mid)) nid tid
           (PayloadTerminalEvent (Some (word_of_nat (length q))) (TerminalOutput sid t))))"

definition remote_env :: "(agent_terminal_command mailbox, agent_terminal_event mailbox) app_env" where
  "remote_env = wire_env\<lparr>ae_transport := mail_env\<lparr>te_parse := decode_output\<rparr>\<rparr>"

definition example_setup :: "(agent_terminal_command mailbox, agent_terminal_event mailbox) remote_setup" where
  "example_setup = \<lparr>su_env = remote_env, su_json = encode_frame, su_envelope = encode_output, su_user = toy_user,
     su_node = ''node-1'', su_connection = example_connection, su_session = ''s'', su_channel = 0,
     su_page = example_page, su_socket = 0, su_shell_env = (\<lambda>_. None)\<rparr>"

definition example_remote :: "(agent_terminal_command mailbox, agent_terminal_event mailbox) remote_terminal" where
  "example_remote = \<lparr>rm_browser = open_tab, rm_wire = example_wire,
     rm_flags = \<lparr>rf_opened = True, rf_failed = False\<rparr>, rm_handled = 0, rm_painted = 0,
     rm_socket = \<lparr>so_handshake = \<lparr>hs_node_id = ''node-1'', hs_transport_id = ''t'',
                    hs_selected_transport = WebSocketTlsTcp443\<rparr>,
                  so_link = 0, so_next_message_id = 2, so_last_heartbeat_at = 0\<rparr>,
     rm_agent = \<lparr>atr_sessions = [(''s'', example_pty)]\<rparr>, rm_calls = [], rm_printed = []\<rparr>"

definition all_well :: pty_results where
  "all_well = \<lparr>pr_open = None, pr_spawn = None, pr_reader = None, pr_writer = None, pr_write = None,
     pr_flush = None, pr_resize = None, pr_kill = None\<rparr>"

lemma remote_parse: "ae_parse_client remote_env = ae_parse_client wire_env"
  by (simp add: remote_env_def)

lemma example_surroundings: "surroundings (\<lambda>m. m) (\<lambda>m. m) example_setup"
proof -
  have "transport_channels (mail_env\<lparr>te_parse := decode_output\<rparr>) (\<lambda>m. m) (\<lambda>m. m)"
    by (intro transport_channels.intro) (simp_all add: mailbox_contract)
  moreover have "reads_frames remote_env encode_frame"
    using wire_reads unfolding reads_frames_def remote_parse .
  moreover have "reads_envelopes (mail_env\<lparr>te_parse := decode_output\<rparr>) encode_output"
    by (simp add: reads_envelopes_def Let_def encode_output_def decode_output_def envelope_current_def enc_nat_def)
  ultimately show ?thesis
    by (simp add: surroundings_def example_setup_def remote_env_def)
qed

lemma example_at_rest: "at_rest (\<lambda>m. m) (\<lambda>m. m) example_setup example_remote"
  by (simp add: at_rest_def remote_ready_def tab_ready_def shell_ready_def channel_open_def the_link_def
      sent_frames_def example_setup_def example_remote_def example_connection_def example_link_def
      example_pty_def mailbox_new_def hm_get_def is_closed_def example_wire_def)

section \<open>Properties\<close>





end
