(* ===== verification/Sb_Migrations.thy ===== *)
theory Sb_Migrations
  imports Sb_Prelude
begin

text \<open>The database schema of src/migrations: the statement each migration builds as a record, the
  migrations with their up and down functions, and the migrator's list. The database is a parameter:
  a state, the two operations of the schema manager the migrations call, and a view of the tables of a
  state. \<open>documented_manager\<close> says what the manager's documentation promises of them. The names of
  tables and columns are those sea-orm derives from the identifiers of the source: the snake case of
  the variant, and of the enum for the variant Table.\<close>

section \<open>Statements\<close>

datatype column_type =
  BigInteger | IntegerType | VarChar | VarCharLen nat | PlainText | TimestampTz | Boolean | JsonBinary

datatype column_default = CurrentTimestamp | DefaultBool bool

record column_def =
  col_name :: string
  col_type :: column_type
  col_not_null :: bool
  col_auto_increment :: bool
  col_primary_key :: bool
  col_default :: "column_default option"

definition column_new :: "string \<Rightarrow> column_type \<Rightarrow> column_def" where
  "column_new n ty =
     \<lparr>col_name = n, col_type = ty, col_not_null = False, col_auto_increment = False,
      col_primary_key = False, col_default = None\<rparr>"

definition not_null :: "column_def \<Rightarrow> column_def" where
  "not_null c = c\<lparr>col_not_null := True\<rparr>"

definition auto_increment :: "column_def \<Rightarrow> column_def" where
  "auto_increment c = c\<lparr>col_auto_increment := True\<rparr>"

definition primary_key :: "column_def \<Rightarrow> column_def" where
  "primary_key c = c\<lparr>col_primary_key := True\<rparr>"

definition default_to :: "column_default \<Rightarrow> column_def \<Rightarrow> column_def" where
  "default_to d c = c\<lparr>col_default := Some d\<rparr>"

datatype delete_action = Cascade | SetNull

record foreign_key_def =
  fk_name :: string
  fk_column :: string
  fk_table :: string
  fk_target :: string
  fk_on_delete :: delete_action

definition foreign_key ::
  "string \<Rightarrow> string \<Rightarrow> string \<Rightarrow> string \<Rightarrow> delete_action \<Rightarrow> foreign_key_def" where
  "foreign_key n c t k a =
     \<lparr>fk_name = n, fk_column = c, fk_table = t, fk_target = k, fk_on_delete = a\<rparr>"

record index_def =
  ix_name :: string
  ix_columns :: "string list"
  ix_unique :: bool

definition plain_index :: "string \<Rightarrow> string list \<Rightarrow> index_def" where
  "plain_index n cs = \<lparr>ix_name = n, ix_columns = cs, ix_unique = False\<rparr>"

definition unique_index :: "string \<Rightarrow> string list \<Rightarrow> index_def" where
  "unique_index n cs = \<lparr>ix_name = n, ix_columns = cs, ix_unique = True\<rparr>"

record table_def =
  td_name :: string
  td_if_not_exists :: bool
  td_columns :: "column_def list"
  td_foreign_keys :: "foreign_key_def list"
  td_indexes :: "index_def list"

section \<open>The tables\<close>

definition users_table :: table_def where
  "users_table =
     \<lparr>td_name = ''users'', td_if_not_exists = True,
      td_columns =
        [primary_key (auto_increment (not_null (column_new ''id'' BigInteger))),
         not_null (column_new ''email'' (VarCharLen 320)),
         not_null (column_new ''password_hash'' VarChar),
         default_to CurrentTimestamp (not_null (column_new ''created_at'' TimestampTz)),
         default_to CurrentTimestamp (not_null (column_new ''updated_at'' TimestampTz))],
      td_foreign_keys = [],
      td_indexes =
        [unique_index ''idx-users-email-unique'' [''email'']]\<rparr>"

definition sessions_table :: table_def where
  "sessions_table =
     \<lparr>td_name = ''sessions'', td_if_not_exists = True,
      td_columns =
        [primary_key (auto_increment (not_null (column_new ''id'' BigInteger))),
         not_null (column_new ''user_id'' BigInteger),
         not_null (column_new ''token_hash'' VarChar),
         column_new ''ip_address'' (VarCharLen 64),
         column_new ''user_agent'' (VarCharLen 512),
         column_new ''last_seen_at'' TimestampTz,
         column_new ''expires_at'' TimestampTz,
         default_to CurrentTimestamp (not_null (column_new ''created_at'' TimestampTz))],
      td_foreign_keys =
        [foreign_key ''fk-sessions-user-id'' ''user_id'' ''users'' ''id'' Cascade],
      td_indexes =
        [unique_index ''idx-sessions-token-hash-unique'' [''token_hash''],
         plain_index ''idx-sessions-user-id'' [''user_id'']]\<rparr>"

definition terminal_sessions_table :: table_def where
  "terminal_sessions_table =
     \<lparr>td_name = ''terminal_sessions'', td_if_not_exists = True,
      td_columns =
        [primary_key (auto_increment (not_null (column_new ''id'' BigInteger))),
         not_null (column_new ''session_id'' VarChar),
         not_null (column_new ''user_id'' BigInteger),
         column_new ''node_id'' (VarCharLen 128),
         not_null (column_new ''state'' (VarCharLen 32)),
         column_new ''started_at'' TimestampTz,
         column_new ''ended_at'' TimestampTz,
         column_new ''exit_code'' IntegerType,
         default_to CurrentTimestamp (not_null (column_new ''created_at'' TimestampTz))],
      td_foreign_keys =
        [foreign_key ''fk-terminal-sessions-user-id'' ''user_id'' ''users'' ''id'' Cascade],
      td_indexes =
        [unique_index ''idx-terminal-sessions-session-id-unique'' [''session_id''],
         plain_index ''idx-terminal-sessions-user-id'' [''user_id'']]\<rparr>"

definition audit_logs_table :: table_def where
  "audit_logs_table =
     \<lparr>td_name = ''audit_logs'', td_if_not_exists = True,
      td_columns =
        [primary_key (auto_increment (not_null (column_new ''id'' BigInteger))),
         column_new ''user_id'' BigInteger,
         not_null (column_new ''event_type'' (VarCharLen 128)),
         column_new ''target_type'' (VarCharLen 64),
         column_new ''target_id'' (VarCharLen 128),
         column_new ''metadata_json'' JsonBinary,
         column_new ''ip_address'' (VarCharLen 64),
         default_to CurrentTimestamp (not_null (column_new ''created_at'' TimestampTz))],
      td_foreign_keys =
        [foreign_key ''fk-audit-logs-user-id'' ''user_id'' ''users'' ''id'' SetNull],
      td_indexes =
        [plain_index ''idx-audit-logs-created-at'' [''created_at''],
         plain_index ''idx-audit-logs-event-type'' [''event_type'']]\<rparr>"

definition nodes_table :: table_def where
  "nodes_table =
     \<lparr>td_name = ''nodes'', td_if_not_exists = True,
      td_columns =
        [primary_key (auto_increment (not_null (column_new ''id'' BigInteger))),
         not_null (column_new ''node_id'' (VarCharLen 128)),
         not_null (column_new ''display_name'' (VarCharLen 128)),
         not_null (column_new ''hostname'' (VarCharLen 255)),
         not_null (column_new ''os'' (VarCharLen 64)),
         not_null (column_new ''architecture'' (VarCharLen 64)),
         not_null (column_new ''agent_version'' (VarCharLen 64)),
         not_null (column_new ''status'' (VarCharLen 32)),
         default_to CurrentTimestamp (not_null (column_new ''enrolled_at'' TimestampTz))],
      td_foreign_keys = [],
      td_indexes =
        [unique_index ''idx-nodes-node-id-unique'' [''node_id'']]\<rparr>"

definition node_credentials_table :: table_def where
  "node_credentials_table =
     \<lparr>td_name = ''node_credentials'', td_if_not_exists = True,
      td_columns =
        [primary_key (auto_increment (not_null (column_new ''id'' BigInteger))),
         not_null (column_new ''node_id'' BigInteger),
         not_null (column_new ''credential_fingerprint'' (VarCharLen 128)),
         not_null (column_new ''credential_kind'' (VarCharLen 64)),
         default_to CurrentTimestamp (not_null (column_new ''created_at'' TimestampTz))],
      td_foreign_keys =
        [foreign_key ''fk-node-credentials-node-id'' ''node_id'' ''nodes'' ''id'' Cascade],
      td_indexes =
        [plain_index ''idx-node-credentials-node-id'' [''node_id'']]\<rparr>"

definition node_heartbeats_table :: table_def where
  "node_heartbeats_table =
     \<lparr>td_name = ''node_heartbeats'', td_if_not_exists = True,
      td_columns =
        [primary_key (auto_increment (not_null (column_new ''id'' BigInteger))),
         not_null (column_new ''node_id'' BigInteger),
         not_null (column_new ''status'' (VarCharLen 32)),
         default_to CurrentTimestamp (not_null (column_new ''received_at'' TimestampTz))],
      td_foreign_keys =
        [foreign_key ''fk-node-heartbeats-node-id'' ''node_id'' ''nodes'' ''id'' Cascade],
      td_indexes =
        [plain_index ''idx-node-heartbeats-node-id'' [''node_id'']]\<rparr>"

definition enrollment_tokens_table :: table_def where
  "enrollment_tokens_table =
     \<lparr>td_name = ''enrollment_tokens'', td_if_not_exists = True,
      td_columns =
        [primary_key (auto_increment (not_null (column_new ''id'' BigInteger))),
         not_null (column_new ''token_hash'' (VarCharLen 128)),
         column_new ''created_by_user_id'' BigInteger,
         column_new ''used_by_node_id'' BigInteger,
         column_new ''used_at'' TimestampTz,
         not_null (column_new ''expires_at'' TimestampTz),
         default_to CurrentTimestamp (not_null (column_new ''created_at'' TimestampTz))],
      td_foreign_keys =
        [foreign_key ''fk-enrollment-tokens-created-by-user-id'' ''created_by_user_id'' ''users'' ''id'' SetNull,
         foreign_key ''fk-enrollment-tokens-used-by-node-id'' ''used_by_node_id'' ''nodes'' ''id'' SetNull],
      td_indexes =
        [unique_index ''idx-enrollment-tokens-token-hash-unique'' [''token_hash'']]\<rparr>"

definition auth_factors_table :: table_def where
  "auth_factors_table =
     \<lparr>td_name = ''auth_factors'', td_if_not_exists = True,
      td_columns =
        [primary_key (auto_increment (not_null (column_new ''id'' BigInteger))),
         not_null (column_new ''user_id'' BigInteger),
         not_null (column_new ''factor_type'' (VarCharLen 64)),
         not_null (column_new ''label'' (VarCharLen 128)),
         default_to (DefaultBool True) (not_null (column_new ''enabled'' Boolean)),
         default_to CurrentTimestamp (not_null (column_new ''created_at'' TimestampTz)),
         default_to CurrentTimestamp (not_null (column_new ''updated_at'' TimestampTz))],
      td_foreign_keys =
        [foreign_key ''fk-auth-factors-user-id'' ''user_id'' ''users'' ''id'' Cascade],
      td_indexes =
        [plain_index ''idx-auth-factors-user-type'' [''user_id'', ''factor_type'']]\<rparr>"

definition recovery_codes_table :: table_def where
  "recovery_codes_table =
     \<lparr>td_name = ''recovery_codes'', td_if_not_exists = True,
      td_columns =
        [primary_key (auto_increment (not_null (column_new ''id'' BigInteger))),
         not_null (column_new ''factor_id'' BigInteger),
         not_null (column_new ''code_hash'' (VarCharLen 128)),
         column_new ''used_at'' TimestampTz,
         default_to CurrentTimestamp (not_null (column_new ''created_at'' TimestampTz))],
      td_foreign_keys =
        [foreign_key ''fk-recovery-codes-factor-id'' ''factor_id'' ''auth_factors'' ''id'' Cascade],
      td_indexes =
        [unique_index ''idx-recovery-codes-factor-hash'' [''factor_id'', ''code_hash'']]\<rparr>"

definition passkey_credentials_table :: table_def where
  "passkey_credentials_table =
     \<lparr>td_name = ''passkey_credentials'', td_if_not_exists = True,
      td_columns =
        [primary_key (auto_increment (not_null (column_new ''id'' BigInteger))),
         not_null (column_new ''user_id'' BigInteger),
         not_null (column_new ''credential_id'' (VarCharLen 512)),
         not_null (column_new ''public_key'' PlainText),
         not_null (column_new ''label'' (VarCharLen 128)),
         default_to (DefaultBool True) (not_null (column_new ''enabled'' Boolean)),
         default_to CurrentTimestamp (not_null (column_new ''created_at'' TimestampTz))],
      td_foreign_keys =
        [foreign_key ''fk-passkey-credentials-user-id'' ''user_id'' ''users'' ''id'' Cascade],
      td_indexes =
        [unique_index ''idx-passkey-credentials-credential-id'' [''credential_id'']]\<rparr>"

definition workspaces_table :: table_def where
  "workspaces_table =
     \<lparr>td_name = ''workspaces'', td_if_not_exists = True,
      td_columns =
        [primary_key (auto_increment (not_null (column_new ''id'' BigInteger))),
         not_null (column_new ''name'' (VarCharLen 128)),
         default_to CurrentTimestamp (not_null (column_new ''created_at'' TimestampTz))],
      td_foreign_keys = [],
      td_indexes =
        [unique_index ''idx-workspaces-name'' [''name'']]\<rparr>"

definition roles_table :: table_def where
  "roles_table =
     \<lparr>td_name = ''roles'', td_if_not_exists = True,
      td_columns =
        [primary_key (auto_increment (not_null (column_new ''id'' BigInteger))),
         not_null (column_new ''name'' (VarCharLen 128)),
         default_to CurrentTimestamp (not_null (column_new ''created_at'' TimestampTz))],
      td_foreign_keys = [],
      td_indexes =
        [unique_index ''idx-roles-name'' [''name'']]\<rparr>"

definition permissions_table :: table_def where
  "permissions_table =
     \<lparr>td_name = ''permissions'', td_if_not_exists = True,
      td_columns =
        [primary_key (auto_increment (not_null (column_new ''id'' BigInteger))),
         not_null (column_new ''permission'' (VarCharLen 128)),
         default_to CurrentTimestamp (not_null (column_new ''created_at'' TimestampTz))],
      td_foreign_keys = [],
      td_indexes =
        [unique_index ''idx-permissions-permission'' [''permission'']]\<rparr>"

definition role_permissions_table :: table_def where
  "role_permissions_table =
     \<lparr>td_name = ''role_permissions'', td_if_not_exists = True,
      td_columns =
        [primary_key (auto_increment (not_null (column_new ''id'' BigInteger))),
         not_null (column_new ''role_id'' BigInteger),
         not_null (column_new ''permission'' (VarCharLen 128))],
      td_foreign_keys =
        [foreign_key ''fk-role-permissions-role-id'' ''role_id'' ''roles'' ''id'' Cascade],
      td_indexes =
        [unique_index ''idx-role-permissions-role-permission'' [''role_id'', ''permission'']]\<rparr>"

definition workspace_members_table :: table_def where
  "workspace_members_table =
     \<lparr>td_name = ''workspace_members'', td_if_not_exists = True,
      td_columns =
        [primary_key (auto_increment (not_null (column_new ''id'' BigInteger))),
         not_null (column_new ''workspace_id'' BigInteger),
         not_null (column_new ''user_id'' BigInteger),
         not_null (column_new ''role_id'' BigInteger)],
      td_foreign_keys =
        [foreign_key ''fk-workspace-members-workspace-id'' ''workspace_id'' ''workspaces'' ''id'' Cascade,
         foreign_key ''fk-workspace-members-user-id'' ''user_id'' ''users'' ''id'' Cascade,
         foreign_key ''fk-workspace-members-role-id'' ''role_id'' ''roles'' ''id'' Cascade],
      td_indexes =
        [unique_index ''idx-workspace-members-user'' [''workspace_id'', ''user_id'']]\<rparr>"

definition workspace_nodes_table :: table_def where
  "workspace_nodes_table =
     \<lparr>td_name = ''workspace_nodes'', td_if_not_exists = True,
      td_columns =
        [primary_key (auto_increment (not_null (column_new ''id'' BigInteger))),
         not_null (column_new ''workspace_id'' BigInteger),
         not_null (column_new ''node_id'' (VarCharLen 128))],
      td_foreign_keys =
        [foreign_key ''fk-workspace-nodes-workspace-id'' ''workspace_id'' ''workspaces'' ''id'' Cascade],
      td_indexes =
        [unique_index ''idx-workspace-nodes-node-id'' [''node_id'']]\<rparr>"

section \<open>The migrations\<close>

record ('s, 'e) schema_manager =
  create_table :: "table_def \<Rightarrow> 's \<Rightarrow> ('e + unit) \<times> 's"
  drop_table :: "string \<Rightarrow> 's \<Rightarrow> ('e + unit) \<times> 's"

text \<open>Statements one after the other, up to the first error.\<close>

fun run_all :: "('s \<Rightarrow> ('e + unit) \<times> 's) list \<Rightarrow> 's \<Rightarrow> ('e + unit) \<times> 's" where
  "run_all [] s = (Inr (), s)"
| "run_all (f # fs) s = (case f s of (Inl e, s') \<Rightarrow> (Inl e, s') | (Inr _, s') \<Rightarrow> run_all fs s')"

record ('s, 'e) migration =
  mg_name :: string
  mg_up :: "('s, 'e) schema_manager \<Rightarrow> 's \<Rightarrow> ('e + unit) \<times> 's"
  mg_down :: "('s, 'e) schema_manager \<Rightarrow> 's \<Rightarrow> ('e + unit) \<times> 's"

definition m20260502_000001_create_users_table :: "('s, 'e) migration" where
  "m20260502_000001_create_users_table =
     \<lparr>mg_name = ''m20260502_000001_create_users_table'',
      mg_up = (\<lambda>m. create_table m users_table),
      mg_down = (\<lambda>m. drop_table m ''users'')\<rparr>"

definition m20260502_000002_create_sessions_table :: "('s, 'e) migration" where
  "m20260502_000002_create_sessions_table =
     \<lparr>mg_name = ''m20260502_000002_create_sessions_table'',
      mg_up = (\<lambda>m. create_table m sessions_table),
      mg_down = (\<lambda>m. drop_table m ''sessions'')\<rparr>"

definition m20260502_000003_create_terminal_sessions_table :: "('s, 'e) migration" where
  "m20260502_000003_create_terminal_sessions_table =
     \<lparr>mg_name = ''m20260502_000003_create_terminal_sessions_table'',
      mg_up = (\<lambda>m. create_table m terminal_sessions_table),
      mg_down = (\<lambda>m. drop_table m ''terminal_sessions'')\<rparr>"

definition m20260502_000004_create_audit_logs_table :: "('s, 'e) migration" where
  "m20260502_000004_create_audit_logs_table =
     \<lparr>mg_name = ''m20260502_000004_create_audit_logs_table'',
      mg_up = (\<lambda>m. create_table m audit_logs_table),
      mg_down = (\<lambda>m. drop_table m ''audit_logs'')\<rparr>"

definition m20260502_000005_create_nodes_table :: "('s, 'e) migration" where
  "m20260502_000005_create_nodes_table =
     \<lparr>mg_name = ''m20260502_000005_create_nodes_table'',
      mg_up = (\<lambda>m. create_table m nodes_table),
      mg_down = (\<lambda>m. drop_table m ''nodes'')\<rparr>"

definition m20260502_000006_create_node_credentials_table :: "('s, 'e) migration" where
  "m20260502_000006_create_node_credentials_table =
     \<lparr>mg_name = ''m20260502_000006_create_node_credentials_table'',
      mg_up = (\<lambda>m. create_table m node_credentials_table),
      mg_down = (\<lambda>m. drop_table m ''node_credentials'')\<rparr>"

definition m20260502_000007_create_node_heartbeats_table :: "('s, 'e) migration" where
  "m20260502_000007_create_node_heartbeats_table =
     \<lparr>mg_name = ''m20260502_000007_create_node_heartbeats_table'',
      mg_up = (\<lambda>m. create_table m node_heartbeats_table),
      mg_down = (\<lambda>m. drop_table m ''node_heartbeats'')\<rparr>"

definition m20260502_000008_create_enrollment_tokens_table :: "('s, 'e) migration" where
  "m20260502_000008_create_enrollment_tokens_table =
     \<lparr>mg_name = ''m20260502_000008_create_enrollment_tokens_table'',
      mg_up = (\<lambda>m. create_table m enrollment_tokens_table),
      mg_down = (\<lambda>m. drop_table m ''enrollment_tokens'')\<rparr>"

definition m20260503_000009_create_auth_factors_table :: "('s, 'e) migration" where
  "m20260503_000009_create_auth_factors_table =
     \<lparr>mg_name = ''m20260503_000009_create_auth_factors_table'',
      mg_up = (\<lambda>m. create_table m auth_factors_table),
      mg_down = (\<lambda>m. drop_table m ''auth_factors'')\<rparr>"

definition m20260505_000010_create_recovery_codes_table :: "('s, 'e) migration" where
  "m20260505_000010_create_recovery_codes_table =
     \<lparr>mg_name = ''m20260505_000010_create_recovery_codes_table'',
      mg_up = (\<lambda>m. create_table m recovery_codes_table),
      mg_down = (\<lambda>m. drop_table m ''recovery_codes'')\<rparr>"

definition m20260505_000011_create_passkey_credentials_table :: "('s, 'e) migration" where
  "m20260505_000011_create_passkey_credentials_table =
     \<lparr>mg_name = ''m20260505_000011_create_passkey_credentials_table'',
      mg_up = (\<lambda>m. create_table m passkey_credentials_table),
      mg_down = (\<lambda>m. drop_table m ''passkey_credentials'')\<rparr>"

definition rbac_up :: "('s, 'e) schema_manager \<Rightarrow> 's \<Rightarrow> ('e + unit) \<times> 's" where
  "rbac_up m = run_all
     [create_table m workspaces_table, create_table m roles_table, create_table m permissions_table,
      create_table m role_permissions_table, create_table m workspace_members_table,
      create_table m workspace_nodes_table]"

definition rbac_down :: "('s, 'e) schema_manager \<Rightarrow> 's \<Rightarrow> ('e + unit) \<times> 's" where
  "rbac_down m = run_all
     [drop_table m ''workspace_nodes'', drop_table m ''workspace_members'',
      drop_table m ''role_permissions'', drop_table m ''permissions'', drop_table m ''roles'',
      drop_table m ''workspaces'']"

definition m20260505_000012_create_rbac_tables :: "('s, 'e) migration" where
  "m20260505_000012_create_rbac_tables =
     \<lparr>mg_name = ''m20260505_000012_create_rbac_tables'', mg_up = rbac_up, mg_down = rbac_down\<rparr>"

definition migrations :: "('s, 'e) migration list" where
  "migrations =
     [m20260502_000001_create_users_table,
      m20260502_000002_create_sessions_table,
      m20260502_000003_create_terminal_sessions_table,
      m20260502_000004_create_audit_logs_table,
      m20260502_000005_create_nodes_table,
      m20260502_000006_create_node_credentials_table,
      m20260502_000007_create_node_heartbeats_table,
      m20260502_000008_create_enrollment_tokens_table,
      m20260503_000009_create_auth_factors_table,
      m20260505_000010_create_recovery_codes_table,
      m20260505_000011_create_passkey_credentials_table,
      m20260505_000012_create_rbac_tables]"

text \<open>The migrator applies the first migrations of the list that are not applied yet, in order, and
  takes the last k of n applied ones back, from the last.\<close>

definition migrate_up :: "('s, 'e) schema_manager \<Rightarrow> nat \<Rightarrow> 's \<Rightarrow> ('e + unit) \<times> 's" where
  "migrate_up m n = run_all (map (\<lambda>mg. mg_up mg m) (take n migrations))"

definition roll_back :: "('s, 'e) schema_manager \<Rightarrow> nat \<Rightarrow> nat \<Rightarrow> 's \<Rightarrow> ('e + unit) \<times> 's" where
  "roll_back m n k = run_all (map (\<lambda>mg. mg_down mg m) (rev (drop (n - k) (take n migrations))))"
section \<open>What the database promises\<close>

definition relation_names :: "table_def \<Rightarrow> string list" where
  "relation_names td = td_name td # map ix_name (td_indexes td)"

definition column_names :: "table_def \<Rightarrow> string list" where
  "column_names td = map col_name (td_columns td)"

definition type_of_column :: "table_def \<Rightarrow> string \<Rightarrow> column_type option" where
  "type_of_column td c = map_option col_type (find (\<lambda>d. col_name d = c) (td_columns td))"

definition is_primary_key :: "table_def \<Rightarrow> string \<Rightarrow> bool" where
  "is_primary_key td c = list_ex (\<lambda>d. col_name d = c \<and> col_primary_key d) (td_columns td)"

text \<open>A foreign key refers to the primary key of a table that is there, or of its own table, and has its type.\<close>

definition reference_ok :: "(string \<Rightarrow> table_def option) \<Rightarrow> table_def \<Rightarrow> foreign_key_def \<Rightarrow> bool" where
  "reference_ok tables td fk =
     (fk_column fk \<in> set (column_names td)
      \<and> (case (tables(td_name td \<mapsto> td)) (fk_table fk) of
           None \<Rightarrow> False
         | Some target \<Rightarrow> is_primary_key target (fk_target fk)
             \<and> type_of_column target (fk_target fk) = type_of_column td (fk_column fk)))"

text \<open>What does not depend on the tables that exist: the names inside a statement are its own and
  declared once, and a key that is set to null may be null.\<close>

definition statement_ok :: "table_def \<Rightarrow> bool" where
  "statement_ok td =
     (distinct (column_names td) \<and> distinct (relation_names td)
      \<and> distinct (map fk_name (td_foreign_keys td))
      \<and> list_all (\<lambda>ix. ix_columns ix \<noteq> [] \<and> set (ix_columns ix) \<subseteq> set (column_names td)) (td_indexes td)
      \<and> list_all (\<lambda>fk. fk_on_delete fk = SetNull \<longrightarrow>
          list_all (\<lambda>d. col_name d = fk_column fk \<longrightarrow> \<not> col_not_null d) (td_columns td))
        (td_foreign_keys td))"

definition creatable :: "(string \<Rightarrow> table_def option) \<Rightarrow> table_def \<Rightarrow> bool" where
  "creatable tables td =
     (statement_ok td \<and> list_all (reference_ok tables td) (td_foreign_keys td)
      \<and> tables (td_name td) = None
      \<and> (\<forall>t td'. tables t = Some td' \<longrightarrow> set (relation_names td) \<inter> set (relation_names td') = {}))"

definition referenced :: "table_def \<Rightarrow> string set" where
  "referenced td = fk_table ` set (td_foreign_keys td)"

definition has_plain_index :: "table_def \<Rightarrow> bool" where
  "has_plain_index td = list_ex (\<lambda>ix. \<not> ix_unique ix) (td_indexes td)"

text \<open>The manager creates what can be created and drops a table nothing else refers to. An index that
  is not unique has no place in the create statement of every database: where it has none
  (\<open>plain_indexes\<close> is false) the statement is refused.\<close>

definition documented_manager ::
  "('s, 'e) schema_manager \<Rightarrow> ('s \<Rightarrow> string \<Rightarrow> table_def option) \<Rightarrow> bool \<Rightarrow> bool" where
  "documented_manager m view plain_indexes =
     ((\<forall>td s. creatable (view s) td \<and> (plain_indexes \<or> \<not> has_plain_index td) \<longrightarrow>
         (\<exists>s'. create_table m td s = (Inr (), s') \<and> view s' = (view s)(td_name td \<mapsto> td)))
      \<and> (\<forall>td s. has_plain_index td \<and> \<not> plain_indexes \<longrightarrow>
         (\<exists>e s'. create_table m td s = (Inl e, s') \<and> view s' = view s))
      \<and> (\<forall>t s. view s t \<noteq> None
           \<and> (\<forall>t' td. view s t' = Some td \<and> t' \<noteq> t \<longrightarrow> t \<notin> referenced td) \<longrightarrow>
         (\<exists>s'. drop_table m t s = (Inr (), s') \<and> view s' = (view s)(t := None))))"

section \<open>Creating and dropping in sequence\<close>

text \<open>The tables after a sequence of statements.\<close>

definition with_tables ::
  "(string \<Rightarrow> table_def option) \<Rightarrow> table_def list \<Rightarrow> string \<Rightarrow> table_def option" where
  "with_tables tables tds = foldl (\<lambda>v td. v(td_name td \<mapsto> td)) tables tds"

fun creatable_all :: "(string \<Rightarrow> table_def option) \<Rightarrow> table_def list \<Rightarrow> bool" where
  "creatable_all tables [] = True"
| "creatable_all tables (td # tds) = (creatable tables td \<and> creatable_all (tables(td_name td \<mapsto> td)) tds)"

definition references_resolved :: "(string \<Rightarrow> table_def option) \<Rightarrow> bool" where
  "references_resolved tables = (\<forall>t td. tables t = Some td \<longrightarrow> referenced td \<subseteq> dom tables)"

lemma with_tables_simps [simp]:
  "with_tables v [] = v" "with_tables v (td # tds) = with_tables (v(td_name td \<mapsto> td)) tds"
  by (simp_all add: with_tables_def)

lemma run_all_append:
  "run_all (fs @ gs) s = (case run_all fs s of (Inl e, s') \<Rightarrow> (Inl e, s') | (Inr _, s') \<Rightarrow> run_all gs s')"
  by (induction fs arbitrary: s) (auto split: prod.split sum.split)

lemma creatable_all_append:
  "creatable_all v (tds @ tds') = (creatable_all v tds \<and> creatable_all (with_tables v tds) tds')"
  by (induction tds arbitrary: v) auto

lemma references_resolved_create:
  assumes "references_resolved v" and "creatable v td"
  shows "references_resolved (v(td_name td \<mapsto> td))"
proof -
  have "referenced td \<subseteq> insert (td_name td) (dom v)"
    using assms(2) by (auto simp: creatable_def referenced_def reference_ok_def list_all_iff
        split: option.splits if_splits)
  moreover have "dom (v(td_name td \<mapsto> td)) = insert (td_name td) (dom v)"
    by simp
  ultimately show ?thesis
    using assms(1) unfolding references_resolved_def by (metis fun_upd_apply option.inject subset_insertI2)
qed

lemma references_resolved_create_all:
  "references_resolved v \<Longrightarrow> creatable_all v tds \<Longrightarrow> references_resolved (with_tables v tds)"
  by (induction tds arbitrary: v) (simp_all add: references_resolved_create del: fun_upd_apply)

lemma create_all:
  assumes "documented_manager m view plain" and "creatable_all (view s) tds"
    and "plain \<or> \<not> list_ex has_plain_index tds"
  shows "\<exists>s'. run_all (map (create_table m) tds) s = (Inr (), s') \<and> view s' = with_tables (view s) tds"
  using assms(2,3)
proof (induction tds arbitrary: s)
  case (Cons td tds)
  obtain s1 where s1: "create_table m td s = (Inr (), s1)" "view s1 = (view s)(td_name td \<mapsto> td)"
    using assms(1) Cons.prems unfolding documented_manager_def creatable_all.simps(2) list_ex_iff list.set by blast
  have "creatable_all (view s1) tds" "plain \<or> \<not> list_ex has_plain_index tds"
    using Cons.prems by (auto simp: s1(2) simp del: fun_upd_apply)
  from Cons.IH [OF this] show ?case
    using s1 by (auto simp del: fun_upd_apply)
qed simp

lemma drop_all:
  assumes "documented_manager m view plain"
  shows "references_resolved v \<Longrightarrow> creatable_all v tds \<Longrightarrow> view s = with_tables v tds \<Longrightarrow>
    \<exists>s'. run_all (map (drop_table m) (map td_name (rev tds))) s = (Inr (), s') \<and> view s' = v"
proof (induction tds arbitrary: v s)
  case (Cons td tds)
  let ?v = "v(td_name td \<mapsto> td)"
  have td: "creatable v td" "creatable_all ?v tds"
    using Cons.prems(2) by simp_all
  obtain s1 where s1: "run_all (map (drop_table m) (map td_name (rev tds))) s = (Inr (), s1)" "view s1 = ?v"
    using Cons.IH [OF references_resolved_create [OF Cons.prems(1) td(1)] td(2), of s]
      Cons.prems(3) [unfolded with_tables_simps] by blast
  have fresh: "v (td_name td) = None"
    using td(1) by (simp add: creatable_def)
  have "\<forall>t' td'. view s1 t' = Some td' \<and> t' \<noteq> td_name td \<longrightarrow> td_name td \<notin> referenced td'"
    using Cons.prems(1) fresh s1(2) by (auto simp: references_resolved_def)
  moreover have "view s1 (td_name td) \<noteq> None"
    by (simp add: s1(2))
  ultimately obtain s2 where s2: "drop_table m (td_name td) s1 = (Inr (), s2)"
    "view s2 = (view s1)(td_name td := None)"
    using assms unfolding documented_manager_def by blast
  have "?v(td_name td := None) = v"
    using fresh by auto
  then show ?case
    using s1 s2 by (auto simp: run_all_append)
qed simp
section \<open>The tables of the migrations\<close>

definition migration_tables :: "table_def list list" where
  "migration_tables =
     [[users_table], [sessions_table], [terminal_sessions_table], [audit_logs_table], [nodes_table],
      [node_credentials_table], [node_heartbeats_table], [enrollment_tokens_table], [auth_factors_table],
      [recovery_codes_table], [passkey_credentials_table],
      [workspaces_table, roles_table, permissions_table, role_permissions_table,
       workspace_members_table, workspace_nodes_table]]"

definition tables_of :: "nat \<Rightarrow> table_def list" where
  "tables_of n = concat (take n migration_tables)"

fun tables_ordered :: "table_def list \<Rightarrow> table_def list \<Rightarrow> bool" where
  "tables_ordered ds [] = True"
| "tables_ordered ds (td # tds) =
     (statement_ok td \<and> list_all (reference_ok (with_tables Map.empty ds) td) (td_foreign_keys td)
      \<and> tables_ordered (ds @ [td]) tds)"

text \<open>Tables of another purpose in the same database, such as the migrator's own.\<close>

definition unrelated :: "(string \<Rightarrow> table_def option) \<Rightarrow> table_def list \<Rightarrow> bool" where
  "unrelated tables tds =
     (\<forall>t td. tables t = Some td \<longrightarrow>
        t \<notin> set (concat (map relation_names tds))
        \<and> set (relation_names td) \<inter> set (concat (map relation_names tds)) = {})"

lemmas table_defs = users_table_def sessions_table_def terminal_sessions_table_def audit_logs_table_def
  nodes_table_def node_credentials_table_def node_heartbeats_table_def enrollment_tokens_table_def
  auth_factors_table_def recovery_codes_table_def passkey_credentials_table_def workspaces_table_def
  roles_table_def permissions_table_def role_permissions_table_def workspace_members_table_def
  workspace_nodes_table_def

lemma with_tables_snoc: "with_tables v (tds @ [td]) = (with_tables v tds)(td_name td \<mapsto> td)"
  by (simp add: with_tables_def)

lemma with_tables_lookup:
  "with_tables v tds t = Some td \<Longrightarrow> td \<in> set tds \<and> t = td_name td \<or> v t = Some td"
  by (induction tds rule: rev_induct) (auto simp: with_tables_snoc split: if_splits)

lemma with_tables_extends: "with_tables Map.empty tds t = Some td \<Longrightarrow> with_tables v tds t = Some td"
  by (induction tds rule: rev_induct) (auto simp: with_tables_snoc split: if_splits)

lemma reference_ok_extends:
  assumes "reference_ok (with_tables Map.empty ds) td fk"
  shows "reference_ok (with_tables v ds) td fk"
  using assms with_tables_extends [of ds "fk_table fk" _ v]
  by (auto simp: reference_ok_def split: option.splits if_splits)

lemma creatable_all_of_ordered:
  "tables_ordered ds tds \<Longrightarrow> distinct (concat (map relation_names (ds @ tds))) \<Longrightarrow>
   unrelated v (ds @ tds) \<Longrightarrow> creatable_all (with_tables v ds) tds"
proof (induction tds arbitrary: ds)
  case (Cons td tds)
  have mine: "td_name td \<in> set (relation_names td)"
    by (simp add: relation_names_def)
  have "set (relation_names td) \<inter> set (relation_names td') = {} \<and> t \<noteq> td_name td"
    if "with_tables v ds t = Some td'" for t td'
    using with_tables_lookup [OF that]
  proof
    assume "td' \<in> set ds \<and> t = td_name td'"
    then have "set (relation_names td') \<subseteq> set (concat (map relation_names ds))"
      and "td_name td' \<in> set (relation_names td')" and "t = td_name td'"
      by (auto simp: relation_names_def)
    then show ?thesis
      using Cons.prems(2) mine by auto
  next
    assume "v t = Some td'"
    then show ?thesis
      using Cons.prems(3) mine unfolding unrelated_def by auto
  qed
  note apart = this
  have "with_tables v ds (td_name td) = None"
    using apart [of "td_name td"] by (cases "with_tables v ds (td_name td)") auto
  then have "creatable (with_tables v ds) td"
    using Cons.prems(1) reference_ok_extends [of ds td _ v] apart by (auto simp: creatable_def list_all_iff)
  moreover have "creatable_all (with_tables v (ds @ [td])) tds"
    using Cons.IH [of "ds @ [td]"] Cons.prems by simp
  ultimately show ?case
    by (simp add: with_tables_snoc)
qed simp

lemma all_tables_ordered: "tables_ordered [] (concat migration_tables)"
  by code_simp

lemma relation_names_distinct: "distinct (concat (map relation_names (concat migration_tables)))"
  by code_simp

definition builds :: "('s, 'e) schema_manager \<Rightarrow> ('s, 'e) migration \<Rightarrow> table_def list \<Rightarrow> bool" where
  "builds m mg tds =
     (mg_up mg m = run_all (map (create_table m) tds)
      \<and> mg_down mg m = run_all (map (drop_table m) (map td_name (rev tds))))"

lemma run_all_single: "run_all [f] = f"
  by (rule ext) (simp split: prod.split sum.split unit.split)

lemma migrations_build: "list_all2 (builds m) migrations migration_tables"
  by (simp add: migrations_def migration_tables_def builds_def run_all_single table_defs
      m20260502_000001_create_users_table_def m20260502_000002_create_sessions_table_def
      m20260502_000003_create_terminal_sessions_table_def m20260502_000004_create_audit_logs_table_def
      m20260502_000005_create_nodes_table_def m20260502_000006_create_node_credentials_table_def
      m20260502_000007_create_node_heartbeats_table_def m20260502_000008_create_enrollment_tokens_table_def
      m20260503_000009_create_auth_factors_table_def m20260505_000010_create_recovery_codes_table_def
      m20260505_000011_create_passkey_credentials_table_def m20260505_000012_create_rbac_tables_def
      rbac_up_def rbac_down_def)

lemma ups_create:
  "list_all2 (builds m) mgs tdss \<Longrightarrow>
   run_all (map (\<lambda>mg. mg_up mg m) mgs) = run_all (map (create_table m) (concat tdss))"
proof (induction rule: list_all2_induct)
  case (Cons mg mgs tds tdss)
  show ?case
    using Cons by (intro ext) (simp add: builds_def run_all_append split: prod.split sum.split)
qed simp

lemma downs_drop:
  "list_all2 (builds m) mgs tdss \<Longrightarrow>
   run_all (map (\<lambda>mg. mg_down mg m) (rev mgs)) = run_all (map (drop_table m) (map td_name (rev (concat tdss))))"
proof (induction rule: list_all2_induct)
  case (Cons mg mgs tds tdss)
  show ?case
    using Cons by (intro ext) (simp add: builds_def run_all_append run_all_single split: prod.split sum.split)
qed simp
lemma prefix_refused:
  assumes "documented_manager m view False" and "creatable (view s) td" and "\<not> has_plain_index td"
    and "has_plain_index td'"
  shows "\<exists>e s'. run_all (create_table m td # create_table m td' # fs) s = (Inl e, s')
    \<and> view s' = (view s)(td_name td \<mapsto> td)"
proof -
  obtain s1 where s1: "create_table m td s = (Inr (), s1)" "view s1 = (view s)(td_name td \<mapsto> td)"
    using assms unfolding documented_manager_def by blast
  obtain e s2 where "create_table m td' s1 = (Inl e, s2)" "view s2 = view s1"
    using assms unfolding documented_manager_def by blast
  then show ?thesis
    using s1 by simp
qed

text \<open>The statements the migrator issues, and the schema as one list of tables.\<close>

lemma migrate_up_creates: "migrate_up m n = run_all (map (create_table m) (tables_of n))"
  unfolding migrate_up_def tables_of_def by (intro ups_create list_all2_takeI migrations_build)

definition tables_between :: "nat \<Rightarrow> nat \<Rightarrow> table_def list" where
  "tables_between j n = concat (drop j (take n migration_tables))"

lemma roll_back_drops:
  "roll_back m n k = run_all (map (drop_table m) (map td_name (rev (tables_between (n - k) n))))"
  unfolding roll_back_def tables_between_def
  by (intro downs_drop list_all2_dropI list_all2_takeI migrations_build)

lemma tables_of_split:
  assumes "j \<le> n"
  shows "tables_of n = tables_of j @ tables_between j n"
proof -
  have "take j (take n migration_tables) @ drop j (take n migration_tables) = take n migration_tables"
    by (rule append_take_drop_id)
  then show ?thesis
    using assms unfolding tables_of_def tables_between_def by (metis concat_append min.absorb1 take_take)
qed

lemma tables_creatable:
  assumes "unrelated v (concat migration_tables)"
  shows "creatable_all v (tables_of n)"
proof -
  have "creatable_all v (concat migration_tables)"
    using creatable_all_of_ordered [OF all_tables_ordered, of v] relation_names_distinct assms by simp
  then show ?thesis
    unfolding tables_of_def by (metis append_take_drop_id concat_append creatable_all_append)
qed

section \<open>Properties\<close>


text \<open>A database that is its tables: both kinds of manager exist.\<close>

definition plain_manager ::
  "bool \<Rightarrow> (string \<Rightarrow> table_def option, unit) schema_manager" where
  "plain_manager plain =
     \<lparr>create_table = (\<lambda>td v. if creatable v td \<and> (plain \<or> \<not> has_plain_index td)
        then (Inr (), v(td_name td \<mapsto> td)) else (Inl (), v)),
      drop_table = (\<lambda>t v.
        if v t \<noteq> None \<and> (\<forall>t' td. v t' = Some td \<and> t' \<noteq> t \<longrightarrow> t \<notin> referenced td)
        then (Inr (), v(t := None)) else (Inl (), v))\<rparr>"

lemma plain_manager_documented: "documented_manager (plain_manager plain) (\<lambda>v. v) plain"
  by (auto simp: documented_manager_def plain_manager_def)


end
