(* ===== verification/Sb_Storage.thy ===== *)
theory Sb_Storage
  imports Sb_Migrations
begin

text \<open>
  The durable state that the storage crate plans (repositories/): each record a repository returns and each
  input it takes, as the list of its fields, and the categories of state. The repositories themselves are
  traits that nothing implements. What can be checked is whether they could be implemented on the schema
  of the migrations: every field must have a column that holds its values, and an input must supply what
  a row cannot be without.
\<close>

section \<open>Fields\<close>

text \<open>The types of fields; an enumeration is the list of its variants, an identifier an \<open>i64\<close>.\<close>

datatype field_type = I64 | I32 | Bit | Str | OneOf "string list" | Opt field_type

type_synonym struct_fields = "(string \<times> field_type) list"

text \<open>The fields of a struct that is itself optional.\<close>

definition optional :: "struct_fields \<Rightarrow> struct_fields" where
  "optional fs = map (\<lambda>(n, t). (n, Opt t)) fs"

section \<open>Records and inputs\<close>

definition user_role_record :: field_type where
  "user_role_record =
     OneOf [''Admin'', ''Operator'', ''Viewer'']"

definition user_record :: struct_fields where
  "user_record =
     [(''id'', I64), (''email'', Str), (''password_hash'', Str),
        (''role'', user_role_record), (''created_at_unix_secs'', I64),
        (''updated_at_unix_secs'', I64)]"

definition user_input :: struct_fields where
  "user_input =
     [(''email'', Str), (''password_hash'', Str), (''role'', user_role_record)]"

definition auth_session_record :: struct_fields where
  "auth_session_record =
     [(''id'', I64), (''user_id'', I64), (''token_hash'', Str), (''ip_address'', Opt Str),
        (''user_agent'', Opt Str), (''last_seen_at_unix_secs'', Opt I64),
        (''expires_at_unix_secs'', Opt I64), (''created_at_unix_secs'', I64)]"

definition auth_session_input :: struct_fields where
  "auth_session_input =
     [(''user_id'', I64), (''token_hash'', Str), (''ip_address'', Opt Str),
        (''user_agent'', Opt Str), (''expires_at_unix_secs'', Opt I64)]"

definition mfa_factor_kind :: field_type where
  "mfa_factor_kind =
     OneOf [''Password'', ''Totp'', ''RecoveryCode'', ''WebAuthn'', ''EmailOtp'',
       ''HardwareKey'', ''AdminApproval'', ''SshKeySignature'']"

definition mfa_purpose_kind :: field_type where
  "mfa_purpose_kind =
     OneOf [''Login'', ''TerminalStepUp'', ''FactorEnrollment'']"

definition mfa_factor_record :: struct_fields where
  "mfa_factor_record =
     [(''id'', I64), (''user_id'', I64), (''factor_type'', mfa_factor_kind),
        (''label'', Str), (''enabled'', Bit), (''created_at_unix_secs'', I64),
        (''updated_at_unix_secs'', I64)]"

definition mfa_factor_input :: struct_fields where
  "mfa_factor_input =
     [(''user_id'', I64), (''factor_type'', mfa_factor_kind), (''label'', Str),
        (''enabled'', Bit)]"

definition mfa_recent_verification_input :: struct_fields where
  "mfa_recent_verification_input =
     [(''user_id'', I64), (''purpose'', mfa_purpose_kind), (''verified_at_unix_secs'', I64),
        (''expires_at_unix_secs'', I64)]"

definition workspace_record :: struct_fields where
  "workspace_record =
     [(''id'', I64), (''name'', Str), (''created_at_unix_secs'', I64)]"

definition role_record :: struct_fields where
  "role_record =
     [(''id'', I64), (''name'', Str), (''created_at_unix_secs'', I64)]"

definition role_permission_record :: struct_fields where
  "role_permission_record =
     [(''role_id'', I64), (''permission'', Str)]"

definition workspace_member_record :: struct_fields where
  "workspace_member_record =
     [(''workspace_id'', I64), (''user_id'', I64), (''role_id'', I64)]"

definition workspace_node_record :: struct_fields where
  "workspace_node_record =
     [(''workspace_id'', I64), (''node_id'', Str)]"

definition node_status_record :: field_type where
  "node_status_record =
     OneOf [''Enrolling'', ''Online'', ''Offline'', ''Revoked'']"

definition durable_node_record :: struct_fields where
  "durable_node_record =
     [(''id'', I64), (''node_id'', Str), (''display_name'', Str), (''hostname'', Str),
        (''os'', Str), (''architecture'', Str), (''agent_version'', Str),
        (''status'', node_status_record), (''enrolled_at_unix_secs'', I64)]"

definition node_input :: struct_fields where
  "node_input =
     [(''node_id'', Str), (''display_name'', Str), (''hostname'', Str), (''os'', Str),
        (''architecture'', Str), (''agent_version'', Str), (''status'', node_status_record)]"

definition durable_node_credential_record :: struct_fields where
  "durable_node_credential_record =
     [(''id'', I64), (''node_pk'', I64), (''credential_fingerprint'', Str),
        (''credential_kind'', Str), (''created_at_unix_secs'', I64),
        (''expires_at_unix_secs'', I64)]"

definition node_credential_input :: struct_fields where
  "node_credential_input =
     [(''node_pk'', I64), (''credential_fingerprint'', Str), (''credential_kind'', Str),
        (''expires_at_unix_secs'', I64)]"

definition durable_node_heartbeat_record :: struct_fields where
  "durable_node_heartbeat_record =
     [(''id'', I64), (''node_pk'', I64), (''status'', node_status_record),
        (''received_at_unix_secs'', I64)]"

definition node_heartbeat_input :: struct_fields where
  "node_heartbeat_input =
     [(''node_pk'', I64), (''status'', node_status_record), (''received_at_unix_secs'', I64)]"

definition terminal_session_state_record :: field_type where
  "terminal_session_state_record =
     OneOf [''Created'', ''Starting'', ''Active'', ''Detached'', ''Reattaching'',
       ''Terminating'', ''Terminated'', ''Failed'', ''Expired'']"

definition terminal_session_record :: struct_fields where
  "terminal_session_record =
     [(''id'', I64), (''session_id'', Str), (''user_id'', I64), (''node_id'', Opt Str),
        (''state'', terminal_session_state_record), (''started_at_unix_secs'', Opt I64),
        (''ended_at_unix_secs'', Opt I64), (''exit_code'', Opt I32),
        (''created_at_unix_secs'', I64)]"

definition terminal_session_input :: struct_fields where
  "terminal_session_input =
     [(''session_id'', Str), (''user_id'', I64), (''node_id'', Opt Str),
        (''state'', terminal_session_state_record), (''started_at_unix_secs'', Opt I64)]"

definition terminal_session_update :: struct_fields where
  "terminal_session_update =
     [(''state'', terminal_session_state_record), (''ended_at_unix_secs'', Opt I64),
        (''exit_code'', Opt I32)]"

definition audit_event_target :: struct_fields where
  "audit_event_target =
     [(''target_type'', Str), (''target_id'', Str)]"

definition audit_event_record :: struct_fields where
  "audit_event_record =
     [(''id'', I64), (''user_id'', Opt I64), (''event_type'', Str)]
       @ optional audit_event_target
       @ [(''metadata_json'', Opt Str), (''ip_address'', Opt Str), (''created_at_unix_secs'', I64)]"

definition durable_audit_event_input :: struct_fields where
  "durable_audit_event_input =
     [(''user_id'', Opt I64), (''event_type'', Str)]
       @ optional audit_event_target
       @ [(''metadata_json'', Opt Str), (''ip_address'', Opt Str)]"

section \<open>Categories of state\<close>

datatype durable_state_kind =
  KindUsers | KindAuthSessions | KindMfaFactors | KindRbac | KindWorkspaceMemberships | KindNodes
  | KindNodeCredentials | KindNodeHeartbeats | KindTerminalSessionMetadata | KindAuditEvents

fun state_kind_name :: "durable_state_kind \<Rightarrow> string" where
  "state_kind_name KindUsers = ''users''"
| "state_kind_name KindAuthSessions = ''auth_sessions''"
| "state_kind_name KindMfaFactors = ''mfa_factors''"
| "state_kind_name KindRbac = ''rbac''"
| "state_kind_name KindWorkspaceMemberships = ''workspace_memberships''"
| "state_kind_name KindNodes = ''nodes''"
| "state_kind_name KindNodeCredentials = ''node_credentials''"
| "state_kind_name KindNodeHeartbeats = ''node_heartbeats''"
| "state_kind_name KindTerminalSessionMetadata = ''terminal_session_metadata''"
| "state_kind_name KindAuditEvents = ''audit_events''"

datatype runtime_handle_kind =
  LiveBrowserSocket | LiveAgentConnection | LivePtyHandle | TerminalOutputBroadcast | ShortReplayBuffer

definition is_durable_source_of_truth :: "runtime_handle_kind \<Rightarrow> bool" where
  "is_durable_source_of_truth k = False"

fun runtime_handle_name :: "runtime_handle_kind \<Rightarrow> string" where
  "runtime_handle_name LiveBrowserSocket = ''live_browser_socket''"
| "runtime_handle_name LiveAgentConnection = ''live_agent_connection''"
| "runtime_handle_name LivePtyHandle = ''live_pty_handle''"
| "runtime_handle_name TerminalOutputBroadcast = ''terminal_output_broadcast''"
| "runtime_handle_name ShortReplayBuffer = ''short_replay_buffer''"

section \<open>Fields and columns\<close>

text \<open>A point in time is an \<open>i64\<close> whose name says so, and the reference to a row of a node is called
  \<open>node_pk\<close> in a record and \<open>node_id\<close> in a table.\<close>

definition in_seconds :: "string \<Rightarrow> bool" where
  "in_seconds n = (drop (length n - 10) n = ''_unix_secs'')"

definition column_name :: "string \<Rightarrow> string" where
  "column_name n = (if in_seconds n then take (length n - 10) n else if n = ''node_pk'' then ''node_id'' else n)"

fun holds :: "column_type \<Rightarrow> field_type \<Rightarrow> bool" where
  "holds c (Opt t) = holds c t"
| "holds BigInteger t = (t = I64)"
| "holds IntegerType t = (t = I32)"
| "holds Boolean t = (t = Bit)"
| "holds (VarCharLen n) t = (case t of Str \<Rightarrow> True | OneOf vs \<Rightarrow> list_all (\<lambda>v. length v \<le> n) vs | _ \<Rightarrow> False)"
| "holds TimestampTz t = False"
| "holds c t = (t = Str)"

fun is_optional :: "field_type \<Rightarrow> bool" where
  "is_optional (Opt t) = True"
| "is_optional t = False"

definition fits :: "string \<times> field_type \<Rightarrow> column_def \<Rightarrow> bool" where
  "fits f c =
     (col_name c = column_name (fst f) \<and> is_optional (snd f) = (\<not> col_not_null c)
      \<and> (if in_seconds (fst f) then col_type c = TimestampTz \<and> snd f \<in> {I64, Opt I64}
         else holds (col_type c) (snd f)))"

text \<open>The fields without a column, and the columns a row needs that an input does not give it.\<close>

definition unmatched :: "struct_fields \<Rightarrow> table_def \<Rightarrow> string list" where
  "unmatched fs t = map fst (filter (\<lambda>f. \<not> list_ex (fits f) (td_columns t)) fs)"

definition unsupplied :: "struct_fields \<Rightarrow> table_def \<Rightarrow> string list" where
  "unsupplied fs t =
     map col_name (filter (\<lambda>c. col_not_null c \<and> \<not> col_auto_increment c \<and> col_default c = None
       \<and> \<not> list_ex (\<lambda>f. fits f c) fs) (td_columns t))"

text \<open>What a repository reads, and what it writes, of each table.\<close>

definition durable_records :: "(struct_fields \<times> table_def) list" where
  "durable_records =
     [(auth_session_record, sessions_table), (mfa_factor_record, auth_factors_table),
      (workspace_record, workspaces_table), (role_record, roles_table),
      (role_permission_record, role_permissions_table), (workspace_member_record, workspace_members_table),
      (workspace_node_record, workspace_nodes_table), (durable_node_record, nodes_table),
      (durable_node_heartbeat_record, node_heartbeats_table), (terminal_session_record, terminal_sessions_table),
      (terminal_session_update, terminal_sessions_table), (audit_event_record, audit_logs_table)]"

definition durable_inputs :: "(struct_fields \<times> table_def) list" where
  "durable_inputs =
     [(auth_session_input, sessions_table), (mfa_factor_input, auth_factors_table),
      (workspace_member_record, workspace_members_table), (node_input, nodes_table),
      (node_heartbeat_input, node_heartbeats_table), (terminal_session_input, terminal_sessions_table),
      (durable_audit_event_input, audit_logs_table)]"

text \<open>The names used in diagnostics tell the categories apart.\<close>

lemma state_kind_names_differ: "state_kind_name k = state_kind_name k' \<longleftrightarrow> k = k'"
  by (cases k; cases k') simp_all

lemma runtime_handle_names_differ: "runtime_handle_name k = runtime_handle_name k' \<longleftrightarrow> k = k'"
  by (cases k; cases k') simp_all

lemma records_fit: "list_all (\<lambda>(fs, t). unmatched fs t = []) durable_records"
  by code_simp

lemma inputs_fit: "list_all (\<lambda>(fs, t). unmatched fs t = [] \<and> unsupplied fs t = []) durable_inputs"
  by code_simp

section \<open>Properties\<close>


end
