(* ===== verification/Sb_Ui.thy ===== *)
theory Sb_Ui
  imports Sb_Prelude
begin

text \<open>The parts of sunbolt-ui that compute: the addresses of the API and the script that hands the
  configured control plane to the page (api_client.rs), the classes of viewports and the cases the
  release gate walks through (viewport_validation.rs), and the initial state of the terminal workspace
  (terminal_workspace.rs). The terminal client itself is Sb_Browser.\<close>

section \<open>API addresses\<close>

datatype api_endpoint =
  AuthLogin | AuthMe | TerminalAccess | StepUpMfa | TerminalActiveSessions | TerminalDetachedSessions
  | TerminalWebSocket

fun endpoint_path :: "api_endpoint \<Rightarrow> string" where
  "endpoint_path AuthLogin = ''/auth/login''"
| "endpoint_path AuthMe = ''/auth/me''"
| "endpoint_path TerminalAccess = ''/auth/terminal-access''"
| "endpoint_path StepUpMfa = ''/auth/mfa/step-up''"
| "endpoint_path TerminalActiveSessions = ''/terminal/sessions/active''"
| "endpoint_path TerminalDetachedSessions = ''/terminal/sessions/detached''"
| "endpoint_path TerminalWebSocket = ''/terminal/ws''"

definition CONTROL_PLANE_URL_CONFIG_GLOBAL :: string where
  "CONTROL_PLANE_URL_CONFIG_GLOBAL = ''SUNBOLT_CONTROL_PLANE_URL''"

text \<open>The text before and after the address in the script.\<close>

definition config_script_head :: string where
  "config_script_head =
     ''window.'' @ CONTROL_PLANE_URL_CONFIG_GLOBAL @ '' = window.'' @ CONTROL_PLANE_URL_CONFIG_GLOBAL
       @ '' || '' @ [CHR 0x22]"

definition browser_config_script :: "string option \<Rightarrow> string option" where
  "browser_config_script control_plane_url =
     (case control_plane_url of
        None \<Rightarrow> None
      | Some url \<Rightarrow>
          let url = trim url
          in if url = [] then None
             else Some (config_script_head @ url @ [CHR 0x22, CHR '';'']))"

section \<open>Viewports\<close>

datatype viewport_class = Mobile | TabletPortrait | TabletLandscape | Laptop | Desktop

datatype terminal_layout = MobileTerminalFirst | TabletTwoPane | DenseControlPlane

definition from_size :: "16 word \<Rightarrow> 16 word \<Rightarrow> viewport_class" where
  "from_size width height =
     (if width < 768 then Mobile
      else if width < 1024 then TabletPortrait
      else if width < 1280 \<and> height < width then TabletLandscape
      else if width < 1536 then Laptop
      else Desktop)"

fun expected_terminal_layout :: "viewport_class \<Rightarrow> terminal_layout" where
  "expected_terminal_layout Mobile = MobileTerminalFirst"
| "expected_terminal_layout TabletPortrait = TabletTwoPane"
| "expected_terminal_layout TabletLandscape = TabletTwoPane"
| "expected_terminal_layout Laptop = DenseControlPlane"
| "expected_terminal_layout Desktop = DenseControlPlane"

record required_viewport =
  vp_label :: string
  vp_width :: "16 word"
  vp_height :: "16 word"
  vp_class :: viewport_class

definition dimensions :: "required_viewport \<Rightarrow> 16 word \<times> 16 word" where
  "dimensions v = (vp_width v, vp_height v)"

definition REQUIRED_VIEWPORTS :: "required_viewport list" where
  "REQUIRED_VIEWPORTS =
     [\<lparr>vp_label = ''iPhone 11 Pro'', vp_width = 375, vp_height = 812, vp_class = Mobile\<rparr>,
      \<lparr>vp_label = ''iPad 11 Pro portrait'', vp_width = 834, vp_height = 1194, vp_class = TabletPortrait\<rparr>,
      \<lparr>vp_label = ''iPad 11 Pro landscape'', vp_width = 1194, vp_height = 834, vp_class = TabletLandscape\<rparr>,
      \<lparr>vp_label = ''Laptop'', vp_width = 1366, vp_height = 768, vp_class = Laptop\<rparr>,
      \<lparr>vp_label = ''Desktop'', vp_width = 1920, vp_height = 1080, vp_class = Desktop\<rparr>]"

datatype viewport_check =
  Navigation | TerminalUsability | SessionSwitching | NoTextOrControlOverlap | LoginFlow | MfaFlow
  | TerminalLifecycleSemantics

definition REQUIRED_VIEWPORT_VALIDATION_CHECKS :: "viewport_check list" where
  "REQUIRED_VIEWPORT_VALIDATION_CHECKS =
     [Navigation, TerminalUsability, SessionSwitching, NoTextOrControlOverlap, LoginFlow, MfaFlow,
      TerminalLifecycleSemantics]"

record viewport_case =
  vc_viewport :: required_viewport
  vc_checks :: "viewport_check list"
  vc_artifact :: string

definition UI_VALIDATION_ARTIFACT :: string where
  "UI_VALIDATION_ARTIFACT = ''cargo test -p sunbolt-ui viewport_validation''"

definition REQUIRED_VIEWPORT_VALIDATION_CASES :: "viewport_case list" where
  "REQUIRED_VIEWPORT_VALIDATION_CASES =
     [\<lparr>vc_viewport = REQUIRED_VIEWPORTS ! 0, vc_checks = REQUIRED_VIEWPORT_VALIDATION_CHECKS,
       vc_artifact = UI_VALIDATION_ARTIFACT\<rparr>,
      \<lparr>vc_viewport = REQUIRED_VIEWPORTS ! 1, vc_checks = REQUIRED_VIEWPORT_VALIDATION_CHECKS,
       vc_artifact = UI_VALIDATION_ARTIFACT\<rparr>,
      \<lparr>vc_viewport = REQUIRED_VIEWPORTS ! 2, vc_checks = REQUIRED_VIEWPORT_VALIDATION_CHECKS,
       vc_artifact = UI_VALIDATION_ARTIFACT\<rparr>,
      \<lparr>vc_viewport = REQUIRED_VIEWPORTS ! 3, vc_checks = REQUIRED_VIEWPORT_VALIDATION_CHECKS,
       vc_artifact = UI_VALIDATION_ARTIFACT\<rparr>,
      \<lparr>vc_viewport = REQUIRED_VIEWPORTS ! 4, vc_checks = REQUIRED_VIEWPORT_VALIDATION_CHECKS,
       vc_artifact = UI_VALIDATION_ARTIFACT\<rparr>]"

definition find_viewport :: "string \<Rightarrow> required_viewport option" where
  "find_viewport label = find (\<lambda>v. vp_label v = label) REQUIRED_VIEWPORTS"

definition required_viewport_validation_case :: "string \<Rightarrow> viewport_case option" where
  "required_viewport_validation_case label =
     find (\<lambda>c. vp_label (vc_viewport c) = label) REQUIRED_VIEWPORT_VALIDATION_CASES"

section \<open>Terminal workspace\<close>

datatype workspace_panel = PanelTerminal | PanelDetachedSessions | PanelSessionActions | PanelNodeSelector

record workspace_state =
  ws_active_panel :: workspace_panel
  ws_active_session_count :: nat
  ws_detached_session_count :: nat

definition workspace_state_default :: workspace_state where
  "workspace_state_default =
     \<lparr>ws_active_panel = PanelTerminal, ws_active_session_count = 0, ws_detached_session_count = 0\<rparr>"

section \<open>Lemmas\<close>

text \<open>The body of a JavaScript string literal up to its closing quote: None where the literal has an
  escape or ends with the line.\<close>

fun literal_body :: "string \<Rightarrow> (string \<times> string) option" where
  "literal_body [] = None"
| "literal_body (c # cs) =
     (if c = CHR 0x22 then Some ([], cs)
      else if c = CHR 0x5C \<or> c = CHR 0x0A \<or> c = CHR 0x0D then None
      else map_option (\<lambda>(b, r). (c # b, r)) (literal_body cs))"

definition plain_char :: "char \<Rightarrow> bool" where
  "plain_char c = (c \<notin> {CHR 0x22, CHR 0x5C, CHR 0x0A, CHR 0x0D})"

lemma literal_body_plain:
  "list_all plain_char s \<Longrightarrow> literal_body (s @ CHR 0x22 # r) = Some (s, r)"
  by (induction s) (auto simp: plain_char_def)

lemma literal_body_quote:
  "list_all plain_char s \<Longrightarrow> literal_body (s @ CHR 0x22 # t @ CHR 0x22 # r) = Some (s, t @ CHR 0x22 # r)"
  by (induction s) (auto simp: plain_char_def)

text \<open>The page reads back the configured address when it is free of quotes, escapes and line ends.
  With a quote in it the literal ends there and what follows is read as code: the address is pasted
  into the script as it is.\<close>

lemma config_script_reads_back:
  assumes "trim url \<noteq> []"
  shows "\<exists>rest. browser_config_script (Some url) = Some (config_script_head @ rest)
    \<and> (list_all plain_char (trim url) \<longrightarrow> literal_body rest = Some (trim url, '';''))
    \<and> (\<forall>s t. trim url = s @ CHR 0x22 # t \<and> list_all plain_char s \<longrightarrow>
         literal_body rest = Some (s, t @ [CHR 0x22, CHR '';'']))"
  using assms literal_body_plain [of "trim url" "'';''"]
  by (auto simp: browser_config_script_def Let_def literal_body_plain)

lemma config_script_absent: "browser_config_script None = None" "trim url = [] \<Longrightarrow> browser_config_script (Some url) = None"
  by (simp_all add: browser_config_script_def)

text \<open>The classes agree with the sizes they are stated for, and each label names its own case.\<close>

lemma required_viewports_are_classified:
  "\<forall>v \<in> set REQUIRED_VIEWPORTS.
     from_size (vp_width v) (vp_height v) = vp_class v
     \<and> find_viewport (vp_label v) = Some v
     \<and> (\<exists>c. required_viewport_validation_case (vp_label v) = Some c \<and> vc_viewport c = v
          \<and> set (vc_checks c) = UNIV)"
proof -
  have all: "set REQUIRED_VIEWPORT_VALIDATION_CHECKS = UNIV"
    by (auto simp: REQUIRED_VIEWPORT_VALIDATION_CHECKS_def intro: viewport_check.exhaust)
  show ?thesis
    by (simp add: REQUIRED_VIEWPORTS_def from_size_def find_viewport_def required_viewport_validation_case_def
        REQUIRED_VIEWPORT_VALIDATION_CASES_def all)
qed

text \<open>A viewport that grows in width never falls back to a smaller class, its height kept.\<close>

fun class_rank :: "viewport_class \<Rightarrow> nat" where
  "class_rank Mobile = 0"
| "class_rank TabletPortrait = 1"
| "class_rank TabletLandscape = 2"
| "class_rank Laptop = 2"
| "class_rank Desktop = 3"

lemma class_grows_with_width: "w \<le> w' \<Longrightarrow> class_rank (from_size w h) \<le> class_rank (from_size w' h)"
  by (auto simp: from_size_def word_less_nat_alt word_le_nat_alt)

text \<open>A tablet held upright that is 1024 pixels wide or more counts as a laptop.\<close>

lemma upright_tablet_counts_as_laptop:
  "1024 \<le> w \<Longrightarrow> w < 1280 \<Longrightarrow> w \<le> h \<Longrightarrow> from_size w h = Laptop"
  by (auto simp: from_size_def word_less_nat_alt word_le_nat_alt)

end
