(* ===== verification/Sb_Pages.thy ===== *)
theory Sb_Pages
  imports Sb_Browser Sb_Ui
begin

text \<open>
  The pages of the web UI (pages.rs), the frame around them (shell.rs) and the classes they use
  (components.rs), as trees of elements: what \<open>rsx!\<close> builds is translated element by element, with the
  attributes in the order of the source. A handler of a click is the page it switches to, the only
  effect a handler has. The pages and the script of \<open>Sb_Browser\<close> meet in the identifiers of elements:
  the script looks them up as string literals of its own, which no compiler compares with those of the
  pages. The theorems do, and say what becomes of the script when the user leaves the page.
\<close>

section \<open>Components\<close>

text \<open>The class names of the modules \<open>layout\<close>, \<open>table_list\<close>, \<open>form\<close>, \<open>dialog\<close> and \<open>bottom_sheet\<close>.\<close>

definition layout_SHELL :: string where
  "layout_SHELL = ''sunbolt-shell''"

definition layout_APP_GRID :: string where
  "layout_APP_GRID = ''sunbolt-app-grid''"

definition layout_TOPBAR :: string where
  "layout_TOPBAR = ''sunbolt-topbar''"

definition layout_BRAND :: string where
  "layout_BRAND = ''sunbolt-brand''"

definition layout_BRAND_MARK :: string where
  "layout_BRAND_MARK = ''sunbolt-brand-mark''"

definition layout_NAV :: string where
  "layout_NAV = ''sunbolt-nav''"

definition layout_PAGE :: string where
  "layout_PAGE = ''sunbolt-page''"

definition layout_PAGE_HEADER :: string where
  "layout_PAGE_HEADER = ''sunbolt-page-header''"

definition layout_DASHBOARD_GRID :: string where
  "layout_DASHBOARD_GRID = ''sunbolt-dashboard-grid''"

definition layout_DASHBOARD_MAIN :: string where
  "layout_DASHBOARD_MAIN = ''sunbolt-dashboard-main''"

definition layout_CARD :: string where
  "layout_CARD = ''sunbolt-card''"

definition table_list_TOOLBAR :: string where
  "table_list_TOOLBAR = ''sunbolt-table-toolbar''"

definition table_list_TOOLBAR_ACTIONS :: string where
  "table_list_TOOLBAR_ACTIONS = ''sunbolt-table-toolbar-actions''"

definition table_list_TABLE_WRAP :: string where
  "table_list_TABLE_WRAP = ''sunbolt-table-wrap''"

definition table_list_TABLE :: string where
  "table_list_TABLE = ''sunbolt-table''"

definition table_list_PAGINATION :: string where
  "table_list_PAGINATION = ''sunbolt-pagination''"

definition table_list_DENSE_LIST :: string where
  "table_list_DENSE_LIST = ''sunbolt-dense-list''"

definition table_list_DENSE_ROW :: string where
  "table_list_DENSE_ROW = ''sunbolt-dense-row''"

definition table_list_MOBILE_LIST :: string where
  "table_list_MOBILE_LIST = ''sunbolt-mobile-record-list''"

definition table_list_MOBILE_RECORD :: string where
  "table_list_MOBILE_RECORD = ''sunbolt-mobile-record''"

definition form_TEXT_INPUT :: string where
  "form_TEXT_INPUT = ''sunbolt-input''"

definition form_FIELD_GROUP :: string where
  "form_FIELD_GROUP = ''sunbolt-field-group''"

definition dialog_MODAL :: string where
  "dialog_MODAL = ''sunbolt-modal''"

definition dialog_MODAL_PANEL :: string where
  "dialog_MODAL_PANEL = ''sunbolt-modal-panel''"

definition dialog_MODAL_ACTIONS :: string where
  "dialog_MODAL_ACTIONS = ''sunbolt-modal-actions''"

definition bottom_sheet_SHEET :: string where
  "bottom_sheet_SHEET = ''sunbolt-bottom-sheet''"

definition bottom_sheet_SHEET_PANEL :: string where
  "bottom_sheet_SHEET_PANEL = ''sunbolt-bottom-sheet-panel''"

definition bottom_sheet_SHEET_ACTIONS :: string where
  "bottom_sheet_SHEET_ACTIONS = ''sunbolt-bottom-sheet-actions''"

datatype button_variant = ButtonPrimary | ButtonSecondary | ButtonDanger | ButtonNavigation bool

fun button_class :: "button_variant \<Rightarrow> string" where
  "button_class ButtonPrimary = ''sunbolt-button sunbolt-button-primary''"
| "button_class ButtonSecondary = ''sunbolt-button sunbolt-button-secondary''"
| "button_class ButtonDanger = ''sunbolt-button sunbolt-button-danger''"
| "button_class (ButtonNavigation True) = ''sunbolt-nav-button sunbolt-nav-button-active''"
| "button_class (ButtonNavigation False) = ''sunbolt-nav-button''"

datatype status_tone = ToneBase | ToneConnecting | ToneConnected | ToneDegraded | ToneError | ToneClosed

fun status_badge_class :: "status_tone \<Rightarrow> string" where
  "status_badge_class ToneBase = ''sunbolt-status border-terminal-border text-terminal-muted''"
| "status_badge_class ToneConnecting = ''sunbolt-status border-sun-amber/70 bg-sun-amber/10 text-sun-amber''"
| "status_badge_class ToneDegraded = ''sunbolt-status border-sun-amber/70 bg-sun-amber/10 text-sun-amber''"
| "status_badge_class ToneConnected =
     ''sunbolt-status border-lightning-cyan/70 bg-lightning-cyan/10 text-lightning-cyan''"
| "status_badge_class ToneError = ''sunbolt-status border-warm-orange/70 bg-warm-orange/10 text-warm-orange''"
| "status_badge_class ToneClosed =
     ''sunbolt-status border-terminal-border bg-terminal-bg/80 text-terminal-muted''"

section \<open>Elements\<close>

datatype shell_page =
  ShellDashboard | ShellTerminal | ShellAccessHistory | ShellNodes | ShellAuditLogs | ShellSecurity
  | ShellAdmin

text \<open>An element has a tag, attributes, the page a click on it switches to, and its content.\<close>

datatype markup =
  Elem string "(string \<times> string) list" "shell_page option" "markup list"
  | Txt string

abbreviation el :: "string \<Rightarrow> (string \<times> string) list \<Rightarrow> markup list \<Rightarrow> markup" where
  "el tag attrs content \<equiv> Elem tag attrs None content"

section \<open>Parts of pages\<close>

definition mobile_record :: "string \<Rightarrow> string \<Rightarrow> string \<Rightarrow> markup" where
  "mobile_record eyebrow title detail =
     el ''div'' [(''class'', table_list_MOBILE_RECORD)]
       [el ''p'' [(''class'', ''m-0 text-xs font-semibold text-lightning-cyan'')] [Txt eyebrow],
        el ''p'' [(''class'', ''m-0 text-sm font-semibold text-terminal-text'')] [Txt title],
        el ''p'' [(''class'', ''m-0 text-xs text-terminal-muted'')] [Txt detail]]"

definition metric_card :: "string \<Rightarrow> string \<Rightarrow> string \<Rightarrow> markup" where
  "metric_card label val detail =
     el ''div'' [(''class'', ''sunbolt-metric-card'')]
       [el ''p'' [(''class'', ''m-0 text-xs font-semibold text-terminal-muted'')] [Txt label],
        el ''strong'' [(''class'', ''sunbolt-metric-value'')] [Txt val],
        el ''p'' [(''class'', ''m-0 text-xs text-terminal-muted'')] [Txt detail]]"

definition dashboard_event :: "string \<Rightarrow> string \<Rightarrow> string \<Rightarrow> markup" where
  "dashboard_event event actor detail =
     el ''div'' [(''class'', table_list_DENSE_ROW)]
       [el ''div'' [(''class'', ''min-w-0'')]
          [el ''p'' [(''class'', ''m-0 font-mono text-xs text-lightning-cyan'')] [Txt event],
           el ''p'' [(''class'', ''m-0 text-xs text-terminal-muted'')] [Txt detail]],
        el ''span'' [(''class'', ''text-xs text-terminal-text'')] [Txt actor]]"

definition table_pagination :: "string \<Rightarrow> markup" where
  "table_pagination label =
     el ''div'' [(''class'', table_list_PAGINATION)]
       [el ''span'' [] [Txt label],
        el ''div'' [(''class'', table_list_TOOLBAR_ACTIONS)]
          [el ''button'' [(''class'', button_class ButtonSecondary), (''disabled'', ''true'')] [Txt ''Previous''],
           el ''button'' [(''class'', button_class ButtonSecondary), (''disabled'', ''true'')] [Txt ''Next'']]]"

text \<open>A missing cell of a row is replaced by a text of its own in the record for small screens.\<close>

definition cell_or :: "nat \<Rightarrow> string \<Rightarrow> string list \<Rightarrow> string" where
  "cell_or i missing row = (if i < length row then row ! i else missing)"

definition admin_table :: "string \<Rightarrow> string list \<Rightarrow> string list list \<Rightarrow> markup" where
  "admin_table title headers rows =
     el ''div'' [(''class'', layout_CARD)]
       [el ''h2'' [(''class'', ''mb-3 mt-0 text-lg font-black tracking-tight text-terminal-text'')] [Txt title],
        el ''div'' [(''class'', table_list_MOBILE_LIST)]
          (map (\<lambda>row. mobile_record (cell_or 0 ''Record'' row) (cell_or 1 ''Pending'' row)
                  (cell_or 2 ''Awaiting data'' row)) rows),
        el ''div'' [(''class'', table_list_TABLE_WRAP)]
          [el ''table'' [(''class'', table_list_TABLE)]
             [el ''thead'' [] [el ''tr'' [] (map (\<lambda>header. el ''th'' [] [Txt header]) headers)],
              el ''tbody'' []
                (map (\<lambda>row. el ''tr'' []
                   (map (\<lambda>cell. el ''td'' [(''class'', ''text-terminal-text'')] [Txt cell]) row)) rows)]]]"

section \<open>Pages\<close>

text \<open>The identifiers of \<open>terminal_workspace.rs\<close>.\<close>

definition TERMINAL_MOUNT_ID :: string where
  "TERMINAL_MOUNT_ID = ''sunbolt-terminal''"

definition TERMINAL_NODE_INPUT_ID :: string where
  "TERMINAL_NODE_INPUT_ID = ''sunbolt-terminal-node''"

definition TERMINAL_STATUS_ID :: string where
  "TERMINAL_STATUS_ID = ''sunbolt-terminal-status''"

definition TERMINAL_ERROR_ID :: string where
  "TERMINAL_ERROR_ID = ''sunbolt-terminal-error''"

definition TERMINAL_AUTH_PANEL_ID :: string where
  "TERMINAL_AUTH_PANEL_ID = ''sunbolt-terminal-auth''"

definition TERMINAL_TABS_ID :: string where
  "TERMINAL_TABS_ID = ''sunbolt-terminal-tabs''"

definition TERMINAL_DETACHED_SESSIONS_ID :: string where
  "TERMINAL_DETACHED_SESSIONS_ID = ''sunbolt-terminal-detached-sessions''"

definition dashboard_header :: markup where
  "dashboard_header =
     el ''div'' [(''class'', layout_PAGE_HEADER)]
       [el ''div'' [(''class'', ''min-w-0'')]
          [el ''h2'' [(''class'', ''m-0 text-lg font-black tracking-tight text-terminal-text'')]
             [Txt ''Production Dashboard''],
           el ''p'' [(''class'', ''m-0 text-sm text-terminal-muted'')]
             [Txt ''Dense control-plane overview for terminal operations, agent health, and security review.'']],
        el ''div'' [(''class'', table_list_TOOLBAR_ACTIONS)]
          [el ''button'' [(''class'', button_class ButtonPrimary)] [Txt ''Open Terminal''],
           el ''button'' [(''class'', button_class ButtonSecondary)] [Txt ''Review Audit'']]]"

definition dashboard_metrics :: markup where
  "dashboard_metrics =
     el ''div'' [(''class'', layout_DASHBOARD_GRID)]
       [metric_card ''Active Sessions'' ''3'' ''2 local, 1 remote'',
        metric_card ''Connected Nodes'' ''1'' ''1 degraded transport'',
        metric_card ''Detached Sessions'' ''2'' ''Reattach window active'',
        metric_card ''Audit Events'' ''128'' ''Last 24 hours'']"

definition dashboard_queue :: markup where
  "dashboard_queue =
     el ''div'' [(''class'', layout_CARD)]
       [el ''div'' [(''class'', table_list_TOOLBAR)]
          [el ''div'' []
             [el ''h3'' [(''class'', ''m-0 text-lg font-black tracking-tight text-terminal-text'')]
                [Txt ''Terminal Queue''],
              el ''p'' [(''class'', ''m-0 text-xs text-terminal-muted'')]
                [Txt ''Open, detached, and degraded sessions.'']],
           el ''div'' [(''class'', table_list_TOOLBAR_ACTIONS)]
             [el ''input''
                [(''class'', form_TEXT_INPUT), (''type'', ''search''),
                 (''placeholder'', ''Search sessions'')] [],
              el ''select''
                [(''class'', form_TEXT_INPUT), (''aria-label'', ''Session state filter'')]
                [el ''option'' [] [Txt ''All states''],
                 el ''option'' [] [Txt ''Active''],
                 el ''option'' [] [Txt ''Detached''],
                 el ''option'' [] [Txt ''Degraded'']]]],
        el ''div'' [(''class'', table_list_MOBILE_LIST)]
          [mobile_record ''active'' ''term-84f2a9'' ''local - admin@example.com - just now'',
           mobile_record ''degraded'' ''term-d19344'' ''node-1 - admin@example.com - 2 min ago''],
        el ''div'' [(''class'', table_list_TABLE_WRAP)]
          [el ''table'' [(''class'', table_list_TABLE)]
             [el ''thead'' []
                [el ''tr'' []
                   [el ''th'' [] [Txt ''Session''],
                    el ''th'' [] [Txt ''Node''],
                    el ''th'' [] [Txt ''State''],
                    el ''th'' [] [Txt ''Owner''],
                    el ''th'' [] [Txt ''Updated'']]],
              el ''tbody'' []
                [el ''tr'' []
                   [el ''td'' [(''class'', ''font-mono text-xs text-terminal-text'')]
                      [Txt ''term-84f2a9''],
                    el ''td'' [(''class'', ''text-terminal-text'')] [Txt ''local''],
                    el ''td'' []
                      [el ''span'' [(''class'', status_badge_class ToneConnected)] [Txt ''active'']],
                    el ''td'' [(''class'', ''text-terminal-text'')] [Txt ''admin@example.com''],
                    el ''td'' [(''class'', ''text-terminal-muted'')] [Txt ''just now'']],
                 el ''tr'' []
                   [el ''td'' [(''class'', ''font-mono text-xs text-terminal-text'')]
                      [Txt ''term-d19344''],
                    el ''td'' [(''class'', ''text-terminal-text'')] [Txt ''node-1''],
                    el ''td'' []
                      [el ''span'' [(''class'', status_badge_class ToneDegraded)] [Txt ''degraded'']],
                    el ''td'' [(''class'', ''text-terminal-text'')] [Txt ''admin@example.com''],
                    el ''td'' [(''class'', ''text-terminal-muted'')] [Txt ''2 min ago'']]]]]]"

definition dashboard_review :: markup where
  "dashboard_review =
     el ''div'' [(''class'', layout_CARD)]
       [el ''div'' [(''class'', table_list_TOOLBAR)]
          [el ''div'' []
             [el ''h3'' [(''class'', ''m-0 text-lg font-black tracking-tight text-terminal-text'')]
                [Txt ''Security Review''],
              el ''p'' [(''class'', ''m-0 text-xs text-terminal-muted'')]
                [Txt ''Recent high-signal events.'']],
           el ''button'' [(''class'', button_class ButtonSecondary)] [Txt ''View all'']],
        el ''div'' [(''class'', table_list_DENSE_LIST)]
          [dashboard_event ''terminal.opened'' ''admin@example.com'' ''local shell'',
           dashboard_event ''agent.transport.negotiated'' ''node-1'' ''WebSocket TCP/443'',
           dashboard_event ''terminal.detached'' ''admin@example.com'' ''term-d19344'']]"

definition dashboard_main :: markup where
  "dashboard_main =
     el ''div'' [(''class'', layout_DASHBOARD_MAIN)]
       [dashboard_queue,
        dashboard_review]"

definition dashboard_page :: markup where
  "dashboard_page =
     el ''section'' [(''class'', layout_PAGE)]
       [dashboard_header,
        dashboard_metrics,
        dashboard_main]"

definition terminal_node_sheet :: markup where
  "terminal_node_sheet =
     el ''details'' [(''class'', ''sunbolt-node-selector-sheet'')]
       [el ''summary'' [(''class'', button_class ButtonSecondary)] [Txt ''Node''],
        el ''div'' [(''class'', ''sunbolt-bottom-sheet-panel'')]
          [el ''label'' [(''class'', ''sunbolt-sheet-label'')] [Txt ''Target node''],
           el ''input''
             [(''id'', TERMINAL_NODE_INPUT_ID), (''class'', form_TEXT_INPUT),
              (''placeholder'', ''node id, empty for local''), (''value'', '''')] []]]"

definition terminal_actions :: markup where
  "terminal_actions =
     el ''details'' [(''class'', ''sunbolt-session-actions-sheet'')]
       [el ''summary'' [(''class'', button_class ButtonPrimary)] [Txt ''Actions''],
        el ''div'' [(''class'', ''sunbolt-bottom-sheet-panel'')]
          [el ''div'' [(''class'', ''sunbolt-bottom-sheet-actions'')]
             [el ''button''
                [(''id'', ''sunbolt-terminal-mfa''), (''class'', button_class ButtonPrimary)]
                [Txt ''Step-up MFA''],
              el ''button''
                [(''id'', ''sunbolt-terminal-new''), (''class'', button_class ButtonSecondary)]
                [Txt ''New''],
              el ''button''
                [(''id'', ''sunbolt-terminal-detach''), (''class'', button_class ButtonSecondary)]
                [Txt ''Detach''],
              el ''button''
                [(''id'', ''sunbolt-terminal-close-tab''), (''class'', button_class ButtonSecondary)]
                [Txt ''Close Tab''],
              el ''button''
                [(''id'', ''sunbolt-terminal-reconnect''), (''class'', button_class ButtonSecondary),
                 (''disabled'', ''true'')] [Txt ''Reconnect''],
              el ''button''
                [(''id'', ''sunbolt-terminal-retry''), (''class'', button_class ButtonSecondary)]
                [Txt ''Retry''],
              el ''button''
                [(''id'', ''sunbolt-terminal-close''), (''class'', button_class ButtonDanger)]
                [Txt ''Terminate'']]]]"

definition terminal_toolbar :: markup where
  "terminal_toolbar =
     el ''div'' [(''class'', ''sunbolt-terminal-toolbar'')]
       [el ''div'' [(''class'', ''min-w-0'')]
          [el ''h2'' [(''class'', ''m-0 text-lg font-black tracking-tight text-terminal-text'')]
             [Txt ''Terminal Workspace''],
           el ''p'' [(''class'', ''m-0 text-xs text-terminal-muted'')]
             [Txt ''Authenticated local shell with audit-ready session controls.'']],
        el ''div'' [(''class'', ''sunbolt-terminal-controls'')]
          [terminal_node_sheet,
           el ''div'' [(''id'', TERMINAL_STATUS_ID), (''class'', status_badge_class ToneConnecting)]
             [Txt ''Connecting''],
           terminal_actions]]"

definition terminal_sessions :: markup where
  "terminal_sessions =
     el ''div'' [(''class'', ''sunbolt-session-switcher'')]
       [el ''div''
          [(''id'', TERMINAL_TABS_ID), (''class'', ''sunbolt-terminal-tabs''), (''role'', ''tablist'')] [],
        el ''div''
          [(''id'', TERMINAL_DETACHED_SESSIONS_ID), (''class'', ''sunbolt-detached-sessions'')] []]"

definition terminal_error_alert :: markup where
  "terminal_error_alert =
     el ''div''
       [(''id'', TERMINAL_ERROR_ID), (''class'', ''sunbolt-alert hidden items-center''),
        (''role'', ''status'')] []"

definition terminal_sign_in :: markup where
  "terminal_sign_in =
     el ''div'' [(''id'', TERMINAL_AUTH_PANEL_ID), (''class'', ''sunbolt-auth-panel hidden'')]
       [el ''div'' [(''class'', ''min-w-0'')]
          [el ''p'' [(''class'', ''m-0 text-sm font-semibold text-terminal-text'')]
             [Txt ''Sign in to open a terminal''],
           el ''p'' [(''class'', ''m-0 text-xs text-terminal-muted'')]
             [Txt ''Use the local bootstrap admin or another account already created in the control plane.'']],
        el ''input''
          [(''id'', ''sunbolt-terminal-email''), (''class'', form_TEXT_INPUT),
           (''placeholder'', ''email''), (''autocomplete'', ''username'')] [],
        el ''input''
          [(''id'', ''sunbolt-terminal-password''), (''class'', form_TEXT_INPUT),
           (''placeholder'', ''password''), (''type'', ''password''),
           (''autocomplete'', ''current-password'')] [],
        el ''button'' [(''id'', ''sunbolt-terminal-login''), (''class'', button_class ButtonPrimary)]
          [Txt ''Sign In'']]"

definition terminal_node_pane :: markup where
  "terminal_node_pane =
     el ''aside'' [(''class'', ''sunbolt-tablet-node-pane'')]
       [el ''div'' [(''class'', ''sunbolt-tablet-node-list'')]
          [el ''button'' [(''class'', ''sunbolt-tablet-node-row sunbolt-tablet-node-row-active'')]
             [Txt ''local''],
           el ''button'' [(''class'', ''sunbolt-tablet-node-row'')] [Txt ''node-1'']],
        el ''div'' [(''class'', ''sunbolt-tablet-node-detail'')]
          [el ''p'' [(''class'', ''m-0 text-xs font-semibold text-terminal-text'')]
             [Txt ''Selected node''],
           el ''p'' [(''class'', ''m-0 text-xs text-terminal-muted'')]
             [Txt ''Use the terminal pane to connect, detach, reattach, or terminate.'']]]"

definition terminal_mount :: markup where
  "terminal_mount =
     el ''div''
       [(''id'', TERMINAL_MOUNT_ID), (''class'', ''sunbolt-terminal-body''), (''tabindex'', ''0''),
        (''role'', ''application''), (''aria-label'', ''Terminal viewport''),
        (''data-ws-endpoint'', TERMINAL_WS_ENDPOINT)] [Txt ''Terminal loading'']"

definition terminal_grid :: markup where
  "terminal_grid =
     el ''div'' [(''class'', ''sunbolt-terminal-workspace-grid'')]
       [terminal_node_pane,
        terminal_mount]"

definition terminal_accessories :: markup where
  "terminal_accessories =
     el ''div''
       [(''class'', ''sunbolt-mobile-accessory-toolbar''),
        (''aria-label'', ''Mobile terminal accessory controls'')]
       [el ''button'' [(''id'', ''sunbolt-mobile-key-ctrl''), (''type'', ''button'')] [Txt ''Ctrl''],
        el ''button'' [(''id'', ''sunbolt-mobile-key-esc''), (''type'', ''button'')] [Txt ''Esc''],
        el ''button'' [(''id'', ''sunbolt-mobile-key-tab''), (''type'', ''button'')] [Txt ''Tab''],
        el ''button'' [(''id'', ''sunbolt-mobile-key-up''), (''type'', ''button'')] [Txt ''Up''],
        el ''button'' [(''id'', ''sunbolt-mobile-key-left''), (''type'', ''button'')] [Txt ''Left''],
        el ''button'' [(''id'', ''sunbolt-mobile-key-down''), (''type'', ''button'')] [Txt ''Down''],
        el ''button'' [(''id'', ''sunbolt-mobile-key-right''), (''type'', ''button'')] [Txt ''Right''],
        el ''button'' [(''id'', ''sunbolt-mobile-key-paste''), (''type'', ''button'')] [Txt ''Paste''],
        el ''button'' [(''id'', ''sunbolt-mobile-action-reconnect''), (''type'', ''button'')]
          [Txt ''Reconnect''],
        el ''button'' [(''id'', ''sunbolt-mobile-action-detach''), (''type'', ''button'')]
          [Txt ''Detach''],
        el ''button'' [(''id'', ''sunbolt-mobile-action-terminate''), (''type'', ''button'')]
          [Txt ''Terminate'']]"

definition terminal_page_body :: markup where
  "terminal_page_body =
     el ''section'' [(''class'', ''sunbolt-terminal-page'')]
       [terminal_toolbar,
        terminal_sessions,
        terminal_error_alert,
        terminal_sign_in,
        terminal_grid,
        terminal_accessories]"

definition access_history_header :: markup where
  "access_history_header =
     el ''div'' [(''class'', layout_PAGE_HEADER)]
       [el ''div'' [(''class'', ''min-w-0'')]
          [el ''h2'' [(''class'', ''m-0 text-lg font-black tracking-tight text-terminal-text'')]
             [Txt ''Access History''],
           el ''p'' [(''class'', ''m-0 text-sm text-terminal-muted'')]
             [Txt ''Authentication, MFA, and terminal access events optimized for desktop review.'']],
        el ''div'' [(''class'', table_list_TOOLBAR_ACTIONS)]
          [el ''input''
             [(''class'', form_TEXT_INPUT), (''type'', ''search''),
              (''placeholder'', ''Search actor or event'')] [],
           el ''select'' [(''class'', form_TEXT_INPUT), (''aria-label'', ''Access history filter'')]
             [el ''option'' [] [Txt ''All access events''],
              el ''option'' [] [Txt ''Login events''],
              el ''option'' [] [Txt ''MFA events''],
              el ''option'' [] [Txt ''Terminal events'']]]]"

definition access_history_records :: markup where
  "access_history_records =
     el ''div'' [(''class'', layout_CARD)]
       [el ''div'' [(''class'', table_list_MOBILE_LIST)]
          [mobile_record
             ''user.login.success''
             ''admin@example.com''
             ''Pending - Awaiting backend list wiring''],
        el ''div'' [(''class'', table_list_TABLE_WRAP)]
          [el ''table'' [(''class'', table_list_TABLE)]
             [el ''thead'' []
                [el ''tr'' []
                   [el ''th'' [] [Txt ''Time''],
                    el ''th'' [] [Txt ''Event''],
                    el ''th'' [] [Txt ''Actor''],
                    el ''th'' [] [Txt ''Message'']]],
              el ''tbody'' []
                [el ''tr'' []
                   [el ''td'' [(''class'', ''text-terminal-muted'')] [Txt ''Pending''],
                    el ''td'' [(''class'', ''text-terminal-text'')] [Txt ''user.login.success''],
                    el ''td'' [(''class'', ''text-terminal-text'')] [Txt ''admin@example.com''],
                    el ''td'' [(''class'', ''text-terminal-muted'')]
                      [Txt ''Awaiting backend list wiring'']]]]],
        table_pagination ''1-1 of 1 access records'']"

definition access_history_page :: markup where
  "access_history_page =
     el ''section'' [(''class'', layout_PAGE)]
       [access_history_header,
        access_history_records]"

definition audit_log_header :: markup where
  "audit_log_header =
     el ''div'' [(''class'', layout_PAGE_HEADER)]
       [el ''div'' [(''class'', ''min-w-0'')]
          [el ''h2'' [(''class'', ''m-0 text-lg font-black tracking-tight text-terminal-text'')]
             [Txt ''Audit Logs''],
           el ''p'' [(''class'', ''m-0 text-sm text-terminal-muted'')]
             [Txt ''Append-only security events with fast desktop filtering.'']],
        el ''div'' [(''class'', table_list_TOOLBAR_ACTIONS)]
          [el ''input''
             [(''class'', form_TEXT_INPUT), (''type'', ''search''),
              (''placeholder'', ''Search audit logs'')] [],
           el ''select'' [(''class'', form_TEXT_INPUT), (''aria-label'', ''Audit kind filter'')]
             [el ''option'' [] [Txt ''All audit kinds''],
              el ''option'' [] [Txt ''Terminal''],
              el ''option'' [] [Txt ''Agent''],
              el ''option'' [] [Txt ''Node''],
              el ''option'' [] [Txt ''Permission'']]]]"

definition audit_log_records :: markup where
  "audit_log_records =
     el ''div'' [(''class'', layout_CARD)]
       [el ''div'' [(''class'', table_list_MOBILE_LIST)]
          [mobile_record
             ''terminal.opened''
             ''admin@example.com''
             ''Pending - Awaiting backend list wiring''],
        el ''div'' [(''class'', table_list_TABLE_WRAP)]
          [el ''table'' [(''class'', table_list_TABLE)]
             [el ''thead'' []
                [el ''tr'' []
                   [el ''th'' [] [Txt ''Time''],
                    el ''th'' [] [Txt ''Kind''],
                    el ''th'' [] [Txt ''Actor''],
                    el ''th'' [] [Txt ''Message'']]],
              el ''tbody'' []
                [el ''tr'' []
                   [el ''td'' [(''class'', ''text-terminal-muted'')] [Txt ''Pending''],
                    el ''td'' [(''class'', ''text-terminal-text'')] [Txt ''terminal.opened''],
                    el ''td'' [(''class'', ''text-terminal-text'')] [Txt ''admin@example.com''],
                    el ''td'' [(''class'', ''text-terminal-muted'')]
                      [Txt ''Awaiting backend list wiring'']]]]],
        table_pagination ''1-1 of 1 audit records'']"

definition audit_log_page :: markup where
  "audit_log_page =
     el ''section'' [(''class'', layout_PAGE)]
       [audit_log_header,
        audit_log_records]"

definition nodes_header :: markup where
  "nodes_header =
     el ''div'' [(''class'', layout_PAGE_HEADER)]
       [el ''div'' [(''class'', ''min-w-0'')]
          [el ''h2'' [(''class'', ''m-0 text-lg font-black tracking-tight text-terminal-text'')]
             [Txt ''Node Management''],
           el ''p'' [(''class'', ''m-0 text-sm text-terminal-muted'')]
             [Txt ''Search, filter, inspect, and revoke managed agent nodes.'']],
        el ''div'' [(''class'', table_list_TOOLBAR_ACTIONS)]
          [el ''input''
             [(''class'', form_TEXT_INPUT), (''type'', ''search''),
              (''placeholder'', ''Search nodes'')] [],
           el ''select'' [(''class'', form_TEXT_INPUT), (''aria-label'', ''Node status filter'')]
             [el ''option'' [] [Txt ''All statuses''],
              el ''option'' [] [Txt ''Online''],
              el ''option'' [] [Txt ''Degraded''],
              el ''option'' [] [Txt ''Offline''],
              el ''option'' [] [Txt ''Revoked'']],
           el ''button'' [(''class'', button_class ButtonPrimary)] [Txt ''Enroll node'']]]"

definition nodes_enrollment :: markup where
  "nodes_enrollment =
     el ''div'' [(''class'', layout_CARD)]
       [el ''h2'' [(''class'', ''mb-2 mt-0 text-lg font-black tracking-tight text-terminal-text'')]
          [Txt ''Node Enrollment''],
        el ''p'' [(''class'', ''mb-3 mt-0 text-sm text-terminal-muted'')]
          [Txt ''Start an enrolled agent with a one-time token from the control plane.''],
        el ''pre'' [(''class'', ''sunbolt-command'')]
          [Txt ''SUNBOLT_CONTROL_PLANE_URL=http://127.0.0.1:3000 SUNBOLT_AGENT_ENROLLMENT_TOKEN=<token> cargo run -p sunbolt-agent'']]"

definition nodes_listing :: markup where
  "nodes_listing =
     el ''div'' [(''class'', layout_CARD)]
       [el ''div'' [(''class'', table_list_TOOLBAR)]
          [el ''div'' []
             [el ''h3'' [(''class'', ''m-0 text-lg font-black tracking-tight text-terminal-text'')]
                [Txt ''Managed Nodes''],
              el ''p'' [(''class'', ''m-0 text-xs text-terminal-muted'')]
                [Txt ''Desktop table with search and status filters.'']],
           el ''div'' [(''class'', table_list_TOOLBAR_ACTIONS)]
             [el ''button'' [(''class'', button_class ButtonSecondary)] [Txt ''Export''],
              el ''button'' [(''class'', button_class ButtonSecondary)] [Txt ''Refresh'']]],
        el ''div'' [(''class'', table_list_MOBILE_LIST)]
          [mobile_record ''online'' ''node-1'' ''host-a - linux - 30 sec ago''],
        el ''div'' [(''class'', table_list_TABLE_WRAP)]
          [el ''table'' [(''class'', table_list_TABLE)]
             [el ''thead'' []
                [el ''tr'' []
                   [el ''th'' [] [Txt ''Node''],
                    el ''th'' [] [Txt ''Hostname''],
                    el ''th'' [] [Txt ''OS''],
                    el ''th'' [] [Txt ''Status''],
                    el ''th'' [] [Txt ''Last Seen''],
                    el ''th'' [] [Txt ''Actions'']]],
              el ''tbody'' []
                [el ''tr'' []
                   [el ''td'' [(''class'', ''font-mono text-xs text-terminal-text'')] [Txt ''node-1''],
                    el ''td'' [(''class'', ''text-terminal-text'')] [Txt ''host-a''],
                    el ''td'' [(''class'', ''text-terminal-text'')] [Txt ''linux''],
                    el ''td'' []
                      [el ''span'' [(''class'', status_badge_class ToneConnected)] [Txt ''online'']],
                    el ''td'' [(''class'', ''text-terminal-muted'')] [Txt ''30 sec ago''],
                    el ''td'' [(''class'', ''flex gap-2'')]
                      [el ''button'' [(''class'', button_class ButtonSecondary)] [Txt ''Details''],
                       el ''button'' [(''class'', button_class ButtonDanger)] [Txt ''Revoke'']]]]]],
        table_pagination ''1-1 of 1 nodes'']"

definition nodes_details :: markup where
  "nodes_details =
     el ''div'' [(''class'', layout_CARD)]
       [el ''h3'' [(''class'', ''mb-3 mt-0 text-lg font-black tracking-tight text-terminal-text'')]
          [Txt ''Node Details''],
        el ''dl'' [(''class'', ''grid grid-cols-[120px_minmax(0,1fr)] gap-x-3 gap-y-2 text-sm'')]
          [el ''dt'' [(''class'', ''text-terminal-muted'')] [Txt ''Node''],
           el ''dd'' [(''class'', ''m-0 text-terminal-text'')] [Txt ''node-1''],
           el ''dt'' [(''class'', ''text-terminal-muted'')] [Txt ''Agent''],
           el ''dd'' [(''class'', ''m-0 text-terminal-text'')] [Txt ''0.1.0''],
           el ''dt'' [(''class'', ''text-terminal-muted'')] [Txt ''Architecture''],
           el ''dd'' [(''class'', ''m-0 text-terminal-text'')] [Txt ''x86_64''],
           el ''dt'' [(''class'', ''text-terminal-muted'')] [Txt ''Remote Terminal''],
           el ''dd'' [(''class'', ''m-0 text-terminal-muted'')]
             [Txt ''Enter the node id in the terminal toolbar to route through the agent.'']]]"

definition nodes_page :: markup where
  "nodes_page =
     el ''section'' [(''class'', ''sunbolt-page grid gap-4'')]
       [nodes_header,
        nodes_enrollment,
        nodes_listing,
        nodes_details]"

definition security_passkeys :: markup where
  "security_passkeys =
     el ''div'' [(''class'', layout_CARD)]
       [el ''div'' [(''class'', ''mb-3 flex items-center justify-between gap-3'')]
          [el ''h2'' [(''class'', ''m-0 text-lg font-black tracking-tight text-terminal-text'')]
             [Txt ''Passkeys''],
           el ''button'' [(''class'', button_class ButtonPrimary)] [Txt ''Add passkey'']],
        el ''div'' [(''class'', table_list_MOBILE_LIST)]
          [mobile_record ''enabled'' ''Laptop passkey'' ''credential-1''],
        el ''div'' [(''class'', table_list_TABLE_WRAP)]
          [el ''table'' [(''class'', table_list_TABLE)]
             [el ''thead'' []
                [el ''tr'' []
                   [el ''th'' [] [Txt ''Label''],
                    el ''th'' [] [Txt ''Credential''],
                    el ''th'' [] [Txt ''Status''],
                    el ''th'' [] [Txt ''Actions'']]],
              el ''tbody'' []
                [el ''tr'' []
                   [el ''td'' [(''class'', ''text-terminal-text'')] [Txt ''Laptop passkey''],
                    el ''td'' [(''class'', ''font-mono text-xs text-terminal-muted'')]
                      [Txt ''credential-1''],
                    el ''td'' []
                      [el ''span'' [(''class'', status_badge_class ToneConnected)] [Txt ''enabled'']],
                    el ''td'' []
                      [el ''button'' [(''class'', button_class ButtonDanger)] [Txt ''Disable'']]]]]]]"

definition security_webauthn :: markup where
  "security_webauthn =
     el ''div'' [(''class'', layout_CARD)]
       [el ''h3'' [(''class'', ''mb-3 mt-0 text-lg font-black tracking-tight text-terminal-text'')]
          [Txt ''WebAuthn''],
        el ''dl'' [(''class'', ''grid grid-cols-[160px_minmax(0,1fr)] gap-x-3 gap-y-2 text-sm'')]
          [el ''dt'' [(''class'', ''text-terminal-muted'')] [Txt ''Backend crate''],
           el ''dd'' [(''class'', ''m-0 text-terminal-text'')] [Txt ''webauthn-rs''],
           el ''dt'' [(''class'', ''text-terminal-muted'')] [Txt ''Registration''],
           el ''dd'' [(''class'', ''m-0 text-terminal-muted'')] [Txt ''Challenge API ready''],
           el ''dt'' [(''class'', ''text-terminal-muted'')] [Txt ''Authentication''],
           el ''dd'' [(''class'', ''m-0 text-terminal-muted'')] [Txt ''Challenge API ready'']]]"

definition security_page :: markup where
  "security_page =
     el ''section'' [(''class'', ''sunbolt-page grid gap-4'')]
       [security_passkeys,
        security_webauthn]"

definition admin_tables :: markup where
  "admin_tables =
     el ''div'' [(''class'', ''grid grid-cols-1 gap-4 lg:grid-cols-2'')]
       [admin_table
          ''Workspaces''
          [''Name'', ''Nodes'', ''Members'']
          [[''Operations'', ''node-1'', ''admin@example.com'']],
        admin_table
          ''Roles''
          [''Role'', ''Permissions'', ''Members'']
          [[''Operator'', ''terminal.open, node.view'', ''1'']]]"

definition admin_access :: markup where
  "admin_access =
     el ''div'' [(''class'', layout_CARD)]
       [el ''div''
          [(''class'', ''mb-3 flex flex-col gap-3 sm:flex-row sm:items-center sm:justify-between'')]
          [el ''h2'' [(''class'', ''m-0 text-lg font-black tracking-tight text-terminal-text'')]
             [Txt ''Workspace Access''],
           el ''div'' [(''class'', ''flex flex-wrap gap-2'')]
             [el ''button'' [(''class'', button_class ButtonPrimary)] [Txt ''Add member''],
              el ''button'' [(''class'', button_class ButtonSecondary)] [Txt ''Grant role'']]],
        el ''div'' [(''class'', table_list_TABLE_WRAP)]
          [el ''table'' [(''class'', table_list_TABLE)]
             [el ''thead'' []
                [el ''tr'' []
                   [el ''th'' [] [Txt ''Workspace''],
                    el ''th'' [] [Txt ''User''],
                    el ''th'' [] [Txt ''Role''],
                    el ''th'' [] [Txt ''Actions'']]],
              el ''tbody'' []
                [el ''tr'' []
                   [el ''td'' [(''class'', ''text-terminal-text'')] [Txt ''Operations''],
                    el ''td'' [(''class'', ''text-terminal-text'')] [Txt ''admin@example.com''],
                    el ''td'' [(''class'', ''text-terminal-text'')] [Txt ''Admin''],
                    el ''td'' []
                      [el ''button'' [(''class'', button_class ButtonDanger)] [Txt ''Remove'']]]]]],
        el ''div'' [(''class'', table_list_MOBILE_LIST)]
          [mobile_record ''Admin'' ''admin@example.com'' ''Operations'']]"

definition admin_page :: markup where
  "admin_page =
     el ''section'' [(''class'', ''sunbolt-page grid gap-4'')]
       [admin_tables,
        admin_access]"

section \<open>The shell of the application\<close>

text \<open>What the build gives: the addresses of assets, the configured control plane, the bridge script.\<close>

record app_build =
  ab_asset :: "string \<Rightarrow> string"
  ab_control_plane :: "string option"
  ab_bridge :: string

definition XTERM_SCRIPT_URL :: string where
  "XTERM_SCRIPT_URL = ''https://cdn.jsdelivr.net/npm/@xterm/xterm@5.5.0/lib/xterm.min.js''"

definition XTERM_STYLESHEET_URL :: string where
  "XTERM_STYLESHEET_URL = ''https://cdn.jsdelivr.net/npm/@xterm/xterm@5.5.0/css/xterm.min.css''"

definition nav_class :: "shell_page \<Rightarrow> shell_page \<Rightarrow> string" where
  "nav_class current target = button_class (ButtonNavigation (current = target))"

definition nav_button :: "shell_page \<Rightarrow> shell_page \<Rightarrow> string \<Rightarrow> markup" where
  "nav_button current target label =
     Elem ''button'' [(''class'', nav_class current target)] (Some target) [Txt label]"

definition app_header :: "shell_page \<Rightarrow> markup" where
  "app_header page =
     el ''header'' [(''class'', layout_TOPBAR)]
       [el ''div'' [(''class'', layout_BRAND)]
          [el ''div'' [(''class'', layout_BRAND_MARK)] [Txt ''S''],
           el ''div'' [(''class'', ''min-w-0'')]
             [el ''h1'' [(''class'', ''m-0 text-xl font-black tracking-tight text-terminal-text'')]
                [Txt ''Sunbolt''],
              el ''p'' [(''class'', ''m-0 text-xs font-medium text-terminal-muted'')]
                [Txt ''Secure terminal control plane'']]],
        el ''nav'' [(''class'', layout_NAV), (''aria-label'', ''Primary navigation'')]
          [nav_button page ShellDashboard ''Dashboard'',
           nav_button page ShellTerminal ''Terminal'',
           nav_button page ShellAccessHistory ''Access History'',
           nav_button page ShellNodes ''Nodes'',
           nav_button page ShellAuditLogs ''Audit Logs'',
           nav_button page ShellSecurity ''Security'',
           nav_button page ShellAdmin ''Admin'']]"

fun page_body :: "shell_page \<Rightarrow> markup" where
  "page_body ShellDashboard = dashboard_page"
| "page_body ShellTerminal = terminal_page_body"
| "page_body ShellAccessHistory = access_history_page"
| "page_body ShellNodes = nodes_page"
| "page_body ShellAuditLogs = audit_log_page"
| "page_body ShellSecurity = security_page"
| "page_body ShellAdmin = admin_page"

definition app_view :: "app_build \<Rightarrow> shell_page \<Rightarrow> markup" where
  "app_view bd page =
     el ''main'' [(''class'', layout_SHELL)]
       ([el ''section'' [(''class'', layout_APP_GRID)] [app_header page, page_body page],
         el ''link'' [(''rel'', ''stylesheet''), (''href'', ab_asset bd ''/assets/sunbolt.css'')] [],
         el ''link''
           [(''rel'', ''stylesheet''), (''href'', ab_asset bd ''/assets/sunbolt-terminal-workspace.css'')] []]
        @ (case browser_config_script (ab_control_plane bd) of
             Some browser_config \<Rightarrow> [el ''script'' [(''dangerous_inner_html'', browser_config)] []]
           | None \<Rightarrow> [])
        @ [el ''script'' [(''src'', XTERM_SCRIPT_URL)] [],
           el ''link'' [(''rel'', ''stylesheet''), (''href'', XTERM_STYLESHEET_URL)] []]
        @ (if page = ShellTerminal then [el ''script'' [(''dangerous_inner_html'', ab_bridge bd)] []] else []))"

text \<open>The page the application starts with, and a click on an element.\<close>

definition initial_page :: shell_page where
  "initial_page = ShellDashboard"

definition click_on :: "markup \<Rightarrow> shell_page \<Rightarrow> shell_page" where
  "click_on e page = (case e of Elem _ _ (Some target) _ \<Rightarrow> target | _ \<Rightarrow> page)"

section \<open>The document as the script sees it\<close>

text \<open>The elements of a document in its order.\<close>

fun elements :: "markup \<Rightarrow> markup list" where
  "elements (Elem tag attrs click content) =
     Elem tag attrs click content # concat (map elements content)"
| "elements (Txt s) = []"

fun attribute :: "string \<Rightarrow> markup \<Rightarrow> string option" where
  "attribute name (Elem tag attrs click content) = map_of attrs name"
| "attribute name (Txt s) = None"

definition get_element_by_id :: "string \<Rightarrow> markup \<Rightarrow> markup option" where
  "get_element_by_id i doc = find (\<lambda>e. attribute ''id'' e = Some i) (elements doc)"

text \<open>The elements the script looks up when it starts, those it uses as text fields, and what a click
  on its buttons does; \<open>c\<close> is what the clipboard holds when it is asked.\<close>

definition bridge_element_ids :: "string list" where
  "bridge_element_ids =
     [TERMINAL_MOUNT_ID, ''sunbolt-terminal-status'', ''sunbolt-terminal-error'', ''sunbolt-terminal-auth'',
      ''sunbolt-terminal-email'', ''sunbolt-terminal-password'', ''sunbolt-terminal-login'',
      ''sunbolt-terminal-close'', ''sunbolt-terminal-new'', ''sunbolt-terminal-detach'',
      ''sunbolt-terminal-close-tab'', ''sunbolt-terminal-mfa'', ''sunbolt-terminal-reconnect'',
      ''sunbolt-terminal-retry'', ''sunbolt-mobile-key-ctrl'', ''sunbolt-mobile-key-esc'',
      ''sunbolt-mobile-key-tab'', ''sunbolt-mobile-key-up'', ''sunbolt-mobile-key-left'',
      ''sunbolt-mobile-key-down'', ''sunbolt-mobile-key-right'', ''sunbolt-mobile-key-paste'',
      ''sunbolt-mobile-action-reconnect'', ''sunbolt-mobile-action-detach'',
      ''sunbolt-mobile-action-terminate'', TERMINAL_NODE_INPUT_ID, ''sunbolt-terminal-tabs'',
      ''sunbolt-terminal-detached-sessions'']"

definition bridge_fields :: "string list" where
  "bridge_fields = [''sunbolt-terminal-email'', ''sunbolt-terminal-password'', TERMINAL_NODE_INPUT_ID]"

definition bridge_buttons :: "clipboard \<Rightarrow> (string \<times> browser_event) list" where
  "bridge_buttons c =
     [(''sunbolt-terminal-close'', UiTerminate), (''sunbolt-terminal-new'', UiNew),
      (''sunbolt-terminal-detach'', UiDetach), (''sunbolt-terminal-close-tab'', UiCloseTab),
      (''sunbolt-terminal-mfa'', UiStepUp), (''sunbolt-terminal-login'', UiLogin),
      (''sunbolt-terminal-reconnect'', UiReconnect), (''sunbolt-terminal-retry'', UiRetry),
      (''sunbolt-mobile-key-ctrl'', UiMobileCtrl), (''sunbolt-mobile-key-esc'', UiMobileKey [ESC]),
      (''sunbolt-mobile-key-tab'', UiMobileKey [CHR 0x09]), (''sunbolt-mobile-key-up'', UiMobileKey (ESC # ''[A'')),
      (''sunbolt-mobile-key-left'', UiMobileKey (ESC # ''[D'')),
      (''sunbolt-mobile-key-down'', UiMobileKey (ESC # ''[B'')),
      (''sunbolt-mobile-key-right'', UiMobileKey (ESC # ''[C'')), (''sunbolt-mobile-key-paste'', UiPaste c),
      (''sunbolt-mobile-action-reconnect'', UiReconnect), (''sunbolt-mobile-action-detach'', UiDetach),
      (''sunbolt-mobile-action-terminate'', UiTerminate)]"

text \<open>The observer of the document's changes.\<close>

definition observe_mount :: "page \<Rightarrow> markup \<Rightarrow> browser \<Rightarrow> browser" where
  "observe_mount pg doc b =
     (if get_element_by_id TERMINAL_MOUNT_ID doc = None then browser_step pg b UiLeave else b)"


section \<open>Identifiers, handlers and idle buttons of a tree\<close>

text \<open>The elements with an identifier and their tags, the pages its clicks lead to, and the labels of
  the buttons that have neither a handler nor an identifier to be found by and are not disabled.\<close>

fun named :: "markup \<Rightarrow> (string \<times> string) list" where
  "named (Elem tag attrs click content) =
     (case map_of attrs ''id'' of None \<Rightarrow> [] | Some i \<Rightarrow> [(i, tag)]) @ concat (map named content)"
| "named (Txt s) = []"

fun targets :: "markup \<Rightarrow> shell_page list" where
  "targets (Elem tag attrs click content) =
     (case click of None \<Rightarrow> [] | Some p \<Rightarrow> [p]) @ concat (map targets content)"
| "targets (Txt s) = []"

fun idle_buttons :: "markup \<Rightarrow> markup list list" where
  "idle_buttons (Elem tag attrs click content) =
     (if tag = ''button'' \<and> click = None \<and> map_of attrs ''id'' = None \<and> map_of attrs ''disabled'' = None
      then [content] else []) @ concat (map idle_buttons content)"
| "idle_buttons (Txt s) = []"

lemma concat_none: "list_all (\<lambda>x. f x = []) xs \<Longrightarrow> concat (map f xs) = []"
  by (simp add: list_all_iff)

text \<open>Every named element is one of the document, and the first with its name.\<close>

lemma named_elements: "named doc = List.map_filter
    (\<lambda>e. case e of Elem tag attrs _ _ \<Rightarrow> map_option (\<lambda>i. (i, tag)) (map_of attrs ''id'') | Txt _ \<Rightarrow> None)
    (elements doc)"
  by (induction doc rule: named.induct)
    (auto simp: List.map_filter_def filter_concat map_concat comp_def split: option.splits
      intro!: arg_cong [where f = concat])

lemma find_none_ids: "find (\<lambda>e. attribute ''id'' e = Some i) es = None \<longleftrightarrow>
    i \<notin> set (map fst (List.map_filter
      (\<lambda>e. case e of Elem tag attrs _ _ \<Rightarrow> map_option (\<lambda>i. (i, tag)) (map_of attrs ''id'') | Txt _ \<Rightarrow> None) es))"
  by (induction es) (auto simp: List.map_filter_simps split: markup.splits option.splits elim: attribute.elims)

lemma get_element_none: "get_element_by_id i doc = None \<longleftrightarrow> i \<notin> fst ` set (named doc)"
  using find_none_ids [of i "elements doc"] by (simp add: get_element_by_id_def named_elements)

text \<open>The parts that carry no identifier, and those of the terminal page that do.\<close>

lemma named_parts [simp]:
  "named (mobile_record x y z) = []" "named (metric_card x y z) = []" "named (dashboard_event x y z) = []"
  "named (table_pagination x) = []" "named (admin_table x hs rows) = []" "named (app_header p) = []"
  by (simp_all add: mobile_record_def metric_card_def dashboard_event_def table_pagination_def
      admin_table_def app_header_def nav_button_def comp_def concat_none list_all_iff)

lemma named_static [simp]:
  "named dashboard_page = []" "named access_history_page = []" "named audit_log_page = []"
  "named nodes_page = []" "named security_page = []" "named admin_page = []"
  by (simp_all add: dashboard_page_def dashboard_header_def dashboard_metrics_def dashboard_main_def
      dashboard_queue_def dashboard_review_def access_history_page_def access_history_header_def
      access_history_records_def audit_log_page_def audit_log_header_def audit_log_records_def
      nodes_page_def nodes_header_def nodes_enrollment_def nodes_listing_def nodes_details_def
      security_page_def security_passkeys_def security_webauthn_def admin_page_def admin_tables_def
      admin_access_def)

definition terminal_names :: "(string \<times> string) list" where
  "terminal_names =
     [(''sunbolt-terminal-node'', ''input''), (''sunbolt-terminal-status'', ''div''),
      (''sunbolt-terminal-mfa'', ''button''), (''sunbolt-terminal-new'', ''button''),
      (''sunbolt-terminal-detach'', ''button''), (''sunbolt-terminal-close-tab'', ''button''),
      (''sunbolt-terminal-reconnect'', ''button''), (''sunbolt-terminal-retry'', ''button''),
      (''sunbolt-terminal-close'', ''button''), (''sunbolt-terminal-tabs'', ''div''),
      (''sunbolt-terminal-detached-sessions'', ''div''), (''sunbolt-terminal-error'', ''div''),
      (''sunbolt-terminal-auth'', ''div''), (''sunbolt-terminal-email'', ''input''),
      (''sunbolt-terminal-password'', ''input''), (''sunbolt-terminal-login'', ''button''),
      (''sunbolt-terminal'', ''div''), (''sunbolt-mobile-key-ctrl'', ''button''),
      (''sunbolt-mobile-key-esc'', ''button''), (''sunbolt-mobile-key-tab'', ''button''),
      (''sunbolt-mobile-key-up'', ''button''), (''sunbolt-mobile-key-left'', ''button''),
      (''sunbolt-mobile-key-down'', ''button''), (''sunbolt-mobile-key-right'', ''button''),
      (''sunbolt-mobile-key-paste'', ''button''), (''sunbolt-mobile-action-reconnect'', ''button''),
      (''sunbolt-mobile-action-detach'', ''button''), (''sunbolt-mobile-action-terminate'', ''button'')]"

lemma named_terminal: "named terminal_page_body = terminal_names"
  by (simp add: terminal_page_body_def terminal_toolbar_def terminal_node_sheet_def terminal_actions_def
      terminal_sessions_def terminal_error_alert_def terminal_sign_in_def terminal_grid_def terminal_node_pane_def
      terminal_mount_def terminal_accessories_def terminal_names_def TERMINAL_MOUNT_ID_def
      TERMINAL_NODE_INPUT_ID_def TERMINAL_STATUS_ID_def TERMINAL_ERROR_ID_def TERMINAL_AUTH_PANEL_ID_def
      TERMINAL_TABS_ID_def TERMINAL_DETACHED_SESSIONS_ID_def)

lemma named_view: "named (app_view bd p) = named (page_body p)"
  by (cases "browser_config_script (ab_control_plane bd)") (simp_all add: app_view_def)

lemma named_elsewhere: "p \<noteq> ShellTerminal \<Longrightarrow> named (app_view bd p) = []"
  by (cases p) (simp_all add: named_view)

lemma terminal_names_distinct: "distinct (map fst terminal_names)"
  by code_simp

lemma mount_elsewhere: "p \<noteq> ShellTerminal \<Longrightarrow> get_element_by_id TERMINAL_MOUNT_ID (app_view bd p) = None"
  by (simp add: get_element_none named_elsewhere)

text \<open>Navigation: every page offers every page, and a click leads there.\<close>

lemma targets_parts [simp]:
  "targets (mobile_record x y z) = []" "targets (metric_card x y z) = []" "targets (dashboard_event x y z) = []"
  "targets (table_pagination x) = []" "targets (admin_table x hs rows) = []"
  by (simp_all add: mobile_record_def metric_card_def dashboard_event_def table_pagination_def
      admin_table_def comp_def concat_none list_all_iff)

lemma targets_body [simp]: "targets (page_body p) = []"
  by (cases p) (simp_all add: dashboard_page_def dashboard_header_def dashboard_metrics_def dashboard_main_def
      dashboard_queue_def dashboard_review_def access_history_page_def access_history_header_def
      access_history_records_def audit_log_page_def audit_log_header_def audit_log_records_def
      nodes_page_def nodes_header_def nodes_enrollment_def nodes_listing_def nodes_details_def
      security_page_def security_passkeys_def security_webauthn_def admin_page_def admin_tables_def
      admin_access_def terminal_page_body_def terminal_toolbar_def terminal_node_sheet_def terminal_actions_def
      terminal_sessions_def terminal_error_alert_def terminal_sign_in_def terminal_grid_def terminal_node_pane_def
      terminal_mount_def terminal_accessories_def)

lemma every_page_is_offered:
  "targets (app_view bd p) = [ShellDashboard, ShellTerminal, ShellAccessHistory, ShellNodes, ShellAuditLogs,
     ShellSecurity, ShellAdmin]"
  by (cases "browser_config_script (ab_control_plane bd)")
    (simp_all add: app_view_def app_header_def nav_button_def)

lemma navigation_shows_the_page:
  "click_on (nav_button p q label) p = q"
  "nav_class p q = ''sunbolt-nav-button sunbolt-nav-button-active'' \<longleftrightarrow> p = q"
  by (simp add: click_on_def nav_button_def) (cases "p = q"; simp add: nav_class_def)

text \<open>Apart from the navigation, the buttons outside the terminal page have no effect at all.\<close>

lemma nodes_buttons_are_idle:
  "idle_buttons nodes_page = map (\<lambda>s. [Txt s]) [''Enroll node'', ''Export'', ''Refresh'', ''Details'', ''Revoke'']"
  by (simp add: nodes_page_def nodes_header_def nodes_enrollment_def nodes_listing_def nodes_details_def
      mobile_record_def table_pagination_def)

lemma security_buttons_are_idle:
  "idle_buttons security_page = map (\<lambda>s. [Txt s]) [''Add passkey'', ''Disable'']"
  by (simp add: security_page_def security_passkeys_def security_webauthn_def mobile_record_def)

lemma terminal_buttons_are_idle:
  "idle_buttons terminal_page_body = map (\<lambda>s. [Txt s]) [''local'', ''node-1'']"
  by (simp add: terminal_page_body_def terminal_toolbar_def terminal_node_sheet_def terminal_actions_def
      terminal_sessions_def terminal_error_alert_def terminal_sign_in_def terminal_grid_def terminal_node_pane_def
      terminal_mount_def terminal_accessories_def)

text \<open>Where identifiers are distinct, an element is found by its own.\<close>

lemma find_by_id:
  assumes "distinct (map fst (List.map_filter
      (\<lambda>e. case e of Elem tag attrs _ _ \<Rightarrow> map_option (\<lambda>i. (i, tag)) (map_of attrs ''id'') | Txt _ \<Rightarrow> None) es))"
    and "e \<in> set es" and "attribute ''id'' e = Some i"
  shows "find (\<lambda>e. attribute ''id'' e = Some i) es = Some e"
  using assms(1,2)
proof (induction es)
  case (Cons x es)
  show ?case
  proof (cases "x = e")
    case False
    then have e: "e \<in> set es"
      using Cons.prems(2) by simp
    then have "find (\<lambda>e. attribute ''id'' e = Some i) es \<noteq> None"
      using assms(3) by (auto simp: find_None_iff)
    then have "attribute ''id'' x \<noteq> Some i"
      using Cons.prems(1) find_none_ids [of i es]
      by (cases x) (auto simp: List.map_filter_simps split: option.splits)
    moreover have "find (\<lambda>e. attribute ''id'' e = Some i) es = Some e"
      using Cons.IH [OF _ e] Cons.prems(1) by (auto simp: List.map_filter_simps split: option.splits)
    ultimately show ?thesis
      by simp
  qed (use assms(3) in simp)
qed simp

lemma get_element_named:
  "distinct (map fst (named doc)) \<Longrightarrow> e \<in> set (elements doc) \<Longrightarrow> attribute ''id'' e = Some i \<Longrightarrow>
   get_element_by_id i doc = Some e"
  using find_by_id [of "elements doc" e i] by (simp add: get_element_by_id_def named_elements)

lemma mount_found: "get_element_by_id TERMINAL_MOUNT_ID (app_view bd ShellTerminal) = Some terminal_mount"
proof (rule get_element_named)
  show "distinct (map fst (named (app_view bd ShellTerminal)))"
    using terminal_names_distinct by (simp add: named_view named_terminal)
  have "terminal_mount \<in> set (elements terminal_mount)"
    by (simp add: terminal_mount_def)
  then show "terminal_mount \<in> set (elements (app_view bd ShellTerminal))"
    by (simp add: app_view_def terminal_page_body_def terminal_grid_def)
qed (simp add: terminal_mount_def)

section \<open>A script whose page is gone\<close>

text \<open>What may still happen to it: answers, events of its sockets, and its observers.\<close>

fun from_outside :: "browser_event \<Rightarrow> bool" where
  "from_outside (SocketOpened n) = True"
| "from_outside (SocketSaid n m) = True"
| "from_outside (SocketEnded n) = True"
| "from_outside (SocketBroke n) = True"
| "from_outside (AnswerArrived i a) = True"
| "from_outside (UiMeasured w h) = True"
| "from_outside UiLeave = True"
| "from_outside _ = False"

fun harmless :: "pending \<Rightarrow> bool" where
  "harmless AwaitLists = True"
| "harmless AwaitNothing = True"
| "harmless _ = False"

definition silent :: "browser \<Rightarrow> bool" where
  "silent b = (br_cleaned_up b \<and> list_all harmless (br_pending b)
     \<and> list_all (\<lambda>s. bs_ready s \<in> {SocketClosing, SocketClosed}) (br_sockets b))"

lemma silent_lists:
  assumes "silent b"
  shows "silent (on_lists a b) \<and> br_calls (on_lists a b) = br_calls b"
proof (cases a)
  case (AnsweredLists act det)
  have "silent (render_tabs (persist_workspace b)) \<and> br_calls (render_tabs (persist_workspace b)) = br_calls b"
    if "silent b" for b
    using that by (simp add: silent_def render_tabs_def persist_workspace_def Let_def split: option.split)
  moreover have "silent (render_detached_sessions rs b) \<and> br_calls (render_detached_sessions rs b) = br_calls b"
    if "silent b" for rs b
    using that by (simp add: silent_def render_detached_sessions_def)
  moreover have "silent (b\<lparr>br_sessions := m\<rparr>)" if "silent b" for b m
    using that by (simp add: silent_def)
  ultimately show ?thesis
    using assms AnsweredLists by (simp add: Let_def split: option.split)
qed (use assms in simp_all)

lemma silent_step:
  assumes "silent b" and "from_outside e"
  shows "silent (browser_step pg b e) \<and> br_calls (browser_step pg b e) = br_calls b"
proof -
  have not_live: "socket_ready b n \<notin> {SocketConnecting, SocketOpen}" if "n < length (br_sockets b)" for n
    using assms(1) that by (auto simp: silent_def list_all_length socket_ready_def)
  show ?thesis
  proof (cases e)
    case (AnswerArrived i a)
    show ?thesis
    proof (cases "i < length (br_pending b)")
      case True
      let ?b = "b\<lparr>br_pending := take i (br_pending b) @ drop (Suc i) (br_pending b)\<rparr>"
      have b: "silent ?b" "br_calls ?b = br_calls b"
        using assms(1) by (auto simp: silent_def list_all_iff dest: in_set_takeD in_set_dropD)
      have "harmless (br_pending b ! i)"
        using assms(1) True by (simp add: silent_def list_all_length)
      then have "silent (on_answer pg (br_pending b ! i) a ?b)
          \<and> br_calls (on_answer pg (br_pending b ! i) a ?b) = br_calls b"
        using silent_lists [OF b(1), of a] b by (cases "br_pending b ! i") simp_all
      then show ?thesis
        using AnswerArrived True by simp
    qed (use AnswerArrived assms(1) in simp)
  qed (use assms not_live in \<open>auto simp: silent_def set_status_def sync_controls_def set_error_def
      set_ready_def cleanup_terminal_def list_all_length nth_list_update\<close>)
qed

lemma silent_run:
  "silent b \<Longrightarrow> list_all from_outside es \<Longrightarrow> br_calls (browser_run pg b es) = br_calls b"
proof (induction es arbitrary: b)
  case (Cons e es)
  then show ?case
    using silent_step [of b e pg] by (simp add: browser_run_def)
qed (simp add: browser_run_def)


lemma leave_effect:
  assumes "browser_ok b" and "\<not> br_cleaned_up b" and "br_session b = Some sid" and "sid \<noteq> []"
    and "br_socket b = Some n" and "socket_ready b n = SocketOpen" and "list_all harmless (br_pending b)"
  shows "silent (cleanup_terminal b)
    \<and> br_calls (cleanup_terminal b) = br_calls b @ [SendText n (BridgeDetach sid), CloseSocket n]"
proof -
  let ?c = "set_ready n SocketClosing (call (SendText n (BridgeDetach sid)) (b\<lparr>br_cleaned_up := True\<rparr>))"
  have step: "cleanup_terminal b = call (CloseSocket n) ?c"
    using assms(2-6) by (simp add: cleanup_terminal_def truthy_def bridge_send_def socket_ready_def close_socket_def
        call_def Let_def)
  have "Suc n = length (br_sockets b)" "\<forall>i < n. bs_ready (br_sockets b ! i) \<in> {SocketClosing, SocketClosed}"
    using assms(1,5) by (simp_all add: browser_ok_def)
  then show ?thesis
    using assms(7) by (auto simp: step silent_def call_def set_ready_def list_all_length nth_list_update less_Suc_eq)
qed

section \<open>Properties\<close>

text \<open>C13: The terminal page and the script that drives it agree, for every build: the identifiers of the page
  are distinct and are exactly those the script looks up; its buttons with an identifier are exactly the
  ones the script gives an effect, its text fields those the script reads; the element the terminal
  is mounted in carries the address of the terminal's web socket. The other pages have none of these
  identifiers, so the script finds the terminal page's elements or nothing.\<close>

theorem terminal_page_and_script_fit:
  "distinct (map fst (named (app_view bd ShellTerminal)))
   \<and> set (map fst (named (app_view bd ShellTerminal))) = set bridge_element_ids
   \<and> set (map fst (filter (\<lambda>e. snd e = ''button'') (named (app_view bd ShellTerminal)))) =
       set (map fst (bridge_buttons c))
   \<and> set (map fst (filter (\<lambda>e. snd e = ''input'') (named (app_view bd ShellTerminal)))) = set bridge_fields
   \<and> map_option (attribute ''data-ws-endpoint'') (get_element_by_id TERMINAL_MOUNT_ID (app_view bd ShellTerminal)) =
       Some (Some TERMINAL_WS_ENDPOINT)
   \<and> list_all (\<lambda>p. named (app_view bd p) = [])
       [ShellDashboard, ShellAccessHistory, ShellNodes, ShellAuditLogs, ShellSecurity, ShellAdmin]"
proof -
  have "set (map fst terminal_names) = set bridge_element_ids"
    by code_simp
  moreover have "set (map fst (filter (\<lambda>e. snd e = ''button'') terminal_names)) = set (map fst (bridge_buttons c))"
  proof -
    have "set (map fst (filter (\<lambda>e. snd e = ''button'') terminal_names)) = set (map fst (bridge_buttons NoClipboard))"
      by code_simp
    then show ?thesis
      by (simp add: bridge_buttons_def)
  qed
  moreover have "set (map fst (filter (\<lambda>e. snd e = ''input'') terminal_names)) = set bridge_fields"
    by code_simp
  moreover have "attribute ''data-ws-endpoint'' terminal_mount = Some TERMINAL_WS_ENDPOINT"
    by (simp add: terminal_mount_def)
  ultimately show ?thesis
    using terminal_names_distinct by (simp add: named_view named_terminal mount_found)
qed

text \<open>C12: Leaving the terminal page, for any other page, ends the terminal of the page: the script says that
  it detaches from its session and closes the socket, as the last things it does. Whatever answers and
  events of its sockets still reach it, it sends no frame, opens no socket and makes no request any
  more, provided that no request it goes on to connect from was under way.\<close>

theorem left_terminal_falls_silent:
  assumes "browser_ok b" and "\<not> br_cleaned_up b" and "br_session b = Some sid" and "sid \<noteq> []"
    and "br_socket b = Some n" and "socket_ready b n = SocketOpen" and "list_all harmless (br_pending b)"
    and "p \<noteq> ShellTerminal" and "list_all from_outside es"
  shows "br_calls (browser_run pg (observe_mount pg (app_view bd p) b) es) =
    br_calls b @ [SendText n (BridgeDetach sid), CloseSocket n]"
proof -
  have "observe_mount pg (app_view bd p) b = cleanup_terminal b"
    using assms(8) by (simp add: observe_mount_def mount_elsewhere)
  then show ?thesis
    using leave_effect [OF assms(1-7)] silent_run [OF _ assms(9)] by simp
qed

text \<open>The open tab, left for the node list; its socket then says something and closes.\<close>

theorem left_terminal_falls_silent_witness:
  "br_calls (browser_run example_page (observe_mount example_page
      (app_view \<lparr>ab_asset = (\<lambda>s. s), ab_control_plane = None, ab_bridge = ''''\<rparr> ShellNodes)
      (set_ready 0 SocketOpen example_browser)) [SocketSaid 0 None, SocketEnded 0]) =
    [SendText 0 (BridgeDetach ''s''), CloseSocket 0]"
proof -
  let ?b = "set_ready 0 SocketOpen example_browser"
  have "browser_ok ?b"
    using example_browser_ok by (simp add: browser_ok_def set_ready_def example_browser_def browser_start_def)
  then show ?thesis
    using left_terminal_falls_silent [of ?b "''s''" 0 ShellNodes "[SocketSaid 0 None, SocketEnded 0]" example_page]
    by (simp add: example_browser_def browser_start_def set_ready_def socket_ready_def)
qed



end
