(* ===== verification/Spec2Isabelle.thy ===== *)
theory Spec2Isabelle
  imports Sb_Prelude Sb_Protocol Sb_Terminal Sb_Sessions Sb_Redaction Sb_Codec Sb_Audit Sb_Auth
    Sb_Rate_Limit Sb_Routing Sb_Nodes Sb_Config Sb_Http Sb_Channel Sb_Transport Sb_Utf8 Sb_Agent
    Sb_App Sb_Handlers Sb_Routes Sb_Browser Sb_System Sb_Remote Sb_Migrations Sb_Storage Sb_Ui Sb_Pages
begin

text \<open>
  A verification library for Sunbolt, a service that gives logged-in users a shell in the browser.

  The program. A control plane (crates/sunbolt-control) serves an HTTP API and two kinds of long-lived
  connection. A browser logs in (crates/sunbolt-auth), opens a web socket, and asks for a terminal:
  on the control plane itself, a shell behind a pseudo terminal (crates/sunbolt-terminal), or on a
  node, where an enrolled agent (crates/sunbolt-agent) runs the shell and talks to the control plane
  over a web socket or by long polling, in the messages of crates/sunbolt-protocol. Each terminal has
  an entry in a registry, with limits, a reconnect token and the last pieces of output. What users do
  is recorded in an audit log with a hash chain (crates/sunbolt-audit). The browser's end is a script
  the web UI writes into the page (crates/sunbolt-ui). src/migrations builds a database schema that the
  running program does not use yet.

  The theories, from the leaves to the whole; "<-" gives the sources.

  Sb_Prelude <- the standard library as the code uses it: strings as bytes, trimming, HashMap as an
    association list behind the locale keyed_store, saturating arithmetic, clocks.
  Sb_Channel <- tokio's bounded channel as the interface mpsc and the locale mpsc_contract.
  Sb_Utf8 <- String::from_utf8_lossy, applied to what is read from a shell.
  Sb_Protocol <- sunbolt-protocol/src/lib.rs, transport.rs: messages, envelope, reconnect policy.
  Sb_Terminal <- sunbolt-terminal/src/lib.rs: session states and LocalPtySession.
  Sb_Sessions <- control/src/terminal/session_registry.rs: the registry as the record
    session_registry, one function per method, and registry_step, the relation of all of them.
  Sb_Redaction, Sb_Audit <- sunbolt-audit: redaction passes, events, hash chain, log.
  Sb_Codec, Sb_Auth <- sunbolt-auth: tokens, base32, HMAC, TOTP, recovery codes; the service as the
    record auth_service over the record auth_store, with auth_step for its public operations.
  Sb_Rate_Limit, Sb_Routing, Sb_Nodes <- rate_limit.rs, routing.rs, node.rs of the control plane.
  Sb_Config <- config.rs and the storage crate's configuration: start-up.
  Sb_Http <- security.rs, auth.rs, observability.rs: headers, cookies, middlewares.
  Sb_Transport <- agent/mod.rs: connected agents, negotiation, frames, long poll, the web socket of an
    agent as a step function.
  Sb_Agent <- sunbolt-agent/src/lib.rs: identity, terminal runtime, run loop.
  Sb_App <- state.rs: the state app_state all handlers share and their effects on it.
  Sb_Handlers <- terminal/mod.rs: the connections of browsers.
  Sb_Routes <- routes/: each handler of the API, serve, the service with its browser layers, and
    build_router, which adds request identifiers and spans.
  Sb_Browser <- sunbolt-ui/src/browser_bridge.rs: the script as a machine over events of the page
    (browser_step), its state the record browser and its calls of the browser's API a history.
  Sb_System: a browser and the handler of its connection together.
  Sb_Remote: a terminal on a node from end to end: the browser, its handler, the connection of the agent
    and the agent's runtime, each taking its turn, with the queues between them.
  Sb_Migrations <- src/migrations: tables, migrations, their order.
  Sb_Storage <- sunbolt-storage/src/repositories: the planned durable records against the schema.
  Sb_Ui <- api_client.rs, viewport_validation.rs, terminal_workspace.rs of the UI.
  Sb_Pages <- pages.rs, shell.rs, components.rs of the UI: the pages as trees of elements, and the
    elements the script of Sb_Browser looks up in them.

  How code becomes a definition. A struct is a record, an enum a datatype, a method a function from the
  state to its result and the new state. A fallible function returns a sum with the error on the left
  or an option. A mutex that the code recovers from poisoning is not seen; one it does not recover is
  a flag of the state, and every operation has the branch in which it is set. Widths matter for the
  counters, sizes and TOTP arithmetic, which are words. Random bytes, clock readings and the results of
  system calls are arguments, one for each time the code asks; what the code calls outside is part of
  the result (close calls of shells, frames sent, messages broadcast, requests of the script). An await
  that may not return is a value of its own (Parked) and not an assumption. A select loop is one step
  per event, and a connection is a list of events; between two of them an arbitrary function says what
  the other tasks did to the shared state, restricted in a theorem only by what it must not touch.

  What the lemmas show, by group.
  - Registry: limits for users and nodes hold at every reachable state; a session is reattached only
    by its owner with the current token, which is then replaced; a local shell is closed when its
    session goes; replay buffers are consecutive.
  - Connections: a frame of one connection reaches the shell or the node session of that connection
    only; a connection that ends leaves its session detached, or removed with its shell closed; a remote
    terminal starts only for a user with the permission, on a node that is online.
  - API: a protected handler runs only behind a live session, an allowed origin and, where it
    changes state, the CSRF header, and every answer carries one valid request identifier; passwords
    can be guessed only as often as the limiter allows; a revoked node loses its sessions and its
    connection.
  - Agents: only an enrolled agent with a valid credential is connected, commands reach it once and in
    order, a silent one is disconnected, and the shells it runs are those in its table.
  - Browser and both ends together: the state of the script and the frames it sends are well formed;
    typed text arrives at the shell as it was filtered, output arrives on the screen; the tabs of a page
    survive a reload. Three theorems state what goes wrong: reattaching from the script is refused, and
    handlers of two terminals on one node take each other's events.
  - A terminal on a node, end to end (Sb_Remote): in every interleaving what is typed is written to the
    remote shell once and in order, and what the shell writes is shown once and in order unless the
    event channel was full; both are eventually complete. The invariant is one relation for each
    direction between what went in, what is queued and what came out, with a lemma for each event.
  - Pages: the terminal page has exactly the elements the script looks up; leaving it ends the
    terminal, unless a check of the session was under way, in which case one is opened unseen.
  - Audit: the log only grows and its chain verifies, a changed event breaks it, no token the redaction
    knows survives it.
  - Authentication: the store is consistent, a TOTP code is accepted exactly in its window, and a limiter
    is equivalent to a sliding window that forgets nothing.
  - Schema: the migrations create tables whose references resolve, and undo one another exactly, on a
    database that accepts their statements; the records of the repositories fit it but for three gaps.

  Parameters and hypotheses. SHA-256, the hash of tokens, tokio's channels, serde's reader of a frame,
  the PTY library, the HTTP client, the file system, the database and its schema manager are arguments.
  What is relied on is stated where it is used: mpsc_contract and transport_channels for channels,
  reads_frames for what the derived reader accepts of the script's frames, reads_envelopes for the
  envelopes an agent sends (both in surroundings, with the channels), documented_manager for the
  schema manager; that SHA-256 has no collision is never assumed: a collision is a case
  of the conclusion.
  Each has an instance at which the witnesses are evaluated (mailbox_ops, mail_env, decode_frame,
  decode_output, plain_manager).

  Bounds and fuel. No definition is run with fuel: loops recurse on a list, a length or an index that
  grows to the length, with a termination proof where the recursion is not structural. Loops without end (the
  agent's run loop, the sockets, the reader of a shell) are step functions over a list of events, and
  the claims about them hold for every list. Constants of the code (capacities, windows, time-outs)
  are definitions of the same name.

  Not modelled. Log lines and the calls that fill in the span of a request, which only write (the span and
  what each call does to it are in Sb_Http). JSON encoders and decoders of serde.
  Loading the xterm library, focus and the marking of elements in the script. How the framework renders a
  tree of elements. audit export (one call of serde_json). The repositories of the storage crate, traits
  without an implementation, and its handle, which only calls the database driver; nothing calls either.
  ha.rs and mesh.rs, constant texts about future work. The main functions, which set up logging and
  start servers. What is left of the sources beyond these is test code.
\<close>

end
